(* ===== verification/Prelude.thy ===== *)
theory Prelude
  imports Main "HOL-Library.AList" "HOL-Library.Char_ord" "HOL-Library.List_Lexorder"
begin

text \<open>
  What every component of the development shares: Go maps as association lists, Go's
  sets of strings, sorted and duplicate-free string lists, splitting a list into chunks,
  and the lemmas about them that carry the component proofs. Go strings are byte strings
  and are compared byte by byte, so a Go string is a \<open>string\<close> of HOL and its order is the
  lexicographic order of the imported theories.
\<close>

named_theorems go_defs \<open>definitions that witnesses and case proofs unfold\<close>

section \<open>Go maps\<close>

text \<open>
  A Go map is an association list. Its order stands for the iteration order of
  \<open>range\<close>, which Go leaves open: a definition that walks a map walks the list, and a theorem
  about every list is a theorem about every iteration order.
\<close>

type_synonym ('k, 'v) gomap = "('k \<times> 'v) list"

abbreviation mget :: "('k, 'v) gomap \<Rightarrow> 'k \<Rightarrow> 'v option" where
  "mget m k \<equiv> map_of m k"

abbreviation mput :: "'k \<Rightarrow> 'v \<Rightarrow> ('k, 'v) gomap \<Rightarrow> ('k, 'v) gomap" where
  "mput k v m \<equiv> AList.update k v m"

abbreviation mdel :: "'k \<Rightarrow> ('k, 'v) gomap \<Rightarrow> ('k, 'v) gomap" where
  "mdel k m \<equiv> AList.delete k m"

abbreviation mkeys :: "('k, 'v) gomap \<Rightarrow> 'k list" where
  "mkeys m \<equiv> map fst m"

lemma mget_mput [simp]: "mget (mput k v m) k' = (if k' = k then Some v else mget m k')"
  by (simp add: update_conv')

lemma mget_mdel [simp]: "mget (mdel k m) k' = (if k' = k then None else mget m k')"
  by (simp add: delete_conv')

lemma distinct_mput: "distinct (mkeys m) \<Longrightarrow> distinct (mkeys (mput k v m))"
  by (rule distinct_update)

lemma distinct_mdel: "distinct (mkeys m) \<Longrightarrow> distinct (mkeys (mdel k m))"
  by (rule distinct_delete)

lemma mkeys_mput: "set (mkeys (mput k v m)) = insert k (set (mkeys m))"
  by (simp add: dom_update)

lemma mkeys_mdel: "set (mkeys (mdel k m)) = set (mkeys m) - {k}"
  by (simp add: delete_keys)

lemma mget_Some_in: "mget m k = Some v \<Longrightarrow> (k, v) \<in> set m"
  by (rule map_of_SomeD)

lemma mget_iff_in: "distinct (mkeys m) \<Longrightarrow> (mget m k = Some v) = ((k, v) \<in> set m)"
  by (simp add: map_of_eq_Some_iff)

lemma set_mput: "x \<in> set (mput k v m) \<Longrightarrow> x = (k, v) \<or> x \<in> set m"
  by (induction m) (auto split: if_splits)

lemma mput_new: "k \<notin> set (mkeys m) \<Longrightarrow> mput k v m = m @ [(k, v)]"
  by (induction m) auto

lemma set_mdel: "set (mdel k m) = {x \<in> set m. fst x \<noteq> k}"
  by (auto simp: AList.delete_eq)

text \<open>Counting the entries of a map that satisfy a test, as the capacity checks do.\<close>

definition mcount :: "('v \<Rightarrow> bool) \<Rightarrow> ('k, 'v) gomap \<Rightarrow> nat" where
  "mcount P m = length (filter (\<lambda>(k, v). P v) m)"

lemma mcount_Nil [simp]: "mcount P [] = 0"
  by (simp add: mcount_def)

lemma mcount_Cons [simp]: "mcount P ((k, v) # m) = (if P v then Suc (mcount P m) else mcount P m)"
  by (simp add: mcount_def)

lemma mcount_mput_le: "mcount P (mput k v m) \<le> Suc (mcount P m)"
  by (induction m) (auto simp: le_SucI)

lemma mcount_mput_other: "\<not> P v \<Longrightarrow> mcount P (mput k v m) \<le> mcount P m"
  by (induction m) auto

lemma mcount_mdel_le: "mcount P (mdel k m) \<le> mcount P m"
  by (simp add: mcount_def AList.delete_eq) (induction m, auto simp: le_SucI)

section \<open>Sets of strings\<close>

text \<open>
  A Go \<open>map[string]bool\<close> that only ever holds \<open>true\<close> is the duplicate-free list of its keys:
  storing \<open>true\<close> is \<open>List.insert\<close>, \<open>delete\<close> is \<open>removeAll\<close>.
\<close>

definition unique_sorted :: "'a::linorder list \<Rightarrow> 'a list" where
  "unique_sorted xs = sort (remdups xs)"

lemma set_unique_sorted [simp]: "set (unique_sorted xs) = set xs"
  by (simp add: unique_sorted_def)

lemma distinct_unique_sorted [simp]: "distinct (unique_sorted xs)"
  by (simp add: unique_sorted_def)

lemma sorted_unique_sorted [simp]: "sorted (unique_sorted xs)"
  by (simp add: unique_sorted_def)

lemma unique_sorted_cong: "set xs = set ys \<Longrightarrow> unique_sorted xs = unique_sorted ys"
  by (rule sorted_distinct_set_unique) simp_all

lemma unique_sorted_id: "sorted xs \<Longrightarrow> distinct xs \<Longrightarrow> unique_sorted xs = xs"
  by (simp add: unique_sorted_def distinct_remdups_id sorted_sort_id)

lemma unique_sorted_idem [simp]: "unique_sorted (unique_sorted xs) = unique_sorted xs"
  by (rule unique_sorted_id) simp_all

lemma unique_sorted_Nil [simp]: "unique_sorted [] = []"
  by (simp add: unique_sorted_def)

lemma unique_sorted_eq_Nil [simp]: "(unique_sorted xs = []) = (xs = [])"
  by (metis set_empty set_unique_sorted)

section \<open>Chunks of a list\<close>

text \<open>
  The loops \<open>for offset := 0; offset < len(xs); offset += n\<close> with
  \<open>end := min(offset+n, len(xs))\<close> visit these slices. The batch size is positive in every use.
\<close>

function chunks :: "nat \<Rightarrow> 'a list \<Rightarrow> 'a list list" where
  "chunks n xs = (if n = 0 \<or> xs = [] then [] else take n xs # chunks n (drop n xs))"
  by pat_completeness auto
termination
  by (relation "measure (\<lambda>(n, xs). length xs)") auto

declare chunks.simps [simp del]

lemma chunks_Nil [simp]: "chunks n [] = []"
  by (simp add: chunks.simps)

lemma chunks_step: "0 < n \<Longrightarrow> xs \<noteq> [] \<Longrightarrow> chunks n xs = take n xs # chunks n (drop n xs)"
  by (subst chunks.simps) simp

lemma concat_chunks: "0 < n \<Longrightarrow> concat (chunks n xs) = xs"
proof (induction n xs rule: chunks.induct)
  case (1 n xs)
  then show ?case by (cases "xs = []") (auto simp: chunks_step)
qed

lemma chunk_bounds: "c \<in> set (chunks n xs) \<Longrightarrow> c \<noteq> [] \<and> length c \<le> n"
proof (induction n xs rule: chunks.induct)
  case (1 n xs)
  then show ?case by (subst (asm) (2) chunks.simps) (auto split: if_splits)
qed

lemma chunk_subset: "c \<in> set (chunks n xs) \<Longrightarrow> set c \<subseteq> set xs"
proof (induction n xs rule: chunks.induct)
  case (1 n xs)
  then show ?case
    by (subst (asm) (2) chunks.simps)
      (auto split: if_splits dest: in_set_takeD in_set_dropD)
qed

lemma length_chunks: "0 < n \<Longrightarrow> length (chunks n xs) = (length xs + n - 1) div n"
proof (induction n xs rule: chunks.induct)
  case (1 n xs)
  show ?case
  proof (cases "xs = []")
    case True
    with "1.prems" show ?thesis by simp
  next
    case False
    then have len: "0 < length xs" by simp
    have "length (chunks n xs) = Suc ((length (drop n xs) + n - 1) div n)"
      using 1 False by (simp add: chunks_step)
    also have "\<dots> = (length xs + n - 1) div n"
    proof (cases "n \<le> length xs")
      case True
      then have "length xs + n - 1 = (length xs - n + n - 1) + n" using "1.prems" by simp
      then have "(length xs + n - 1) div n = ((length xs - n + n - 1) + n) div n" by (simp only:)
      also have "\<dots> = Suc ((length xs - n + n - 1) div n)"
        using "1.prems" by (simp only: div_add_self2)
      finally show ?thesis by simp
    next
      case False
      have "n * 1 \<le> length xs + n - 1" using len by linarith
      moreover have "length xs + n - 1 < n * Suc 1" using False by simp
      ultimately have "(length xs + n - 1) div n = 1" by (rule div_nat_eqI)
      with False "1.prems" show ?thesis by simp
    qed
    finally show ?thesis .
  qed
qed

section \<open>Numbers of 64 bits\<close>

text \<open>Sums and products of \<open>int64\<close> values wrap around.\<close>

definition wrap_int64 :: "int \<Rightarrow> int" where
  "wrap_int64 x = (x + 2 ^ 63) mod 2 ^ 64 - 2 ^ 63"

section \<open>Results\<close>

text \<open>
  A Go function that returns \<open>(value, error)\<close> is a value of a sum, \<open>Inl\<close> the error. A function
  that returns only an \<open>error\<close> is an option, \<open>None\<close> for \<open>nil\<close>.
\<close>

fun first_error :: "'e option list \<Rightarrow> 'e option" where
  "first_error [] = None"
| "first_error (None # es) = first_error es"
| "first_error (Some e # es) = Some e"

lemma first_error_None [simp]: "(first_error es = None) = (\<forall>e \<in> set es. e = None)"
  by (induction es rule: first_error.induct) auto

section \<open>Systems of steps\<close>

text \<open>What is shown of a system by its steps one at a time: an invariant that every step keeps.\<close>

locale step_invariant =
  fixes step :: "'s \<Rightarrow> 's \<Rightarrow> bool"
    and inv :: "'s \<Rightarrow> bool"
  assumes kept: "step s s' \<Longrightarrow> inv s \<Longrightarrow> inv s'"
begin

lemma reachable: "step\<^sup>*\<^sup>* s s' \<Longrightarrow> inv s \<Longrightarrow> inv s'"
  by (induction rule: rtranclp_induct) (auto intro: kept)

end

text \<open>A system whose steps are runs of another one has the invariants of the other.\<close>

locale refined_steps = step_invariant step inv
  for step :: "'s \<Rightarrow> 's \<Rightarrow> bool" and inv :: "'s \<Rightarrow> bool" +
  fixes detailed :: "'s \<Rightarrow> 's \<Rightarrow> bool"
  assumes simulated: "detailed s s' \<Longrightarrow> step\<^sup>*\<^sup>* s s'"
begin

lemma runs_simulated: "detailed\<^sup>*\<^sup>* s s' \<Longrightarrow> step\<^sup>*\<^sup>* s s'"
  by (induction rule: rtranclp_induct) (auto dest: simulated)

lemma detailed_reachable: "detailed\<^sup>*\<^sup>* s s' \<Longrightarrow> inv s \<Longrightarrow> inv s'"
  using runs_simulated reachable by blast

end

end
