(* ===== verification/GoStrings.thy ===== *)
theory GoStrings
  imports Prelude
begin

text \<open>
  The functions of Go's packages strings, strconv and unicode/utf8 that the agent uses, on
  byte strings, and the agent's identity patterns (a compiled regular expression of the form
  \<open>^[class]{n}$\<close> is a length test and a test on every character). Text is decoded into runes by
  the rules of unicode/utf8: a byte that starts no valid sequence decodes as one rune, U+FFFD.
\<close>

section \<open>Prefixes, suffixes, splitting\<close>

definition has_prefix :: "string \<Rightarrow> string \<Rightarrow> bool" where
  "has_prefix s p = (take (length p) s = p)"

definition has_suffix :: "string \<Rightarrow> string \<Rightarrow> bool" where
  "has_suffix s p = (length p \<le> length s \<and> drop (length s - length p) s = p)"

definition trim_prefix :: "string \<Rightarrow> string \<Rightarrow> string" where
  "trim_prefix s p = (if has_prefix s p then drop (length p) s else s)"

definition trim_suffix :: "string \<Rightarrow> string \<Rightarrow> string" where
  "trim_suffix s p = (if has_suffix s p then take (length s - length p) s else s)"

fun split_on :: "char \<Rightarrow> string \<Rightarrow> string list" where
  "split_on c [] = [[]]"
| "split_on c (x # xs) =
     (if x = c then [] # split_on c xs
      else (case split_on c xs of [] \<Rightarrow> [[x]] | p # ps \<Rightarrow> (x # p) # ps))"

fun join_with :: "string \<Rightarrow> string list \<Rightarrow> string" where
  "join_with sep [] = []"
| "join_with sep [x] = x"
| "join_with sep (x # xs) = x @ sep @ join_with sep xs"

definition contains_any :: "string \<Rightarrow> string \<Rightarrow> bool" where
  "contains_any s chars = list_ex (\<lambda>c. c \<in> set chars) s"

fun contains_sub :: "string \<Rightarrow> string \<Rightarrow> bool" where
  "contains_sub [] p = (p = [])"
| "contains_sub (x # xs) p = (has_prefix (x # xs) p \<or> contains_sub xs p)"

definition nul :: char where
  "nul = CHR 0x00"

text \<open>The bytes \<open>\r\n\x00\<close> the code forbids in one-line values.\<close>

definition line_breaks :: string where
  "line_breaks = [CHR 0x0D, CHR 0x0A, CHR 0x00]"

lemma has_prefix_append [simp]: "has_prefix (p @ s) p"
  by (simp add: has_prefix_def)

lemma has_prefix_iff: "has_prefix s p = (\<exists>t. s = p @ t)"
proof
  assume "has_prefix s p"
  then have "s = p @ drop (length p) s" by (metis append_take_drop_id has_prefix_def)
  then show "\<exists>t. s = p @ t" by blast
qed auto

lemma trim_prefix_append [simp]: "trim_prefix (p @ s) p = s"
  by (simp add: trim_prefix_def)

lemma split_on_not_Nil [simp]: "split_on c s \<noteq> []"
  by (cases s) (auto split: list.splits)

lemma split_on_append_sep: "split_on c (a @ c # b) = split_on c a @ split_on c b"
  by (induction a) (auto split: list.splits)

lemma split_on_none: "c \<notin> set s \<Longrightarrow> split_on c s = [s]"
  by (induction s) auto

lemma split_on_no_sep: "p \<in> set (split_on c s) \<Longrightarrow> c \<notin> set p"
  by (induction s arbitrary: p) (fastforce split: if_splits list.splits)+

lemma join_split: "join_with [c] (split_on c s) = s"
proof (induction s)
  case Nil
  then show ?case by simp
next
  case (Cons x xs)
  obtain p ps where split: "split_on c xs = p # ps"
    by (metis list.exhaust split_on_not_Nil)
  with Cons show ?case by (cases ps) auto
qed

section \<open>Decimal numbers\<close>

definition digit_char :: "nat \<Rightarrow> char" where
  "digit_char n = char_of (48 + n)"

definition is_digit :: "char \<Rightarrow> bool" where
  "is_digit c = (48 \<le> (of_char c :: nat) \<and> (of_char c :: nat) \<le> 57)"

definition digit_val :: "char \<Rightarrow> nat" where
  "digit_val c = of_char c - 48"

fun show_nat :: "nat \<Rightarrow> string" where
  "show_nat n = (if n < 10 then [digit_char n] else show_nat (n div 10) @ [digit_char (n mod 10)])"

declare show_nat.simps [simp del]

definition digits_val :: "string \<Rightarrow> nat" where
  "digits_val s = foldl (\<lambda>a c. 10 * a + digit_val c) 0 s"

definition parse_nat :: "string \<Rightarrow> nat option" where
  "parse_nat s = (if s \<noteq> [] \<and> list_all is_digit s then Some (digits_val s) else None)"

text \<open>Zero padding, the \<open>%020d\<close> of the event keys.\<close>

definition pad_zero :: "nat \<Rightarrow> nat \<Rightarrow> string" where
  "pad_zero w n = replicate (w - length (show_nat n)) (CHR ''0'') @ show_nat n"

lemma of_char_digit [simp]: "n < 10 \<Longrightarrow> (of_char (digit_char n) :: nat) = 48 + n"
  by (simp add: digit_char_def of_char_of)

lemma is_digit_digit_char [simp]: "n < 10 \<Longrightarrow> is_digit (digit_char n)"
  by (simp add: is_digit_def)

lemma digit_val_digit_char [simp]: "n < 10 \<Longrightarrow> digit_val (digit_char n) = n"
  by (simp add: digit_val_def)

lemma show_nat_digits: "show_nat n \<noteq> [] \<and> list_all is_digit (show_nat n)"
proof (induction n rule: show_nat.induct)
  case (1 n)
  then show ?case by (subst show_nat.simps, subst show_nat.simps) auto
qed

lemma digits_val_snoc: "digits_val (s @ [c]) = 10 * digits_val s + digit_val c"
  by (simp add: digits_val_def)

lemma digits_val_show_nat [simp]: "digits_val (show_nat n) = n"
proof (induction n rule: show_nat.induct)
  case (1 n)
  show ?case
  proof (cases "n < 10")
    case True
    then show ?thesis by (subst show_nat.simps) (simp add: digits_val_def)
  next
    case False
    then have "digits_val (show_nat n) = 10 * (n div 10) + n mod 10"
      using 1 by (subst show_nat.simps) (simp add: digits_val_snoc)
    then show ?thesis by simp
  qed
qed

lemma parse_nat_show_nat [simp]: "parse_nat (show_nat n) = Some n"
  using show_nat_digits [of n] by (simp add: parse_nat_def)

lemma show_nat_inj [simp]: "(show_nat m = show_nat n) = (m = n)"
  by (metis digits_val_show_nat)

lemma foldl_digits_zeros: "foldl (\<lambda>a c. 10 * a + digit_val c) 0 (replicate k (CHR ''0'')) = 0"
  by (induction k) (simp_all add: digit_val_def)

lemma digits_val_pad_zero [simp]: "digits_val (pad_zero w n) = n"
  using digits_val_show_nat [of n]
  by (simp add: digits_val_def pad_zero_def foldl_digits_zeros)

section \<open>Runes\<close>

definition byte :: "char \<Rightarrow> nat" where
  "byte c = of_char c"

definition cont_in :: "nat \<Rightarrow> nat \<Rightarrow> string \<Rightarrow> bool" where
  "cont_in lo hi s = (case s of [] \<Rightarrow> False | c # _ \<Rightarrow> lo \<le> byte c \<and> byte c \<le> hi)"

text \<open>The width of the sequence a string starts with, 1 for an invalid byte.\<close>

fun rune_width :: "string \<Rightarrow> nat" where
  "rune_width [] = 0"
| "rune_width (c # s) =
    (let b = byte c; cont = (\<lambda>t. cont_in 128 191 t) in
     if 194 \<le> b \<and> b \<le> 223 then (if cont s then 2 else 1)
     else if 224 \<le> b \<and> b \<le> 239 then
       (if cont_in (if b = 224 then 160 else 128) (if b = 237 then 159 else 191) s
           \<and> cont (drop 1 s) then 3 else 1)
     else if 240 \<le> b \<and> b \<le> 244 then
       (if cont_in (if b = 240 then 144 else 128) (if b = 244 then 143 else 191) s
           \<and> cont (drop 1 s) \<and> cont (drop 2 s) then 4 else 1)
     else 1)"

text \<open>The runes of a string as the byte sequences that encode them in the result of
  \<open>string([]rune(s))\<close>: an invalid byte becomes the encoding of U+FFFD.\<close>

definition rune_error :: string where
  "rune_error = [CHR 0xEF, CHR 0xBF, CHR 0xBD]"

lemma rune_width_pos [simp]: "0 < rune_width (c # s)"
  by (simp add: Let_def)

function runes :: "string \<Rightarrow> string list" where
  "runes [] = []"
| "runes (c # s) =
    (let w = rune_width (c # s) in
     (if w = 1 \<and> 128 \<le> byte c then rune_error else take w (c # s)) # runes (drop w (c # s)))"
  by pat_completeness auto
termination
proof (relation "measure length")
  fix c :: char and s :: string and x :: nat
  assume "x = rune_width (c # s)"
  then have "0 < x" using rune_width_pos [of c s] by simp
  then show "(drop x (c # s), c # s) \<in> measure length" by simp
qed simp

declare rune_width.simps(2) [simp del]
declare runes.simps(2) [simp del]

definition rune_length :: "string \<Rightarrow> nat" where
  "rune_length s = length (runes s)"

lemma rune_length_Nil [simp]: "rune_length [] = 0"
  by (simp add: rune_length_def)

lemma rune_width_ascii: "byte c < 128 \<Longrightarrow> rune_width (c # s) = 1"
  by (simp add: rune_width.simps Let_def)

lemma runes_ascii: "list_all (\<lambda>c. byte c < 128) s \<Longrightarrow> runes s = map (\<lambda>c. [c]) s"
  by (induction s) (simp_all add: runes.simps rune_width_ascii)

lemma rune_length_ascii: "list_all (\<lambda>c. byte c < 128) s \<Longrightarrow> rune_length s = length s"
  by (simp add: rune_length_def runes_ascii)

lemma runes_not_Nil [simp]: "(runes s = []) = (s = [])"
  by (cases s) (simp_all add: runes.simps Let_def)

text \<open>The white space of \<open>strings.TrimSpace\<close>, as encoded runes.\<close>

definition is_space_rune :: "string \<Rightarrow> bool" where
  "is_space_rune r = (r \<in> set
     [[CHR 0x09], [CHR 0x0A], [CHR 0x0B], [CHR 0x0C], [CHR 0x0D], [CHR 0x20],
      [CHR 0xC2, CHR 0x85], [CHR 0xC2, CHR 0xA0], [CHR 0xE1, CHR 0x9A, CHR 0x80],
      [CHR 0xE2, CHR 0x80, CHR 0x80], [CHR 0xE2, CHR 0x80, CHR 0x81],
      [CHR 0xE2, CHR 0x80, CHR 0x82], [CHR 0xE2, CHR 0x80, CHR 0x83],
      [CHR 0xE2, CHR 0x80, CHR 0x84], [CHR 0xE2, CHR 0x80, CHR 0x85],
      [CHR 0xE2, CHR 0x80, CHR 0x86], [CHR 0xE2, CHR 0x80, CHR 0x87],
      [CHR 0xE2, CHR 0x80, CHR 0x88], [CHR 0xE2, CHR 0x80, CHR 0x89],
      [CHR 0xE2, CHR 0x80, CHR 0x8A], [CHR 0xE2, CHR 0x80, CHR 0xA8],
      [CHR 0xE2, CHR 0x80, CHR 0xA9], [CHR 0xE2, CHR 0x80, CHR 0xAF],
      [CHR 0xE2, CHR 0x81, CHR 0x9F], [CHR 0xE3, CHR 0x80, CHR 0x80]])"

text \<open>The sequences as they stand in the string (an invalid byte stands for itself).\<close>

function pieces :: "string \<Rightarrow> string list" where
  "pieces [] = []"
| "pieces (c # s) = take (rune_width (c # s)) (c # s) # pieces (drop (rune_width (c # s)) (c # s))"
  by pat_completeness auto
termination
proof (relation "measure length")
  fix c :: char and s :: string
  show "(drop (rune_width (c # s)) (c # s), c # s) \<in> measure length"
    using rune_width_pos [of c s] by simp
qed simp

definition trim_space :: "string \<Rightarrow> string" where
  "trim_space s = concat (rev (dropWhile is_space_rune (rev (dropWhile is_space_rune (pieces s)))))"

lemma trim_space_Nil [simp]: "trim_space [] = []"
  by (simp add: trim_space_def)

section \<open>Identity patterns\<close>

definition ulid_alphabet :: string where
  "ulid_alphabet = ''0123456789abcdefghjkmnpqrstvwxyz''"

definition hex_alphabet :: string where
  "hex_alphabet = ''0123456789abcdef''"

text \<open>\<open>ulidPattern\<close>: 26 characters of \<open>[0-9a-hjkmnp-tv-z]\<close>.\<close>

definition is_ulid :: "string \<Rightarrow> bool" where
  "is_ulid s = (length s = 26 \<and> list_all (\<lambda>c. c \<in> set ulid_alphabet) s)"

text \<open>\<open>digestPattern\<close>: 64 characters of \<open>[a-f0-9]\<close>.\<close>

definition is_digest :: "string \<Rightarrow> bool" where
  "is_digest s = (length s = 64 \<and> list_all (\<lambda>c. c \<in> set hex_alphabet) s)"

lemma is_ulid_not_Nil: "is_ulid s \<Longrightarrow> s \<noteq> []"
  by (auto simp: is_ulid_def)

lemma is_digest_not_Nil: "is_digest s \<Longrightarrow> s \<noteq> []"
  by (auto simp: is_digest_def)

lemma nul_not_alphabet: "nul \<notin> set ulid_alphabet"
  by (simp add: nul_def ulid_alphabet_def)

lemma is_ulid_no_nul: "is_ulid s \<Longrightarrow> nul \<notin> set s"
  using nul_not_alphabet by (auto simp: is_ulid_def list_all_iff)

end
