(* ===== verification/Egress.thy ===== *)
theory Egress
  imports GoStrings "HOL-Library.Word"
begin

text \<open>
  Which network targets storage traffic may reach (egress/policy.go). An address of net/netip
  is a 32-bit or a 128-bit word, the latter with its zone; the zero \<open>netip.Addr\<close> is \<open>NoAddr\<close>.
  Parsing a textual address and printing it again are the library's, so they are the
  parameters \<open>np_parse\<close> and \<open>np_print\<close> of the functions that use them.
\<close>

unbundle bit_operations_syntax

section \<open>Addresses and prefixes\<close>

datatype addr = NoAddr | Addr4 "32 word" | Addr6 "128 word" string

datatype prefix = Prefix4 "32 word" nat | Prefix6 "128 word" nat

fun prefix_contains :: "prefix \<Rightarrow> addr \<Rightarrow> bool" where
  "prefix_contains (Prefix4 base bits) (Addr4 a) = (drop_bit (32 - bits) (a XOR base) = 0)"
| "prefix_contains (Prefix6 base bits) (Addr6 a zone) =
     (zone = [] \<and> drop_bit (128 - bits) (a XOR base) = 0)"
| "prefix_contains _ _ = False"

fun unmap :: "addr \<Rightarrow> addr" where
  "unmap (Addr6 a zone) =
     (if drop_bit 32 a = 0xFFFF then Addr4 (ucast (take_bit 32 a)) else Addr6 a zone)"
| "unmap ip = ip"

definition v4 :: "nat \<Rightarrow> nat \<Rightarrow> nat \<Rightarrow> nat \<Rightarrow> 32 word" where
  "v4 a b c d = of_nat (((a * 256 + b) * 256 + c) * 256 + d)"

fun is_loopback :: "addr \<Rightarrow> bool" where
  "is_loopback NoAddr = False"
| "is_loopback (Addr4 a) = (drop_bit 24 a = 127)"
| "is_loopback (Addr6 a zone) = (a = 1)"

fun is_multicast :: "addr \<Rightarrow> bool" where
  "is_multicast NoAddr = False"
| "is_multicast (Addr4 a) = (drop_bit 28 a = 0xE)"
| "is_multicast (Addr6 a zone) = (drop_bit 120 a = 0xFF)"

fun is_link_local_unicast :: "addr \<Rightarrow> bool" where
  "is_link_local_unicast NoAddr = False"
| "is_link_local_unicast (Addr4 a) = (drop_bit 16 a = 0xA9FE)"
| "is_link_local_unicast (Addr6 a zone) = (drop_bit 118 a = 0x3FA)"

definition is_global_unicast :: "addr \<Rightarrow> bool" where
  "is_global_unicast ip =
     (ip \<noteq> NoAddr \<and> ip \<noteq> Addr4 0 \<and> ip \<noteq> Addr4 0xFFFFFFFF \<and> ip \<noteq> Addr6 0 []
      \<and> \<not> is_loopback ip \<and> \<not> is_multicast ip \<and> \<not> is_link_local_unicast ip)"

definition blockedNetworks :: "prefix list" where
  "blockedNetworks =
     [Prefix4 0x00000000 8, Prefix4 0x0A000000 8, Prefix4 0x64400000 10, Prefix4 0x7F000000 8,
      Prefix4 0xA9FE0000 16, Prefix4 0xAC100000 12, Prefix4 0xC0000000 24, Prefix4 0xC0000200 24,
      Prefix4 0xC0586300 24, Prefix4 0xC0A80000 16, Prefix4 0xC6120000 15, Prefix4 0xC6336400 24,
      Prefix4 0xCB007100 24, Prefix4 0xE0000000 3,
      Prefix6 0x20010000000000000000000000000000 23, Prefix6 0x20010DB8000000000000000000000000 32,
      Prefix6 0x20020000000000000000000000000000 16, Prefix6 0x3FFF0000000000000000000000000000 20]"

definition publicIPv6Network :: prefix where
  "publicIPv6Network = Prefix6 0x20000000000000000000000000000000 3"

definition is6 :: "addr \<Rightarrow> bool" where
  "is6 ip = (case ip of Addr6 a zone \<Rightarrow> True | _ \<Rightarrow> False)"

definition Public :: "addr \<Rightarrow> bool" where
  "Public ip0 =
     (let ip = unmap ip0 in
      if ip = NoAddr \<or> \<not> is_global_unicast ip \<or> (is6 ip \<and> \<not> prefix_contains publicIPv6Network ip)
      then False else \<not> list_ex (\<lambda>p. prefix_contains p ip) blockedNetworks)"

section \<open>Resolution\<close>

datatype egress_error = LookupFailed | ProhibitedAddress | InvalidHostname | NotPublic | InvalidEndpoint

text \<open>\<open>Addresses\<close>: \<open>lookup\<close> is the resolver's answer, \<open>None\<close> an error.\<close>

definition Addresses :: "addr list option \<Rightarrow> egress_error + addr list" where
  "Addresses lookup =
     (case lookup of None \<Rightarrow> Inl LookupFailed
      | Some ips \<Rightarrow>
          if ips = [] then Inl LookupFailed
          else if list_ex (\<lambda>ip. \<not> Public ip) ips then Inl ProhibitedAddress
          else Inr ips)"

section \<open>Authority\<close>

record target =
  tg_host :: string
  tg_port :: nat

record netip_lib =
  np_parse :: "string \<Rightarrow> addr option"
  np_print :: "addr \<Rightarrow> string"

definition lower_char :: "char \<Rightarrow> char" where
  "lower_char c = (if 65 \<le> byte c \<and> byte c \<le> 90 then char_of (byte c + 32) else c)"

definition host_char :: "char \<Rightarrow> bool" where
  "host_char c = ((97 \<le> byte c \<and> byte c \<le> 122) \<or> is_digit c \<or> c \<in> set ''.-:'')"

text \<open>\<open>strings.ToLower\<close> maps two other runes to ASCII letters (U+212A, the Kelvin sign, to \<open>k\<close>, and
  U+0130, a dotted capital I, to \<open>i\<close>); every rune it leaves outside ASCII fails the test on the
  characters.\<close>

definition lower_rune :: "string \<Rightarrow> string" where
  "lower_rune r = (if r = [CHR 0xE2, CHR 0x84, CHR 0xAA] then ''k''
     else if r = [CHR 0xC4, CHR 0xB0] then ''i'' else map lower_char r)"

definition to_lower :: "string \<Rightarrow> string" where
  "to_lower s = concat (map lower_rune (runes s))"

definition host_label_ok :: "string \<Rightarrow> bool" where
  "host_label_ok l = (l \<noteq> [] \<and> length l \<le> 63 \<and> \<not> has_prefix l ''-'' \<and> \<not> has_suffix l ''-'')"

definition join_host_port :: "string \<Rightarrow> nat \<Rightarrow> string" where
  "join_host_port host port =
     (if CHR '':'' \<in> set host then ''['' @ host @ '']:'' @ show_nat port else host @ '':'' @ show_nat port)"

definition Authority :: "netip_lib \<Rightarrow> target \<Rightarrow> egress_error + string" where
  "Authority lib t =
     (if tg_host t \<noteq> trim_space (tg_host t) then Inl InvalidHostname
      else let host = to_lower (tg_host t) in
        if tg_port t = 0 \<or> host = [] \<or> has_suffix host ''.'' \<or> host = ''localhost''
           \<or> has_suffix host ''.localhost'' then Inl NotPublic
        else if \<not> list_all host_char host then Inl InvalidHostname
        else (case np_parse lib host of
                Some ip \<Rightarrow> if Public ip then Inr (join_host_port (np_print lib ip) (tg_port t)) else Inl NotPublic
              | None \<Rightarrow>
                  if CHR '':'' \<in> set host then Inl InvalidHostname
                  else if list_all host_label_ok (split_on (CHR ''.'') host)
                  then Inr (join_host_port host (tg_port t))
                  else Inl InvalidHostname))"

text \<open>The fields of \<open>*url.URL\<close> that are read.\<close>

record url =
  ur_scheme :: string
  ur_hostname :: string
  ur_port :: string
  ur_has_user :: bool
  ur_raw_query :: string
  ur_force_query :: bool
  ur_fragment :: string
  ur_path :: string
  ur_raw_path :: string

text \<open>The same with the host as it was written.\<close>

record endpoint_url = url +
  eu_host :: string

text \<open>\<open>url.Hostname\<close> of a URL with the given host: without a numeric port and without brackets.\<close>

definition url_hostname :: "string \<Rightarrow> string" where
  "url_hostname host =
     (let port = rev (takeWhile (\<lambda>c. c \<noteq> CHR '':'') (rev host));
          h = (if CHR '':'' \<in> set host \<and> list_all is_digit port
               then take (length host - length port - 1) host else host)
      in if has_prefix h ''['' \<and> has_suffix h '']'' then butlast (tl h) else h)"

text \<open>\<open>Endpoint\<close>: the URL it returns is \<open>https://\<close> and the canonical authority, here the authority.\<close>

definition Endpoint :: "netip_lib \<Rightarrow> (string \<Rightarrow> url option) \<Rightarrow> string \<Rightarrow> egress_error + string" where
  "Endpoint lib parse raw =
     (case parse raw of
        None \<Rightarrow> Inl InvalidEndpoint
      | Some u \<Rightarrow>
          if ur_scheme u \<noteq> ''https'' \<or> ur_hostname u = [] \<or> ur_has_user u \<or> ur_raw_query u \<noteq> []
             \<or> ur_force_query u \<or> ur_fragment u \<noteq> [] \<or> (ur_path u \<noteq> [] \<and> ur_path u \<noteq> ''/'')
             \<or> ur_raw_path u \<noteq> [] \<or> (ur_port u \<noteq> [] \<and> ur_port u \<noteq> ''443'')
          then Inl InvalidEndpoint
          else (case Authority lib \<lparr>tg_host = ur_hostname u, tg_port = 443\<rparr> of
                  Inl e \<Rightarrow> Inl NotPublic
                | Inr authority \<Rightarrow> Inr authority))"

section \<open>The blocks as intervals\<close>

lemma div_same_block:
  fixes x b k :: nat
  assumes "0 < k" "b mod k = 0"
  shows "(x div k = b div k) = (b \<le> x \<and> x < b + k)"
proof -
  have b: "b = b div k * k" using assms by (simp add: mod_0_imp_dvd)
  have x: "x = x div k * k + x mod k" "x mod k < k" using assms by simp_all
  show ?thesis
  proof
    assume eq: "x div k = b div k"
    with b x show "b \<le> x \<and> x < b + k" by simp
  next
    assume "b \<le> x \<and> x < b + k"
    then have "b div k * k \<le> x" "x < (b div k + 1) * k" using b by (simp_all add: add_mult_distrib)
    then show "x div k = b div k" by (intro div_nat_eqI) (simp_all add: mult.commute)
  qed
qed

lemma xor_zero_iff: "(x XOR y = 0) = (x = y)" for x y :: "'a::len word"
proof
  assume eq: "x XOR y = 0"
  have "x = x XOR (y XOR y)" by simp
  also have "\<dots> = (x XOR y) XOR y" by (simp only: xor.assoc)
  also have "\<dots> = y" by (simp only: eq) simp
  finally show "x = y" .
qed simp

lemma drop_bit_word: "unat (drop_bit k w) = unat w div 2 ^ k"
  by (rule trans [OF unat_drop_bit_eq drop_bit_eq_div])

lemma drop_bit_word_iff: "(drop_bit k a = w) = (unat (drop_bit k a) = unat w)"
  by (rule word_unat_eq_iff)

lemma prefix_interval:
  fixes a base :: "'a::len word"
  assumes "unat base mod 2 ^ k = 0"
  shows "(drop_bit k (a XOR base) = 0) = (unat base \<le> unat a \<and> unat a < unat base + 2 ^ k)"
proof -
  have "(drop_bit k (a XOR base) = 0) = (drop_bit k a = drop_bit k base)"
    by (simp only: drop_bit_xor xor_zero_iff)
  also have "\<dots> = (unat a div 2 ^ k = unat base div 2 ^ k)"
    by (simp only: drop_bit_word_iff drop_bit_word)
  also have "\<dots> = (unat base \<le> unat a \<and> unat a < unat base + 2 ^ k)"
    by (rule div_same_block) (use assms in simp_all)
  finally show ?thesis .
qed

lemma drop_bit_value: "(drop_bit k a = w) = (unat w * 2 ^ k \<le> unat a \<and> unat a < unat w * 2 ^ k + 2 ^ k)"
proof -
  have "(drop_bit k a = w) = (unat a div 2 ^ k = unat w * 2 ^ k div 2 ^ k)"
    by (simp only: drop_bit_word_iff drop_bit_word) simp
  also have "\<dots> = (unat w * 2 ^ k \<le> unat a \<and> unat a < unat w * 2 ^ k + 2 ^ k)"
    by (rule div_same_block) simp_all
  finally show ?thesis .
qed

text \<open>The prohibited blocks of each family, as a first address and a number of addresses.\<close>

definition block4 :: "nat \<Rightarrow> nat \<Rightarrow> 32 word \<Rightarrow> bool" where
  "block4 first n a = (first \<le> unat a \<and> unat a < first + n)"

definition blocks4 :: "(nat \<times> nat) list" where
  "blocks4 = [(0x00000000, 2 ^ 24), (0x0A000000, 2 ^ 24), (0x64400000, 2 ^ 22), (0x7F000000, 2 ^ 24),
    (0xA9FE0000, 2 ^ 16), (0xAC100000, 2 ^ 20), (0xC0000000, 2 ^ 8), (0xC0000200, 2 ^ 8),
    (0xC0586300, 2 ^ 8), (0xC0A80000, 2 ^ 16), (0xC6120000, 2 ^ 17), (0xC6336400, 2 ^ 8),
    (0xCB007100, 2 ^ 8), (0xE0000000, 2 ^ 29)]"

lemma blocked4: "list_ex (\<lambda>p. prefix_contains p (Addr4 a)) blockedNetworks
    = list_ex (\<lambda>(first, n). block4 first n a) blocks4"
  by (simp add: blockedNetworks_def blocks4_def block4_def prefix_interval del: drop_bit_xor)
    (simp add: drop_bit_value)

definition blocks6 :: "(nat \<times> nat) list" where
  "blocks6 = [(0x20010000000000000000000000000000, 2 ^ 105), (0x20010DB8000000000000000000000000, 2 ^ 96),
    (0x20020000000000000000000000000000, 2 ^ 112), (0x3FFF0000000000000000000000000000, 2 ^ 108)]"

lemma blocked6: "list_ex (\<lambda>p. prefix_contains p (Addr6 a [])) blockedNetworks
    = list_ex (\<lambda>(first, n). first \<le> unat a \<and> unat a < first + n) blocks6"
  by (simp add: blockedNetworks_def blocks6_def prefix_interval del: drop_bit_xor)

lemma Public4: "Public (Addr4 a) = (\<not> list_ex (\<lambda>(first, n). block4 first n a) blocks4)"
proof -
  have special: "list_ex (\<lambda>(first, n). block4 first n a) blocks4"
    if "\<not> is_global_unicast (Addr4 a)"
  proof -
    have "unat a = 0 \<or> unat a = 0xFFFFFFFF \<or> block4 0x7F000000 (2 ^ 24) a
        \<or> block4 0xE0000000 (2 ^ 28) a \<or> block4 0xA9FE0000 (2 ^ 16) a"
      using that by (auto simp: is_global_unicast_def block4_def drop_bit_value)
    moreover have "unat a < 2 ^ 32" using unsigned_less [of a] by simp
    ultimately show ?thesis by (elim disjE) (simp_all add: blocks4_def block4_def)
  qed
  show ?thesis using special by (auto simp: Public_def Let_def is6_def blocked4)
qed

lemma is_global_unicast6: "zone = [] \<Longrightarrow> 2 ^ 125 \<le> unat a \<Longrightarrow> unat a < 2 ^ 126 \<Longrightarrow> is_global_unicast (Addr6 a zone)"
proof -
  assume r: "2 ^ 125 \<le> unat a" "unat a < 2 ^ 126"
  then have "a \<noteq> 0" "a \<noteq> 1" by auto
  moreover have "drop_bit 120 a \<noteq> 0xFF" "drop_bit 118 a \<noteq> 0x3FA" using r by (auto simp: drop_bit_value)
  ultimately show ?thesis by (simp add: is_global_unicast_def)
qed

lemma public_network6: "prefix_contains publicIPv6Network (Addr6 a zone)
    = (zone = [] \<and> 2 ^ 125 \<le> unat a \<and> unat a < 2 ^ 126)"
  by (simp add: publicIPv6Network_def prefix_interval del: drop_bit_xor)

lemma Public6:
  "drop_bit 32 a \<noteq> 0xFFFF \<Longrightarrow> Public (Addr6 a zone) = (zone = [] \<and> 2 ^ 125 \<le> unat a \<and> unat a < 2 ^ 126
     \<and> \<not> list_ex (\<lambda>(first, n). first \<le> unat a \<and> unat a < first + n) blocks6)"
  using is_global_unicast6 [of zone a] blocked6 [of a]
  by (auto simp: Public_def Let_def is6_def public_network6)

text \<open>C18: An address is public exactly when, read as IPv4 if it is an IPv4-mapped IPv6 address, it lies
  outside the fourteen prohibited IPv4 blocks, or is an IPv6 address without zone inside 2000::/3
  and outside the four prohibited blocks there; the unicast tests of net/netip exclude nothing more.\<close>
theorem Public_spec:
  "Public ip =
     (case unmap ip of NoAddr \<Rightarrow> False
      | Addr4 a \<Rightarrow> \<not> list_ex (\<lambda>(first, n). block4 first n a) blocks4
      | Addr6 a zone \<Rightarrow> zone = [] \<and> 2 ^ 125 \<le> unat a \<and> unat a < 2 ^ 126
          \<and> \<not> list_ex (\<lambda>(first, n). first \<le> unat a \<and> unat a < first + n) blocks6)"
proof (cases ip)
  case NoAddr
  then show ?thesis by (simp add: Public_def)
next
  case (Addr4 a)
  then show ?thesis by (simp add: Public4)
next
  case (Addr6 a zone)
  show ?thesis
  proof (cases "drop_bit 32 a = 0xFFFF")
    case True
    have "Public ip = Public (unmap ip)" using Addr6 True by (simp add: Public_def)
    with Addr6 True show ?thesis by (simp add: Public4)
  next
    case False
    with Addr6 show ?thesis by (simp add: Public6)
  qed
qed

text \<open>One prohibited address among the resolver's answers rejects them all: \<open>Addresses\<close> gives a list
  exactly when the resolver gave that list, it is not empty and every address in it is public.\<close>
theorem Addresses_all_public:
  "(Addresses lookup = Inr ips) = (lookup = Some ips \<and> ips \<noteq> [] \<and> list_all Public ips)"
  by (auto simp: Addresses_def list_ex_iff list_all_iff split: option.splits)

end
