(* ===== verification/Json.thy ===== *)
theory Json
  imports GoStrings
begin

text \<open>
  The part of encoding/json the agent relies on: the text of a JSON value is parsed into a
  tree, and a tree is decoded into a Go value. A number keeps its literal, because Go decodes
  an integer field from the digits. An object keeps its members in order, because Go decodes a
  repeated key again, so the last one counts and a \<open>null\<close> leaves the field as it was. Go's limit of
  10000 nested values is not modelled.
\<close>

datatype json =
    JNull
  | JBool bool
  | JNum string
  | JStr string
  | JArr "json list"
  | JObj "(string \<times> json) list"

section \<open>Strings\<close>

definition quote :: char where
  "quote = CHR 0x22"

definition backslash :: char where
  "backslash = CHR 0x5C"

definition hex_val :: "char \<Rightarrow> nat option" where
  "hex_val c =
     (let b = byte c in
      if 48 \<le> b \<and> b \<le> 57 then Some (b - 48)
      else if 97 \<le> b \<and> b \<le> 102 then Some (b - 87)
      else if 65 \<le> b \<and> b \<le> 70 then Some (b - 55)
      else None)"

fun hex4 :: "string \<Rightarrow> nat option" where
  "hex4 (a # b # c # d # _) =
     (case (hex_val a, hex_val b, hex_val c, hex_val d) of
        (Some w, Some x, Some y, Some z) \<Rightarrow> Some (((w * 16 + x) * 16 + y) * 16 + z)
      | _ \<Rightarrow> None)"
| "hex4 _ = None"

definition utf8_encode :: "nat \<Rightarrow> string" where
  "utf8_encode u =
     (if u < 128 then [char_of u]
      else if u < 2048 then [char_of (192 + u div 64), char_of (128 + u mod 64)]
      else if u < 65536 then
        [char_of (224 + u div 4096), char_of (128 + u div 64 mod 64), char_of (128 + u mod 64)]
      else [char_of (240 + u div 262144), char_of (128 + u div 4096 mod 64),
            char_of (128 + u div 64 mod 64), char_of (128 + u mod 64)])"

text \<open>What follows a backslash: the bytes it stands for and how many characters it takes. A
  surrogate that is not the first of a pair decodes as U+FFFD.\<close>

definition unicode_escape :: "string \<Rightarrow> (string \<times> nat) option" where
  "unicode_escape s =
     (case hex4 s of None \<Rightarrow> None
      | Some u \<Rightarrow>
          if u < 55296 \<or> 57343 < u then Some (utf8_encode u, 5)
          else (case drop 4 s of
                  a # b # r \<Rightarrow>
                    (case (if a = backslash \<and> b = CHR ''u'' then hex4 r else None) of
                       Some v \<Rightarrow>
                         if u < 56320 \<and> 56320 \<le> v \<and> v \<le> 57343
                         then Some (utf8_encode (65536 + (u - 55296) * 1024 + (v - 56320)), 11)
                         else Some (rune_error, 5)
                     | None \<Rightarrow> Some (rune_error, 5))
                | _ \<Rightarrow> Some (rune_error, 5)))"

definition escape :: "string \<Rightarrow> (string \<times> nat) option" where
  "escape s =
     (case s of [] \<Rightarrow> None
      | e # r \<Rightarrow>
          if e = quote \<or> e = backslash \<or> e = CHR ''/'' then Some ([e], 1)
          else if e = CHR ''b'' then Some ([CHR 0x08], 1)
          else if e = CHR ''f'' then Some ([CHR 0x0C], 1)
          else if e = CHR ''n'' then Some ([CHR 0x0A], 1)
          else if e = CHR ''r'' then Some ([CHR 0x0D], 1)
          else if e = CHR ''t'' then Some ([CHR 0x09], 1)
          else if e = CHR ''u'' then unicode_escape r
          else None)"

text \<open>The rest of a string literal after its opening quote.\<close>

function string_body :: "string \<Rightarrow> (string \<times> string) option" where
  "string_body [] = None"
| "string_body (c # s) =
     (if c = quote then Some ([], s)
      else if c = backslash then
        (case escape s of None \<Rightarrow> None
         | Some (bytes, n) \<Rightarrow> map_option (\<lambda>(t, r). (bytes @ t, r)) (string_body (drop n s)))
      else if byte c < 32 then None
      else if byte c < 128 then map_option (\<lambda>(t, r). (c # t, r)) (string_body s)
      else (let w = rune_width (c # s) in
            map_option (\<lambda>(t, r). ((if w = 1 then rune_error else take w (c # s)) @ t, r))
              (string_body (drop (w - 1) s))))"
  by pat_completeness auto
termination
  by (relation "measure length") auto

declare string_body.simps(2) [simp del]

section \<open>Numbers\<close>

definition digits_prefix :: "string \<Rightarrow> string" where
  "digits_prefix s = takeWhile is_digit s"

text \<open>The literal at the front of a string, as the scanner's state machine accepts it.\<close>

definition int_part :: "string \<Rightarrow> string option" where
  "int_part s =
     (case s of [] \<Rightarrow> None
      | c # r \<Rightarrow> if c = CHR ''0'' then Some [c]
                else if is_digit c then Some (digits_prefix s) else None)"

definition frac_part :: "string \<Rightarrow> string option" where
  "frac_part s =
     (case s of [] \<Rightarrow> Some []
      | c # r \<Rightarrow> if c = CHR ''.'' then (if digits_prefix r = [] then None else Some (c # digits_prefix r))
                else Some [])"

definition exp_part :: "string \<Rightarrow> string option" where
  "exp_part s =
     (case s of [] \<Rightarrow> Some []
      | c # r \<Rightarrow>
          if c = CHR ''e'' \<or> c = CHR ''E'' then
            (let sg = (case r of [] \<Rightarrow> [] | d # _ \<Rightarrow> if d = CHR ''+'' \<or> d = CHR ''-'' then [d] else []);
                 ds = digits_prefix (drop (length sg) r)
             in if ds = [] then None else Some (c # sg @ ds))
          else Some [])"

definition number_literal :: "string \<Rightarrow> string option" where
  "number_literal s =
     (let sg = (case s of [] \<Rightarrow> [] | c # _ \<Rightarrow> if c = CHR ''-'' then [c] else []);
          s1 = drop (length sg) s
      in case int_part s1 of None \<Rightarrow> None
         | Some i \<Rightarrow>
             (let s2 = drop (length i) s1 in
              case frac_part s2 of None \<Rightarrow> None
              | Some f \<Rightarrow> map_option (\<lambda>e. sg @ i @ f @ e) (exp_part (drop (length f) s2))))"

section \<open>Values\<close>

definition is_json_space :: "char \<Rightarrow> bool" where
  "is_json_space c = (c = CHR '' '' \<or> c = CHR 0x09 \<or> c = CHR 0x0A \<or> c = CHR 0x0D)"

definition skip_ws :: "string \<Rightarrow> string" where
  "skip_ws s = dropWhile is_json_space s"

text \<open>The fuel bounds the number of nested calls. Every call works on a shorter text, so a fuel
  above the length of the text is enough (\<open>parse_fuel_enough\<close> below).\<close>

fun parse_value :: "nat \<Rightarrow> string \<Rightarrow> (json \<times> string) option"
  and parse_elems :: "nat \<Rightarrow> string \<Rightarrow> (json list \<times> string) option"
  and parse_members :: "nat \<Rightarrow> string \<Rightarrow> ((string \<times> json) list \<times> string) option" where
  "parse_value 0 s = None"
| "parse_value (Suc n) s =
     (case skip_ws s of [] \<Rightarrow> None
      | c # r \<Rightarrow>
          if c = CHR ''{'' then
            (case skip_ws r of [] \<Rightarrow> None
             | d # t \<Rightarrow> if d = CHR ''}'' then Some (JObj [], t)
                       else map_option (\<lambda>(ms, t). (JObj ms, t)) (parse_members n r))
          else if c = CHR ''['' then
            (case skip_ws r of [] \<Rightarrow> None
             | d # t \<Rightarrow> if d = CHR '']'' then Some (JArr [], t)
                       else map_option (\<lambda>(vs, t). (JArr vs, t)) (parse_elems n r))
          else if c = quote then map_option (\<lambda>(t, u). (JStr t, u)) (string_body r)
          else if has_prefix (c # r) ''null'' then Some (JNull, drop 3 r)
          else if has_prefix (c # r) ''true'' then Some (JBool True, drop 3 r)
          else if has_prefix (c # r) ''false'' then Some (JBool False, drop 4 r)
          else map_option (\<lambda>l. (JNum l, drop (length l) (c # r))) (number_literal (c # r)))"
| "parse_elems 0 s = None"
| "parse_elems (Suc n) s =
     (case parse_value n s of None \<Rightarrow> None
      | Some (v, r) \<Rightarrow>
          (case skip_ws r of [] \<Rightarrow> None
           | c # t \<Rightarrow> if c = CHR '']'' then Some ([v], t)
                     else if c = CHR '','' then map_option (\<lambda>(vs, u). (v # vs, u)) (parse_elems n t)
                     else None))"
| "parse_members 0 s = None"
| "parse_members (Suc n) s =
     (case skip_ws s of [] \<Rightarrow> None
      | q # r \<Rightarrow>
          if q \<noteq> quote then None
          else (case string_body r of None \<Rightarrow> None
                | Some (k, r1) \<Rightarrow>
                    (case skip_ws r1 of [] \<Rightarrow> None
                     | c # r2 \<Rightarrow>
                         if c \<noteq> CHR '':'' then None
                         else (case parse_value n r2 of None \<Rightarrow> None
                               | Some (v, r3) \<Rightarrow>
                                   (case skip_ws r3 of [] \<Rightarrow> None
                                    | d # t \<Rightarrow>
                                        if d = CHR ''}'' then Some ([(k, v)], t)
                                        else if d = CHR '',''
                                        then map_option (\<lambda>(ms, u). ((k, v) # ms, u)) (parse_members n t)
                                        else None)))))"

definition json_fuel :: "string \<Rightarrow> nat" where
  "json_fuel s = 2 * length s + 2"

definition json_parse :: "string \<Rightarrow> json option" where
  "json_parse s =
     (case parse_value (json_fuel s) s of None \<Rightarrow> None
      | Some (v, r) \<Rightarrow> if skip_ws r = [] then Some v else None)"

section \<open>The fuel of the parser is enough\<close>

lemma length_skip_ws: "length (skip_ws s) \<le> length s"
  by (simp add: skip_ws_def length_dropWhile_le)

lemma skip_ws_shorter: "skip_ws s = c # r \<Longrightarrow> length r < length s"
  using length_skip_ws [of s] by simp

lemma string_body_shorter: "string_body s = Some (t, r) \<Longrightarrow> length r < length s"
proof (induction s arbitrary: t r rule: string_body.induct)
  case 1
  then show ?case by simp
next
  case (2 c s)
  show ?case
    using "2.prems" "2.IH"
    by (subst (asm) string_body.simps(2)) (fastforce split: if_splits option.splits simp: Let_def)
qed

lemma int_part_not_Nil: "int_part s = Some i \<Longrightarrow> i \<noteq> []"
  by (auto simp: int_part_def digits_prefix_def split: list.splits if_splits)

lemma number_literal_not_Nil: "number_literal s = Some l \<Longrightarrow> l \<noteq> []"
  by (auto simp: number_literal_def Let_def dest: int_part_not_Nil split: option.splits)

lemma parse_shorter:
  "parse_value n s = Some (v, r) \<Longrightarrow> length r < length s"
  "parse_elems n s = Some (vs, r) \<Longrightarrow> length r < length s"
  "parse_members n s = Some (ms, r) \<Longrightarrow> length r < length s"
proof (induction n arbitrary: s v vs ms r)
  case 0
  {
    case 1 then show ?case by simp
  next
    case 2 then show ?case by simp
  next
    case 3 then show ?case by simp
  }
next
  case (Suc n)
  {
    case 1
    then obtain c t where st: "skip_ws s = c # t" by (auto split: list.splits)
    have len: "length t < length s" by (rule skip_ws_shorter [OF st])
    consider "parse_members n t = Some (case v of JObj ms \<Rightarrow> ms, r)"
      | "parse_elems n t = Some (case v of JArr vs \<Rightarrow> vs, r)"
      | d where "skip_ws t = d # r"
      | u where "string_body t = Some (u, r)" | k where "r = drop k t"
      | l where "number_literal (c # t) = Some l" "r = drop (length l) (c # t)"
      using 1 st by (auto split: list.splits if_splits)
    then show ?case
    proof cases
      case 1
      then show ?thesis using Suc.IH(3) [of t] len by fastforce
    next
      case 2
      then show ?thesis using Suc.IH(2) [of t] len by fastforce
    next
      case 3
      then show ?thesis using skip_ws_shorter [of t] len by fastforce
    next
      case 4
      then show ?thesis using string_body_shorter [of t] len by fastforce
    next
      case 5
      then show ?thesis using len by simp
    next
      case 6
      then show ?thesis using number_literal_not_Nil [of "c # t" l] len by (cases l) auto
    qed
  next
    case 2
    then obtain w q c t where v: "parse_value n s = Some (w, q)" and q: "skip_ws q = c # t"
      and rest: "r = t \<or> (\<exists>us. parse_elems n t = Some (us, r))"
      by (auto split: option.splits list.splits if_splits)
    have "length t < length s" using Suc.IH(1) [OF v] skip_ws_shorter [OF q] by simp
    moreover have "length r \<le> length t" using rest Suc.IH(2) [of t] by (auto intro: less_imp_le)
    ultimately show ?case by simp
  next
    case 3
    then obtain q a k b c d w e f t where s: "skip_ws s = q # a" and k: "string_body a = Some (k, b)"
      and b: "skip_ws b = c # d" and w: "parse_value n d = Some (w, e)" and e: "skip_ws e = f # t"
      and rest: "r = t \<or> (\<exists>us. parse_members n t = Some (us, r))"
      by (auto split: option.splits list.splits if_splits)
    have "length t < length s"
      using skip_ws_shorter [OF s] string_body_shorter [OF k] skip_ws_shorter [OF b]
        Suc.IH(1) [OF w] skip_ws_shorter [OF e] by simp
    moreover have "length r \<le> length t" using rest Suc.IH(3) [of t] by (auto intro: less_imp_le)
    ultimately show ?case by simp
  }
qed

lemma parse_fuel_enough:
  "2 * length s < n \<Longrightarrow> 2 * length s < m \<Longrightarrow> parse_value n s = parse_value m s"
  "2 * length s + 1 < n \<Longrightarrow> 2 * length s + 1 < m \<Longrightarrow> parse_elems n s = parse_elems m s"
  "2 * length s + 1 < n \<Longrightarrow> 2 * length s + 1 < m \<Longrightarrow> parse_members n s = parse_members m s"
proof (induction n arbitrary: m s)
  case 0
  {
    case 1 then show ?case by simp
  next
    case 2 then show ?case by simp
  next
    case 3 then show ?case by simp
  }
next
  case (Suc n)
  {
    case 1
    then obtain k where m: "m = Suc k" by (cases m) auto
    show ?case
    proof (cases "skip_ws s")
      case Nil
      then show ?thesis by (simp add: m)
    next
      case (Cons c t)
      then have "length t < length s" by (rule skip_ws_shorter)
      with 1 m have "parse_elems n t = parse_elems k t" "parse_members n t = parse_members k t"
        by (auto intro!: Suc.IH)
      with Cons show ?thesis by (auto simp: m split: list.splits)
    qed
  next
    case 2
    then obtain k where m: "m = Suc k" by (cases m) auto
    have v: "parse_value n s = parse_value k s" by (rule Suc.IH) (use 2 m in simp_all)
    show ?case
    proof (cases "parse_value k s")
      case None
      then show ?thesis by (simp add: m v)
    next
      case (Some p)
      then obtain w q where p: "parse_value k s = Some (w, q)" by (cases p) auto
      have "parse_elems n t = parse_elems k t" if "skip_ws q = c # t" for c t
        using parse_shorter(1) [OF p] skip_ws_shorter [OF that] 2 m by (intro Suc.IH) auto
      then show ?thesis by (auto simp: m v p split: list.splits)
    qed
  next
    case 3
    then obtain k where m: "m = Suc k" by (cases m) auto
    have v: "parse_value n d = parse_value k d" if "length d < length s" for d
      by (rule Suc.IH) (use 3 m that in simp_all)
    have ms: "parse_members n d = parse_members k d" if "length d < length s" for d
      by (rule Suc.IH) (use 3 m that in simp_all)
    show ?case
    proof (cases "skip_ws s")
      case Nil
      then show ?thesis by (simp add: m)
    next
      case (Cons q a)
      note a = skip_ws_shorter [OF Cons]
      show ?thesis
      proof (cases "string_body a")
        case None
        with Cons show ?thesis by (simp add: m)
      next
        case (Some kb)
        then obtain key b where kb: "string_body a = Some (key, b)" by (cases kb) auto
        note b = string_body_shorter [OF kb]
        show ?thesis
        proof (cases "skip_ws b")
          case Nil
          with Cons kb show ?thesis by (simp add: m)
        next
          case (Cons c d)
          note d = skip_ws_shorter [OF Cons]
          have vd: "parse_value n d = parse_value k d" by (rule v) (use a b d in simp)
          have t: "parse_members n t = parse_members k t"
            if "parse_value k d = Some (w, e)" "skip_ws e = f # t" for w e f t
            by (rule ms) (use a b d parse_shorter(1) [OF that(1)] skip_ws_shorter [OF that(2)] in simp)
          show ?thesis using \<open>skip_ws s = q # a\<close> kb Cons t
            by (auto simp: m vd split: option.splits list.splits)
        qed
      qed
    qed
  }
qed

lemma json_parse_any_fuel:
  "2 * length s < n \<Longrightarrow> json_parse s =
     (case parse_value n s of None \<Rightarrow> None | Some (v, r) \<Rightarrow> if skip_ws r = [] then Some v else None)"
  unfolding json_parse_def by (subst parse_fuel_enough(1) [where m = n]) (simp_all add: json_fuel_def)

section \<open>Printing\<close>

text \<open>Compact JSON text. The parser reads it back, which gives texts with known values.\<close>

definition hex_digit :: "nat \<Rightarrow> char" where
  "hex_digit n = hex_alphabet ! (n mod 16)"

definition print_char :: "char \<Rightarrow> string" where
  "print_char c =
     (if c = quote \<or> c = backslash then [backslash, c]
      else if byte c < 32 then [backslash, CHR ''u'', CHR ''0'', CHR ''0'', hex_digit (byte c div 16), hex_digit (byte c)]
      else [c])"

definition print_string :: "string \<Rightarrow> string" where
  "print_string s = quote # concat (map print_char s) @ [quote]"

fun json_text :: "json \<Rightarrow> string" where
  "json_text JNull = ''null''"
| "json_text (JBool b) = (if b then ''true'' else ''false'')"
| "json_text (JNum l) = l"
| "json_text (JStr s) = print_string s"
| "json_text (JArr vs) = ''['' @ join_with '','' (map json_text vs) @ '']''"
| "json_text (JObj ms) = ''{'' @ join_with '','' (map (\<lambda>(k, v). print_string k @ '':'' @ json_text v) ms) @ ''}''"

definition ascii :: "string \<Rightarrow> bool" where
  "ascii s = list_all (\<lambda>c. byte c < 128) s"

fun json_ok :: "json \<Rightarrow> bool" where
  "json_ok JNull = True"
| "json_ok (JBool b) = True"
| "json_ok (JNum l) = (l = ''0'' \<or> (l \<noteq> [] \<and> hd l \<noteq> CHR ''0'' \<and> list_all is_digit l))"
| "json_ok (JStr s) = ascii s"
| "json_ok (JArr vs) = (\<forall>v \<in> set vs. json_ok v)"
| "json_ok (JObj ms) = (\<forall>(k, v) \<in> set ms. ascii k \<and> json_ok v)"

definition follows_value :: "string \<Rightarrow> bool" where
  "follows_value r = (r = [] \<or> hd r \<in> set '',]}'')"

lemma hex_val_hex_digit: "n < 16 \<Longrightarrow> hex_val (hex_digit n) = Some n"
proof -
  have "\<forall>n \<in> set [0..<16]. hex_val (hex_digit n) = Some n"
    by (simp add: hex_digit_def hex_alphabet_def hex_val_def byte_def upt_rec Let_def)
  then show "n < 16 \<Longrightarrow> hex_val (hex_digit n) = Some n" by simp
qed

lemma string_body_print_char:
  assumes "byte c < 128"
  shows "string_body (print_char c @ s) = map_option (\<lambda>(t, r). (c # t, r)) (string_body s)"
proof (cases "c = quote \<or> c = backslash")
  case True
  then show ?thesis
    by (auto simp: print_char_def string_body.simps escape_def quote_def backslash_def)
next
  case False
  show ?thesis
  proof (cases "byte c < 32")
    case True
    have "hex_val (CHR ''0'') = Some 0" by (simp add: hex_val_def byte_def)
    with True have "hex4 (CHR ''0'' # CHR ''0'' # hex_digit (byte c div 16) # hex_digit (byte c) # s) = Some (byte c)"
      using hex_val_hex_digit [of "byte c div 16"] hex_val_hex_digit [of "byte c mod 16"]
      by (simp add: hex_digit_def)
    with True False show ?thesis
      by (simp add: print_char_def string_body.simps escape_def unicode_escape_def utf8_encode_def
          quote_def backslash_def) (simp add: byte_def)
  next
    case ge: False
    with False assms show ?thesis by (simp add: print_char_def string_body.simps)
  qed
qed

lemma string_body_print: "ascii s \<Longrightarrow> string_body (concat (map print_char s) @ quote # r) = Some (s, r)"
  by (induction s) (simp_all add: ascii_def string_body_print_char string_body.simps)

lemma skip_ws_Cons: "\<not> is_json_space c \<Longrightarrow> skip_ws (c # r) = c # r"
  by (simp add: skip_ws_def)

lemma skip_ws_marks [simp]:
  "skip_ws (quote # r) = quote # r" "skip_ws (CHR ''['' # r) = CHR ''['' # r"
  "skip_ws (CHR '']'' # r) = CHR '']'' # r" "skip_ws (CHR ''{'' # r) = CHR ''{'' # r"
  "skip_ws (CHR ''}'' # r) = CHR ''}'' # r" "skip_ws (CHR '':'' # r) = CHR '':'' # r"
  "skip_ws (CHR '','' # r) = CHR '','' # r" "skip_ws [] = []"
  by (simp_all add: skip_ws_def is_json_space_def quote_def)

lemma digit_not_mark:
  "is_digit c \<Longrightarrow> \<not> is_json_space c \<and> c \<notin> set ''[]{},:ntf.eE-+'' \<and> c \<noteq> quote"
  by (auto simp: is_digit_def is_json_space_def quote_def)

lemma follows_value_not_digit:
  "follows_value r \<Longrightarrow> takeWhile is_digit r = [] \<and> frac_part r = Some [] \<and> exp_part r = Some []"
  by (cases r) (auto simp: follows_value_def frac_part_def exp_part_def is_digit_def)

lemma number_literal_digits:
  assumes "json_ok (JNum l)" and "follows_value r"
  shows "number_literal (l @ r) = Some l"
proof (cases "l = ''0''")
  case True
  with follows_value_not_digit [OF assms(2)] show ?thesis
    by (simp add: number_literal_def int_part_def Let_def)
next
  case False
  with assms obtain c t where l: "l = c # t" "c \<noteq> CHR ''0''" "is_digit c" "list_all is_digit t"
    by (cases l) auto
  then have "takeWhile is_digit (l @ r) = l"
    using follows_value_not_digit [OF assms(2)] by (simp add: takeWhile_append list_all_iff)
  with l digit_not_mark [of c] follows_value_not_digit [OF assms(2)] show ?thesis
    by (simp add: number_literal_def int_part_def Let_def digits_prefix_def)
qed

lemma json_text_first:
  "json_ok v \<Longrightarrow> \<exists>c t. json_text v = c # t \<and> \<not> is_json_space c \<and> c \<noteq> CHR '']'' \<and> c \<noteq> CHR ''}''"
proof (cases v)
  case (JNum l)
  assume "json_ok v"
  then show ?thesis
    using JNum digit_not_mark by (cases l) (auto simp: is_json_space_def)
qed (auto simp: print_string_def is_json_space_def quote_def)

lemma has_prefix_Cons [simp]: "has_prefix (c # s) (d # p) = (c = d \<and> has_prefix s p)" "has_prefix s []"
  by (auto simp: has_prefix_def)

lemma parse_value_number:
  assumes "json_ok (JNum l)" "follows_value r"
  shows "parse_value (Suc n) (l @ r) = Some (JNum l, r)"
proof -
  obtain c t where l: "l = c # t" "is_digit c" using assms(1) by (cases l) (auto simp: is_digit_def)
  have "c \<noteq> CHR ''{''" "c \<noteq> CHR ''[''" "c \<noteq> quote" "c \<noteq> CHR ''n''" "c \<noteq> CHR ''t''" "c \<noteq> CHR ''f''"
    "\<not> is_json_space c"
    using digit_not_mark [OF l(2)] by auto
  then show ?thesis using number_literal_digits [OF assms] l by (simp add: skip_ws_Cons)
qed

lemma parse_elems_text:
  assumes vs: "vs \<noteq> []" and n: "2 * length (join_with '','' (map json_text vs) @ CHR '']'' # r) + 1 < n"
    and IH: "\<And>v m q. v \<in> set vs \<Longrightarrow> follows_value q \<Longrightarrow> 2 * length (json_text v @ q) < m
      \<Longrightarrow> parse_value m (json_text v @ q) = Some (v, q)"
  shows "parse_elems n (join_with '','' (map json_text vs) @ CHR '']'' # r) = Some (vs, r)"
  using assms
proof (induction vs arbitrary: n)
  case Nil
  then show ?case by simp
next
  case (Cons v vs)
  obtain k where k: "n = Suc k" using Cons.prems by (cases n) auto
  show ?case
  proof (cases "vs = []")
    case True
    then show ?thesis using Cons.prems(3) [of v "CHR '']'' # r" k] Cons.prems(2)
      by (simp add: k follows_value_def)
  next
    case False
    let ?q = "CHR '','' # join_with '','' (map json_text vs) @ CHR '']'' # r"
    have split: "join_with '','' (map json_text (v # vs)) @ CHR '']'' # r = json_text v @ ?q"
      using False by (cases vs) simp_all
    have len: "2 * length (json_text v @ ?q) + 1 < Suc k" using Cons.prems(2) by (simp only: k split)
    have "parse_value k (json_text v @ ?q) = Some (v, ?q)"
      by (rule Cons.prems(3)) (use len in \<open>simp_all add: follows_value_def\<close>)
    moreover have "parse_elems k (join_with '','' (map json_text vs) @ CHR '']'' # r) = Some (vs, r)"
      by (rule Cons.IH [OF False]) (use len in simp, rule Cons.prems(3), simp_all)
    ultimately show ?thesis by (simp only: k split) simp
  qed
qed

definition member_text :: "string \<times> json \<Rightarrow> string" where
  "member_text m = print_string (fst m) @ '':'' @ json_text (snd m)"

lemma json_text_obj: "json_text (JObj ms) = ''{'' @ join_with '','' (map member_text ms) @ ''}''"
  by (simp add: member_text_def [abs_def] split_def)

lemma parse_members_text:
  assumes ms: "ms \<noteq> []" and n: "2 * length (join_with '','' (map member_text ms) @ CHR ''}'' # r) + 1 < n"
    and keys: "\<forall>m \<in> set ms. ascii (fst m)"
    and IH: "\<And>v m q. v \<in> set (map snd ms) \<Longrightarrow> follows_value q \<Longrightarrow> 2 * length (json_text v @ q) < m
      \<Longrightarrow> parse_value m (json_text v @ q) = Some (v, q)"
  shows "parse_members n (join_with '','' (map member_text ms) @ CHR ''}'' # r) = Some (ms, r)"
  using assms
proof (induction ms arbitrary: n)
  case Nil
  then show ?case by simp
next
  case (Cons m ms)
  obtain k where k: "n = Suc k" using Cons.prems by (cases n) auto
  obtain key v where m: "m = (key, v)" by (cases m)
  have key: "string_body (concat (map print_char key) @ quote # q) = Some (key, q)" for q
    using Cons.prems(3) by (intro string_body_print) (simp add: m)
  show ?case
  proof (cases "ms = []")
    case True
    have "parse_value k (json_text v @ CHR ''}'' # r) = Some (v, CHR ''}'' # r)"
      by (rule Cons.prems(4)) (use Cons.prems(2) True in \<open>simp_all add: m k member_text_def follows_value_def\<close>)
    then show ?thesis by (simp add: True k m member_text_def print_string_def key)
  next
    case False
    let ?q = "CHR '','' # join_with '','' (map member_text ms) @ CHR ''}'' # r"
    have split: "join_with '','' (map member_text (m # ms)) @ CHR ''}'' # r = member_text m @ ?q"
      using False by (cases ms) simp_all
    have len: "2 * length (member_text m @ ?q) + 1 < Suc k" using Cons.prems(2) by (simp only: k split)
    have "parse_value k (json_text v @ ?q) = Some (v, ?q)"
      by (rule Cons.prems(4)) (use len in \<open>simp_all add: m member_text_def follows_value_def\<close>)
    moreover have "parse_members k (join_with '','' (map member_text ms) @ CHR ''}'' # r) = Some (ms, r)"
      by (rule Cons.IH [OF False]) (use len Cons.prems(3) in simp, use Cons.prems(3) in simp, rule Cons.prems(4), simp_all)
    ultimately show ?thesis by (simp only: k split) (simp add: m member_text_def print_string_def key)
  qed
qed

lemma parse_value_text:
  "json_ok v \<Longrightarrow> follows_value r \<Longrightarrow> 2 * length (json_text v @ r) < n
    \<Longrightarrow> parse_value n (json_text v @ r) = Some (v, r)"
proof (induction v arbitrary: n r)
  case JNull
  then show ?case by (cases n) (simp_all add: skip_ws_Cons is_json_space_def quote_def)
next
  case (JBool b)
  then show ?case by (cases n) (simp_all add: skip_ws_Cons is_json_space_def quote_def)
next
  case (JNum l)
  then obtain k where "n = Suc k" by (cases n) auto
  with JNum parse_value_number show ?case by simp
next
  case (JStr s)
  then obtain k where "n = Suc k" by (cases n) auto
  with JStr show ?case by (simp add: print_string_def string_body_print) (simp add: quote_def)
next
  case (JArr vs)
  then obtain k where k: "n = Suc k" by (cases n) auto
  show ?case
  proof (cases "vs = []")
    case True
    then show ?thesis by (simp add: k)
  next
    case False
    have parsed: "parse_elems k (join_with '','' (map json_text vs) @ CHR '']'' # r) = Some (vs, r)"
      by (rule parse_elems_text [OF False]) (use JArr k in auto)
    obtain v us where vs: "vs = v # us" using False by (cases vs) auto
    from json_text_first [of v] JArr.prems(1) vs obtain c t
      where c: "json_text v = c # t" "\<not> is_json_space c" "c \<noteq> CHR '']''" by auto
    have "\<exists>q. join_with '','' (map json_text vs) @ CHR '']'' # r = c # q"
      using c vs by (cases us) auto
    then obtain q where q: "join_with '','' (map json_text vs) @ CHR '']'' # r = c # q" by blast
    with parsed c show ?thesis by (simp add: k q skip_ws_Cons)
  qed
next
  case (JObj ms)
  then obtain k where k: "n = Suc k" by (cases n) auto
  show ?case
  proof (cases "ms = []")
    case True
    then show ?thesis by (simp add: k)
  next
    case False
    have parsed: "parse_members k (join_with '','' (map member_text ms) @ CHR ''}'' # r) = Some (ms, r)"
    proof (rule parse_members_text [OF False])
      show "2 * length (join_with '','' (map member_text ms) @ CHR ''}'' # r) + 1 < k"
        using JObj.prems k by (simp add: json_text_obj del: json_text.simps)
      show "\<forall>m \<in> set ms. ascii (fst m)" using JObj.prems by auto
      fix v m q assume v: "v \<in> set (map snd ms)" "follows_value q" "2 * length (json_text v @ q) < m"
      then obtain p where p: "p \<in> set ms" "v = snd p" by auto
      with JObj.prems have "json_ok v" by (cases p) auto
      with JObj.IH [of p v] p v show "parse_value m (json_text v @ q) = Some (v, q)"
        by (cases p) auto
    qed
    have "\<exists>q. join_with '','' (map member_text ms) @ CHR ''}'' # r = quote # q"
      using False by (cases ms; cases "tl ms") (auto simp: member_text_def print_string_def)
    then obtain q where q: "join_with '','' (map member_text ms) @ CHR ''}'' # r = quote # q" by blast
    with parsed show ?thesis
      by (simp add: json_text_obj k q del: json_text.simps) (simp add: quote_def)
  qed
qed

lemma json_parse_text: "json_ok v \<Longrightarrow> json_parse (json_text v) = Some v"
  using parse_value_text [of v "[]" "json_fuel (json_text v)"]
  by (simp add: json_parse_def json_fuel_def follows_value_def)

section \<open>Decoding into Go values\<close>

text \<open>
  A decoder takes the tree and the value the field holds so far. \<open>None\<close> is an error of
  \<open>json.Unmarshal\<close>; \<open>null\<close> leaves a string, a number or a struct as it is and makes a slice or
  a pointer nil.
\<close>

type_synonym 'a decoder = "json \<Rightarrow> 'a \<Rightarrow> 'a option"

fun dec_string :: "string decoder" where
  "dec_string JNull old = Some old"
| "dec_string (JStr s) old = Some s"
| "dec_string _ old = None"

fun dec_bool :: "bool decoder" where
  "dec_bool JNull old = Some old"
| "dec_bool (JBool b) old = Some b"
| "dec_bool _ old = None"

definition uint64_of_literal :: "string \<Rightarrow> nat option" where
  "uint64_of_literal l =
     (case parse_nat l of None \<Rightarrow> None | Some n \<Rightarrow> if n < 2 ^ 64 then Some n else None)"

fun dec_uint64 :: "nat decoder" where
  "dec_uint64 JNull old = Some old"
| "dec_uint64 (JNum l) old = uint64_of_literal l"
| "dec_uint64 _ old = None"

fun dec_list :: "'a decoder \<Rightarrow> 'a \<Rightarrow> 'a list decoder" where
  "dec_list d zero JNull old = Some []"
| "dec_list d zero (JArr vs) old = those (map (\<lambda>v. d v zero) vs)"
| "dec_list d zero _ old = None"

definition on_field :: "'a decoder \<Rightarrow> ('r \<Rightarrow> 'a) \<Rightarrow> ('a \<Rightarrow> 'r \<Rightarrow> 'r) \<Rightarrow> 'r decoder" where
  "on_field d get_f set_f v r = map_option (\<lambda>x. set_f x r) (d v (get_f r))"

text \<open>A key finds the field of that name, else the field whose name folds to the same runes. The
  folding maps ASCII letters, U+017F and U+212A to the upper-case ASCII letter.\<close>

definition upper_char :: "char \<Rightarrow> char" where
  "upper_char c = (if 97 \<le> byte c \<and> byte c \<le> 122 then char_of (byte c - 32) else c)"

definition fold_rune :: "string \<Rightarrow> string" where
  "fold_rune r =
     (if r = [CHR 0xC5, CHR 0xBF] then ''S'' else if r = [CHR 0xE2, CHR 0x84, CHR 0xAA] then ''K''
      else map upper_char r)"

definition fold_name :: "string \<Rightarrow> string" where
  "fold_name k = concat (map fold_rune (runes k))"

definition find_field :: "(string \<times> 'f) list \<Rightarrow> string \<Rightarrow> 'f option" where
  "find_field fs k =
     (case map_of fs k of Some f \<Rightarrow> Some f
      | None \<Rightarrow> map_of (map (\<lambda>(n, f). (fold_name n, f)) fs) (fold_name k))"

text \<open>The flag is \<open>DisallowUnknownFields\<close>.\<close>

fun dec_members :: "bool \<Rightarrow> (string \<times> 'r decoder) list \<Rightarrow> (string \<times> json) list \<Rightarrow> 'r \<Rightarrow> 'r option" where
  "dec_members strict fs [] r = Some r"
| "dec_members strict fs ((k, v) # ms) r =
     (case find_field fs k of
        None \<Rightarrow> if strict then None else dec_members strict fs ms r
      | Some d \<Rightarrow> (case d v r of None \<Rightarrow> None | Some r' \<Rightarrow> dec_members strict fs ms r'))"

fun dec_struct :: "bool \<Rightarrow> (string \<times> 'r decoder) list \<Rightarrow> 'r decoder" where
  "dec_struct strict fs JNull r = Some r"
| "dec_struct strict fs (JObj ms) r = dec_members strict fs ms r"
| "dec_struct strict fs _ r = None"

text \<open>\<open>json.Unmarshal\<close> of a text into a value that starts as \<open>zero\<close>.\<close>

definition unmarshal :: "'a decoder \<Rightarrow> 'a \<Rightarrow> string \<Rightarrow> 'a option" where
  "unmarshal d zero s = (case json_parse s of None \<Rightarrow> None | Some v \<Rightarrow> d v zero)"

lemma find_field_exact: "map_of fs k = Some f \<Longrightarrow> find_field fs k = Some f"
  by (simp add: find_field_def)

lemma dec_list_JArr: "(\<And>x. x \<in> set xs \<Longrightarrow> d (enc x) zero = Some x) \<Longrightarrow> dec_list d zero (JArr (map enc xs)) old = Some xs"
  by (induction xs) (simp_all add: comp_def)

lemma uint64_of_show_nat: "n < 2 ^ 64 \<Longrightarrow> uint64_of_literal (show_nat n) = Some n"
  by (simp add: uint64_of_literal_def)

lemma show_nat_not_zero: "0 < n \<Longrightarrow> hd (show_nat n) \<noteq> CHR ''0''"
proof (induction n rule: show_nat.induct)
  case (1 n)
  show ?case
  proof (cases "n < 10")
    case True
    have "digit_char n \<noteq> CHR ''0''"
    proof
      assume "digit_char n = CHR ''0''"
      then have "(of_char (digit_char n) :: nat) = of_char (CHR ''0'')" by simp
      with True 1 show False by simp
    qed
    with True show ?thesis by (subst show_nat.simps) simp
  next
    case False
    then have "0 < n div 10" by auto
    with 1 False have "hd (show_nat (n div 10)) \<noteq> CHR ''0''" by blast
    moreover have "show_nat (n div 10) \<noteq> []" using show_nat_digits by blast
    ultimately show ?thesis using False by (subst show_nat.simps) simp
  qed
qed

lemma json_ok_show_nat: "json_ok (JNum (show_nat n))"
proof (cases "n = 0")
  case True
  have "(of_char (digit_char 0) :: nat) = of_char (CHR ''0'')" by simp
  then have "digit_char 0 = CHR ''0''" by (simp only: of_char_eq_iff)
  with True show ?thesis by (subst show_nat.simps) simp
next
  case False
  then show ?thesis using show_nat_not_zero [of n] show_nat_digits [of n] by simp
qed

text \<open>A pointer field: \<open>null\<close> makes it nil, anything else is decoded into what it points to.\<close>

definition dec_pointer :: "'a decoder \<Rightarrow> 'a \<Rightarrow> 'a option decoder" where
  "dec_pointer d zero v old =
     (if v = JNull then Some None
      else map_option Some (d v (case old of None \<Rightarrow> zero | Some x \<Rightarrow> x)))"

text \<open>The contract of a document type: decoding an encoded document into the zero value gives it back.\<close>

locale wire_codec =
  fixes enc :: "'a \<Rightarrow> json"
    and dec :: "'a decoder"
    and zero :: 'a
    and ok :: "'a \<Rightarrow> bool"
  assumes decode_encode: "ok x \<Longrightarrow> dec (enc x) zero = Some x"
begin

lemma encode_inj: "ok x \<Longrightarrow> ok y \<Longrightarrow> enc x = enc y \<Longrightarrow> x = y"
  by (metis decode_encode option.inject)

lemma decode_list: "list_all ok xs \<Longrightarrow> dec_list dec zero (JArr (map enc xs)) old = Some xs"
  by (rule dec_list_JArr) (simp add: list_all_iff decode_encode)

lemma decode_pointer: "ok x \<Longrightarrow> enc x \<noteq> JNull \<Longrightarrow> dec_pointer dec zero (enc x) None = Some (Some x)"
  by (simp add: dec_pointer_def decode_encode)

lemma decode_text: "ok x \<Longrightarrow> json_ok (enc x) \<Longrightarrow> unmarshal dec zero (json_text (enc x)) = Some x"
  by (simp add: unmarshal_def json_parse_text decode_encode)

end

end
