(* ===== verification/RepositoryModel.thy ===== *)
theory RepositoryModel
  imports Egress Json
begin

text \<open>
  Storage destinations and repository connections (repository/model.go). The Go interface
  values with one struct per driver are datatypes with one constructor per driver and one for
  the nil interface. What the library decides about a text (\<open>url.Parse\<close>, an Ed25519 key in PEM) is
  a field of \<open>repo_lib\<close>, the parameter of the functions that ask it.
\<close>

section \<open>Paths\<close>

text \<open>\<open>filepath.Clean\<close> on Unix: the components are kept on a stack.\<close>

definition clean_step :: "bool \<Rightarrow> string \<Rightarrow> string list \<Rightarrow> string list" where
  "clean_step rooted part stack =
     (if part = [] \<or> part = ''.'' then stack
      else if part = ''..'' then
        (case stack of
           [] \<Rightarrow> if rooted then [] else [''..'']
         | prev # rest \<Rightarrow> if prev = ''..'' then ''..'' # stack else rest)
      else part # stack)"

definition clean_path :: "string \<Rightarrow> string" where
  "clean_path path =
     (let rooted = has_prefix path ''/'';
          parts = rev (fold (clean_step rooted) (split_on (CHR ''/'') path) [])
      in if rooted then ''/'' @ join_with ''/'' parts
         else if parts = [] then ''.'' else join_with ''/'' parts)"

definition path_join :: "string list \<Rightarrow> string" where
  "path_join elems =
     (let parts = filter (\<lambda>e. e \<noteq> []) elems
      in if parts = [] then [] else clean_path (join_with ''/'' parts))"

definition is_abs :: "string \<Rightarrow> bool" where
  "is_abs path = has_prefix path ''/''"

text \<open>The text before and after the last slash.\<close>

definition before_last_slash :: "string \<Rightarrow> string" where
  "before_last_slash s = rev (tl (dropWhile (\<lambda>c. c \<noteq> CHR ''/'') (rev s)))"

definition after_last_slash :: "string \<Rightarrow> string" where
  "after_last_slash s = rev (takeWhile (\<lambda>c. c \<noteq> CHR ''/'') (rev s))"

definition pathDir :: "string \<Rightarrow> string" where
  "pathDir value =
     (if CHR ''/'' \<notin> set value then ''.''
      else if before_last_slash value = [] then ''/'' else before_last_slash value)"

definition pathBase :: "string \<Rightarrow> string" where
  "pathBase value = (if CHR ''/'' \<notin> set value then value else after_last_slash value)"

text \<open>\<open>filepath.Dir\<close> and \<open>filepath.Base\<close>.\<close>

definition filepath_dir :: "string \<Rightarrow> string" where
  "filepath_dir path =
     clean_path (if CHR ''/'' \<in> set path then before_last_slash path @ ''/'' else [])"

definition filepath_base :: "string \<Rightarrow> string" where
  "filepath_base path =
     (let s = rev (dropWhile (\<lambda>c. c = CHR ''/'') (rev path))
      in if path = [] then ''.'' else if s = [] then ''/'' else pathBase s)"

section \<open>Data\<close>

datatype sftp_authentication = NoAuthentication | PasswordAuthentication string | Ed25519Authentication string

record s3_destination =
  sd_endpoint :: string
  sd_region :: string
  sd_bucket :: string
  sd_prefix :: string
  sd_access_key :: string
  sd_secret_key :: string

record sftp_destination =
  fd_host :: string
  fd_port :: nat
  fd_username :: string
  fd_root_path :: string
  fd_host_keys :: "string list"
  fd_authentication :: sftp_authentication

datatype destination =
    NoDestination
  | LocalDestination string
  | S3Destination s3_destination
  | SFTPDestination sftp_destination

record s3_connection =
  sc_endpoint :: string
  sc_bucket :: string
  sc_prefix :: string
  sc_region :: string
  sc_access_key :: string
  sc_secret_key :: string

record sftp_connection =
  fc_host :: string
  fc_port :: nat
  fc_username :: string
  fc_path :: string
  fc_host_keys :: "string list"
  fc_authentication :: sftp_authentication

datatype connection =
    NoConnection
  | LocalConnection string
  | S3Connection s3_connection
  | SFTPConnection sftp_connection

record repo_lib =
  rl_netip :: netip_lib
  rl_url_parse :: "string \<Rightarrow> url option"
  rl_ed25519_pem :: "string \<Rightarrow> bool"
  rl_userinfo :: "string \<Rightarrow> string"

datatype repo_error =
    DriverInvalid | UnsafeRelativePath | LocalInvalid | S3Invalid | SFTPInvalid | HostKeysInvalid
  | AuthenticationInvalid | EndpointInvalid | EgressError egress_error | DecodeError

section \<open>Checks on values\<close>

definition validRelativePath :: "string \<Rightarrow> bool" where
  "validRelativePath value =
     (value \<noteq> [] \<and> \<not> contains_any value [CHR 0x5C, CHR 0x00] \<and> \<not> has_prefix value ''/''
      \<and> list_all (\<lambda>part. part \<noteq> [] \<and> part \<noteq> ''.'' \<and> part \<noteq> ''..'') (split_on (CHR ''/'') value))"

definition safePrefix :: "string \<Rightarrow> bool" where
  "safePrefix value = (value \<noteq> [] \<and> validRelativePath value)"

definition lineSafe :: "string \<Rightarrow> nat \<Rightarrow> bool" where
  "lineSafe value maximum =
     (value \<noteq> [] \<and> rune_length value \<le> maximum \<and> \<not> contains_any value line_breaks)"

definition validSFTPPath :: "string \<Rightarrow> bool" where
  "validSFTPPath value =
     (if value = [] \<or> 1024 < rune_length value \<or> contains_any value [CHR 0x5C, CHR 0x00]
         \<or> value = ''~'' \<or> has_prefix value ''~/'' then False
      else if value = ''/'' then True
      else if has_suffix value ''/'' \<or> contains_sub value ''//'' then False
      else list_all (\<lambda>part. part \<noteq> [] \<and> part \<noteq> ''.'' \<and> part \<noteq> ''..'')
             (split_on (CHR ''/'') (trim_prefix value ''/'')))"

text \<open>\<open>strings.Fields\<close>, on the pieces of the string.\<close>

fun fields_of :: "string list \<Rightarrow> string \<Rightarrow> string list" where
  "fields_of [] cur = (if cur = [] then [] else [cur])"
| "fields_of (p # ps) cur =
     (if is_space_rune p then (if cur = [] then fields_of ps [] else cur # fields_of ps [])
      else fields_of ps (cur @ p))"

definition string_fields :: "string \<Rightarrow> string list" where
  "string_fields s = fields_of (pieces s) []"

text \<open>The number of bytes \<open>base64.StdEncoding\<close> decodes a text to; the decoder skips CR and LF. Only the
  last quantum may be padded, and it may have any trailing bits.\<close>

definition b64_char :: "char \<Rightarrow> bool" where
  "b64_char c = (is_digit c \<or> (65 \<le> byte c \<and> byte c \<le> 90) \<or> (97 \<le> byte c \<and> byte c \<le> 122)
     \<or> c = CHR ''+'' \<or> c = CHR ''/'')"

fun b64_length :: "string \<Rightarrow> nat option" where
  "b64_length [] = Some 0"
| "b64_length [a, b, c, d] =
     (if b64_char a \<and> b64_char b then
        (if c = CHR ''='' \<and> d = CHR ''='' then Some 1
         else if b64_char c \<and> d = CHR ''='' then Some 2
         else if b64_char c \<and> b64_char d then Some 3 else None)
      else None)"
| "b64_length (a # b # c # d # rest) =
     (if b64_char a \<and> b64_char b \<and> b64_char c \<and> b64_char d then map_option (\<lambda>n. n + 3) (b64_length rest)
      else None)"
| "b64_length _ = None"

definition b64_std_length :: "string \<Rightarrow> nat option" where
  "b64_std_length s = b64_length (filter (\<lambda>c. c \<noteq> CHR 0x0A \<and> c \<noteq> CHR 0x0D) s)"

definition validSFTPHostKey :: "string \<Rightarrow> bool" where
  "validSFTPHostKey value =
     (if value = [] \<or> 4096 < length value \<or> contains_any value line_breaks then False
      else (case string_fields value of
              [kind, key] \<Rightarrow>
                kind @ '' '' @ key = value \<and> lineSafe kind 255
                \<and> (case b64_std_length key of None \<Rightarrow> False | Some n \<Rightarrow> 0 < n \<and> n \<le> 2048)
            | _ \<Rightarrow> False))"

fun check_host_keys :: "string list \<Rightarrow> string list \<Rightarrow> bool" where
  "check_host_keys seen [] = True"
| "check_host_keys seen (v # vs) =
     (if v \<in> set seen \<or> \<not> validSFTPHostKey v then False else check_host_keys (v # seen) vs)"

definition validateHostKeys :: "string list \<Rightarrow> bool" where
  "validateHostKeys values = check_host_keys [] values"

definition validEd25519PrivateKey :: "repo_lib \<Rightarrow> string \<Rightarrow> bool" where
  "validEd25519PrivateKey lib value =
     (value \<noteq> [] \<and> length value \<le> 16384 \<and> nul \<notin> set value \<and> rl_ed25519_pem lib value)"

definition valid_bucket :: "string \<Rightarrow> bool" where
  "valid_bucket s =
     (let edge = (\<lambda>c. is_digit c \<or> (97 \<le> byte c \<and> byte c \<le> 122))
      in 3 \<le> length s \<and> length s \<le> 63 \<and> edge (hd s) \<and> edge (last s)
         \<and> list_all (\<lambda>c. edge c \<or> c = CHR ''.'' \<or> c = CHR ''-'') s)"

text \<open>The text before the last colon.\<close>

definition before_colon :: "string \<Rightarrow> string" where
  "before_colon s = rev (tl (dropWhile (\<lambda>c. c \<noteq> CHR '':'') (rev s)))"

text \<open>\<open>net.SplitHostPort\<close>; the host of the result.\<close>

definition split_host_port :: "string \<Rightarrow> string option" where
  "split_host_port s =
     (let i = length (before_colon s) in
      if CHR '':'' \<notin> set s then None
      else case s of
        c # rest \<Rightarrow>
          if c = CHR ''['' then
            (let host = takeWhile (\<lambda>c. c \<noteq> CHR '']'') rest; k = length host + 2 in
             if CHR '']'' \<notin> set rest \<or> k \<noteq> i then None
             else if CHR ''['' \<in> set rest \<or> CHR '']'' \<in> set (drop k s) then None
             else Some host)
          else (let host = take i s in
                if CHR '':'' \<in> set host \<or> CHR ''['' \<in> set s \<or> CHR '']'' \<in> set s then None
                else Some host)
      | [] \<Rightarrow> None)"

record canonical_target =
  ct_host :: string
  ct_port :: nat
  ct_authority :: string

definition canonicalTarget :: "repo_lib \<Rightarrow> string \<Rightarrow> nat \<Rightarrow> repo_error + canonical_target" where
  "canonicalTarget lib host port =
     (if host \<noteq> trim_space host then Inl (EgressError InvalidHostname)
      else case Authority (rl_netip lib) \<lparr>tg_host = host, tg_port = port\<rparr> of
             Inl e \<Rightarrow> Inl (EgressError e)
           | Inr authority \<Rightarrow>
               (case split_host_port authority of
                  None \<Rightarrow> Inl (EgressError InvalidHostname)
                | Some canonical \<Rightarrow>
                    Inr \<lparr>ct_host = canonical, ct_port = port, ct_authority = authority\<rparr>))"

text \<open>The region an Amazon host name names: \<open>amazonS3EndpointPattern\<close>.\<close>

definition amazon_region :: "string \<Rightarrow> string option" where
  "amazon_region h =
     (let mid = take (length h - 17) (drop 3 h) in
      if (has_prefix h ''s3.'' \<or> has_prefix h ''s3-'') \<and> 17 < length h \<and> has_suffix h ''.amazonaws.com''
         \<and> list_all (\<lambda>c. is_digit c \<or> (97 \<le> byte c \<and> byte c \<le> 122) \<or> c = CHR ''-'') mid
      then Some mid else None)"

text \<open>The canonical endpoint is \<open>https://\<close> and a host, so its host stands for it.\<close>

definition canonicalS3Endpoint :: "repo_lib \<Rightarrow> string \<Rightarrow> string \<Rightarrow> repo_error + string" where
  "canonicalS3Endpoint lib raw region =
     (case Endpoint (rl_netip lib) (rl_url_parse lib) raw of
        Inl e \<Rightarrow> Inl (EgressError e)
      | Inr host \<Rightarrow>
          if amazon_region (url_hostname host) = Some region
          then Inr (join_host_port (''s3.dualstack.'' @ region @ ''.amazonaws.com'') 443)
          else Inr host)"

section \<open>Destinations\<close>

fun validate_authentication :: "repo_lib \<Rightarrow> sftp_authentication \<Rightarrow> repo_error option" where
  "validate_authentication lib NoAuthentication = Some AuthenticationInvalid"
| "validate_authentication lib (PasswordAuthentication s) =
     (if lineSafe s 1000 then None else Some AuthenticationInvalid)"
| "validate_authentication lib (Ed25519Authentication s) =
     (if validEd25519PrivateKey lib s then None else Some AuthenticationInvalid)"

fun destination_driver :: "destination \<Rightarrow> string" where
  "destination_driver NoDestination = []"
| "destination_driver (LocalDestination root) = ''local''"
| "destination_driver (S3Destination v) = ''s3''"
| "destination_driver (SFTPDestination v) = ''sftp''"

definition is_inl :: "'a + 'b \<Rightarrow> bool" where
  "is_inl x = (case x of Inl _ \<Rightarrow> True | Inr _ \<Rightarrow> False)"

fun destination_validate :: "repo_lib \<Rightarrow> destination \<Rightarrow> repo_error option" where
  "destination_validate lib NoDestination = Some DriverInvalid"
| "destination_validate lib (LocalDestination root) =
     (if \<not> is_abs root \<or> nul \<in> set root \<or> 4096 < rune_length root then Some LocalInvalid else None)"
| "destination_validate lib (S3Destination v) =
     (if is_inl (canonicalS3Endpoint lib (sd_endpoint v) (sd_region v)) \<or> \<not> valid_bucket (sd_bucket v)
         \<or> sd_region v = [] \<or> 255 < rune_length (sd_region v)
         \<or> (sd_prefix v \<noteq> [] \<and> \<not> validRelativePath (sd_prefix v)) \<or> 1024 < rune_length (sd_prefix v)
         \<or> \<not> lineSafe (sd_access_key v) 1000 \<or> \<not> lineSafe (sd_secret_key v) 1000
      then Some S3Invalid else None)"
| "destination_validate lib (SFTPDestination v) =
     (if is_inl (canonicalTarget lib (fd_host v) (fd_port v)) \<or> \<not> lineSafe (fd_username v) 255
         \<or> \<not> validSFTPPath (fd_root_path v) \<or> fd_host_keys v = [] \<or> 16 < length (fd_host_keys v)
      then Some SFTPInvalid
      else if \<not> validateHostKeys (fd_host_keys v) then Some HostKeysInvalid
      else validate_authentication lib (fd_authentication v))"

fun destination_backend_resolve :: "destination \<Rightarrow> string \<Rightarrow> connection" where
  "destination_backend_resolve NoDestination rel = NoConnection"
| "destination_backend_resolve (LocalDestination root) rel = LocalConnection (path_join [root, rel])"
| "destination_backend_resolve (S3Destination v) rel =
     S3Connection \<lparr>sc_endpoint = sd_endpoint v, sc_bucket = sd_bucket v,
       sc_prefix = (if sd_prefix v \<noteq> [] then sd_prefix v @ ''/'' @ rel else rel),
       sc_region = sd_region v, sc_access_key = sd_access_key v, sc_secret_key = sd_secret_key v\<rparr>"
| "destination_backend_resolve (SFTPDestination v) rel =
     SFTPConnection \<lparr>fc_host = fd_host v, fc_port = fd_port v, fc_username = fd_username v,
       fc_path = (if fd_root_path v = ''/'' then ''/'' @ rel else fd_root_path v @ ''/'' @ rel),
       fc_host_keys = fd_host_keys v, fc_authentication = fd_authentication v\<rparr>"

definition destination_resolve :: "destination \<Rightarrow> string \<Rightarrow> repo_error + connection" where
  "destination_resolve d rel =
     (if d = NoDestination then Inl DriverInvalid
      else if \<not> validRelativePath rel \<or> 1024 < rune_length rel then Inl UnsafeRelativePath
      else Inr (destination_backend_resolve d rel))"

section \<open>Connections\<close>

fun connection_driver :: "connection \<Rightarrow> string" where
  "connection_driver NoConnection = []"
| "connection_driver (LocalConnection path) = ''local''"
| "connection_driver (S3Connection v) = ''s3''"
| "connection_driver (SFTPConnection v) = ''sftp''"

fun repository_path :: "connection \<Rightarrow> string" where
  "repository_path NoConnection = []"
| "repository_path (LocalConnection path) = path"
| "repository_path (S3Connection v) = sc_prefix v"
| "repository_path (SFTPConnection v) = fc_path v"

fun connection_validate :: "repo_lib \<Rightarrow> bool \<Rightarrow> connection \<Rightarrow> repo_error option" where
  "connection_validate lib allow NoConnection = Some DriverInvalid"
| "connection_validate lib allow (LocalConnection path) =
     (if \<not> allow \<or> \<not> is_abs path \<or> nul \<in> set path then Some LocalInvalid else None)"
| "connection_validate lib allow (S3Connection v) =
     (if is_inl (canonicalS3Endpoint lib (sc_endpoint v) (sc_region v)) \<or> \<not> valid_bucket (sc_bucket v)
         \<or> sc_region v = [] \<or> \<not> safePrefix (sc_prefix v)
         \<or> \<not> lineSafe (sc_access_key v) 1000 \<or> \<not> lineSafe (sc_secret_key v) 1000
      then Some S3Invalid else None)"
| "connection_validate lib allow (SFTPConnection v) =
     (if is_inl (canonicalTarget lib (fc_host v) (fc_port v)) \<or> \<not> lineSafe (fc_username v) 255
         \<or> \<not> validSFTPPath (fc_path v) \<or> fc_host_keys v = [] \<or> 16 < length (fc_host_keys v)
      then Some SFTPInvalid
      else if \<not> validateHostKeys (fc_host_keys v)
           \<or> validate_authentication lib (fc_authentication v) \<noteq> None
      then Some SFTPInvalid else None)"

definition ct_or_empty :: "repo_error + canonical_target \<Rightarrow> canonical_target" where
  "ct_or_empty r = (case r of Inr t \<Rightarrow> t | Inl _ \<Rightarrow> \<lparr>ct_host = [], ct_port = 0, ct_authority = []\<rparr>)"

fun connection_location :: "repo_lib \<Rightarrow> connection \<Rightarrow> string" where
  "connection_location lib NoConnection = []"
| "connection_location lib (LocalConnection path) = path"
| "connection_location lib (S3Connection v) =
     ''s3:'' @ sc_endpoint v @ ''/'' @ sc_bucket v @ ''/'' @ sc_prefix v"
| "connection_location lib (SFTPConnection v) =
     (case canonicalTarget lib (fc_host v) (fc_port v) of
        Inl _ \<Rightarrow> []
      | Inr t \<Rightarrow>
          (let prefix = ''sftp://'' @ rl_userinfo lib (fc_username v) @ ''@'' @ ct_authority t @ ''/'' in
           if has_prefix (fc_path v) ''/'' then prefix @ ''/'' @ trim_prefix (fc_path v) ''/''
           else prefix @ fc_path v))"

text \<open>One repository always has one identity, whatever its credentials.\<close>

fun connection_identity :: "repo_lib \<Rightarrow> connection \<Rightarrow> string" where
  "connection_identity lib NoConnection = []"
| "connection_identity lib (LocalConnection path) = ''local'' @ nul # clean_path path"
| "connection_identity lib (S3Connection v) =
     ''s3'' @ nul #
       (case canonicalS3Endpoint lib (sc_endpoint v) (sc_region v) of
          Inr host \<Rightarrow> ''https://'' @ host | Inl _ \<Rightarrow> sc_endpoint v)
       @ nul # sc_bucket v @ nul # sc_prefix v"
| "connection_identity lib (SFTPConnection v) =
     ''sftp'' @ nul # ct_authority (ct_or_empty (canonicalTarget lib (fc_host v) (fc_port v)))
       @ nul # fc_username v @ nul # fc_path v"

fun authentication_secret :: "sftp_authentication \<Rightarrow> string" where
  "authentication_secret NoAuthentication = []"
| "authentication_secret (PasswordAuthentication s) = s"
| "authentication_secret (Ed25519Authentication s) = s"

fun connection_secrets :: "connection \<Rightarrow> string list" where
  "connection_secrets (S3Connection v) = [sc_access_key v, sc_secret_key v]"
| "connection_secrets (SFTPConnection v) = [authentication_secret (fc_authentication v)]"
| "connection_secrets _ = []"

text \<open>\<open>Target\<close>: the host and port to allow, \<open>None\<close> for a local repository.\<close>

fun connection_target :: "repo_lib \<Rightarrow> connection \<Rightarrow> repo_error + target option" where
  "connection_target lib NoConnection = Inl DriverInvalid"
| "connection_target lib (LocalConnection path) = Inr None"
| "connection_target lib (S3Connection v) =
     (case canonicalS3Endpoint lib (sc_endpoint v) (sc_region v) of
        Inl e \<Rightarrow> Inl e
      | Inr host \<Rightarrow> Inr (Some \<lparr>tg_host = url_hostname host, tg_port = 443\<rparr>))"
| "connection_target lib (SFTPConnection v) =
     (case canonicalTarget lib (fc_host v) (fc_port v) of
        Inl e \<Rightarrow> Inl e
      | Inr t \<Rightarrow> Inr (Some \<lparr>tg_host = ct_host t, tg_port = ct_port t\<rparr>))"

fun connection_decompose :: "connection \<Rightarrow> repo_error + (destination \<times> string)" where
  "connection_decompose NoConnection = Inl DriverInvalid"
| "connection_decompose (LocalConnection path) =
     Inr (LocalDestination (filepath_dir path), filepath_base path)"
| "connection_decompose (S3Connection v) =
     Inr (S3Destination \<lparr>sd_endpoint = sc_endpoint v, sd_region = sc_region v, sd_bucket = sc_bucket v,
       sd_prefix = [], sd_access_key = sc_access_key v, sd_secret_key = sc_secret_key v\<rparr>, sc_prefix v)"
| "connection_decompose (SFTPConnection v) =
     Inr (SFTPDestination \<lparr>fd_host = fc_host v, fd_port = fc_port v, fd_username = fc_username v,
       fd_root_path = pathDir (fc_path v), fd_host_keys = fc_host_keys v,
       fd_authentication = fc_authentication v\<rparr>, pathBase (fc_path v))"

end
