(* ===== verification/RepositoryFacts.thy ===== *)
theory RepositoryFacts
  imports RepositoryModel
begin

text \<open>
  What resolving a destination and identifying a repository guarantee (repository/model.go): a
  valid destination resolves to a valid connection, and two valid connections have the same
  identity exactly when they name the same place, whatever their credentials.
\<close>

section \<open>Safe paths\<close>

definition safe_parts :: "string \<Rightarrow> bool" where
  "safe_parts s = list_all (\<lambda>part. part \<noteq> [] \<and> part \<noteq> ''.'' \<and> part \<noteq> ''..'') (split_on (CHR ''/'') s)"

lemma safe_parts_join: "safe_parts (a @ ''/'' @ b) = (safe_parts a \<and> safe_parts b)"
  using split_on_append_sep [of "CHR ''/''" a b] by (simp add: safe_parts_def)

lemma safe_parts_not_Nil: "safe_parts s \<Longrightarrow> s \<noteq> []"
  by (auto simp: safe_parts_def)

lemma safe_parts_no_slash_first: "safe_parts s \<Longrightarrow> \<not> has_prefix s ''/''"
  by (cases s) (auto simp: safe_parts_def has_prefix_def)

lemma safe_parts_no_slash_last: "safe_parts s \<Longrightarrow> \<not> has_suffix s ''/''"
proof
  assume safe: "safe_parts s" and "has_suffix s ''/''"
  then have "s = take (length s - 1) s @ ''/'' @ []"
    by (metis append_Nil2 append_take_drop_id has_suffix_def length_Cons list.size(3) One_nat_def)
  with safe have "safe_parts []" by (metis safe_parts_join)
  then show False by (simp add: safe_parts_def)
qed

lemma contains_sub_split: "contains_sub s p \<Longrightarrow> \<exists>a b. s = a @ p @ b"
proof (induction s)
  case Nil
  then show ?case by simp
next
  case (Cons x xs)
  show ?case
  proof (cases "has_prefix (x # xs) p")
    case True
    then obtain t where "x # xs = [] @ p @ t" by (auto simp: has_prefix_iff)
    then show ?thesis by blast
  next
    case False
    with Cons obtain a b where "x # xs = (x # a) @ p @ b" by auto
    then show ?thesis by blast
  qed
qed

lemma safe_parts_no_double: "safe_parts s \<Longrightarrow> \<not> contains_sub s ''//''"
proof
  assume safe: "safe_parts s" and "contains_sub s ''//''"
  then obtain a b where "s = a @ ''/'' @ ([] @ ''/'' @ b)" using contains_sub_split [of s "''//''"] by auto
  with safe have "safe_parts []" by (simp only: safe_parts_join)
  then show False by (simp add: safe_parts_def)
qed

lemma validRelativePath_parts:
  "validRelativePath v = (\<not> contains_any v [CHR 0x5C, CHR 0x00] \<and> safe_parts v)"
  using safe_parts_not_Nil [of v] safe_parts_no_slash_first [of v]
  by (auto simp: validRelativePath_def safe_parts_def)

lemma validSFTPPath_parts:
  "validSFTPPath v = (v \<noteq> [] \<and> rune_length v \<le> 1024 \<and> \<not> contains_any v [CHR 0x5C, CHR 0x00]
     \<and> v \<noteq> ''~'' \<and> \<not> has_prefix v ''~/'' \<and> (v = ''/'' \<or> safe_parts (trim_prefix v ''/'')))"
proof (cases "has_prefix v ''/''")
  case True
  then obtain t where v: "v = ''/'' @ t" by (auto simp: has_prefix_iff)
  have tp: "trim_prefix v ''/'' = t" using v by (simp only: trim_prefix_append)
  have "\<not> has_suffix v ''/'' \<and> \<not> contains_sub v ''//''" if "safe_parts t"
  proof
    show "\<not> has_suffix v ''/''"
      using safe_parts_no_slash_last [OF that] safe_parts_not_Nil [OF that]
      by (cases t rule: rev_cases) (auto simp: v has_suffix_def)
    show "\<not> contains_sub v ''//''"
      using safe_parts_no_double [OF that] safe_parts_no_slash_first [OF that] by (simp add: v)
  qed
  then show ?thesis by (auto simp: validSFTPPath_def tp safe_parts_def)
next
  case False
  then have "trim_prefix v ''/'' = v" "v \<noteq> ''/''" by (auto simp: trim_prefix_def has_prefix_def)
  then show ?thesis
    using safe_parts_no_slash_last [of v] safe_parts_no_double [of v]
    by (auto simp: validSFTPPath_def safe_parts_def)
qed

lemma contains_any_append: "contains_any (a @ b) cs = (contains_any a cs \<or> contains_any b cs)"
  by (simp add: contains_any_def)

section \<open>Resolving\<close>

lemma set_join_with: "set (join_with sep ps) \<subseteq> \<Union> (set ` set ps) \<union> set sep"
  by (induction sep ps rule: join_with.induct) auto

lemma set_split_on: "p \<in> set (split_on c s) \<Longrightarrow> set p \<subseteq> set s"
  by (induction s arbitrary: p) (fastforce split: if_splits list.splits)+

lemma clean_stack: "\<forall>p \<in> set stack. set p \<subseteq> A \<Longrightarrow> \<forall>p \<in> set ps. set p \<subseteq> A \<Longrightarrow> CHR ''.'' \<in> A
    \<Longrightarrow> \<forall>p \<in> set (fold (clean_step rooted) ps stack). set p \<subseteq> A"
proof (induction ps arbitrary: stack)
  case Nil
  then show ?case by simp
next
  case (Cons q ps)
  have "\<forall>p \<in> set (clean_step rooted q stack). set p \<subseteq> A"
    using Cons.prems by (auto simp: clean_step_def split: list.splits)
  with Cons show ?case by simp
qed

lemma set_clean_path: "set (clean_path p) \<subseteq> set p \<union> set ''./''"
proof -
  let ?A = "set p \<union> set ''./''"
  have "\<forall>q \<in> set (fold (clean_step (has_prefix p ''/'')) (split_on (CHR ''/'') p) []). set q \<subseteq> ?A"
    by (rule clean_stack) (use set_split_on in fastforce)+
  then have "set (join_with ''/'' (rev (fold (clean_step (has_prefix p ''/'')) (split_on (CHR ''/'') p) [])))
      \<subseteq> ?A"
    using set_join_with [of "''/''"] by fastforce
  then show ?thesis by (auto simp: clean_path_def Let_def)
qed

lemma clean_path_abs: "is_abs p \<Longrightarrow> is_abs (clean_path p)"
  by (simp add: is_abs_def clean_path_def Let_def)

lemma resolve_local_path:
  assumes "is_abs root" "nul \<notin> set root" "nul \<notin> set rel" "rel \<noteq> []"
  shows "is_abs (path_join [root, rel]) \<and> nul \<notin> set (path_join [root, rel])"
proof -
  have "root \<noteq> []" using assms(1) by (auto simp: is_abs_def has_prefix_def)
  then have j: "path_join [root, rel] = clean_path (root @ ''/'' @ rel)"
    using assms by (simp add: path_join_def)
  have "is_abs (root @ ''/'' @ rel)" using assms(1) by (auto simp: is_abs_def has_prefix_iff)
  moreover have "nul \<notin> set (root @ ''/'' @ rel) \<union> set ''./''" using assms by (simp add: nul_def)
  ultimately show ?thesis
    using set_clean_path [of "root @ ''/'' @ rel"] clean_path_abs j by auto
qed

fun sftp_path_length :: "connection \<Rightarrow> nat" where
  "sftp_path_length (SFTPConnection v) = rune_length (fc_path v)"
| "sftp_path_length _ = 0"

lemma resolve_sftp_path:
  assumes root: "validSFTPPath root" and rel: "validRelativePath rel"
  shows "validSFTPPath (if root = ''/'' then ''/'' @ rel else root @ ''/'' @ rel)
    = (rune_length (if root = ''/'' then ''/'' @ rel else root @ ''/'' @ rel) \<le> 1024)"
proof -
  have parts: "safe_parts rel" "\<not> contains_any rel [CHR 0x5C, CHR 0x00]"
    using rel by (simp_all add: validRelativePath_parts)
  show ?thesis
  proof (cases "root = ''/''")
    case True
    with parts show ?thesis
      by (simp add: validSFTPPath_parts trim_prefix_def contains_any_def)
  next
    case False
    with root have r: "root \<noteq> []" "\<not> contains_any root [CHR 0x5C, CHR 0x00]" "root \<noteq> ''~''"
      "\<not> has_prefix root ''~/''" "safe_parts (trim_prefix root ''/'')"
      by (simp_all add: validSFTPPath_parts)
    have "trim_prefix (root @ ''/'' @ rel) ''/'' = trim_prefix root ''/'' @ ''/'' @ rel"
      using r(1) by (cases root) (simp_all add: trim_prefix_def)
    then have "safe_parts (trim_prefix (root @ ''/'' @ rel) ''/'')"
      using r(5) parts by (simp only: safe_parts_join)
    moreover have "\<not> has_prefix (root @ ''/'' @ rel) ''~/''" "root @ ''/'' @ rel \<noteq> ''~''"
      using r by (cases root; cases "tl root"; auto simp: has_prefix_def)+
    moreover have "\<not> contains_any (root @ ''/'' @ rel) [CHR 0x5C, CHR 0x00]"
      using r parts by (auto simp: contains_any_def)
    ultimately show ?thesis using False by (simp add: validSFTPPath_parts)
  qed
qed

text \<open>C17: What a valid destination resolves a relative path to is a valid connection, in all but one case:
  an SFTP path can grow beyond the 1024 characters a connection accepts, and is refused then.\<close>
theorem resolve_valid:
  assumes "destination_validate lib d = None" and "destination_resolve d rel = Inr c"
  shows "connection_validate lib True c = (if 1024 < sftp_path_length c then Some SFTPInvalid else None)"
proof (cases d)
  case NoDestination
  with assms show ?thesis by simp
next
  case (LocalDestination root)
  with assms have r: "is_abs root" "nul \<notin> set root" "validRelativePath rel"
    and c: "c = LocalConnection (path_join [root, rel])"
    by (auto simp: destination_resolve_def split: if_splits)
  then have "nul \<notin> set rel" "rel \<noteq> []" by (auto simp: validRelativePath_def contains_any_def list_ex_iff nul_def)
  with r resolve_local_path show ?thesis by (simp add: c)
next
  case (S3Destination v)
  with assms have rel: "validRelativePath rel"
    and p: "sd_prefix v = [] \<or> validRelativePath (sd_prefix v)"
    by (auto simp: destination_resolve_def split: if_splits)
  then have "safePrefix (if sd_prefix v \<noteq> [] then sd_prefix v @ ''/'' @ rel else rel)"
    using safe_parts_join [of "sd_prefix v" rel] safe_parts_not_Nil [of rel]
    by (auto simp: safePrefix_def validRelativePath_parts contains_any_def)
  with assms S3Destination show ?thesis by (auto simp: destination_resolve_def split: if_splits)
next
  case (SFTPDestination v)
  with assms have rel: "validRelativePath rel" and root: "validSFTPPath (fd_root_path v)"
    by (auto simp: destination_resolve_def split: if_splits)
  with resolve_sftp_path [OF root rel] assms SFTPDestination show ?thesis
    by (auto simp: destination_resolve_def split: if_splits)
qed

text \<open>Libraries that accept no address, no URL and no key: enough for local paths.\<close>

definition local_lib :: repo_lib where
  "local_lib = \<lparr>rl_netip = \<lparr>np_parse = (\<lambda>_. None), np_print = (\<lambda>_. [])\<rparr>, rl_url_parse = (\<lambda>_. None),
     rl_ed25519_pem = (\<lambda>_. False), rl_userinfo = id\<rparr>"

lemma resolve_valid_witness:
  "connection_validate local_lib True (LocalConnection ''/srv/backup/host'') = None"
proof -
  have r: "destination_resolve (LocalDestination ''/srv/backup'') ''host'' = Inr (LocalConnection ''/srv/backup/host'')"
    by (simp add: destination_resolve_def validRelativePath_def contains_any_def has_prefix_def
        rune_length_ascii byte_def path_join_def clean_path_def clean_step_def)
  have "destination_validate local_lib (LocalDestination ''/srv/backup'') = None"
    by (simp add: is_abs_def nul_def rune_length_ascii byte_def)
  from resolve_valid [OF this r] show ?thesis by simp
qed

section \<open>Identity\<close>

text \<open>The place a connection names: no credential and no host key is part of it.\<close>

datatype place =
    Nowhere
  | LocalPlace string
  | S3Place "repo_error + string" string string
  | SFTPPlace "repo_error + canonical_target" string string

fun place_of :: "repo_lib \<Rightarrow> connection \<Rightarrow> place" where
  "place_of lib NoConnection = Nowhere"
| "place_of lib (LocalConnection path) = LocalPlace (clean_path path)"
| "place_of lib (S3Connection v) =
     S3Place (canonicalS3Endpoint lib (sc_endpoint v) (sc_region v)) (sc_bucket v) (sc_prefix v)"
| "place_of lib (SFTPConnection v) =
     SFTPPlace (canonicalTarget lib (fc_host v) (fc_port v)) (fc_username v) (fc_path v)"

lemma last_separator:
  assumes "a @ x # b = a' @ x # b'" and "x \<notin> set b" and "x \<notin> set b'"
  shows "a = a' \<and> b = b'"
proof -
  have w: "takeWhile (\<lambda>c. c \<noteq> x) (rev q @ x # r) = rev q" if "x \<notin> set q" for q r
    using that by (subst takeWhile_append2) auto
  have "rev b @ x # rev a = rev b' @ x # rev a'" using arg_cong [OF assms(1), of rev] by simp
  then have "rev b = rev b'" using w [OF assms(2)] w [OF assms(3)] by metis
  then show ?thesis using assms(1) by simp
qed

lemma place_identity: "place_of lib c1 = place_of lib c2 \<Longrightarrow> connection_validate lib allow c1 = None
    \<Longrightarrow> connection_identity lib c1 = connection_identity lib c2"
  by (cases c1; cases c2) (auto simp: is_inl_def split: sum.splits if_splits)

lemma relative_no_nul: "safePrefix p \<Longrightarrow> nul \<notin> set p"
  by (auto simp: safePrefix_def validRelativePath_def contains_any_def list_ex_iff nul_def)

lemma bucket_no_nul: "valid_bucket b \<Longrightarrow> nul \<notin> set b"
  by (auto simp: valid_bucket_def Let_def list_all_iff nul_def is_digit_def byte_def)

lemma sftp_path_no_nul: "validSFTPPath p \<Longrightarrow> nul \<notin> set p"
  by (auto simp: validSFTPPath_parts contains_any_def list_ex_iff nul_def)

lemma line_no_nul: "lineSafe u n \<Longrightarrow> nul \<notin> set u"
  by (auto simp: lineSafe_def contains_any_def list_ex_iff nul_def line_breaks_def)

lemma target_by_authority:
  assumes "canonicalTarget lib h p = Inr t" "canonicalTarget lib h' p' = Inr t'"
    and "ct_authority t = ct_authority t'" and "p = p'"
  shows "t = t'"
  using assms by (auto simp: canonicalTarget_def split: if_splits sum.splits option.splits)

text \<open>The authority ends in the port, so it determines it.\<close>

lemma join_host_port_port:
  assumes "join_host_port h p = join_host_port h' p'"
  shows "p = p'"
proof -
  have d: "CHR '':'' \<notin> set (show_nat n)" for n
    using show_nat_digits [of n] digit_not_mark by (fastforce simp: list_all_iff)
  obtain a a' where "a @ CHR '':'' # show_nat p = a' @ CHR '':'' # show_nat p'"
    using assms by (auto simp: join_host_port_def append_assoc [symmetric] split: if_splits
        simp del: append_assoc) (metis append.assoc append_Cons append_Nil)+
  from last_separator [OF this d d] show ?thesis by simp
qed

lemma target_port:
  "canonicalTarget lib h p = Inr t \<Longrightarrow> \<exists>a. ct_authority t = join_host_port a p"
  by (auto simp: canonicalTarget_def Authority_def Let_def split: if_splits sum.splits option.splits)

text \<open>Two valid connections have the same identity exactly when they name the same place: the cleaned
  local path, the canonical S3 endpoint with bucket and prefix, or the canonical SFTP target with
  user and path. Credentials and host keys never matter, and no separator can be smuggled in.\<close>
theorem identity_exact:
  assumes "connection_validate lib allow c1 = None" and "connection_validate lib allow c2 = None"
  shows "(connection_identity lib c1 = connection_identity lib c2) = (place_of lib c1 = place_of lib c2)"
proof
  assume "place_of lib c1 = place_of lib c2"
  then show "connection_identity lib c1 = connection_identity lib c2"
    using assms(1) by (rule place_identity)
next
  assume same: "connection_identity lib c1 = connection_identity lib c2"
  show "place_of lib c1 = place_of lib c2"
  proof (cases c1)
    case NoConnection
    with assms show ?thesis by simp
  next
    case (LocalConnection p)
    with assms same show ?thesis by (cases c2) auto
  next
    case (S3Connection v)
    with assms same obtain w where w: "c2 = S3Connection w" by (cases c2) (auto simp: nul_def)
    obtain h h' where h: "canonicalS3Endpoint lib (sc_endpoint v) (sc_region v) = Inr h"
      "canonicalS3Endpoint lib (sc_endpoint w) (sc_region w) = Inr h'"
      using assms S3Connection w by (auto simp: is_inl_def split: if_splits sum.splits)
    have eq: "(h @ nul # sc_bucket v) @ nul # sc_prefix v = (h' @ nul # sc_bucket w) @ nul # sc_prefix w"
      using same S3Connection w h by simp
    have n: "nul \<notin> set (sc_prefix v)" "nul \<notin> set (sc_prefix w)" "nul \<notin> set (sc_bucket v)" "nul \<notin> set (sc_bucket w)"
      using assms S3Connection w relative_no_nul bucket_no_nul by (auto split: if_splits)
    from last_separator [OF eq n(1,2)] have "sc_prefix v = sc_prefix w"
      and "h @ nul # sc_bucket v = h' @ nul # sc_bucket w" by auto
    with last_separator [OF this(2) n(3,4)] S3Connection w h show ?thesis by simp
  next
    case (SFTPConnection v)
    with assms same obtain w where w: "c2 = SFTPConnection w" by (cases c2) (auto simp: nul_def)
    obtain t t' where t: "canonicalTarget lib (fc_host v) (fc_port v) = Inr t"
      "canonicalTarget lib (fc_host w) (fc_port w) = Inr t'"
      using assms SFTPConnection w by (auto simp: is_inl_def split: if_splits sum.splits)
    have eq: "(ct_authority t @ nul # fc_username v) @ nul # fc_path v
        = (ct_authority t' @ nul # fc_username w) @ nul # fc_path w"
      using same SFTPConnection w t by (simp add: ct_or_empty_def)
    have n: "nul \<notin> set (fc_path v)" "nul \<notin> set (fc_path w)" "nul \<notin> set (fc_username v)"
      "nul \<notin> set (fc_username w)"
      using assms SFTPConnection w sftp_path_no_nul line_no_nul by (auto split: if_splits)
    from last_separator [OF eq n(1,2)] have path: "fc_path v = fc_path w"
      and "ct_authority t @ nul # fc_username v = ct_authority t' @ nul # fc_username w" by auto
    with last_separator [OF this(2) n(3,4)]
    have user: "fc_username v = fc_username w" and auth: "ct_authority t = ct_authority t'" by auto
    have "fc_port v = fc_port w"
      using target_port [OF t(1)] target_port [OF t(2)] auth join_host_port_port by metis
    with target_by_authority [OF t auth] path user t SFTPConnection w show ?thesis by simp
  qed
qed

lemma identity_exact_witness:
  "(connection_identity local_lib (LocalConnection ''/srv/a/../b'') = connection_identity local_lib (LocalConnection ''/srv/b''))
    = (place_of local_lib (LocalConnection ''/srv/a/../b'') = place_of local_lib (LocalConnection ''/srv/b''))"
  by (rule identity_exact [where allow = True]) (simp_all add: is_abs_def nul_def)

end
