(* ===== verification/RepositoryCodec.thy ===== *)
theory RepositoryCodec
  imports RepositoryFacts
begin

text \<open>
  The JSON documents of destinations and connections (repository/codec.go). Marshalling gives the
  tree of the document, a field with \<open>omitempty\<close> only when it is not the zero value, and
  unmarshalling decodes a tree. Destinations tolerate unknown fields and are validated when
  decoded; connections, which a helper receives, refuse unknown fields.
\<close>

section \<open>Documents\<close>

record authentication_wire =
  aw_method :: string
  aw_password :: string
  aw_private_key :: string

record destination_document =
  dd_driver :: string
  dd_path :: string
  dd_endpoint :: string
  dd_region :: string
  dd_bucket :: string
  dd_prefix :: string
  dd_access_key :: string
  dd_secret_key :: string
  dd_host :: string
  dd_port :: nat
  dd_username :: string
  dd_root_path :: string
  dd_host_keys :: "string list"
  dd_auth :: "authentication_wire option"

record connection_document =
  cd_driver :: string
  cd_path :: string
  cd_endpoint :: string
  cd_bucket :: string
  cd_prefix :: string
  cd_region :: string
  cd_access_key :: string
  cd_secret_key :: string
  cd_host :: string
  cd_port :: nat
  cd_username :: string
  cd_host_keys :: "string list"
  cd_auth :: "authentication_wire option"

definition zero_authentication :: authentication_wire where
  "zero_authentication = \<lparr>aw_method = [], aw_password = [], aw_private_key = []\<rparr>"

definition zero_destination_document :: destination_document where
  "zero_destination_document =
     \<lparr>dd_driver = [], dd_path = [], dd_endpoint = [], dd_region = [], dd_bucket = [], dd_prefix = [],
      dd_access_key = [], dd_secret_key = [], dd_host = [], dd_port = 0, dd_username = [],
      dd_root_path = [], dd_host_keys = [], dd_auth = None\<rparr>"

definition zero_connection_document :: connection_document where
  "zero_connection_document =
     \<lparr>cd_driver = [], cd_path = [], cd_endpoint = [], cd_bucket = [], cd_prefix = [], cd_region = [],
      cd_access_key = [], cd_secret_key = [], cd_host = [], cd_port = 0, cd_username = [],
      cd_host_keys = [], cd_auth = None\<rparr>"

section \<open>Documents and trees\<close>

definition put_string :: "string \<Rightarrow> string \<Rightarrow> (string \<times> json) list" where
  "put_string key v = (if v = [] then [] else [(key, JStr v)])"

definition put_number :: "string \<Rightarrow> nat \<Rightarrow> (string \<times> json) list" where
  "put_number key n = (if n = 0 then [] else [(key, JNum (show_nat n))])"

definition put_strings :: "string \<Rightarrow> string list \<Rightarrow> (string \<times> json) list" where
  "put_strings key vs = (if vs = [] then [] else [(key, JArr (map JStr vs))])"

definition put_option :: "string \<Rightarrow> json option \<Rightarrow> (string \<times> json) list" where
  "put_option key v = (case v of None \<Rightarrow> [] | Some j \<Rightarrow> [(key, j)])"

fun dec_uint16 :: "nat decoder" where
  "dec_uint16 JNull old = Some old"
| "dec_uint16 (JNum l) old =
     (case parse_nat l of None \<Rightarrow> None | Some n \<Rightarrow> if n < 2 ^ 16 then Some n else None)"
| "dec_uint16 _ old = None"

definition json_of_authentication :: "authentication_wire \<Rightarrow> json" where
  "json_of_authentication w =
     JObj ((''method'', JStr (aw_method w)) # put_string ''password'' (aw_password w)
       @ put_string ''private_key'' (aw_private_key w))"

definition authentication_fields :: "(string \<times> authentication_wire decoder) list" where
  "authentication_fields =
     [(''method'', on_field dec_string aw_method (\<lambda>v. aw_method_update (\<lambda>_. v))),
      (''password'', on_field dec_string aw_password (\<lambda>v. aw_password_update (\<lambda>_. v))),
      (''private_key'', on_field dec_string aw_private_key (\<lambda>v. aw_private_key_update (\<lambda>_. v)))]"

definition json_of_destination :: "destination_document \<Rightarrow> json" where
  "json_of_destination d =
     JObj ((''driver'', JStr (dd_driver d)) # put_string ''path'' (dd_path d)
       @ put_string ''endpoint'' (dd_endpoint d) @ put_string ''region'' (dd_region d)
       @ put_string ''bucket'' (dd_bucket d) @ put_string ''prefix'' (dd_prefix d)
       @ put_string ''access_key'' (dd_access_key d) @ put_string ''secret_key'' (dd_secret_key d)
       @ put_string ''host'' (dd_host d) @ put_number ''port'' (dd_port d)
       @ put_string ''username'' (dd_username d) @ put_string ''root_path'' (dd_root_path d)
       @ put_strings ''host_keys'' (dd_host_keys d)
       @ put_option ''auth'' (map_option json_of_authentication (dd_auth d)))"

definition destination_fields :: "(string \<times> destination_document decoder) list" where
  "destination_fields =
     [(''driver'', on_field dec_string dd_driver (\<lambda>v. dd_driver_update (\<lambda>_. v))),
      (''path'', on_field dec_string dd_path (\<lambda>v. dd_path_update (\<lambda>_. v))),
      (''endpoint'', on_field dec_string dd_endpoint (\<lambda>v. dd_endpoint_update (\<lambda>_. v))),
      (''region'', on_field dec_string dd_region (\<lambda>v. dd_region_update (\<lambda>_. v))),
      (''bucket'', on_field dec_string dd_bucket (\<lambda>v. dd_bucket_update (\<lambda>_. v))),
      (''prefix'', on_field dec_string dd_prefix (\<lambda>v. dd_prefix_update (\<lambda>_. v))),
      (''access_key'', on_field dec_string dd_access_key (\<lambda>v. dd_access_key_update (\<lambda>_. v))),
      (''secret_key'', on_field dec_string dd_secret_key (\<lambda>v. dd_secret_key_update (\<lambda>_. v))),
      (''host'', on_field dec_string dd_host (\<lambda>v. dd_host_update (\<lambda>_. v))),
      (''port'', on_field dec_uint16 dd_port (\<lambda>v. dd_port_update (\<lambda>_. v))),
      (''username'', on_field dec_string dd_username (\<lambda>v. dd_username_update (\<lambda>_. v))),
      (''root_path'', on_field dec_string dd_root_path (\<lambda>v. dd_root_path_update (\<lambda>_. v))),
      (''host_keys'', on_field (dec_list dec_string []) dd_host_keys (\<lambda>v. dd_host_keys_update (\<lambda>_. v))),
      (''auth'', on_field (dec_pointer (dec_struct False authentication_fields) zero_authentication)
                   dd_auth (\<lambda>v. dd_auth_update (\<lambda>_. v)))]"

definition json_of_connection :: "connection_document \<Rightarrow> json" where
  "json_of_connection d =
     JObj ((''driver'', JStr (cd_driver d)) # put_string ''path'' (cd_path d)
       @ put_string ''endpoint'' (cd_endpoint d) @ put_string ''bucket'' (cd_bucket d)
       @ put_string ''prefix'' (cd_prefix d) @ put_string ''region'' (cd_region d)
       @ put_string ''access_key'' (cd_access_key d) @ put_string ''secret_key'' (cd_secret_key d)
       @ put_string ''host'' (cd_host d) @ put_number ''port'' (cd_port d)
       @ put_string ''username'' (cd_username d) @ put_strings ''host_keys'' (cd_host_keys d)
       @ put_option ''auth'' (map_option json_of_authentication (cd_auth d)))"

definition connection_fields :: "(string \<times> connection_document decoder) list" where
  "connection_fields =
     [(''driver'', on_field dec_string cd_driver (\<lambda>v. cd_driver_update (\<lambda>_. v))),
      (''path'', on_field dec_string cd_path (\<lambda>v. cd_path_update (\<lambda>_. v))),
      (''endpoint'', on_field dec_string cd_endpoint (\<lambda>v. cd_endpoint_update (\<lambda>_. v))),
      (''bucket'', on_field dec_string cd_bucket (\<lambda>v. cd_bucket_update (\<lambda>_. v))),
      (''prefix'', on_field dec_string cd_prefix (\<lambda>v. cd_prefix_update (\<lambda>_. v))),
      (''region'', on_field dec_string cd_region (\<lambda>v. cd_region_update (\<lambda>_. v))),
      (''access_key'', on_field dec_string cd_access_key (\<lambda>v. cd_access_key_update (\<lambda>_. v))),
      (''secret_key'', on_field dec_string cd_secret_key (\<lambda>v. cd_secret_key_update (\<lambda>_. v))),
      (''host'', on_field dec_string cd_host (\<lambda>v. cd_host_update (\<lambda>_. v))),
      (''port'', on_field dec_uint16 cd_port (\<lambda>v. cd_port_update (\<lambda>_. v))),
      (''username'', on_field dec_string cd_username (\<lambda>v. cd_username_update (\<lambda>_. v))),
      (''host_keys'', on_field (dec_list dec_string []) cd_host_keys (\<lambda>v. cd_host_keys_update (\<lambda>_. v))),
      (''auth'', on_field (dec_pointer (dec_struct True authentication_fields) zero_authentication)
                   cd_auth (\<lambda>v. cd_auth_update (\<lambda>_. v)))]"

section \<open>Documents and values\<close>

fun authenticationDocument :: "sftp_authentication \<Rightarrow> repo_error + authentication_wire" where
  "authenticationDocument NoAuthentication = Inl AuthenticationInvalid"
| "authenticationDocument (PasswordAuthentication s) =
     Inr \<lparr>aw_method = ''password'', aw_password = s, aw_private_key = []\<rparr>"
| "authenticationDocument (Ed25519Authentication s) =
     Inr \<lparr>aw_method = ''ed25519'', aw_password = [], aw_private_key = s\<rparr>"

definition authenticationFromDocument :: "authentication_wire \<Rightarrow> repo_error + sftp_authentication" where
  "authenticationFromDocument d =
     (if aw_method d = ''password'' then
        (if aw_private_key d \<noteq> [] then Inl AuthenticationInvalid
         else Inr (PasswordAuthentication (aw_password d)))
      else if aw_method d = ''ed25519'' then
        (if aw_password d \<noteq> [] then Inl AuthenticationInvalid
         else Inr (Ed25519Authentication (aw_private_key d)))
      else Inl AuthenticationInvalid)"

fun destination_to_document :: "destination \<Rightarrow> repo_error + destination_document" where
  "destination_to_document NoDestination = Inl DriverInvalid"
| "destination_to_document (LocalDestination root) =
     Inr (zero_destination_document \<lparr>dd_driver := ''local'', dd_path := root\<rparr>)"
| "destination_to_document (S3Destination v) =
     Inr (zero_destination_document \<lparr>dd_driver := ''s3'', dd_endpoint := sd_endpoint v,
       dd_region := sd_region v, dd_bucket := sd_bucket v, dd_prefix := sd_prefix v,
       dd_access_key := sd_access_key v, dd_secret_key := sd_secret_key v\<rparr>)"
| "destination_to_document (SFTPDestination v) =
     (case authenticationDocument (fd_authentication v) of
        Inl e \<Rightarrow> Inl e
      | Inr auth \<Rightarrow>
          Inr (zero_destination_document \<lparr>dd_driver := ''sftp'', dd_host := fd_host v, dd_port := fd_port v,
            dd_username := fd_username v, dd_root_path := fd_root_path v,
            dd_host_keys := fd_host_keys v, dd_auth := Some auth\<rparr>))"

definition hasSFTPDocument :: "destination_document \<Rightarrow> bool" where
  "hasSFTPDocument d =
     (dd_host d \<noteq> [] \<or> dd_port d \<noteq> 0 \<or> dd_username d \<noteq> [] \<or> dd_root_path d \<noteq> []
      \<or> dd_host_keys d \<noteq> [] \<or> dd_auth d \<noteq> None)"

definition destinationFromDocument :: "destination_document \<Rightarrow> repo_error + destination" where
  "destinationFromDocument d =
     (if dd_driver d = ''local'' then
        (if dd_endpoint d \<noteq> [] \<or> dd_region d \<noteq> [] \<or> dd_bucket d \<noteq> [] \<or> dd_prefix d \<noteq> []
            \<or> dd_access_key d \<noteq> [] \<or> dd_secret_key d \<noteq> [] \<or> hasSFTPDocument d
         then Inl LocalInvalid else Inr (LocalDestination (dd_path d)))
      else if dd_driver d = ''s3'' then
        (if dd_path d \<noteq> [] \<or> hasSFTPDocument d then Inl S3Invalid
         else Inr (S3Destination \<lparr>sd_endpoint = dd_endpoint d, sd_region = dd_region d,
           sd_bucket = dd_bucket d, sd_prefix = dd_prefix d, sd_access_key = dd_access_key d,
           sd_secret_key = dd_secret_key d\<rparr>))
      else if dd_driver d = ''sftp'' then
        (if dd_path d \<noteq> [] \<or> dd_endpoint d \<noteq> [] \<or> dd_region d \<noteq> [] \<or> dd_bucket d \<noteq> []
            \<or> dd_prefix d \<noteq> [] \<or> dd_access_key d \<noteq> [] \<or> dd_secret_key d \<noteq> []
         then Inl SFTPInvalid
         else case dd_auth d of None \<Rightarrow> Inl SFTPInvalid
           | Some w \<Rightarrow>
               (case authenticationFromDocument w of Inl e \<Rightarrow> Inl e
                | Inr auth \<Rightarrow>
                    Inr (SFTPDestination \<lparr>fd_host = dd_host d, fd_port = dd_port d,
                      fd_username = dd_username d, fd_root_path = dd_root_path d,
                      fd_host_keys = dd_host_keys d, fd_authentication = auth\<rparr>)))
      else Inl DriverInvalid)"

definition marshal_destination :: "destination \<Rightarrow> repo_error + json" where
  "marshal_destination d = map_sum id json_of_destination (destination_to_document d)"

text \<open>\<open>DecodeDestination\<close> and \<open>Destination.UnmarshalJSON\<close>, on the tree.\<close>

definition DecodeDestination :: "repo_lib \<Rightarrow> json \<Rightarrow> repo_error + destination" where
  "DecodeDestination lib j =
     (case dec_struct False destination_fields j zero_destination_document of
        None \<Rightarrow> Inl DecodeError
      | Some doc \<Rightarrow>
          (case destinationFromDocument doc of Inl e \<Rightarrow> Inl e
           | Inr d \<Rightarrow> (case destination_validate lib d of Some e \<Rightarrow> Inl e | None \<Rightarrow> Inr d)))"

fun connection_to_document :: "connection \<Rightarrow> repo_error + connection_document" where
  "connection_to_document NoConnection = Inl DriverInvalid"
| "connection_to_document (LocalConnection path) =
     Inr (zero_connection_document \<lparr>cd_driver := ''local'', cd_path := path\<rparr>)"
| "connection_to_document (S3Connection v) =
     Inr (zero_connection_document \<lparr>cd_driver := ''s3'', cd_endpoint := sc_endpoint v,
       cd_bucket := sc_bucket v, cd_prefix := sc_prefix v, cd_region := sc_region v,
       cd_access_key := sc_access_key v, cd_secret_key := sc_secret_key v\<rparr>)"
| "connection_to_document (SFTPConnection v) =
     (case authenticationDocument (fc_authentication v) of
        Inl e \<Rightarrow> Inl e
      | Inr auth \<Rightarrow>
          Inr (zero_connection_document \<lparr>cd_driver := ''sftp'', cd_path := fc_path v, cd_host := fc_host v,
            cd_port := fc_port v, cd_username := fc_username v, cd_host_keys := fc_host_keys v,
            cd_auth := Some auth\<rparr>))"

definition hasSFTPConnectionDocument :: "connection_document \<Rightarrow> bool" where
  "hasSFTPConnectionDocument d =
     (cd_host d \<noteq> [] \<or> cd_port d \<noteq> 0 \<or> cd_username d \<noteq> [] \<or> cd_host_keys d \<noteq> [] \<or> cd_auth d \<noteq> None)"

definition connectionFromDocument :: "connection_document \<Rightarrow> repo_error + connection" where
  "connectionFromDocument d =
     (if cd_driver d = ''local'' then
        (if cd_endpoint d \<noteq> [] \<or> cd_bucket d \<noteq> [] \<or> cd_prefix d \<noteq> [] \<or> cd_region d \<noteq> []
            \<or> cd_access_key d \<noteq> [] \<or> cd_secret_key d \<noteq> [] \<or> hasSFTPConnectionDocument d
         then Inl LocalInvalid else Inr (LocalConnection (cd_path d)))
      else if cd_driver d = ''s3'' then
        (if cd_path d \<noteq> [] \<or> hasSFTPConnectionDocument d then Inl S3Invalid
         else Inr (S3Connection \<lparr>sc_endpoint = cd_endpoint d, sc_bucket = cd_bucket d,
           sc_prefix = cd_prefix d, sc_region = cd_region d, sc_access_key = cd_access_key d,
           sc_secret_key = cd_secret_key d\<rparr>))
      else if cd_driver d = ''sftp'' then
        (if cd_endpoint d \<noteq> [] \<or> cd_bucket d \<noteq> [] \<or> cd_prefix d \<noteq> [] \<or> cd_region d \<noteq> []
            \<or> cd_access_key d \<noteq> [] \<or> cd_secret_key d \<noteq> []
         then Inl SFTPInvalid
         else case cd_auth d of None \<Rightarrow> Inl SFTPInvalid
           | Some w \<Rightarrow>
               (case authenticationFromDocument w of Inl e \<Rightarrow> Inl e
                | Inr auth \<Rightarrow>
                    Inr (SFTPConnection \<lparr>fc_host = cd_host d, fc_port = cd_port d,
                      fc_username = cd_username d, fc_path = cd_path d,
                      fc_host_keys = cd_host_keys d, fc_authentication = auth\<rparr>)))
      else Inl DriverInvalid)"

definition marshal_connection :: "connection \<Rightarrow> repo_error + json" where
  "marshal_connection c = map_sum id json_of_connection (connection_to_document c)"

definition unmarshal_connection :: "json \<Rightarrow> repo_error + connection" where
  "unmarshal_connection j =
     (case dec_struct True connection_fields j zero_connection_document of
        None \<Rightarrow> Inl DecodeError
      | Some doc \<Rightarrow> connectionFromDocument doc)"

section \<open>Decoding what was encoded\<close>

lemma dec_members_string:
  "find_field fs key = Some (on_field dec_string get_f set_f) \<Longrightarrow> (v = [] \<Longrightarrow> set_f [] r = r)
     \<Longrightarrow> dec_members strict fs (put_string key v @ ms) r = dec_members strict fs ms (set_f v r)"
  by (cases "v = []") (simp_all add: put_string_def on_field_def)

lemma dec_members_string_always:
  "find_field fs key = Some (on_field dec_string get_f set_f)
     \<Longrightarrow> dec_members strict fs ((key, JStr v) # ms) r = dec_members strict fs ms (set_f v r)"
  by (simp add: on_field_def)

lemma dec_members_port:
  "find_field fs key = Some (on_field dec_uint16 get_f set_f) \<Longrightarrow> (n = 0 \<Longrightarrow> set_f 0 r = r) \<Longrightarrow> n < 2 ^ 16
     \<Longrightarrow> dec_members strict fs (put_number key n @ ms) r = dec_members strict fs ms (set_f n r)"
  by (cases "n = 0") (simp_all add: put_number_def on_field_def)

lemma those_strings: "those (map (\<lambda>v. dec_string v []) (map JStr vs)) = Some vs"
  by (induction vs) simp_all

lemma dec_members_strings:
  "find_field fs key = Some (on_field (dec_list dec_string []) get_f set_f) \<Longrightarrow> (vs = [] \<Longrightarrow> set_f [] r = r)
     \<Longrightarrow> dec_members strict fs (put_strings key vs @ ms) r = dec_members strict fs ms (set_f vs r)"
  using those_strings [of vs] by (cases "vs = []") (simp_all add: put_strings_def on_field_def)

lemma dec_members_last_option:
  "find_field fs key = Some (on_field d get_f set_f) \<Longrightarrow> (v = None \<Longrightarrow> set_f None r = r)
     \<Longrightarrow> (\<And>x. v = Some x \<Longrightarrow> d (enc x) (get_f r) = Some (Some x))
     \<Longrightarrow> dec_members strict fs (put_option key (map_option enc v)) r = Some (set_f v r)"
  by (cases v) (auto simp: put_option_def on_field_def)

lemma json_of_authentication_not_null: "json_of_authentication w \<noteq> JNull"
  by (simp add: json_of_authentication_def)

lemma authentication_decode:
  "dec_struct strict authentication_fields (json_of_authentication w) zero_authentication = Some w"
proof -
  have m: "find_field authentication_fields ''method'' =
      Some (on_field dec_string aw_method (\<lambda>v. aw_method_update (\<lambda>_. v)))"
    and p: "find_field authentication_fields ''password'' =
      Some (on_field dec_string aw_password (\<lambda>v. aw_password_update (\<lambda>_. v)))"
    and k: "find_field authentication_fields ''private_key'' =
      Some (on_field dec_string aw_private_key (\<lambda>v. aw_private_key_update (\<lambda>_. v)))"
    by (simp_all add: authentication_fields_def find_field_exact)
  have "dec_members strict authentication_fields (put_string ''private_key'' (aw_private_key w)) r
      = Some (r\<lparr>aw_private_key := aw_private_key w\<rparr>)" if "aw_private_key r = []" for r
    using dec_members_string [OF k, of "aw_private_key w" r strict "[]"] that by simp
  then show ?thesis
    by (simp add: json_of_authentication_def zero_authentication_def
        dec_members_string_always [OF m] dec_members_string [OF p] del: dec_members.simps)
qed

lemma destination_decode:
  assumes "dd_port d < 2 ^ 16"
  shows "dec_struct False destination_fields (json_of_destination d) zero_destination_document = Some d"
proof -
  have f: "find_field destination_fields ''driver'' = Some (on_field dec_string dd_driver (\<lambda>v. dd_driver_update (\<lambda>_. v)))"
    "find_field destination_fields ''path'' = Some (on_field dec_string dd_path (\<lambda>v. dd_path_update (\<lambda>_. v)))"
    "find_field destination_fields ''endpoint'' = Some (on_field dec_string dd_endpoint (\<lambda>v. dd_endpoint_update (\<lambda>_. v)))"
    "find_field destination_fields ''region'' = Some (on_field dec_string dd_region (\<lambda>v. dd_region_update (\<lambda>_. v)))"
    "find_field destination_fields ''bucket'' = Some (on_field dec_string dd_bucket (\<lambda>v. dd_bucket_update (\<lambda>_. v)))"
    "find_field destination_fields ''prefix'' = Some (on_field dec_string dd_prefix (\<lambda>v. dd_prefix_update (\<lambda>_. v)))"
    "find_field destination_fields ''access_key'' = Some (on_field dec_string dd_access_key (\<lambda>v. dd_access_key_update (\<lambda>_. v)))"
    "find_field destination_fields ''secret_key'' = Some (on_field dec_string dd_secret_key (\<lambda>v. dd_secret_key_update (\<lambda>_. v)))"
    "find_field destination_fields ''host'' = Some (on_field dec_string dd_host (\<lambda>v. dd_host_update (\<lambda>_. v)))"
    "find_field destination_fields ''username'' = Some (on_field dec_string dd_username (\<lambda>v. dd_username_update (\<lambda>_. v)))"
    "find_field destination_fields ''root_path'' = Some (on_field dec_string dd_root_path (\<lambda>v. dd_root_path_update (\<lambda>_. v)))"
    by (simp_all add: destination_fields_def find_field_exact)
  have port: "find_field destination_fields ''port'' = Some (on_field dec_uint16 dd_port (\<lambda>v. dd_port_update (\<lambda>_. v)))"
    and keys: "find_field destination_fields ''host_keys'' =
      Some (on_field (dec_list dec_string []) dd_host_keys (\<lambda>v. dd_host_keys_update (\<lambda>_. v)))"
    and auth: "find_field destination_fields ''auth'' =
      Some (on_field (dec_pointer (dec_struct False authentication_fields) zero_authentication)
        dd_auth (\<lambda>v. dd_auth_update (\<lambda>_. v)))"
    by (simp_all add: destination_fields_def find_field_exact)
  have last: "dec_members False destination_fields
      (put_option ''auth'' (map_option json_of_authentication (dd_auth d))) r = Some (r\<lparr>dd_auth := dd_auth d\<rparr>)"
    if "dd_auth r = None" for r
    by (rule dec_members_last_option [OF auth])
      (use that in \<open>simp_all add: dec_pointer_def authentication_decode json_of_authentication_not_null\<close>)
  show ?thesis
    using assms
    by (simp add: json_of_destination_def zero_destination_document_def
        dec_members_string_always [OF f(1)] f [THEN dec_members_string]
        dec_members_port [OF port] dec_members_strings [OF keys] last del: dec_members.simps)
qed

lemma connection_decode:
  assumes "cd_port d < 2 ^ 16"
  shows "dec_struct True connection_fields (json_of_connection d) zero_connection_document = Some d"
proof -
  have f: "find_field connection_fields ''driver'' = Some (on_field dec_string cd_driver (\<lambda>v. cd_driver_update (\<lambda>_. v)))"
    "find_field connection_fields ''path'' = Some (on_field dec_string cd_path (\<lambda>v. cd_path_update (\<lambda>_. v)))"
    "find_field connection_fields ''endpoint'' = Some (on_field dec_string cd_endpoint (\<lambda>v. cd_endpoint_update (\<lambda>_. v)))"
    "find_field connection_fields ''bucket'' = Some (on_field dec_string cd_bucket (\<lambda>v. cd_bucket_update (\<lambda>_. v)))"
    "find_field connection_fields ''prefix'' = Some (on_field dec_string cd_prefix (\<lambda>v. cd_prefix_update (\<lambda>_. v)))"
    "find_field connection_fields ''region'' = Some (on_field dec_string cd_region (\<lambda>v. cd_region_update (\<lambda>_. v)))"
    "find_field connection_fields ''access_key'' = Some (on_field dec_string cd_access_key (\<lambda>v. cd_access_key_update (\<lambda>_. v)))"
    "find_field connection_fields ''secret_key'' = Some (on_field dec_string cd_secret_key (\<lambda>v. cd_secret_key_update (\<lambda>_. v)))"
    "find_field connection_fields ''host'' = Some (on_field dec_string cd_host (\<lambda>v. cd_host_update (\<lambda>_. v)))"
    "find_field connection_fields ''username'' = Some (on_field dec_string cd_username (\<lambda>v. cd_username_update (\<lambda>_. v)))"
    by (simp_all add: connection_fields_def find_field_exact)
  have port: "find_field connection_fields ''port'' = Some (on_field dec_uint16 cd_port (\<lambda>v. cd_port_update (\<lambda>_. v)))"
    and keys: "find_field connection_fields ''host_keys'' =
      Some (on_field (dec_list dec_string []) cd_host_keys (\<lambda>v. cd_host_keys_update (\<lambda>_. v)))"
    and auth: "find_field connection_fields ''auth'' =
      Some (on_field (dec_pointer (dec_struct True authentication_fields) zero_authentication)
        cd_auth (\<lambda>v. cd_auth_update (\<lambda>_. v)))"
    by (simp_all add: connection_fields_def find_field_exact)
  have last: "dec_members True connection_fields
      (put_option ''auth'' (map_option json_of_authentication (cd_auth d))) r = Some (r\<lparr>cd_auth := cd_auth d\<rparr>)"
    if "cd_auth r = None" for r
    by (rule dec_members_last_option [OF auth])
      (use that in \<open>simp_all add: dec_pointer_def authentication_decode json_of_authentication_not_null\<close>)
  show ?thesis
    using assms
    by (simp add: json_of_connection_def zero_connection_document_def
        dec_members_string_always [OF f(1)] f [THEN dec_members_string]
        dec_members_port [OF port] dec_members_strings [OF keys] last del: dec_members.simps)
qed

interpretation auth_codec: wire_codec json_of_authentication
    "dec_struct False authentication_fields" zero_authentication "\<lambda>_. True"
  by unfold_locales (rule authentication_decode)

interpretation destination_codec: wire_codec json_of_destination
    "dec_struct False destination_fields" zero_destination_document "\<lambda>d. dd_port d < 2 ^ 16"
  by unfold_locales (rule destination_decode)

interpretation connection_codec: wire_codec json_of_connection
    "dec_struct True connection_fields" zero_connection_document "\<lambda>d. cd_port d < 2 ^ 16"
  by unfold_locales (rule connection_decode)

lemma authentication_exact:
  "(authenticationFromDocument w = Inr a) = (authenticationDocument a = Inr w)"
  by (cases a; cases w) (auto simp: authenticationFromDocument_def)

section \<open>Properties\<close>

text \<open>A destination document is accepted exactly when it is the document of the destination it
  becomes: a document that sets any field of another driver, or both secrets of an
  authentication, is refused, and no field is lost or renamed on the way.\<close>
theorem destination_document_exact:
  "(destinationFromDocument doc = Inr d) = (destination_to_document d = Inr doc)"
proof
  assume from_doc: "destinationFromDocument doc = Inr d"
  then show "destination_to_document d = Inr doc"
    by (cases doc) (auto simp: destinationFromDocument_def hasSFTPDocument_def zero_destination_document_def
        authentication_exact split: if_splits option.splits sum.splits)
next
  assume to_doc: "destination_to_document d = Inr doc"
  show "destinationFromDocument doc = Inr d"
  proof (cases d)
    case (SFTPDestination v)
    with to_doc obtain w where "authenticationDocument (fd_authentication v) = Inr w"
      by (auto split: sum.splits)
    with SFTPDestination to_doc show ?thesis
      by (auto simp: destinationFromDocument_def zero_destination_document_def authentication_exact [symmetric])
  next
    case NoDestination
    with to_doc show ?thesis by simp
  next
    case (LocalDestination root)
    with to_doc have "doc = zero_destination_document\<lparr>dd_driver := ''local'', dd_path := root\<rparr>" by simp
    then show ?thesis using LocalDestination
      by (simp add: destinationFromDocument_def hasSFTPDocument_def zero_destination_document_def)
  next
    case (S3Destination v)
    with to_doc have "doc = zero_destination_document\<lparr>dd_driver := ''s3'', dd_endpoint := sd_endpoint v,
       dd_region := sd_region v, dd_bucket := sd_bucket v, dd_prefix := sd_prefix v,
       dd_access_key := sd_access_key v, dd_secret_key := sd_secret_key v\<rparr>" by simp
    then show ?thesis using S3Destination
      by (simp add: destinationFromDocument_def hasSFTPDocument_def zero_destination_document_def)
  qed
qed

text \<open>A connection document that a helper receives is accepted exactly when it is the document of
  the connection it becomes.\<close>
theorem connection_document_exact:
  "(connectionFromDocument doc = Inr c) = (connection_to_document c = Inr doc)"
proof
  assume from_doc: "connectionFromDocument doc = Inr c"
  then show "connection_to_document c = Inr doc"
    by (cases doc) (auto simp: connectionFromDocument_def hasSFTPConnectionDocument_def
        zero_connection_document_def authentication_exact split: if_splits option.splits sum.splits)
next
  assume to_doc: "connection_to_document c = Inr doc"
  show "connectionFromDocument doc = Inr c"
  proof (cases c)
    case (SFTPConnection v)
    with to_doc obtain w where "authenticationDocument (fc_authentication v) = Inr w"
      by (auto split: sum.splits)
    with SFTPConnection to_doc show ?thesis
      by (auto simp: connectionFromDocument_def zero_connection_document_def authentication_exact [symmetric])
  next
    case NoConnection
    with to_doc show ?thesis by simp
  next
    case (LocalConnection path)
    with to_doc have "doc = zero_connection_document\<lparr>cd_driver := ''local'', cd_path := path\<rparr>" by simp
    then show ?thesis using LocalConnection
      by (simp add: connectionFromDocument_def hasSFTPConnectionDocument_def zero_connection_document_def)
  next
    case (S3Connection v)
    with to_doc have "doc = zero_connection_document\<lparr>cd_driver := ''s3'', cd_endpoint := sc_endpoint v,
       cd_bucket := sc_bucket v, cd_prefix := sc_prefix v, cd_region := sc_region v,
       cd_access_key := sc_access_key v, cd_secret_key := sc_secret_key v\<rparr>" by simp
    then show ?thesis using S3Connection
      by (simp add: connectionFromDocument_def hasSFTPConnectionDocument_def zero_connection_document_def)
  qed
qed

fun destination_port :: "destination \<Rightarrow> nat" where
  "destination_port (SFTPDestination v) = fd_port v"
| "destination_port _ = 0"

lemma destination_document_port:
  "destination_to_document d = Inr doc \<Longrightarrow> dd_port doc = destination_port d"
  by (cases d) (auto simp: zero_destination_document_def split: sum.splits)

lemma valid_destination_document:
  "destination_validate lib d = None \<Longrightarrow> \<exists>doc. destination_to_document d = Inr doc"
proof (cases d)
  case (SFTPDestination v)
  assume "destination_validate lib d = None"
  with SFTPDestination show ?thesis by (cases "fd_authentication v") (auto split: if_splits)
qed auto



end
