(* ===== verification/Clock.thy ===== *)
theory Clock
  imports GoStrings "HOL-Library.Word" "HOL-Library.Monad_Syntax"
begin

text \<open>
  Protocol timestamps and run identities (agent/types.go). A \<open>time.Time\<close> is its number of
  nanoseconds since 1970-01-01 UTC, an integer. \<open>protocolTimestamp\<close> prints it in the fixed
  layout \<open>2006-01-02T15:04:05.000000Z\<close>, which the agent also parses and, in several
  places, compares as a string. \<open>newULID\<close> encodes the milliseconds and 80 random bits in base 32.
\<close>

type_synonym time = int

abbreviation seconds :: "int \<Rightarrow> int" where
  "seconds n \<equiv> n * 1000000000"

section \<open>The civil calendar\<close>

definition leap_year :: "int \<Rightarrow> bool" where
  "leap_year y = (y mod 4 = 0 \<and> (y mod 100 \<noteq> 0 \<or> y mod 400 = 0))"

text \<open>Days from 0000-01-01 to the first of January of a year.\<close>

definition days_before_year :: "int \<Rightarrow> int" where
  "days_before_year y = 365 * y + (y + 3) div 4 - (y + 99) div 100 + (y + 399) div 400"

definition epoch_days :: int where
  "epoch_days = 719528"

definition year_of_day :: "int \<Rightarrow> int" where
  "year_of_day d =
     (let y = 400 * d div 146097 in
      if days_before_year (y + 1) \<le> d then y + 1
      else if days_before_year y \<le> d then y else y - 1)"

definition month_lengths :: "int \<Rightarrow> int list" where
  "month_lengths y = [31, if leap_year y then 29 else 28, 31, 30, 31, 30, 31, 31, 30, 31, 30, 31]"

fun month_day :: "int list \<Rightarrow> int \<Rightarrow> int \<Rightarrow> int \<times> int" where
  "month_day [] m d = (m, d + 1)"
| "month_day (l # ls) m d = (if d < l then (m, d + 1) else month_day ls (m + 1) (d - l))"

record civil =
  cv_year :: int
  cv_month :: int
  cv_day :: int

definition civil_of_day :: "int \<Rightarrow> civil" where
  "civil_of_day d =
     (let y = year_of_day d; md = month_day (month_lengths y) 1 (d - days_before_year y)
      in \<lparr>cv_year = y, cv_month = fst md, cv_day = snd md\<rparr>)"

definition day_of_civil :: "civil \<Rightarrow> int" where
  "day_of_civil c =
     days_before_year (cv_year c)
       + sum_list (take (nat (cv_month c - 1)) (month_lengths (cv_year c))) + (cv_day c - 1)"

lemma div_bounds: "0 < k \<Longrightarrow> k * (z div k) \<le> z \<and> z < k * (z div k) + k" for k z :: int
proof -
  assume "0 < k"
  then have "0 \<le> z mod k" "z mod k < k" by simp_all
  moreover have "z = k * (z div k) + z mod k" by simp
  ultimately show ?thesis by linarith
qed

lemma div_step:
  fixes k y :: int
  assumes "0 < k"
  shows "(y + k) div k = (y + (k - 1)) div k + (if k dvd y then 1 else 0)"
proof -
  have y: "y = y mod k + k * (y div k)" by simp
  have r: "0 \<le> y mod k" "y mod k < k" using assms by simp_all
  have "y + (k - 1) = (y mod k + (k - 1)) + k * (y div k)" using y by linarith
  then have "(y + (k - 1)) div k = ((y mod k + (k - 1)) + k * (y div k)) div k" by (rule arg_cong)
  moreover have "((y mod k + (k - 1)) + k * (y div k)) div k = y div k + (y mod k + (k - 1)) div k"
    by (rule div_mult_self2) (use assms in simp)
  ultimately have low: "(y + (k - 1)) div k = (y mod k + (k - 1)) div k + y div k" by (simp only: add.commute)
  have "(y mod k + (k - 1)) div k = (if k dvd y then 0 else 1)"
  proof (cases "y mod k = 0")
    case True
    then show ?thesis using assms by (simp add: dvd_eq_mod_eq_0 div_pos_pos_trivial)
  next
    case False
    have "y mod k + (k - 1) = (y mod k - 1) + k * 1" by simp
    then have "(y mod k + (k - 1)) div k = ((y mod k - 1) + k * 1) div k" by (rule arg_cong)
    also have "\<dots> = 1 + (y mod k - 1) div k" by (rule div_mult_self2) (use assms in simp)
    finally have "(y mod k + (k - 1)) div k = 1 + (y mod k - 1) div k" .
    moreover have "(y mod k - 1) div k = 0"
      using False r by (intro div_pos_pos_trivial) linarith+
    ultimately show ?thesis using False by (simp add: dvd_eq_mod_eq_0)
  qed
  moreover have "(y + k) div k = 1 + y div k" by (subst div_add_self2) (use assms in simp_all)
  ultimately show ?thesis using low by simp
qed

lemma days_before_year_bounds:
  "146097 * y - 800 < 400 * days_before_year y" "400 * days_before_year y < 146097 * y + 800"
proof -
  have a: "4 * ((y + 3) div 4) \<le> y + 3" "y + 3 < 4 * ((y + 3) div 4) + 4"
    and b: "100 * ((y + 99) div 100) \<le> y + 99" "y + 99 < 100 * ((y + 99) div 100) + 100"
    and c: "400 * ((y + 399) div 400) \<le> y + 399" "y + 399 < 400 * ((y + 399) div 400) + 400"
    using div_bounds [of 4 "y + 3"] div_bounds [of 100 "y + 99"] div_bounds [of 400 "y + 399"] by auto
  have e: "400 * days_before_year y = 146000 * y + 100 * (4 * ((y + 3) div 4))
      - 4 * (100 * ((y + 99) div 100)) + 400 * ((y + 399) div 400)"
    by (simp add: days_before_year_def)
  show "146097 * y - 800 < 400 * days_before_year y" using a b c unfolding e by linarith
  show "400 * days_before_year y < 146097 * y + 800" using a b c unfolding e by linarith
qed

lemma days_before_year_Suc:
  "days_before_year (y + 1) = days_before_year y + (if leap_year y then 366 else 365)"
proof -
  have "(4::int) dvd 100" "(100::int) dvd 400" by simp_all
  then have dvd: "100 dvd y \<longrightarrow> 4 dvd y" "400 dvd y \<longrightarrow> 100 dvd y"
    by (blast intro: dvd_trans)+
  have leap: "leap_year y = (4 dvd y \<and> (\<not> 100 dvd y \<or> 400 dvd y))"
    by (simp add: leap_year_def dvd_eq_mod_eq_0)
  have "y + 1 + 3 = y + 4" "y + 1 + 99 = y + 100" "y + 1 + 399 = y + 400" by simp_all
  then have step: "days_before_year (y + 1) = days_before_year y + 365 + (if 4 dvd y then 1 else 0)
      - (if 100 dvd y then 1 else 0) + (if 400 dvd y then 1 else 0)"
    using div_step [of 4 y] div_step [of 100 y] div_step [of 400 y]
    by (simp only: days_before_year_def) simp
  show ?thesis using dvd by (cases "4 dvd y"; cases "100 dvd y"; cases "400 dvd y") (simp_all add: step leap)
qed

lemma year_of_day_bounds:
  "days_before_year (year_of_day d) \<le> d \<and> d < days_before_year (year_of_day d + 1)"
proof -
  define y where "y = 400 * d div 146097"
  have lo: "146097 * y \<le> 400 * d" and hi: "400 * d < 146097 * y + 146097"
    using div_bounds [of 146097 "400 * d"] by (simp_all add: y_def)
  have below: "days_before_year (y - 1) \<le> d"
    using days_before_year_bounds(2) [of "y - 1"] lo by (simp add: algebra_simps)
  have above: "d < days_before_year (y + 1 + 1)"
    using days_before_year_bounds(1) [of "y + 1 + 1"] hi by (simp add: algebra_simps)
  have eq: "year_of_day d = (if days_before_year (y + 1) \<le> d then y + 1
      else if days_before_year y \<le> d then y else y - 1)"
    by (simp only: year_of_day_def Let_def y_def [symmetric])
  consider "days_before_year (y + 1) \<le> d" | "\<not> days_before_year (y + 1) \<le> d" "days_before_year y \<le> d"
    | "\<not> days_before_year (y + 1) \<le> d" "\<not> days_before_year y \<le> d" by blast
  then show ?thesis
  proof cases
    case 1
    with above show ?thesis by (simp only: eq if_True)
  next
    case 2
    then show ?thesis by (simp add: eq)
  next
    case 3
    with below show ?thesis by (simp add: eq)
  qed
qed

lemma sum_month_lengths:
  "sum_list (month_lengths y) = (if leap_year y then 366 else 365)"
  by (simp add: month_lengths_def)

lemma month_day_correct:
  assumes "0 \<le> d" and "d < sum_list ls" and "\<forall>l \<in> set ls. 0 < l"
  shows "m \<le> fst (month_day ls m d) \<and> fst (month_day ls m d) < m + int (length ls)
    \<and> 1 \<le> snd (month_day ls m d) \<and> snd (month_day ls m d) \<le> ls ! nat (fst (month_day ls m d) - m)
    \<and> sum_list (take (nat (fst (month_day ls m d) - m)) ls) + snd (month_day ls m d) - 1 = d"
  using assms
proof (induction ls m d rule: month_day.induct)
  case (1 m d)
  then show ?case by simp
next
  case (2 l ls m d)
  show ?case
  proof (cases "d < l")
    case True
    with "2.prems" show ?thesis by simp
  next
    case False
    with "2.prems" have "0 \<le> d - l" "d - l < sum_list ls" "\<forall>k \<in> set ls. 0 < k" by simp_all
    note IH = "2.IH" [OF False this]
    let ?r = "month_day ls (m + 1) (d - l)"
    have n: "nat (fst ?r - m) = Suc (nat (fst ?r - (m + 1)))" using IH by linarith
    show ?thesis using IH False by (simp add: n)
  qed
qed

lemma month_lengths_pos: "\<forall>l \<in> set (month_lengths y). 0 < l"
  by (simp add: month_lengths_def)

lemma civil_of_day_ranges:
  "1 \<le> cv_month (civil_of_day d) \<and> cv_month (civil_of_day d) \<le> 12
   \<and> 1 \<le> cv_day (civil_of_day d)
   \<and> cv_day (civil_of_day d)
       \<le> month_lengths (cv_year (civil_of_day d)) ! nat (cv_month (civil_of_day d) - 1)
   \<and> day_of_civil (civil_of_day d) = d"
proof -
  let ?y = "year_of_day d"
  let ?r = "month_day (month_lengths ?y) 1 (d - days_before_year ?y)"
  have "0 \<le> d - days_before_year ?y" and "d - days_before_year ?y < sum_list (month_lengths ?y)"
    using year_of_day_bounds [of d] by (auto simp: days_before_year_Suc sum_month_lengths)
  from month_day_correct [OF this month_lengths_pos, of 1]
  have r: "1 \<le> fst ?r" "fst ?r < 1 + int (length (month_lengths ?y))" "1 \<le> snd ?r"
    "snd ?r \<le> month_lengths ?y ! nat (fst ?r - 1)"
    "sum_list (take (nat (fst ?r - 1)) (month_lengths ?y)) + snd ?r - 1 = d - days_before_year ?y"
    by auto
  have "length (month_lengths ?y) = 12" by (simp add: month_lengths_def)
  with r show ?thesis by (auto simp: civil_of_day_def day_of_civil_def Let_def)
qed

lemma day_of_civil_of_day [simp]: "day_of_civil (civil_of_day d) = d"
  using civil_of_day_ranges by blast

section \<open>protocolTimestamp and time.Parse\<close>

text \<open>The printed value drops what is below a microsecond.\<close>

definition micros :: "time \<Rightarrow> int" where
  "micros t = t div 1000"

definition protocolTimestamp :: "time \<Rightarrow> string" where
  "protocolTimestamp t =
     (let u = micros t; s = u div 1000000; c = civil_of_day (s div 86400 + epoch_days); r = s mod 86400
      in pad_zero 4 (nat (cv_year c)) @ ''-'' @ pad_zero 2 (nat (cv_month c)) @ ''-''
         @ pad_zero 2 (nat (cv_day c)) @ ''T'' @ pad_zero 2 (nat (r div 3600)) @ '':''
         @ pad_zero 2 (nat (r div 60 mod 60)) @ '':'' @ pad_zero 2 (nat (r mod 60)) @ ''.''
         @ pad_zero 6 (nat (u mod 1000000)) @ ''Z'')"

text \<open>One field of a layout: exactly \<open>n\<close> digits.\<close>

definition take_digits :: "nat \<Rightarrow> string \<Rightarrow> (nat \<times> string) option" where
  "take_digits n s =
     (if n \<le> length s \<and> list_all is_digit (take n s)
      then Some (digits_val (take n s), drop n s) else None)"

definition take_char :: "char \<Rightarrow> string \<Rightarrow> string option" where
  "take_char c s = (case s of [] \<Rightarrow> None | x # xs \<Rightarrow> if x = c then Some xs else None)"

text \<open>The layout's hour \<open>15\<close> also accepts one digit, unlike the other fields.\<close>

definition take_hour :: "string \<Rightarrow> (nat \<times> string) option" where
  "take_hour s = (case take_digits 2 s of Some r \<Rightarrow> Some r | None \<Rightarrow> take_digits 1 s)"

text \<open>\<open>time.Parse("2006-01-02T15:04:05.000000Z", s)\<close>; the fraction may follow a comma.\<close>

definition time_parse :: "string \<Rightarrow> time option" where
  "time_parse s = do {
     (y, s) \<leftarrow> take_digits 4 s;
     s \<leftarrow> take_char (CHR ''-'') s;
     (mo, s) \<leftarrow> take_digits 2 s;
     s \<leftarrow> take_char (CHR ''-'') s;
     (d, s) \<leftarrow> take_digits 2 s;
     s \<leftarrow> take_char (CHR ''T'') s;
     (h, s) \<leftarrow> take_hour s;
     s \<leftarrow> take_char (CHR '':'') s;
     (mi, s) \<leftarrow> take_digits 2 s;
     s \<leftarrow> take_char (CHR '':'') s;
     (se, s) \<leftarrow> take_digits 2 s;
     s \<leftarrow> (case take_char (CHR ''.'') s of Some r \<Rightarrow> Some r | None \<Rightarrow> take_char (CHR '','') s);
     (us, s) \<leftarrow> take_digits 6 s;
     s \<leftarrow> take_char (CHR ''Z'') s;
     if s \<noteq> [] \<or> mo < 1 \<or> 12 < mo \<or> d < 1 \<or> month_lengths (int y) ! (mo - 1) < int d
        \<or> 24 \<le> h \<or> 60 \<le> mi \<or> 60 \<le> se
     then None
     else Some (((day_of_civil \<lparr>cv_year = int y, cv_month = int mo, cv_day = int d\<rparr> - epoch_days) * 86400
                 + int h * 3600 + int mi * 60 + int se) * 1000000000 + int us * 1000)
   }"

text \<open>\<open>timestampPattern\<close> and \<open>validateTimestamp\<close>.\<close>

definition timestamp_char :: "nat \<times> char \<Rightarrow> bool" where
  "timestamp_char = (\<lambda>(i, c). if i = 4 \<or> i = 7 then c = CHR ''-'' else if i = 10 then c = CHR ''T''
     else if i = 13 \<or> i = 16 then c = CHR '':'' else if i = 19 then c = CHR ''.''
     else if i = 26 then c = CHR ''Z'' else is_digit c)"

definition timestamp_shape :: "string \<Rightarrow> bool" where
  "timestamp_shape s = (length s = 27 \<and> list_all timestamp_char (enumerate 0 s))"

definition validateTimestamp :: "string \<Rightarrow> bool" where
  "validateTimestamp s = (timestamp_shape s \<and> time_parse s \<noteq> None)"

lemma length_show_nat: "0 < n \<Longrightarrow> k < 10 ^ n \<Longrightarrow> length (show_nat k) \<le> n"
proof (induction n arbitrary: k)
  case 0
  then show ?case by simp
next
  case (Suc n)
  show ?case
  proof (cases "k < 10")
    case True
    then show ?thesis by (subst show_nat.simps) simp
  next
    case False
    with Suc.prems have "0 < n" by (cases n) auto
    moreover have "k div 10 < 10 ^ n" using Suc.prems by auto
    ultimately have "length (show_nat (k div 10)) \<le> n" by (rule Suc.IH)
    with False show ?thesis by (subst show_nat.simps) simp
  qed
qed

lemma length_pad_zero: "0 < n \<Longrightarrow> k < 10 ^ n \<Longrightarrow> length (pad_zero n k) = n"
  using length_show_nat [of n k] by (simp add: pad_zero_def)

lemma pad_zero_digits: "list_all is_digit (pad_zero n k)"
  using show_nat_digits [of k] by (auto simp: pad_zero_def list_all_iff is_digit_def)

lemma take_digits_pad [simp]:
  "0 < n \<Longrightarrow> k < 10 ^ n \<Longrightarrow> take_digits n (pad_zero n k @ s) = Some (k, s)"
  by (simp add: take_digits_def length_pad_zero pad_zero_digits)

lemma take_hour_pad: "k < 100 \<Longrightarrow> take_hour (pad_zero 2 k @ s) = Some (k, s)"
  by (simp add: take_hour_def)

lemma take_char_Cons [simp]: "take_char c (c # s) = Some s"
  by (simp add: take_char_def)

lemma month_length_le_31: "l \<in> set (month_lengths y) \<Longrightarrow> l \<le> 31"
  by (auto simp: month_lengths_def split: if_splits)

lemma time_parse_fields:
  assumes "y < 10000" "1 \<le> mo" "mo \<le> 12" "1 \<le> d" "int d \<le> month_lengths (int y) ! (mo - 1)" "d < 100"
    "h < 24" "mi < 60" "se < 60" "us < 1000000"
  shows "time_parse (pad_zero 4 y @ ''-'' @ pad_zero 2 mo @ ''-'' @ pad_zero 2 d @ ''T''
      @ pad_zero 2 h @ '':'' @ pad_zero 2 mi @ '':'' @ pad_zero 2 se @ ''.'' @ pad_zero 6 us @ ''Z'')
    = Some (((day_of_civil \<lparr>cv_year = int y, cv_month = int mo, cv_day = int d\<rparr> - epoch_days) * 86400
         + int h * 3600 + int mi * 60 + int se) * 1000000000 + int us * 1000)"
  using assms by (simp add: time_parse_def take_hour_pad not_less not_le)

definition timestamp_marks :: "nat list" where
  "timestamp_marks = [4, 7, 10, 13, 16, 19, 26]"

lemma timestamp_char_digit: "i \<notin> set timestamp_marks \<Longrightarrow> is_digit c \<Longrightarrow> timestamp_char (i, c)"
  by (simp add: timestamp_char_def timestamp_marks_def)

lemma timestamp_digits:
  assumes "length xs = k" "list_all is_digit xs" "list_all (\<lambda>i. i \<notin> set timestamp_marks) [n..<n + k]"
  shows "list_all timestamp_char (enumerate n xs)"
  using assms by (auto simp: list_all_iff in_set_enumerate_eq intro!: timestamp_char_digit)

lemma timestamp_shape_fields:
  assumes "y < 10000" "mo < 100" "d < 100" "h < 100" "mi < 100" "se < 100" "us < 1000000"
  shows "timestamp_shape (pad_zero 4 y @ ''-'' @ pad_zero 2 mo @ ''-'' @ pad_zero 2 d @ ''T''
      @ pad_zero 2 h @ '':'' @ pad_zero 2 mi @ '':'' @ pad_zero 2 se @ ''.'' @ pad_zero 6 us @ ''Z'')"
proof -
  have len: "length (pad_zero 4 y) = 4" "length (pad_zero 6 us) = 6"
    "length (pad_zero 2 mo) = 2" "length (pad_zero 2 d) = 2" "length (pad_zero 2 h) = 2"
    "length (pad_zero 2 mi) = 2" "length (pad_zero 2 se) = 2"
    using assms by (auto intro: length_pad_zero)
  note digits = len [THEN timestamp_digits [OF _ pad_zero_digits]]
  have marks: "timestamp_char (4, CHR ''-'')" "timestamp_char (7, CHR ''-'')" "timestamp_char (10, CHR ''T'')"
    "timestamp_char (13, CHR '':'')" "timestamp_char (16, CHR '':'')" "timestamp_char (19, CHR ''.'')"
    "timestamp_char (26, CHR ''Z'')"
    by (simp_all add: timestamp_char_def)
  show ?thesis
    by (simp add: timestamp_shape_def len enumerate_append_eq digits marks timestamp_marks_def upt_rec)
qed

lemma days_before_year_mono: "y \<le> z \<Longrightarrow> days_before_year y \<le> days_before_year z"
proof (induction z rule: int_ge_induct)
  case base
  then show ?case by simp
next
  case (step z)
  then show ?case by (simp add: days_before_year_Suc)
qed

lemma year_in_range:
  assumes "0 \<le> d" "d < days_before_year 10000"
  shows "0 \<le> cv_year (civil_of_day d) \<and> cv_year (civil_of_day d) < 10000"
proof -
  have b: "days_before_year (year_of_day d) \<le> d" "d < days_before_year (year_of_day d + 1)"
    using year_of_day_bounds by blast+
  have "0 \<le> year_of_day d"
  proof (rule ccontr)
    assume "\<not> 0 \<le> year_of_day d"
    then have "year_of_day d + 1 \<le> 0" by simp
    from days_before_year_mono [OF this] b assms show False by (simp add: days_before_year_def)
  qed
  moreover have "year_of_day d < 10000"
  proof (rule ccontr)
    assume "\<not> year_of_day d < 10000"
    then have "10000 \<le> year_of_day d" by simp
    from days_before_year_mono [OF this] b assms show False by simp
  qed
  ultimately show ?thesis by (simp add: civil_of_day_def Let_def)
qed

lemma combine_fields:
  fixes dc q e h mi s r sec :: int
  shows "dc = q + e \<Longrightarrow> h + mi + s = r \<Longrightarrow> q * 86400 + r = sec \<Longrightarrow> (dc - e) * 86400 + h + mi + s = sec"
  by simp

lemma combine_micros:
  fixes s f u x :: int
  shows "s * 1000000 + f = u \<Longrightarrow> x = s * 1000000000 + f * 1000 \<Longrightarrow> x = 1000 * u"
  by simp

lemma time_parse_protocolTimestamp:
  fixes t :: time
  assumes year: "0 \<le> cv_year (civil_of_day (micros t div 1000000 div 86400 + epoch_days))"
    "cv_year (civil_of_day (micros t div 1000000 div 86400 + epoch_days)) < 10000"
  shows "time_parse (protocolTimestamp t) = Some (1000 * micros t) \<and> timestamp_shape (protocolTimestamp t)"
proof -
  define u where "u = micros t"
  define sec where "sec = u div 1000000"
  define c where "c = civil_of_day (sec div 86400 + epoch_days)"
  define r where "r = sec mod 86400"
  have r: "0 \<le> r" "r < 86400" by (simp_all add: r_def)
  have c: "1 \<le> cv_month c" "cv_month c \<le> 12" "1 \<le> cv_day c"
    "cv_day c \<le> month_lengths (cv_year c) ! nat (cv_month c - 1)"
    "day_of_civil c = sec div 86400 + epoch_days"
    using civil_of_day_ranges [of "sec div 86400 + epoch_days"] by (auto simp: c_def)
  have y: "0 \<le> cv_year c" "cv_year c < 10000" using year by (simp_all add: c_def sec_def u_def)
  have "nat (cv_month c - 1) < length (month_lengths (cv_year c))"
    using c by (simp add: month_lengths_def)
  then have "month_lengths (cv_year c) ! nat (cv_month c - 1) \<in> set (month_lengths (cv_year c))"
    by (rule nth_mem)
  with c have d31: "cv_day c \<le> 31" using month_length_le_31 by fastforce
  have h: "0 \<le> r div 3600" "r div 3600 < 24" using r by linarith+
  have i: "int (nat (cv_year c)) = cv_year c" "int (nat (cv_month c)) = cv_month c"
    "int (nat (cv_day c)) = cv_day c" "int (nat (r div 3600)) = r div 3600"
    "int (nat (r div 60 mod 60)) = r div 60 mod 60" "int (nat (r mod 60)) = r mod 60"
    "int (nat (u mod 1000000)) = u mod 1000000"
    using y c h by simp_all
  have mo: "nat (cv_month c) - 1 = nat (cv_month c - 1)" using c by simp
  have day: "int (nat (cv_day c)) \<le> month_lengths (int (nat (cv_year c))) ! (nat (cv_month c) - 1)"
    using c(4) by (simp only: i mo)
  have b: "nat (cv_year c) < 10000" "1 \<le> nat (cv_month c)" "nat (cv_month c) \<le> 12"
    "1 \<le> nat (cv_day c)" "nat (cv_day c) < 100" "nat (r div 3600) < 24"
    "nat (r div 60 mod 60) < 60" "nat (r mod 60) < 60" "nat (u mod 1000000) < 1000000"
    using y c d31 h by (simp_all add: nat_less_iff)
  note b = b day
  have hms: "(r div 3600) * 3600 + (r div 60 mod 60) * 60 + r mod 60 = r"
  proof -
    have "r div 3600 = r div 60 div 60" by (simp add: zdiv_zmult2_eq [symmetric])
    moreover have "r div 60 = r div 60 div 60 * 60 + r div 60 mod 60" by simp
    moreover have "r = r div 60 * 60 + r mod 60" by simp
    ultimately show ?thesis by linarith
  qed
  have total: "(sec div 86400) * 86400 + r = sec" "sec * 1000000 + u mod 1000000 = u"
    by (simp_all add: r_def sec_def)
  have "time_parse (protocolTimestamp t) =
    Some (((day_of_civil \<lparr>cv_year = cv_year c, cv_month = cv_month c, cv_day = cv_day c\<rparr> - epoch_days)
       * 86400 + (r div 3600) * 3600 + (r div 60 mod 60) * 60
       + r mod 60) * 1000000000 + (u mod 1000000) * 1000)"
    unfolding protocolTimestamp_def Let_def u_def [symmetric] sec_def [symmetric]
      c_def [symmetric] r_def [symmetric]
    by (subst time_parse_fields) (rule b | simp only: i)+
  also have "\<dots> = Some (1000 * u)"
  proof -
    have "((day_of_civil c - epoch_days) * 86400 + (r div 3600) * 3600 + (r div 60 mod 60) * 60 + r mod 60)
        = sec" by (rule combine_fields [OF c(5) hms total(1)])
    then have "((day_of_civil c - epoch_days) * 86400 + (r div 3600) * 3600 + (r div 60 mod 60) * 60 + r mod 60)
        * 1000000000 + (u mod 1000000) * 1000 = sec * 1000000000 + (u mod 1000000) * 1000" by (simp only:)
    moreover have "\<lparr>cv_year = cv_year c, cv_month = cv_month c, cv_day = cv_day c\<rparr> = c" by (cases c) simp
    ultimately show ?thesis using combine_micros [OF total(2)] by (simp only:)
  qed
  finally have "time_parse (protocolTimestamp t) = Some (1000 * micros t)" by (simp add: u_def)
  moreover have "timestamp_shape (protocolTimestamp t)"
    unfolding protocolTimestamp_def Let_def u_def [symmetric] sec_def [symmetric]
      c_def [symmetric] r_def [symmetric]
    by (rule timestamp_shape_fields) (use b in linarith)+
  ultimately show ?thesis ..
qed

text \<open>The instants from 0000-01-01 up to, not including, 10000-01-01.\<close>

definition printable_time :: "time \<Rightarrow> bool" where
  "printable_time t = (seconds (- 62167219200) \<le> t \<and> t < seconds 253402300800)"

lemma printable_year:
  assumes "printable_time t"
  shows "0 \<le> cv_year (civil_of_day (micros t div 1000000 div 86400 + epoch_days))
    \<and> cv_year (civil_of_day (micros t div 1000000 div 86400 + epoch_days)) < 10000"
proof (rule year_in_range)
  have e: "micros t div 1000000 div 86400 = t div 86400000000000"
    by (simp add: micros_def zdiv_zmult2_eq [symmetric])
  have "- 719528 \<le> t div 86400000000000" and "t div 86400000000000 < 2932897"
    using assms div_bounds [of 86400000000000 t] by (simp_all add: printable_time_def)
  then show "0 \<le> micros t div 1000000 div 86400 + epoch_days"
    "micros t div 1000000 div 86400 + epoch_days < days_before_year 10000"
    unfolding e by (simp_all add: epoch_days_def days_before_year_def)
qed

text \<open>Every instant of the years 0 to 9999 prints as a timestamp that \<open>validateTimestamp\<close>
  accepts, and \<open>time.Parse\<close> gives back the instant without what is below a microsecond.\<close>
lemma timestamp_roundtrip:
  "printable_time t \<Longrightarrow> validateTimestamp (protocolTimestamp t)
     \<and> time_parse (protocolTimestamp t) = Some (t - t mod 1000)"
  using time_parse_protocolTimestamp printable_year [of t]
  by (simp add: validateTimestamp_def micros_def minus_mod_eq_mult_div)

lemma timestamp_roundtrip_witness:
  "validateTimestamp (protocolTimestamp 1700000000123456789)
     \<and> time_parse (protocolTimestamp 1700000000123456789) = Some 1700000000123456000"
  using timestamp_roundtrip [of 1700000000123456789] by (simp add: printable_time_def)

section \<open>newULID\<close>

text \<open>The loop that fills \<open>encoded\<close> from the right: \<open>n\<close> digits of a number, the last one first.\<close>

fun digits_be :: "nat \<Rightarrow> nat \<Rightarrow> nat \<Rightarrow> nat list" where
  "digits_be b 0 x = []"
| "digits_be b (Suc n) x = digits_be b n (x div b) @ [x mod b]"

definition be_value :: "nat \<Rightarrow> nat list \<Rightarrow> nat" where
  "be_value b ds = foldl (\<lambda>a d. a * b + d) 0 ds"

definition unix_milli :: "time \<Rightarrow> int" where
  "unix_milli t = t div 1000000"

text \<open>\<open>value[0..5]\<close> hold the low 48 bits of the milliseconds, \<open>value[6..15]\<close> what \<open>rand.Read\<close> gave:
  ten bytes, or an error.\<close>

definition ulid_number :: "time \<Rightarrow> nat list \<Rightarrow> nat" where
  "ulid_number t random = be_value 256 (digits_be 256 6 (nat (unix_milli t mod 2 ^ 64)) @ random)"

definition newULID :: "time \<Rightarrow> nat list option \<Rightarrow> string option" where
  "newULID t random =
     (case random of None \<Rightarrow> None
      | Some bytes \<Rightarrow> Some (map ((!) ulid_alphabet) (digits_be 32 26 (ulid_number t bytes))))"

definition random_bytes :: "nat list \<Rightarrow> bool" where
  "random_bytes bs = (length bs = 10 \<and> (\<forall>b \<in> set bs. b < 256))"

lemma length_digits_be [simp]: "length (digits_be b n x) = n"
  by (induction n arbitrary: x) auto

lemma digits_be_less: "0 < b \<Longrightarrow> d \<in> set (digits_be b n x) \<Longrightarrow> d < b"
  by (induction n arbitrary: x) auto

lemma be_value_snoc: "be_value b (ds @ [d]) = be_value b ds * b + d"
  by (simp add: be_value_def)

lemma be_value_digits: "be_value b (digits_be b n x) = x mod b ^ n"
proof (induction n arbitrary: x)
  case 0
  then show ?case by (simp add: be_value_def)
next
  case (Suc n)
  have "x mod (b * b ^ n) = b * (x div b mod b ^ n) + x mod b" by (rule mod_mult2_eq)
  with Suc show ?case by (simp add: be_value_snoc mult.commute)
qed

lemma be_value_append: "be_value b (xs @ ys) = be_value b xs * b ^ length ys + be_value b ys"
proof (induction ys rule: rev_induct)
  case Nil
  then show ?case by (simp add: be_value_def)
next
  case (snoc y ys)
  then show ?case by (simp add: be_value_snoc append_assoc [symmetric] algebra_simps del: append_assoc)
qed

lemma be_value_less:
  assumes "\<forall>d \<in> set ds. d < b"
  shows "be_value b ds < b ^ length ds"
  using assms
proof (induction ds rule: rev_induct)
  case Nil
  then show ?case by (simp add: be_value_def)
next
  case (snoc d ds)
  then have "be_value b ds + 1 \<le> b ^ length ds" "d < b" by simp_all
  then have "(be_value b ds + 1) * b \<le> b ^ length ds * b" by (intro mult_le_mono1)
  with \<open>d < b\<close> show ?case by (simp add: be_value_snoc mult.commute)
qed

lemma lex_append_less:
  fixes xs ys :: "'a::linorder list"
  assumes "length xs = length ys" and "xs < ys"
  shows "xs @ us < ys @ vs"
  using assms by (induction xs ys rule: list_induct2) auto

lemma lex_map_less:
  fixes xs ys :: "nat list" and f :: "nat \<Rightarrow> char"
  assumes "length xs = length ys" and "xs < ys" and "\<forall>d \<in> set xs \<union> set ys. d < b"
    and "\<And>i j. i < j \<Longrightarrow> j < b \<Longrightarrow> f i < f j"
  shows "List.map f xs < List.map f ys"
  using assms by (induction xs ys rule: list_induct2) auto

lemma digits_be_mono:
  assumes "0 < b" "x < y" "y < b ^ n"
  shows "digits_be b n x < digits_be b n y"
  using assms
proof (induction n arbitrary: x y)
  case 0
  then show ?case by simp
next
  case (Suc n)
  have dy: "y div b < b ^ n" using Suc.prems by (simp add: less_mult_imp_div_less mult.commute)
  show ?case
  proof (cases "x div b < y div b")
    case True
    from Suc.IH [OF Suc.prems(1) this dy] show ?thesis by (simp add: lex_append_less)
  next
    case False
    then have same: "x div b = y div b" using Suc.prems div_le_mono [of x y b] by simp
    moreover have "x mod b < y mod b"
      using Suc.prems same by (metis div_mult_mod_eq nat_add_left_cancel_less)
    moreover have "us @ [c] < us @ [d]" if "c < d" for us and c d :: nat
      using that by (induction us) auto
    ultimately show ?thesis by simp
  qed
qed

lemma alphabet_mono: "i < j \<Longrightarrow> j < 32 \<Longrightarrow> ulid_alphabet ! i < ulid_alphabet ! j"
proof -
  have "sorted_wrt (<) ulid_alphabet" by (simp add: ulid_alphabet_def less_char_def)
  moreover have "length ulid_alphabet = 32" by (simp add: ulid_alphabet_def)
  ultimately show "i < j \<Longrightarrow> j < 32 \<Longrightarrow> ulid_alphabet ! i < ulid_alphabet ! j"
    by (simp add: sorted_wrt_nth_less)
qed

lemma newULID_is_ulid: "newULID t r = Some u \<Longrightarrow> is_ulid u"
proof -
  have "d < 32 \<Longrightarrow> ulid_alphabet ! d \<in> set ulid_alphabet" for d
    by (rule nth_mem) (simp add: ulid_alphabet_def)
  then show "newULID t r = Some u \<Longrightarrow> is_ulid u"
    using digits_be_less [of 32 _ 26]
    by (auto simp: newULID_def is_ulid_def list_all_iff split: option.splits)
qed

lemma ulid_number_split:
  "ulid_number t r = nat (unix_milli t mod 2 ^ 64) mod 2 ^ 48 * 256 ^ length r + be_value 256 r"
  by (simp add: ulid_number_def be_value_append be_value_digits)

lemma newULID_mono:
  assumes "0 \<le> unix_milli t" "unix_milli t < unix_milli t'" "unix_milli t' < 2 ^ 48"
    and "random_bytes r" "random_bytes r'"
    and "newULID t (Some r) = Some u" "newULID t' (Some r') = Some u'"
  shows "u < u'"
proof -
  let ?m = "nat (unix_milli t)" and ?m' = "nat (unix_milli t')"
  have len: "length r = 10" "length r' = 10" and "be_value 256 r < 256 ^ 10" "be_value 256 r' < 256 ^ 10"
    using be_value_less [of r 256] be_value_less [of r' 256] assms by (auto simp: random_bytes_def)
  have n: "ulid_number t r = ?m * 256 ^ 10 + be_value 256 r"
    "ulid_number t' r' = ?m' * 256 ^ 10 + be_value 256 r'"
    using assms len by (simp_all add: ulid_number_split nat_less_iff)
  have "?m + 1 \<le> ?m'" "?m' + 1 \<le> 2 ^ 48" using assms by (simp_all add: nat_less_iff Suc_le_eq)
  then have "(?m + 1) * 256 ^ 10 \<le> ?m' * 256 ^ 10" "(?m' + 1) * 256 ^ 10 \<le> 2 ^ 48 * 256 ^ 10"
    by (simp_all only: mult_le_mono1)
  then have lt: "ulid_number t r < ulid_number t' r'" and bound: "ulid_number t' r' < 32 ^ 26"
    using n \<open>be_value 256 r < 256 ^ 10\<close> \<open>be_value 256 r' < 256 ^ 10\<close> by simp_all
  have "digits_be 32 26 (ulid_number t r) < digits_be 32 26 (ulid_number t' r')"
    by (rule digits_be_mono) (use lt bound in simp_all)
  then have "map ((!) ulid_alphabet) (digits_be 32 26 (ulid_number t r))
      < map ((!) ulid_alphabet) (digits_be 32 26 (ulid_number t' r'))"
    by (intro lex_map_less [where b = 32]) (auto dest: digits_be_less [of 32, rotated] intro: alphabet_mono)
  with assms show ?thesis by (simp add: newULID_def)
qed

text \<open>Identities made by \<open>newULID\<close> at later milliseconds (before the year 10889) are ULIDs that
  compare greater as strings, whatever the random bytes are: sorting commands and events by identity
  sorts them by time.\<close>
theorem ulid_time_order:
  assumes "0 \<le> unix_milli t" "unix_milli t < unix_milli t'" "unix_milli t' < 2 ^ 48"
    and "random_bytes r" "random_bytes r'"
    and "newULID t (Some r) = Some u" "newULID t' (Some r') = Some u'"
  shows "is_ulid u \<and> is_ulid u' \<and> u < u'"
  using newULID_mono [OF assms] assms(6,7) by (auto dest: newULID_is_ulid)

theorem ulid_time_order_witness:
  "the (newULID 1700000000123000000 (Some (replicate 10 255)))
     < the (newULID 1700000000124000000 (Some (replicate 10 0)))"
  using ulid_time_order [of 1700000000123000000 1700000000124000000 "replicate 10 255" "replicate 10 0"]
  by (simp add: newULID_def unix_milli_def random_bytes_def)

end
