(* ===== verification/Digest.thy ===== *)
theory Digest
  imports GoStrings "HOL-Library.Word"
begin

text \<open>
  SHA-256 in lower-case hexadecimal, which the agent prints with \<open>%x\<close>: the digests of snapshot
  inventories, run logs, tokens and configuration files.
\<close>

unbundle bit_operations_syntax

definition ror32 :: "nat \<Rightarrow> 32 word \<Rightarrow> 32 word" where
  "ror32 n w = (drop_bit n w OR push_bit (32 - n) w)"

definition sha_ch :: "32 word \<Rightarrow> 32 word \<Rightarrow> 32 word \<Rightarrow> 32 word" where
  "sha_ch x y z = (x AND y) XOR (NOT x AND z)"

definition sha_maj :: "32 word \<Rightarrow> 32 word \<Rightarrow> 32 word \<Rightarrow> 32 word" where
  "sha_maj x y z = (x AND y) XOR (x AND z) XOR (y AND z)"

definition sha_big0 :: "32 word \<Rightarrow> 32 word" where
  "sha_big0 x = ror32 2 x XOR ror32 13 x XOR ror32 22 x"

definition sha_big1 :: "32 word \<Rightarrow> 32 word" where
  "sha_big1 x = ror32 6 x XOR ror32 11 x XOR ror32 25 x"

definition sha_small0 :: "32 word \<Rightarrow> 32 word" where
  "sha_small0 x = ror32 7 x XOR ror32 18 x XOR drop_bit 3 x"

definition sha_small1 :: "32 word \<Rightarrow> 32 word" where
  "sha_small1 x = ror32 17 x XOR ror32 19 x XOR drop_bit 10 x"

definition sha_k :: "32 word list" where
  "sha_k =
    [1116352408, 1899447441, 3049323471, 3921009573, 961987163, 1508970993, 2453635748, 2870763221,
     3624381080, 310598401, 607225278, 1426881987, 1925078388, 2162078206, 2614888103, 3248222580,
     3835390401, 4022224774, 264347078, 604807628, 770255983, 1249150122, 1555081692, 1996064986,
     2554220882, 2821834349, 2952996808, 3210313671, 3336571891, 3584528711, 113926993, 338241895,
     666307205, 773529912, 1294757372, 1396182291, 1695183700, 1986661051, 2177026350, 2456956037,
     2730485921, 2820302411, 3259730800, 3345764771, 3516065817, 3600352804, 4094571909, 275423344,
     430227734, 506948616, 659060556, 883997877, 958139571, 1322822218, 1537002063, 1747873779,
     1955562222, 2024104815, 2227730452, 2361852424, 2428436474, 2756734187, 3204031479, 3329325298]"

definition sha_initial :: "32 word list" where
  "sha_initial = [1779033703, 3144134277, 1013904242, 2773480762, 1359893119, 2600822924, 528734635, 1541459225]"

text \<open>The message in bytes, a 1 bit, zeros, and its length in bits as 64 bits.\<close>

definition length_bytes :: "nat \<Rightarrow> nat list" where
  "length_bytes bits = map (\<lambda>i. bits div 256 ^ i mod 256) [7, 6, 5, 4, 3, 2, 1, 0]"

definition sha_pad :: "nat list \<Rightarrow> nat list" where
  "sha_pad bs =
     (let n = length bs
      in bs @ 128 # replicate ((119 - n mod 64) mod 64) 0 @ length_bytes (8 * n))"

fun sha_words :: "nat list \<Rightarrow> 32 word list" where
  "sha_words (a # b # c # d # rest) = of_nat (((a * 256 + b) * 256 + c) * 256 + d) # sha_words rest"
| "sha_words _ = []"

text \<open>The schedule: each step appends one word to the last sixteen.\<close>

definition sha_next :: "32 word list \<Rightarrow> 32 word" where
  "sha_next w =
     (let n = length w
      in sha_small1 (w ! (n - 2)) + w ! (n - 7) + sha_small0 (w ! (n - 15)) + w ! (n - 16))"

definition sha_schedule :: "32 word list \<Rightarrow> 32 word list" where
  "sha_schedule w = fold (\<lambda>_ ws. ws @ [sha_next ws]) [0..<48] w"

fun sha_round :: "32 word \<times> 32 word \<Rightarrow> 32 word list \<Rightarrow> 32 word list" where
  "sha_round (k, w) [a, b, c, d, e, f, g, h] =
     (let t1 = h + sha_big1 e + sha_ch e f g + k + w; t2 = sha_big0 a + sha_maj a b c
      in [t1 + t2, a, b, c, d + t1, e, f, g])"
| "sha_round _ s = s"

definition sha_block :: "32 word list \<Rightarrow> 32 word list \<Rightarrow> 32 word list" where
  "sha_block w s = map2 (+) s (fold sha_round (zip sha_k (sha_schedule w)) s)"

definition hex_byte :: "nat \<Rightarrow> string" where
  "hex_byte b = [hex_alphabet ! (b div 16 mod 16), hex_alphabet ! (b mod 16)]"

definition word_hex :: "32 word \<Rightarrow> string" where
  "word_hex w = concat (map (\<lambda>i. hex_byte (unat w div 256 ^ i mod 256)) [3, 2, 1, 0])"

definition sha256_hex :: "string \<Rightarrow> string" where
  "sha256_hex s =
     concat (map word_hex (fold sha_block (chunks 16 (sha_words (sha_pad (map byte s)))) sha_initial))"

lemma length_sha_round [simp]: "length (sha_round kw s) = length s"
  by (induction kw s rule: sha_round.induct) (simp_all add: Let_def)

lemma length_sha_block [simp]: "length (sha_block w s) = length s"
proof -
  have "length (fold sha_round kws s) = length s" for kws
    by (induction kws arbitrary: s) simp_all
  then show ?thesis by (simp add: sha_block_def)
qed

lemma hex_byte_alphabet: "set (hex_byte b) \<subseteq> set hex_alphabet \<and> length (hex_byte b) = 2"
proof -
  have "length hex_alphabet = 16" by (simp add: hex_alphabet_def)
  then have "hex_alphabet ! (n mod 16) \<in> set hex_alphabet" for n by (intro nth_mem) simp
  then show ?thesis by (simp add: hex_byte_def)
qed

lemma word_hex_alphabet: "set (word_hex w) \<subseteq> set hex_alphabet \<and> length (word_hex w) = 8"
  using hex_byte_alphabet by (auto simp: word_hex_def)

lemma sha256_hex_digest: "is_digest (sha256_hex s)"
proof -
  have "length (fold sha_block ws st) = length st" for ws st
    by (induction ws arbitrary: st) simp_all
  then have len: "length (fold sha_block ws sha_initial) = 8" for ws by (simp add: sha_initial_def)
  have "length (concat (map word_hex xs)) = 8 * length xs" for xs
    using word_hex_alphabet by (induction xs) simp_all
  moreover have "set (concat (map word_hex xs)) \<subseteq> set hex_alphabet" for xs
    using word_hex_alphabet by fastforce
  ultimately show ?thesis using len by (auto simp: is_digest_def sha256_hex_def list_all_iff)
qed

end
