(* ===== verification/AgentTypes.thy ===== *)
theory AgentTypes
  imports Clock Json Digest RepositoryModel
begin

text \<open>
  The agent's data (agent/types.go, agent/journal.go and the configuration types of
  agent/config.go). A pointer that may be nil is an option, a \<open>map[string]any\<close> is the list of
  members of a JSON object, a uint64 or an int that only ever counts is a \<open>nat\<close>. Durations and
  times are in nanoseconds, the seconds of the configuration are counts.
\<close>

section \<open>Limits\<close>

definition SpoolBytesLimit :: nat where
  "SpoolBytesLimit = 268435456"

definition maximumRunLog :: nat where
  "maximumRunLog = 8388608"

definition maximumLogChunk :: nat where
  "maximumLogChunk = 262144"

definition maximumEventBatch :: nat where
  "maximumEventBatch = 30"

definition snapshotEvidenceChunkSize :: nat where
  "snapshotEvidenceChunkSize = 400"

section \<open>Jobs\<close>

record table_selection_entry =
  te_database :: string
  te_schema :: string
  te_table :: string

record table_selection =
  ts_mode :: string
  ts_tables :: "table_selection_entry list"

record mysql_source =
  my_host :: string
  my_port :: nat
  my_username :: string
  my_password :: string
  my_password_file :: string
  my_selection_mode :: string
  my_databases :: "string list"
  my_include_routines :: bool
  my_include_events :: bool
  my_custom_flags :: "string list"
  my_table_selection :: "table_selection option"

record postgresql_source =
  pg_host :: string
  pg_port :: nat
  pg_username :: string
  pg_password :: string
  pg_password_file :: string
  pg_connection_database :: string
  pg_selection_mode :: string
  pg_databases :: "string list"
  pg_table_selection :: "table_selection option"

record job_source =
  js_root :: string
  js_paths :: "string list"
  js_one_file_system :: bool
  js_excludes :: "string list"
  js_mysql :: "mysql_source option"
  js_postgresql :: "postgresql_source option"

record job_repository =
  rp_key :: string
  rp_id :: string
  rp_destination :: string
  rp_path :: string
  rp_location :: string
  rp_service_password :: string
  rp_status :: string
  rp_source :: string
  rp_connection :: connection

record job_schedule =
  sh_kind :: string
  sh_preset :: string
  sh_expression :: string
  sh_timezone :: string

record job_maintenance =
  jm_strategy :: string
  jm_max_deferral_seconds :: nat
  jm_prune_interval_seconds :: nat

record complete_snapshot_proof =
  cs_run_id :: string
  cs_finished_at :: string
  cs_snapshot_ids :: "string list"

record job_retention =
  jr_last :: nat
  jr_hourly :: nat
  jr_daily :: nat
  jr_weekly :: nat
  jr_monthly :: nat
  jr_yearly :: nat
  jr_keep_latest_complete :: bool
  jr_group_by :: string
  jr_forget_cron :: string
  jr_prune_cron :: string
  jr_latest_complete :: "complete_snapshot_proof option"
  jr_has_unresolved_runs :: bool
  jr_protected_snapshot_ids :: "string list"
  jr_protected_run_ids :: "string list"

record job_integrity =
  ji_metadata_cron :: string
  ji_data_mode :: string
  ji_data_cron :: string
  ji_data_parts :: nat

record job =
  jb_key :: string
  jb_id :: string
  jb_name :: string
  jb_type :: string
  jb_enabled :: bool
  jb_source :: job_source
  jb_repository :: job_repository
  jb_replicas :: "job_repository list"
  jb_replica_setups :: "job_repository list"
  jb_schedule :: job_schedule
  jb_maintenance :: job_maintenance
  jb_retention :: job_retention
  jb_integrity :: job_integrity

definition isSupportedJobType :: "string \<Rightarrow> bool" where
  "isSupportedJobType t =
     (t \<in> set [''file'', ''mysql'', ''mysql_filtered'', ''postgresql'', ''postgresql_filtered''])"

definition isMySQLJob :: "string \<Rightarrow> bool" where
  "isMySQLJob t = (t \<in> set [''mysql'', ''mysql_filtered''])"

definition isPostgreSQLJob :: "string \<Rightarrow> bool" where
  "isPostgreSQLJob t = (t \<in> set [''postgresql'', ''postgresql_filtered''])"

definition isDatabaseJob :: "string \<Rightarrow> bool" where
  "isDatabaseJob t = (isMySQLJob t \<or> isPostgreSQLJob t)"

definition jobTypeIntroducedIn :: "string \<Rightarrow> string" where
  "jobTypeIntroducedIn t =
     (if t = ''file'' then ''1.0.0'' else if t = ''mysql'' then ''1.1.0''
      else if t = ''postgresql'' then ''1.2.0''
      else if t = ''mysql_filtered'' \<or> t = ''postgresql_filtered'' then ''1.6.0'' else [])"

section \<open>Configuration\<close>

record config_metadata =
  cm_generation :: nat
  cm_revision :: nat
  cm_digest :: string
  cm_file_digest :: string

record config =
  cf_protocol_revision :: string
  cf_generation :: nat
  cf_revision :: nat
  cf_schema_version :: nat
  cf_issued_at :: string
  cf_destinations :: "(string, destination) gomap"
  cf_jobs :: "job list"
  cf_warnings :: "string list"

record bootstrap =
  bs_endpoint :: string
  bs_server_id :: string
  bs_generation :: nat
  bs_credential :: string
  bs_hostname :: string
  bs_setup_token_hash :: string
  bs_cache_key :: string
  bs_enrollment_token_hash :: string

section \<open>Runtime state\<close>

record agent_update_runtime =
  au_command_id :: string
  au_run_id :: string
  au_target_version :: string
  au_started_at :: string
  au_last_schedule_minute :: string

record maintenance_runtime =
  rt_latest_complete :: "complete_snapshot_proof option"
  rt_unresolved :: bool
  rt_unresolved_confirmed :: bool
  rt_unresolved_at_revision :: nat
  rt_data_parts :: nat
  rt_next_data_part :: nat
  rt_last_prune_completed_at :: string

record runtime_state =
  st_revoked :: bool
  st_authentication_paused :: bool
  st_rejected_config_revision :: nat
  st_rejected_config_digest :: string
  st_last_config_error :: string
  st_spool_gap_detected :: bool
  st_spool_gap_version :: nat
  st_clock_offset_seconds :: int
  st_clock_offset_observed_at :: string
  st_maintenance :: "(string, maintenance_runtime) gomap"
  st_agent_update :: "agent_update_runtime option"

definition zero_runtime :: maintenance_runtime where
  "zero_runtime =
     \<lparr>rt_latest_complete = None, rt_unresolved = False, rt_unresolved_confirmed = False,
      rt_unresolved_at_revision = 0, rt_data_parts = 0, rt_next_data_part = 0,
      rt_last_prune_completed_at = []\<rparr>"

definition zero_state :: runtime_state where
  "zero_state =
     \<lparr>st_revoked = False, st_authentication_paused = False, st_rejected_config_revision = 0,
      st_rejected_config_digest = [], st_last_config_error = [], st_spool_gap_detected = False,
      st_spool_gap_version = 0, st_clock_offset_seconds = 0, st_clock_offset_observed_at = [],
      st_maintenance = [], st_agent_update = None\<rparr>"

section \<open>Commands, events and results\<close>

record maintenance_plan =
  pl_kind :: string
  pl_candidate_snapshot_ids :: "string list"
  pl_protected_snapshot_ids :: "string list"
  pl_candidate_run_ids :: "string list"
  pl_protected_run_ids :: "string list"
  pl_data_subset_part :: nat
  pl_data_subset_total :: nat
  pl_combined_retention :: bool
  pl_forget_planned :: bool
  pl_prune_after_forget :: bool
  pl_prune_started :: bool
  pl_prune_completed :: bool

definition zero_plan :: maintenance_plan where
  "zero_plan =
     \<lparr>pl_kind = [], pl_candidate_snapshot_ids = [], pl_protected_snapshot_ids = [],
      pl_candidate_run_ids = [], pl_protected_run_ids = [], pl_data_subset_part = 0,
      pl_data_subset_total = 0, pl_combined_retention = False, pl_forget_planned = False,
      pl_prune_after_forget = False, pl_prune_started = False, pl_prune_completed = False\<rparr>"

type_synonym payload_map = "(string \<times> json) list"

record command_payload =
  cp_job_id :: string
  cp_run_id :: string
  cp_required_config_revision :: nat
  cp_maintenance :: string
  cp_snapshot_ids :: "string list"
  cp_recovery_point_run_ids :: "string list"
  cp_repository_key :: string
  cp_initial_sync :: bool
  cp_maintenance_plan :: "maintenance_plan option"
  cp_retry_of_run_id :: string
  cp_type :: string
  cp_source :: payload_map
  cp_source_digest :: string
  cp_target_version :: string

definition zero_payload :: command_payload where
  "zero_payload =
     \<lparr>cp_job_id = [], cp_run_id = [], cp_required_config_revision = 0, cp_maintenance = [],
      cp_snapshot_ids = [], cp_recovery_point_run_ids = [], cp_repository_key = [],
      cp_initial_sync = False, cp_maintenance_plan = None, cp_retry_of_run_id = [], cp_type = [],
      cp_source = [], cp_source_digest = [], cp_target_version = []\<rparr>"

record agent_command =
  ac_id :: string
  ac_generation :: nat
  ac_kind :: string
  ac_issued_at :: string
  ac_expires_at :: string
  ac_payload :: command_payload

record agent_event =
  ev_id :: string
  ev_run_id :: string
  ev_job_id :: string
  ev_run_kind :: string
  ev_config_revision :: nat
  ev_trigger :: string
  ev_scheduled_for :: string
  ev_sequence :: nat
  ev_occurred_at :: string
  ev_kind :: string
  ev_payload :: payload_map

record snapshot_evidence =
  se_scope :: string
  se_observed_at :: string
  se_snapshot_count :: nat
  se_chunk_count :: nat
  se_sha256 :: string

type_synonym run_statistics = "(string, json) gomap"

record backup_artifact =
  ba_database :: string
  ba_filename :: string
  ba_snapshot_id :: string
  ba_source_bytes :: "nat option"
  ba_stored_bytes :: "nat option"

record source_inspection_failure =
  sf_stage :: string
  sf_detail :: string

record repository_result =
  rr_repository_key :: string
  rr_repository_id :: string
  rr_status :: string
  rr_result_code :: string
  rr_attempt_count :: nat
  rr_started_at :: string
  rr_finished_at :: string
  rr_summary :: string
  rr_diagnostic :: string
  rr_statistics :: "run_statistics option"
  rr_repository_bytes :: "nat option"
  rr_snapshot_evidence :: "snapshot_evidence option"
  rr_snapshot_evidence_ids :: "string list"

record command_result =
  cr_generation :: nat
  cr_run_id :: string
  cr_job_id :: string
  cr_repository_key :: string
  cr_run_kind :: string
  cr_status :: string
  cr_result_code :: string
  cr_started_at :: string
  cr_finished_at :: string
  cr_snapshot_ids :: "string list"
  cr_statistics :: "run_statistics option"
  cr_summary :: string
  cr_diagnostic :: string
  cr_repository_bytes :: "nat option"
  cr_artifacts :: "backup_artifact list"
  cr_databases :: "string list"
  cr_tools :: payload_map
  cr_failure :: "source_inspection_failure option"
  cr_snapshot_evidence :: "snapshot_evidence option"
  cr_snapshot_evidence_ids :: "string list"
  cr_prune_completed :: bool
  cr_repository_results :: "repository_result list"
  cr_maintenance_plan :: "maintenance_plan option"

definition zero_result :: command_result where
  "zero_result =
     \<lparr>cr_generation = 0, cr_run_id = [], cr_job_id = [], cr_repository_key = [], cr_run_kind = [],
      cr_status = [], cr_result_code = [], cr_started_at = [], cr_finished_at = [],
      cr_snapshot_ids = [], cr_statistics = None, cr_summary = [], cr_diagnostic = [],
      cr_repository_bytes = None, cr_artifacts = [], cr_databases = [], cr_tools = [],
      cr_failure = None, cr_snapshot_evidence = None, cr_snapshot_evidence_ids = [],
      cr_prune_completed = False, cr_repository_results = [], cr_maintenance_plan = None\<rparr>"

record agent_update_result =
  ar_generation :: nat
  ar_run_id :: string
  ar_status :: string
  ar_result_code :: string
  ar_previous_version :: string
  ar_target_version :: string
  ar_installed_version :: string
  ar_started_at :: string
  ar_finished_at :: string
  ar_diagnostic :: string

section \<open>The journal\<close>

text \<open>A command keeps its job as an encoded snapshot. \<open>BrokenSnapshot\<close> stands for a text that does not
  decode.\<close>

datatype job_snapshot = NoSnapshot | JobSnapshot job | BrokenSnapshot

record journal_command =
  jc_command :: agent_command
  jc_run_id :: string
  jc_config_revision :: nat
  jc_run_kind :: string
  jc_trigger :: string
  jc_scheduled_for :: string
  jc_job_snapshot :: job_snapshot
  jc_received_at :: string
  jc_acknowledged :: bool
  jc_state :: string
  jc_sequence :: nat
  jc_events :: "agent_event list"
  jc_result :: "command_result option"
  jc_update_result :: "agent_update_result option"
  jc_result_reported :: bool
  jc_log_id :: string
  jc_log_bytes :: nat
  jc_log_sha256 :: string
  jc_log_truncated :: bool
  jc_log_dropped_bytes :: nat
  jc_next_log_chunk :: nat
  jc_log_completed :: bool
  jc_maintenance_plan :: "maintenance_plan option"
  jc_wait_for_backup :: bool
  jc_max_deferral_at :: string
  jc_catch_up_backup :: bool
  jc_replication_pending :: "string list"
  jc_replication_retry_at :: "(string, string) gomap"

record command_journal =
  cj_version :: nat
  cj_commands :: "(string, journal_command) gomap"

definition commandJournalVersion :: nat where
  "commandJournalVersion = 1"

definition newCommandJournal :: command_journal where
  "newCommandJournal = \<lparr>cj_version = commandJournalVersion, cj_commands = []\<rparr>"

section \<open>Protocol revisions\<close>

definition revision_number :: "string \<Rightarrow> nat option" where
  "revision_number s =
     (if s = ''0'' \<or> (s \<noteq> [] \<and> hd s \<noteq> CHR ''0'' \<and> list_all is_digit s)
      then Some (digits_val s) else None)"

text \<open>The three numbers of \<open>protocolRevisionPattern\<close>.\<close>

definition revision_numbers :: "string \<Rightarrow> (nat \<times> nat \<times> nat) option" where
  "revision_numbers s =
     (case split_on (CHR ''.'') s of
        [a, b, c] \<Rightarrow>
          (case (revision_number a, revision_number b, revision_number c) of
             (Some x, Some y, Some z) \<Rightarrow> Some (x, y, z)
           | _ \<Rightarrow> None)
      | _ \<Rightarrow> None)"

definition compatibleProtocolRevision :: "string \<Rightarrow> bool" where
  "compatibleProtocolRevision revision =
     (case revision_numbers revision of None \<Rightarrow> False
      | Some _ \<Rightarrow> hd (split_on (CHR ''.'') revision) = ''1'')"

text \<open>\<open>fmt.Sscanf\<close> reads a number into an \<open>int\<close> and fails beyond 9223372036854775807.\<close>

definition protocolRevisionSupports :: "string \<Rightarrow> string \<Rightarrow> bool" where
  "protocolRevisionSupports revision introduced =
     (if \<not> compatibleProtocolRevision revision \<or> \<not> compatibleProtocolRevision introduced then False
      else case (revision_numbers revision, revision_numbers introduced) of
        (Some (ma, mi, pa), Some (ima, imi, ipa)) \<Rightarrow>
          if \<not> list_all (\<lambda>n. n < 2 ^ 63) [ma, mi, pa, ima, imi, ipa] then False
          else if ma \<noteq> ima then ima < ma
          else if mi \<noteq> imi then imi < mi
          else ipa \<le> pa
      | _ \<Rightarrow> False)"

section \<open>Requests to restic\<close>

record retention_policy =
  rn_last :: nat
  rn_hourly :: nat
  rn_daily :: nat
  rn_weekly :: nat
  rn_monthly :: nat
  rn_yearly :: nat

record restic_request =
  rq_version :: nat
  rq_operation :: string
  rq_connection :: connection
  rq_source_connection :: "connection option"
  rq_password :: string
  rq_source_password :: string
  rq_new_password :: string
  rq_key_id :: string
  rq_root :: string
  rq_paths :: "string list"
  rq_excludes :: "string list"
  rq_host :: string
  rq_tags :: "string list"
  rq_snapshot :: string
  rq_snapshot_ids :: "string list"
  rq_retention :: "retention_policy option"
  rq_data_subset_part :: int
  rq_data_subset_total :: int
  rq_target :: string
  rq_path :: string
  rq_stdin_filename :: string
  rq_stdin_command :: "string list"
  rq_command_config :: string
  rq_timeout_seconds :: int
  rq_lock_wait_seconds :: int
  rq_recover_stale_locks :: bool
  rq_max_nodes :: int
  rq_max_bytes :: int
  rq_interactive :: bool

definition zero_request :: restic_request where
  "zero_request =
     \<lparr>rq_version = 0, rq_operation = [], rq_connection = NoConnection, rq_source_connection = None,
      rq_password = [], rq_source_password = [], rq_new_password = [], rq_key_id = [], rq_root = [],
      rq_paths = [], rq_excludes = [], rq_host = [], rq_tags = [], rq_snapshot = [],
      rq_snapshot_ids = [], rq_retention = None, rq_data_subset_part = 0, rq_data_subset_total = 0,
      rq_target = [], rq_path = [], rq_stdin_filename = [], rq_stdin_command = [],
      rq_command_config = [], rq_timeout_seconds = 0, rq_lock_wait_seconds = 0,
      rq_recover_stale_locks = False, rq_max_nodes = 0, rq_max_bytes = 0, rq_interactive = False\<rparr>"

record restic_result =
  rs_version :: nat
  rs_exit_code :: int
  rs_outcome :: string
  rs_output :: string
  rs_diagnostic :: string
  rs_truncated :: bool
  rs_dropped_bytes :: int

end
