(* ===== verification/Retention.thy ===== *)
theory Retention
  imports AgentTypes
begin

text \<open>
  Maintenance of one repository (agent/maintenance.go): retention with its snapshot inventory,
  protection and persisted plan, prune, checks and inventories. restic, the clock, the context and
  the caller's \<open>persistPlan\<close> are the environment; every call to restic and every plan handed to
  \<open>persistPlan\<close> is recorded in a trace, which the properties are about.
\<close>

section \<open>Environment and state\<close>

text \<open>The n-th answer of each: of restic, of the clock, of \<open>persistPlan\<close> (true if it returned nil), and
  whether the context's deadline has passed when restic was called n times.\<close>

record maintenance_env =
  me_run :: "nat \<Rightarrow> restic_request \<Rightarrow> restic_result"
  me_now :: "nat \<Rightarrow> time"
  me_persist :: "nat \<Rightarrow> maintenance_plan \<Rightarrow> bool"
  me_deadline :: "nat \<Rightarrow> bool"

datatype maintenance_event =
    Ran restic_request restic_result
  | Persisted maintenance_plan bool

record maintenance_state =
  ms_runs :: nat
  ms_reads :: nat
  ms_persists :: nat
  ms_prepared :: bool
  ms_log :: string
  ms_trace :: "maintenance_event list"

definition initial_maintenance :: maintenance_state where
  "initial_maintenance =
     \<lparr>ms_runs = 0, ms_reads = 0, ms_persists = 0, ms_prepared = False, ms_log = [], ms_trace = []\<rparr>"

record maintenance_outcome =
  mo_result :: command_result
  mo_log :: string
  mo_truncated :: bool
  mo_dropped :: nat
  mo_state :: maintenance_state

definition newline :: char where
  "newline = CHR 0x0A"

section \<open>Snapshots\<close>

record repository_snapshot =
  sn_id :: string
  sn_original :: string
  sn_tags :: "string list"

definition zero_snapshot :: repository_snapshot where
  "zero_snapshot = \<lparr>sn_id = [], sn_original = [], sn_tags = []\<rparr>"

definition snapshot_fields :: "(string \<times> repository_snapshot decoder) list" where
  "snapshot_fields =
     [(''id'', on_field dec_string sn_id (\<lambda>v. sn_id_update (\<lambda>_. v))),
      (''original'', on_field dec_string sn_original (\<lambda>v. sn_original_update (\<lambda>_. v))),
      (''tags'', on_field (dec_list dec_string []) sn_tags (\<lambda>v. sn_tags_update (\<lambda>_. v)))]"

definition dec_snapshot :: "repository_snapshot decoder" where
  "dec_snapshot = dec_struct False snapshot_fields"

text \<open>\<open>json.Unmarshal\<close> into \<open>[]repositorySnapshot\<close>.\<close>

definition decode_snapshots :: "string \<Rightarrow> repository_snapshot list option" where
  "decode_snapshots output = unmarshal (dec_list dec_snapshot zero_snapshot) [] output"

text \<open>The inventory is a Go set; it is kept as the sorted list of its members, which is what
  \<open>snapshotIDs\<close> makes of it.\<close>

definition parseSnapshotInventory :: "restic_result \<Rightarrow> string list option" where
  "parseSnapshotInventory r =
     (if rs_exit_code r \<noteq> 0 then None
      else case decode_snapshots (rs_output r) of None \<Rightarrow> None
        | Some snapshots \<Rightarrow>
            if list_all (\<lambda>s. is_digest (sn_id s)) snapshots then Some (unique_sorted (map sn_id snapshots))
            else None)"

definition snapshotRecords :: "restic_result \<Rightarrow> repository_snapshot list" where
  "snapshotRecords r =
     (if rs_exit_code r \<noteq> 0 then []
      else case decode_snapshots (rs_output r) of None \<Rightarrow> [] | Some snapshots \<Rightarrow> snapshots)"

definition forget_group_fields :: "(string \<times> repository_snapshot list decoder) list" where
  "forget_group_fields = [(''remove'', on_field (dec_list dec_snapshot zero_snapshot) id (\<lambda>v _. v))]"

definition parseForgetCandidates :: "restic_result \<Rightarrow> string list option" where
  "parseForgetCandidates r =
     (if rs_exit_code r \<noteq> 0 then None
      else case unmarshal (dec_list (dec_struct False forget_group_fields) []) [] (rs_output r) of
        None \<Rightarrow> None
      | Some groups \<Rightarrow>
          (let ids = map sn_id (concat groups)
           in if list_all is_digest ids then Some (unique_sorted ids) else None))"

record check_summary =
  ck_message_type :: string
  ck_num_errors :: nat

definition check_fields :: "(string \<times> check_summary decoder) list" where
  "check_fields =
     [(''message_type'', on_field dec_string ck_message_type (\<lambda>v. ck_message_type_update (\<lambda>_. v))),
      (''num_errors'', on_field dec_uint64 ck_num_errors (\<lambda>v. ck_num_errors_update (\<lambda>_. v)))]"

definition zero_check :: check_summary where
  "zero_check = \<lparr>ck_message_type = [], ck_num_errors = 0\<rparr>"

text \<open>The lines \<open>bufio.Scanner\<close> gives: a final empty line is no line, a carriage return at the end is
  dropped, and scanning stops at a line that does not fit its buffer of 65536 bytes.\<close>

definition scanner_lines :: "string \<Rightarrow> string list" where
  "scanner_lines text =
     (let parts = split_on newline text;
          parts = (if last parts = [] then butlast parts else parts)
      in map (\<lambda>l. trim_suffix l [CHR 0x0D]) (takeWhile (\<lambda>l. length l < 65536) parts))"

definition check_line :: "check_summary \<Rightarrow> string \<Rightarrow> check_summary" where
  "check_line found line =
     (case unmarshal (dec_struct False check_fields) zero_check line of
        None \<Rightarrow> found
      | Some c \<Rightarrow> if ck_message_type c = ''summary'' then c else found)"

definition parseCheckSummary :: "string \<Rightarrow> check_summary \<times> bool" where
  "parseCheckSummary output =
     (let found = foldl check_line zero_check (scanner_lines output)
      in (found, ck_message_type found = ''summary''))"

definition repositorySnapshotIDs :: "repository_snapshot list \<Rightarrow> string list \<Rightarrow> string list" where
  "repositorySnapshotIDs snapshots ids =
     (let localIDs = foldl (\<lambda>m s. let m = mput (sn_id s) (sn_id s) m
                              in if is_digest (sn_original s) then mput (sn_original s) (sn_id s) m else m)
                       [] snapshots
      in map (\<lambda>i. case mget localIDs i of Some l \<Rightarrow> if l \<noteq> [] then l else i | None \<Rightarrow> i) ids)"

definition run_tag :: "string \<Rightarrow> string" where
  "run_tag run = ''backupchief-run:'' @ trim_prefix run ''run_''"

definition snapshotIDsForRunIDs :: "repository_snapshot list \<Rightarrow> string list \<Rightarrow> string list" where
  "snapshotIDsForRunIDs snapshots runs =
     sort (map sn_id (filter (\<lambda>s. list_ex (\<lambda>t. t \<in> set (map run_tag runs)) (sn_tags s)) snapshots))"

definition runIDsForSnapshots :: "repository_snapshot list \<Rightarrow> string list \<Rightarrow> string list" where
  "runIDsForSnapshots snapshots ids =
     unique_sorted (filter is_ulid (map (\<lambda>t. trim_prefix t ''backupchief-run:'')
       (filter (\<lambda>t. has_prefix t ''backupchief-run:'')
         (concat (map sn_tags (filter (\<lambda>s. sn_id s \<in> set ids) snapshots))))))"

definition expandDatabaseRunCandidates :: "repository_snapshot list \<Rightarrow> string list \<Rightarrow> string list" where
  "expandDatabaseRunCandidates snapshots anchors =
     (let runTags = filter (\<lambda>t. has_prefix t ''backupchief-run:'')
                      (concat (map sn_tags (filter (\<lambda>s. sn_id s \<in> set anchors) snapshots)))
      in sort (map sn_id (filter (\<lambda>s. list_ex (\<lambda>t. t \<in> set runTags) (sn_tags s)) snapshots)))"

definition withoutProtected :: "string list \<Rightarrow> string list \<Rightarrow> string list" where
  "withoutProtected values protected = filter (\<lambda>v. v \<notin> set protected) values"

definition intersectsProtected :: "string list \<Rightarrow> string list \<Rightarrow> bool" where
  "intersectsProtected values protected = list_ex (\<lambda>v. v \<in> set protected) values"

definition retentionPolicyEmpty :: "retention_policy \<Rightarrow> bool" where
  "retentionPolicyEmpty p =
     (rn_last p = 0 \<and> rn_hourly p = 0 \<and> rn_daily p = 0 \<and> rn_weekly p = 0 \<and> rn_monthly p = 0 \<and> rn_yearly p = 0)"

section \<open>Results\<close>

definition json_nat :: "nat \<Rightarrow> json" where
  "json_nat n = JNum (show_nat n)"

text \<open>A Go \<open>int\<close> converted to \<open>uint64\<close>.\<close>

definition json_uint64 :: "int \<Rightarrow> json" where
  "json_uint64 i = json_nat (nat (i mod 2 ^ 64))"

definition maintenanceStatistics :: "nat \<Rightarrow> nat \<Rightarrow> nat \<Rightarrow> nat \<Rightarrow> run_statistics" where
  "maintenanceStatistics inventory candidates remaining protected =
     [(''snapshots_considered'', json_nat inventory),
      (''snapshots_removed'', json_uint64 (int candidates - int remaining)),
      (''snapshots_retained'', json_uint64 (int inventory - int candidates + int remaining)),
      (''snapshots_protected'', json_nat protected)]"

definition maintenanceSummary :: "string \<Rightarrow> nat \<Rightarrow> string" where
  "maintenanceSummary kind removed =
     (if kind = ''forget'' then ''Retention removed '' @ show_nat removed @ '' snapshot(s).''
      else ''Maintenance completed.'')"

definition boundedMaintenanceDiagnostic :: "string \<Rightarrow> string" where
  "boundedMaintenanceDiagnostic diagnostic =
     (let d = trim_space diagnostic
      in if d = [] then ''Restic did not provide more detail.''
         else if 4096 < rune_length d then concat (take 4096 (runes d)) else d)"

definition resultCodeForExit :: "int \<Rightarrow> string" where
  "resultCodeForExit code =
     (if code = 10 then ''repository_missing'' else if code = 11 then ''repository_locked''
      else if code = 12 then ''repository_authentication_failed'' else ''execution_failed'')"

definition set_status :: "string \<Rightarrow> string \<Rightarrow> string \<Rightarrow> command_result \<Rightarrow> command_result" where
  "set_status status code summary r =
     r\<lparr>cr_status := status, cr_result_code := code, cr_summary := summary\<rparr>"

definition maintenanceResult :: "command_result \<Rightarrow> restic_result \<Rightarrow> bool \<Rightarrow> string \<Rightarrow> command_result" where
  "maintenanceResult base response deadline successSummary =
     (if rs_exit_code response = 0 then set_status ''complete'' ''success'' successSummary base
      else if rs_outcome response = ''cancelled'' then
        (let base = base\<lparr>cr_diagnostic := boundedMaintenanceDiagnostic (rs_diagnostic response)\<rparr>
         in if deadline
            then set_status ''failed'' ''timed_out''
                   ''The maintenance operation exceeded its execution deadline.'' base
            else set_status ''cancelled'' ''cancelled'' ''The maintenance operation was cancelled.'' base)
      else set_status ''failed'' (resultCodeForExit (rs_exit_code response))
             ''Restic could not complete the maintenance operation.''
             (base\<lparr>cr_diagnostic := boundedMaintenanceDiagnostic (rs_diagnostic response)\<rparr>))"

text \<open>The evidence of an inventory: the digest of its sorted members, one a line.\<close>

definition evidence_input :: "string list \<Rightarrow> string" where
  "evidence_input ids = (if ids = [] then [] else join_with [newline] ids @ [newline])"

definition attachSnapshotEvidence :: "string \<Rightarrow> string list \<Rightarrow> time \<Rightarrow> command_result \<Rightarrow> command_result" where
  "attachSnapshotEvidence scope snapshots observedAt r =
     (let ids = sort snapshots
      in r\<lparr>cr_snapshot_evidence := Some
             \<lparr>se_scope = scope, se_observed_at = protocolTimestamp observedAt,
              se_snapshot_count = length ids,
              se_chunk_count = (length ids + snapshotEvidenceChunkSize - 1) div snapshotEvidenceChunkSize,
              se_sha256 = sha256_hex (evidence_input ids)\<rparr>,
           cr_snapshot_evidence_ids := ids\<rparr>)"

section \<open>Calls\<close>

definition log_line :: "string \<Rightarrow> string" where
  "log_line s = (if s = [] then [] else if has_suffix s [newline] then s else s @ [newline])"

definition appendMaintenanceLog :: "string \<Rightarrow> restic_result \<Rightarrow> string" where
  "appendMaintenanceLog log r = log @ log_line (rs_output r) @ log_line (rs_diagnostic r)"

definition call_restic :: "maintenance_env \<Rightarrow> restic_request \<Rightarrow> maintenance_state \<Rightarrow> restic_result \<times> maintenance_state" where
  "call_restic env rq st =
     (let response = me_run env (ms_runs st) rq
      in (response, st\<lparr>ms_runs := Suc (ms_runs st), ms_log := appendMaintenanceLog (ms_log st) response,
           ms_trace := ms_trace st @ [Ran rq response]\<rparr>))"

text \<open>The \<open>run\<close> closure of \<open>executeMaintenance\<close>: only the first request recovers stale locks, and a locked
  repository is tried once more with recovery.\<close>

definition run_maintenance :: "maintenance_env \<Rightarrow> int \<Rightarrow> restic_request \<Rightarrow> maintenance_state \<Rightarrow> restic_result \<times> maintenance_state" where
  "run_maintenance env timeout rq st =
     (let rq = rq\<lparr>rq_timeout_seconds := timeout, rq_lock_wait_seconds := 5 * 60,
                  rq_recover_stale_locks := \<not> ms_prepared st\<rparr>;
          (response, st) = call_restic env rq (st\<lparr>ms_prepared := True\<rparr>)
      in if rs_exit_code response = 11 \<and> \<not> rq_recover_stale_locks rq
         then call_restic env (rq\<lparr>rq_recover_stale_locks := True\<rparr>) st
         else (response, st))"

definition read_clock :: "maintenance_env \<Rightarrow> maintenance_state \<Rightarrow> time \<times> maintenance_state" where
  "read_clock env st = (me_now env (ms_reads st), st\<lparr>ms_reads := Suc (ms_reads st)\<rparr>)"

definition persist_plan :: "maintenance_env \<Rightarrow> maintenance_plan \<Rightarrow> maintenance_state \<Rightarrow> bool \<times> maintenance_state" where
  "persist_plan env plan st =
     (let ok = me_persist env (ms_persists st) plan
      in (ok, st\<lparr>ms_persists := Suc (ms_persists st), ms_trace := ms_trace st @ [Persisted plan ok]\<rparr>))"

definition deadline_passed :: "maintenance_env \<Rightarrow> maintenance_state \<Rightarrow> bool" where
  "deadline_passed env st = me_deadline env (ms_runs st)"

definition finish_maintenance :: "maintenance_env \<Rightarrow> command_result \<Rightarrow> maintenance_state \<Rightarrow> maintenance_outcome" where
  "finish_maintenance env r st =
     (let (t, st) = read_clock env st; log = ms_log st
      in \<lparr>mo_result = r\<lparr>cr_finished_at := protocolTimestamp t\<rparr>, mo_log = take maximumRunLog log,
          mo_truncated = (maximumRunLog < length log), mo_dropped = length log - maximumRunLog,
          mo_state = st\<rparr>)"

section \<open>Retention\<close>

definition maintenanceRequest :: "job \<Rightarrow> restic_request" where
  "maintenanceRequest j =
     zero_request\<lparr>rq_version := 1, rq_connection := rp_connection (jb_repository j),
       rq_password := rp_service_password (jb_repository j)\<rparr>"

text \<open>In seconds, as the requests carry it.\<close>

definition maintenanceTimeout :: "string \<Rightarrow> job \<Rightarrow> int" where
  "maintenanceTimeout kind j =
     (if kind = ''forget'' then
        (if jm_strategy (jb_maintenance j) = ''after_scheduled_backup'' then 6 * 3600 else 30 * 60)
      else if kind = ''prune'' then 6 * 3600
      else if kind = ''check_metadata'' \<or> kind = ''snapshot_inventory'' then 3600
      else 12 * 3600)"

definition pruneStatus :: "restic_result \<Rightarrow> bool \<Rightarrow> string" where
  "pruneStatus response deadline =
     (if rs_outcome response \<noteq> ''cancelled'' then ''failed''
      else if deadline then ''timed_out'' else ''cancelled'')"

definition set_statistic :: "string \<Rightarrow> string \<Rightarrow> command_result \<Rightarrow> command_result" where
  "set_statistic key v r =
     r\<lparr>cr_statistics := Some (mput key (JStr v) (case cr_statistics r of None \<Rightarrow> [] | Some s \<Rightarrow> s))\<rparr>"

definition set_summary :: "string \<Rightarrow> command_result \<Rightarrow> command_result" where
  "set_summary s r = r\<lparr>cr_summary := s\<rparr>"

text \<open>What \<open>run\<close>, \<open>finish\<close> and \<open>persistPlan\<close> close over.\<close>

record forget_context =
  fx_env :: maintenance_env
  fx_timeout :: int
  fx_job :: job

abbreviation fx_run :: "forget_context \<Rightarrow> restic_request \<Rightarrow> maintenance_state \<Rightarrow> restic_result \<times> maintenance_state" where
  "fx_run fx \<equiv> run_maintenance (fx_env fx) (fx_timeout fx)"

abbreviation fx_finish :: "forget_context \<Rightarrow> command_result \<Rightarrow> maintenance_state \<Rightarrow> maintenance_outcome" where
  "fx_finish fx \<equiv> finish_maintenance (fx_env fx)"

definition finishRetention ::
  "forget_context \<Rightarrow> restic_request \<Rightarrow> command_result \<Rightarrow> maintenance_plan option \<Rightarrow> maintenance_state \<Rightarrow> maintenance_outcome" where
  "finishRetention fx rq result plan st =
     (case plan of
        None \<Rightarrow> fx_finish fx result st
      | Some p \<Rightarrow>
          if \<not> pl_combined_retention p then fx_finish fx result st
          else if \<not> pl_prune_after_forget p
          then fx_finish fx (set_statistic ''prune_status'' ''not_due'' result) st
          else
            (let updated = p\<lparr>pl_prune_started := True\<rparr>;
                 (ok, st) = persist_plan (fx_env fx) updated st
             in if \<not> ok then
                  fx_finish fx (set_statistic ''prune_status'' ''failed''
                    (set_status ''failed'' ''execution_failed''
                       ''Retention completed, but the prune phase could not be persisted before execution.''
                       result)) st
                else
                  (let rq = rq\<lparr>rq_operation := ''prune'', rq_retention := None, rq_snapshot_ids := [], rq_tags := []\<rparr>;
                       (response, st) = fx_run fx rq st
                   in if rs_exit_code response \<noteq> 0 then
                        (let deadline = deadline_passed (fx_env fx) st
                         in fx_finish fx
                              (set_summary ''Retention completed, but repository prune did not complete.''
                                (set_statistic ''prune_status'' (pruneStatus response deadline)
                                  (maintenanceResult result response deadline
                                     ''Repository prune completed.''))) st)
                      else
                        (let (ok, st) = persist_plan (fx_env fx) (updated\<lparr>pl_prune_completed := True\<rparr>) st
                         in if \<not> ok then
                              fx_finish fx (set_statistic ''prune_status'' ''outcome_unresolved''
                                (set_status ''unresolved'' ''outcome_unresolved''
                                   ''Repository prune completed, but its durable completion marker could not be saved.''
                                   result)) st
                            else
                              fx_finish fx (set_summary ''Retention and repository prune completed.''
                                (set_statistic ''prune_status'' ''complete''
                                   (result\<lparr>cr_prune_completed := True\<rparr>))) st))))"

text \<open>The snapshots retention must keep: those of the latest complete recovery point, by its run or, when
  no snapshot carries its tag, by its recorded snapshots, and the protected snapshots and runs.\<close>

definition protected_snapshots :: "repository_snapshot list \<Rightarrow> job \<Rightarrow> complete_snapshot_proof \<Rightarrow> string list" where
  "protected_snapshots records j proof =
     (let byRun = snapshotIDsForRunIDs records [cs_run_id proof];
          proofIDs = (if byRun = [] then repositorySnapshotIDs records (cs_snapshot_ids proof) else byRun)
      in unique_sorted (proofIDs
           @ repositorySnapshotIDs records (jr_protected_snapshot_ids (jb_retention j))
           @ snapshotIDsForRunIDs records (jr_protected_run_ids (jb_retention j))))"

text \<open>Choosing candidates ends the operation (the left case) or gives them with the request, whose
  operation, retention and tags the policy path changes.\<close>

definition skip_protected ::
  "forget_context \<Rightarrow> string list \<Rightarrow> time \<Rightarrow> command_result \<Rightarrow> maintenance_state \<Rightarrow> maintenance_outcome" where
  "skip_protected fx inventory observed result st =
     fx_finish fx (set_status ''skipped'' ''recovery_point_protected''
       ''The recovery point was not expired because it is protected.''
       (attachSnapshotEvidence ''repository'' inventory observed result)) st"

definition targeted_candidates ::
  "forget_context \<Rightarrow> repository_snapshot list \<Rightarrow> string list \<Rightarrow> string list \<Rightarrow> time \<Rightarrow> string list \<Rightarrow>
   command_result \<Rightarrow> maintenance_state \<Rightarrow> maintenance_outcome + string list" where
  "targeted_candidates fx records protected inventory observed targets result st =
     (if intersectsProtected targets protected then Inl (skip_protected fx inventory observed result st)
      else
        (let ids = (if isDatabaseJob (jb_type (fx_job fx)) then expandDatabaseRunCandidates records targets
                    else targets)
         in if intersectsProtected ids protected then Inl (skip_protected fx inventory observed result st)
            else Inr (unique_sorted (filter (\<lambda>i. i \<in> set inventory) ids))))"

definition retention_policy_of :: "job \<Rightarrow> retention_policy" where
  "retention_policy_of j =
     (let r = jb_retention j
      in \<lparr>rn_last = jr_last r, rn_hourly = jr_hourly r, rn_daily = jr_daily r,
          rn_weekly = jr_weekly r, rn_monthly = jr_monthly r, rn_yearly = jr_yearly r\<rparr>)"

definition anchor_tag :: string where
  "anchor_tag = ''backupchief-run-anchor''"

definition policy_candidates ::
  "forget_context \<Rightarrow> restic_request \<Rightarrow> repository_snapshot list \<Rightarrow> string list \<Rightarrow> command_result \<Rightarrow>
   maintenance_state \<Rightarrow> maintenance_outcome + (string list \<times> restic_request \<times> maintenance_state)" where
  "policy_candidates fx rq records protected result st =
     (let database = isDatabaseJob (jb_type (fx_job fx));
          policy = retention_policy_of (fx_job fx);
          select = (\<lambda>ids rq st. Inr (withoutProtected
                      (if database then expandDatabaseRunCandidates records ids else ids) protected, rq, st))
      in if retentionPolicyEmpty policy then
           select (sort (map sn_id (filter (\<lambda>s. \<not> database \<or> anchor_tag \<in> set (sn_tags s)) records))) rq st
         else
           (let rq = rq\<lparr>rq_operation := ''forget_plan'', rq_retention := Some policy\<rparr>;
                rq = (if database then rq\<lparr>rq_tags := [anchor_tag]\<rparr> else rq);
                (response, st) = fx_run fx rq st
            in case parseForgetCandidates response of
                 None \<Rightarrow> Inl (fx_finish fx (maintenanceResult result response
                           (deadline_passed (fx_env fx) st) ''Retention plan completed.'') st)
               | Some ids \<Rightarrow> select ids rq st))"

definition forget_planned :: "maintenance_plan option \<Rightarrow> bool" where
  "forget_planned plan =
     (case plan of None \<Rightarrow> False
      | Some p \<Rightarrow> pl_forget_planned p \<or> pl_candidate_snapshot_ids p \<noteq> [] \<or> pl_protected_snapshot_ids p \<noteq> [])"

definition planned_candidates :: "repository_snapshot list \<Rightarrow> maintenance_plan \<Rightarrow> string list" where
  "planned_candidates records p =
     (if pl_candidate_run_ids p \<noteq> [] then snapshotIDsForRunIDs records (pl_candidate_run_ids p)
      else pl_candidate_snapshot_ids p)"

definition fresh_plan ::
  "repository_snapshot list \<Rightarrow> string list \<Rightarrow> string list \<Rightarrow> complete_snapshot_proof \<Rightarrow> job \<Rightarrow>
   maintenance_plan option \<Rightarrow> maintenance_plan" where
  "fresh_plan records candidates protected proof j plan =
     zero_plan\<lparr>pl_kind := ''forget'', pl_candidate_snapshot_ids := candidates,
       pl_protected_snapshot_ids := protected,
       pl_candidate_run_ids := runIDsForSnapshots records candidates,
       pl_protected_run_ids := unique_sorted (cs_run_id proof # jr_protected_run_ids (jb_retention j)),
       pl_forget_planned := True,
       pl_combined_retention := (case plan of None \<Rightarrow> False | Some p \<Rightarrow> pl_combined_retention p),
       pl_prune_after_forget := (case plan of None \<Rightarrow> False | Some p \<Rightarrow> pl_prune_after_forget p)\<rparr>"

text \<open>A new plan is chosen by targeted runs, by targeted snapshots or by the policy, and is persisted
  before it is used.\<close>

definition choose_plan ::
  "forget_context \<Rightarrow> restic_request \<Rightarrow> repository_snapshot list \<Rightarrow> string list \<Rightarrow> string list \<Rightarrow> time \<Rightarrow>
   complete_snapshot_proof \<Rightarrow> string list \<Rightarrow> string list \<Rightarrow> maintenance_plan option \<Rightarrow> command_result \<Rightarrow>
   maintenance_state \<Rightarrow>
   maintenance_outcome + (string list \<times> restic_request \<times> maintenance_plan \<times> maintenance_state)" where
  "choose_plan fx rq records protected inventory observed proof targets runs plan result st =
     (case (if runs \<noteq> [] then Inr (snapshotIDsForRunIDs records runs, rq, st)
            else if targets \<noteq> [] then
              (case targeted_candidates fx records protected inventory observed targets result st of
                 Inl done \<Rightarrow> Inl done | Inr ids \<Rightarrow> Inr (ids, rq, st))
            else policy_candidates fx rq records protected result st) of
        Inl done \<Rightarrow> Inl done
      | Inr (ids, rq, st) \<Rightarrow>
          (let new_plan = fresh_plan records ids protected proof (fx_job fx) plan;
               (ok, st) = persist_plan (fx_env fx) new_plan st
           in if ok then Inr (ids, rq, new_plan, st)
              else Inl (fx_finish fx (set_status ''failed'' ''execution_failed''
                     ''The retention plan could not be persisted before execution.'' result) st)))"

definition forget_request :: "restic_request \<Rightarrow> string list \<Rightarrow> restic_request" where
  "forget_request rq ids = rq\<lparr>rq_operation := ''forget'', rq_retention := None, rq_snapshot_ids := ids\<rparr>"

fun forget_batches ::
  "forget_context \<Rightarrow> restic_request \<Rightarrow> string list list \<Rightarrow> maintenance_state \<Rightarrow>
   restic_result option \<times> maintenance_state" where
  "forget_batches fx rq [] st = (None, st)"
| "forget_batches fx rq (ids # rest) st =
     (let (response, st) = fx_run fx (forget_request rq ids) st
      in if rs_exit_code response \<noteq> 0 then (Some response, st) else forget_batches fx rq rest st)"

definition count_in :: "string list \<Rightarrow> string list \<Rightarrow> nat" where
  "count_in values inventory = length (filter (\<lambda>v. v \<in> set inventory) values)"

text \<open>The removal and what the listing after it shows.\<close>

definition remove_candidates ::
  "forget_context \<Rightarrow> restic_request \<Rightarrow> string list \<Rightarrow> string list \<Rightarrow> string list \<Rightarrow> maintenance_plan option \<Rightarrow>
   command_result \<Rightarrow> maintenance_state \<Rightarrow> maintenance_outcome" where
  "remove_candidates fx rq inventory protected ids plan result st =
     (let considered = length inventory + (length ids - count_in ids inventory);
          (failed, st) = forget_batches fx rq (chunks 100 ids) st;
          rq = rq\<lparr>rq_operation := ''snapshots'', rq_retention := None, rq_snapshot_ids := []\<rparr>;
          (afterResult, st) = fx_run fx rq st
      in case parseSnapshotInventory afterResult of
           None \<Rightarrow>
             (let (t, st) = read_clock (fx_env fx) st
              in fx_finish fx (set_status ''unresolved'' ''outcome_unresolved''
                   ''Retention changed repository metadata but its final snapshot state could not be verified.''
                   (attachSnapshotEvidence ''candidates'' ids t result)) st)
         | Some after \<Rightarrow>
             (let remaining = count_in ids after; removed = length ids - remaining;
                  (t, st) = read_clock (fx_env fx) st;
                  statistics = maintenanceStatistics considered (length ids) remaining (length protected);
                  result = (attachSnapshotEvidence ''repository'' after t result)
                             \<lparr>cr_statistics := Some statistics\<rparr>
              in if remaining = 0 then
                   finishRetention fx rq (set_status ''complete'' ''success''
                     (maintenanceSummary ''forget'' removed) result) plan st
                 else if 0 < removed then
                   fx_finish fx (set_status ''partial'' ''snapshot_removal_incomplete''
                     (''Retention removed '' @ show_nat removed @ '' snapshot(s), but '' @ show_nat remaining
                      @ '' selected snapshot(s) remain.'') result) st
                 else
                   (case failed of
                      Some f \<Rightarrow> fx_finish fx ((maintenanceResult result f (deadline_passed (fx_env fx) st)
                                  ''Retention completed.'')\<lparr>cr_statistics := Some statistics\<rparr>) st
                    | None \<Rightarrow> fx_finish fx (set_status ''failed'' ''execution_failed''
                                ''Retention did not remove its selected snapshots.'' result) st)))"

definition apply_plan ::
  "forget_context \<Rightarrow> restic_request \<Rightarrow> string list \<Rightarrow> string list \<Rightarrow> time \<Rightarrow> string list \<Rightarrow>
   maintenance_plan option \<Rightarrow> command_result \<Rightarrow> maintenance_state \<Rightarrow> maintenance_outcome" where
  "apply_plan fx rq inventory protected observed ids plan result st =
     (if ids = [] then
        finishRetention fx rq
          (set_status ''complete'' ''success'' ''Retention found no snapshots to remove.''
            ((attachSnapshotEvidence ''repository'' inventory observed result)
               \<lparr>cr_statistics := Some (maintenanceStatistics (length inventory) 0 0 (length protected))\<rparr>))
          plan st
      else remove_candidates fx rq inventory protected ids plan result st)"

definition executeForget ::
  "forget_context \<Rightarrow> restic_request \<Rightarrow> command_result \<Rightarrow> complete_snapshot_proof \<Rightarrow> string list \<Rightarrow>
   string list \<Rightarrow> maintenance_plan option \<Rightarrow> maintenance_state \<Rightarrow> maintenance_outcome" where
  "executeForget fx rq result proof targets runs plan st =
     (let rq = rq\<lparr>rq_operation := ''snapshots''\<rparr>;
          (listing, st) = fx_run fx rq st
      in case parseSnapshotInventory listing of
           None \<Rightarrow> fx_finish fx (maintenanceResult result listing (deadline_passed (fx_env fx) st)
                     ''Snapshot inventory completed.'') st
         | Some inventory \<Rightarrow>
             (let (observed, st) = read_clock (fx_env fx) st;
                  records = snapshotRecords listing;
                  protected = protected_snapshots records (fx_job fx) proof
              in if list_ex (\<lambda>s. s \<notin> set inventory) protected then
                   fx_finish fx (set_status ''skipped'' ''recovery_point_unavailable''
                     ''Retention was skipped because the latest complete recovery point is missing.''
                     (attachSnapshotEvidence ''repository'' inventory observed result)) st
                 else if forget_planned plan then
                   apply_plan fx rq inventory protected observed (planned_candidates records (the plan))
                     plan result st
                 else
                   (case choose_plan fx rq records protected inventory observed proof targets runs plan
                           result st of
                      Inl done \<Rightarrow> done
                    | Inr (ids, rq, new_plan, st) \<Rightarrow>
                        apply_plan fx rq inventory protected observed ids (Some new_plan) result st)))"

section \<open>Maintenance\<close>

definition maintenance_base :: "maintenance_env \<Rightarrow> nat \<Rightarrow> journal_command \<Rightarrow> job \<Rightarrow> maintenance_state \<Rightarrow> command_result \<times> maintenance_state" where
  "maintenance_base env generation command j st =
     (let (t, st) = read_clock env st
      in (zero_result\<lparr>cr_generation := generation, cr_run_id := jc_run_id command, cr_job_id := jb_id j,
            cr_run_kind := jc_run_kind command, cr_started_at := protocolTimestamp t\<rparr>, st))"

definition check_result ::
  "string \<Rightarrow> maintenance_plan option \<Rightarrow> restic_result \<Rightarrow> bool \<Rightarrow> command_result \<Rightarrow> command_result" where
  "check_result kind plan response deadline result =
     (let (summary, found) = parseCheckSummary (rs_output response);
          code = rs_exit_code response;
          integrity = (code \<noteq> 0 \<and> code \<noteq> 10 \<and> code \<noteq> 11 \<and> code \<noteq> 12 \<and> rs_outcome response \<noteq> ''cancelled'');
          errors = (if integrity \<and> ck_num_errors summary = 0 then 1 else ck_num_errors summary);
          statistics = [(''data_checked'', JBool (kind = ''check_data'')), (''errors_found'', json_nat errors)]
            @ (case plan of
                 Some p \<Rightarrow> if kind = ''check_data''
                           then [(''data_subset_part'', json_nat (pl_data_subset_part p)),
                                 (''data_subset_total'', json_nat (pl_data_subset_total p))] else []
               | None \<Rightarrow> [])
      in if 0 < errors \<or> (found \<and> integrity) then
           (set_status ''failed'' ''repository_corrupt''
              ''The repository check found integrity errors.'' result)\<lparr>cr_statistics := Some statistics\<rparr>
         else
           (let result = maintenanceResult result response deadline ''Repository check completed.''
            in if code = 0 then result\<lparr>cr_statistics := Some statistics\<rparr> else result))"

definition check_maintenance ::
  "forget_context \<Rightarrow> string \<Rightarrow> restic_request \<Rightarrow> command_result \<Rightarrow> maintenance_plan option \<Rightarrow>
   maintenance_state \<Rightarrow> maintenance_outcome" where
  "check_maintenance fx kind rq result plan st =
     (if kind = ''check_data'' \<and> plan = None then
        fx_finish fx (set_status ''failed'' ''execution_failed'' ''The data check plan is missing.'' result) st
      else
        (let rq = rq\<lparr>rq_operation := kind\<rparr>;
             rq = (case plan of
                     Some p \<Rightarrow> if kind = ''check_data''
                       then rq\<lparr>rq_data_subset_part := int (pl_data_subset_part p),
                               rq_data_subset_total := int (pl_data_subset_total p)\<rparr> else rq
                   | None \<Rightarrow> rq);
             (response, st) = fx_run fx rq st
         in fx_finish fx (check_result kind plan response (deadline_passed (fx_env fx) st) result) st))"

definition inventory_maintenance ::
  "forget_context \<Rightarrow> restic_request \<Rightarrow> command_result \<Rightarrow> maintenance_state \<Rightarrow> maintenance_outcome" where
  "inventory_maintenance fx rq result st =
     (let (response, st) = fx_run fx (rq\<lparr>rq_operation := ''snapshots''\<rparr>) st
      in case parseSnapshotInventory response of
           None \<Rightarrow> fx_finish fx (maintenanceResult result response (deadline_passed (fx_env fx) st)
                     ''Snapshot inventory completed.'') st
         | Some inventory \<Rightarrow>
             (let (t, st) = read_clock (fx_env fx) st
              in fx_finish fx ((set_status ''complete'' ''success'' ''Snapshot inventory verified.''
                   (attachSnapshotEvidence ''repository'' inventory t result))
                     \<lparr>cr_statistics := Some [(''snapshots_reported'', json_nat (length inventory))]\<rparr>) st))"

definition plan_mismatch :: "string \<Rightarrow> maintenance_plan option \<Rightarrow> bool" where
  "plan_mismatch kind plan =
     (case plan of None \<Rightarrow> False | Some p \<Rightarrow> pl_kind p = [] \<or> pl_kind p \<noteq> kind)"

definition executeMaintenance ::
  "maintenance_env \<Rightarrow> nat \<Rightarrow> journal_command \<Rightarrow> job \<Rightarrow> maintenance_plan option \<Rightarrow> maintenance_outcome" where
  "executeMaintenance env generation command j plan =
     (let kind = jc_run_kind command;
          (result, st) = maintenance_base env generation command j initial_maintenance;
          fx = \<lparr>fx_env = env, fx_timeout = maintenanceTimeout kind j, fx_job = j\<rparr>;
          rq = maintenanceRequest j
      in if plan_mismatch kind plan then
           fx_finish fx (set_status ''failed'' ''execution_failed''
             ''The persisted maintenance plan does not match this operation.'' result) st
         else if kind = ''forget'' then
           (if jr_has_unresolved_runs (jb_retention j) then
              fx_finish fx (set_status ''skipped'' ''unresolved_runs_present''
                ''Retention was skipped because this repository has an unresolved run.'' result) st
            else (case jr_latest_complete (jb_retention j) of
                    None \<Rightarrow> fx_finish fx (set_status ''skipped'' ''recovery_point_unavailable''
                      ''Retention was skipped because no complete recovery point is available.'' result) st
                  | Some proof \<Rightarrow>
                      if cs_snapshot_ids proof = [] then
                        fx_finish fx (set_status ''skipped'' ''recovery_point_unavailable''
                          ''Retention was skipped because no complete recovery point is available.'' result) st
                      else executeForget fx rq result proof
                             (cp_snapshot_ids (ac_payload (jc_command command)))
                             (cp_recovery_point_run_ids (ac_payload (jc_command command))) plan st))
         else if kind = ''snapshot_inventory'' then inventory_maintenance fx rq result st
         else if kind = ''prune'' then
           (if jr_has_unresolved_runs (jb_retention j) then
              fx_finish fx (set_status ''skipped'' ''unresolved_runs_present''
                ''Prune was skipped because this repository has an unresolved run.'' result) st
            else
              (let (response, st) = fx_run fx (rq\<lparr>rq_operation := ''prune''\<rparr>) st
               in fx_finish fx (maintenanceResult result response (deadline_passed env st)
                    ''Repository prune completed.'') st))
         else if kind = ''check_metadata'' \<or> kind = ''check_data'' then
           check_maintenance fx kind rq result plan st
         else fx_finish fx (set_status ''failed'' ''execution_failed''
                ''The maintenance operation is unsupported.'' result) st)"

end
