(* ===== verification/RetentionFacts.thy ===== *)
theory RetentionFacts
  imports Retention
begin

text \<open>
  What maintenance does to a repository: the shape of its trace, and from it that retention only
  forgets what a persisted plan names, in batches restic accepts, never touches a protected
  snapshot of a fresh plan, and prunes only between two durable markers.
\<close>

section \<open>Events\<close>

fun ran_op :: "string \<Rightarrow> maintenance_event \<Rightarrow> bool" where
  "ran_op op (Ran rq r) = (rq_operation rq = op)"
| "ran_op op (Persisted p ok) = False"

definition destructive :: "maintenance_event \<Rightarrow> bool" where
  "destructive e = (ran_op ''forget'' e \<or> ran_op ''prune'' e)"

fun ran_ids :: "maintenance_event \<Rightarrow> string list" where
  "ran_ids (Ran rq r) = rq_snapshot_ids rq"
| "ran_ids (Persisted p ok) = []"

text \<open>A call and its retry ask for the same thing.\<close>

definition ran_same :: "restic_request \<Rightarrow> maintenance_event \<Rightarrow> bool" where
  "ran_same rq e = (case e of Persisted p ok \<Rightarrow> False
     | Ran rq' r \<Rightarrow> rq_operation rq' = rq_operation rq \<and> rq_snapshot_ids rq' = rq_snapshot_ids rq
         \<and> rq_tags rq' = rq_tags rq)"

lemma ran_same_op: "ran_same rq e \<Longrightarrow> ran_op op e = (rq_operation rq = op)"
  by (cases e) (auto simp: ran_same_def)

lemma ran_same_ids: "ran_same rq e \<Longrightarrow> ran_ids e = rq_snapshot_ids rq"
  by (cases e) (auto simp: ran_same_def)

section \<open>Calls\<close>

lemma run_trace:
  assumes "run_maintenance env timeout rq st = (response, st')"
  shows "\<exists>es rq'. ms_trace st' = ms_trace st @ es @ [Ran rq' response] \<and> ran_same rq (Ran rq' response)
    \<and> list_all (ran_same rq) es"
proof -
  define rq1 where "rq1 = rq\<lparr>rq_timeout_seconds := timeout, rq_lock_wait_seconds := 5 * 60,
    rq_recover_stale_locks := \<not> ms_prepared st\<rparr>"
  define r1 where "r1 = me_run env (ms_runs st) rq1"
  show ?thesis
  proof (cases "rs_exit_code r1 = 11 \<and> \<not> rq_recover_stale_locks rq1")
    case True
    then have "ms_trace st' = ms_trace st @ [Ran rq1 r1] @ [Ran (rq1\<lparr>rq_recover_stale_locks := True\<rparr>) response]"
      using assms by (auto simp: run_maintenance_def call_restic_def Let_def rq1_def r1_def)
    moreover have "ran_same rq (Ran rq1 r1)" by (simp add: ran_same_def rq1_def)
    moreover have "ran_same rq (Ran (rq1\<lparr>rq_recover_stale_locks := True\<rparr>) response)"
      by (simp add: ran_same_def rq1_def)
    ultimately show ?thesis by fastforce
  next
    case False
    then have "ms_trace st' = ms_trace st @ [] @ [Ran rq1 response]"
      using assms by (auto simp: run_maintenance_def call_restic_def Let_def rq1_def r1_def)
    moreover have "ran_same rq (Ran rq1 response)" by (simp add: ran_same_def rq1_def)
    ultimately show ?thesis by fastforce
  qed
qed

lemma run_trace_all:
  assumes "run_maintenance env timeout rq st = (response, st')"
  shows "\<exists>es. ms_trace st' = ms_trace st @ es \<and> list_all (ran_same rq) es \<and> (\<exists>rq'. Ran rq' response \<in> set es)"
  using run_trace [OF assms] by fastforce

lemma read_clock_trace [simp]: "ms_trace (snd (read_clock env st)) = ms_trace st"
  by (simp add: read_clock_def)

lemma read_clock_pair: "read_clock env st = (t, st') \<Longrightarrow> ms_trace st' = ms_trace st"
  by (auto simp: read_clock_def)

lemma finish_trace [simp]: "ms_trace (mo_state (finish_maintenance env r st)) = ms_trace st"
  by (simp add: finish_maintenance_def read_clock_def Let_def)

lemma finish_result:
  "cr_status (mo_result (finish_maintenance env r st)) = cr_status r"
  "cr_result_code (mo_result (finish_maintenance env r st)) = cr_result_code r"
  "cr_prune_completed (mo_result (finish_maintenance env r st)) = cr_prune_completed r"
  "cr_statistics (mo_result (finish_maintenance env r st)) = cr_statistics r"
  by (simp_all add: finish_maintenance_def read_clock_def Let_def)

lemma set_status_fields [simp]:
  "cr_status (set_status s c m r) = s" "cr_result_code (set_status s c m r) = c"
  "cr_prune_completed (set_status s c m r) = cr_prune_completed r"
  by (simp_all add: set_status_def)

lemma set_statistic_fields [simp]:
  "cr_status (set_statistic k v r) = cr_status r" "cr_prune_completed (set_statistic k v r) = cr_prune_completed r"
  by (simp_all add: set_statistic_def)

lemma set_summary_fields [simp]:
  "cr_status (set_summary s r) = cr_status r" "cr_prune_completed (set_summary s r) = cr_prune_completed r"
  by (simp_all add: set_summary_def)

lemma attach_fields [simp]:
  "cr_status (attachSnapshotEvidence scope ids t r) = cr_status r"
  "cr_prune_completed (attachSnapshotEvidence scope ids t r) = cr_prune_completed r"
  by (simp_all add: attachSnapshotEvidence_def Let_def)

lemma maintenanceResult_prune [simp]:
  "cr_prune_completed (maintenanceResult r response d s) = cr_prune_completed r"
  by (simp add: maintenanceResult_def Let_def)

lemma maintenanceResult_failed:
  "rs_exit_code response \<noteq> 0 \<Longrightarrow> cr_status (maintenanceResult r response d s) \<noteq> ''complete''"
  by (simp add: maintenanceResult_def Let_def)

section \<open>The end of retention\<close>

text \<open>The events of \<open>finishRetention\<close>: none, or the started marker, then a prune only if the marker was
  saved, then the completed marker only if the prune succeeded.\<close>

definition prune_events :: "maintenance_plan option \<Rightarrow> bool \<Rightarrow> maintenance_event list \<Rightarrow> bool" where
  "prune_events plan completed es =
     (if es = [] then \<not> completed
      else \<exists>p runs tail. plan = Some p \<and> pl_combined_retention p \<and> pl_prune_after_forget p
        \<and> es = Persisted (p\<lparr>pl_prune_started := True\<rparr>) (runs \<noteq> []) # runs @ tail
        \<and> list_all (ran_op ''prune'') runs
        \<and> (tail = [] \<and> \<not> completed
           \<or> runs \<noteq> [] \<and> (\<exists>rq r. last runs = Ran rq r \<and> rs_exit_code r = 0)
             \<and> tail = [Persisted (p\<lparr>pl_prune_started := True, pl_prune_completed := True\<rparr>) completed]))"

lemma prune_events_none: "prune_events plan False []"
  by (simp add: prune_events_def)

lemma prune_events_started:
  "pl_combined_retention p \<Longrightarrow> pl_prune_after_forget p \<Longrightarrow> list_all (ran_op ''prune'') runs \<Longrightarrow> ok = (runs \<noteq> [])
    \<Longrightarrow> prune_events (Some p) False (Persisted (p\<lparr>pl_prune_started := True\<rparr>) ok # runs)"
  unfolding prune_events_def
  by (simp only: list.distinct if_False, rule exI [of _ p], rule exI [of _ runs], rule exI [of _ "[]"], simp)

lemma prune_events_done:
  "pl_combined_retention p \<Longrightarrow> pl_prune_after_forget p \<Longrightarrow> list_all (ran_op ''prune'') (es @ [Ran rq r]) \<Longrightarrow>
    rs_exit_code r = 0 \<Longrightarrow> prune_events (Some p) completed (Persisted (p\<lparr>pl_prune_started := True\<rparr>) True #
      (es @ [Ran rq r]) @ [Persisted (p\<lparr>pl_prune_started := True, pl_prune_completed := True\<rparr>) completed])"
  unfolding prune_events_def
  by (simp only: list.distinct if_False, rule exI [of _ p], rule exI [of _ "es @ [Ran rq r]"],
    rule exI [of _ "[Persisted (p\<lparr>pl_prune_started := True, pl_prune_completed := True\<rparr>) completed]"], simp)

lemma finishRetention_events:
  assumes "\<not> cr_prune_completed result"
  shows "\<exists>es. ms_trace (mo_state (finishRetention fx rq result plan st)) = ms_trace st @ es
    \<and> prune_events plan (cr_prune_completed (mo_result (finishRetention fx rq result plan st))) es"
proof (cases plan)
  case None
  with assms show ?thesis by (intro exI [of _ "[]"]) (simp add: finishRetention_def prune_events_def finish_result)
next
  case (Some p)
  show ?thesis
  proof (cases "pl_combined_retention p \<and> pl_prune_after_forget p")
    case False
    with Some assms show ?thesis
      by (intro exI [of _ "[]"]) (auto simp: finishRetention_def prune_events_def finish_result)
  next
    case due: True
    define u where "u = p\<lparr>pl_prune_started := True\<rparr>"
    obtain ok st1 where p1: "persist_plan (fx_env fx) u st = (ok, st1)" by (cases "persist_plan (fx_env fx) u st")
    then have t1: "ms_trace st1 = ms_trace st @ [Persisted u ok]" by (auto simp: persist_plan_def Let_def)
    show ?thesis
    proof (cases ok)
      case False
      with Some due p1 t1 assms show ?thesis
        by (intro exI [of _ "[Persisted u False]"])
          (simp add: finishRetention_def prune_events_def finish_result u_def Let_def)
    next
      case True
      define rq1 where "rq1 = rq\<lparr>rq_operation := ''prune'', rq_retention := None, rq_snapshot_ids := [], rq_tags := []\<rparr>"
      obtain response st2 where r: "fx_run fx rq1 st1 = (response, st2)" by (cases "fx_run fx rq1 st1")
      from run_trace [OF r] obtain es rq' where t2: "ms_trace st2 = ms_trace st1 @ es @ [Ran rq' response]"
        and same: "ran_same rq1 (Ran rq' response)" "list_all (ran_same rq1) es" by blast
      have op: "ran_same rq1 e \<Longrightarrow> ran_op ''prune'' e" for e
        using ran_same_op [of rq1 e "''prune''"] by (simp add: rq1_def)
      have prunes: "list_all (ran_op ''prune'') (es @ [Ran rq' response])"
        using op [OF same(1)] op same(2) by (simp add: list_all_iff)
      show ?thesis
      proof (cases "rs_exit_code response = 0")
        case False
        then have "finishRetention fx rq result plan st =
            fx_finish fx (set_summary ''Retention completed, but repository prune did not complete.''
              (set_statistic ''prune_status'' (pruneStatus response (deadline_passed (fx_env fx) st2))
                (maintenanceResult result response (deadline_passed (fx_env fx) st2)
                   ''Repository prune completed.''))) st2"
          using Some due p1 True r by (simp add: finishRetention_def u_def rq1_def Let_def)
        moreover have "prune_events plan False (Persisted u True # (es @ [Ran rq' response]))"
          using prune_events_started [OF _ _ prunes] due by (simp add: u_def Some)
        ultimately show ?thesis
          using t1 t2 assms True
          by (intro exI [of _ "Persisted u True # es @ [Ran rq' response]"]) (simp add: finish_result)
      next
        case zero: True
        obtain ok2 st3 where p3: "persist_plan (fx_env fx) (u\<lparr>pl_prune_completed := True\<rparr>) st2 = (ok2, st3)"
          by (cases "persist_plan (fx_env fx) (u\<lparr>pl_prune_completed := True\<rparr>) st2")
        then have t3: "ms_trace st3 = ms_trace st2 @ [Persisted (u\<lparr>pl_prune_completed := True\<rparr>) ok2]"
          by (auto simp: persist_plan_def Let_def)
        have "ms_trace (mo_state (finishRetention fx rq result plan st)) = ms_trace st3
            \<and> cr_prune_completed (mo_result (finishRetention fx rq result plan st)) = ok2"
          using Some due p1 True r zero p3 assms
          by (cases ok2) (simp_all add: finishRetention_def u_def rq1_def Let_def finish_result)
        moreover have "prune_events plan ok2 (Persisted u True # (es @ [Ran rq' response])
            @ [Persisted (u\<lparr>pl_prune_completed := True\<rparr>) ok2])"
          using prune_events_done [OF _ _ prunes zero] due by (simp add: u_def Some)
        ultimately show ?thesis
          using t1 t2 t3 True
          by (intro exI [of _ "Persisted u True # (es @ [Ran rq' response])
                @ [Persisted (u\<lparr>pl_prune_completed := True\<rparr>) ok2]"]) simp
      qed
    qed
  qed
qed

section \<open>Removal\<close>

text \<open>The requests that forget: batches of the candidates, each tried once or twice.\<close>

definition forget_events :: "string list \<Rightarrow> maintenance_event list \<Rightarrow> bool" where
  "forget_events ids es =
     list_all (\<lambda>e. ran_op ''forget'' e \<and> ran_ids e \<in> set (chunks 100 ids)) es"

lemma forget_batches_events:
  "\<exists>es. ms_trace (snd (forget_batches fx rq batches st)) = ms_trace st @ es
    \<and> list_all (\<lambda>e. ran_op ''forget'' e \<and> ran_ids e \<in> set batches) es"
proof (induction batches arbitrary: st)
  case Nil
  then show ?case by (intro exI [of _ "[]"]) simp
next
  case (Cons ids rest)
  obtain response st1 where r: "fx_run fx (forget_request rq ids) st = (response, st1)"
    by (cases "fx_run fx (forget_request rq ids) st")
  from run_trace_all [OF r] obtain es where t: "ms_trace st1 = ms_trace st @ es"
    and same: "list_all (ran_same (forget_request rq ids)) es" by blast
  have "ran_op ''forget'' e \<and> ran_ids e = ids" if "ran_same (forget_request rq ids) e" for e
    using ran_same_op [OF that] ran_same_ids [OF that] by (simp add: forget_request_def)
  with same have here: "list_all (\<lambda>e. ran_op ''forget'' e \<and> ran_ids e \<in> set (ids # rest)) es"
    by (simp add: list_all_iff)
  show ?case
  proof (cases "rs_exit_code response = 0")
    case False
    with r t here show ?thesis by (intro exI [of _ es]) simp
  next
    case True
    from Cons [of st1] obtain es' where "ms_trace (snd (forget_batches fx rq rest st1)) = ms_trace st1 @ es'"
      and "list_all (\<lambda>e. ran_op ''forget'' e \<and> ran_ids e \<in> set rest) es'" by blast
    with True r t here show ?thesis by (intro exI [of _ "es @ es'"]) (auto simp: list_all_iff)
  qed
qed

text \<open>The final listing; \<open>verified\<close> says that it was read and shows none of the candidates.\<close>

definition shows_removed :: "string list \<Rightarrow> maintenance_event list \<Rightarrow> bool" where
  "shows_removed ids ls =
     (\<exists>rq listing after. Ran rq listing \<in> set ls \<and> parseSnapshotInventory listing = Some after
        \<and> set ids \<inter> set after = {})"

lemma count_in_zero: "(count_in ids inventory = 0) = (set ids \<inter> set inventory = {})"
  by (auto simp: count_in_def filter_empty_conv)

definition apply_events :: "string list \<Rightarrow> maintenance_plan option \<Rightarrow> maintenance_outcome \<Rightarrow> maintenance_event list \<Rightarrow> bool" where
  "apply_events ids plan out es =
     (\<exists>fs ls ps. es = fs @ ls @ ps \<and> forget_events ids fs \<and> list_all (ran_op ''snapshots'') ls
        \<and> prune_events plan (cr_prune_completed (mo_result out)) ps
        \<and> (ids \<noteq> [] \<and> (cr_status (mo_result out) = ''complete'' \<or> ps \<noteq> []) \<longrightarrow> shows_removed ids ls))"

lemma apply_events_intro:
  "forget_events ids fs \<Longrightarrow> list_all (ran_op ''snapshots'') ls
    \<Longrightarrow> prune_events plan (cr_prune_completed (mo_result out)) ps
    \<Longrightarrow> (ids \<noteq> [] \<and> (cr_status (mo_result out) = ''complete'' \<or> ps \<noteq> []) \<Longrightarrow> shows_removed ids ls)
    \<Longrightarrow> apply_events ids plan out (fs @ ls @ ps)"
  unfolding apply_events_def by blast

lemma finishRetention_apply:
  assumes "\<not> cr_prune_completed result" and "ms_trace st = ms_trace st0 @ fs @ ls"
    and "forget_events ids fs" "list_all (ran_op ''snapshots'') ls" "ids \<noteq> [] \<longrightarrow> shows_removed ids ls"
  shows "\<exists>es. ms_trace (mo_state (finishRetention fx rq result plan st)) = ms_trace st0 @ es
    \<and> apply_events ids plan (finishRetention fx rq result plan st) es"
proof -
  from finishRetention_events [OF assms(1)] obtain ps
    where "ms_trace (mo_state (finishRetention fx rq result plan st)) = ms_trace st @ ps"
      and "prune_events plan (cr_prune_completed (mo_result (finishRetention fx rq result plan st))) ps" by blast
  with assms show ?thesis by (intro exI [of _ "fs @ ls @ ps"] conjI apply_events_intro) auto
qed

lemma finish_apply:
  assumes "\<not> cr_prune_completed result" and "cr_status result \<noteq> ''complete''"
    and "ms_trace st = ms_trace st0 @ fs @ ls"
    and "forget_events ids fs" "list_all (ran_op ''snapshots'') ls"
  shows "\<exists>es. ms_trace (mo_state (fx_finish fx result st)) = ms_trace st0 @ es
    \<and> apply_events ids plan (fx_finish fx result st) es"
  using assms
  by (intro exI [of _ "fs @ ls @ []"] conjI apply_events_intro) (auto simp: finish_result prune_events_none)

lemma forget_batches_failed:
  "fst (forget_batches fx rq batches st) = Some f \<Longrightarrow> rs_exit_code f \<noteq> 0"
  by (induction batches arbitrary: st) (auto simp: Let_def split: prod.splits if_splits)

lemma remove_candidates_events:
  assumes result: "\<not> cr_prune_completed result"
  shows "\<exists>es. ms_trace (mo_state (remove_candidates fx rq inventory protected ids plan result st)) = ms_trace st @ es
    \<and> apply_events ids plan (remove_candidates fx rq inventory protected ids plan result st) es"
proof -
  obtain failed st1 where f: "forget_batches fx rq (chunks 100 ids) st = (failed, st1)"
    by (cases "forget_batches fx rq (chunks 100 ids) st")
  with forget_batches_events [of fx rq "chunks 100 ids" st] obtain fs
    where t1: "ms_trace st1 = ms_trace st @ fs" and fs: "forget_events ids fs"
    by (auto simp: forget_events_def)
  have failed_code: "failed = Some x \<Longrightarrow> rs_exit_code x \<noteq> 0" for x
    using forget_batches_failed [of fx rq "chunks 100 ids" st x] f by simp
  define rq1 where "rq1 = rq\<lparr>rq_operation := ''snapshots'', rq_retention := None, rq_snapshot_ids := []\<rparr>"
  obtain listing st2 where r: "fx_run fx rq1 st1 = (listing, st2)" by (cases "fx_run fx rq1 st1")
  from run_trace_all [OF r] obtain ls rq' where t2: "ms_trace st2 = ms_trace st1 @ ls"
    and same: "list_all (ran_same rq1) ls" and last: "Ran rq' listing \<in> set ls" by blast
  have "ran_op ''snapshots'' e" if "ran_same rq1 e" for e
    using ran_same_op [OF that, of "''snapshots''"] by (simp add: rq1_def)
  with same have ls: "list_all (ran_op ''snapshots'') ls" by (simp add: list_all_iff)
  obtain t st3 where c: "read_clock (fx_env fx) st2 = (t, st3)" by (cases "read_clock (fx_env fx) st2")
  then have t3: "ms_trace st3 = ms_trace st @ fs @ ls" using t1 t2 read_clock_pair [OF c] by simp
  show ?thesis
  proof (cases "parseSnapshotInventory listing")
    case None
    define out where "out = set_status ''unresolved'' ''outcome_unresolved''
                   ''Retention changed repository metadata but its final snapshot state could not be verified.''
                   (attachSnapshotEvidence ''candidates'' ids t result)"
    have "remove_candidates fx rq inventory protected ids plan result st = fx_finish fx out st3"
      using f r None c by (simp add: remove_candidates_def rq1_def Let_def out_def)
    with finish_apply [OF _ _ t3 fs ls, of out fx plan] result show ?thesis by (simp add: out_def)
  next
    case (Some after)
    define remaining where "remaining = count_in ids after"
    define statistics where "statistics = maintenanceStatistics
      (length inventory + (length ids - count_in ids inventory)) (length ids) remaining (length protected)"
    define out where "out = (attachSnapshotEvidence ''repository'' after t result)\<lparr>cr_statistics := Some statistics\<rparr>"
    have out: "\<not> cr_prune_completed out" using result by (simp add: out_def)
    have eq: "remove_candidates fx rq inventory protected ids plan result st =
      (if remaining = 0 then finishRetention fx rq1 (set_status ''complete'' ''success''
                     (maintenanceSummary ''forget'' (length ids - remaining)) out) plan st3
       else if 0 < length ids - remaining then
         fx_finish fx (set_status ''partial'' ''snapshot_removal_incomplete''
           (''Retention removed '' @ show_nat (length ids - remaining) @ '' snapshot(s), but '' @ show_nat remaining
                      @ '' selected snapshot(s) remain.'') out) st3
       else (case failed of
           Some f \<Rightarrow> fx_finish fx ((maintenanceResult out f (deadline_passed (fx_env fx) st3)
                                  ''Retention completed.'')\<lparr>cr_statistics := Some statistics\<rparr>) st3
         | None \<Rightarrow> fx_finish fx (set_status ''failed'' ''execution_failed''
                                ''Retention did not remove its selected snapshots.'' out) st3))"
      by (simp only: remove_candidates_def Let_def f prod.case rq1_def [symmetric] r Some option.case c
          out_def remaining_def statistics_def)
    show ?thesis
    proof (cases "remaining = 0")
      case True
      then have "shows_removed ids ls"
        using Some last by (auto simp: shows_removed_def remaining_def count_in_zero)
      with finishRetention_apply [OF _ t3 fs ls] True out show ?thesis by (simp add: eq)
    next
      case False
      have fin: "\<not> cr_prune_completed r \<Longrightarrow> cr_status r \<noteq> ''complete''
        \<Longrightarrow> \<exists>es. ms_trace (mo_state (fx_finish fx r st3)) = ms_trace st @ es
          \<and> apply_events ids plan (fx_finish fx r st3) es" for r
        by (rule finish_apply [OF _ _ t3 fs ls])
      show ?thesis
        unfolding eq using False failed_code out
        by (auto simp: maintenanceResult_failed simp del: finish_trace split: option.splits intro!: fin)
    qed
  qed
qed

lemma apply_plan_events:
  assumes "\<not> cr_prune_completed result"
  shows "\<exists>es. ms_trace (mo_state (apply_plan fx rq inventory protected observed ids plan result st)) = ms_trace st @ es
    \<and> apply_events ids plan (apply_plan fx rq inventory protected observed ids plan result st) es"
proof (cases "ids = []")
  case True
  then show ?thesis
    unfolding apply_plan_def
    using finishRetention_apply [of _ st st "[]" "[]" ids] assms
    by (auto simp: forget_events_def)
next
  case False
  with remove_candidates_events [OF assms] show ?thesis by (simp add: apply_plan_def)
qed

section \<open>The whole of retention\<close>

definition harmless :: "maintenance_event list \<Rightarrow> bool" where
  "harmless es = list_all (\<lambda>e. \<not> destructive e) es"

lemma harmless_Nil [simp]: "harmless []"
  by (simp add: harmless_def)

lemma harmless_run_response:
  assumes "run_maintenance env timeout rq st = (response, st')" "rq_operation rq \<notin> {''forget'', ''prune''}"
  shows "\<exists>es rq'. ms_trace st' = ms_trace st @ es \<and> harmless es \<and> Ran rq' response \<in> set es
    \<and> rq_operation rq' = rq_operation rq"
proof -
  from run_trace_all [OF assms(1)] obtain es rq' where t: "ms_trace st' = ms_trace st @ es"
    and same: "list_all (ran_same rq) es" and r: "Ran rq' response \<in> set es" by blast
  have "harmless es"
    using same assms(2) ran_same_op [of rq] by (auto simp: harmless_def list_all_iff destructive_def)
  moreover have "rq_operation rq' = rq_operation rq" using same r by (auto simp: list_all_iff ran_same_def)
  ultimately show ?thesis using t r by blast
qed

lemma harmless_run:
  assumes "run_maintenance env timeout rq st = (response, st')" "rq_operation rq \<notin> {''forget'', ''prune''}"
  shows "\<exists>es. ms_trace st' = ms_trace st @ es \<and> harmless es"
  using harmless_run_response [OF assms] by blast

text \<open>An outcome reached without a destructive call.\<close>

definition ended :: "forget_context \<Rightarrow> command_result \<Rightarrow> maintenance_state \<Rightarrow> maintenance_outcome \<Rightarrow> bool" where
  "ended fx result st out =
     (\<exists>es st1 r. out = fx_finish fx r st1 \<and> ms_trace st1 = ms_trace st @ es \<and> harmless es
        \<and> cr_prune_completed r = cr_prune_completed result)"

lemma endedI:
  "ms_trace st1 = ms_trace st @ es \<Longrightarrow> harmless es \<Longrightarrow> cr_prune_completed r = cr_prune_completed result
    \<Longrightarrow> ended fx result st (fx_finish fx r st1)"
  unfolding ended_def by blast

lemma policy_candidates_steps:
  "(case policy_candidates fx rq records protected result st of
      Inl done \<Rightarrow> ended fx result st done
    | Inr (ids, rq1, st1) \<Rightarrow> (\<exists>es. ms_trace st1 = ms_trace st @ es \<and> harmless es)
        \<and> set ids \<inter> set protected = {})"
proof (cases "retentionPolicyEmpty (retention_policy_of (fx_job fx))")
  case True
  then show ?thesis
    by (auto simp: policy_candidates_def Let_def withoutProtected_def harmless_def)
next
  case False
  define rq1 where "rq1 = (if isDatabaseJob (jb_type (fx_job fx))
    then rq\<lparr>rq_operation := ''forget_plan'', rq_retention := Some (retention_policy_of (fx_job fx)), rq_tags := [anchor_tag]\<rparr>
    else rq\<lparr>rq_operation := ''forget_plan'', rq_retention := Some (retention_policy_of (fx_job fx))\<rparr>)"
  obtain response st1 where r: "fx_run fx rq1 st = (response, st1)" by (cases "fx_run fx rq1 st")
  have "rq_operation rq1 \<notin> {''forget'', ''prune''}" by (simp add: rq1_def)
  from harmless_run [OF r this] obtain es where "ms_trace st1 = ms_trace st @ es" "harmless es" by blast
  with False r show ?thesis
    by (auto simp: policy_candidates_def Let_def rq1_def withoutProtected_def
        intro: endedI split: option.splits if_splits)
qed

lemma persist_plan_trace:
  "persist_plan env p st = (ok, st') \<Longrightarrow> ms_trace st' = ms_trace st @ [Persisted p ok]"
  by (auto simp: persist_plan_def Let_def)

lemma targeted_candidates_steps:
  "(case targeted_candidates fx records protected inventory observed targets result st of
      Inl done \<Rightarrow> ended fx result st done
    | Inr ids \<Rightarrow> set ids \<inter> set protected = {})"
  by (auto simp: targeted_candidates_def skip_protected_def intersectsProtected_def list_ex_iff Let_def
      intro!: endedI [where es = "[]"])

lemma choose_plan_steps:
  "(case choose_plan fx rq records protected inventory observed pf targets runs plan result st of
      Inl done \<Rightarrow> ended fx result st done
    | Inr (ids, rq1, p, st1) \<Rightarrow>
        (\<exists>es. ms_trace st1 = ms_trace st @ es @ [Persisted p True] \<and> harmless es)
        \<and> p = fresh_plan records ids protected pf (fx_job fx) plan
        \<and> (runs = [] \<longrightarrow> set ids \<inter> set protected = {}))"
proof -
  define choice where "choice = (if runs \<noteq> [] then Inr (snapshotIDsForRunIDs records runs, rq, st)
            else if targets \<noteq> [] then
              (case targeted_candidates fx records protected inventory observed targets result st of
                 Inl done \<Rightarrow> Inl done | Inr ids \<Rightarrow> Inr (ids, rq, st))
            else policy_candidates fx rq records protected result st)"
  have choice: "case choice of
      Inl done \<Rightarrow> ended fx result st done
    | Inr (ids, rq1, st1) \<Rightarrow> (\<exists>es. ms_trace st1 = ms_trace st @ es \<and> harmless es)
        \<and> (runs = [] \<longrightarrow> set ids \<inter> set protected = {})"
  proof (cases "runs = [] \<and> targets = []")
    case True
    then show ?thesis
      using policy_candidates_steps [where fx = fx and rq = rq and records = records and protected = protected
        and result = result and st = st]
      by (auto simp: choice_def split: sum.splits prod.splits)
  next
    case False
    show ?thesis
    proof (cases "runs = []")
      case runs: True
      show ?thesis
      proof (cases "targeted_candidates fx records protected inventory observed targets result st")
        case (Inl d)
        with targeted_candidates_steps [where fx = fx and records = records and protected = protected
            and inventory = inventory and observed = observed and targets = targets and result = result and st = st]
        have "ended fx result st d" by simp
        with Inl runs False show ?thesis by (simp add: choice_def)
      next
        case (Inr ids)
        with targeted_candidates_steps [where fx = fx and records = records and protected = protected
            and inventory = inventory and observed = observed and targets = targets and result = result and st = st]
          runs False
        show ?thesis by (simp add: choice_def)
      qed
    qed (simp add: choice_def)
  qed
  have eq: "choose_plan fx rq records protected inventory observed pf targets runs plan result st =
     (case choice of
        Inl done \<Rightarrow> Inl done
      | Inr (ids, rq, st) \<Rightarrow>
          (let new_plan = fresh_plan records ids protected pf (fx_job fx) plan;
               (ok, st) = persist_plan (fx_env fx) new_plan st
           in if ok then Inr (ids, rq, new_plan, st)
              else Inl (fx_finish fx (set_status ''failed'' ''execution_failed''
                     ''The retention plan could not be persisted before execution.'' result) st)))"
    by (simp only: choose_plan_def choice_def)
  show ?thesis
  proof (cases choice)
    case (Inl finished)
    with choice show ?thesis by (simp add: eq)
  next
    case (Inr triple)
    then obtain ids rq1 st1 where c: "choice = Inr (ids, rq1, st1)" by (cases triple) auto
    with choice obtain es where t: "ms_trace st1 = ms_trace st @ es" "harmless es"
      and free: "runs = [] \<longrightarrow> set ids \<inter> set protected = {}" by auto
    obtain ok st2 where p: "persist_plan (fx_env fx) (fresh_plan records ids protected pf (fx_job fx) plan) st1 = (ok, st2)"
      by (cases "persist_plan (fx_env fx) (fresh_plan records ids protected pf (fx_job fx) plan) st1")
    have t2: "ms_trace st2 = ms_trace st @ es @ [Persisted (fresh_plan records ids protected pf (fx_job fx) plan) ok]"
      using persist_plan_trace [OF p] t by simp
    have h: "harmless (es @ [Persisted q False])" for q
      using t(2) by (simp add: harmless_def destructive_def)
    show ?thesis
    proof (cases ok)
      case True
      with c p t2 t(2) free show ?thesis by (auto simp: eq Let_def)
    next
      case False
      with c p t2 h show ?thesis by (auto simp: eq Let_def intro!: endedI)
    qed
  qed
qed

text \<open>How a plan came to govern a removal: it was planned before, or it was persisted last before the
  removal began.\<close>

definition governs ::
  "maintenance_plan option \<Rightarrow> repository_snapshot list \<Rightarrow> string list \<Rightarrow> complete_snapshot_proof \<Rightarrow> job \<Rightarrow>
   string list \<Rightarrow> string list \<Rightarrow> maintenance_plan \<Rightarrow> maintenance_event list \<Rightarrow> bool" where
  "governs plan records protected pf j runs ids p es =
     (if forget_planned plan then plan = Some p \<and> ids = planned_candidates records p
      else (\<exists>es0. es = es0 @ [Persisted p True]) \<and> p = fresh_plan records ids protected pf j plan
        \<and> (runs = [] \<longrightarrow> set ids \<inter> set protected = {}))"

lemma executeForget_steps:
  fixes plan :: "maintenance_plan option" and runs targets :: "string list" and pf :: complete_snapshot_proof
  assumes result: "\<not> cr_prune_completed result"
    and listing: "fx_run fx (rq\<lparr>rq_operation := ''snapshots''\<rparr>) st = (listing, st1)"
  defines "out \<equiv> executeForget fx rq result pf targets runs plan st"
  defines "records \<equiv> snapshotRecords listing"
  defines "protected \<equiv> protected_snapshots (snapshotRecords listing) (fx_job fx) pf"
  shows "(\<exists>es. ms_trace (mo_state out) = ms_trace st @ es \<and> harmless es \<and> \<not> cr_prune_completed (mo_result out))
    \<or> (\<exists>es1 es2 inventory ids p. ms_trace (mo_state out) = ms_trace st @ es1 @ es2 \<and> harmless es1
        \<and> (\<exists>rq'. Ran rq' listing \<in> set es1 \<and> rq_operation rq' = ''snapshots'')
        \<and> parseSnapshotInventory listing = Some inventory \<and> set protected \<subseteq> set inventory
        \<and> governs plan records protected pf (fx_job fx) runs ids p es1
        \<and> apply_events ids (Some p) out es2)"
proof -
  from harmless_run_response [OF listing] obtain es rq' where t1: "ms_trace st1 = ms_trace st @ es"
    and h: "harmless es" and l: "Ran rq' listing \<in> set es" "rq_operation rq' = ''snapshots''"
    by auto
  show ?thesis
  proof (cases "parseSnapshotInventory listing")
    case None
    then have "out = fx_finish fx (maintenanceResult result listing (deadline_passed (fx_env fx) st1)
                     ''Snapshot inventory completed.'') st1"
      by (simp add: out_def executeForget_def listing)
    with t1 h result show ?thesis by (simp add: finish_result)
  next
    case (Some inventory)
    obtain observed st2 where c: "read_clock (fx_env fx) st1 = (observed, st2)" by (cases "read_clock (fx_env fx) st1")
    have t2: "ms_trace st2 = ms_trace st @ es" using read_clock_pair [OF c] t1 by simp
    show ?thesis
    proof (cases "list_ex (\<lambda>s. s \<notin> set inventory) protected")
      case True
      then have "out = fx_finish fx (set_status ''skipped'' ''recovery_point_unavailable''
                     ''Retention was skipped because the latest complete recovery point is missing.''
                     (attachSnapshotEvidence ''repository'' inventory observed result)) st2"
        by (simp add: out_def executeForget_def listing Some c protected_def Let_def)
      with t2 h result show ?thesis by (simp add: finish_result)
    next
      case False
      then have inv: "set protected \<subseteq> set inventory" by (auto simp: list_ex_iff)
      have unfold: "out = (if forget_planned plan then
                   apply_plan fx (rq\<lparr>rq_operation := ''snapshots''\<rparr>) inventory protected observed
                     (planned_candidates records (the plan)) plan result st2
                 else
                   (case choose_plan fx (rq\<lparr>rq_operation := ''snapshots''\<rparr>) records protected inventory observed
                           pf targets runs plan result st2 of
                      Inl done \<Rightarrow> done
                    | Inr (ids, rq, new_plan, st) \<Rightarrow>
                        apply_plan fx rq inventory protected observed ids (Some new_plan) result st))"
        using False unfolding protected_def records_def
        by (simp add: out_def executeForget_def listing Some c Let_def)
      show ?thesis
      proof (cases "forget_planned plan")
        case True
        then obtain p where p: "plan = Some p" by (cases plan) (auto simp: forget_planned_def)
        have out: "out = apply_plan fx (rq\<lparr>rq_operation := ''snapshots''\<rparr>) inventory protected observed
            (planned_candidates records p) (Some p) result st2"
          using unfold True p by simp
        from apply_plan_events [OF result] obtain es2 where
          "ms_trace (mo_state out) = ms_trace st2 @ es2 \<and> apply_events (planned_candidates records p) (Some p) out es2"
          unfolding out by blast
        then have "ms_trace (mo_state out) = ms_trace st @ es @ es2 \<and> apply_events (planned_candidates records p) (Some p) out es2"
          by (simp add: t2)
        moreover have "governs plan records protected pf (fx_job fx) runs (planned_candidates records p) p es"
          using True p by (simp add: governs_def)
        ultimately show ?thesis using h Some inv l by blast
      next
        case unplanned: False
        define choice where "choice = choose_plan fx (rq\<lparr>rq_operation := ''snapshots''\<rparr>) records protected inventory
          observed pf targets runs plan result st2"
        note steps = choose_plan_steps [where fx = fx and rq = "rq\<lparr>rq_operation := ''snapshots''\<rparr>" and records = records
            and protected = protected and inventory = inventory and observed = observed and pf = pf
            and targets = targets and runs = runs and plan = plan and result = result and st = st2, folded choice_def]
        show ?thesis
        proof (cases choice)
          case (Inl d)
          with steps have "ended fx result st2 d" by simp
          then obtain es2 st3 r where "d = fx_finish fx r st3" "ms_trace st3 = ms_trace st2 @ es2" "harmless es2"
            and "cr_prune_completed r = cr_prune_completed result"
            unfolding ended_def by blast
          moreover have "out = d" using unfold unplanned Inl by (simp add: choice_def)
          moreover have "\<not> cr_prune_completed (mo_result d)"
            using calculation result by (simp add: finish_result)
          ultimately have "ms_trace (mo_state out) = ms_trace st @ (es @ es2) \<and> harmless (es @ es2)
              \<and> \<not> cr_prune_completed (mo_result out)"
            using t2 h by (simp add: harmless_def)
          then show ?thesis by blast
        next
          case (Inr q)
          then obtain ids rq3 p st3 where q: "choice = Inr (ids, rq3, p, st3)" by (cases q) auto
          with steps obtain es2 where t3: "ms_trace st3 = ms_trace st2 @ es2 @ [Persisted p True]" "harmless es2"
            and p: "p = fresh_plan records ids protected pf (fx_job fx) plan"
            and free: "runs = [] \<longrightarrow> set ids \<inter> set protected = {}" by auto
          have out: "out = apply_plan fx rq3 inventory protected observed ids (Some p) result st3"
            using unfold unplanned q by (simp add: choice_def)
          from apply_plan_events [OF result] obtain es3 where
            "ms_trace (mo_state out) = ms_trace st3 @ es3 \<and> apply_events ids (Some p) out es3"
            unfolding out by blast
          then have "ms_trace (mo_state out) = ms_trace st @ (es @ es2 @ [Persisted p True]) @ es3
              \<and> apply_events ids (Some p) out es3"
            by (simp add: t2 t3)
          moreover have "harmless (es @ es2 @ [Persisted p True])"
            using h t3 by (simp add: harmless_def destructive_def)
          moreover have "governs plan records protected pf (fx_job fx) runs ids p (es @ es2 @ [Persisted p True])"
            using unplanned p free by (auto simp: governs_def)
          moreover have "Ran rq' listing \<in> set (es @ es2 @ [Persisted p True])" using l(1) by simp
          ultimately show ?thesis using Some inv l(2) by blast
        qed
      qed
    qed
  qed
qed

section \<open>Maintenance\<close>

definition maintenance_trace ::
  "maintenance_env \<Rightarrow> nat \<Rightarrow> journal_command \<Rightarrow> job \<Rightarrow> maintenance_plan option \<Rightarrow> maintenance_event list" where
  "maintenance_trace env generation command j plan =
     ms_trace (mo_state (executeMaintenance env generation command j plan))"

text \<open>The listing retention starts from.\<close>

definition forget_listing :: "maintenance_env \<Rightarrow> nat \<Rightarrow> journal_command \<Rightarrow> job \<Rightarrow> restic_result" where
  "forget_listing env generation command j =
     fst (run_maintenance env (maintenanceTimeout ''forget'' j) ((maintenanceRequest j)\<lparr>rq_operation := ''snapshots''\<rparr>)
       (snd (maintenance_base env generation command j initial_maintenance)))"

lemma maintenance_base_facts:
  "maintenance_base env generation command j initial_maintenance = (result, st)
    \<Longrightarrow> ms_trace st = [] \<and> \<not> cr_prune_completed result"
  by (auto simp: maintenance_base_def read_clock_def initial_maintenance_def zero_result_def)

lemma check_result_prune:
  "cr_prune_completed (check_result kind plan response deadline result) = cr_prune_completed result"
  by (simp add: check_result_def Let_def split: prod.splits)

lemma check_maintenance_steps:
  assumes "\<not> cr_prune_completed result" "kind = ''check_metadata'' \<or> kind = ''check_data''"
  shows "\<exists>es. ms_trace (mo_state (check_maintenance fx kind rq result plan st)) = ms_trace st @ es \<and> harmless es
    \<and> \<not> cr_prune_completed (mo_result (check_maintenance fx kind rq result plan st))"
proof (cases "kind = ''check_data'' \<and> plan = None")
  case True
  with assms show ?thesis by (intro exI [of _ "[]"]) (simp add: check_maintenance_def finish_result)
next
  case False
  define rq1 where "rq1 = (case plan of
      Some p \<Rightarrow> if kind = ''check_data'' then rq\<lparr>rq_operation := kind,
        rq_data_subset_part := int (pl_data_subset_part p), rq_data_subset_total := int (pl_data_subset_total p)\<rparr>
        else rq\<lparr>rq_operation := kind\<rparr>
    | None \<Rightarrow> rq\<lparr>rq_operation := kind\<rparr>)"
  obtain response st1 where r: "fx_run fx rq1 st = (response, st1)" by (cases "fx_run fx rq1 st")
  have "rq_operation rq1 \<notin> {''forget'', ''prune''}"
    using assms(2) by (auto simp: rq1_def split: option.splits)
  from harmless_run [OF r this] obtain es where "ms_trace st1 = ms_trace st @ es" "harmless es" by blast
  moreover have "check_maintenance fx kind rq result plan st =
      fx_finish fx (check_result kind plan response (deadline_passed (fx_env fx) st1) result) st1"
    unfolding check_maintenance_def using False r by (cases plan) (simp_all add: rq1_def Let_def)
  ultimately show ?thesis using assms(1) by (simp add: finish_result check_result_prune)
qed

lemma inventory_maintenance_steps:
  assumes "\<not> cr_prune_completed result"
  shows "\<exists>es. ms_trace (mo_state (inventory_maintenance fx rq result st)) = ms_trace st @ es \<and> harmless es
    \<and> \<not> cr_prune_completed (mo_result (inventory_maintenance fx rq result st))"
proof -
  obtain response st1 where r: "fx_run fx (rq\<lparr>rq_operation := ''snapshots''\<rparr>) st = (response, st1)"
    by (cases "fx_run fx (rq\<lparr>rq_operation := ''snapshots''\<rparr>) st")
  from harmless_run [OF r] obtain es where "ms_trace st1 = ms_trace st @ es" "harmless es" by auto
  with r assms show ?thesis
    by (auto simp: inventory_maintenance_def finish_result read_clock_def split: option.splits)
qed

definition retention_steps ::
  "maintenance_env \<Rightarrow> nat \<Rightarrow> journal_command \<Rightarrow> job \<Rightarrow> maintenance_plan option \<Rightarrow> bool" where
  "retention_steps env generation command j plan =
     (\<exists>pf es1 es2 inventory ids p.
        jr_latest_complete (jb_retention j) = Some pf \<and> cs_snapshot_ids pf \<noteq> []
        \<and> maintenance_trace env generation command j plan = es1 @ es2 \<and> harmless es1
        \<and> (\<exists>rq. Ran rq (forget_listing env generation command j) \<in> set es1 \<and> rq_operation rq = ''snapshots'')
        \<and> parseSnapshotInventory (forget_listing env generation command j) = Some inventory
        \<and> set (protected_snapshots (snapshotRecords (forget_listing env generation command j)) j pf) \<subseteq> set inventory
        \<and> governs plan (snapshotRecords (forget_listing env generation command j))
            (protected_snapshots (snapshotRecords (forget_listing env generation command j)) j pf) pf j
            (cp_recovery_point_run_ids (ac_payload (jc_command command))) ids p es1
        \<and> apply_events ids (Some p) (executeMaintenance env generation command j plan) es2)"

lemma executeMaintenance_steps:
  "harmless (maintenance_trace env generation command j plan)
     \<and> \<not> cr_prune_completed (mo_result (executeMaintenance env generation command j plan))
   \<or> jc_run_kind command = ''prune'' \<and> \<not> jr_has_unresolved_runs (jb_retention j)
     \<and> list_all (ran_op ''prune'') (maintenance_trace env generation command j plan)
     \<and> \<not> cr_prune_completed (mo_result (executeMaintenance env generation command j plan))
   \<or> jc_run_kind command = ''forget'' \<and> \<not> jr_has_unresolved_runs (jb_retention j)
     \<and> retention_steps env generation command j plan"
proof -
  obtain result st where base: "maintenance_base env generation command j initial_maintenance = (result, st)"
    by (cases "maintenance_base env generation command j initial_maintenance")
  note facts = maintenance_base_facts [OF base]
  define kind where "kind = jc_run_kind command"
  define fx where "fx = \<lparr>fx_env = env, fx_timeout = maintenanceTimeout kind j, fx_job = j\<rparr>"
  let ?out = "executeMaintenance env generation command j plan"
  show ?thesis
  proof (cases "plan_mismatch kind plan")
    case True
    then have "?out = fx_finish fx (set_status ''failed'' ''execution_failed''
               ''The persisted maintenance plan does not match this operation.'' result) st"
      by (simp add: executeMaintenance_def base kind_def fx_def Let_def)
    with facts show ?thesis by (simp add: maintenance_trace_def finish_result)
  next
    case False
    consider (forget) "kind = ''forget''" | (inventory) "kind = ''snapshot_inventory''" | (prune) "kind = ''prune''"
      | (check) "kind = ''check_metadata'' \<or> kind = ''check_data''"
      | (other) "kind \<noteq> ''forget''" "kind \<noteq> ''snapshot_inventory''" "kind \<noteq> ''prune''"
          "kind \<noteq> ''check_metadata''" "kind \<noteq> ''check_data''"
      by argo
    then show ?thesis
    proof cases
      case forget
      show ?thesis
      proof (cases "jr_has_unresolved_runs (jb_retention j) \<or> jr_latest_complete (jb_retention j) = None
          \<or> cs_snapshot_ids (the (jr_latest_complete (jb_retention j))) = []")
        case True
        then have "\<exists>c m. ?out = fx_finish fx (set_status ''skipped'' c m result) st" using False forget
          unfolding executeMaintenance_def Let_def base prod.case kind_def [symmetric] fx_def [symmetric]
          by (cases "jr_latest_complete (jb_retention j)") (simp_all, blast+)
        with facts show ?thesis by (auto simp: maintenance_trace_def finish_result)
      next
        case clear: False
        then obtain pf where pf: "jr_latest_complete (jb_retention j) = Some pf" "cs_snapshot_ids pf \<noteq> []" by auto
        let ?runs = "cp_recovery_point_run_ids (ac_payload (jc_command command))"
        have out: "?out = executeForget fx (maintenanceRequest j) result pf
            (cp_snapshot_ids (ac_payload (jc_command command))) ?runs plan st"
          using False forget clear pf by (simp add: executeMaintenance_def base kind_def fx_def Let_def)
        obtain listing st1 where l: "fx_run fx ((maintenanceRequest j)\<lparr>rq_operation := ''snapshots''\<rparr>) st = (listing, st1)"
          by (cases "fx_run fx ((maintenanceRequest j)\<lparr>rq_operation := ''snapshots''\<rparr>) st")
        have listing: "forget_listing env generation command j = listing"
          using l forget by (simp add: forget_listing_def base fx_def kind_def)
        have np: "\<not> cr_prune_completed result" using facts by simp
        have fxj: "fx_job fx = j" by (simp add: fx_def)
        show ?thesis
          using executeForget_steps [OF np l, where targets = "cp_snapshot_ids (ac_payload (jc_command command))"
              and runs = ?runs and plan = plan and pf = pf] facts pf clear forget
          unfolding maintenance_trace_def retention_steps_def out [symmetric] listing fxj
          by (auto simp: kind_def)
      qed
    next
      case inventory
      then have "?out = inventory_maintenance fx (maintenanceRequest j) result st"
        using False by (simp add: executeMaintenance_def base kind_def fx_def Let_def)
      with inventory_maintenance_steps [of result fx "maintenanceRequest j" st] facts show ?thesis
        by (auto simp: maintenance_trace_def)
    next
      case prune
      show ?thesis
      proof (cases "jr_has_unresolved_runs (jb_retention j)")
        case True
        then have "?out = fx_finish fx (set_status ''skipped'' ''unresolved_runs_present''
                ''Prune was skipped because this repository has an unresolved run.'' result) st"
          using False prune by (simp add: executeMaintenance_def base kind_def fx_def Let_def)
        with facts show ?thesis by (simp add: maintenance_trace_def finish_result)
      next
        case clear: False
        obtain response st1 where r: "fx_run fx ((maintenanceRequest j)\<lparr>rq_operation := ''prune''\<rparr>) st = (response, st1)"
          by (cases "fx_run fx ((maintenanceRequest j)\<lparr>rq_operation := ''prune''\<rparr>) st")
        from run_trace_all [OF r] obtain es where t: "ms_trace st1 = es"
          and same: "list_all (ran_same ((maintenanceRequest j)\<lparr>rq_operation := ''prune''\<rparr>)) es" using facts by auto
        have op: "ran_op ''prune'' e" if "ran_same ((maintenanceRequest j)\<lparr>rq_operation := ''prune''\<rparr>) e" for e
          using ran_same_op [OF that, of "''prune''"] by simp
        have "?out = fx_finish fx (maintenanceResult result response (deadline_passed env st1)
            ''Repository prune completed.'') st1"
          using False prune clear r by (simp add: executeMaintenance_def base kind_def fx_def Let_def)
        then show ?thesis using t same op clear prune facts
          by (simp add: maintenance_trace_def finish_result list_all_iff kind_def)
      qed
    next
      case check
      then have "?out = check_maintenance fx kind (maintenanceRequest j) result plan st"
        using False by (auto simp: executeMaintenance_def base kind_def fx_def Let_def)
      with check_maintenance_steps [OF _ check, of result fx "maintenanceRequest j" plan st] facts show ?thesis
        by (auto simp: maintenance_trace_def)
    next
      case other
      then have "?out = fx_finish fx (set_status ''failed'' ''execution_failed''
                ''The maintenance operation is unsupported.'' result) st"
        using False by (simp add: executeMaintenance_def base kind_def fx_def Let_def)
      with facts show ?thesis by (simp add: maintenance_trace_def finish_result)
    qed
  qed
qed

lemma prune_events_cases:
  "prune_events plan completed es \<Longrightarrow> es \<noteq> [] \<Longrightarrow> \<exists>p runs tail. plan = Some p \<and> pl_combined_retention p
     \<and> pl_prune_after_forget p \<and> es = Persisted (p\<lparr>pl_prune_started := True\<rparr>) (runs \<noteq> []) # runs @ tail
     \<and> list_all (ran_op ''prune'') runs
     \<and> (tail = [] \<and> \<not> completed
        \<or> runs \<noteq> [] \<and> (\<exists>rq r. last runs = Ran rq r \<and> rs_exit_code r = 0)
          \<and> tail = [Persisted (p\<lparr>pl_prune_started := True, pl_prune_completed := True\<rparr>) completed])"
  unfolding prune_events_def by (simp only: if_False)

lemma prune_events_not_Nil: "prune_events plan True es \<Longrightarrow> es \<noteq> []"
  by (auto simp: prune_events_def)

lemma list_all_mono: "list_all P xs \<Longrightarrow> (\<And>x. P x \<Longrightarrow> Q x) \<Longrightarrow> list_all Q xs"
  by (auto simp: list_all_iff)

lemma ran_op_other: "ran_op op e \<Longrightarrow> op \<noteq> op' \<Longrightarrow> \<not> ran_op op' e"
  by (cases e) auto

lemma started_before_prune:
  assumes "prune_events plan completed ps" and "ps = mid @ e # post" and "ran_op ''prune'' e"
  shows "\<exists>p. Persisted p True \<in> set mid \<and> pl_prune_started p"
proof -
  from prune_events_cases [OF assms(1)] assms(2) obtain p runs tail where
    ps: "ps = Persisted (p\<lparr>pl_prune_started := True\<rparr>) (runs \<noteq> []) # runs @ tail"
    and tail: "runs = [] \<Longrightarrow> tail = []"
    by blast
  from ps assms(2,3) obtain mid' where mid: "mid = Persisted (p\<lparr>pl_prune_started := True\<rparr>) (runs \<noteq> []) # mid'"
    and "runs @ tail = mid' @ e # post"
    by (cases mid) auto
  then have "runs \<noteq> []" using tail by auto
  with mid show ?thesis by (intro exI [of _ "p\<lparr>pl_prune_started := True\<rparr>"]) simp
qed

lemma completed_after_prune:
  assumes "prune_events plan True ps"
  shows "\<exists>us p rq r. ps = us @ [Ran rq r, Persisted p True] \<and> pl_prune_completed p
    \<and> rq_operation rq = ''prune'' \<and> rs_exit_code r = 0"
proof -
  from assms obtain p runs rq r where
    ps: "ps = Persisted (p\<lparr>pl_prune_started := True\<rparr>) (runs \<noteq> []) # runs
        @ [Persisted (p\<lparr>pl_prune_started := True, pl_prune_completed := True\<rparr>) True]"
    and runs: "list_all (ran_op ''prune'') runs" "runs \<noteq> []" "last runs = Ran rq r" "rs_exit_code r = 0"
    using prune_events_cases [OF assms] prune_events_not_Nil [OF assms] by blast
  have split: "runs = butlast runs @ [Ran rq r]" using runs(2,3) by (metis append_butlast_last_id)
  then have "rq_operation rq = ''prune''" using runs(1) by (metis last_in_set list_all_iff ran_op.simps(1) runs(2) runs(3))
  moreover have "ps = (Persisted (p\<lparr>pl_prune_started := True\<rparr>) (runs \<noteq> []) # butlast runs)
      @ [Ran rq r, Persisted (p\<lparr>pl_prune_started := True, pl_prune_completed := True\<rparr>) True]"
    unfolding ps using split by (metis append.assoc append_Cons append_Nil)
  ultimately show ?thesis using runs(4) by fastforce
qed

section \<open>Properties\<close>

lemma split_after:
  assumes "xs @ ys = pre @ e # post" and "e \<notin> set xs"
  shows "\<exists>mid. pre = xs @ mid \<and> ys = mid @ e # post"
  using assms by (auto simp: append_eq_append_conv2 append_eq_Cons_conv)

lemma forget_in_plan:
  assumes "apply_events ids plan out es" and "e \<in> set es" and "ran_op ''forget'' e"
  shows "ran_ids e \<in> set (chunks 100 ids)"
proof -
  obtain fs ls ps where es: "es = fs @ ls @ ps" and f: "forget_events ids fs"
    and l: "list_all (ran_op ''snapshots'') ls" and p: "prune_events plan (cr_prune_completed (mo_result out)) ps"
    using assms(1) by (auto simp: apply_events_def)
  have "\<not> ran_op ''snapshots'' e" "\<not> ran_op ''prune'' e" using assms(3) by (cases e; simp)+
  moreover have "e \<in> set ps \<Longrightarrow> ran_op ''prune'' e"
    using p assms(3) by (auto simp: prune_events_def list_all_iff split: if_splits)
  ultimately show ?thesis using assms(2) es f l by (auto simp: forget_events_def list_all_iff)
qed

text \<open>What a forget event of a maintenance tells about its origin.\<close>

lemma forget_event_steps:
  assumes "e \<in> set (maintenance_trace env generation command j plan)" and "ran_op ''forget'' e"
  shows "jc_run_kind command = ''forget'' \<and> \<not> jr_has_unresolved_runs (jb_retention j)
    \<and> retention_steps env generation command j plan"
  using executeMaintenance_steps [of env generation command j plan] assms
  by (cases e) (auto simp: harmless_def destructive_def list_all_iff)

text \<open>What a planned operation forgets, by a listing its trace holds.\<close>

lemma planned_forget:
  assumes "e \<in> set (maintenance_trace env generation command j (Some p))" and "ran_op ''forget'' e"
    and "forget_planned (Some p)"
  shows "\<exists>rq listing. Ran rq listing \<in> set (maintenance_trace env generation command j (Some p))
    \<and> rq_operation rq = ''snapshots''
    \<and> set (ran_ids e) \<subseteq> set (planned_candidates (snapshotRecords listing) p)"
proof -
  from forget_event_steps [OF assms(1,2)] have "retention_steps env generation command j (Some p)" by blast
  then obtain pf es1 es2 ids q protected rq
    where t: "maintenance_trace env generation command j (Some p) = es1 @ es2" "harmless es1"
    and g: "governs (Some p) (snapshotRecords (forget_listing env generation command j)) protected pf j
            (cp_recovery_point_run_ids (ac_payload (jc_command command))) ids q es1"
    and a: "apply_events ids (Some q) (executeMaintenance env generation command j (Some p)) es2"
    and l: "Ran rq (forget_listing env generation command j) \<in> set es1" "rq_operation rq = ''snapshots''"
    unfolding retention_steps_def by blast
  from t assms(1,2) have "e \<in> set es2" by (auto simp: harmless_def list_all_iff destructive_def)
  from forget_in_plan [OF a this assms(2)] have "set (ran_ids e) \<subseteq> set ids" by (rule chunk_subset)
  with g assms(3) l t show ?thesis
    by (intro exI [of _ rq] exI [of _ "forget_listing env generation command j"]) (simp add: governs_def)
qed

text \<open>C1: Retention keeps what is protected. Unless the caller targets whole runs or hands in a plan it made
  before, no forget request names a snapshot of the latest complete recovery point, a protected
  snapshot or a snapshot of a protected run, as the listing at the start identifies them.\<close>
theorem retention_keeps_protected:
  assumes "jr_latest_complete (jb_retention j) = Some pf"
    and "cp_recovery_point_run_ids (ac_payload (jc_command command)) = []" and "\<not> forget_planned plan"
    and "e \<in> set (maintenance_trace env generation command j plan)" and "ran_op ''forget'' e"
  shows "set (ran_ids e)
    \<inter> set (protected_snapshots (snapshotRecords (forget_listing env generation command j)) j pf) = {}"
proof -
  from forget_event_steps [OF assms(4,5)] have "retention_steps env generation command j plan" by blast
  then obtain es1 es2 ids p where t: "maintenance_trace env generation command j plan = es1 @ es2" "harmless es1"
    and g: "set ids \<inter> set (protected_snapshots (snapshotRecords (forget_listing env generation command j)) j pf) = {}"
    and a: "apply_events ids (Some p) (executeMaintenance env generation command j plan) es2"
    using assms(1-3) by (auto simp: retention_steps_def governs_def)
  from t assms(4,5) have "e \<in> set es2" by (auto simp: harmless_def list_all_iff destructive_def)
  from forget_in_plan [OF a this assms(5)] have "set (ran_ids e) \<subseteq> set ids" by (rule chunk_subset)
  with g show ?thesis by blast
qed

text \<open>C2: Nothing is forgotten that no durable plan names: before any forget request a plan naming its
  snapshots was persisted successfully, or the operation started from such a plan.\<close>
theorem plan_before_forget:
  assumes "maintenance_trace env generation command j plan = pre @ e # post" and "ran_op ''forget'' e"
  shows "\<exists>p. (Persisted p True \<in> set pre \<and> set (ran_ids e) \<subseteq> set (pl_candidate_snapshot_ids p)
        \<and> pl_forget_planned p)
    \<or> (plan = Some p \<and> forget_planned plan
        \<and> set (ran_ids e) \<subseteq> set (planned_candidates (snapshotRecords (forget_listing env generation command j)) p))"
proof -
  have "e \<in> set (maintenance_trace env generation command j plan)" using assms(1) by simp
  with forget_event_steps assms(2) have "retention_steps env generation command j plan" by blast
  then obtain pf es1 es2 ids p protected where t: "maintenance_trace env generation command j plan = es1 @ es2" "harmless es1"
    and g: "governs plan (snapshotRecords (forget_listing env generation command j)) protected pf j
            (cp_recovery_point_run_ids (ac_payload (jc_command command))) ids p es1"
    and a: "apply_events ids (Some p) (executeMaintenance env generation command j plan) es2"
    by (auto simp: retention_steps_def)
  have "e \<notin> set es1" using t(2) assms(2) by (auto simp: harmless_def list_all_iff destructive_def)
  with split_after [of es1 es2 pre e post] t assms(1) obtain mid where pre: "pre = es1 @ mid" and "e \<in> set es2"
    by auto
  with forget_in_plan [OF a _ assms(2)] have ids: "set (ran_ids e) \<subseteq> set ids" by (auto dest: chunk_subset)
  show ?thesis
  proof (cases "forget_planned plan")
    case True
    with g ids show ?thesis by (auto simp: governs_def)
  next
    case False
    with g obtain es0 where "es1 = es0 @ [Persisted p True]" and "pl_candidate_snapshot_ids p = ids"
      and "pl_forget_planned p"
      by (auto simp: governs_def fresh_plan_def)
    with ids pre show ?thesis by auto
  qed
qed

text \<open>Every forget request names between one and a hundred snapshots, the bound of the restic command
  line the request is turned into.\<close>
theorem forget_batch_bounds:
  assumes "e \<in> set (maintenance_trace env generation command j plan)" and "ran_op ''forget'' e"
  shows "1 \<le> length (ran_ids e) \<and> length (ran_ids e) \<le> 100"
proof -
  from forget_event_steps [OF assms] obtain es1 es2 ids p where
    t: "maintenance_trace env generation command j plan = es1 @ es2" "harmless es1"
    and a: "apply_events ids (Some p) (executeMaintenance env generation command j plan) es2"
    by (auto simp: retention_steps_def)
  from t assms have "e \<in> set es2" by (auto simp: harmless_def list_all_iff destructive_def)
  from chunk_bounds [OF forget_in_plan [OF a this assms(2)]] show ?thesis
    by (cases "ran_ids e") auto
qed

text \<open>C4: A retention that reports \<open>complete\<close> has seen a snapshot listing that shows none of the
  snapshots it asked to forget.\<close>
theorem retention_complete_verified:
  assumes "cr_status (mo_result (executeMaintenance env generation command j plan)) = ''complete''"
    and "e \<in> set (maintenance_trace env generation command j plan)" and "ran_op ''forget'' e"
  shows "\<exists>rq listing after. Ran rq listing \<in> set (maintenance_trace env generation command j plan)
    \<and> rq_operation rq = ''snapshots'' \<and> parseSnapshotInventory listing = Some after
    \<and> set (ran_ids e) \<inter> set after = {}"
proof -
  from forget_event_steps [OF assms(2,3)] obtain es1 es2 ids p where
    t: "maintenance_trace env generation command j plan = es1 @ es2" "harmless es1"
    and a: "apply_events ids (Some p) (executeMaintenance env generation command j plan) es2"
    by (auto simp: retention_steps_def)
  from t assms(2,3) have "e \<in> set es2" by (auto simp: harmless_def list_all_iff destructive_def)
  from forget_in_plan [OF a this assms(3)] have chunk: "ran_ids e \<in> set (chunks 100 ids)" .
  then have sub: "set (ran_ids e) \<subseteq> set ids" by (rule chunk_subset)
  have "ids \<noteq> []" using chunk by auto
  with a assms(1) obtain fs ls ps where es: "es2 = fs @ ls @ ps" "list_all (ran_op ''snapshots'') ls" "shows_removed ids ls"
    by (auto simp: apply_events_def)
  then obtain rq listing after where "Ran rq listing \<in> set ls" "parseSnapshotInventory listing = Some after"
    "set ids \<inter> set after = {}" by (auto simp: shows_removed_def)
  moreover from this(1) es(2) have "rq_operation rq = ''snapshots''" by (fastforce simp: list_all_iff)
  ultimately show ?thesis using t(1) es(1) sub by (intro exI [of _ rq] exI [of _ listing] exI [of _ after]) auto
qed

text \<open>C3: A destructive request is only made when the repository has no unresolved run, for a prune or for a
  retention that has a complete recovery point whose protected snapshots are all in the listing.\<close>
theorem destructive_only_when_safe:
  assumes "e \<in> set (maintenance_trace env generation command j plan)" and "destructive e"
  shows "\<not> jr_has_unresolved_runs (jb_retention j)
    \<and> (jc_run_kind command = ''prune'' \<or>
       jc_run_kind command = ''forget'' \<and> (\<exists>pf inventory. jr_latest_complete (jb_retention j) = Some pf
         \<and> cs_snapshot_ids pf \<noteq> []
         \<and> parseSnapshotInventory (forget_listing env generation command j) = Some inventory
         \<and> set (protected_snapshots (snapshotRecords (forget_listing env generation command j)) j pf) \<subseteq> set inventory))"
  using executeMaintenance_steps [of env generation command j plan] assms
  by (auto simp: harmless_def list_all_iff retention_steps_def)

text \<open>In a combined retention a prune is only requested after its started marker was saved, and the
  result says that the prune completed only if a prune succeeded and the completed marker, the last
  event, was saved.\<close>
theorem prune_between_markers:
  assumes "jc_run_kind command = ''forget''"
  shows "(\<forall>pre e post. maintenance_trace env generation command j plan = pre @ e # post \<and> ran_op ''prune'' e
      \<longrightarrow> (\<exists>p. Persisted p True \<in> set pre \<and> pl_prune_started p))
    \<and> (cr_prune_completed (mo_result (executeMaintenance env generation command j plan)) \<longrightarrow>
        (\<exists>tr p rq r. maintenance_trace env generation command j plan = tr @ [Ran rq r, Persisted p True]
          \<and> pl_prune_completed p \<and> rq_operation rq = ''prune'' \<and> rs_exit_code r = 0))"
proof (cases "retention_steps env generation command j plan")
  case False
  with executeMaintenance_steps [of env generation command j plan] assms
  have h: "harmless (maintenance_trace env generation command j plan)"
    and n: "\<not> cr_prune_completed (mo_result (executeMaintenance env generation command j plan))" by auto
  have "\<not> ran_op ''prune'' e" if "maintenance_trace env generation command j plan = pre @ e # post" for pre e post
    using h that by (auto simp: harmless_def destructive_def)
  with n show ?thesis by blast
next
  case True
  then obtain es1 es2 ids p where t: "maintenance_trace env generation command j plan = es1 @ es2" and h: "harmless es1"
    and a: "apply_events ids (Some p) (executeMaintenance env generation command j plan) es2"
    unfolding retention_steps_def by blast
  from a obtain fs ls ps where es: "es2 = fs @ ls @ ps" and f: "forget_events ids fs"
    and l: "list_all (ran_op ''snapshots'') ls"
    and ps: "prune_events (Some p) (cr_prune_completed (mo_result (executeMaintenance env generation command j plan))) ps"
    unfolding apply_events_def by blast
  define xs where "xs = es1 @ fs @ ls"
  have tr: "maintenance_trace env generation command j plan = xs @ ps" using t es by (simp add: xs_def)
  have "list_all (\<lambda>e. \<not> ran_op ''prune'' e) xs"
    unfolding xs_def list_all_append
  proof (intro conjI)
    show "list_all (\<lambda>e. \<not> ran_op ''prune'' e) es1"
      by (rule list_all_mono [OF h [unfolded harmless_def]]) (simp add: destructive_def)
    show "list_all (\<lambda>e. \<not> ran_op ''prune'' e) fs"
      by (rule list_all_mono [OF f [unfolded forget_events_def]]) (use ran_op_other [of "''forget''"] in force)
    show "list_all (\<lambda>e. \<not> ran_op ''prune'' e) ls"
      by (rule list_all_mono [OF l]) (use ran_op_other [of "''snapshots''"] in force)
  qed
  then have quiet: "\<not> ran_op ''prune'' e" if "e \<in> set xs" for e using that by (simp add: list_all_iff)
  show ?thesis
  proof (intro conjI allI impI)
    fix pre e post
    assume "maintenance_trace env generation command j plan = pre @ e # post \<and> ran_op ''prune'' e"
    then have split: "xs @ ps = pre @ e # post" and e: "ran_op ''prune'' e" using tr by auto
    from split_after [OF split] quiet e obtain mid where mid: "pre = xs @ mid" "ps = mid @ e # post" by blast
    from started_before_prune [OF ps mid(2) e] mid(1)
    show "\<exists>p. Persisted p True \<in> set pre \<and> pl_prune_started p" by auto
  next
    assume "cr_prune_completed (mo_result (executeMaintenance env generation command j plan))"
    with ps have "prune_events (Some p) True ps" by simp
    from completed_after_prune [OF this] tr
    show "\<exists>tr p rq r. maintenance_trace env generation command j plan = tr @ [Ran rq r, Persisted p True]
          \<and> pl_prune_completed p \<and> rq_operation rq = ''prune'' \<and> rs_exit_code r = 0"
      by (metis append.assoc)
  qed
qed

end
