(* ===== verification/RetentionWitness.thy ===== *)
theory RetentionWitness
  imports RetentionFacts
begin

text \<open>
  A concrete retention: the repository lists two snapshots, the latest complete recovery point is the
  first one and the policy keeps nothing else. The run forgets the second snapshot, which the
  second listing no longer shows, and prunes. It shows that the properties of \<open>RetentionFacts\<close>
  speak about runs that happen.
\<close>

section \<open>Printing snapshots\<close>

definition json_of_snapshot :: "repository_snapshot \<Rightarrow> json" where
  "json_of_snapshot s =
     JObj [(''id'', JStr (sn_id s)), (''original'', JStr (sn_original s)),
           (''tags'', JArr (map JStr (sn_tags s)))]"

lemma snapshot_decode: "dec_snapshot (json_of_snapshot s) zero_snapshot = Some s"
proof -
  have tags: "those (map ((\<lambda>v. dec_string v []) \<circ> JStr) vs) = Some vs" for vs
    by (induction vs) simp_all
  show ?thesis
    by (simp add: dec_snapshot_def json_of_snapshot_def zero_snapshot_def snapshot_fields_def
        find_field_def on_field_def tags)
qed

interpretation snapshot_codec: wire_codec json_of_snapshot dec_snapshot zero_snapshot "\<lambda>_. True"
  by unfold_locales (rule snapshot_decode)

definition snapshots_text :: "repository_snapshot list \<Rightarrow> string" where
  "snapshots_text ss = json_text (JArr (map json_of_snapshot ss))"

definition snapshot_ascii :: "repository_snapshot \<Rightarrow> bool" where
  "snapshot_ascii s = (ascii (sn_id s) \<and> ascii (sn_original s) \<and> list_all ascii (sn_tags s))"

lemma decode_snapshots_text: "list_all snapshot_ascii ss \<Longrightarrow> decode_snapshots (snapshots_text ss) = Some ss"
proof -
  assume "list_all snapshot_ascii ss"
  then have "json_ok (JArr (map json_of_snapshot ss))"
    by (auto simp: json_of_snapshot_def snapshot_ascii_def list_all_iff ascii_def byte_def)
  then show ?thesis
    using snapshot_codec.decode_list [of ss "[]"]
    by (simp add: list_all_iff decode_snapshots_def unmarshal_def snapshots_text_def json_parse_text del: json_text.simps)
qed

section \<open>The run\<close>

definition id_a :: string where
  "id_a = replicate 64 (CHR ''a'')"

definition id_b :: string where
  "id_b = replicate 64 (CHR ''b'')"

lemma id_facts [simp]: "is_digest id_a" "is_digest id_b" "ascii id_a" "ascii id_b" "id_a \<noteq> id_b" "id_b \<noteq> id_a"
  "id_a \<noteq> []" "id_b \<noteq> []"
  by (simp_all add: id_a_def id_b_def is_digest_def hex_alphabet_def ascii_def list_all_iff byte_def)

lemma id_order: "id_a < id_b"
  by (simp add: id_a_def id_b_def numeral_eq_Suc less_char_def)

definition plain_snapshot :: "string \<Rightarrow> repository_snapshot" where
  "plain_snapshot i = \<lparr>sn_id = i, sn_original = [], sn_tags = []\<rparr>"

definition ok_result :: "string \<Rightarrow> restic_result" where
  "ok_result text = \<lparr>rs_version = 1, rs_exit_code = 0, rs_outcome = ''complete'', rs_output = text,
     rs_diagnostic = [], rs_truncated = False, rs_dropped_bytes = 0\<rparr>"

definition listing_both :: restic_result where
  "listing_both = ok_result (snapshots_text [plain_snapshot id_a, plain_snapshot id_b])"

definition listing_one :: restic_result where
  "listing_one = ok_result (snapshots_text [plain_snapshot id_a])"

definition ok_empty :: restic_result where
  "ok_empty = ok_result []"

lemma listing_facts [simp]:
  "rs_exit_code listing_both = 0" "rs_exit_code listing_one = 0" "rs_exit_code ok_empty = 0"
  "parseSnapshotInventory listing_both = Some [id_a, id_b]" "parseSnapshotInventory listing_one = Some [id_a]"
  "snapshotRecords listing_both = [plain_snapshot id_a, plain_snapshot id_b]"
proof -
  have "unique_sorted [id_a, id_b] = [id_a, id_b]" "unique_sorted [id_a] = [id_a]"
    by (rule unique_sorted_id; simp add: id_order order_less_imp_le)+
  moreover have "snapshot_ascii (plain_snapshot id_a)" "snapshot_ascii (plain_snapshot id_b)"
    by (simp_all add: snapshot_ascii_def plain_snapshot_def) (simp_all add: ascii_def)
  ultimately show "parseSnapshotInventory listing_both = Some [id_a, id_b]"
    "parseSnapshotInventory listing_one = Some [id_a]"
    "snapshotRecords listing_both = [plain_snapshot id_a, plain_snapshot id_b]"
    by (simp_all add: parseSnapshotInventory_def snapshotRecords_def listing_both_def listing_one_def
        ok_result_def decode_snapshots_text) (simp_all add: plain_snapshot_def)
qed (simp_all add: listing_both_def listing_one_def ok_empty_def ok_result_def)

definition example_env :: maintenance_env where
  "example_env =
     \<lparr>me_run = (\<lambda>n rq. if n = 0 then listing_both else if n = 2 then listing_one else ok_empty),
      me_now = (\<lambda>n. 0), me_persist = (\<lambda>n p. True), me_deadline = (\<lambda>n. False)\<rparr>"

definition example_repository :: job_repository where
  "example_repository =
     \<lparr>rp_key = ''primary'', rp_id = ''r'', rp_destination = ''d'', rp_path = ''p'', rp_location = [],
      rp_service_password = ''secret'', rp_status = [], rp_source = [],
      rp_connection = LocalConnection ''/srv/backup''\<rparr>"

definition example_retention :: job_retention where
  "example_retention =
     \<lparr>jr_last = 0, jr_hourly = 0, jr_daily = 0, jr_weekly = 0, jr_monthly = 0, jr_yearly = 0,
      jr_keep_latest_complete = True, jr_group_by = [], jr_forget_cron = [], jr_prune_cron = [],
      jr_latest_complete = Some \<lparr>cs_run_id = [], cs_finished_at = [], cs_snapshot_ids = [id_a]\<rparr>,
      jr_has_unresolved_runs = False, jr_protected_snapshot_ids = [], jr_protected_run_ids = []\<rparr>"

definition example_job :: job where
  "example_job =
     \<lparr>jb_key = ''job_a'', jb_id = ''a'', jb_name = ''a'', jb_type = ''file'', jb_enabled = True,
      jb_source = \<lparr>js_root = ''/'', js_paths = [], js_one_file_system = True, js_excludes = [],
        js_mysql = None, js_postgresql = None\<rparr>,
      jb_repository = example_repository, jb_replicas = [], jb_replica_setups = [],
      jb_schedule = \<lparr>sh_kind = ''manual'', sh_preset = [], sh_expression = [], sh_timezone = []\<rparr>,
      jb_maintenance = \<lparr>jm_strategy = [], jm_max_deferral_seconds = 0, jm_prune_interval_seconds = 0\<rparr>,
      jb_retention = example_retention,
      jb_integrity = \<lparr>ji_metadata_cron = [], ji_data_mode = [], ji_data_cron = [], ji_data_parts = 0\<rparr>\<rparr>"

definition example_command :: journal_command where
  "example_command =
     \<lparr>jc_command = \<lparr>ac_id = [], ac_generation = 1, ac_kind = ''start_maintenance'', ac_issued_at = [],
        ac_expires_at = [], ac_payload = zero_payload\<rparr>,
      jc_run_id = ''run'', jc_config_revision = 1, jc_run_kind = ''forget'', jc_trigger = ''manual'',
      jc_scheduled_for = [], jc_job_snapshot = NoSnapshot, jc_received_at = [], jc_acknowledged = True,
      jc_state = ''running'', jc_sequence = 1, jc_events = [], jc_result = None, jc_update_result = None,
      jc_result_reported = False, jc_log_id = [], jc_log_bytes = 0, jc_log_sha256 = [],
      jc_log_truncated = False, jc_log_dropped_bytes = 0, jc_next_log_chunk = 0, jc_log_completed = False,
      jc_maintenance_plan = None, jc_wait_for_backup = False, jc_max_deferral_at = [],
      jc_catch_up_backup = False, jc_replication_pending = [], jc_replication_retry_at = []\<rparr>"

text \<open>The caller's plan asks for a combined retention.\<close>

definition combined_plan :: maintenance_plan where
  "combined_plan = zero_plan\<lparr>pl_kind := ''forget'', pl_combined_retention := True, pl_prune_after_forget := True\<rparr>"

lemmas example_defs = example_env_def example_command_def example_job_def example_retention_def
  example_repository_def combined_plan_def zero_plan_def zero_payload_def zero_result_def zero_request_def

lemma chunks_one: "chunks 100 [x] = [[x]]"
  by (simp add: chunks_step)

definition example_request :: "string \<Rightarrow> string list \<Rightarrow> bool \<Rightarrow> restic_request" where
  "example_request op ids recover =
     zero_request\<lparr>rq_version := 1, rq_operation := op, rq_connection := LocalConnection ''/srv/backup'',
       rq_password := ''secret'', rq_snapshot_ids := ids, rq_timeout_seconds := 1800,
       rq_lock_wait_seconds := 300, rq_recover_stale_locks := recover\<rparr>"

lemma example_policy: "isDatabaseJob ''file'' = False"
  by (simp add: isDatabaseJob_def isMySQLJob_def isPostgreSQLJob_def)

lemma example_run:
  "ms_log st = l \<Longrightarrow> ms_prepared st \<Longrightarrow> me_run example_env (ms_runs st) (rq\<lparr>rq_timeout_seconds := t, rq_lock_wait_seconds := 5 * 60,
      rq_recover_stale_locks := False\<rparr>) = r \<Longrightarrow> rs_exit_code r = 0
    \<Longrightarrow> run_maintenance example_env t rq st = (r, st\<lparr>ms_runs := Suc (ms_runs st),
          ms_log := appendMaintenanceLog (ms_log st) r,
          ms_trace := ms_trace st @ [Ran (rq\<lparr>rq_timeout_seconds := t, rq_lock_wait_seconds := 5 * 60,
      rq_recover_stale_locks := False\<rparr>) r]\<rparr>)"
  by (simp add: run_maintenance_def call_restic_def Let_def)

lemma example_protected:
  "protected_snapshots [plain_snapshot id_a, plain_snapshot id_b] example_job
     \<lparr>cs_run_id = [], cs_finished_at = [], cs_snapshot_ids = [id_a]\<rparr> = [id_a]"
  by (simp add: protected_snapshots_def snapshotIDsForRunIDs_def plain_snapshot_def example_job_def
      example_retention_def repositorySnapshotIDs_def is_digest_def unique_sorted_def)

definition example_out :: maintenance_outcome where
  "example_out = executeMaintenance example_env 1 example_command example_job (Some combined_plan)"

lemma id_sort: "sort [id_a, id_b] = [id_a, id_b]"
  by (rule sorted_sort_id) (simp add: id_order order_less_imp_le)

lemma example_evaluated:
  "\<exists>p q q'. ms_trace (mo_state example_out) =
     [Ran (example_request ''snapshots'' [] True) listing_both, Persisted p True,
      Ran (example_request ''forget'' [id_b] False) ok_empty,
      Ran (example_request ''snapshots'' [] False) listing_one, Persisted q True,
      Ran (example_request ''prune'' [] False) ok_empty, Persisted q' True]
   \<and> cr_status (mo_result example_out) = ''complete'' \<and> cr_prune_completed (mo_result example_out)"
proof -
  have setting: "jc_run_kind example_command = ''forget''" "plan_mismatch ''forget'' (Some combined_plan) = False"
    "jr_has_unresolved_runs (jb_retention example_job) = False"
    "jr_latest_complete (jb_retention example_job) = Some \<lparr>cs_run_id = [], cs_finished_at = [], cs_snapshot_ids = [id_a]\<rparr>"
    "cp_snapshot_ids (ac_payload (jc_command example_command)) = []"
    "cp_recovery_point_run_ids (ac_payload (jc_command example_command)) = []"
    "pl_combined_retention combined_plan" "pl_prune_after_forget combined_plan"
    "forget_planned (Some combined_plan) = False" "isDatabaseJob (jb_type example_job) = False"
    "retentionPolicyEmpty (retention_policy_of example_job) = True"
    "maintenanceTimeout ''forget'' example_job = 1800"
    "maintenanceRequest example_job = zero_request\<lparr>rq_version := 1, rq_connection := LocalConnection ''/srv/backup'',
       rq_password := ''secret''\<rparr>"
    by (simp_all add: example_command_def zero_payload_def plan_mismatch_def combined_plan_def zero_plan_def
        forget_planned_def example_job_def example_retention_def example_policy retentionPolicyEmpty_def
        retention_policy_of_def maintenanceTimeout_def maintenanceRequest_def example_repository_def)
  have env: "me_persist example_env n p = True" "me_run example_env 0 rq = listing_both"
    "me_run example_env 1 rq = ok_empty" "me_run example_env (Suc 0) rq = ok_empty"
    "me_run example_env (Suc (Suc 0)) rq = listing_one" "me_run example_env (Suc (Suc (Suc 0))) rq = ok_empty" for n p rq
    by (simp_all add: example_env_def)
  have ids: "sn_id (plain_snapshot i) = i" "id_a \<le> id_b"
    "withoutProtected [id_a, id_b] [id_a] = [id_b]" "count_in [id_b] [id_a] = 0"
    for i
    by (simp_all add: plain_snapshot_def withoutProtected_def count_in_def id_order order_less_imp_le)
  show ?thesis
    unfolding example_out_def executeMaintenance_def maintenance_base_def initial_maintenance_def
    by (simp add: setting env ids id_sort Let_def read_clock_def executeForget_def example_protected
        run_maintenance_def call_restic_def choose_plan_def policy_candidates_def persist_plan_def
        apply_plan_def remove_candidates_def chunks_one finishRetention_def fresh_plan_def
        finish_maintenance_def set_status_def set_statistic_def set_summary_def forget_request_def
        example_request_def)
      (simp add: zero_request_def)
qed

abbreviation example_trace :: "maintenance_event list" where
  "example_trace \<equiv> maintenance_trace example_env 1 example_command example_job (Some combined_plan)"

definition example_forget :: maintenance_event where
  "example_forget = Ran (example_request ''forget'' [id_b] False) ok_empty"

lemma example_shape:
  "\<exists>r p q q' l. example_trace = [r, Persisted p True] @ example_forget
     # [l, Persisted q True, Ran (example_request ''prune'' [] False) ok_empty, Persisted q' True]"
  using example_evaluated by (auto simp: maintenance_trace_def example_out_def example_forget_def)

lemma example_forget_facts: "ran_op ''forget'' example_forget" "ran_ids example_forget = [id_b]"
  "destructive example_forget" "example_forget \<in> set example_trace"
  using example_shape by (auto simp: example_forget_def example_request_def destructive_def)

lemma example_settings:
  "jr_latest_complete (jb_retention example_job) = Some \<lparr>cs_run_id = [], cs_finished_at = [], cs_snapshot_ids = [id_a]\<rparr>"
  "cp_recovery_point_run_ids (ac_payload (jc_command example_command)) = []"
  "jc_run_kind example_command = ''forget''" "\<not> forget_planned (Some combined_plan)"
  by (simp_all add: example_job_def example_retention_def example_command_def zero_payload_def
      forget_planned_def combined_plan_def zero_plan_def)

section \<open>Witnesses\<close>

lemma retention_keeps_protected_witness:
  "set (ran_ids example_forget) \<inter> set (protected_snapshots
      (snapshotRecords (forget_listing example_env 1 example_command example_job)) example_job
      \<lparr>cs_run_id = [], cs_finished_at = [], cs_snapshot_ids = [id_a]\<rparr>) = {} \<and> ran_ids example_forget = [id_b]"
  using retention_keeps_protected [OF example_settings(1,2,4) example_forget_facts(4,1)] example_forget_facts(2)
  by simp

lemma plan_before_forget_witness:
  "\<exists>pre post. example_trace = pre @ example_forget # post \<and>
    (\<exists>p. (Persisted p True \<in> set pre \<and> set (ran_ids example_forget) \<subseteq> set (pl_candidate_snapshot_ids p)
        \<and> pl_forget_planned p)
    \<or> (Some combined_plan = Some p \<and> forget_planned (Some combined_plan) \<and> set (ran_ids example_forget) \<subseteq> set
        (planned_candidates (snapshotRecords (forget_listing example_env 1 example_command example_job)) p)))"
proof -
  from example_shape obtain pre post where "example_trace = pre @ example_forget # post" by blast
  with plan_before_forget [OF this example_forget_facts(1)] show ?thesis by blast
qed

lemma forget_batch_bounds_witness:
  "1 \<le> length (ran_ids example_forget) \<and> length (ran_ids example_forget) \<le> 100"
  by (rule forget_batch_bounds [OF example_forget_facts(4,1)])

lemma retention_complete_verified_witness:
  "\<exists>rq listing after. Ran rq listing \<in> set example_trace
    \<and> rq_operation rq = ''snapshots'' \<and> parseSnapshotInventory listing = Some after
    \<and> set (ran_ids example_forget) \<inter> set after = {}"
  using retention_complete_verified [OF _ example_forget_facts(4,1)] example_evaluated
  by (simp add: example_out_def)

lemma destructive_only_when_safe_witness:
  "\<not> jr_has_unresolved_runs (jb_retention example_job)"
  using destructive_only_when_safe [OF example_forget_facts(4,3)] by simp

lemma prune_between_markers_witness:
  "\<exists>tr p rq r. example_trace = tr @ [Ran rq r, Persisted p True]
    \<and> pl_prune_completed p \<and> rq_operation rq = ''prune'' \<and> rs_exit_code r = 0"
  using prune_between_markers [OF example_settings(3), of example_env 1 example_job "Some combined_plan"]
    example_evaluated by (simp add: example_out_def)

end
