(* ===== verification/MaintenanceRepositories.thy ===== *)
theory MaintenanceRepositories
  imports RetentionFacts
begin

text \<open>
  A maintenance operation over the primary repository and its replicas
  (agent/maintenance_repositories.go): each repository is tried again after a retryable failure, the
  plan the primary made is carried to the replicas, and the results are combined.
\<close>

section \<open>Attempts\<close>

text \<open>The environment of one repository: that of each attempt, whether the timer of a wait fired (else
  the context ended), and the answer to the final \<open>stats\<close> request.\<close>

record repository_env =
  re_attempt :: "nat \<Rightarrow> maintenance_env"
  re_wait :: "nat \<Rightarrow> bool"
  re_stats :: restic_result

record attempts_outcome =
  at_result :: command_result
  at_log :: string
  at_truncated :: bool
  at_dropped :: nat
  at_count :: nat
  at_plan :: "maintenance_plan option"
  at_trace :: "maintenance_event list"

definition retryableMaintenanceResult :: "command_result \<Rightarrow> bool" where
  "retryableMaintenanceResult r =
     (cr_status r = ''failed''
      \<and> cr_result_code r \<in> set [''repository_locked'', ''timed_out'', ''execution_failed''])"

definition appendBoundedMaintenanceLog ::
  "string \<Rightarrow> bool \<Rightarrow> nat \<Rightarrow> string \<Rightarrow> string \<times> bool \<times> nat" where
  "appendBoundedMaintenanceLog log truncated dropped contents =
     (if maximumRunLog \<le> length log then (log, truncated \<or> contents \<noteq> [], dropped + length contents)
      else
        (let available = maximumRunLog - length log
         in if available < length contents
            then (log @ take available contents, True, dropped + (length contents - available))
            else (log @ contents, truncated, dropped)))"

text \<open>The plan the next attempt starts from: the last one handed to \<open>persistPlan\<close>, saved or not.\<close>

definition last_plan :: "maintenance_event list \<Rightarrow> maintenance_plan option \<Rightarrow> maintenance_plan option" where
  "last_plan tr cur = foldl (\<lambda>c e. case e of Persisted p ok \<Rightarrow> Some p | Ran rq r \<Rightarrow> c) cur tr"

text \<open>The loop of \<open>executeRepositoryMaintenance\<close> from attempt \<open>n\<close> on. \<open>capture\<close> says whether the plan of
  an attempt reaches the next one, as it does for the primary only. The list is what is left of
  \<open>retryDelays\<close>.\<close>

fun repository_attempts ::
  "bool \<Rightarrow> repository_env \<Rightarrow> nat \<Rightarrow> journal_command \<Rightarrow> job \<Rightarrow> int list \<Rightarrow> nat \<Rightarrow> maintenance_plan option \<Rightarrow>
   string \<Rightarrow> bool \<Rightarrow> nat \<Rightarrow> maintenance_event list \<Rightarrow> attempts_outcome" where
  "repository_attempts capture env generation command j delays n plan log truncated dropped tr =
     (let out = executeMaintenance (re_attempt env n) generation command j plan;
          attempt_trace = ms_trace (mo_state out);
          plan' = (if capture then last_plan attempt_trace plan else plan);
          (log, truncated, dropped) = appendBoundedMaintenanceLog log truncated dropped (mo_log out);
          truncated = (truncated \<or> mo_truncated out);
          dropped = dropped + mo_dropped out;
          ended = \<lparr>at_result = mo_result out, at_log = log, at_truncated = truncated, at_dropped = dropped,
                   at_count = Suc n, at_plan = plan', at_trace = tr @ attempt_trace\<rparr>
      in if \<not> retryableMaintenanceResult (mo_result out) then ended
         else (case delays of
                 [] \<Rightarrow> ended
               | d # ds \<Rightarrow>
                   if \<not> re_wait env n then ended
                   else repository_attempts capture env generation command j ds (Suc n) plan' log truncated
                          dropped (tr @ attempt_trace)))"

declare repository_attempts.simps [simp del]

definition executeRepositoryMaintenance ::
  "bool \<Rightarrow> repository_env \<Rightarrow> nat \<Rightarrow> journal_command \<Rightarrow> job \<Rightarrow> maintenance_plan option \<Rightarrow> int list \<Rightarrow> attempts_outcome" where
  "executeRepositoryMaintenance capture env generation command j plan delays =
     repository_attempts capture env generation command j delays 0 plan [] False 0 []"

section \<open>Repositories\<close>

definition repository_stats_fields :: "(string \<times> nat decoder) list" where
  "repository_stats_fields = [(''total_size'', on_field dec_uint64 id (\<lambda>v _. v))]"

definition measureRepositoryBytes :: "restic_result \<Rightarrow> nat option" where
  "measureRepositoryBytes r =
     (if rs_exit_code r \<noteq> 0 then None else unmarshal (dec_struct False repository_stats_fields) 0 (rs_output r))"

definition repositoryLogHeader :: "job_repository \<Rightarrow> string" where
  "repositoryLogHeader r = ''repository '' @ rp_key r @ '':'' @ [newline]"

definition repositoryResult :: "job_repository \<Rightarrow> command_result \<Rightarrow> nat \<Rightarrow> repository_result" where
  "repositoryResult r result attempts =
     \<lparr>rr_repository_key = rp_key r, rr_repository_id = rp_id r, rr_status = cr_status result,
      rr_result_code = cr_result_code result, rr_attempt_count = attempts,
      rr_started_at = cr_started_at result, rr_finished_at = cr_finished_at result,
      rr_summary = cr_summary result, rr_diagnostic = cr_diagnostic result,
      rr_statistics = cr_statistics result, rr_repository_bytes = cr_repository_bytes result,
      rr_snapshot_evidence = cr_snapshot_evidence result,
      rr_snapshot_evidence_ids = cr_snapshot_evidence_ids result\<rparr>"

record repositories_outcome =
  mr_result :: command_result
  mr_log :: string
  mr_truncated :: bool
  mr_dropped :: nat
  mr_traces :: "maintenance_event list list"

definition child_job :: "job \<Rightarrow> job_repository \<Rightarrow> job" where
  "child_job j r = j\<lparr>jb_repository := r, jb_replicas := [], jb_replica_setups := []\<rparr>"

definition child_plan :: "maintenance_plan option \<Rightarrow> maintenance_plan option" where
  "child_plan plan =
     map_option (\<lambda>p. p\<lparr>pl_candidate_snapshot_ids := [], pl_protected_snapshot_ids := []\<rparr>) plan"

text \<open>A replica saves no plan: its \<open>persistPlan\<close> always returns nil.\<close>

definition replica_env :: "repository_env \<Rightarrow> repository_env" where
  "replica_env env = env\<lparr>re_attempt := (\<lambda>n. (re_attempt env n)\<lparr>me_persist := (\<lambda>_ _. True)\<rparr>)\<rparr>"

definition replica_attempts ::
  "repository_env \<Rightarrow> nat \<Rightarrow> journal_command \<Rightarrow> job \<Rightarrow> job_repository \<Rightarrow> maintenance_plan option \<Rightarrow> int list \<Rightarrow> attempts_outcome" where
  "replica_attempts env generation command j r plan delays =
     executeRepositoryMaintenance False (replica_env env) generation command (child_job j r) (child_plan plan) delays"

text \<open>The loop over the replicas; the accumulated values are those of the outcome, whether all were
  complete and whether all pruned.\<close>

fun replica_loop ::
  "(nat \<Rightarrow> repository_env) \<Rightarrow> nat \<Rightarrow> journal_command \<Rightarrow> job \<Rightarrow> maintenance_plan option \<Rightarrow> int list \<Rightarrow>
   nat \<Rightarrow> job_repository list \<Rightarrow> repositories_outcome \<Rightarrow> bool \<Rightarrow> bool \<Rightarrow> repositories_outcome \<times> bool \<times> bool" where
  "replica_loop envs generation command j plan delays i [] acc complete pruned = (acc, complete, pruned)"
| "replica_loop envs generation command j plan delays i (r # rs) acc complete pruned =
     (let out = replica_attempts (envs i) generation command j r plan delays;
          child = (at_result out)\<lparr>cr_repository_bytes := measureRepositoryBytes (re_stats (envs i))\<rparr>;
          (log, truncated, dropped) = appendBoundedMaintenanceLog (mr_log acc) (mr_truncated acc) (mr_dropped acc)
             (repositoryLogHeader r @ at_log out);
          result = (mr_result acc)\<lparr>cr_repository_results :=
             cr_repository_results (mr_result acc) @ [repositoryResult r child (at_count out)]\<rparr>
      in replica_loop envs generation command j plan delays (Suc i) rs
           \<lparr>mr_result = result, mr_log = log, mr_truncated = (truncated \<or> at_truncated out),
            mr_dropped = dropped + at_dropped out, mr_traces = mr_traces acc @ [at_trace out]\<rparr>
           (complete \<and> cr_status child = ''complete'') (pruned \<and> cr_prune_completed child))"

definition executeMaintenanceRepositories ::
  "(nat \<Rightarrow> repository_env) \<Rightarrow> nat \<Rightarrow> journal_command \<Rightarrow> job \<Rightarrow> maintenance_plan option \<Rightarrow> int list \<Rightarrow> repositories_outcome" where
  "executeMaintenanceRepositories envs generation command j plan delays =
     (let out = executeRepositoryMaintenance True (envs 0) generation command j plan delays;
          current = at_plan out;
          primary = (at_result out)\<lparr>cr_repository_bytes := measureRepositoryBytes (re_stats (envs 0)),
                                    cr_maintenance_plan := current\<rparr>;
          primary = primary\<lparr>cr_repository_results := [repositoryResult (jb_repository j) primary (at_count out)],
                            cr_diagnostic := []\<rparr>;
          log = (if jb_replicas j \<noteq> [] then repositoryLogHeader (jb_repository j) else []) @ at_log out;
          acc = \<lparr>mr_result = primary, mr_log = log, mr_truncated = at_truncated out,
                 mr_dropped = at_dropped out, mr_traces = [at_trace out]\<rparr>
      in if jc_run_kind command = ''forget'' \<and> cr_status primary \<noteq> ''complete'' then acc
         else
           (let (acc, complete, pruned) = replica_loop envs generation command j current delays 1 (jb_replicas j) acc
                  (cr_status primary = ''complete'') (cr_prune_completed primary);
                result = (mr_result acc)\<lparr>cr_prune_completed := pruned, cr_maintenance_plan := current\<rparr>;
                result = (if \<not> complete \<and> cr_status result = ''complete''
                          then set_status ''partial'' ''repository_operations_incomplete''
                                 ''The operation completed on the primary repository, but one or more replicas need attention.'' result
                          else result)
            in acc\<lparr>mr_result := result\<rparr>))"

section \<open>Facts about attempts\<close>

text \<open>One step of the loop: it ends here, or it goes on with one delay less.\<close>

lemma attempts_cases:
  fixes plan :: "maintenance_plan option"
  defines "one \<equiv> \<lambda>env n generation command j (plan :: maintenance_plan option).
    executeMaintenance (re_attempt env n) generation command j plan"
  obtains (ended) out where
      "repository_attempts capture env generation command j delays n plan log truncated dropped tr = out"
      "at_count out = Suc n" "at_result out = mo_result (one env n generation command j plan)"
      "at_trace out = tr @ ms_trace (mo_state (one env n generation command j plan))"
      "at_plan out = (if capture then last_plan (ms_trace (mo_state (one env n generation command j plan))) plan else plan)"
      "\<not> retryableMaintenanceResult (at_result out) \<or> delays = [] \<or> \<not> re_wait env n"
  | (again) d ds l t k where "delays = d # ds" "re_wait env n"
      "retryableMaintenanceResult (mo_result (one env n generation command j plan))"
      "repository_attempts capture env generation command j delays n plan log truncated dropped tr =
        repository_attempts capture env generation command j ds (Suc n)
          (if capture then last_plan (ms_trace (mo_state (one env n generation command j plan))) plan else plan)
          l t k (tr @ ms_trace (mo_state (one env n generation command j plan)))"
proof -
  let ?out = "one env n generation command j plan"
  let ?here = "repository_attempts capture env generation command j delays n plan log truncated dropped tr"
  obtain l t k where b: "appendBoundedMaintenanceLog log truncated dropped (mo_log ?out) = (l, t, k)"
    by (cases "appendBoundedMaintenanceLog log truncated dropped (mo_log ?out)") auto
  note b' = b [unfolded one_def]
  show thesis
  proof (cases "retryableMaintenanceResult (mo_result ?out) \<and> delays \<noteq> [] \<and> re_wait env n")
    case True
    then obtain d ds where d: "delays = d # ds" by (cases delays) auto
    from True have "?here = repository_attempts capture env generation command j ds (Suc n)
        (if capture then last_plan (ms_trace (mo_state ?out)) plan else plan) l (t \<or> mo_truncated ?out)
        (k + mo_dropped ?out) (tr @ ms_trace (mo_state ?out))"
      unfolding d one_def by (subst repository_attempts.simps) (simp add: Let_def b')
    with True d show thesis by (intro again) simp_all
  next
    case False
    then have stop: "\<not> retryableMaintenanceResult (mo_result ?out) \<or> delays = [] \<or> \<not> re_wait env n" by blast
    then have here: "?here = \<lparr>at_result = mo_result ?out, at_log = l, at_truncated = (t \<or> mo_truncated ?out),
          at_dropped = k + mo_dropped ?out, at_count = Suc n,
          at_plan = (if capture then last_plan (ms_trace (mo_state ?out)) plan else plan),
          at_trace = tr @ ms_trace (mo_state ?out)\<rparr>"
      unfolding one_def by (subst repository_attempts.simps) (auto simp: Let_def b' split: list.splits)
    show thesis by (rule ended [OF refl]) (use stop in \<open>simp_all add: here\<close>)
  qed
qed

lemma attempts_bound:
  fixes capture env generation command j
  defines "out \<equiv> \<lambda>n delays plan log truncated dropped tr.
    repository_attempts capture env generation command j delays n plan log truncated dropped tr"
  shows "n < at_count (out n delays plan log truncated dropped tr)
   \<and> at_count (out n delays plan log truncated dropped tr) \<le> Suc (n + length delays)
   \<and> (retryableMaintenanceResult (at_result (out n delays plan log truncated dropped tr))
      \<longrightarrow> at_count (out n delays plan log truncated dropped tr) = Suc (n + length delays)
        \<or> \<not> re_wait env (at_count (out n delays plan log truncated dropped tr) - 1))"
  unfolding out_def
proof (induction delays arbitrary: n plan log truncated dropped tr)
  case Nil
  show ?case
  proof (cases rule: attempts_cases [of capture env generation command j "[]" n plan log truncated dropped tr])
    case (ended out)
    then show ?thesis by auto
  qed simp
next
  case (Cons d ds)
  show ?case
  proof (cases rule: attempts_cases [of capture env generation command j "d # ds" n plan log truncated dropped tr])
    case (ended out)
    then show ?thesis by auto
  next
    case (again d' ds' l t k)
    then show ?thesis
      using Cons [where n = "Suc n" and log = l and truncated = t and dropped = k
          and plan = "if capture then last_plan (ms_trace (mo_state (executeMaintenance (re_attempt env n)
            generation command j plan))) plan else plan"
          and tr = "tr @ ms_trace (mo_state (executeMaintenance (re_attempt env n) generation command j plan))"]
      by simp
  qed
qed

text \<open>Without capturing, every attempt runs the same plan, and the trace is that of the attempts.\<close>

lemma attempts_trace:
  fixes env generation command j plan
  defines "out \<equiv> \<lambda>n delays log truncated dropped tr.
    repository_attempts False env generation command j delays n plan log truncated dropped tr"
  shows "at_trace (out n delays log truncated dropped tr) =
    tr @ concat (map (\<lambda>k. maintenance_trace (re_attempt env k) generation command j plan)
      [n..<at_count (out n delays log truncated dropped tr)])"
  unfolding out_def
proof (induction delays arbitrary: n log truncated dropped tr)
  case Nil
  show ?case
  proof (cases rule: attempts_cases [of False env generation command j "[]" n plan log truncated dropped tr])
    case (ended out)
    then show ?thesis by (simp add: maintenance_trace_def)
  qed simp
next
  case (Cons d ds)
  show ?case
  proof (cases rule: attempts_cases [of False env generation command j "d # ds" n plan log truncated dropped tr])
    case (ended out)
    then show ?thesis by (simp add: maintenance_trace_def)
  next
    case (again d' ds' l t k)
    define next_out where "next_out = repository_attempts False env generation command j ds (Suc n) plan l t k
      (tr @ ms_trace (mo_state (executeMaintenance (re_attempt env n) generation command j plan)))"
    have here: "repository_attempts False env generation command j (d # ds) n plan log truncated dropped tr = next_out"
      using again by (simp add: next_out_def)
    have "Suc n < at_count next_out"
      unfolding next_out_def using attempts_bound [where n = "Suc n" and capture = False] by blast
    then have "[n..<at_count next_out] = n # [Suc n..<at_count next_out]" by (simp add: upt_conv_Cons)
    then show ?thesis
      unfolding here using Cons.IH [of "Suc n" l t k "tr @ ms_trace (mo_state (executeMaintenance (re_attempt env n) generation command j plan))"]
      by (simp add: next_out_def [symmetric] maintenance_trace_def)
  qed
qed

section \<open>Facts about replicas\<close>

lemma replica_loop_facts:
  assumes "replica_loop envs generation command j plan delays i rs acc complete pruned = (acc', complete', pruned')"
  shows "cr_status (mr_result acc') = cr_status (mr_result acc)
    \<and> (\<exists>results traces. cr_repository_results (mr_result acc') = cr_repository_results (mr_result acc) @ results
        \<and> mr_traces acc' = mr_traces acc @ traces \<and> length results = length traces \<and> length traces = length rs
        \<and> complete' = (complete \<and> list_all (\<lambda>r. rr_status r = ''complete'') results)
        \<and> (\<forall>tr \<in> set traces. \<exists>k r. r \<in> set rs \<and> tr = at_trace (replica_attempts (envs k) generation command j r plan delays)))"
  using assms
proof (induction rs arbitrary: i acc complete pruned)
  case Nil
  then show ?case by auto
next
  case (Cons r rs)
  define out where "out = replica_attempts (envs i) generation command j r plan delays"
  define child where "child = (at_result out)\<lparr>cr_repository_bytes := measureRepositoryBytes (re_stats (envs i))\<rparr>"
  obtain l t d where b: "appendBoundedMaintenanceLog (mr_log acc) (mr_truncated acc) (mr_dropped acc)
       (repositoryLogHeader r @ at_log out) = (l, t, d)"
    by (cases "appendBoundedMaintenanceLog (mr_log acc) (mr_truncated acc) (mr_dropped acc)
       (repositoryLogHeader r @ at_log out)") auto
  define acc1 where "acc1 = \<lparr>mr_result = (mr_result acc)\<lparr>cr_repository_results :=
             cr_repository_results (mr_result acc) @ [repositoryResult r child (at_count out)]\<rparr>,
           mr_log = l, mr_truncated = (t \<or> at_truncated out), mr_dropped = d + at_dropped out,
           mr_traces = mr_traces acc @ [at_trace out]\<rparr>"
  have "replica_loop envs generation command j plan delays (Suc i) rs acc1
      (complete \<and> cr_status child = ''complete'') (pruned \<and> cr_prune_completed child) = (acc', complete', pruned')"
    using Cons.prems
    unfolding replica_loop.simps Let_def out_def [symmetric] child_def [symmetric] b prod.case acc1_def [symmetric] .
  from Cons.IH [OF this] obtain results traces where
    r: "cr_repository_results (mr_result acc') = cr_repository_results (mr_result acc1) @ results"
    "mr_traces acc' = mr_traces acc1 @ traces" "length results = length traces" "length traces = length rs"
    "complete' = ((complete \<and> cr_status child = ''complete'') \<and> list_all (\<lambda>r. rr_status r = ''complete'') results)"
    "\<forall>tr \<in> set traces. \<exists>k q. q \<in> set rs \<and> tr = at_trace (replica_attempts (envs k) generation command j q plan delays)"
    and s: "cr_status (mr_result acc') = cr_status (mr_result acc1)" by blast
  have st: "rr_status (repositoryResult r child (at_count out)) = cr_status child" by (simp add: repositoryResult_def)
  show ?case
  proof (intro conjI exI)
    show "cr_status (mr_result acc') = cr_status (mr_result acc)" using s by (simp add: acc1_def)
    show "cr_repository_results (mr_result acc') =
        cr_repository_results (mr_result acc) @ (repositoryResult r child (at_count out) # results)"
      using r(1) by (simp add: acc1_def)
    show "mr_traces acc' = mr_traces acc @ (at_trace out # traces)" using r(2) by (simp add: acc1_def)
    show "complete' = (complete \<and> list_all (\<lambda>r. rr_status r = ''complete'')
        (repositoryResult r child (at_count out) # results))" using r(5) st by auto
    show "\<forall>tr \<in> set (at_trace out # traces). \<exists>k q. q \<in> set (r # rs)
        \<and> tr = at_trace (replica_attempts (envs k) generation command j q plan delays)"
      using r(6) unfolding out_def by fastforce
  qed (use r in simp_all)
qed

definition primary_attempts ::
  "(nat \<Rightarrow> repository_env) \<Rightarrow> nat \<Rightarrow> journal_command \<Rightarrow> job \<Rightarrow> maintenance_plan option \<Rightarrow> int list \<Rightarrow> attempts_outcome" where
  "primary_attempts envs generation command j plan delays =
     executeRepositoryMaintenance True (envs 0) generation command j plan delays"

lemma repositories_facts:
  fixes envs generation command j plan delays
  defines "out \<equiv> executeMaintenanceRepositories envs generation command j plan delays"
  defines "prim \<equiv> primary_attempts envs generation command j plan delays"
  shows "(cr_status (mr_result out) = ''complete'') = list_all (\<lambda>r. rr_status r = ''complete'') (cr_repository_results (mr_result out))
    \<and> length (cr_repository_results (mr_result out)) = length (mr_traces out)
    \<and> hd (mr_traces out) = at_trace prim
    \<and> (jc_run_kind command = ''forget'' \<and> cr_status (at_result prim) \<noteq> ''complete'' \<longrightarrow> tl (mr_traces out) = [])
    \<and> (\<forall>tr \<in> set (tl (mr_traces out)). \<exists>k r. r \<in> set (jb_replicas j)
         \<and> tr = at_trace (replica_attempts (envs k) generation command j r (at_plan prim) delays))"
proof -
  define primary where "primary = (at_result prim)\<lparr>cr_repository_bytes := measureRepositoryBytes (re_stats (envs 0)),
                                    cr_maintenance_plan := at_plan prim\<rparr>"
  define primary1 where "primary1 = primary\<lparr>cr_repository_results := [repositoryResult (jb_repository j) primary (at_count prim)],
                            cr_diagnostic := []\<rparr>"
  define acc where "acc = \<lparr>mr_result = primary1,
     mr_log = (if jb_replicas j \<noteq> [] then repositoryLogHeader (jb_repository j) else []) @ at_log prim,
     mr_truncated = at_truncated prim, mr_dropped = at_dropped prim, mr_traces = [at_trace prim]\<rparr>"
  have status: "cr_status primary1 = cr_status (at_result prim)"
    and results: "cr_repository_results primary1 = [repositoryResult (jb_repository j) primary (at_count prim)]"
    and st: "rr_status (repositoryResult (jb_repository j) primary (at_count prim)) = cr_status (at_result prim)"
    by (simp_all add: primary1_def primary_def repositoryResult_def)
  obtain acc1 complete pruned where loop: "replica_loop envs generation command j (at_plan prim) delays 1 (jb_replicas j) acc
      (cr_status primary1 = ''complete'') (cr_prune_completed primary1) = (acc1, complete, pruned)"
    by (cases "replica_loop envs generation command j (at_plan prim) delays 1 (jb_replicas j) acc
      (cr_status primary1 = ''complete'') (cr_prune_completed primary1)") auto
  define result where "result = (mr_result acc1)\<lparr>cr_prune_completed := pruned, cr_maintenance_plan := at_plan prim\<rparr>"
  have out: "out = (if jc_run_kind command = ''forget'' \<and> cr_status primary1 \<noteq> ''complete'' then acc
     else acc1\<lparr>mr_result := (if \<not> complete \<and> cr_status result = ''complete''
        then set_status ''partial'' ''repository_operations_incomplete''
           ''The operation completed on the primary repository, but one or more replicas need attention.'' result
        else result)\<rparr>)"
    unfolding out_def executeMaintenanceRepositories_def Let_def primary_attempts_def [symmetric] prim_def [symmetric]
      primary_def [symmetric] primary1_def [symmetric] acc_def [symmetric] loop prod.case result_def [symmetric] ..
  show ?thesis
  proof (cases "jc_run_kind command = ''forget'' \<and> cr_status primary1 \<noteq> ''complete''")
    case True
    then have "out = acc" by (simp add: out)
    with True status st show ?thesis by (simp add: acc_def results)
  next
    case False
    from replica_loop_facts [OF loop] obtain rs traces where
      f: "cr_repository_results (mr_result acc1) = cr_repository_results (mr_result acc) @ rs"
      "mr_traces acc1 = mr_traces acc @ traces" "length rs = length traces" "length traces = length (jb_replicas j)"
      "complete = (cr_status primary1 = ''complete'' \<and> list_all (\<lambda>r. rr_status r = ''complete'') rs)"
      "\<forall>tr \<in> set traces. \<exists>k r. r \<in> set (jb_replicas j)
         \<and> tr = at_trace (replica_attempts (envs k) generation command j r (at_plan prim) delays)"
      and s: "cr_status (mr_result acc1) = cr_status (mr_result acc)" by blast
    have res: "cr_repository_results (mr_result out) = repositoryResult (jb_repository j) primary (at_count prim) # rs"
      using f(1) unfolding out if_not_P [OF False] by (simp add: result_def set_status_def acc_def results)
    have traces: "mr_traces out = at_trace prim # traces" using f(2) unfolding out if_not_P [OF False] by (simp add: acc_def)
    have stat: "cr_status (mr_result out) = (if \<not> complete \<and> cr_status primary1 = ''complete'' then ''partial''
        else cr_status primary1)"
      using s unfolding out if_not_P [OF False] by (simp add: result_def acc_def)
    show ?thesis
    proof (intro conjI)
      show "(cr_status (mr_result out) = ''complete'')
          = list_all (\<lambda>r. rr_status r = ''complete'') (cr_repository_results (mr_result out))"
        using f(5) status st by (simp add: res stat)
    qed (use False f(3,4,6) status in \<open>auto simp: res traces\<close>)
  qed
qed

section \<open>Properties\<close>

text \<open>A repository is tried at most once more than there are delays, and a retryable failure is only
  reported when all attempts are used up or the operation's context ended during a wait.\<close>
theorem attempts_exhausted:
  fixes plan :: "maintenance_plan option"
  assumes "out = executeRepositoryMaintenance capture env generation command j plan delays"
  shows "1 \<le> at_count out \<and> at_count out \<le> Suc (length delays)
    \<and> (retryableMaintenanceResult (at_result out)
        \<longrightarrow> at_count out = Suc (length delays) \<or> \<not> re_wait env (at_count out - 1))"
  using attempts_bound [where n = 0 and log = "[]" and truncated = False and dropped = 0 and tr = "[]"
      and capture = capture and env = env and generation = generation and command = command and j = j
      and delays = delays and plan = plan]
  by (simp add: assms executeRepositoryMaintenance_def Suc_le_eq)

text \<open>A maintenance reports \<open>complete\<close> exactly when every repository it reports on is complete, with one
  result per repository it worked on; and retention leaves the replicas alone unless it completed
  on the primary.\<close>
theorem repositories_combined:
  "(cr_status (mr_result (executeMaintenanceRepositories envs generation command j plan delays)) = ''complete'')
      = list_all (\<lambda>r. rr_status r = ''complete'')
          (cr_repository_results (mr_result (executeMaintenanceRepositories envs generation command j plan delays)))
    \<and> length (cr_repository_results (mr_result (executeMaintenanceRepositories envs generation command j plan delays)))
      = length (mr_traces (executeMaintenanceRepositories envs generation command j plan delays))
    \<and> (jc_run_kind command = ''forget''
         \<and> cr_status (at_result (primary_attempts envs generation command j plan delays)) \<noteq> ''complete''
       \<longrightarrow> tl (mr_traces (executeMaintenanceRepositories envs generation command j plan delays)) = [])"
  using repositories_facts [where envs = envs and generation = generation and command = command
      and j = j and plan = plan and delays = delays] by argo

text \<open>On a replica only snapshots of the runs in the primary's plan are forgotten, as the replica's own
  listing shows them; the primary's snapshot identifiers are never used there.\<close>
theorem replica_forgets_by_run:
  assumes "at_plan (primary_attempts envs generation command j plan delays) = Some p" and "pl_forget_planned p"
    and "tr \<in> set (tl (mr_traces (executeMaintenanceRepositories envs generation command j plan delays)))"
    and "e \<in> set tr" and "ran_op ''forget'' e"
  shows "\<exists>rq listing. Ran rq listing \<in> set tr \<and> rq_operation rq = ''snapshots''
    \<and> set (ran_ids e) \<subseteq> set (snapshotIDsForRunIDs (snapshotRecords listing) (pl_candidate_run_ids p))"
proof -
  obtain k r where tr: "tr = at_trace (replica_attempts (envs k) generation command j r (Some p) delays)"
    using assms(1,3) repositories_facts [where envs = envs and generation = generation and command = command
        and j = j and plan = plan and delays = delays] by fastforce
  define q where "q = p\<lparr>pl_candidate_snapshot_ids := [], pl_protected_snapshot_ids := []\<rparr>"
  have planned: "forget_planned (Some q)" using assms(2) by (simp add: q_def forget_planned_def)
  let ?t = "\<lambda>n. maintenance_trace (re_attempt (replica_env (envs k)) n) generation command (child_job j r) (Some q)"
  from attempts_trace [where env = "replica_env (envs k)" and generation = generation and command = command
      and j = "child_job j r" and plan = "Some q" and n = 0 and delays = delays and log = "[]"
      and truncated = False and dropped = 0 and tr = "[]"]
  obtain ns where concat: "tr = concat (map ?t ns)"
    by (simp add: tr replica_attempts_def executeRepositoryMaintenance_def child_plan_def q_def [symmetric])
  then obtain n where n: "n \<in> set ns" "e \<in> set (?t n)" using assms(4) by auto
  from planned_forget [OF n(2) assms(5) planned] obtain rq listing where
    l: "Ran rq listing \<in> set (?t n)" "rq_operation rq = ''snapshots''"
      "set (ran_ids e) \<subseteq> set (planned_candidates (snapshotRecords listing) q)" by blast
  have "planned_candidates (snapshotRecords listing) q
      = (if pl_candidate_run_ids p = [] then [] else snapshotIDsForRunIDs (snapshotRecords listing) (pl_candidate_run_ids p))"
    by (simp add: planned_candidates_def q_def)
  with l(3) have "set (ran_ids e) \<subseteq> set (snapshotIDsForRunIDs (snapshotRecords listing) (pl_candidate_run_ids p))"
    by (auto split: if_splits)
  moreover have "Ran rq listing \<in> set tr" using l(1) n(1) by (auto simp: concat)
  ultimately show ?thesis using l(2) by blast
qed

end
