(* ===== verification/RepositoriesWitness.thy ===== *)
theory RepositoriesWitness
  imports RetentionWitness MaintenanceRepositories
begin

text \<open>
  Concrete maintenance over several repositories: a plan that a resumed retention applies to the primary
  and to a replica, and a plan of the wrong kind, whose failure is retried. They are the inputs of the
  witnesses of \<open>MaintenanceRepositories\<close>.
\<close>

section \<open>A resumed retention\<close>

definition tagged_snapshot :: repository_snapshot where
  "tagged_snapshot = \<lparr>sn_id = id_b, sn_original = [], sn_tags = [run_tag ''old'']\<rparr>"

definition listing_tagged :: restic_result where
  "listing_tagged = ok_result (snapshots_text [plain_snapshot id_a, tagged_snapshot])"

lemma tagged_facts [simp]:
  "rs_exit_code listing_tagged = 0" "parseSnapshotInventory listing_tagged = Some [id_a, id_b]"
  "snapshotRecords listing_tagged = [plain_snapshot id_a, tagged_snapshot]"
proof -
  have "unique_sorted [id_a, id_b] = [id_a, id_b]"
    by (rule unique_sorted_id; simp add: id_order order_less_imp_le)+
  moreover have "snapshot_ascii (plain_snapshot id_a)" "snapshot_ascii tagged_snapshot"
    by (simp_all add: snapshot_ascii_def plain_snapshot_def tagged_snapshot_def run_tag_def)
      (simp_all add: ascii_def byte_def trim_prefix_def has_prefix_def)
  ultimately show "parseSnapshotInventory listing_tagged = Some [id_a, id_b]"
    "snapshotRecords listing_tagged = [plain_snapshot id_a, tagged_snapshot]"
    by (simp_all add: parseSnapshotInventory_def snapshotRecords_def listing_tagged_def
        ok_result_def decode_snapshots_text) (simp_all add: plain_snapshot_def tagged_snapshot_def)
qed (simp add: listing_tagged_def ok_result_def)

definition resumed_env :: maintenance_env where
  "resumed_env =
     \<lparr>me_run = (\<lambda>n rq. if n = 0 then listing_tagged else if n = 2 then listing_one else ok_empty),
      me_now = (\<lambda>n. 0), me_persist = (\<lambda>n p. True), me_deadline = (\<lambda>n. False)\<rparr>"

definition resumed_plan :: maintenance_plan where
  "resumed_plan = zero_plan\<lparr>pl_kind := ''forget'', pl_forget_planned := True, pl_candidate_run_ids := [''old'']\<rparr>"

definition resumed_job :: "job_repository list \<Rightarrow> job" where
  "resumed_job rs = example_job\<lparr>jb_replicas := rs\<rparr>"

definition resumed_forget :: maintenance_event where
  "resumed_forget = Ran (example_request ''forget'' [id_b] False) ok_empty"

lemma resumed_evaluated:
  "maintenance_trace resumed_env 7 example_command (resumed_job rs) (Some resumed_plan) =
     [Ran (example_request ''snapshots'' [] True) listing_tagged, resumed_forget,
      Ran (example_request ''snapshots'' [] False) listing_one]
   \<and> cr_status (mo_result (executeMaintenance resumed_env 7 example_command (resumed_job rs) (Some resumed_plan)))
      = ''complete''"
proof -
  let ?j = "resumed_job rs"
  have setting: "jc_run_kind example_command = ''forget''" "plan_mismatch ''forget'' (Some resumed_plan) = False"
    "jr_has_unresolved_runs (jb_retention ?j) = False"
    "jr_latest_complete (jb_retention ?j) = Some \<lparr>cs_run_id = [], cs_finished_at = [], cs_snapshot_ids = [id_a]\<rparr>"
    "pl_combined_retention resumed_plan = False"
    "forget_planned (Some resumed_plan)"
    "planned_candidates [plain_snapshot id_a, tagged_snapshot] resumed_plan = [id_b]"
    "maintenanceTimeout ''forget'' ?j = 1800"
    "maintenanceRequest ?j = zero_request\<lparr>rq_version := 1, rq_connection := LocalConnection ''/srv/backup'',
       rq_password := ''secret''\<rparr>"
    by (simp_all add: example_command_def zero_payload_def plan_mismatch_def resumed_plan_def zero_plan_def
        forget_planned_def resumed_job_def example_job_def example_retention_def planned_candidates_def
        snapshotIDsForRunIDs_def plain_snapshot_def tagged_snapshot_def
        maintenanceTimeout_def maintenanceRequest_def example_repository_def)
  have env: "me_persist resumed_env n p = True" "me_run resumed_env 0 rq = listing_tagged"
    "me_run resumed_env (Suc 0) rq = ok_empty" "me_run resumed_env (Suc (Suc 0)) rq = listing_one" for n p rq
    by (simp_all add: resumed_env_def)
  have ids: "protected_snapshots [plain_snapshot id_a, tagged_snapshot] ?j
      \<lparr>cs_run_id = [], cs_finished_at = [], cs_snapshot_ids = [id_a]\<rparr> = [id_a]" "count_in [id_b] [id_a] = 0"
    by (simp_all add: count_in_def protected_snapshots_def snapshotIDsForRunIDs_def plain_snapshot_def
        tagged_snapshot_def resumed_job_def example_job_def run_tag_def trim_prefix_def has_prefix_def
        example_retention_def repositorySnapshotIDs_def is_digest_def unique_sorted_def)
  show ?thesis
    unfolding executeMaintenance_def maintenance_base_def initial_maintenance_def maintenance_trace_def
    by (simp add: setting env ids Let_def read_clock_def executeForget_def
        run_maintenance_def call_restic_def apply_plan_def remove_candidates_def chunks_one finishRetention_def
        finish_maintenance_def set_status_def resumed_forget_def
        set_statistic_def set_summary_def forget_request_def example_request_def)
      (simp add: zero_request_def)
qed

definition resumed_repository :: repository_env where
  "resumed_repository = \<lparr>re_attempt = (\<lambda>n. resumed_env), re_wait = (\<lambda>n. True), re_stats = ok_empty\<rparr>"

lemma complete_attempt:
  assumes "\<not> retryableMaintenanceResult (mo_result (executeMaintenance (re_attempt env 0) g command j plan))"
  shows "at_count (executeRepositoryMaintenance capture env g command j plan delays) = 1"
    and "at_result (executeRepositoryMaintenance capture env g command j plan delays)
       = mo_result (executeMaintenance (re_attempt env 0) g command j plan)"
    and "at_trace (executeRepositoryMaintenance capture env g command j plan delays)
       = maintenance_trace (re_attempt env 0) g command j plan"
    and "at_plan (executeRepositoryMaintenance capture env g command j plan delays)
       = (if capture then last_plan (maintenance_trace (re_attempt env 0) g command j plan) plan else plan)"
proof -
  note c = attempts_cases [of capture env g command j delays 0 plan "[]" False 0 "[]"]
  have "at_count (executeRepositoryMaintenance capture env g command j plan delays) = 1
      \<and> at_result (executeRepositoryMaintenance capture env g command j plan delays)
        = mo_result (executeMaintenance (re_attempt env 0) g command j plan)
      \<and> at_trace (executeRepositoryMaintenance capture env g command j plan delays)
        = maintenance_trace (re_attempt env 0) g command j plan
      \<and> at_plan (executeRepositoryMaintenance capture env g command j plan delays)
        = (if capture then last_plan (maintenance_trace (re_attempt env 0) g command j plan) plan else plan)"
    unfolding executeRepositoryMaintenance_def maintenance_trace_def
    by (cases rule: c) (use assms in \<open>simp_all\<close>)
  then show "at_count (executeRepositoryMaintenance capture env g command j plan delays) = 1"
    "at_result (executeRepositoryMaintenance capture env g command j plan delays)
       = mo_result (executeMaintenance (re_attempt env 0) g command j plan)"
    "at_trace (executeRepositoryMaintenance capture env g command j plan delays)
       = maintenance_trace (re_attempt env 0) g command j plan"
    "at_plan (executeRepositoryMaintenance capture env g command j plan delays)
       = (if capture then last_plan (maintenance_trace (re_attempt env 0) g command j plan) plan else plan)"
    by blast+
qed

lemma resumed_final:
  "\<not> retryableMaintenanceResult (mo_result (executeMaintenance resumed_env 7 example_command (resumed_job rs) (Some resumed_plan)))"
  by (simp add: retryableMaintenanceResult_def resumed_evaluated)

lemma resumed_primary:
  "at_plan (primary_attempts (\<lambda>k. resumed_repository) 7 example_command (resumed_job rs) (Some resumed_plan) delays)
     = Some resumed_plan"
  using complete_attempt(4) [of resumed_repository 7 example_command "resumed_job rs" "Some resumed_plan" True delays]
  by (simp add: primary_attempts_def resumed_repository_def resumed_final resumed_evaluated last_plan_def resumed_forget_def)

abbreviation two_repositories :: repositories_outcome where
  "two_repositories \<equiv> executeMaintenanceRepositories (\<lambda>k. resumed_repository) 7 example_command
     (resumed_job [example_repository]) (Some resumed_plan) []"

lemma resumed_replica:
  "mr_traces two_repositories =
     [maintenance_trace resumed_env 7 example_command (resumed_job [example_repository]) (Some resumed_plan),
      maintenance_trace resumed_env 7 example_command (resumed_job []) (Some resumed_plan)]"
proof -
  have env: "replica_env resumed_repository = resumed_repository"
    by (simp add: replica_env_def resumed_repository_def resumed_env_def)
  have job: "child_job (resumed_job [example_repository]) example_repository = resumed_job []"
    by (simp add: child_job_def resumed_job_def example_job_def)
  have plan: "child_plan (Some resumed_plan) = Some resumed_plan"
    by (simp add: child_plan_def resumed_plan_def zero_plan_def)
  have one: "re_attempt resumed_repository 0 = resumed_env" by (simp add: resumed_repository_def)
  note once = complete_attempt [of resumed_repository 7 example_command _ "Some resumed_plan", unfolded one, OF resumed_final]
  have kind: "jc_run_kind example_command = ''forget''" by (simp add: example_command_def)
  have replicas: "jb_replicas (resumed_job rs) = rs" for rs by (simp add: resumed_job_def)
  have primary: "at_plan (executeRepositoryMaintenance True resumed_repository 7 example_command
      (resumed_job [example_repository]) (Some resumed_plan) []) = Some resumed_plan"
    using resumed_primary [of "[example_repository]" "[]"] by (simp add: primary_attempts_def)
  show ?thesis
    unfolding executeMaintenanceRepositories_def Let_def
    by (simp add: once(1,2,3) primary resumed_evaluated kind replicas replica_attempts_def env job plan Let_def case_prod_beta)
qed

section \<open>A plan of the wrong kind\<close>

definition wrong_plan :: maintenance_plan where
  "wrong_plan = zero_plan\<lparr>pl_kind := ''prune''\<rparr>"

lemma wrong_result:
  "cr_status (mo_result (executeMaintenance env g example_command j (Some wrong_plan))) = ''failed''"
  "cr_result_code (mo_result (executeMaintenance env g example_command j (Some wrong_plan))) = ''execution_failed''"
  "ms_trace (mo_state (executeMaintenance env g example_command j (Some wrong_plan))) = []"
  by (simp_all add: executeMaintenance_def maintenance_base_def read_clock_def initial_maintenance_def
      example_command_def plan_mismatch_def wrong_plan_def zero_plan_def finish_maintenance_def set_status_def Let_def)

lemma wrong_retryable:
  "retryableMaintenanceResult (mo_result (executeMaintenance env g example_command j (Some wrong_plan)))"
  by (simp add: retryableMaintenanceResult_def wrong_result)

abbreviation wrong_attempts :: "bool \<Rightarrow> attempts_outcome" where
  "wrong_attempts capture \<equiv>
     executeRepositoryMaintenance capture resumed_repository 7 example_command example_job (Some wrong_plan) [30]"

lemma wrong_attempts_failed: "cr_status (at_result (wrong_attempts capture)) = ''failed''
    \<and> retryableMaintenanceResult (at_result (wrong_attempts capture))"
  by (simp add: executeRepositoryMaintenance_def repository_attempts.simps Let_def wrong_retryable
      resumed_repository_def wrong_result last_plan_def split: prod.split)

section \<open>Witnesses\<close>

lemma attempts_exhausted_witness: "at_count (wrong_attempts False) = 2"
  using attempts_exhausted [OF refl, of False resumed_repository 7 example_command example_job "Some wrong_plan" "[30]"]
    wrong_attempts_failed [of False] by (simp add: resumed_repository_def)

lemma repositories_combined_witness:
  "tl (mr_traces (executeMaintenanceRepositories (\<lambda>k. resumed_repository) 7 example_command example_job
      (Some wrong_plan) [30])) = []"
  using repositories_combined [of "\<lambda>k. resumed_repository" 7 example_command example_job "Some wrong_plan" "[30]"]
    wrong_attempts_failed [of True] by (simp add: primary_attempts_def example_command_def)

lemma replica_forgets_by_run_witness:
  "\<exists>rq listing. Ran rq listing \<in> set (last (mr_traces two_repositories)) \<and> rq_operation rq = ''snapshots''
    \<and> set (ran_ids resumed_forget) \<subseteq> set (snapshotIDsForRunIDs (snapshotRecords listing) [''old''])"
  using replica_forgets_by_run [of "\<lambda>k. resumed_repository" 7 example_command "resumed_job [example_repository]"
      "Some resumed_plan" "[]" resumed_plan "last (mr_traces two_repositories)" resumed_forget]
  by (simp add: resumed_primary resumed_replica resumed_evaluated)
    (simp add: resumed_plan_def zero_plan_def resumed_forget_def example_request_def)

section \<open>Two ways a retention touches what it should not\<close>

text \<open>A saved plan names runs, not snapshots, so applying it again selects every snapshot of those runs:
  here the protected one, which the first application left alone.\<close>
theorem replayed_plan_grows:
  "id_a \<in> set (planned_candidates
      [\<lparr>sn_id = id_a, sn_original = [], sn_tags = [run_tag (replicate 26 (CHR ''0''))]\<rparr>,
       \<lparr>sn_id = id_b, sn_original = [], sn_tags = [run_tag (replicate 26 (CHR ''0''))]\<rparr>]
      (fresh_plan
        [\<lparr>sn_id = id_a, sn_original = [], sn_tags = [run_tag (replicate 26 (CHR ''0''))]\<rparr>,
         \<lparr>sn_id = id_b, sn_original = [], sn_tags = [run_tag (replicate 26 (CHR ''0''))]\<rparr>]
        [id_b] [id_a] \<lparr>cs_run_id = [], cs_finished_at = [], cs_snapshot_ids = [id_a]\<rparr> example_job None))"
  by (simp add: planned_candidates_def fresh_plan_def zero_plan_def runIDsForSnapshots_def run_tag_def
      trim_prefix_def has_prefix_def is_ulid_def ulid_alphabet_def unique_sorted_def snapshotIDsForRunIDs_def numeral_eq_Suc)

text \<open>With a policy, the retention of a database job goes on with the request whose listings are limited to
  the anchors, though the candidates are all snapshots of the selected runs.\<close>

theorem policy_request_is_anchored:
  "isDatabaseJob (jb_type (fx_job fx)) \<and> \<not> retentionPolicyEmpty (retention_policy_of (fx_job fx)) \<longrightarrow>
    (case policy_candidates fx rq records protected result st of
       Inl out \<Rightarrow> True
     | Inr (ids, rq', st') \<Rightarrow> rq_tags (rq'\<lparr>rq_operation := ''snapshots'', rq_retention := None, rq_snapshot_ids := []\<rparr>)
         = [anchor_tag])"
  by (simp add: policy_candidates_def Let_def split: prod.split option.split)

end
