(* ===== verification/JobRules.thy ===== *)
theory JobRules
  imports AgentTypes
begin

text \<open>
  What the agent requires of a job before it runs it (agent/config.go, \<open>validateJob\<close>), whether the
  job comes from a configuration or from the snapshot kept with a command, and the schedules a job
  may have (agent/scheduler.go). The cron library is the parameter \<open>cron\<close>: for the text of a
  schedule its \<open>Next\<close> function, or nothing for a text it refuses.
\<close>

type_synonym cron = "string \<Rightarrow> (time \<Rightarrow> time) option"

section \<open>Schedules\<close>

datatype schedule_error = NotNormalized | NotNumeric | CronRefused | TooFrequent

definition schedule_char :: "char \<Rightarrow> bool" where
  "schedule_char c = (is_digit c \<or> c \<in> set ''*,-/'')"

text \<open>2026-01-01T00:00:00Z.\<close>

definition schedule_baseline :: time where
  "schedule_baseline = seconds 1767225600"

text \<open>The loop over the occurrences after the baseline.\<close>

fun gaps_ok :: "nat \<Rightarrow> (time \<Rightarrow> time) \<Rightarrow> time \<Rightarrow> bool" where
  "gaps_ok 0 next_time previous = True"
| "gaps_ok (Suc n) next_time previous =
     (\<not> next_time previous - previous < seconds 300 \<and> gaps_ok n next_time (next_time previous))"

definition parseFixedUTCSchedule :: "cron \<Rightarrow> string \<Rightarrow> schedule_error + (time \<Rightarrow> time)" where
  "parseFixedUTCSchedule cron expression =
     (let fields = string_fields expression
      in if length fields \<noteq> 5 \<or> join_with '' '' fields \<noteq> expression then Inl NotNormalized
         else if \<not> list_all (list_all schedule_char) fields then Inl NotNumeric
         else (case cron expression of
                 None \<Rightarrow> Inl CronRefused
               | Some next_time \<Rightarrow>
                   if gaps_ok 512 next_time (next_time schedule_baseline) then Inr next_time
                   else Inl TooFrequent))"

definition schedule_ok :: "cron \<Rightarrow> string \<Rightarrow> bool" where
  "schedule_ok cron expression = (case parseFixedUTCSchedule cron expression of Inl _ \<Rightarrow> False | Inr _ \<Rightarrow> True)"

definition truncate_minute :: "time \<Rightarrow> time" where
  "truncate_minute t = t - t mod seconds 60"

definition scheduleIsDue :: "cron \<Rightarrow> string \<Rightarrow> time \<Rightarrow> schedule_error + bool" where
  "scheduleIsDue cron expression minute =
     (case parseFixedUTCSchedule cron expression of
        Inl e \<Rightarrow> Inl e
      | Inr next_time \<Rightarrow>
          (let minute = truncate_minute minute in Inr (next_time (minute - seconds 60) = minute)))"

definition firstDueSchedule :: "cron \<Rightarrow> string \<Rightarrow> time \<Rightarrow> time \<Rightarrow> schedule_error + (time \<times> bool)" where
  "firstDueSchedule cron expression after through =
     (case parseFixedUTCSchedule cron expression of
        Inl e \<Rightarrow> Inl e
      | Inr next_time \<Rightarrow>
          (let due = next_time (truncate_minute after) in Inr (due, \<not> truncate_minute through < due)))"

section \<open>Names\<close>

definition control_rune :: "string \<Rightarrow> bool" where
  "control_rune r =
     (case r of
        [c] \<Rightarrow> byte c < 32 \<or> byte c = 127
      | [c, d] \<Rightarrow> byte c = 194 \<and> 128 \<le> byte d \<and> byte d \<le> 159
      | _ \<Rightarrow> False)"

definition containsControl :: "string \<Rightarrow> bool" where
  "containsControl s = list_ex control_rune (pieces s)"

definition equal_fold :: "string \<Rightarrow> string \<Rightarrow> bool" where
  "equal_fold a b = (fold_name a = fold_name b)"

definition mysqlVirtualDatabases :: "string list" where
  "mysqlVirtualDatabases = [''information_schema'', ''performance_schema'', ''sys'']"

definition repository_key_ok :: "string \<Rightarrow> bool" where
  "repository_key_ok key = (has_prefix key ''repository_'' \<and> is_ulid (drop 11 key))"

definition prefixID :: "string \<Rightarrow> string \<Rightarrow> string" where
  "prefixID v prefix = (if v = [] \<or> has_prefix v prefix then v else prefix @ v)"

definition prefixedIDs :: "string list \<Rightarrow> string \<Rightarrow> string list" where
  "prefixedIDs vs prefix = map (\<lambda>v. prefixID v prefix) vs"

definition prefixConfigKey :: "string \<Rightarrow> string \<Rightarrow> string" where
  "prefixConfigKey v prefix = (if has_prefix v prefix then v else prefix @ v)"

definition parsePrefixedULID :: "string \<Rightarrow> string \<Rightarrow> string option" where
  "parsePrefixedULID v prefix =
     (if \<not> has_prefix v prefix then None
      else (let i = trim_prefix v prefix in if is_ulid i then Some i else None))"

definition derivedID :: "string \<Rightarrow> string" where
  "derivedID v = sha256_hex v"

section \<open>Selections of tables\<close>

text \<open>One round of the loop; \<open>seen\<close> holds the keys met before.\<close>

definition table_key :: "table_selection_entry \<Rightarrow> string" where
  "table_key t = te_database t @ [nul] @ te_schema t @ [nul] @ te_table t"

definition table_entry_ok :: "bool \<Rightarrow> string \<Rightarrow> string \<Rightarrow> string list \<Rightarrow> table_selection_entry \<Rightarrow> bool" where
  "table_entry_ok postgresql mode selectionMode databases t =
     (let maximum = (if postgresql then 63 else 64)
      in if te_database t = [] \<or> te_table t = [] \<or> maximum < rune_length (te_database t)
            \<or> maximum < rune_length (te_table t) \<or> containsControl (te_database t) \<or> containsControl (te_table t)
         then False
         else if postgresql \<and> (te_schema t = [] \<or> maximum < rune_length (te_schema t) \<or> containsControl (te_schema t)
            \<or> equal_fold (te_database t) ''template0'' \<or> equal_fold (te_database t) ''template1'')
         then False
         else if \<not> postgresql \<and> (te_schema t \<noteq> [] \<or> to_lower (te_database t) \<in> set mysqlVirtualDatabases
            \<or> equal_fold (te_database t) ''mysql'' \<or> has_prefix (te_database t) ''-'' \<or> has_prefix (te_table t) ''-''
            \<or> (mode = ''exclude'' \<and> (contains_sub (te_database t) ''.'' \<or> contains_sub (te_table t) ''.'')))
         then False
         else if selectionMode = ''selected'' \<and> te_database t \<notin> set databases then False
         else \<not> (selectionMode = ''exclude'' \<and> te_database t \<in> set databases))"

fun table_loop ::
  "bool \<Rightarrow> string \<Rightarrow> string \<Rightarrow> string list \<Rightarrow> string list \<Rightarrow> string list \<Rightarrow> table_selection_entry list \<Rightarrow>
   string list option" where
  "table_loop postgresql mode selectionMode databases seen covered [] = Some covered"
| "table_loop postgresql mode selectionMode databases seen covered (t # ts) =
     (if \<not> table_entry_ok postgresql mode selectionMode databases t then None
      else if table_key t \<in> set seen then None
      else table_loop postgresql mode selectionMode databases (table_key t # seen)
             (List.insert (te_database t) covered) ts)"

definition validateTableSelection :: "table_selection option \<Rightarrow> string \<Rightarrow> string list \<Rightarrow> bool \<Rightarrow> bool" where
  "validateTableSelection selection selectionMode databases postgresql =
     (case selection of
        None \<Rightarrow> True
      | Some s \<Rightarrow>
          if ts_mode s \<notin> set [''include'', ''exclude''] \<or> ts_tables s = [] \<or> 1000 < length (ts_tables s)
             \<or> (ts_mode s = ''include'' \<and> selectionMode \<noteq> ''selected'') then False
          else (case table_loop postgresql (ts_mode s) selectionMode databases [] [] (ts_tables s) of
                  None \<Rightarrow> False
                | Some covered \<Rightarrow> ts_mode s = ''include'' \<longrightarrow> list_all (\<lambda>d. d \<in> set covered) databases))"

section \<open>Dump options\<close>

definition flag_char :: "char \<Rightarrow> bool" where
  "flag_char c = ((97 \<le> byte c \<and> byte c \<le> 122) \<or> is_digit c)"

text \<open>\<open>mysqlFlagPattern\<close>: the text after the two hyphens up to the first equals sign is the name, the
  rest the value, whose runes the pattern counts.\<close>

definition flag_pattern :: "string \<Rightarrow> bool" where
  "flag_pattern flag =
     (has_prefix flag ''--''
      \<and> (let name = takeWhile (\<lambda>c. c \<noteq> CHR ''='') (drop 2 flag); rest = dropWhile (\<lambda>c. c \<noteq> CHR ''='') (drop 2 flag)
         in name \<noteq> [] \<and> flag_char (hd name) \<and> list_all (\<lambda>c. flag_char c \<or> c = CHR ''-'') (tl name)
            \<and> (rest = [] \<or> (\<not> contains_any (tl rest) line_breaks \<and> rune_length (tl rest) \<le> 480))))"

definition forbidden_flags :: "string list" where
  "forbidden_flags =
     [''all-databases'', ''all-tablespaces'', ''column-statistics'', ''databases'', ''debug'', ''debug-info'',
      ''defaults-extra-file'', ''defaults-file'', ''delete-master-logs'', ''delete-source-logs'', ''events'',
      ''flush-logs'', ''force'', ''help'', ''host'', ''ignore-database'', ''ignore-error'', ''ignore-table'',
      ''init-command'', ''init-command-add'', ''lock-all-tables'', ''lock-tables'', ''log-error'',
      ''login-path'', ''master-data'', ''no-create-info'', ''no-data'', ''no-tablespaces'', ''password'',
      ''password1'', ''password2'', ''password3'', ''pipe'', ''port'', ''print-defaults'', ''protocol'',
      ''quick'', ''result-file'', ''routines'', ''single-transaction'', ''skip-events'',
      ''skip-lock-tables'', ''skip-quick'', ''skip-routines'', ''skip-single-transaction'',
      ''skip-triggers'', ''socket'', ''source-data'', ''tab'', ''tables'', ''user'', ''version'', ''where'', ''xml'']"

definition validMySQLFlag :: "string \<Rightarrow> bool" where
  "validMySQLFlag flag =
     (if 512 < length flag \<or> \<not> flag_pattern flag then False
      else (let name = trim_prefix (takeWhile (\<lambda>c. c \<noteq> CHR ''='') flag) ''--''
            in name \<notin> set forbidden_flags \<and> \<not> has_prefix name ''fields-'' \<and> \<not> has_prefix name ''lines-''))"

section \<open>Sources\<close>

datatype job_error =
    TypeUnsupported | IdInvalid | SourceInvalid | SourcePathInvalid | ExcludeInvalid
  | MySQLJobSourceInvalid | PostgreSQLJobSourceInvalid
  | MySQLSourceInvalid | MySQLPasswordFileInvalid | MySQLSelectionInvalid | MySQLDumpInvalid | MySQLTablesInvalid
  | PostgreSQLSourceInvalid | PostgreSQLPasswordFileInvalid | PostgreSQLSelectionInvalid | PostgreSQLTablesInvalid
  | RepositoryIdentityInvalid | RepositoryPasswordInvalid | ReplicaInvalid | ReplicaSetupInvalid
  | ScheduleInvalid schedule_error | MaintenancePolicyInvalid | RetentionInvalid
  | ForgetScheduleInvalid schedule_error | PruneScheduleInvalid schedule_error | ProofInvalid
  | ProtectedSnapshotsInvalid | ProtectedRunsInvalid | IntegrityInvalid
  | MetadataScheduleInvalid schedule_error | DataScheduleInvalid schedule_error

definition validMySQLJobSource :: "string \<Rightarrow> mysql_source option \<Rightarrow> bool" where
  "validMySQLJobSource t source =
     (case source of
        None \<Rightarrow> False
      | Some s \<Rightarrow>
          if t = ''mysql'' then my_table_selection s = None \<and> my_selection_mode s \<noteq> ''exclude''
          else if t = ''mysql_filtered'' then my_table_selection s \<noteq> None \<or> my_selection_mode s = ''exclude''
          else False)"

definition validPostgreSQLJobSource :: "string \<Rightarrow> postgresql_source option \<Rightarrow> bool" where
  "validPostgreSQLJobSource t source =
     (case source of
        None \<Rightarrow> False
      | Some s \<Rightarrow>
          if t = ''postgresql'' then pg_table_selection s = None \<and> pg_selection_mode s \<noteq> ''exclude''
          else if t = ''postgresql_filtered'' then pg_table_selection s \<noteq> None \<or> pg_selection_mode s = ''exclude''
          else False)"

text \<open>The loops that refuse a repeated element keep the elements met before.\<close>

fun all_new :: "('a \<Rightarrow> bool) \<Rightarrow> 'a list \<Rightarrow> 'a list \<Rightarrow> bool" where
  "all_new ok seen [] = True"
| "all_new ok seen (x # xs) = (ok x \<and> x \<notin> set seen \<and> all_new ok (x # seen) xs)"

definition one_line :: "nat \<Rightarrow> string \<Rightarrow> bool" where
  "one_line limit s = (s \<noteq> [] \<and> rune_length s \<le> limit \<and> \<not> contains_any s line_breaks)"

definition password_file_ok :: "string \<Rightarrow> string \<Rightarrow> bool" where
  "password_file_ok file password =
     (\<not> (file \<noteq> [] \<and> (password \<noteq> [] \<or> \<not> is_abs file \<or> clean_path file \<noteq> file
          \<or> 4096 < rune_length file \<or> contains_any file line_breaks)))"

definition validateMySQLSource :: "job_source \<Rightarrow> job_error option" where
  "validateMySQLSource source =
     (case js_mysql source of
        None \<Rightarrow> Some MySQLSourceInvalid
      | Some m \<Rightarrow>
          (let every = (my_selection_mode m \<in> set [''all_accessible'', ''all_persistent''])
           in if js_postgresql source \<noteq> None \<or> js_root source \<noteq> [] \<or> js_paths source \<noteq> []
                 \<or> js_excludes source \<noteq> [] \<or> \<not> one_line 255 (my_host m) \<or> my_port m = 0
                 \<or> \<not> one_line 255 (my_username m) \<or> 4096 < rune_length (my_password m) \<or> nul \<in> set (my_password m)
              then Some MySQLSourceInvalid
              else if \<not> password_file_ok (my_password_file m) (my_password m) then Some MySQLPasswordFileInvalid
              else if my_selection_mode m \<notin> set [''selected'', ''all_accessible'', ''all_persistent'', ''exclude'']
                 \<or> 1000 < length (my_databases m) \<or> (\<not> every \<and> my_databases m = [])
                 \<or> (every \<and> my_databases m \<noteq> [])
              then Some MySQLSelectionInvalid
              else if \<not> all_new (one_line 64) [] (my_databases m) then Some MySQLSelectionInvalid
              else if 50 < length (my_custom_flags m) \<or> \<not> list_all validMySQLFlag (my_custom_flags m)
              then Some MySQLDumpInvalid
              else if \<not> validateTableSelection (my_table_selection m) (my_selection_mode m) (my_databases m) False
              then Some MySQLTablesInvalid
              else None))"

definition validatePostgreSQLSource :: "job_source \<Rightarrow> job_error option" where
  "validatePostgreSQLSource source =
     (case js_postgresql source of
        None \<Rightarrow> Some PostgreSQLSourceInvalid
      | Some p \<Rightarrow>
          (let every = (pg_selection_mode p = ''all_accessible'')
           in if js_mysql source \<noteq> None \<or> js_root source \<noteq> [] \<or> js_paths source \<noteq> []
                 \<or> js_excludes source \<noteq> [] \<or> \<not> one_line 255 (pg_host p) \<or> pg_port p = 0
                 \<or> \<not> one_line 255 (pg_username p) \<or> 4096 < rune_length (pg_password p)
                 \<or> contains_any (pg_password p) line_breaks \<or> \<not> one_line 63 (pg_connection_database p)
              then Some PostgreSQLSourceInvalid
              else if \<not> password_file_ok (pg_password_file p) (pg_password p) then Some PostgreSQLPasswordFileInvalid
              else if pg_selection_mode p \<notin> set [''selected'', ''all_accessible'', ''exclude'']
                 \<or> 1000 < length (pg_databases p) \<or> (\<not> every \<and> pg_databases p = [])
                 \<or> (every \<and> pg_databases p \<noteq> [])
              then Some PostgreSQLSelectionInvalid
              else if \<not> all_new (\<lambda>d. one_line 63 d \<and> to_lower d \<noteq> ''template0'' \<and> to_lower d \<noteq> ''template1'')
                     [] (pg_databases p)
              then Some PostgreSQLSelectionInvalid
              else if \<not> validateTableSelection (pg_table_selection p) (pg_selection_mode p) (pg_databases p) True
              then Some PostgreSQLTablesInvalid
              else None))"

section \<open>Jobs\<close>

text \<open>\<open>filepath.Rel\<close> of two absolute paths.\<close>

definition path_parts :: "string \<Rightarrow> string list" where
  "path_parts p = filter (\<lambda>c. c \<noteq> []) (split_on (CHR ''/'') (clean_path p))"

fun strip_common :: "'a list \<Rightarrow> 'a list \<Rightarrow> 'a list \<times> 'a list" where
  "strip_common (x # xs) (y # ys) = (if x = y then strip_common xs ys else (x # xs, y # ys))"
| "strip_common xs ys = (xs, ys)"

definition filepath_rel :: "string \<Rightarrow> string \<Rightarrow> string option" where
  "filepath_rel base target =
     (if is_abs base \<noteq> is_abs target then None
      else (let (up, down) = strip_common (path_parts base) (path_parts target);
                parts = replicate (length up) ''..'' @ down
            in Some (if parts = [] then ''.'' else join_with ''/'' parts)))"

definition source_path_ok :: "string \<Rightarrow> string \<Rightarrow> bool" where
  "source_path_ok root path =
     (case filepath_rel root path of
        None \<Rightarrow> False
      | Some relative \<Rightarrow> is_abs path \<and> clean_path path = path \<and> relative \<noteq> ''..''
          \<and> \<not> has_prefix relative ''../'')"

definition validate_source :: "job \<Rightarrow> job_error option" where
  "validate_source j =
     (let s = jb_source j
      in if jb_type j = ''file'' then
           (if \<not> is_abs (js_root s) \<or> 4096 < rune_length (js_root s) \<or> \<not> js_one_file_system s
               \<or> 100 < length (js_paths s) \<or> 100 < length (js_excludes s) \<or> js_mysql s \<noteq> None
               \<or> js_postgresql s \<noteq> None
            then Some SourceInvalid
            else if \<not> all_new (source_path_ok (js_root s)) [] (js_paths s) then Some SourcePathInvalid
            else if \<not> list_all (\<lambda>e. e \<noteq> [] \<and> rune_length e \<le> 4096 \<and> nul \<notin> set e) (js_excludes s)
            then Some ExcludeInvalid
            else None)
         else if isMySQLJob (jb_type j) then
           (if \<not> validMySQLJobSource (jb_type j) (js_mysql s) then Some MySQLJobSourceInvalid
            else validateMySQLSource s)
         else
           (if \<not> validPostgreSQLJobSource (jb_type j) (js_postgresql s) then Some PostgreSQLJobSourceInvalid
            else validatePostgreSQLSource s))"

definition replica_ok :: "job \<Rightarrow> string list \<Rightarrow> job_repository \<Rightarrow> bool" where
  "replica_ok j statuses r =
     (repository_key_ok (rp_key r) \<and> is_digest (rp_id r) \<and> rp_source r = rp_key (jb_repository j)
      \<and> rp_location r \<noteq> [] \<and> rune_length (rp_location r) \<le> 2048 \<and> rp_status r \<in> set statuses)"

definition validate_repositories :: "job \<Rightarrow> job_error option" where
  "validate_repositories j =
     (let r = jb_repository j
      in if rp_location r = [] \<or> 2048 < rune_length (rp_location r) \<or> \<not> is_digest (rp_id r)
            \<or> (rp_key r \<noteq> [] \<and> \<not> repository_key_ok (rp_key r))
         then Some RepositoryIdentityInvalid
         else if \<not> one_line 1024 (rp_service_password r) then Some RepositoryPasswordInvalid
         else if \<not> list_all (replica_ok j [''provisioning'', ''active'', ''failed'']) (jb_replicas j)
         then Some ReplicaInvalid
         else if \<not> list_all (replica_ok j [''provisioning'']) (jb_replica_setups j) then Some ReplicaSetupInvalid
         else None)"

definition check_schedule :: "cron \<Rightarrow> string \<Rightarrow> (schedule_error \<Rightarrow> job_error) \<Rightarrow> job_error option" where
  "check_schedule cron expression f =
     (case parseFixedUTCSchedule cron expression of Inl e \<Rightarrow> Some (f e) | Inr _ \<Rightarrow> None)"

text \<open>Each element is greater than the one before it.\<close>

fun increasing :: "string list \<Rightarrow> bool" where
  "increasing (x # y # ys) = (x < y \<and> increasing (y # ys))"
| "increasing _ = True"

definition maintenance_policy_ok :: "job_maintenance \<Rightarrow> bool" where
  "maintenance_policy_ok m =
     (\<not> (jm_strategy m \<noteq> [] \<and> (jm_strategy m \<noteq> ''after_scheduled_backup''
          \<or> jm_max_deferral_seconds m < 3600 \<or> 604800 < jm_max_deferral_seconds m
          \<or> jm_prune_interval_seconds m < 86400 \<or> 2678400 < jm_prune_interval_seconds m)))"

definition proof_ok :: "complete_snapshot_proof \<Rightarrow> bool" where
  "proof_ok p =
     (is_ulid (cs_run_id p) \<and> validateTimestamp (cs_finished_at p) \<and> cs_snapshot_ids p \<noteq> []
      \<and> length (cs_snapshot_ids p) \<le> 1000 \<and> all_new is_digest [] (cs_snapshot_ids p))"

definition validate_retention :: "cron \<Rightarrow> job_retention \<Rightarrow> job_error option" where
  "validate_retention cron r =
     (if 8760 < jr_last r \<or> 8760 < jr_hourly r \<or> 3660 < jr_daily r \<or> 520 < jr_weekly r \<or> 120 < jr_monthly r
         \<or> 100 < jr_yearly r \<or> \<not> jr_keep_latest_complete r \<or> jr_group_by r \<noteq> []
      then Some RetentionInvalid
      else first_error
        [check_schedule cron (jr_forget_cron r) ForgetScheduleInvalid,
         check_schedule cron (jr_prune_cron r) PruneScheduleInvalid,
         (case jr_latest_complete r of None \<Rightarrow> None | Some p \<Rightarrow> if proof_ok p then None else Some ProofInvalid),
         (if 1000 < length (jr_protected_snapshot_ids r) \<or> \<not> all_new is_digest [] (jr_protected_snapshot_ids r)
             \<or> \<not> increasing (jr_protected_snapshot_ids r)
          then Some ProtectedSnapshotsInvalid else None),
         (if 1000 < length (jr_protected_run_ids r) \<or> \<not> list_all is_ulid (jr_protected_run_ids r)
             \<or> \<not> increasing (jr_protected_run_ids r)
          then Some ProtectedRunsInvalid else None)])"

definition validate_integrity :: "cron \<Rightarrow> job_integrity \<Rightarrow> job_error option" where
  "validate_integrity cron i =
     (if ji_data_mode i \<notin> set [''auto'', ''custom''] \<or> ji_data_parts i < 2 \<or> 12 < ji_data_parts i
      then Some IntegrityInvalid
      else first_error
        [check_schedule cron (ji_metadata_cron i) MetadataScheduleInvalid,
         check_schedule cron (ji_data_cron i) DataScheduleInvalid])"

definition validateJob :: "cron \<Rightarrow> job \<Rightarrow> job_error option" where
  "validateJob cron j =
     (if \<not> isSupportedJobType (jb_type j) then Some TypeUnsupported
      else if jb_id j = [] \<or> (\<not> is_digest (jb_id j) \<and> \<not> is_ulid (jb_id j)) then Some IdInvalid
      else first_error
        [validate_source j, validate_repositories j,
         check_schedule cron (sh_expression (jb_schedule j)) ScheduleInvalid,
         (if maintenance_policy_ok (jb_maintenance j) then None else Some MaintenancePolicyInvalid),
         validate_retention cron (jb_retention j), validate_integrity cron (jb_integrity j)])"

end
