(* ===== verification/JobRulesFacts.thy ===== *)
theory JobRulesFacts
  imports JobRules
begin

text \<open>
  What acceptance by \<open>validateJob\<close> means: the selection of tables is one entry per table and covers
  what it includes, the paths of a file job lie under its root, the data check has parts to rotate
  through. The last section validates a concrete job.
\<close>

section \<open>Text without control characters\<close>

lemma cont_in_Cons: "cont_in lo hi s \<Longrightarrow> 128 \<le> lo \<Longrightarrow> \<exists>d t. s = d # t \<and> 128 \<le> byte d"
  by (auto simp: cont_in_def split: list.splits)

lemma rune_width_cases:
  "1 < rune_width (c # s) \<Longrightarrow> 128 \<le> byte c \<and> (\<exists>d t. s = d # t \<and> 128 \<le> byte d \<and>
     (rune_width (c # s) = 2 \<or> (\<exists>e u. t = e # u \<and> 128 \<le> byte e \<and>
       (rune_width (c # s) = 3 \<or> (\<exists>f v. u = f # v \<and> 128 \<le> byte f \<and> rune_width (c # s) = 4)))))"
  by (simp add: rune_width.simps Let_def split: if_splits)
    (force dest!: cont_in_Cons)+

lemma rune_width_high:
  "1 < rune_width (c # s) \<Longrightarrow> y \<in> set (take (rune_width (c # s)) (c # s)) \<Longrightarrow> 128 \<le> byte y"
  by (drule rune_width_cases) (auto simp: numeral_eq_Suc)

lemma pieces_ascii: "x \<in> set s \<Longrightarrow> byte x < 128 \<Longrightarrow> [x] \<in> set (pieces s)"
proof (induction s rule: pieces.induct)
  case (2 c s)
  let ?w = "rune_width (c # s)"
  have "x \<in> set (take ?w (c # s)) \<or> x \<in> set (drop ?w (c # s))"
    using "2.prems"(1) by (metis Un_iff append_take_drop_id set_append)
  then show ?case
  proof
    assume x: "x \<in> set (take ?w (c # s))"
    have "?w = 1"
      using rune_width_high [OF _ x] "2.prems"(2) rune_width_pos [of c s] by (metis One_nat_def less_one linorder_not_less nat_neq_iff)
    with x show ?thesis by simp
  qed (use 2 in simp)
qed simp

lemma no_control_no_nul: "\<not> containsControl s \<Longrightarrow> nul \<notin> set s"
proof
  assume c: "\<not> containsControl s" and n: "nul \<in> set s"
  have "byte nul = 0" by (simp add: byte_def nul_def)
  with pieces_ascii [OF n] c show False
    by (auto simp: containsControl_def list_ex_iff control_rune_def)
qed

section \<open>Selections of tables\<close>

lemma table_key_eq:
  assumes "nul \<notin> set (te_database t)" "nul \<notin> set (te_schema t)" "nul \<notin> set (te_table t)"
    and "nul \<notin> set (te_database u)" "nul \<notin> set (te_schema u)" "nul \<notin> set (te_table u)"
  shows "(table_key t = table_key u) = (t = u)"
proof
  assume "table_key t = table_key u"
  then have "split_on nul (table_key t) = split_on nul (table_key u)" by simp
  with assms show "t = u"
    by (cases t; cases u) (simp add: table_key_def split_on_append_sep split_on_none)
qed simp

lemma entry_ok_no_nul:
  "table_entry_ok postgresql mode selectionMode databases t \<Longrightarrow>
     nul \<notin> set (te_database t) \<and> nul \<notin> set (te_schema t) \<and> nul \<notin> set (te_table t)"
  by (cases postgresql) (auto simp: table_entry_ok_def Let_def no_control_no_nul split: if_splits)

lemma table_loop_eq:
  "table_loop postgresql mode selectionMode databases seen covered ts =
     (if list_all (table_entry_ok postgresql mode selectionMode databases) ts
         \<and> distinct (map table_key ts) \<and> set (map table_key ts) \<inter> set seen = {}
      then Some (fold (\<lambda>t. List.insert (te_database t)) ts covered) else None)"
  by (induction ts arbitrary: seen covered) auto

lemma set_fold_insert: "set (fold (\<lambda>t. List.insert (f t)) ts covered) = set covered \<union> f ` set ts"
  by (induction ts arbitrary: covered) auto

text \<open>A selection of tables is accepted exactly when it has the right kind and size, each entry is
  acceptable on its own, no table is named twice, and an inclusion names a table of every selected database.\<close>
theorem table_selection_exact:
  "validateTableSelection (Some s) selectionMode databases postgresql =
     (ts_mode s \<in> {''include'', ''exclude''} \<and> ts_tables s \<noteq> [] \<and> length (ts_tables s) \<le> 1000
      \<and> list_all (table_entry_ok postgresql (ts_mode s) selectionMode databases) (ts_tables s)
      \<and> distinct (ts_tables s)
      \<and> (if ts_mode s = ''include'' then selectionMode = ''selected''
            \<and> set databases = te_database ` set (ts_tables s) else True))"
proof -
  let ?ok = "table_entry_ok postgresql (ts_mode s) selectionMode databases"
  have keys: "distinct (map table_key (ts_tables s)) = distinct (ts_tables s)"
    if "list_all ?ok (ts_tables s)"
  proof -
    have "inj_on table_key (set (ts_tables s))"
      using that entry_ok_no_nul unfolding list_all_iff by (intro inj_onI) (metis table_key_eq)
    then show ?thesis by (simp add: distinct_map)
  qed
  have selected: "te_database ` set (ts_tables s) \<subseteq> set databases"
    if "list_all ?ok (ts_tables s)" "selectionMode = ''selected''"
    using that by (auto simp: list_all_iff table_entry_ok_def Let_def split: if_splits)
  show ?thesis
  proof (cases "ts_mode s \<in> {''include'', ''exclude''} \<and> ts_tables s \<noteq> [] \<and> length (ts_tables s) \<le> 1000
      \<and> (ts_mode s = ''include'' \<longrightarrow> selectionMode = ''selected'')")
    case False
    then show ?thesis by (auto simp: validateTableSelection_def)
  next
    case True
    then have start: "validateTableSelection (Some s) selectionMode databases postgresql =
        (case table_loop postgresql (ts_mode s) selectionMode databases [] [] (ts_tables s) of
                  None \<Rightarrow> False
                | Some covered \<Rightarrow> ts_mode s = ''include'' \<longrightarrow> list_all (\<lambda>d. d \<in> set covered) databases)"
      by (auto simp: validateTableSelection_def)
    show ?thesis
    proof (cases "list_all ?ok (ts_tables s)")
      case ok: True
      from ok True keys selected start show ?thesis
        by (auto simp: table_loop_eq set_fold_insert list_all_iff)
    qed (use start True in \<open>simp add: table_loop_eq\<close>)
  qed
qed

section \<open>Paths\<close>

lemma strip_common_split: "strip_common xs ys = (up, down) \<Longrightarrow> \<exists>c. xs = c @ up \<and> ys = c @ down"
proof (induction xs ys arbitrary: up down rule: strip_common.induct)
  case (1 x xs y ys)
  show ?case
  proof (cases "x = y")
    case True
    with 1 obtain c where "xs = c @ up" "ys = c @ down" by auto
    with True show ?thesis by (intro exI [of _ "x # c"]) simp
  qed (use 1 in simp)
qed auto

lemma source_path_inside: "source_path_ok root path \<Longrightarrow> \<exists>rest. path_parts path = path_parts root @ rest"
proof -
  assume ok: "source_path_ok root path"
  obtain up down where s: "strip_common (path_parts root) (path_parts path) = (up, down)" by fastforce
  from ok s have "up = []"
  proof (cases up)
    case (Cons u us)
    have "join_with ''/'' (''..'' # xs) = ''..'' \<or> has_prefix (join_with ''/'' (''..'' # xs)) ''../''" for xs
      by (cases xs) (simp_all add: has_prefix_def)
    with Cons ok s show ?thesis
      by (auto simp: source_path_ok_def filepath_rel_def Let_def split: if_splits option.splits)
  qed simp
  with strip_common_split [OF s] show ?thesis by auto
qed

lemma all_new_iff: "all_new ok seen xs = (list_all ok xs \<and> distinct xs \<and> set xs \<inter> set seen = {})"
  by (induction xs arbitrary: seen) auto

lemmas validateJob_parts = validateJob_def check_schedule_def

text \<open>The paths of an accepted file job are distinct and lie under its root directory.\<close>
theorem file_paths_inside:
  assumes "validateJob cron j = None" and "jb_type j = ''file''"
  shows "distinct (js_paths (jb_source j))
    \<and> (\<forall>p \<in> set (js_paths (jb_source j)). \<exists>rest. path_parts p = path_parts (js_root (jb_source j)) @ rest)"
proof -
  have "validate_source j = None" using assms(1) by (auto simp: validateJob_def split: if_splits)
  then have "all_new (source_path_ok (js_root (jb_source j))) [] (js_paths (jb_source j))"
    using assms(2) by (auto simp: validate_source_def Let_def split: if_splits)
  then show ?thesis using source_path_inside by (auto simp: all_new_iff list_all_iff)
qed

text \<open>The facts about accepted jobs that the daemon's components rest on.\<close>

lemma valid_job_integrity: "validateJob cron j = None \<Longrightarrow> 2 \<le> ji_data_parts (jb_integrity j) \<and> ji_data_parts (jb_integrity j) \<le> 12"
  by (auto simp: validateJob_def validate_integrity_def split: if_splits)

section \<open>A concrete job\<close>

text \<open>A schedule library for which every expression fires once a day.\<close>

definition daily_cron :: cron where
  "daily_cron expression = Some (\<lambda>t. t + seconds 86400)"

lemma daily_gaps: "gaps_ok n (\<lambda>t. t + 86400000000000) p"
  by (induction n arbitrary: p) simp_all

lemma pieces_all_ascii: "list_all (\<lambda>c. byte c < 128) s \<Longrightarrow> pieces s = map (\<lambda>c. [c]) s"
  by (induction s) (simp_all add: rune_width_ascii)

lemma daily_schedule: "parseFixedUTCSchedule daily_cron ''0 3 * * *'' = Inr (\<lambda>t. t + seconds 86400)"
proof -
  have "string_fields ''0 3 * * *'' = [''0'', ''3'', ''*'', ''*'', ''*'']"
    by (simp add: string_fields_def pieces_all_ascii byte_def is_space_rune_def del: pieces.simps)
  then show ?thesis
    by (simp add: parseFixedUTCSchedule_def schedule_char_def is_digit_def daily_cron_def daily_gaps)
qed

definition sample_id :: "char \<Rightarrow> string" where
  "sample_id c = replicate 64 c"

definition sample_ulid :: "char \<Rightarrow> string" where
  "sample_ulid c = replicate 26 c"

definition sample_repository :: job_repository where
  "sample_repository =
     \<lparr>rp_key = ''repository_'' @ sample_ulid (CHR ''1''), rp_id = sample_id (CHR ''a''), rp_destination = ''d'',
      rp_path = ''p'', rp_location = ''/srv/backup'', rp_service_password = ''secret'', rp_status = ''active'',
      rp_source = [], rp_connection = LocalConnection ''/srv/backup''\<rparr>"

definition sample_retention :: job_retention where
  "sample_retention =
     \<lparr>jr_last = 7, jr_hourly = 0, jr_daily = 0, jr_weekly = 0, jr_monthly = 0, jr_yearly = 0,
      jr_keep_latest_complete = True, jr_group_by = [], jr_forget_cron = ''0 3 * * *'',
      jr_prune_cron = ''0 3 * * *'', jr_latest_complete = None, jr_has_unresolved_runs = False,
      jr_protected_snapshot_ids = [], jr_protected_run_ids = []\<rparr>"

definition sample_job :: job where
  "sample_job =
     \<lparr>jb_key = ''job_a'', jb_id = sample_ulid (CHR ''2''), jb_name = ''a'', jb_type = ''file'', jb_enabled = True,
      jb_source = \<lparr>js_root = ''/srv'', js_paths = [''/srv/data''], js_one_file_system = True, js_excludes = [],
        js_mysql = None, js_postgresql = None\<rparr>,
      jb_repository = sample_repository, jb_replicas = [], jb_replica_setups = [],
      jb_schedule = \<lparr>sh_kind = ''preset'', sh_preset = ''daily'', sh_expression = ''0 3 * * *'', sh_timezone = ''UTC''\<rparr>,
      jb_maintenance = \<lparr>jm_strategy = [], jm_max_deferral_seconds = 0, jm_prune_interval_seconds = 0\<rparr>,
      jb_retention = sample_retention,
      jb_integrity = \<lparr>ji_metadata_cron = ''0 3 * * *'', ji_data_mode = ''auto'', ji_data_cron = ''0 3 * * *'',
        ji_data_parts = 4\<rparr>\<rparr>"

lemma sample_ids [simp]: "is_digest (sample_id (CHR ''a''))" "is_ulid (sample_ulid (CHR ''1''))" "is_ulid (sample_ulid (CHR ''2''))"
  by (simp_all add: is_digest_def is_ulid_def sample_id_def sample_ulid_def hex_alphabet_def ulid_alphabet_def list_all_iff)

lemma sample_lengths: "rune_length ''/srv'' = 4" "rune_length ''/srv/backup'' = 11" "rune_length ''secret'' = 6"
  by (simp_all add: rune_length_ascii byte_def)

lemma sample_source: "validate_source sample_job = None"
  by (simp add: sample_job_def validate_source_def sample_lengths is_abs_def has_prefix_def source_path_ok_def
      filepath_rel_def path_parts_def clean_path_def clean_step_def Let_def)

lemma sample_repositories: "validate_repositories sample_job = None"
  using is_ulid_not_Nil [OF sample_ids(2)]
  by (simp add: sample_job_def sample_repository_def validate_repositories_def sample_lengths one_line_def
      repository_key_ok_def has_prefix_def contains_any_def line_breaks_def)

lemma sample_job_valid: "validateJob daily_cron sample_job = None"
proof -
  have "check_schedule daily_cron ''0 3 * * *'' f = None" for f
    by (simp add: check_schedule_def daily_schedule)
  then have "validate_retention daily_cron sample_retention = None"
    "validate_integrity daily_cron (jb_integrity sample_job) = None"
    "check_schedule daily_cron (sh_expression (jb_schedule sample_job)) f = None" for f
    by (simp_all add: validate_retention_def sample_retention_def validate_integrity_def sample_job_def)
  moreover have "jb_retention sample_job = sample_retention" "maintenance_policy_ok (jb_maintenance sample_job)"
    "isSupportedJobType (jb_type sample_job)" "is_ulid (jb_id sample_job)" "jb_id sample_job \<noteq> []"
    using is_ulid_not_Nil [OF sample_ids(3)]
    by (simp_all add: sample_job_def maintenance_policy_ok_def isSupportedJobType_def)
  ultimately show ?thesis by (simp add: validateJob_def sample_source sample_repositories)
qed

lemma file_paths_inside_witness:
  "\<exists>rest. path_parts ''/srv/data'' = path_parts ''/srv'' @ rest"
  using file_paths_inside [OF sample_job_valid] by (simp add: sample_job_def)

end
