(* ===== verification/StateDb.thy ===== *)
theory StateDb
  imports AgentTypes
begin

text \<open>
  The durable state of the agent (agent/state_db.go, agent/journal.go): buckets of a bbolt database,
  which keep their keys in byte order, transactions over them, and the command journal and the
  runtime state stored there. The values of the buckets are the Go values whose JSON the code stores;
  encoding/json gives back what it was given.
\<close>

section \<open>Buckets\<close>

type_synonym ('k, 'v) bucket = "('k \<times> 'v) list"

definition bput :: "'k::linorder \<Rightarrow> 'v \<Rightarrow> ('k, 'v) bucket \<Rightarrow> ('k, 'v) bucket" where
  "bput k v b = filter (\<lambda>e. fst e < k) b @ (k, v) # filter (\<lambda>e. k < fst e) b"

abbreviation bget :: "('k, 'v) bucket \<Rightarrow> 'k \<Rightarrow> 'v option" where
  "bget b k \<equiv> map_of b k"

definition bucket_ok :: "('k::linorder, 'v) bucket \<Rightarrow> bool" where
  "bucket_ok b = sorted_wrt (<) (map fst b)"

text \<open>A cursor that seeks a prefix and moves on while the keys have it.\<close>

definition prefix_scan :: "string \<Rightarrow> (string, 'v) bucket \<Rightarrow> 'v list" where
  "prefix_scan prefix b =
     map snd (takeWhile (\<lambda>e. has_prefix (fst e) prefix) (dropWhile (\<lambda>e. fst e < prefix) b))"

record state_db =
  db_format_version :: "string option"
  db_legacy_imported :: bool
  db_runtime_state :: "runtime_state option"
  db_commands :: "(string, agent_command) bucket"
  db_runs :: "(string, journal_command) bucket"
  db_events :: "(string, agent_event) bucket"
  db_occurrences :: "(string, string) bucket"
  db_log_refs :: "(string, string) bucket"

definition empty_db :: state_db where
  "empty_db =
     \<lparr>db_format_version = None, db_legacy_imported = False, db_runtime_state = None, db_commands = [],
      db_runs = [], db_events = [], db_occurrences = [], db_log_refs = []\<rparr>"

section \<open>Keys\<close>

definition occurrenceKey :: "string \<Rightarrow> string \<Rightarrow> string \<Rightarrow> string" where
  "occurrenceKey jobID runKind scheduledFor = jobID @ [nul] @ runKind @ [nul] @ scheduledFor"

definition legacyOccurrenceKey :: "string \<Rightarrow> string \<Rightarrow> string" where
  "legacyOccurrenceKey jobID scheduledFor = jobID @ [nul] @ scheduledFor"

definition event_key :: "string \<Rightarrow> agent_event \<Rightarrow> string" where
  "event_key command_id e = command_id @ [nul] @ pad_zero 20 (ev_sequence e) @ [nul] @ ev_id e"

section \<open>Normalization\<close>

definition normalizeMaintenancePlan :: "maintenance_plan \<Rightarrow> maintenance_plan" where
  "normalizeMaintenancePlan p = p\<lparr>pl_protected_run_ids := unique_sorted (pl_protected_run_ids p)\<rparr>"

text \<open>The strings of a JSON array, if it holds only strings.\<close>

fun json_strings :: "json list \<Rightarrow> string list option" where
  "json_strings [] = Some []"
| "json_strings (JStr s # js) = map_option (Cons s) (json_strings js)"
| "json_strings _ = None"

definition normalizeTerminalEventMaintenancePlan :: "agent_event \<Rightarrow> agent_event" where
  "normalizeTerminalEventMaintenancePlan e =
     (if ev_kind e \<noteq> ''run_finished'' then e
      else (case map_of (ev_payload e) ''maintenance_plan'' of
              Some (JObj plan) \<Rightarrow>
                (case map_of plan ''protected_run_ids'' of
                   Some (JArr raw) \<Rightarrow>
                     (case json_strings raw of
                        Some runs \<Rightarrow>
                          e\<lparr>ev_payload := mput ''maintenance_plan''
                              (JObj (mput ''protected_run_ids'' (JArr (map JStr (unique_sorted runs))) plan))
                              (ev_payload e)\<rparr>
                      | None \<Rightarrow> e)
                 | _ \<Rightarrow> e)
            | _ \<Rightarrow> e))"

definition normalize_event :: "journal_command \<Rightarrow> agent_event \<Rightarrow> agent_event" where
  "normalize_event c e =
     normalizeTerminalEventMaintenancePlan
       (e\<lparr>ev_run_kind := (if ev_run_kind e = [] then jc_run_kind c else ev_run_kind e),
          ev_config_revision := (if ev_config_revision e = 0 then jc_config_revision c else ev_config_revision e),
          ev_trigger := (if ev_trigger e = [] then jc_trigger c else ev_trigger e),
          ev_scheduled_for := (if ev_scheduled_for e = [] then jc_scheduled_for c else ev_scheduled_for e)\<rparr>)"

definition normalizeJournalCommand :: "journal_command \<Rightarrow> journal_command" where
  "normalizeJournalCommand c =
     (let payload = ac_payload (jc_command c);
          c = c\<lparr>jc_trigger := (if jc_trigger c = [] then ''manual'' else jc_trigger c),
                jc_config_revision := (if jc_config_revision c = 0 then cp_required_config_revision payload
                                       else jc_config_revision c),
                jc_run_kind := (if jc_run_kind c = [] then
                                  (if cp_maintenance payload = [] then ''backup'' else cp_maintenance payload)
                                else jc_run_kind c)\<rparr>
      in c\<lparr>jc_events := map (normalize_event c) (jc_events c),
           jc_maintenance_plan := map_option normalizeMaintenancePlan (jc_maintenance_plan c),
           jc_result := map_option (\<lambda>r. r\<lparr>cr_run_kind := (if cr_run_kind r = [] then jc_run_kind c else cr_run_kind r),
                                          cr_maintenance_plan := map_option normalizeMaintenancePlan
                                            (cr_maintenance_plan r)\<rparr>) (jc_result c)\<rparr>)"

section \<open>The journal\<close>

datatype store_error =
    JournalInvalid | IdentityInvalid | ReferenceMissing | OccurrenceConflict | FormatUnsupported
  | LegacyUnreadable | LegacyIdentityInvalid | SpoolCapacity | StorageFailed
  | RunLogInvalid | RunLogMissing | RunLogTooLarge | RunLogChecksum

definition command_stored_ok :: "string \<Rightarrow> journal_command \<Rightarrow> bool" where
  "command_stored_ok i c = (i = ac_id (jc_command c) \<and> is_ulid i \<and> is_ulid (jc_run_id c))"

definition put_events :: "string \<Rightarrow> agent_event list \<Rightarrow> (string, agent_event) bucket \<Rightarrow> (string, agent_event) bucket" where
  "put_events i es b = fold (\<lambda>e. bput (event_key i e) e) es b"

text \<open>The JSON of a result leaves out what is tagged \<open>json:"-"\<close>: the members of the evidence, which the events
  carry, and whether the repository was pruned.\<close>

definition stored_result :: "command_result \<Rightarrow> command_result" where
  "stored_result r =
     r\<lparr>cr_snapshot_evidence_ids := [], cr_prune_completed := False,
       cr_repository_results := map (\<lambda>rr. rr\<lparr>rr_snapshot_evidence_ids := []\<rparr>) (cr_repository_results r)\<rparr>"

definition as_stored :: "journal_command \<Rightarrow> journal_command" where
  "as_stored c = c\<lparr>jc_result := map_option stored_result (jc_result c)\<rparr>"

text \<open>One command of the loop of \<open>saveCommandJournal\<close>.\<close>

definition save_command :: "string \<Rightarrow> journal_command \<Rightarrow> state_db \<Rightarrow> store_error + state_db" where
  "save_command i c db =
     (if \<not> command_stored_ok i c then Inl IdentityInvalid
      else
        (let db = db\<lparr>db_commands := bput i (jc_command c) (db_commands db),
                     db_runs := bput i ((as_stored c)\<lparr>jc_events := []\<rparr>) (db_runs db),
                     db_events := put_events i (jc_events c) (db_events db),
                     db_log_refs := (if jc_log_id c \<noteq> [] then bput (jc_log_id c) (jc_run_id c) (db_log_refs db)
                                     else db_log_refs db)\<rparr>
         in if jc_trigger c = ''scheduled'' \<and> jc_scheduled_for c \<noteq> [] then
              (let key = occurrenceKey (cp_job_id (ac_payload (jc_command c))) (jc_run_kind c) (jc_scheduled_for c)
               in case bget (db_occurrences db) key of
                    Some existing \<Rightarrow>
                      if existing \<noteq> jc_run_id c then Inl OccurrenceConflict
                      else Inr (db\<lparr>db_occurrences := bput key (jc_run_id c) (db_occurrences db)\<rparr>)
                  | None \<Rightarrow> Inr (db\<lparr>db_occurrences := bput key (jc_run_id c) (db_occurrences db)\<rparr>))
            else Inr db))"

fun save_commands :: "(string \<times> journal_command) list \<Rightarrow> state_db \<Rightarrow> store_error + state_db" where
  "save_commands [] db = Inr db"
| "save_commands ((i, c) # rest) db =
     (case save_command i c db of Inl e \<Rightarrow> Inl e | Inr db \<Rightarrow> save_commands rest db)"

text \<open>The commands in the order of their identities.\<close>

definition sorted_commands :: "(string, journal_command) gomap \<Rightarrow> (string \<times> journal_command) list" where
  "sorted_commands m = map (\<lambda>i. (i, the (mget m i))) (sort (mkeys m))"

definition clear_journal :: "state_db \<Rightarrow> state_db" where
  "clear_journal db = db\<lparr>db_commands := [], db_runs := [], db_events := [], db_log_refs := []\<rparr>"

text \<open>The transaction of \<open>saveCommandJournal\<close>: an error leaves the database as it was.\<close>

definition saveCommandJournal :: "command_journal \<Rightarrow> state_db \<Rightarrow> store_error + state_db" where
  "saveCommandJournal j db = save_commands (sorted_commands (cj_commands j)) (clear_journal db)"

definition SaveCommandJournal :: "command_journal \<Rightarrow> state_db \<Rightarrow> store_error + state_db" where
  "SaveCommandJournal j db =
     (if cj_version j \<noteq> commandJournalVersion then Inl JournalInvalid else saveCommandJournal j db)"

fun load_runs :: "state_db \<Rightarrow> (string \<times> journal_command) list \<Rightarrow> (string, journal_command) gomap \<Rightarrow>
  store_error + (string, journal_command) gomap" where
  "load_runs db [] m = Inr m"
| "load_runs db ((k, c) # rest) m =
     (let i = ac_id (jc_command c)
      in if \<not> is_ulid i \<or> \<not> is_ulid (jc_run_id c) then Inl IdentityInvalid
         else if bget (db_commands db) i = None then Inl ReferenceMissing
         else (let c = c\<lparr>jc_events := jc_events c @ prefix_scan (i @ [nul]) (db_events db)\<rparr>
               in load_runs db rest (mput i (normalizeJournalCommand c) m)))"

definition loadCommandJournal :: "state_db \<Rightarrow> store_error + command_journal" where
  "loadCommandJournal db =
     (case load_runs db (db_runs db) [] of Inl e \<Rightarrow> Inl e
      | Inr m \<Rightarrow> Inr (newCommandJournal\<lparr>cj_commands := m\<rparr>))"

definition LoadCommandJournal :: "state_db \<Rightarrow> store_error + command_journal" where
  "LoadCommandJournal db =
     (case loadCommandJournal db of
        Inl e \<Rightarrow> Inl e
      | Inr j \<Rightarrow>
          if cj_version j \<noteq> commandJournalVersion then Inl JournalInvalid
          else if \<not> list_all (\<lambda>(i, c). command_stored_ok i c) (cj_commands j) then Inl IdentityInvalid
          else Inr j)"

section \<open>Occurrences and runtime state\<close>

definition occurrenceExists :: "string \<Rightarrow> string \<Rightarrow> string \<Rightarrow> state_db \<Rightarrow> bool" where
  "occurrenceExists jobID runKind scheduledFor db =
     (bget (db_occurrences db) (occurrenceKey jobID runKind scheduledFor) \<noteq> None
      \<or> (runKind = ''backup'' \<and> bget (db_occurrences db) (legacyOccurrenceKey jobID scheduledFor) \<noteq> None))"

definition recordSkippedOccurrence ::
  "string \<Rightarrow> string \<Rightarrow> string \<Rightarrow> runtime_state option \<Rightarrow> state_db \<Rightarrow> state_db" where
  "recordSkippedOccurrence jobID runKind scheduledFor st db =
     (let db = db\<lparr>db_occurrences := bput (occurrenceKey jobID runKind scheduledFor) ''gap'' (db_occurrences db)\<rparr>
      in case st of Some s \<Rightarrow> db\<lparr>db_runtime_state := Some s\<rparr> | None \<Rightarrow> db)"

definition loadRuntimeState :: "state_db \<Rightarrow> runtime_state" where
  "loadRuntimeState db = (case db_runtime_state db of None \<Rightarrow> zero_state | Some s \<Rightarrow> s)"

definition saveRuntimeState :: "runtime_state \<Rightarrow> state_db \<Rightarrow> state_db" where
  "saveRuntimeState s db = db\<lparr>db_runtime_state := Some s\<rparr>"

section \<open>The format and the legacy files\<close>

text \<open>What reading a legacy file gave: there is none, it does not decode, or its value.\<close>

datatype 'a legacy_file = Absent | Unreadable | Present 'a

definition initializeStateDatabase :: "state_db \<Rightarrow> store_error + (state_db \<times> bool)" where
  "initializeStateDatabase db =
     (case db_format_version db of
        Some v \<Rightarrow> if parse_nat v = Some 1 \<or> (has_prefix v ''+'' \<and> parse_nat (drop 1 v) = Some 1)
                  then Inr (db, \<not> db_legacy_imported db) else Inl FormatUnsupported
      | None \<Rightarrow> Inr (db\<lparr>db_format_version := Some ''1''\<rparr>, \<not> db_legacy_imported db))"

definition import_command :: "string \<Rightarrow> journal_command \<Rightarrow> state_db \<Rightarrow> store_error + state_db" where
  "import_command i c db =
     (if i \<noteq> ac_id (jc_command c) then Inl LegacyIdentityInvalid
      else (let c = normalizeJournalCommand c
            in Inr (db\<lparr>db_commands := bput i (jc_command c) (db_commands db),
                       db_runs := bput i (c\<lparr>jc_events := []\<rparr>) (db_runs db),
                       db_events := put_events i (jc_events c) (db_events db)\<rparr>)))"

fun import_commands :: "(string \<times> journal_command) list \<Rightarrow> state_db \<Rightarrow> store_error + state_db" where
  "import_commands [] db = Inr db"
| "import_commands ((i, c) # rest) db =
     (case import_command i c db of Inl e \<Rightarrow> Inl e | Inr db \<Rightarrow> import_commands rest db)"

definition importLegacyState ::
  "runtime_state legacy_file \<Rightarrow> command_journal legacy_file \<Rightarrow> state_db \<Rightarrow> store_error + state_db" where
  "importLegacyState state journal db =
     (if state = Unreadable \<or> journal = Unreadable then Inl LegacyUnreadable
      else
        (let db = (case state of Present s \<Rightarrow> db\<lparr>db_runtime_state := Some s\<rparr> | _ \<Rightarrow> db)
         in case (case journal of Present j \<Rightarrow> import_commands (cj_commands j) db | _ \<Rightarrow> Inr db) of
              Inl e \<Rightarrow> Inl e
            | Inr db \<Rightarrow> Inr (db\<lparr>db_legacy_imported := True\<rparr>)))"

section \<open>The file store\<close>

text \<open>The store holds the database, the run logs by identity, and whether the reserve was given up. How a
  write to the disk went is given from outside: the database could not be opened, the disk was full,
  the write failed in another way, or it is on the disk.\<close>

datatype write_outcome = Written | OpenFailed | DiskFull | WriteFailed

record file_store =
  fs_db :: state_db
  fs_reserve_released :: bool
  fs_logs :: "(string, string) gomap"

definition releaseReserve :: "file_store \<Rightarrow> file_store" where
  "releaseReserve fs = fs\<lparr>fs_reserve_released := True\<rparr>"

definition updateState ::
  "write_outcome \<Rightarrow> (state_db \<Rightarrow> store_error + state_db) \<Rightarrow> file_store \<Rightarrow> store_error option \<times> file_store" where
  "updateState w action fs =
     (if w = OpenFailed then (Some StorageFailed, fs)
      else (case action (fs_db fs) of
              Inl e \<Rightarrow> (Some e, fs)
            | Inr db \<Rightarrow>
                (case w of
                   Written \<Rightarrow> (None, fs\<lparr>fs_db := db\<rparr>)
                 | DiskFull \<Rightarrow> (Some SpoolCapacity, releaseReserve fs)
                 | _ \<Rightarrow> (Some StorageFailed, fs))))"

text \<open>\<open>usage\<close> is what \<open>spoolUsage\<close> measured; the sum is a \<open>uint64\<close>.\<close>

definition canAcceptWork :: "nat \<Rightarrow> nat \<Rightarrow> file_store \<Rightarrow> bool" where
  "canAcceptWork usage estimate fs =
     (\<not> fs_reserve_released fs \<and> (usage + estimate) mod 2 ^ 64 \<le> SpoolBytesLimit)"

definition WriteRunLog ::
  "nat \<Rightarrow> write_outcome \<Rightarrow> string \<Rightarrow> string \<Rightarrow> file_store \<Rightarrow> store_error option \<times> file_store" where
  "WriteRunLog usage w logID contents fs =
     (if \<not> is_ulid logID \<or> maximumRunLog < length contents then (Some RunLogInvalid, fs)
      else if \<not> canAcceptWork usage (length contents) fs then (Some SpoolCapacity, releaseReserve fs)
      else (case w of
              Written \<Rightarrow> (None, fs\<lparr>fs_logs := mput logID contents (fs_logs fs)\<rparr>)
            | DiskFull \<Rightarrow> (Some SpoolCapacity, releaseReserve fs)
            | _ \<Rightarrow> (Some StorageFailed, fs)))"

definition ReadRunLog :: "string \<Rightarrow> file_store \<Rightarrow> store_error + string" where
  "ReadRunLog logID fs =
     (if \<not> is_ulid logID then Inl RunLogInvalid
      else (case mget (fs_logs fs) logID of
              None \<Rightarrow> Inl RunLogMissing
            | Some text \<Rightarrow> if maximumRunLog < length text then Inl RunLogTooLarge else Inr text))"

definition ReadChecksummedRunLog :: "string \<Rightarrow> string \<Rightarrow> file_store \<Rightarrow> store_error + string" where
  "ReadChecksummedRunLog logID expected fs =
     (case ReadRunLog logID fs of
        Inl e \<Rightarrow> Inl e
      | Inr text \<Rightarrow> if \<not> is_digest expected \<or> sha256_hex text \<noteq> expected then Inl RunLogChecksum else Inr text)"

definition RemoveRunLog :: "string \<Rightarrow> file_store \<Rightarrow> store_error option \<times> file_store" where
  "RemoveRunLog logID fs =
     (if \<not> is_ulid logID then (Some RunLogInvalid, fs)
      else (None, fs\<lparr>fs_logs := mdel logID (fs_logs fs)\<rparr>))"

text \<open>Compaction copies the database into a new file and renames it: the contents stay.\<close>

definition compactIfPressured :: "nat \<Rightarrow> write_outcome \<Rightarrow> store_error option" where
  "compactIfPressured usage w =
     (if usage < SpoolBytesLimit * 3 div 4 then None else if w = Written then None else Some StorageFailed)"

end
