(* ===== verification/StateDbFacts.thy ===== *)
theory StateDbFacts
  imports StateDb
begin

text \<open>
  The journal survives a restart: what was saved is what is loaded, up to the defaults loading fills
  in. A failed write leaves the database alone, and an occurrence on record stays on record.
\<close>

section \<open>Buckets\<close>

lemma bput_append: "(\<forall>e \<in> set b. fst e < k) \<Longrightarrow> bput k v b = b @ [(k, v)]"
proof -
  assume a: "\<forall>e \<in> set b. fst e < k"
  then have "filter (\<lambda>e. fst e < k) b = b" "filter (\<lambda>e. k < fst e) b = []"
    by (auto simp: filter_id_conv filter_empty_conv)
  then show ?thesis by (simp add: bput_def)
qed

lemma map_of_filter_key: "P k \<Longrightarrow> map_of (filter (\<lambda>e. P (fst e)) b) k = map_of b k"
  by (induction b) auto

lemma map_of_filter_other: "\<not> P k \<Longrightarrow> map_of (filter (\<lambda>e. P (fst e)) b) k = None"
  by (induction b) auto

lemma bget_bput [simp]: "bget (bput k v b) k' = (if k' = k then Some v else bget b k')"
proof (cases "k' = k")
  case True
  then show ?thesis
    using map_of_filter_other [of "\<lambda>x. x < k" k b] by (simp add: bput_def map_add_def)
next
  case False
  then consider "k' < k" | "k < k'" by (meson neqE)
  then show ?thesis
  proof cases
    case 1
    then show ?thesis
      using map_of_filter_key [of "\<lambda>x. x < k" k' b] map_of_filter_other [of "\<lambda>x. k < x" k' b]
      by (auto simp: bput_def map_add_def split: option.splits)
  next
    case 2
    then show ?thesis
      using map_of_filter_key [of "\<lambda>x. k < x" k' b] map_of_filter_other [of "\<lambda>x. x < k" k' b]
      by (auto simp: bput_def map_add_def split: option.splits)
  qed
qed

lemma bput_ok: "bucket_ok b \<Longrightarrow> bucket_ok (bput k v b)"
  unfolding bucket_ok_def bput_def
  by (auto simp: sorted_wrt_append sorted_wrt_map sorted_wrt_filter intro: less_trans)

lemma put_events_append:
  "sorted_wrt (<) (map fst b @ map (event_key i) es) \<Longrightarrow> put_events i es b = b @ map (\<lambda>e. (event_key i e, e)) es"
proof (induction es arbitrary: b)
  case (Cons e es)
  then have "\<forall>x \<in> set b. fst x < event_key i e" by (auto simp: sorted_wrt_append)
  then have "bput (event_key i e) e b = b @ [(event_key i e, e)]" by (rule bput_append)
  with Cons show ?case by (simp add: put_events_def)
qed (simp add: put_events_def)

section \<open>The order of event keys\<close>

lemma zero_char: "CHR ''0'' = char_of (48 :: nat)"
  by code_simp

lemma pad_zero_Suc: "0 < w \<Longrightarrow> n < 10 ^ Suc w \<Longrightarrow> pad_zero (Suc w) n = pad_zero w (n div 10) @ [digit_char (n mod 10)]"
proof -
  assume w: "0 < w" and n: "n < 10 ^ Suc w"
  show ?thesis
  proof (cases "n < 10")
    case True
    then have "show_nat n = [digit_char n]" "show_nat (n div 10) = [digit_char 0]"
      by (subst show_nat.simps; simp)+
    moreover have "replicate (Suc w - Suc 0) (CHR ''0'') = replicate (w - Suc 0) (CHR ''0'') @ [CHR ''0'']"
      using w by (cases w) (simp_all add: replicate_append_same)
    ultimately show ?thesis using True by (simp add: pad_zero_def digit_char_def zero_char)
  next
    case False
    then have "show_nat n = show_nat (n div 10) @ [digit_char (n mod 10)]" by (subst show_nat.simps) simp
    then show ?thesis by (simp add: pad_zero_def)
  qed
qed

lemma pad_zero_digits_be: "n < 10 ^ Suc w \<Longrightarrow> pad_zero (Suc w) n = map digit_char (digits_be 10 (Suc w) n)"
proof (induction w arbitrary: n)
  case 0
  then have "show_nat n = [digit_char n]" by (subst show_nat.simps) simp
  with 0 show ?case by (simp add: pad_zero_def)
next
  case (Suc w)
  then have "n div 10 < 10 ^ Suc w" by auto
  with Suc.IH have "pad_zero (Suc w) (n div 10) = map digit_char (digits_be 10 (Suc w) (n div 10))" by blast
  then show ?case using pad_zero_Suc [of "Suc w" n] Suc.prems by simp
qed

lemma digit_char_less: "i < j \<Longrightarrow> j < 10 \<Longrightarrow> digit_char i < digit_char j"
  by (simp add: less_char_def)

lemma pad_zero_less: "m < n \<Longrightarrow> n < 10 ^ Suc w \<Longrightarrow> pad_zero (Suc w) m < pad_zero (Suc w) n"
  using digits_be_mono [of 10 m n "Suc w"]
  by (subst (1 2) pad_zero_digits_be)
    (auto intro!: lex_map_less [where b = 10] digit_char_less simp del: digits_be.simps dest: digits_be_less [rotated])

lemma lex_prefix_less: "us < vs \<Longrightarrow> xs @ us < xs @ vs" for us vs xs :: string
  by (induction xs) auto

text \<open>The events of a command are ordered when their sequence numbers increase and fit the padding,
  which a \<open>uint64\<close> always does.\<close>

definition events_ordered :: "agent_event list \<Rightarrow> bool" where
  "events_ordered es = (sorted_wrt (<) (map ev_sequence es) \<and> list_all (\<lambda>e. ev_sequence e < 2 ^ 64) es)"

lemma event_key_less:
  assumes "ev_sequence e < ev_sequence f" and "ev_sequence f < 2 ^ 64"
  shows "event_key i e < event_key i f"
proof -
  have "pad_zero 20 (ev_sequence e) < pad_zero 20 (ev_sequence f)"
    using pad_zero_less [of "ev_sequence e" "ev_sequence f" 19] assms by simp
  then have "pad_zero 20 (ev_sequence e) @ [nul] @ ev_id e < pad_zero 20 (ev_sequence f) @ [nul] @ ev_id f"
    using assms by (intro lex_append_less) (simp_all add: length_pad_zero)
  then show ?thesis by (simp add: event_key_def lex_prefix_less)
qed

lemma events_ordered_keys: "events_ordered es \<Longrightarrow> sorted_wrt (<) (map (event_key i) es)"
  unfolding events_ordered_def sorted_wrt_map
  by (auto simp: list_all_iff intro: event_key_less elim!: sorted_wrt_mono_rel [rotated])

lemma other_command_less:
  "length i = length i' \<Longrightarrow> i < i' \<Longrightarrow> event_key i e < event_key i' f \<and> event_key i e < i' @ [nul] \<and> i @ [nul] < event_key i' f"
  by (simp add: event_key_def lex_append_less)

lemma own_prefix: "has_prefix (event_key i e) (i @ [nul]) \<and> \<not> event_key i e < i @ [nul]"
proof -
  have "\<not> i @ [nul] @ us < i @ [nul]" for us by (induction i) auto
  then show ?thesis by (simp add: event_key_def has_prefix_def)
qed

lemma other_prefix: "length i = length i' \<Longrightarrow> i \<noteq> i' \<Longrightarrow> \<not> has_prefix (event_key i' e) (i @ [nul])"
  by (auto simp: event_key_def has_prefix_def)

section \<open>Saving\<close>

definition keyed_events :: "string \<times> journal_command \<Rightarrow> (string \<times> agent_event) list" where
  "keyed_events = (\<lambda>(i, c). map (\<lambda>e. (event_key i e, e)) (jc_events c))"

definition bare :: "journal_command \<Rightarrow> journal_command" where
  "bare c = (as_stored c)\<lparr>jc_events := []\<rparr>"

definition restored :: "journal_command \<Rightarrow> journal_command" where
  "restored c = normalizeJournalCommand (as_stored c)"

lemma save_command_fields:
  assumes "save_command i c db = Inr db'"
  shows "db_runs db' = bput i (bare c) (db_runs db)" "db_commands db' = bput i (jc_command c) (db_commands db)"
    "db_events db' = put_events i (jc_events c) (db_events db)" "command_stored_ok i c"
    "bget (db_occurrences db) k = Some v \<Longrightarrow> bget (db_occurrences db') k = Some v"
  using assms by (auto simp: save_command_def Let_def bare_def split: if_splits option.splits)

text \<open>The order in which the events of several commands are stored.\<close>

definition batch_ordered :: "(string \<times> journal_command) list \<Rightarrow> bool" where
  "batch_ordered cs = (sorted_wrt (<) (map fst cs) \<and> list_all (\<lambda>(i, c). length i = 26 \<and> events_ordered (jc_events c)) cs)"

lemma batch_keys: "batch_ordered cs \<Longrightarrow> sorted_wrt (<) (map fst (concat (map keyed_events cs)))"
proof (induction cs)
  case (Cons x cs)
  obtain i c where x: "x = (i, c)" by (cases x)
  have "fst ` set (keyed_events (i, c)) \<subseteq> range (event_key i)" for i c by (auto simp: keyed_events_def)
  moreover have "i < i'" "length i = length i'" if "(i', c') \<in> set cs" for i' c'
    using Cons.prems that by (auto simp: x batch_ordered_def list_all_iff)
  ultimately have "\<forall>y \<in> set (keyed_events x). \<forall>z \<in> set (concat (map keyed_events cs)). fst y < fst z"
    using other_command_less by (auto simp: x keyed_events_def)
  moreover have "sorted_wrt (<) (map fst (keyed_events x))"
    using Cons.prems events_ordered_keys by (simp add: x batch_ordered_def keyed_events_def comp_def)
  moreover have "batch_ordered cs" using Cons.prems by (simp add: batch_ordered_def)
  ultimately show ?case using Cons.IH by (auto simp: sorted_wrt_append)
qed simp

lemma save_commands_append:
  assumes "save_commands cs db = Inr db'" and "batch_ordered (done_cs @ cs)"
    and "db_runs db = map (\<lambda>(i, c). (i, bare c)) done_cs"
    and "db_commands db = map (\<lambda>(i, c). (i, jc_command c)) done_cs"
    and "db_events db = concat (map keyed_events done_cs)"
  shows "db_runs db' = map (\<lambda>(i, c). (i, bare c)) (done_cs @ cs)
    \<and> db_commands db' = map (\<lambda>(i, c). (i, jc_command c)) (done_cs @ cs)
    \<and> db_events db' = concat (map keyed_events (done_cs @ cs))
    \<and> list_all (\<lambda>(i, c). command_stored_ok i c) cs
    \<and> (\<forall>k v. bget (db_occurrences db) k = Some v \<longrightarrow> bget (db_occurrences db') k = Some v)"
  using assms
proof (induction cs arbitrary: db done_cs)
  case (Cons x cs)
  obtain i c where x: "x = (i, c)" by (cases x)
  from Cons.prems(1) obtain db1 where one: "save_command i c db = Inr db1" and rest: "save_commands cs db1 = Inr db'"
    by (auto simp: x split: sum.splits)
  have less: "\<forall>e \<in> set done_cs. fst e < i" using Cons.prems(2) by (auto simp: x batch_ordered_def sorted_wrt_append)
  have "sorted_wrt (<) (map fst (db_events db) @ map (event_key i) (jc_events c))"
    using batch_keys [of "done_cs @ [(i, c)]"] Cons.prems(2,5)
    by (simp add: x batch_ordered_def sorted_wrt_append keyed_events_def comp_def)
  then have "db_events db1 = concat (map keyed_events (done_cs @ [(i, c)]))"
    using save_command_fields(3) [OF one] Cons.prems(5) by (simp add: put_events_append keyed_events_def)
  moreover have "db_runs db1 = map (\<lambda>(i, c). (i, bare c)) (done_cs @ [(i, c)])"
    "db_commands db1 = map (\<lambda>(i, c). (i, jc_command c)) (done_cs @ [(i, c)])"
    using save_command_fields(1,2) [OF one] Cons.prems(3,4) less by (auto simp: bput_append split_beta)
  ultimately have "db_runs db' = map (\<lambda>(i, c). (i, bare c)) ((done_cs @ [(i, c)]) @ cs)
    \<and> db_commands db' = map (\<lambda>(i, c). (i, jc_command c)) ((done_cs @ [(i, c)]) @ cs)
    \<and> db_events db' = concat (map keyed_events ((done_cs @ [(i, c)]) @ cs))
    \<and> list_all (\<lambda>(i, c). command_stored_ok i c) cs
    \<and> (\<forall>k v. bget (db_occurrences db1) k = Some v \<longrightarrow> bget (db_occurrences db') k = Some v)"
    using Cons.prems(2) by (intro Cons.IH [OF rest]) (simp_all add: x)
  with save_command_fields(4,5) [OF one] show ?case by (simp add: x)
qed simp

section \<open>Loading\<close>

lemma prefix_scan_split:
  assumes "\<forall>e \<in> set before. fst e < prefix" and "\<forall>e \<in> set own. has_prefix (fst e) prefix \<and> \<not> fst e < prefix"
    and "\<forall>e \<in> set behind. \<not> has_prefix (fst e) prefix \<and> \<not> fst e < prefix"
  shows "prefix_scan prefix (before @ own @ behind) = map snd own"
proof -
  have "dropWhile (\<lambda>e. fst e < prefix) (own @ behind) = own @ behind"
    using assms(2,3) by (cases own; cases behind) auto
  then have "dropWhile (\<lambda>e. fst e < prefix) (before @ own @ behind) = own @ behind"
    using assms(1) by (simp add: dropWhile_append2)
  moreover have "takeWhile (\<lambda>e. has_prefix (fst e) prefix) behind = []"
    using assms(3) by (cases behind) auto
  ultimately show ?thesis using assms(2) by (simp add: prefix_scan_def takeWhile_append2)
qed

lemma scan_own_events:
  assumes "batch_ordered (us @ (i, c) # vs)"
  shows "prefix_scan (i @ [nul]) (concat (map keyed_events (us @ (i, c) # vs))) = jc_events c"
proof -
  have smaller: "i' < i \<and> length i' = length i" if "(i', c') \<in> set us" for i' c'
    using assms that by (auto simp: batch_ordered_def sorted_wrt_append list_all_iff)
  have larger: "i < i' \<and> length i = length i'" if "(i', c') \<in> set vs" for i' c'
    using assms that by (auto simp: batch_ordered_def sorted_wrt_append list_all_iff)
  have "prefix_scan (i @ [nul]) (concat (map keyed_events us) @ keyed_events (i, c) @ concat (map keyed_events vs))
      = map snd (keyed_events (i, c))"
  proof (rule prefix_scan_split)
    show "\<forall>e \<in> set (concat (map keyed_events us)). fst e < i @ [nul]"
      using smaller other_command_less by (fastforce simp: keyed_events_def)
    show "\<forall>e \<in> set (keyed_events (i, c)). has_prefix (fst e) (i @ [nul]) \<and> \<not> fst e < i @ [nul]"
      using own_prefix by (auto simp: keyed_events_def)
    have "\<not> has_prefix (event_key i' e) (i @ [nul]) \<and> \<not> event_key i' e < i @ [nul]"
      if "(i', c') \<in> set vs" for i' c' e
      using larger [OF that] other_prefix [of i i' e] other_command_less [of i i' _ e] by (auto dest: less_not_sym)
    then show "\<forall>e \<in> set (concat (map keyed_events vs)). \<not> has_prefix (fst e) (i @ [nul]) \<and> \<not> fst e < i @ [nul]"
      by (fastforce simp: keyed_events_def)
  qed
  then show ?thesis by (simp add: keyed_events_def comp_def)
qed

lemma restore_command: "(bare c)\<lparr>jc_events := jc_events (bare c) @ jc_events c\<rparr> = as_stored c"
  by (simp add: bare_def as_stored_def)

lemma bare_fields [simp]: "jc_command (bare c) = jc_command c" "jc_run_id (bare c) = jc_run_id c"
  by (simp_all add: bare_def as_stored_def)

lemma load_runs_restores:
  assumes "batch_ordered (us @ vs)" and "list_all (\<lambda>(i, c). command_stored_ok i c) (us @ vs)"
    and "db_commands db = map (\<lambda>(i, c). (i, jc_command c)) (us @ vs)"
    and "db_events db = concat (map keyed_events (us @ vs))"
  shows "load_runs db (map (\<lambda>(i, c). (i, bare c)) vs) (map (\<lambda>(i, c). (i, restored c)) us)
    = Inr (map (\<lambda>(i, c). (i, restored c)) (us @ vs))"
  using assms
proof (induction vs arbitrary: us)
  case (Cons x vs)
  obtain i c where x: "x = (i, c)" by (cases x)
  have ok: "ac_id (jc_command c) = i" "is_ulid i" "is_ulid (jc_run_id c)"
    using Cons.prems(2) by (auto simp: x command_stored_ok_def)
  have "bget (db_commands db) i \<noteq> None"
    by (simp add: Cons.prems(3) x map_of_eq_None_iff image_iff)
  then obtain stored_command where stored: "bget (db_commands db) i = Some stored_command" by blast
  have new: "i \<notin> set (mkeys (map (\<lambda>(i, c). (i, restored c)) us))"
    using Cons.prems(1) by (auto simp: x batch_ordered_def sorted_wrt_append)
  have "load_runs db (map (\<lambda>(i, c). (i, bare c)) (x # vs)) (map (\<lambda>(i, c). (i, restored c)) us)
      = load_runs db (map (\<lambda>(i, c). (i, bare c)) vs) (map (\<lambda>(i, c). (i, restored c)) (us @ [x]))"
    using stored ok scan_own_events [of us i c vs] Cons.prems(1,4) mput_new [OF new]
    by (simp add: x Let_def restore_command restored_def)
  also have "\<dots> = Inr (map (\<lambda>(i, c). (i, restored c)) ((us @ [x]) @ vs))"
    using Cons.prems by (intro Cons.IH) simp_all
  finally show ?case by simp
qed simp

section \<open>The round trip\<close>

definition journal_ok :: "command_journal \<Rightarrow> bool" where
  "journal_ok j = (distinct (mkeys (cj_commands j)) \<and> list_all (\<lambda>(i, c). events_ordered (jc_events c)) (cj_commands j))"

definition reloaded :: "command_journal \<Rightarrow> command_journal" where
  "reloaded j = newCommandJournal\<lparr>cj_commands :=
     map (\<lambda>(i, c). (i, restored c)) (sorted_commands (cj_commands j))\<rparr>"

lemma sorted_commands_keys: "map fst (sorted_commands m) = sort (mkeys m)"
  by (simp add: sorted_commands_def comp_def)

lemma sorted_commands_set: "distinct (mkeys m) \<Longrightarrow> set (sorted_commands m) = set m"
  by (force simp: sorted_commands_def mget_iff_in)

lemma strict_sorted_keys: "distinct (mkeys m) \<Longrightarrow> sorted_wrt (<) (map fst (sorted_commands m))" for m :: "(string, journal_command) gomap"
  by (simp add: sorted_commands_keys strict_sorted_iff)

lemma save_commands_stored:
  "save_commands cs db = Inr db' \<Longrightarrow> list_all (\<lambda>(i, c). command_stored_ok i c) cs"
  by (induction cs arbitrary: db) (auto split: sum.splits dest: save_command_fields(4))

lemma restored_keeps [simp]:
  "ac_id (jc_command (restored c)) = ac_id (jc_command c)"
  "jc_run_id (restored c) = jc_run_id c" "jc_command (restored c) = jc_command c"
  by (simp_all add: restored_def as_stored_def normalizeJournalCommand_def Let_def)

lemma save_load:
  assumes "journal_ok j" and "SaveCommandJournal j db = Inr db'"
  shows "LoadCommandJournal db' = Inr (reloaded j)
    \<and> (\<forall>k v. bget (db_occurrences db) k = Some v \<longrightarrow> bget (db_occurrences db') k = Some v)"
proof -
  let ?cs = "sorted_commands (cj_commands j)"
  from assms(2) have saved: "save_commands ?cs (clear_journal db) = Inr db'"
    by (simp add: SaveCommandJournal_def saveCommandJournal_def split: if_splits)
  have stored: "list_all (\<lambda>(i, c). command_stored_ok i c) ?cs" by (rule save_commands_stored [OF saved])
  have ordered: "batch_ordered ?cs"
    using assms(1) stored strict_sorted_keys [of "cj_commands j"] sorted_commands_set [of "cj_commands j"]
    by (force simp: batch_ordered_def journal_ok_def list_all_iff command_stored_ok_def is_ulid_def)
  have db: "db_runs db' = map (\<lambda>(i, c). (i, bare c)) ?cs"
    "db_commands db' = map (\<lambda>(i, c). (i, jc_command c)) ?cs" "db_events db' = concat (map keyed_events ?cs)"
    "\<forall>k v. bget (db_occurrences (clear_journal db)) k = Some v \<longrightarrow> bget (db_occurrences db') k = Some v"
    using save_commands_append [OF saved, of "[]"] ordered by (auto simp: clear_journal_def)
  have "load_runs db' (db_runs db') [] = Inr (map (\<lambda>(i, c). (i, restored c)) ?cs)"
    using load_runs_restores [of "[]" ?cs db'] ordered stored db by simp
  moreover have "list_all (\<lambda>(i, c). command_stored_ok i c) (map (\<lambda>(i, c). (i, restored c)) ?cs)"
    using stored by (auto simp: list_all_iff command_stored_ok_def)
  ultimately show ?thesis using db(4)
    by (simp add: LoadCommandJournal_def loadCommandJournal_def newCommandJournal_def reloaded_def clear_journal_def)
qed

section \<open>Normalization is idempotent\<close>

lemma mput_same: "mget m k = Some v \<Longrightarrow> mput k v m = m"
  by (induction m) auto

lemma json_strings_map [simp]: "json_strings (map JStr ss) = Some ss"
  by (induction ss) auto

lemma normalize_terminal_cases:
  obtains (unchanged) "normalizeTerminalEventMaintenancePlan e = e"
  | (sorted) plan raw runs where "ev_kind e = ''run_finished''"
      "map_of (ev_payload e) ''maintenance_plan'' = Some (JObj plan)"
      "map_of plan ''protected_run_ids'' = Some (JArr raw)" "json_strings raw = Some runs"
proof -
  show thesis
  proof (cases "ev_kind e = ''run_finished'' \<and> (\<exists>plan raw runs. map_of (ev_payload e) ''maintenance_plan'' = Some (JObj plan)
      \<and> map_of plan ''protected_run_ids'' = Some (JArr raw) \<and> json_strings raw = Some runs)")
    case True
    then show thesis using sorted by blast
  next
    case False
    then have "normalizeTerminalEventMaintenancePlan e = e"
      by (auto simp: normalizeTerminalEventMaintenancePlan_def split: option.splits json.splits)
    then show thesis by (rule unchanged)
  qed
qed

lemma normalize_terminal_idem [simp]:
  "normalizeTerminalEventMaintenancePlan (normalizeTerminalEventMaintenancePlan e) = normalizeTerminalEventMaintenancePlan e"
  by (cases rule: normalize_terminal_cases [of e])
    (simp_all add: normalizeTerminalEventMaintenancePlan_def mput_same)

lemma normalize_terminal_payload: "\<exists>p. normalizeTerminalEventMaintenancePlan e = e\<lparr>ev_payload := p\<rparr>"
proof (cases rule: normalize_terminal_cases [of e])
  case unchanged
  then have "normalizeTerminalEventMaintenancePlan e = e\<lparr>ev_payload := ev_payload e\<rparr>" by simp
  then show ?thesis by blast
next
  case (sorted plan raw runs)
  then have "normalizeTerminalEventMaintenancePlan e = e\<lparr>ev_payload := mput ''maintenance_plan''
        (JObj (mput ''protected_run_ids'' (JArr (map JStr (unique_sorted runs))) plan)) (ev_payload e)\<rparr>"
    by (simp add: normalizeTerminalEventMaintenancePlan_def)
  then show ?thesis by blast
qed

definition with_defaults :: "journal_command \<Rightarrow> agent_event \<Rightarrow> agent_event" where
  "with_defaults c e =
     e\<lparr>ev_run_kind := (if ev_run_kind e = [] then jc_run_kind c else ev_run_kind e),
       ev_config_revision := (if ev_config_revision e = 0 then jc_config_revision c else ev_config_revision e),
       ev_trigger := (if ev_trigger e = [] then jc_trigger c else ev_trigger e),
       ev_scheduled_for := (if ev_scheduled_for e = [] then jc_scheduled_for c else ev_scheduled_for e)\<rparr>"

lemma with_defaults_idem: "with_defaults c ((with_defaults c e)\<lparr>ev_payload := p\<rparr>) = (with_defaults c e)\<lparr>ev_payload := p\<rparr>"
  by (cases e) (auto simp: with_defaults_def)

lemma normalize_event_defaults: "normalize_event c e = normalizeTerminalEventMaintenancePlan (with_defaults c e)"
  by (simp add: normalize_event_def with_defaults_def)

lemma normalize_event_idem [simp]: "normalize_event c (normalize_event c e) = normalize_event c e"
proof -
  obtain p where "normalizeTerminalEventMaintenancePlan (with_defaults c e) = (with_defaults c e)\<lparr>ev_payload := p\<rparr>"
    using normalize_terminal_payload by blast
  then show ?thesis
    using normalize_terminal_idem [of "with_defaults c e"] by (simp add: normalize_event_defaults with_defaults_idem)
qed

lemma normalize_event_cong:
  "jc_run_kind c = jc_run_kind d \<Longrightarrow> jc_config_revision c = jc_config_revision d \<Longrightarrow> jc_trigger c = jc_trigger d
    \<Longrightarrow> jc_scheduled_for c = jc_scheduled_for d \<Longrightarrow> normalize_event c e = normalize_event d e"
  by (simp add: normalize_event_def)

definition command_defaults :: "journal_command \<Rightarrow> journal_command" where
  "command_defaults c =
     c\<lparr>jc_trigger := (if jc_trigger c = [] then ''manual'' else jc_trigger c),
       jc_config_revision := (if jc_config_revision c = 0 then cp_required_config_revision (ac_payload (jc_command c))
                              else jc_config_revision c),
       jc_run_kind := (if jc_run_kind c = [] then
                         (if cp_maintenance (ac_payload (jc_command c)) = [] then ''backup''
                          else cp_maintenance (ac_payload (jc_command c)))
                       else jc_run_kind c)\<rparr>"

definition normalize_result :: "journal_command \<Rightarrow> command_result \<Rightarrow> command_result" where
  "normalize_result c r =
     r\<lparr>cr_run_kind := (if cr_run_kind r = [] then jc_run_kind c else cr_run_kind r),
       cr_maintenance_plan := map_option normalizeMaintenancePlan (cr_maintenance_plan r)\<rparr>"

lemma normalize_command_defaults:
  "normalizeJournalCommand c = (command_defaults c)\<lparr>jc_events := map (normalize_event (command_defaults c)) (jc_events c),
     jc_maintenance_plan := map_option normalizeMaintenancePlan (jc_maintenance_plan c),
     jc_result := map_option (normalize_result (command_defaults c)) (jc_result c)\<rparr>"
proof -
  have "jc_events (command_defaults c) = jc_events c" "jc_maintenance_plan (command_defaults c) = jc_maintenance_plan c"
    "jc_result (command_defaults c) = jc_result c"
    by (simp_all add: command_defaults_def)
  then show ?thesis
    unfolding normalizeJournalCommand_def Let_def command_defaults_def [symmetric] normalize_result_def [abs_def] by simp
qed

lemma command_defaults_idem:
  "command_defaults ((command_defaults c)\<lparr>jc_events := es, jc_maintenance_plan := p, jc_result := r\<rparr>)
    = (command_defaults c)\<lparr>jc_events := es, jc_maintenance_plan := p, jc_result := r\<rparr>"
  by (cases c) (auto simp: command_defaults_def)

lemma normalizeJournalCommand_idem [simp]: "normalizeJournalCommand (normalizeJournalCommand c) = normalizeJournalCommand c"
proof -
  let ?d = "command_defaults c"
  have plan: "normalizeMaintenancePlan (normalizeMaintenancePlan p) = normalizeMaintenancePlan p" for p
    by (simp add: normalizeMaintenancePlan_def)
  have event: "normalize_event (?d\<lparr>jc_events := es, jc_maintenance_plan := p, jc_result := r\<rparr>) = normalize_event ?d" for es p r
    by (intro ext normalize_event_cong) simp_all
  have result: "normalize_result (?d\<lparr>jc_events := es, jc_maintenance_plan := p, jc_result := r\<rparr>) = normalize_result ?d" for es p r
    by (intro ext) (simp add: normalize_result_def)
  have twice: "normalize_result ?d (normalize_result ?d r) = normalize_result ?d r" for r
    by (cases r) (auto simp: normalize_result_def plan option.map_comp comp_def)
  show ?thesis
    unfolding normalize_command_defaults command_defaults_idem event result
    by (simp add: plan twice comp_def option.map_comp)
qed

lemma normalize_event_sequence [simp]: "ev_sequence (normalize_event c e) = ev_sequence e"
proof -
  obtain p where "normalizeTerminalEventMaintenancePlan (with_defaults c e) = (with_defaults c e)\<lparr>ev_payload := p\<rparr>"
    using normalize_terminal_payload by blast
  then show ?thesis by (simp add: normalize_event_defaults with_defaults_def)
qed

lemma restored_ordered [simp]: "events_ordered (jc_events (restored c)) = events_ordered (jc_events c)"
  by (simp add: restored_def as_stored_def normalize_command_defaults events_ordered_def comp_def list_all_iff)

lemma restored_restored [simp]: "restored (restored c) = restored c"
proof -
  have "stored_result (normalize_result d (stored_result r)) = normalize_result d (stored_result r)" for d r
    by (simp add: stored_result_def normalize_result_def comp_def)
  then have "as_stored (restored c) = restored c"
    by (cases "jc_result c") (simp_all add: restored_def as_stored_def normalize_command_defaults)
  then show ?thesis by (simp add: restored_def)
qed

section \<open>A store of journals\<close>

text \<open>What a component relies on that keeps a journal through restarts: loading after a save gives the
  journal in its restored form, and restoring again changes nothing.\<close>

locale journal_store =
  fixes save :: "'j \<Rightarrow> 'd \<Rightarrow> 'e + 'd"
    and load :: "'d \<Rightarrow> 'e + 'j"
    and reload :: "'j \<Rightarrow> 'j"
    and ok :: "'j \<Rightarrow> bool"
  assumes load_save: "ok j \<Longrightarrow> save j d = Inr d' \<Longrightarrow> load d' = Inr (reload j)"
    and reload_idem: "reload (reload j) = reload j"
    and reload_ok: "ok j \<Longrightarrow> ok (reload j)"
begin

lemma restart_stable:
  assumes "ok j" and "save j d = Inr d'" and "load d' = Inr j'" and "save j' d'' = Inr d'''"
  shows "load d''' = Inr j'"
proof -
  have "j' = reload j" using load_save [OF assms(1,2)] assms(3) by simp
  then show ?thesis using load_save [OF _ assms(4)] reload_ok [OF assms(1)] reload_idem by simp
qed

end

lemma mget_tabulate: "mget (map (\<lambda>i. (i, g i)) ks) k = (if k \<in> set ks then Some (g k) else None)"
  by (induction ks) auto

lemma sorted_commands_tabulate: "sorted ks \<Longrightarrow> sorted_commands (map (\<lambda>i. (i, g i)) ks) = map (\<lambda>i. (i, g i)) ks"
  by (simp add: sorted_commands_def mget_tabulate comp_def sorted_sort_id)

lemma reloaded_tabulate:
  "cj_commands (reloaded j) = map (\<lambda>i. (i, restored (the (mget (cj_commands j) i)))) (sort (mkeys (cj_commands j)))"
  by (simp add: reloaded_def sorted_commands_def)

interpretation journal: journal_store SaveCommandJournal LoadCommandJournal reloaded journal_ok
proof unfold_locales
  fix j d d' assume "journal_ok j" "SaveCommandJournal j d = Inr d'"
  then show "LoadCommandJournal d' = Inr (reloaded j)" using save_load by blast
next
  fix j
  have "cj_commands (reloaded (reloaded j)) = cj_commands (reloaded j)"
    by (simp add: reloaded_def [of "reloaded j"] reloaded_tabulate [of j] sorted_commands_tabulate)
  then show "reloaded (reloaded j) = reloaded j" by (simp add: reloaded_def)
next
  fix j assume ok: "journal_ok j"
  then have "events_ordered (jc_events (the (mget (cj_commands j) i)))" if "i \<in> set (mkeys (cj_commands j))" for i
    using that by (force simp: journal_ok_def list_all_iff mget_iff_in)
  with ok show "journal_ok (reloaded j)"
    by (auto simp: journal_ok_def reloaded_tabulate comp_def list_all_iff)
qed


section \<open>Occurrences\<close>

lemma bget_put_kept: "bget b k \<noteq> None \<Longrightarrow> bget (bput k' v b) k \<noteq> None"
  by simp

lemma save_command_occurrence:
  assumes "save_command i c db = Inr db'" and "jc_trigger c = ''scheduled''" and "jc_scheduled_for c \<noteq> []"
  shows "bget (db_occurrences db') (occurrenceKey (cp_job_id (ac_payload (jc_command c))) (jc_run_kind c) (jc_scheduled_for c))
    = Some (jc_run_id c)"
  using assms by (auto simp: save_command_def Let_def split: if_splits option.splits)

lemma save_commands_occurrences:
  "save_commands cs db = Inr db' \<Longrightarrow> bget (db_occurrences db) k = Some v \<Longrightarrow> bget (db_occurrences db') k = Some v"
proof (induction cs arbitrary: db)
  case (Cons x cs)
  obtain i c where x: "x = (i, c)" by (cases x)
  from Cons.prems(1) obtain db1 where one: "save_command i c db = Inr db1" and rest: "save_commands cs db1 = Inr db'"
    by (auto simp: x split: sum.splits)
  from save_command_fields(5) [OF one Cons.prems(2)] show ?case by (rule Cons.IH [OF rest])
qed simp

lemma save_commands_scheduled:
  "save_commands cs db = Inr db' \<Longrightarrow> (i, c) \<in> set cs \<Longrightarrow> jc_trigger c = ''scheduled'' \<Longrightarrow> jc_scheduled_for c \<noteq> [] \<Longrightarrow>
    bget (db_occurrences db') (occurrenceKey (cp_job_id (ac_payload (jc_command c))) (jc_run_kind c) (jc_scheduled_for c))
      = Some (jc_run_id c)"
proof (induction cs arbitrary: db)
  case (Cons x cs)
  obtain i' c' where x: "x = (i', c')" by (cases x)
  from Cons.prems(1) obtain db1 where one: "save_command i' c' db = Inr db1" and rest: "save_commands cs db1 = Inr db'"
    by (auto simp: x split: sum.splits)
  show ?case
  proof (cases "(i, c) \<in> set cs")
    case True
    with Cons.IH [OF rest] Cons.prems show ?thesis by blast
  next
    case False
    with Cons.prems(2) x have "c = c'" by simp
    with save_command_occurrence [OF one] Cons.prems(3,4) save_commands_occurrences [OF rest] show ?thesis by blast
  qed
qed simp

lemma save_journal_occurrences:
  assumes "SaveCommandJournal j db = Inr db'"
  shows "bget (db_occurrences db) k = Some v \<Longrightarrow> bget (db_occurrences db') k = Some v"
    and "distinct (mkeys (cj_commands j)) \<Longrightarrow> (i, c) \<in> set (cj_commands j) \<Longrightarrow> jc_trigger c = ''scheduled''
      \<Longrightarrow> jc_scheduled_for c \<noteq> []
      \<Longrightarrow> occurrenceExists (cp_job_id (ac_payload (jc_command c))) (jc_run_kind c) (jc_scheduled_for c) db'"
  using assms save_commands_occurrences [of "sorted_commands (cj_commands j)" "clear_journal db" db']
    save_commands_scheduled [of "sorted_commands (cj_commands j)" "clear_journal db" db' i c]
    sorted_commands_set [of "cj_commands j"]
  by (auto simp: SaveCommandJournal_def saveCommandJournal_def clear_journal_def occurrenceExists_def split: if_splits)

lemma update_state_error: "updateState w action fs = (Some e, fs') \<Longrightarrow> fs_db fs' = fs_db fs"
  by (auto simp: updateState_def releaseReserve_def split: if_splits sum.splits write_outcome.splits)

lemma update_state_ok: "updateState w action fs = (None, fs') \<Longrightarrow> w = Written \<and> action (fs_db fs) = Inr (fs_db fs')"
  by (auto simp: updateState_def split: if_splits sum.splits write_outcome.splits)

lemma save_runtime_occurrences [simp]: "db_occurrences (saveRuntimeState s db) = db_occurrences db"
  by (simp add: saveRuntimeState_def)

text \<open>C21: An occurrence on record stays on record whatever is written next and however the write ends, and
  the occurrence of every scheduled command of a saved journal is on record.\<close>
theorem occurrences_kept:
  assumes "action = SaveCommandJournal j \<or> action = Inr \<circ> saveRuntimeState s
      \<or> action = Inr \<circ> recordSkippedOccurrence a b c st"
    and "updateState w action fs = (e, fs')"
  shows "(occurrenceExists jobID runKind scheduledFor (fs_db fs) \<longrightarrow> occurrenceExists jobID runKind scheduledFor (fs_db fs'))
    \<and> (action = SaveCommandJournal j \<and> e = None \<and> distinct (mkeys (cj_commands j)) \<longrightarrow>
        (\<forall>(i, cmd) \<in> set (cj_commands j). jc_trigger cmd = ''scheduled'' \<and> jc_scheduled_for cmd \<noteq> [] \<longrightarrow>
          occurrenceExists (cp_job_id (ac_payload (jc_command cmd))) (jc_run_kind cmd) (jc_scheduled_for cmd) (fs_db fs')))"
proof (cases e)
  case (Some err)
  then show ?thesis using update_state_error assms(2) by auto
next
  case None
  with assms(2) have act: "action (fs_db fs) = Inr (fs_db fs')" using update_state_ok by blast
  have keep: "bget (db_occurrences (fs_db fs')) k \<noteq> None" if "bget (db_occurrences (fs_db fs)) k \<noteq> None" for k
    using assms(1)
  proof (elim disjE)
    assume "action = SaveCommandJournal j"
    with act save_journal_occurrences(1) that show ?thesis by fastforce
  next
    assume "action = Inr \<circ> saveRuntimeState s"
    with act that show ?thesis by (auto dest: sym)
  next
    assume "action = Inr \<circ> recordSkippedOccurrence a b c st"
    with act have "fs_db fs' = recordSkippedOccurrence a b c st (fs_db fs)" by simp
    with that show ?thesis by (auto simp: recordSkippedOccurrence_def Let_def split: option.splits)
  qed
  have old: "occurrenceExists jobID runKind scheduledFor (fs_db fs')" if "occurrenceExists jobID runKind scheduledFor (fs_db fs)"
    using that keep unfolding occurrenceExists_def by blast
  have new: "occurrenceExists (cp_job_id (ac_payload (jc_command cmd))) (jc_run_kind cmd) (jc_scheduled_for cmd) (fs_db fs')"
    if "action = SaveCommandJournal j" "distinct (mkeys (cj_commands j))" "(i, cmd) \<in> set (cj_commands j)"
      "jc_trigger cmd = ''scheduled''" "jc_scheduled_for cmd \<noteq> []" for i cmd
    using save_journal_occurrences(2) [of j "fs_db fs" "fs_db fs'" i cmd] act that by simp
  show ?thesis using old new by (intro conjI impI ballI) (auto split: prod.splits)
qed

section \<open>A concrete journal\<close>

definition stored_id :: string where
  "stored_id = replicate 26 (CHR ''1'')"

definition stored_event :: "nat \<Rightarrow> agent_event" where
  "stored_event n =
     \<lparr>ev_id = [], ev_run_id = stored_id, ev_job_id = ''j'', ev_run_kind = ''backup'', ev_config_revision = 1,
      ev_trigger = ''scheduled'', ev_scheduled_for = ''t'', ev_sequence = n, ev_occurred_at = ''t'',
      ev_kind = ''run_started'', ev_payload = []\<rparr>"

definition stored_command :: journal_command where
  "stored_command =
     \<lparr>jc_command = \<lparr>ac_id = stored_id, ac_generation = 1, ac_kind = ''scheduled_backup'', ac_issued_at = [],
        ac_expires_at = [], ac_payload = zero_payload\<lparr>cp_job_id := ''j''\<rparr>\<rparr>,
      jc_run_id = stored_id, jc_config_revision = 1, jc_run_kind = ''backup'', jc_trigger = ''scheduled'',
      jc_scheduled_for = ''t'', jc_job_snapshot = NoSnapshot, jc_received_at = [], jc_acknowledged = True,
      jc_state = ''running'', jc_sequence = 2, jc_events = [stored_event 1, stored_event 2], jc_result = None,
      jc_update_result = None, jc_result_reported = False, jc_log_id = [], jc_log_bytes = 0,
      jc_log_sha256 = [], jc_log_truncated = False, jc_log_dropped_bytes = 0, jc_next_log_chunk = 0,
      jc_log_completed = False, jc_maintenance_plan = None, jc_wait_for_backup = False,
      jc_max_deferral_at = [], jc_catch_up_backup = False, jc_replication_pending = [],
      jc_replication_retry_at = []\<rparr>"

definition stored_journal :: command_journal where
  "stored_journal = newCommandJournal\<lparr>cj_commands := [(stored_id, stored_command)]\<rparr>"

lemma stored_journal_saved: "\<exists>db. SaveCommandJournal stored_journal empty_db = Inr db"
proof -
  have "command_stored_ok stored_id stored_command"
    by (simp add: command_stored_ok_def stored_command_def is_ulid_def stored_id_def ulid_alphabet_def list_all_iff)
  then show ?thesis
    by (simp add: SaveCommandJournal_def saveCommandJournal_def stored_journal_def newCommandJournal_def
        sorted_commands_def save_command_def Let_def clear_journal_def empty_db_def split: option.split)
qed

lemma stored_journal_ok: "journal_ok stored_journal"
  by (simp add: journal_ok_def stored_journal_def stored_command_def events_ordered_def stored_event_def)


lemma occurrences_kept_witness:
  "\<exists>fs. updateState Written (SaveCommandJournal stored_journal)
      \<lparr>fs_db = empty_db, fs_reserve_released = False, fs_logs = []\<rparr> = (None, fs)
    \<and> occurrenceExists ''j'' ''backup'' ''t'' (fs_db fs)"
proof -
  obtain db where db: "SaveCommandJournal stored_journal empty_db = Inr db" using stored_journal_saved by blast
  then have saved: "updateState Written (SaveCommandJournal stored_journal)
      \<lparr>fs_db = empty_db, fs_reserve_released = False, fs_logs = []\<rparr>
    = (None, \<lparr>fs_db = db, fs_reserve_released = False, fs_logs = []\<rparr>)"
    by (simp add: updateState_def)
  have "distinct (mkeys (cj_commands stored_journal))" "(stored_id, stored_command) \<in> set (cj_commands stored_journal)"
    by (simp_all add: stored_journal_def)
  moreover have "jc_trigger stored_command = ''scheduled''" "jc_scheduled_for stored_command = ''t''"
    "cp_job_id (ac_payload (jc_command stored_command)) = ''j''" "jc_run_kind stored_command = ''backup''"
    by (simp_all add: stored_command_def)
  ultimately have "occurrenceExists ''j'' ''backup'' ''t'' db"
    using occurrences_kept [where action = "SaveCommandJournal stored_journal" and j = stored_journal, OF _ saved]
    by fastforce
  with saved show ?thesis by simp
qed

end
