(* ===== verification/Daemon.thy ===== *)
theory Daemon
  imports MaintenanceRepositories StateDb JobRules RepositoryCodec
begin

text \<open>
  The state of the daemon (agent/daemon.go) and the operations on it that the scheduler and the command
  handlers share: reading the clock, saving, events, the maintenance state of a repository
  (agent/maintenance_state.go) and what the daemon does with an error of the control plane.

  Everything the daemon asks from outside (the clock, random bytes, the disk, the control plane, restic)
  is answered by an environment record. The daemon counts its questions, and the n-th question of a run
  gets the n-th answer, so every behaviour of the outside is an environment. The fields that the code
  guards with \<open>daemon.mu\<close> change only in the definitions that stand for a critical section.
\<close>

section \<open>State and environment\<close>

datatype daemon_error =
    PermanentlyStopped | ApiFailure string | TransportFailure | StoreFailure store_error | RandomFailure
  | ScheduleFailure schedule_error | SnapshotFailure | SnapshotEncodingFailure | ConfigFailure
  | CommandChanged | ConfigurationMissing | UpdaterFailure | EventRejected string | ContextEnded
  | Joined "daemon_error list"

datatype daemon_task =
    BackupTask string string job
  | MaintenanceTask string string job "maintenance_plan option"
  | ReplicationTask job
  | SyncTask string job job_repository

text \<open>What \<open>LoadConfig\<close> and \<open>DecodeConfig\<close> gave, and what \<open>FetchConfig\<close> and \<open>SaveConfig\<close> gave.\<close>

datatype config_file = ConfigUnreadable | ConfigUndecodable config_metadata | ConfigFile config_metadata config

datatype fetch_answer =
    FetchFailed daemon_error
  | FetchInvalid config_metadata string daemon_error
  | NotModified
  | FetchUnchanged
  | FetchRefused string daemon_error
  | FetchUndecodable daemon_error
  | Fetched config_metadata config

record event_result =
  er_id :: string
  er_status :: string
  er_code :: string

record daemon_env =
  de_clock :: "nat \<Rightarrow> time"
  de_random :: "nat \<Rightarrow> nat list option"
  de_write :: "nat \<Rightarrow> write_outcome"
  de_read :: "nat \<Rightarrow> store_error option"
  de_usage :: "nat \<Rightarrow> nat"
  de_done :: "nat \<Rightarrow> bool"
  de_cron :: cron
  de_lib :: repo_lib
  de_run :: "nat \<Rightarrow> restic_request \<Rightarrow> restic_result"
  de_request :: "nat \<Rightarrow> daemon_error option"
  de_events :: "nat \<Rightarrow> agent_event list \<Rightarrow> daemon_error + event_result list"
  de_load :: "nat \<Rightarrow> config_file"
  de_fetch :: "nat \<Rightarrow> fetch_answer"
  de_inspect :: "nat \<Rightarrow> command_payload \<Rightarrow> command_result"

text \<open>\<open>dm_active\<close> are the runs that have a cancel function, \<open>dm_cancelled\<close> those whose function was called;
  \<open>dm_repositories\<close> and \<open>dm_replication\<close> are the keys of the maps of flags; \<open>dm_tasks\<close> are the goroutines
  that were spawned and have not ended. \<open>dm_protocol\<close> is the revision the client selected, none if the
  daemon has no client. \<open>dm_tick\<close> counts the questions.\<close>

record daemon =
  dm_bootstrap :: bootstrap
  dm_version :: string
  dm_protocol :: "string option"
  dm_metadata :: config_metadata
  dm_config :: config
  dm_state :: runtime_state
  dm_journal :: "(string, journal_command) gomap"
  dm_store :: file_store
  dm_active :: "string list"
  dm_cancelled :: "string list"
  dm_kinds :: "(string, string) gomap"
  dm_repositories :: "string list"
  dm_replication :: "string list"
  dm_reconciled :: bool
  dm_last_minute :: time
  dm_tasks :: "daemon_task list"
  dm_tick :: nat

definition tick :: "daemon \<Rightarrow> daemon" where
  "tick d = d\<lparr>dm_tick := Suc (dm_tick d)\<rparr>"

definition read_now :: "daemon_env \<Rightarrow> daemon \<Rightarrow> time \<times> daemon" where
  "read_now env d = (de_clock env (dm_tick d), tick d)"

definition draw_ulid_at :: "daemon_env \<Rightarrow> time \<Rightarrow> daemon \<Rightarrow> string option \<times> daemon" where
  "draw_ulid_at env t d = (newULID t (de_random env (dm_tick d)), tick d)"

definition draw_ulid :: "daemon_env \<Rightarrow> daemon \<Rightarrow> string option \<times> daemon" where
  "draw_ulid env d = (let (t, d) = read_now env d in draw_ulid_at env t d)"

definition put_command :: "string \<Rightarrow> journal_command \<Rightarrow> daemon \<Rightarrow> daemon" where
  "put_command i c d = d\<lparr>dm_journal := mput i c (dm_journal d)\<rparr>"

definition drop_command :: "string \<Rightarrow> daemon \<Rightarrow> daemon" where
  "drop_command i d = d\<lparr>dm_journal := mdel i (dm_journal d)\<rparr>"

abbreviation command :: "daemon \<Rightarrow> string \<Rightarrow> journal_command option" where
  "command d i \<equiv> mget (dm_journal d) i"

abbreviation updating :: "daemon \<Rightarrow> bool" where
  "updating d \<equiv> st_agent_update (dm_state d) \<noteq> None"

definition journal_of :: "daemon \<Rightarrow> command_journal" where
  "journal_of d = \<lparr>cj_version = commandJournalVersion, cj_commands = dm_journal d\<rparr>"

definition write_store ::
  "daemon_env \<Rightarrow> (state_db \<Rightarrow> store_error + state_db) \<Rightarrow> daemon \<Rightarrow> store_error option \<times> daemon" where
  "write_store env action d =
     (let (e, fs) = updateState (de_write env (dm_tick d)) action (dm_store d)
      in (e, tick (d\<lparr>dm_store := fs\<rparr>)))"

definition save_journal :: "daemon_env \<Rightarrow> daemon \<Rightarrow> store_error option \<times> daemon" where
  "save_journal env d = write_store env (SaveCommandJournal (journal_of d)) d"

definition save_state :: "daemon_env \<Rightarrow> daemon \<Rightarrow> store_error option \<times> daemon" where
  "save_state env d = write_store env (\<lambda>db. Inr (saveRuntimeState (dm_state d) db)) d"

definition read_store :: "daemon_env \<Rightarrow> (state_db \<Rightarrow> 'a) \<Rightarrow> daemon \<Rightarrow> (store_error + 'a) \<times> daemon" where
  "read_store env view d =
     ((case de_read env (dm_tick d) of Some e \<Rightarrow> Inl e | None \<Rightarrow> Inr (view (fs_db (dm_store d)))), tick d)"

definition can_accept :: "daemon_env \<Rightarrow> nat \<Rightarrow> daemon \<Rightarrow> bool \<times> daemon" where
  "can_accept env estimate d = (canAcceptWork (de_usage env (dm_tick d)) estimate (dm_store d), tick d)"

definition write_run_log :: "daemon_env \<Rightarrow> string \<Rightarrow> string \<Rightarrow> daemon \<Rightarrow> store_error option \<times> daemon" where
  "write_run_log env i contents d =
     (let (e, fs) = WriteRunLog (de_usage env (dm_tick d)) (de_write env (dm_tick d)) i contents (dm_store d)
      in (e, tick (d\<lparr>dm_store := fs\<rparr>)))"

definition run_restic :: "daemon_env \<Rightarrow> restic_request \<Rightarrow> daemon \<Rightarrow> restic_result \<times> daemon" where
  "run_restic env rq d = (de_run env (dm_tick d) rq, tick d)"

definition cancel_all :: "daemon \<Rightarrow> daemon" where
  "cancel_all d = d\<lparr>dm_cancelled := dm_active d @ dm_cancelled d\<rparr>"

definition supports :: "daemon \<Rightarrow> string \<Rightarrow> bool" where
  "supports d introduced =
     (case dm_protocol d of None \<Rightarrow> True | Some revision \<Rightarrow> protocolRevisionSupports revision introduced)"

section \<open>Documents of the events\<close>

definition json_of_strings :: "string list \<Rightarrow> json" where
  "json_of_strings xs = JArr (map JStr xs)"

definition put_flag :: "string \<Rightarrow> bool \<Rightarrow> (string \<times> json) list" where
  "put_flag k b = (if b then [(k, JBool True)] else [])"

definition put_text :: "string \<Rightarrow> string \<Rightarrow> (string \<times> json) list" where
  "put_text k s = (if s = [] then [] else [(k, JStr s)])"

definition put_list :: "string \<Rightarrow> ('a \<Rightarrow> json) \<Rightarrow> 'a list \<Rightarrow> (string \<times> json) list" where
  "put_list k f xs = (if xs = [] then [] else [(k, JArr (map f xs))])"

definition put_pointer :: "string \<Rightarrow> ('a \<Rightarrow> json) \<Rightarrow> 'a option \<Rightarrow> (string \<times> json) list" where
  "put_pointer k f p = (case p of None \<Rightarrow> [] | Some v \<Rightarrow> [(k, f v)])"

definition put_count :: "string \<Rightarrow> nat \<Rightarrow> (string \<times> json) list" where
  "put_count k n = (if n = 0 then [] else [(k, json_nat n)])"

definition json_of_plan :: "maintenance_plan \<Rightarrow> json" where
  "json_of_plan p =
     JObj ((''kind'', JStr (pl_kind p)) # put_list ''candidate_snapshot_ids'' JStr (pl_candidate_snapshot_ids p)
       @ put_list ''protected_snapshot_ids'' JStr (pl_protected_snapshot_ids p)
       @ put_list ''candidate_run_ids'' JStr (pl_candidate_run_ids p)
       @ put_list ''protected_run_ids'' JStr (pl_protected_run_ids p)
       @ put_count ''data_subset_part'' (pl_data_subset_part p)
       @ put_count ''data_subset_total'' (pl_data_subset_total p)
       @ put_flag ''combined_retention'' (pl_combined_retention p)
       @ put_flag ''forget_planned'' (pl_forget_planned p)
       @ put_flag ''prune_after_forget'' (pl_prune_after_forget p)
       @ put_flag ''prune_started'' (pl_prune_started p)
       @ put_flag ''prune_completed'' (pl_prune_completed p))"

definition json_of_evidence :: "snapshot_evidence \<Rightarrow> json" where
  "json_of_evidence s =
     JObj [(''scope'', JStr (se_scope s)), (''observed_at'', JStr (se_observed_at s)),
       (''snapshot_count'', json_nat (se_snapshot_count s)), (''chunk_count'', json_nat (se_chunk_count s)),
       (''sha256'', JStr (se_sha256 s))]"

definition json_of_artifact :: "backup_artifact \<Rightarrow> json" where
  "json_of_artifact a =
     JObj ([(''database'', JStr (ba_database a)), (''filename'', JStr (ba_filename a)),
         (''snapshot_id'', JStr (ba_snapshot_id a))]
       @ put_pointer ''source_bytes'' json_nat (ba_source_bytes a)
       @ put_pointer ''stored_bytes'' json_nat (ba_stored_bytes a))"

definition json_of_repository_result :: "repository_result \<Rightarrow> json" where
  "json_of_repository_result r =
     JObj ([(''repository_key'', JStr (rr_repository_key r)), (''repository_id'', JStr (rr_repository_id r)),
         (''status'', JStr (rr_status r)), (''result_code'', JStr (rr_result_code r)),
         (''attempt_count'', json_nat (rr_attempt_count r)), (''started_at'', JStr (rr_started_at r)),
         (''finished_at'', JStr (rr_finished_at r))]
       @ put_text ''summary'' (rr_summary r) @ put_text ''diagnostic'' (rr_diagnostic r)
       @ put_pointer ''statistics'' JObj (rr_statistics r)
       @ put_pointer ''repository_bytes'' json_nat (rr_repository_bytes r)
       @ put_pointer ''snapshot_evidence'' json_of_evidence (rr_snapshot_evidence r))"

definition terminalEventPayload :: "command_result \<Rightarrow> payload_map" where
  "terminalEventPayload r =
     [(''status'', JStr (cr_status r)), (''result_code'', JStr (cr_result_code r)),
      (''started_at'', JStr (cr_started_at r)), (''finished_at'', JStr (cr_finished_at r)),
      (''snapshot_ids'', json_of_strings (cr_snapshot_ids r))]
     @ put_pointer ''statistics'' JObj (cr_statistics r)
     @ put_text ''summary'' (cr_summary r)
     @ put_pointer ''repository_bytes'' json_nat (cr_repository_bytes r)
     @ put_list ''artifacts'' json_of_artifact (cr_artifacts r)
     @ put_pointer ''snapshot_evidence'' json_of_evidence (cr_snapshot_evidence r)
     @ put_list ''repository_results'' json_of_repository_result (cr_repository_results r)
     @ put_pointer ''maintenance_plan'' json_of_plan (cr_maintenance_plan r)"

section \<open>Events\<close>

definition eventEnvelope ::
  "journal_command \<Rightarrow> string \<Rightarrow> nat \<Rightarrow> string \<Rightarrow> string \<Rightarrow> payload_map \<Rightarrow> agent_event" where
  "eventEnvelope c event_id sequence occurred kind payload =
     \<lparr>ev_id = event_id, ev_run_id = jc_run_id c, ev_job_id = cp_job_id (ac_payload (jc_command c)),
      ev_run_kind = jc_run_kind c, ev_config_revision = jc_config_revision c, ev_trigger = jc_trigger c,
      ev_scheduled_for = jc_scheduled_for c, ev_sequence = sequence, ev_occurred_at = occurred,
      ev_kind = kind, ev_payload = payload\<rparr>"

definition next_sequence :: "journal_command \<Rightarrow> journal_command" where
  "next_sequence c = c\<lparr>jc_sequence := Suc (jc_sequence c)\<rparr>"

definition add_event :: "string \<Rightarrow> string \<Rightarrow> string \<Rightarrow> payload_map \<Rightarrow> journal_command \<Rightarrow> journal_command" where
  "add_event event_id occurred kind payload c =
     c\<lparr>jc_events := jc_events c @ [eventEnvelope c event_id (jc_sequence c) occurred kind payload]\<rparr>"

text \<open>The sequence is taken before the identity is drawn, so a draw that fails leaves a gap. The first
  result is false then. \<open>emit\<close> takes the time of the event, \<open>emit_now\<close> reads the clock for it.\<close>

definition emit ::
  "daemon_env \<Rightarrow> string \<Rightarrow> string \<Rightarrow> payload_map \<Rightarrow> journal_command \<Rightarrow> daemon \<Rightarrow>
   bool \<times> journal_command \<times> daemon" where
  "emit env occurred kind payload c d =
     (let c = next_sequence c; (u, d) = draw_ulid env d
      in case u of None \<Rightarrow> (False, c, d)
         | Some event_id \<Rightarrow> (True, add_event event_id occurred kind payload c, d))"

definition emit_now ::
  "daemon_env \<Rightarrow> string \<Rightarrow> payload_map \<Rightarrow> journal_command \<Rightarrow> daemon \<Rightarrow> bool \<times> journal_command \<times> daemon" where
  "emit_now env kind payload c d =
     (let c = next_sequence c; (u, d) = draw_ulid env d
      in case u of None \<Rightarrow> (False, c, d)
         | Some event_id \<Rightarrow>
             (let (t, d) = read_now env d in (True, add_event event_id (protocolTimestamp t) kind payload c, d)))"

text \<open>The loop over the chunks of an inventory stops at the first draw that fails.\<close>

fun evidence_chunks ::
  "daemon_env \<Rightarrow> string \<Rightarrow> payload_map \<Rightarrow> nat \<Rightarrow> string list list \<Rightarrow> journal_command \<Rightarrow> daemon \<Rightarrow>
   journal_command \<times> daemon" where
  "evidence_chunks env observed members n [] c d = (c, d)"
| "evidence_chunks env observed members n (ids # rest) c d =
     (let (ok, c, d) = emit env observed ''snapshot_inventory_chunk''
            (members @ [(''chunk_index'', json_nat n), (''snapshot_ids'', json_of_strings ids)]) c d
      in if ok then evidence_chunks env observed members (Suc n) rest c d else (c, d))"

definition appendRepositorySnapshotEvidenceEvents ::
  "daemon_env \<Rightarrow> repository_result \<Rightarrow> journal_command \<Rightarrow> daemon \<Rightarrow> journal_command \<times> daemon" where
  "appendRepositorySnapshotEvidenceEvents env r c d =
     (case rr_snapshot_evidence r of
        None \<Rightarrow> (c, d)
      | Some s \<Rightarrow>
          evidence_chunks env (se_observed_at s)
            [(''repository_key'', JStr (rr_repository_key r)), (''scope'', JStr (se_scope s))] 0
            (chunks snapshotEvidenceChunkSize (rr_snapshot_evidence_ids r)) c d)"

fun append_repositories ::
  "daemon_env \<Rightarrow> repository_result list \<Rightarrow> journal_command \<Rightarrow> daemon \<Rightarrow> journal_command \<times> daemon" where
  "append_repositories env [] c d = (c, d)"
| "append_repositories env (r # rs) c d =
     (let (c, d) = appendRepositorySnapshotEvidenceEvents env r c d in append_repositories env rs c d)"

definition appendSnapshotEvidenceEvents ::
  "daemon_env \<Rightarrow> command_result \<Rightarrow> journal_command \<Rightarrow> daemon \<Rightarrow> journal_command \<times> daemon" where
  "appendSnapshotEvidenceEvents env r c d =
     (if cr_repository_results r \<noteq> [] then append_repositories env (cr_repository_results r) c d
      else (case cr_snapshot_evidence r of
              None \<Rightarrow> (c, d)
            | Some s \<Rightarrow>
                evidence_chunks env (se_observed_at s) [(''scope'', JStr (se_scope s))] 0
                  (chunks snapshotEvidenceChunkSize (cr_snapshot_evidence_ids r)) c d))"

section \<open>Snapshots of jobs\<close>

text \<open>The JSON of a job fails exactly when one of its connections has no document; otherwise decoding
  gives the job back, since every field of the configuration types is encoded.\<close>

definition job_connections :: "job \<Rightarrow> connection list" where
  "job_connections j =
     map rp_connection (jb_repository j # jb_replicas j @ jb_replica_setups j)"

definition encodeJobSnapshot :: "job \<Rightarrow> job_snapshot option" where
  "encodeJobSnapshot j =
     (if list_all (\<lambda>c. \<not> isl (connection_to_document c)) (job_connections j) then Some (JobSnapshot j) else None)"

definition decodeJobSnapshot :: "cron \<Rightarrow> job_snapshot \<Rightarrow> daemon_error + job" where
  "decodeJobSnapshot cron s =
     (case s of
        JobSnapshot j \<Rightarrow> if validateJob cron j = None then Inr j else Inl SnapshotFailure
      | _ \<Rightarrow> Inl SnapshotFailure)"

end
