(* ===== verification/MaintenanceState.thy ===== *)
theory MaintenanceState
  imports Daemon
begin

text \<open>
  What the daemon knows of a repository between runs (agent/maintenance_state.go), and the state it keeps
  about the control plane: the pause after a refused authentication, the revocation, the gap of the
  spool and the offset of the clock (agent/daemon.go).
\<close>

section \<open>Maintenance state\<close>

definition runtime_of :: "daemon \<Rightarrow> string \<Rightarrow> maintenance_runtime" where
  "runtime_of d repository =
     (case mget (st_maintenance (dm_state d)) repository of None \<Rightarrow> zero_runtime | Some r \<Rightarrow> r)"

definition put_runtime :: "string \<Rightarrow> maintenance_runtime \<Rightarrow> daemon \<Rightarrow> daemon" where
  "put_runtime repository r d =
     d\<lparr>dm_state := (dm_state d)\<lparr>st_maintenance := mput repository r (st_maintenance (dm_state d))\<rparr>\<rparr>"

definition activeCountsLocked :: "daemon \<Rightarrow> nat \<times> nat" where
  "activeCountsLocked d = (mcount (\<lambda>k. k = ''backup'') (dm_kinds d), mcount (\<lambda>k. k \<noteq> ''backup'') (dm_kinds d))"

definition newerCompleteProof :: "complete_snapshot_proof option \<Rightarrow> complete_snapshot_proof option \<Rightarrow> bool" where
  "newerCompleteProof candidate current =
     (case candidate of None \<Rightarrow> False
      | Some c \<Rightarrow>
          (case current of None \<Rightarrow> True
           | Some p \<Rightarrow> if cs_finished_at c \<noteq> cs_finished_at p then cs_finished_at p < cs_finished_at c
                       else cs_run_id p < cs_run_id c))"

text \<open>The runtime state of the repository with the proof of the configuration taken over.\<close>

definition adopt_proof :: "job \<Rightarrow> maintenance_runtime \<Rightarrow> maintenance_runtime" where
  "adopt_proof j r =
     (if newerCompleteProof (jr_latest_complete (jb_retention j)) (rt_latest_complete r)
      then r\<lparr>rt_latest_complete := jr_latest_complete (jb_retention j)\<rparr> else r)"

definition known_job :: "maintenance_runtime \<Rightarrow> job \<Rightarrow> job" where
  "known_job r j =
     j\<lparr>jb_retention := (jb_retention j)
         \<lparr>jr_latest_complete := (if rt_latest_complete r \<noteq> None then rt_latest_complete r
                                 else jr_latest_complete (jb_retention j)),
          jr_has_unresolved_runs := jr_has_unresolved_runs (jb_retention j) \<or> rt_unresolved r\<rparr>\<rparr>"

definition prune_due :: "job \<Rightarrow> maintenance_runtime \<Rightarrow> time \<Rightarrow> bool" where
  "prune_due j r now =
     (case time_parse (rt_last_prune_completed_at r) of None \<Rightarrow> True
      | Some pruned \<Rightarrow> pruned + int (jm_prune_interval_seconds (jb_maintenance j)) * 1000000000 \<le> now)"

definition next_data_part :: "job \<Rightarrow> maintenance_runtime \<Rightarrow> maintenance_runtime" where
  "next_data_part j r =
     (let parts = ji_data_parts (jb_integrity j);
          r = (if rt_data_parts r \<noteq> parts then r\<lparr>rt_data_parts := parts, rt_next_data_part := 1\<rparr> else r)
      in if rt_next_data_part r < 1 \<or> parts < rt_next_data_part r then r\<lparr>rt_next_data_part := 1\<rparr> else r)"

definition combined_due :: "job \<Rightarrow> journal_command \<Rightarrow> bool" where
  "combined_due j c =
     (jc_run_kind c = ''forget'' \<and> cp_snapshot_ids (ac_payload (jc_command c)) = []
      \<and> jm_strategy (jb_maintenance j) = ''after_scheduled_backup'' \<and> jc_maintenance_plan c = None)"

text \<open>The job with what is known of its repository, the command with the plan made for it, if any. The clock
  is read only when a time of the last prune is known.\<close>

definition prepareMaintenanceLocked ::
  "daemon_env \<Rightarrow> job \<Rightarrow> journal_command \<Rightarrow> daemon \<Rightarrow> job \<times> journal_command \<times> daemon" where
  "prepareMaintenanceLocked env j c d =
     (let repository = rp_id (jb_repository j);
          r = adopt_proof j (runtime_of d repository);
          j = known_job r j;
          (c, d) =
            (if combined_due j c then
               (let (now, d) = (if time_parse (rt_last_prune_completed_at r) \<noteq> None then read_now env d else (0, d))
                in (c\<lparr>jc_maintenance_plan := Some (zero_plan\<lparr>pl_kind := ''forget'', pl_combined_retention := True,
                       pl_prune_after_forget := prune_due j r now\<rparr>)\<rparr>, d))
             else (c, d));
          (c, r) =
            (if jc_run_kind c = ''check_data'' \<and> jc_maintenance_plan c = None then
               (let r = next_data_part j r
                in (c\<lparr>jc_maintenance_plan := Some (zero_plan\<lparr>pl_kind := jc_run_kind c,
                       pl_data_subset_part := rt_next_data_part r,
                       pl_data_subset_total := ji_data_parts (jb_integrity j)\<rparr>)\<rparr>, r))
             else (c, r));
          r = (if jr_has_unresolved_runs (jb_retention j) then r\<lparr>rt_unresolved := True\<rparr> else r)
      in (j, c, put_runtime repository r d))"

text \<open>The data check succeeded: the part after the one that was checked is next. The number of parts is
  positive in a job that passed \<open>validateJob\<close>; the remainder by zero would stop the program.\<close>

definition advance_data_part :: "job \<Rightarrow> maintenance_runtime \<Rightarrow> maintenance_runtime" where
  "advance_data_part j r =
     (let parts = ji_data_parts (jb_integrity j);
          part = (if rt_data_parts r = parts \<and> 1 \<le> rt_next_data_part r \<and> rt_next_data_part r \<le> parts
                  then rt_next_data_part r else 1)
      in r\<lparr>rt_data_parts := parts, rt_next_data_part := part mod parts + 1\<rparr>)"

definition clear_unresolved :: "maintenance_runtime \<Rightarrow> maintenance_runtime" where
  "clear_unresolved r = r\<lparr>rt_unresolved := False, rt_unresolved_confirmed := False, rt_unresolved_at_revision := 0\<rparr>"

definition outcome_runtime :: "nat \<Rightarrow> job \<Rightarrow> command_result \<Rightarrow> maintenance_runtime \<Rightarrow> maintenance_runtime" where
  "outcome_runtime revision j res r =
     (let r = (if cr_run_kind res = ''backup'' \<and> cr_status res = ''complete'' \<and> cr_snapshot_ids res \<noteq> []
               then r\<lparr>rt_latest_complete := Some \<lparr>cs_run_id = cr_run_id res, cs_finished_at = cr_finished_at res,
                       cs_snapshot_ids = cr_snapshot_ids res\<rparr>\<rparr> else r);
          r = (if cr_status res = ''unresolved''
               then r\<lparr>rt_unresolved := True, rt_unresolved_confirmed := False, rt_unresolved_at_revision := revision\<rparr>
               else r);
          r = (if cr_run_kind res = ''snapshot_inventory'' \<and> cr_status res = ''complete''
                  \<and> cr_result_code res = ''success''
                  \<and> (case cr_snapshot_evidence res of None \<Rightarrow> False | Some s \<Rightarrow> se_scope s = ''repository'')
               then clear_unresolved r else r);
          r = (if cr_run_kind res = ''check_data'' \<and> cr_status res = ''complete'' \<and> cr_result_code res = ''success''
               then advance_data_part j r else r)
      in if cr_run_kind res = ''forget'' \<and> cr_prune_completed res
         then r\<lparr>rt_last_prune_completed_at := cr_finished_at res\<rparr> else r)"

definition recordOutcomeLocked :: "daemon_env \<Rightarrow> job \<Rightarrow> command_result \<Rightarrow> daemon \<Rightarrow> daemon" where
  "recordOutcomeLocked env j res d =
     (let repository = rp_id (jb_repository j)
      in snd (save_state env
           (put_runtime repository (outcome_runtime (cm_revision (dm_metadata d)) j res (runtime_of d repository)) d)))"

section \<open>A new configuration\<close>

definition accepted_runtime :: "config \<Rightarrow> job \<Rightarrow> maintenance_runtime \<Rightarrow> maintenance_runtime" where
  "accepted_runtime cf j r =
     (let r = adopt_proof j r;
          r = (if jr_has_unresolved_runs (jb_retention j)
               then r\<lparr>rt_unresolved := True, rt_unresolved_confirmed := True,
                      rt_unresolved_at_revision := cf_revision cf\<rparr>
               else if rt_unresolved r \<and> rt_unresolved_confirmed r \<and> rt_unresolved_at_revision r < cf_revision cf
               then clear_unresolved r else r)
      in if rt_data_parts r \<noteq> 0 \<and> rt_data_parts r \<noteq> ji_data_parts (jb_integrity j)
         then r\<lparr>rt_data_parts := ji_data_parts (jb_integrity j), rt_next_data_part := 1\<rparr> else r)"

fun accept_jobs :: "config \<Rightarrow> job list \<Rightarrow> daemon \<Rightarrow> daemon" where
  "accept_jobs cf [] d = d"
| "accept_jobs cf (j # js) d =
     (if jb_enabled j
      then accept_jobs cf js
             (put_runtime (rp_id (jb_repository j)) (accepted_runtime cf j (runtime_of d (rp_id (jb_repository j)))) d)
      else accept_jobs cf js d)"

definition available_jobs :: "config \<Rightarrow> string list" where
  "available_jobs cf = map jb_id (filter jb_enabled (cf_jobs cf))"

text \<open>The runs to cancel and the queued commands to finish.\<close>

definition withdrawn_queued :: "string list \<Rightarrow> journal_command \<Rightarrow> bool" where
  "withdrawn_queued available c =
     (let job_id = cp_job_id (ac_payload (jc_command c))
      in if jc_run_kind c = ''backup''
         then jc_catch_up_backup c \<and> jc_state c = ''received'' \<and> job_id \<notin> set available
         else jc_run_kind c \<noteq> [] \<and> job_id \<noteq> [] \<and> job_id \<notin> set available \<and> jc_state c = ''received'')"

definition withdrawn_running :: "daemon \<Rightarrow> string list \<Rightarrow> journal_command \<Rightarrow> bool" where
  "withdrawn_running d available c =
     (let job_id = cp_job_id (ac_payload (jc_command c))
      in jc_run_kind c \<noteq> ''backup'' \<and> jc_run_kind c \<noteq> [] \<and> job_id \<noteq> [] \<and> job_id \<notin> set available
         \<and> jc_state c = ''running'' \<and> jc_run_id c \<in> set (dm_active d))"

definition acceptMaintenanceConfigLocked :: "config \<Rightarrow> daemon \<Rightarrow> string list \<times> string list \<times> daemon" where
  "acceptMaintenanceConfigLocked cf d =
     (let available = available_jobs cf
      in (map (\<lambda>(i, c). jc_run_id c) (filter (\<lambda>(i, c). withdrawn_running d available c) (dm_journal d)),
          map fst (filter (\<lambda>(i, c). withdrawn_queued available c) (dm_journal d)),
          accept_jobs cf (cf_jobs cf) d))"

section \<open>The control plane\<close>

definition markSpoolGapLocked :: "daemon \<Rightarrow> daemon" where
  "markSpoolGapLocked d =
     d\<lparr>dm_state := (dm_state d)\<lparr>st_spool_gap_detected := True,
         st_spool_gap_version := (st_spool_gap_version (dm_state d) + 1) mod 2 ^ 64\<rparr>\<rparr>"

text \<open>\<open>Duration.Round\<close> to a second, halves away from zero.\<close>

definition round_seconds :: "int \<Rightarrow> int" where
  "round_seconds n =
     (if 0 \<le> n then (n + 500000000) div 1000000000 else - ((- n + 500000000) div 1000000000))"

definition clamp_offset :: "int \<Rightarrow> int" where
  "clamp_offset n = (if 86400 < n then 86400 else if n < -86400 then -86400 else n)"

definition observeServerTime :: "daemon_env \<Rightarrow> time \<Rightarrow> time \<Rightarrow> daemon \<Rightarrow> daemon" where
  "observeServerTime env server here d =
     (let offset = clamp_offset (round_seconds (server - here))
      in if st_clock_offset_seconds (dm_state d) = offset \<and> st_clock_offset_observed_at (dm_state d) \<noteq> [] then d
         else snd (save_state env
                (d\<lparr>dm_state := (dm_state d)\<lparr>st_clock_offset_seconds := offset,
                     st_clock_offset_observed_at := protocolTimestamp here\<rparr>\<rparr>)))"

fun api_code :: "daemon_error \<Rightarrow> string option"
  and api_codes :: "daemon_error list \<Rightarrow> string option" where
  "api_code (ApiFailure code) = Some code"
| "api_code (Joined es) = api_codes es"
| "api_code _ = None"
| "api_codes [] = None"
| "api_codes (e # es) = (case api_code e of Some code \<Rightarrow> Some code | None \<Rightarrow> api_codes es)"

definition store_failed :: "store_error option \<Rightarrow> daemon_error option" where
  "store_failed = map_option StoreFailure"

definition handleRequestError :: "daemon_env \<Rightarrow> daemon_error option \<Rightarrow> daemon \<Rightarrow> daemon_error option \<times> daemon" where
  "handleRequestError env err d =
     (case err of None \<Rightarrow> (None, d)
      | Some e \<Rightarrow>
          (if api_code e = Some ''enrollment_revoked'' then
             (let d = d\<lparr>dm_state := (dm_state d)\<lparr>st_revoked := True\<rparr>\<rparr>;
                  (failed, d) = save_state env d
              in case failed of Some f \<Rightarrow> (Some (StoreFailure f), d)
                 | None \<Rightarrow> (Some PermanentlyStopped, cancel_all d))
           else if api_code e = Some ''invalid_authentication'' then
             (let d = d\<lparr>dm_state := (dm_state d)\<lparr>st_authentication_paused := True\<rparr>\<rparr>;
                  (failed, d) = save_state env d
              in case failed of Some f \<Rightarrow> (Some (StoreFailure f), d) | None \<Rightarrow> (Some e, d))
           else (Some e, d)))"

definition clearAuthenticationPause :: "daemon_env \<Rightarrow> daemon \<Rightarrow> daemon_error option \<times> daemon" where
  "clearAuthenticationPause env d =
     (if \<not> st_authentication_paused (dm_state d) then (None, d)
      else (let (failed, d) = save_state env (d\<lparr>dm_state := (dm_state d)\<lparr>st_authentication_paused := False\<rparr>\<rparr>)
            in (store_failed failed, d)))"

definition activeRunIDs :: "daemon \<Rightarrow> string list" where
  "activeRunIDs d = sort (dm_active d)"

section \<open>Heartbeats\<close>

record heartbeat =
  hb_generation :: nat
  hb_sent_at :: string
  hb_clock_offset_seconds :: int
  hb_protocol_revision :: string
  hb_revision :: nat
  hb_digest :: string
  hb_status :: string
  hb_error :: string
  hb_warnings :: "string list"
  hb_bytes_used :: nat
  hb_bytes_limit :: nat
  hb_gap_detected :: bool
  hb_active_runs :: "string list"

definition config_rejected :: "runtime_state \<Rightarrow> bool" where
  "config_rejected s =
     (st_last_config_error s \<noteq> [] \<and> 0 < st_rejected_config_revision s \<and> is_digest (st_rejected_config_digest s))"

definition heartbeat_of :: "time \<Rightarrow> nat \<Rightarrow> daemon \<Rightarrow> heartbeat" where
  "heartbeat_of now usage d =
     (let s = dm_state d; rejected = config_rejected s
      in \<lparr>hb_generation = bs_generation (dm_bootstrap d), hb_sent_at = protocolTimestamp now,
          hb_clock_offset_seconds = st_clock_offset_seconds s,
          hb_protocol_revision = cf_protocol_revision (dm_config d),
          hb_revision = (if rejected then st_rejected_config_revision s else cm_revision (dm_metadata d)),
          hb_digest = (if rejected then st_rejected_config_digest s else cm_digest (dm_metadata d)),
          hb_status = (if rejected then ''rejected'' else ''accepted''),
          hb_error = (if rejected then st_last_config_error s else []),
          hb_warnings = (if rejected then [] else cf_warnings (dm_config d)),
          hb_bytes_used = min usage SpoolBytesLimit, hb_bytes_limit = SpoolBytesLimit,
          hb_gap_detected = st_spool_gap_detected s, hb_active_runs = activeRunIDs d\<rparr>)"

text \<open>The answer to the heartbeat: \<open>sent\<close> is the state it was built from, and the gap is cleared only if the
  gap that was reported is still the last one.\<close>

definition heartbeat_answered :: "daemon_env \<Rightarrow> runtime_state \<Rightarrow> daemon_error option \<Rightarrow> daemon \<Rightarrow> daemon_error option \<times> daemon" where
  "heartbeat_answered env sent err d =
     (case err of Some e \<Rightarrow> handleRequestError env (Some e) d
      | None \<Rightarrow>
          (let acknowledged = (case dm_protocol d of None \<Rightarrow> False
                               | Some revision \<Rightarrow> protocolRevisionSupports revision ''1.12.0'')
           in if acknowledged \<and> st_spool_gap_detected sent \<and> st_spool_gap_detected (dm_state d)
                 \<and> st_spool_gap_version (dm_state d) = st_spool_gap_version sent
              then (let (failed, d) = save_state env (d\<lparr>dm_state := (dm_state d)\<lparr>st_spool_gap_detected := False\<rparr>\<rparr>)
                    in case failed of
                         Some f \<Rightarrow> (Some (StoreFailure f), d\<lparr>dm_state := (dm_state d)\<lparr>st_spool_gap_detected := True\<rparr>\<rparr>)
                       | None \<Rightarrow> clearAuthenticationPause env d)
              else clearAuthenticationPause env d))"

definition sendHeartbeat :: "daemon_env \<Rightarrow> daemon \<Rightarrow> heartbeat \<times> daemon_error option \<times> daemon" where
  "sendHeartbeat env d =
     (let sent = dm_state d; (now, d) = read_now env d;
          beat = heartbeat_of now (de_usage env (dm_tick d)) d; d = tick d
      in (beat, heartbeat_answered env sent (de_request env (dm_tick d)) (tick d)))"

end
