(* ===== verification/Operations.thy ===== *)
theory Operations
  imports MaintenanceState
begin

text \<open>
  The life of a command in the journal (agent/commands.go): accepting it from the control plane
  (with \<open>validateCommand\<close> of agent/client.go), starting its operation, progress, finishing with or
  without an execution, cancelling and discarding, and the commands that update the agent. Each
  definition is one critical section of \<open>daemon.mu\<close>, with every early return.
\<close>

section \<open>Commands of the control plane\<close>

fun distinct_digests :: "string list \<Rightarrow> bool" where
  "distinct_digests xs = all_new is_digest [] xs"

definition day :: int where
  "day = 24 * 3600 * 1000000000"

definition expiry_ok :: "agent_command \<Rightarrow> bool" where
  "expiry_ok c =
     (case (time_parse (ac_issued_at c), time_parse (ac_expires_at c)) of
        (Some issued, Some expires) \<Rightarrow> issued < expires \<and> expires - issued \<le> day
      | _ \<Rightarrow> False)"

text \<open>\<open>snapshots\<close> and \<open>points\<close> tell whether the payload has the members \<open>snapshot_ids\<close> and
  \<open>recovery_point_run_ids\<close> (a slice that is not nil), which an empty list does not show.\<close>

definition payload_ok :: "string \<Rightarrow> bool \<Rightarrow> bool \<Rightarrow> agent_command \<Rightarrow> bool" where
  "payload_ok protocol snapshots points c =
     (let p = ac_payload c
      in if ac_kind c = ''run_backup'' then
           is_ulid (cp_job_id p) \<and> cp_required_config_revision p \<noteq> 0 \<and> cp_run_id p = []
           \<and> cp_maintenance p = [] \<and> \<not> snapshots
         else if ac_kind c = ''run_maintenance'' then
           is_ulid (cp_job_id p) \<and> cp_required_config_revision p \<noteq> 0 \<and> cp_run_id p = []
           \<and> cp_maintenance p \<in> set [''forget'', ''prune'', ''check_metadata'', ''check_data'', ''snapshot_inventory'']
           \<and> (\<not> snapshots \<or> (cp_maintenance p = ''forget'' \<and> protocolRevisionSupports protocol ''1.5.0''
                \<and> cp_snapshot_ids p \<noteq> [] \<and> length (cp_snapshot_ids p) \<le> 1000
                \<and> distinct_digests (cp_snapshot_ids p)))
         else if ac_kind c = ''sync_replica'' then
           protocolRevisionSupports protocol ''1.9.0'' \<and> is_ulid (cp_job_id p)
           \<and> repository_key_ok (cp_repository_key p) \<and> cp_required_config_revision p \<noteq> 0
           \<and> cp_run_id p = [] \<and> cp_maintenance p = [] \<and> \<not> snapshots \<and> \<not> points
           \<and> cp_maintenance_plan p = None \<and> cp_retry_of_run_id p = [] \<and> cp_type p = [] \<and> cp_source p = []
           \<and> cp_source_digest p = [] \<and> cp_target_version p = []
         else if ac_kind c = ''cancel_run'' then
           is_ulid (cp_job_id p) \<and> is_ulid (cp_run_id p) \<and> cp_required_config_revision p = 0
           \<and> cp_maintenance p = [] \<and> \<not> snapshots
         else if ac_kind c = ''inspect_source'' then
           isSupportedJobType (cp_type p) \<and> protocolRevisionSupports protocol (jobTypeIntroducedIn (cp_type p))
           \<and> cp_source p \<noteq> [] \<and> is_digest (cp_source_digest p) \<and> cp_job_id p = [] \<and> cp_run_id p = []
           \<and> cp_required_config_revision p = 0 \<and> cp_maintenance p = [] \<and> \<not> snapshots
         else if ac_kind c = ''update_agent'' then
           protocolRevisionSupports protocol ''1.10.0'' \<and> revision_numbers (cp_target_version p) \<noteq> None
           \<and> cp_job_id p = [] \<and> cp_run_id p = [] \<and> cp_required_config_revision p = 0 \<and> cp_maintenance p = []
           \<and> \<not> snapshots \<and> cp_source p = [] \<and> cp_source_digest p = []
         else False)"

definition validateCommand :: "nat \<Rightarrow> string \<Rightarrow> bool \<Rightarrow> bool \<Rightarrow> agent_command \<Rightarrow> bool" where
  "validateCommand generation protocol snapshots points c =
     (is_ulid (ac_id c) \<and> ac_generation c = generation \<and> validateTimestamp (ac_issued_at c)
      \<and> validateTimestamp (ac_expires_at c) \<and> expiry_ok c \<and> payload_ok protocol snapshots points c)"

text \<open>Two commands are the same when their JSON is: the members of the source are sorted there.\<close>

definition sameCommand :: "agent_command \<Rightarrow> agent_command \<Rightarrow> bool" where
  "sameCommand a b =
     (let sorted = (\<lambda>c. c\<lparr>ac_payload := (ac_payload c)\<lparr>cp_source := sort_key fst (cp_source (ac_payload c))\<rparr>\<rparr>)
      in sorted a = sorted b)"

definition new_run_kinds :: "string list" where
  "new_run_kinds = [''run_backup'', ''run_maintenance'', ''inspect_source'', ''sync_replica'', ''update_agent'']"

definition received_kind :: "agent_command \<Rightarrow> string" where
  "received_kind c =
     (if ac_kind c = ''run_backup'' then ''backup'' else if ac_kind c = ''inspect_source'' then ''inspection''
      else if ac_kind c = ''sync_replica'' then ''replica_sync''
      else if ac_kind c = ''update_agent'' then ''agent_update'' else cp_maintenance (ac_payload c))"

definition zero_journal_command :: "agent_command \<Rightarrow> journal_command" where
  "zero_journal_command c =
     \<lparr>jc_command = c, jc_run_id = [], jc_config_revision = 0, jc_run_kind = [], jc_trigger = [],
      jc_scheduled_for = [], jc_job_snapshot = NoSnapshot, jc_received_at = [], jc_acknowledged = False,
      jc_state = [], jc_sequence = 0, jc_events = [], jc_result = None, jc_update_result = None,
      jc_result_reported = False, jc_log_id = [], jc_log_bytes = 0, jc_log_sha256 = [],
      jc_log_truncated = False, jc_log_dropped_bytes = 0, jc_next_log_chunk = 0, jc_log_completed = False,
      jc_maintenance_plan = None, jc_wait_for_backup = False, jc_max_deferral_at = [],
      jc_catch_up_backup = False, jc_replication_pending = [], jc_replication_retry_at = []\<rparr>"

definition received_command :: "agent_command \<Rightarrow> string \<Rightarrow> time \<Rightarrow> journal_command" where
  "received_command c run_id now =
     (zero_journal_command c)\<lparr>jc_run_id := run_id, jc_run_kind := received_kind c,
        jc_config_revision := cp_required_config_revision (ac_payload c), jc_trigger := ''manual'',
        jc_received_at := protocolTimestamp now, jc_state := ''received'',
        jc_maintenance_plan := cp_maintenance_plan (ac_payload c)\<rparr>"

definition set_update :: "agent_update_runtime option \<Rightarrow> daemon \<Rightarrow> daemon" where
  "set_update u d = d\<lparr>dm_state := (dm_state d)\<lparr>st_agent_update := u\<rparr>\<rparr>"

text \<open>The part of \<open>receiveCommand\<close> after the command is on disk, which marks an update as pending.\<close>

definition note_update :: "daemon_env \<Rightarrow> agent_command \<Rightarrow> string \<Rightarrow> daemon \<Rightarrow> daemon_error option \<times> daemon" where
  "note_update env c run_id d =
     (let previous = st_agent_update (dm_state d);
          (now, d) = read_now env d;
          d = set_update (Some \<lparr>au_command_id = ac_id c, au_run_id = run_id,
                au_target_version = cp_target_version (ac_payload c), au_started_at = protocolTimestamp now,
                au_last_schedule_minute = protocolTimestamp (dm_last_minute d)\<rparr>) d;
          (failed, d) = save_state env d
      in case failed of
           Some f \<Rightarrow> (Some (StoreFailure f), snd (save_journal env (drop_command (ac_id c) (set_update previous d))))
         | None \<Rightarrow> (None, d))"

definition receive_run_id :: "daemon_env \<Rightarrow> agent_command \<Rightarrow> daemon \<Rightarrow> string option \<times> daemon" where
  "receive_run_id env c d =
     (if ac_kind c \<in> set new_run_kinds then draw_ulid env d else (Some (cp_run_id (ac_payload c)), d))"

definition receiveCommand :: "daemon_env \<Rightarrow> agent_command \<Rightarrow> daemon \<Rightarrow> daemon_error option \<times> daemon" where
  "receiveCommand env c d =
     (case command d (ac_id c) of
        Some existing \<Rightarrow> (if sameCommand (jc_command existing) c then None else Some CommandChanged, d)
      | None \<Rightarrow>
          (case receive_run_id env c d of
             (None, d) \<Rightarrow> (Some RandomFailure, d)
           | (Some run_id, d) \<Rightarrow>
               (let (now, d) = read_now env d;
                    (failed, d) = save_journal env (put_command (ac_id c) (received_command c run_id now) d)
                in case failed of
                     Some f \<Rightarrow> (Some (StoreFailure f), drop_command (ac_id c) d)
                   | None \<Rightarrow>
                       if ac_kind c = ''update_agent'' then note_update env c run_id d else (None, d))))"

section \<open>Starting an operation\<close>

definition criticalRunRecordEstimate :: nat where
  "criticalRunRecordEstimate = 65536"

definition hasPendingReplicationLocked :: "string \<Rightarrow> daemon \<Rightarrow> bool" where
  "hasPendingReplicationLocked job_id d =
     list_ex (\<lambda>(i, c). jc_replication_pending c \<noteq> []
       \<and> (case jc_result c of None \<Rightarrow> False | Some r \<Rightarrow> cr_job_id r = job_id)) (dm_journal d)"

definition operation_repositories :: "job \<Rightarrow> string \<Rightarrow> string list" where
  "operation_repositories j kind =
     rp_id (jb_repository j) # (if kind = ''backup'' then [] else map rp_id (jb_replicas j))"

definition capacity_reached :: "daemon \<Rightarrow> string \<Rightarrow> bool" where
  "capacity_reached d kind =
     (case activeCountsLocked d of (backups, maintenance) \<Rightarrow>
        if kind = ''backup'' then 2 \<le> backups else 1 \<le> maintenance)"

definition operation_blocked :: "daemon \<Rightarrow> job \<Rightarrow> string \<Rightarrow> bool" where
  "operation_blocked d j kind =
     ((kind \<noteq> ''backup'' \<and> (jb_id j \<in> set (dm_replication d) \<or> hasPendingReplicationLocked (jb_id j) d))
      \<or> capacity_reached d kind
      \<or> list_ex (\<lambda>r. r \<in> set (dm_repositories d)) (operation_repositories j kind))"

text \<open>What a maintenance operation is prepared with, and the runtime state that is saved for it.\<close>

definition prepare_operation ::
  "daemon_env \<Rightarrow> string \<Rightarrow> job \<Rightarrow> journal_command \<Rightarrow> daemon \<Rightarrow> (store_error option \<times> job \<times> journal_command) \<times> daemon" where
  "prepare_operation env cid j c d =
     (if jc_run_kind c = ''backup'' then ((None, j, c), d)
      else (let (j, c, d) = prepareMaintenanceLocked env j c d;
                (failed, d) = save_state env (put_command cid c d)
            in ((failed, j, c), d)))"

definition skew_event :: "daemon_env \<Rightarrow> journal_command \<Rightarrow> daemon \<Rightarrow> journal_command \<times> daemon" where
  "skew_event env c d =
     (let offset = st_clock_offset_seconds (dm_state d)
      in if 300 < \<bar>offset\<bar>
         then snd (emit_now env ''clock_skew''
                [(''offset_seconds'', JNum ((if offset < 0 then ''-'' else []) @ show_nat (nat \<bar>offset\<bar>)))] c d)
         else (c, d))"

definition operation_task :: "string \<Rightarrow> job \<Rightarrow> journal_command \<Rightarrow> daemon_task" where
  "operation_task cid j c =
     (if jc_run_kind c = ''backup'' then BackupTask cid (jc_run_id c) j
      else MaintenanceTask cid (jc_run_id c) j (jc_maintenance_plan c))"

definition occupy :: "string \<Rightarrow> job \<Rightarrow> journal_command \<Rightarrow> daemon \<Rightarrow> daemon" where
  "occupy cid j c d =
     d\<lparr>dm_active := List.insert (jc_run_id c) (dm_active d),
       dm_kinds := mput (jc_run_id c) (jc_run_kind c) (dm_kinds d),
       dm_repositories := fold List.insert (operation_repositories j (jc_run_kind c)) (dm_repositories d),
       dm_tasks := operation_task cid j c # dm_tasks d\<rparr>"

text \<open>From the running state on: the events, the journal on disk, and only then the goroutine. A save that
  fails takes back the state, the sequence and the events.\<close>

definition launch_operation ::
  "daemon_env \<Rightarrow> string \<Rightarrow> job \<Rightarrow> journal_command \<Rightarrow> daemon \<Rightarrow> daemon_error option \<times> daemon" where
  "launch_operation env cid j c d =
     (let sequence = jc_sequence c; events = jc_events c;
          (started, c, d) = emit_now env ''run_started'' [] (c\<lparr>jc_state := ''running''\<rparr>) d
      in if \<not> started then (Some RandomFailure, put_command cid c d)
         else
           (let (c, d) = skew_event env c d;
                (failed, d) = save_journal env (put_command cid c d)
            in case failed of
                 Some f \<Rightarrow>
                   (Some (StoreFailure f),
                    put_command cid (c\<lparr>jc_state := ''received'', jc_sequence := sequence, jc_events := events\<rparr>) d)
               | None \<Rightarrow> (None, occupy cid j c d)))"

definition begin_operation ::
  "daemon_env \<Rightarrow> string \<Rightarrow> job \<Rightarrow> journal_command \<Rightarrow> daemon \<Rightarrow> daemon_error option \<times> daemon" where
  "begin_operation env cid j c d =
     (if jc_job_snapshot c \<noteq> NoSnapshot then launch_operation env cid j c d
      else
        (let c = c\<lparr>jc_config_revision := cp_required_config_revision (ac_payload (jc_command c))\<rparr>
         in case encodeJobSnapshot j of
              None \<Rightarrow> (Some SnapshotEncodingFailure, put_command cid c d)
            | Some snapshot \<Rightarrow> launch_operation env cid j (c\<lparr>jc_job_snapshot := snapshot\<rparr>) d))"

definition with_kind :: "journal_command \<Rightarrow> journal_command" where
  "with_kind c = (if jc_run_kind c = [] then c\<lparr>jc_run_kind := ''backup''\<rparr> else c)"

definition startOperation :: "daemon_env \<Rightarrow> string \<Rightarrow> job \<Rightarrow> daemon \<Rightarrow> daemon_error option \<times> daemon" where
  "startOperation env cid j d =
     (let (room, d) = can_accept env criticalRunRecordEstimate d
      in if \<not> room \<or> updating d then (None, d)
         else (case command d cid of
                 None \<Rightarrow> (None, d)
               | Some c \<Rightarrow>
                   if jc_state c \<noteq> ''received'' then (None, d)
                   else
                     (let c = with_kind c; d = put_command cid c d
                      in if operation_blocked d j (jc_run_kind c) then (None, d)
                         else (case prepare_operation env cid j c d of
                                 ((Some f, _, _), d) \<Rightarrow> (Some (StoreFailure f), d)
                               | ((None, j, c), d) \<Rightarrow> begin_operation env cid j c d))))"

end
