(* ===== verification/Finishing.thy ===== *)
theory Finishing
  imports Operations
begin

text \<open>
  How the operations of the daemon end (agent/commands.go): progress, the plan a maintenance run saves,
  the result of a run, an end without execution, cancellation, expired commands, and the agent update
  that is handed to the helper and comes back as its result.
\<close>

section \<open>While it runs\<close>

definition artifact_payload :: "backup_artifact \<Rightarrow> nat \<Rightarrow> nat \<Rightarrow> payload_map" where
  "artifact_payload a completed databases =
     [(''database_snapshot'', json_of_artifact a), (''databases_completed'', json_nat completed),
      (''databases_total'', json_nat databases)]"

definition databaseBackupProgress ::
  "daemon_env \<Rightarrow> string \<Rightarrow> backup_artifact \<Rightarrow> nat \<Rightarrow> nat \<Rightarrow> daemon \<Rightarrow> daemon" where
  "databaseBackupProgress env cid a completed databases d =
     (if dm_protocol d = None \<or> \<not> supports d ''1.6.0'' then d
      else (case command d cid of
              None \<Rightarrow> d
            | Some c \<Rightarrow>
                if jc_state c \<noteq> ''running'' then d
                else
                  (let (u, d) = draw_ulid env d
                   in case u of
                        None \<Rightarrow> d
                      | Some event_id \<Rightarrow>
                          (let (now, d) = read_now env d;
                               (failed, d) = save_journal env (put_command cid
                                 (add_event event_id (protocolTimestamp now) ''run_progress''
                                   (artifact_payload a completed databases) (next_sequence c)) d)
                           in case failed of
                                None \<Rightarrow> d
                              | Some f \<Rightarrow> (let d = put_command cid c d
                                          in if f = SpoolCapacity then cancel_all d else d)))))"

definition persistPlan :: "daemon_env \<Rightarrow> string \<Rightarrow> maintenance_plan \<Rightarrow> daemon \<Rightarrow> daemon_error option \<times> daemon" where
  "persistPlan env cid plan d =
     (case command d cid of
        None \<Rightarrow> (None, d)
      | Some c \<Rightarrow>
          (let (failed, d) = save_journal env (put_command cid (c\<lparr>jc_maintenance_plan := Some plan\<rparr>) d)
           in (store_failed failed, d)))"

section \<open>The end of a run\<close>

text \<open>What the selected protocol revision does not know is left out of a result.\<close>

definition for_protocol :: "daemon \<Rightarrow> command_result \<Rightarrow> command_result" where
  "for_protocol d r =
     (let r = (if supports d ''1.2.0'' then r else r\<lparr>cr_snapshot_evidence := None, cr_snapshot_evidence_ids := []\<rparr>)
      in if supports d ''1.4.0'' then r
         else r\<lparr>cr_statistics := map_option (mdel ''prune_status'') (cr_statistics r)\<rparr>)"

text \<open>The identity of the log that was written, or why there is none.\<close>

definition write_log :: "daemon_env \<Rightarrow> string \<Rightarrow> daemon \<Rightarrow> (daemon_error + string) \<times> daemon" where
  "write_log env log d =
     (case draw_ulid env d of
        (None, d) \<Rightarrow> (Inl RandomFailure, d)
      | (Some log_id, d) \<Rightarrow>
          (let (failed, d) = write_run_log env log_id log d
           in (case failed of Some f \<Rightarrow> Inl (StoreFailure f) | None \<Rightarrow> Inr log_id, d)))"

definition release_run :: "string \<Rightarrow> job \<Rightarrow> daemon \<Rightarrow> daemon" where
  "release_run rid j d =
     d\<lparr>dm_active := removeAll rid (dm_active d), dm_kinds := mdel rid (dm_kinds d),
       dm_repositories := fold removeAll (rp_id (jb_repository j) # map rp_id (jb_replicas j)) (dm_repositories d)\<rparr>"

definition finished_command :: "job \<Rightarrow> command_result \<Rightarrow> journal_command \<Rightarrow> journal_command" where
  "finished_command j r c =
     (let c = c\<lparr>jc_state := ''finished'', jc_result := Some r\<rparr>
      in if cr_run_kind r = ''backup'' \<and> (cr_status r = ''complete'' \<or> cr_status r = ''partial'')
            \<and> cr_snapshot_ids r \<noteq> [] \<and> jb_replicas j \<noteq> []
         then c\<lparr>jc_replication_pending := map rp_key (jb_replicas j)\<rparr> else c)"

definition log_reference ::
  "daemon_env \<Rightarrow> command_result \<Rightarrow> daemon_error + string \<Rightarrow> string \<Rightarrow> bool \<Rightarrow> nat \<Rightarrow> journal_command \<Rightarrow> daemon \<Rightarrow>
   journal_command \<times> daemon" where
  "log_reference env r logged log truncated dropped c d =
     (case logged of
        Inr log_id \<Rightarrow>
          (c\<lparr>jc_log_id := log_id, jc_log_bytes := length log, jc_log_sha256 := sha256_hex log,
             jc_log_truncated := truncated, jc_log_dropped_bytes := dropped\<rparr>, d)
      | Inl e \<Rightarrow>
          (let (ok, c, d) = emit env (cr_finished_at r) ''reporting_gap''
                 [(''reason'', JStr (if e = StoreFailure SpoolCapacity then ''spool_pressure'' else ''log_unavailable'')),
                  (''dropped_event_count'', json_nat 0),
                  (''dropped_log_bytes'', json_uint64 (int (length log + dropped)))] c d
           in (c, snd (save_state env (markSpoolGapLocked d)))))"

text \<open>The journal after a run: a full disk cancels every run that is left and the save is tried again.\<close>

definition save_finished :: "daemon_env \<Rightarrow> daemon \<Rightarrow> daemon" where
  "save_finished env d =
     (let (failed, d) = save_journal env d
      in if failed = Some SpoolCapacity then snd (save_journal env (cancel_all d)) else d)"

text \<open>What \<open>finishOperation\<close> does after it released the lock.\<close>

record follow_up =
  fu_replicate :: bool
  fu_release_maintenance :: bool
  fu_release_catch_up :: bool
  fu_job_id :: string

definition follow_up_of :: "command_result \<Rightarrow> journal_command \<Rightarrow> follow_up" where
  "follow_up_of r c =
     (let replicate = (jc_replication_pending c \<noteq> [])
      in \<lparr>fu_replicate = replicate,
          fu_release_maintenance = (jc_trigger c = ''scheduled'' \<and> cr_run_kind r = ''backup''
            \<and> cr_status r = ''complete'' \<and> \<not> replicate),
          fu_release_catch_up = (cr_run_kind r \<noteq> ''backup''),
          fu_job_id = cp_job_id (ac_payload (jc_command c))\<rparr>)"

definition end_run ::
  "daemon_env \<Rightarrow> string \<Rightarrow> job \<Rightarrow> command_result \<Rightarrow> daemon_error + string \<Rightarrow> string \<Rightarrow> bool \<Rightarrow> nat \<Rightarrow>
   journal_command \<Rightarrow> daemon \<Rightarrow> journal_command \<times> daemon" where
  "end_run env cid j r logged log truncated dropped c d =
     (let (c, d) = appendSnapshotEvidenceEvents env r (finished_command j r c) d;
          (ok, c, d) = emit env (cr_finished_at r) ''run_finished'' (terminalEventPayload r) c d;
          c = c\<lparr>jc_result_reported := (jc_trigger c = ''scheduled'')\<rparr>;
          (c, d) = log_reference env r logged log truncated dropped c d
      in (c, save_finished env (recordOutcomeLocked env j r (put_command cid c d))))"

definition finish_locked ::
  "daemon_env \<Rightarrow> string \<Rightarrow> string \<Rightarrow> job \<Rightarrow> command_result \<Rightarrow> daemon_error + string \<Rightarrow> string \<Rightarrow> bool \<Rightarrow> nat \<Rightarrow>
   daemon \<Rightarrow> follow_up option \<times> daemon" where
  "finish_locked env cid rid j r logged log truncated dropped d =
     (let d = release_run rid j d
      in case command d cid of
           None \<Rightarrow> (None, d)
         | Some c \<Rightarrow>
             (let (c, d) = end_run env cid j r logged log truncated dropped c d in (Some (follow_up_of r c), d)))"

section \<open>An end without execution\<close>

definition sync_result_codes :: "string list" where
  "sync_result_codes = [''copy_failed'', ''cancelled'', ''timed_out'', ''execution_failed'']"

definition unexecuted_sync :: "nat \<Rightarrow> journal_command \<Rightarrow> string \<Rightarrow> string \<Rightarrow> string \<Rightarrow> command_result" where
  "unexecuted_sync generation c now code summary =
     (let code = (if code \<in> set sync_result_codes then code else ''execution_failed'')
      in zero_result\<lparr>cr_generation := generation, cr_run_id := jc_run_id c,
           cr_job_id := cp_job_id (ac_payload (jc_command c)),
           cr_repository_key := cp_repository_key (ac_payload (jc_command c)),
           cr_status := (if code = ''cancelled'' then ''cancelled'' else ''failed''), cr_result_code := code,
           cr_started_at := now, cr_finished_at := now, cr_summary := summary\<rparr>)"

definition unexecuted_result ::
  "nat \<Rightarrow> journal_command \<Rightarrow> string \<Rightarrow> string \<Rightarrow> string \<Rightarrow> string \<Rightarrow> command_result" where
  "unexecuted_result generation c now status code summary =
     zero_result\<lparr>cr_generation := generation, cr_run_id := jc_run_id c,
       cr_job_id := cp_job_id (ac_payload (jc_command c)), cr_run_kind := jc_run_kind c, cr_status := status,
       cr_result_code := code, cr_started_at := now, cr_finished_at := now, cr_summary := summary\<rparr>"

definition finishWithoutExecution ::
  "daemon_env \<Rightarrow> string \<Rightarrow> string \<Rightarrow> string \<Rightarrow> string \<Rightarrow> daemon \<Rightarrow> daemon_error option \<times> daemon" where
  "finishWithoutExecution env cid status code summary d =
     (case command d cid of
        None \<Rightarrow> (None, d)
      | Some c \<Rightarrow>
          (let (t, d) = read_now env d; now = protocolTimestamp t; generation = bs_generation (dm_bootstrap d);
               c = c\<lparr>jc_state := ''finished''\<rparr>
           in if ac_kind (jc_command c) = ''sync_replica'' then
                (let c = c\<lparr>jc_result := Some (unexecuted_sync generation c now code summary),
                           jc_result_reported := False\<rparr>;
                     (failed, d) = save_journal env (put_command cid c d)
                 in (store_failed failed, d))
              else
                (let r = unexecuted_result generation c now status code summary;
                     (ok, c, d) = emit env now ''run_finished'' (terminalEventPayload r) (c\<lparr>jc_result := Some r\<rparr>) d;
                     c = c\<lparr>jc_result_reported := (jc_trigger c = ''scheduled'')\<rparr>;
                     (failed, d) = save_journal env (put_command cid c d)
                 in (store_failed failed, d))))"

text \<open>A run with a cancel function is cancelled; otherwise its queued command ends. The command is the
  first one of the iteration.\<close>

definition queued_run :: "string \<Rightarrow> journal_command \<Rightarrow> bool" where
  "queued_run rid c =
     ((ac_kind (jc_command c) = ''run_backup'' \<or> ac_kind (jc_command c) = ''run_maintenance'')
      \<and> jc_run_id c = rid \<and> jc_state c = ''received'')"

definition cancelRun :: "daemon_env \<Rightarrow> string \<Rightarrow> daemon \<Rightarrow> daemon_error option \<times> daemon" where
  "cancelRun env rid d =
     (if rid \<in> set (dm_active d) then (None, d\<lparr>dm_cancelled := rid # dm_cancelled d\<rparr>)
      else (case find (\<lambda>(i, c). queued_run rid c) (dm_journal d) of
              None \<Rightarrow> (None, d)
            | Some (cid, c) \<Rightarrow>
                if cid = [] then (None, d)
                else finishWithoutExecution env cid ''cancelled'' ''cancelled''
                       ''The operation was cancelled before execution.'' d))"

text \<open>A save that fails puts the entry back, which makes the map what it was.\<close>

definition discardExpiredUnacknowledgedCommand ::
  "daemon_env \<Rightarrow> string \<Rightarrow> daemon \<Rightarrow> bool \<times> daemon_error option \<times> daemon" where
  "discardExpiredUnacknowledgedCommand env cid d =
     (case command d cid of
        None \<Rightarrow> (False, None, d)
      | Some c \<Rightarrow>
          if jc_acknowledged c \<or> jc_trigger c \<noteq> ''manual'' then (False, None, d)
          else (case time_parse (ac_expires_at (jc_command c)) of
                  None \<Rightarrow> (False, None, d)
                | Some expires \<Rightarrow>
                    (let (now, d) = read_now env d
                     in if now < expires then (False, None, d)
                        else
                          (let entries = dm_journal d; (failed, d) = save_journal env (drop_command cid d)
                           in case failed of
                                Some f \<Rightarrow> (False, Some (StoreFailure f), d\<lparr>dm_journal := entries\<rparr>)
                              | None \<Rightarrow>
                                  (case st_agent_update (dm_state d) of
                                     None \<Rightarrow> (True, None, d)
                                   | Some u \<Rightarrow>
                                       if au_command_id u \<noteq> cid then (True, None, d)
                                       else
                                         (let (failed, d) = save_state env (set_update None d)
                                          in case failed of Some f \<Rightarrow> (False, Some (StoreFailure f), d)
                                             | None \<Rightarrow> (True, None, d)))))))"

section \<open>Updates of the agent\<close>

record update_request =
  ur_command_id :: string
  ur_run_id :: string
  ur_generation :: nat
  ur_previous_version :: string
  ur_target_version :: string
  ur_started_at :: string

definition update_pending :: "journal_command \<Rightarrow> bool" where
  "update_pending c = (ac_kind (jc_command c) = ''update_agent'' \<and> jc_state c \<noteq> ''finished'')"

text \<open>The request is written after the lock was released; \<open>written\<close> is whether that succeeded, and
  \<open>started\<close> whether the helper could be started.\<close>

definition startAgentUpdate ::
  "daemon_env \<Rightarrow> daemon_error option \<Rightarrow> daemon_error option \<Rightarrow> string \<Rightarrow> daemon \<Rightarrow>
   daemon_error option \<times> update_request option \<times> daemon" where
  "startAgentUpdate env written started cid d =
     (case (command d cid, st_agent_update (dm_state d)) of
        (Some c, Some u) \<Rightarrow>
          if jc_state c \<noteq> ''received'' \<or> dm_active d \<noteq> [] \<or> dm_repositories d \<noteq> [] \<or> dm_replication d \<noteq> []
          then (None, None, d)
          else
            (let c' = c\<lparr>jc_state := ''running''\<rparr>;
                 request = \<lparr>ur_command_id = cid, ur_run_id = jc_run_id c,
                    ur_generation = bs_generation (dm_bootstrap d), ur_previous_version = dm_version d,
                    ur_target_version = cp_target_version (ac_payload (jc_command c)), ur_started_at = au_started_at u\<rparr>;
                 (failed, d) = save_journal env (put_command cid c' d)
             in case failed of
                  Some f \<Rightarrow> (Some (StoreFailure f), None, put_command cid c d)
                | None \<Rightarrow>
                    (case written of
                       Some e \<Rightarrow> (Some e, None, snd (save_journal env (put_command cid c d)))
                     | None \<Rightarrow> (started, Some request, d)))
      | _ \<Rightarrow> (None, None, d))"

definition result_known :: "agent_update_result \<Rightarrow> journal_command \<Rightarrow> bool" where
  "result_known r c =
     (case jc_update_result c of None \<Rightarrow> False
      | Some u \<Rightarrow> ar_run_id u = ar_run_id r \<and> ar_target_version u = ar_target_version r)"

text \<open>What the result file held; the first component of the outcome tells whether it is removed.\<close>

definition consumeAgentUpdateResult ::
  "daemon_env \<Rightarrow> daemon_error + agent_update_result option \<Rightarrow> daemon \<Rightarrow> bool \<times> daemon_error option \<times> daemon" where
  "consumeAgentUpdateResult env found d =
     (case found of
        Inl e \<Rightarrow> (False, Some e, d)
      | Inr None \<Rightarrow> (False, None, d)
      | Inr (Some r) \<Rightarrow>
          (case st_agent_update (dm_state d) of
             None \<Rightarrow> if list_ex (\<lambda>(i, c). result_known r c) (dm_journal d) then (True, None, d)
                     else (False, Some UpdaterFailure, d)
           | Some u \<Rightarrow>
               if ar_generation r \<noteq> bs_generation (dm_bootstrap d) \<or> ar_run_id r \<noteq> au_run_id u
                  \<or> ar_target_version r \<noteq> au_target_version u
               then (False, Some UpdaterFailure, d)
               else (case command d (au_command_id u) of
                       None \<Rightarrow> (False, Some UpdaterFailure, d)
                     | Some c \<Rightarrow>
                         if ac_kind (jc_command c) \<noteq> ''update_agent'' then (False, Some UpdaterFailure, d)
                         else
                           (let c = c\<lparr>jc_state := ''finished'', jc_update_result := Some r,
                                      jc_result_reported := False\<rparr>;
                                (failed, d) = save_journal env (set_update None (put_command (au_command_id u) c d))
                            in case failed of
                                 Some f \<Rightarrow> (False, Some (StoreFailure f), d)
                               | None \<Rightarrow>
                                   (let (failed, d) = save_state env d
                                    in case failed of Some f \<Rightarrow> (False, Some (StoreFailure f), d)
                                       | None \<Rightarrow> (True, None, d))))))"

definition restored_update :: "string \<Rightarrow> journal_command \<Rightarrow> agent_update_runtime option \<Rightarrow> agent_update_runtime" where
  "restored_update cid c cur =
     \<lparr>au_command_id = cid, au_run_id = jc_run_id c,
      au_target_version = cp_target_version (ac_payload (jc_command c)),
      au_started_at = (case cur of None \<Rightarrow> jc_received_at c
        | Some u \<Rightarrow> if au_command_id u = cid \<and> au_started_at u \<noteq> [] then au_started_at u else jc_received_at c),
      au_last_schedule_minute = (case cur of None \<Rightarrow> [] | Some u \<Rightarrow> au_last_schedule_minute u)\<rparr>"

definition restored_command :: "daemon \<Rightarrow> string list \<Rightarrow> string" where
  "restored_command d ids =
     (case st_agent_update (dm_state d) of
        None \<Rightarrow> hd ids
      | Some u \<Rightarrow> (case command d (au_command_id u) of
                    Some c \<Rightarrow> if update_pending c then au_command_id u else hd ids
                  | None \<Rightarrow> hd ids))"

definition restoreAgentUpdateState :: "daemon_env \<Rightarrow> daemon \<Rightarrow> daemon_error option \<times> daemon" where
  "restoreAgentUpdateState env d =
     (let ids = sort (map fst (filter (\<lambda>(i, c). update_pending c) (dm_journal d)));
          cur = st_agent_update (dm_state d)
      in if ids = [] then
           (if cur = None then (None, d)
            else (let (failed, d) = save_state env (set_update None d) in (store_failed failed, d)))
         else
           (let cid = restored_command d ids;
                u = restored_update cid (the (command d cid)) cur;
                d = set_update (Some u) d;
                d = (if au_last_schedule_minute u \<noteq> [] then
                       (case time_parse (au_last_schedule_minute u) of
                          None \<Rightarrow> d | Some minute \<Rightarrow> d\<lparr>dm_last_minute := minute\<rparr>)
                     else d)
            in if cur = Some u then (None, d)
               else (let (failed, d) = save_state env d in (store_failed failed, d))))"

definition jobless_cancellation :: "journal_command \<Rightarrow> bool" where
  "jobless_cancellation c =
     (cp_job_id (ac_payload (jc_command c)) = []
      \<and> list_ex (\<lambda>e. ev_kind e = ''run_finished'' \<and> ev_job_id e = []) (jc_events c))"

definition discardJoblessCancellations :: "daemon_env \<Rightarrow> daemon \<Rightarrow> daemon_error option \<times> daemon" where
  "discardJoblessCancellations env d =
     (if \<not> list_ex (\<lambda>(i, c). jobless_cancellation c) (dm_journal d) then (None, d)
      else
        (let (failed, d) = save_journal env
               (d\<lparr>dm_journal := filter (\<lambda>(i, c). \<not> jobless_cancellation c) (dm_journal d)\<rparr>)
         in (store_failed failed, d)))"

end
