(* ===== verification/Scheduler.thy ===== *)
theory Scheduler
  imports Finishing
begin

text \<open>
  The scheduler (agent/scheduler.go) and what it shares with the command handlers: a new configuration
  (agent/daemon.go), the job a command runs with, the choice of the next deferred maintenance operation
  and of the next backup that catches up, occurrences that are refused, and the handler that runs every
  second.
\<close>

section \<open>Configuration\<close>

fun finish_withdrawn :: "daemon_env \<Rightarrow> string list \<Rightarrow> daemon \<Rightarrow> daemon_error option \<times> daemon" where
  "finish_withdrawn env [] d = (None, d)"
| "finish_withdrawn env (i # is) d =
     (case finishWithoutExecution env i ''cancelled'' ''cancelled''
             ''The queued operation was cancelled by the accepted job configuration.'' d of
        (Some e, d) \<Rightarrow> (Some e, d)
      | (None, d) \<Rightarrow> finish_withdrawn env is d)"

definition apply_config :: "config_metadata \<Rightarrow> config \<Rightarrow> daemon \<Rightarrow> string list \<times> string list \<times> daemon" where
  "apply_config m cf d =
     (let (cancelled, queued, d) = acceptMaintenanceConfigLocked cf d
      in (cancelled, queued, d\<lparr>dm_metadata := m, dm_config := cf\<rparr>))"

definition cancel_runs :: "string list \<Rightarrow> daemon \<Rightarrow> daemon" where
  "cancel_runs rids d = d\<lparr>dm_cancelled := rids @ dm_cancelled d\<rparr>"

definition reloadLocalConfig :: "daemon_env \<Rightarrow> daemon \<Rightarrow> daemon_error option \<times> daemon" where
  "reloadLocalConfig env d =
     (case (de_load env (dm_tick d), tick d) of
        (ConfigFile m cf, d) \<Rightarrow>
          if cm_file_digest m = cm_file_digest (dm_metadata d) then (None, d)
          else (let (cancelled, queued, d) = apply_config m cf d in finish_withdrawn env queued (cancel_runs cancelled d))
      | (_, d) \<Rightarrow> (None, d))"

definition set_config_error :: "string \<Rightarrow> daemon \<Rightarrow> daemon" where
  "set_config_error e d = d\<lparr>dm_state := (dm_state d)\<lparr>st_last_config_error := e\<rparr>\<rparr>"

definition set_rejected :: "nat \<Rightarrow> string \<Rightarrow> daemon \<Rightarrow> daemon" where
  "set_rejected revision digest d =
     d\<lparr>dm_state := (dm_state d)\<lparr>st_rejected_config_revision := revision, st_rejected_config_digest := digest\<rparr>\<rparr>"

definition config_accepted :: "daemon \<Rightarrow> daemon" where
  "config_accepted d =
     d\<lparr>dm_state := (dm_state d)\<lparr>st_last_config_error := [], st_rejected_config_revision := 0,
         st_rejected_config_digest := [], st_authentication_paused := False\<rparr>\<rparr>"

definition refreshConfig :: "daemon_env \<Rightarrow> daemon \<Rightarrow> daemon_error option \<times> daemon" where
  "refreshConfig env d =
     (let answer = de_fetch env (dm_tick d); d = tick d
      in case answer of
           FetchFailed e \<Rightarrow> handleRequestError env (Some e) d
         | FetchInvalid m text e \<Rightarrow>
             (let (failed, d) = save_state env (set_config_error text (set_rejected (cm_revision m) (cm_digest m) d))
              in case failed of Some f \<Rightarrow> (Some (StoreFailure f), d) | None \<Rightarrow> handleRequestError env (Some e) d)
         | NotModified \<Rightarrow> clearAuthenticationPause env d
         | FetchUnchanged \<Rightarrow> clearAuthenticationPause env d
         | FetchRefused text e \<Rightarrow>
             (let (failed, d) = save_state env (set_config_error text d)
              in case failed of Some f \<Rightarrow> (Some (StoreFailure f), d) | None \<Rightarrow> (Some e, d))
         | FetchUndecodable e \<Rightarrow> (Some e, d)
         | Fetched m cf \<Rightarrow>
             (let (cancelled, queued, d) = apply_config m cf d;
                  (failed, d) = save_state env (config_accepted d)
              in case failed of Some f \<Rightarrow> (Some (StoreFailure f), d)
                 | None \<Rightarrow> finish_withdrawn env queued (cancel_runs cancelled d)))"

section \<open>The job of a command\<close>

text \<open>No job yet (the configuration is too old), or what the configuration says of it.\<close>

datatype found_job = NotReady | NoJob | FoundJob job

definition find_job :: "string \<Rightarrow> config \<Rightarrow> found_job" where
  "find_job job_id cf =
     (case find (\<lambda>j. jb_id j = job_id) (cf_jobs cf) of None \<Rightarrow> NoJob | Some j \<Rightarrow> FoundJob j)"

definition configuredJob :: "daemon_env \<Rightarrow> string \<Rightarrow> nat \<Rightarrow> daemon \<Rightarrow> (daemon_error + found_job) \<times> daemon" where
  "configuredJob env job_id required d =
     (let (refreshed, d) = (if cm_revision (dm_metadata d) < required then refreshConfig env d else (None, d))
      in case refreshed of
           Some e \<Rightarrow> (Inl e, d)
         | None \<Rightarrow>
             ((case de_load env (dm_tick d) of
                 ConfigUnreadable \<Rightarrow> Inl ConfigFailure
               | ConfigUndecodable m \<Rightarrow> if cm_revision m < required then Inr NotReady else Inl ConfigFailure
               | ConfigFile m cf \<Rightarrow> if cm_revision m < required then Inr NotReady else Inr (find_job job_id cf)),
              tick d))"

definition jobForExecution :: "daemon_env \<Rightarrow> journal_command \<Rightarrow> daemon \<Rightarrow> (daemon_error + found_job) \<times> daemon" where
  "jobForExecution env c d =
     (if jc_job_snapshot c \<noteq> NoSnapshot
      then (map_sum id FoundJob (decodeJobSnapshot (de_cron env) (jc_job_snapshot c)), d)
      else configuredJob env (cp_job_id (ac_payload (jc_command c)))
             (cp_required_config_revision (ac_payload (jc_command c))) d)"

definition job_missing :: "daemon_env \<Rightarrow> string \<Rightarrow> daemon \<Rightarrow> daemon_error option \<times> daemon" where
  "job_missing env cid d =
     finishWithoutExecution env cid ''skipped'' ''config_unavailable''
       ''The required job configuration is unavailable.'' d"

definition start_with_job ::
  "daemon_env \<Rightarrow> string \<Rightarrow> (daemon_error + found_job) \<times> daemon \<Rightarrow> daemon_error option \<times> daemon" where
  "start_with_job env cid found =
     (case found of
        (Inl e, d) \<Rightarrow> (Some e, d)
      | (Inr NotReady, d) \<Rightarrow> (None, d)
      | (Inr NoJob, d) \<Rightarrow> job_missing env cid d
      | (Inr (FoundJob j), d) \<Rightarrow> if \<not> jb_enabled j then job_missing env cid d else startOperation env cid j d)"

section \<open>Queued operations\<close>

definition hasQueuedScheduledOperation :: "string \<Rightarrow> string \<Rightarrow> bool \<Rightarrow> daemon \<Rightarrow> bool" where
  "hasQueuedScheduledOperation job_id kind catch_up d =
     list_ex (\<lambda>(i, c). jc_state c = ''received'' \<and> jc_trigger c = ''scheduled''
       \<and> cp_job_id (ac_payload (jc_command c)) = job_id \<and> jc_run_kind c = kind
       \<and> (\<not> catch_up \<or> jc_catch_up_backup c)) (dm_journal d)"

definition hasActiveMaintenance :: "string \<Rightarrow> daemon \<Rightarrow> bool" where
  "hasActiveMaintenance job_id d =
     list_ex (\<lambda>(i, c). jc_state c = ''running'' \<and> jc_run_kind c \<noteq> ''backup''
       \<and> cp_job_id (ac_payload (jc_command c)) = job_id) (dm_journal d)"

definition hasActiveReplication :: "string \<Rightarrow> daemon \<Rightarrow> bool" where
  "hasActiveReplication job_id d = (job_id \<in> set (dm_replication d))"

definition maintenancePriority :: "string \<Rightarrow> nat" where
  "maintenancePriority kind =
     (if kind = ''snapshot_inventory'' then 0 else if kind = ''forget'' then 1
      else if kind = ''check_metadata'' then 2 else if kind = ''check_data'' then 3 else 4)"

definition deferred_candidate :: "time \<Rightarrow> string \<Rightarrow> bool \<Rightarrow> journal_command \<Rightarrow> bool" where
  "deferred_candidate now job_id expired c =
     (jc_state c = ''received'' \<and> jc_max_deferral_at c \<noteq> []
      \<and> (job_id = [] \<or> cp_job_id (ac_payload (jc_command c)) = job_id)
      \<and> (expired \<longrightarrow> (case time_parse (jc_max_deferral_at c) of None \<Rightarrow> False | Some t \<Rightarrow> t \<le> now)))"

text \<open>The loop keeps the best candidate so far; the first of two equal ones stays.\<close>

definition sooner_deferred :: "journal_command \<Rightarrow> journal_command \<Rightarrow> bool" where
  "sooner_deferred a b =
     (maintenancePriority (jc_run_kind a) < maintenancePriority (jc_run_kind b)
      \<or> (maintenancePriority (jc_run_kind a) = maintenancePriority (jc_run_kind b)
         \<and> jc_scheduled_for a < jc_scheduled_for b))"

fun best :: "('a \<Rightarrow> 'a \<Rightarrow> bool) \<Rightarrow> 'a option \<Rightarrow> 'a list \<Rightarrow> 'a option" where
  "best sooner cur [] = cur"
| "best sooner cur (x # xs) =
     best sooner (case cur of None \<Rightarrow> Some x | Some y \<Rightarrow> if sooner x y then Some x else Some y) xs"

definition next_deferred :: "time \<Rightarrow> string \<Rightarrow> bool \<Rightarrow> daemon \<Rightarrow> (string \<times> journal_command) option" where
  "next_deferred now job_id expired d =
     best (\<lambda>a b. sooner_deferred (snd a) (snd b)) None
       (filter (\<lambda>(i, c). deferred_candidate now job_id expired c) (dm_journal d))"

definition startNextDeferredMaintenance ::
  "daemon_env \<Rightarrow> string \<Rightarrow> bool \<Rightarrow> daemon \<Rightarrow> daemon_error option \<times> daemon" where
  "startNextDeferredMaintenance env job_id expired d =
     (if updating d then (None, d)
      else
        (let (now, d) = read_now env d
         in case next_deferred now job_id expired d of
              None \<Rightarrow> (None, d)
            | Some (cid, _) \<Rightarrow>
                (case command d cid of
                   None \<Rightarrow> (None, d)
                 | Some c \<Rightarrow>
                     (let c' = c\<lparr>jc_wait_for_backup := False\<rparr>;
                          (failed, d) = save_journal env (put_command cid c' d)
                      in case failed of
                           Some f \<Rightarrow> (Some (StoreFailure f), put_command cid c d)
                         | None \<Rightarrow> start_with_job env cid (jobForExecution env c' d)))))"

definition catch_up_candidate :: "string \<Rightarrow> journal_command \<Rightarrow> bool" where
  "catch_up_candidate job_id c =
     (jc_state c = ''received'' \<and> jc_catch_up_backup c \<and> cp_job_id (ac_payload (jc_command c)) = job_id)"

definition startCatchUpBackup :: "daemon_env \<Rightarrow> string \<Rightarrow> daemon \<Rightarrow> daemon_error option \<times> daemon" where
  "startCatchUpBackup env job_id d =
     (if updating d then (None, d)
      else (case best (\<lambda>a b. jc_scheduled_for (snd a) < jc_scheduled_for (snd b)) None
                   (filter (\<lambda>(i, c). catch_up_candidate job_id c) (dm_journal d)) of
              None \<Rightarrow> (None, d)
            | Some (cid, c) \<Rightarrow> start_with_job env cid (jobForExecution env c d)))"

section \<open>Occurrences\<close>

definition overlap_result :: "nat \<Rightarrow> journal_command \<Rightarrow> string \<Rightarrow> command_result" where
  "overlap_result generation c timestamp =
     zero_result\<lparr>cr_generation := generation, cr_run_id := jc_run_id c,
       cr_job_id := cp_job_id (ac_payload (jc_command c)), cr_run_kind := jc_run_kind c,
       cr_status := ''skipped'', cr_result_code := ''schedule_overlap'', cr_started_at := timestamp,
       cr_finished_at := timestamp,
       cr_summary := ''The scheduled operation was skipped because execution capacity was unavailable.''\<rparr>"

definition finishScheduledOverlap ::
  "daemon_env \<Rightarrow> time \<Rightarrow> journal_command \<Rightarrow> daemon \<Rightarrow> journal_command \<times> daemon" where
  "finishScheduledOverlap env now c d =
     (let timestamp = protocolTimestamp now;
          r = overlap_result (bs_generation (dm_bootstrap d)) c timestamp;
          c = c\<lparr>jc_state := ''finished'', jc_result_reported := True, jc_result := Some r, jc_sequence := 1\<rparr>
      in case draw_ulid_at env now d of
           (None, d) \<Rightarrow> (c, d)
         | (Some event_id, d) \<Rightarrow> (add_event event_id timestamp ''run_finished'' (terminalEventPayload r) c, d))"

definition skip_occurrence ::
  "daemon_env \<Rightarrow> string \<Rightarrow> string \<Rightarrow> string \<Rightarrow> runtime_state option \<Rightarrow> daemon \<Rightarrow> store_error option \<times> daemon" where
  "skip_occurrence env job_id kind scheduled st d =
     write_store env (\<lambda>db. Inr (recordSkippedOccurrence job_id kind scheduled st db)) d"

definition refuseOccurrenceForPressure ::
  "daemon_env \<Rightarrow> string \<Rightarrow> string \<Rightarrow> string \<Rightarrow> daemon \<Rightarrow> daemon_error option \<times> daemon" where
  "refuseOccurrenceForPressure env job_id kind scheduled d =
     (let next = dm_state (markSpoolGapLocked d);
          (failed, d) = skip_occurrence env job_id kind scheduled (Some next) d;
          (failed, d) = (if failed = Some SpoolCapacity
                         then skip_occurrence env job_id kind scheduled (Some next) d else (failed, d))
      in case failed of Some f \<Rightarrow> (Some (StoreFailure f), d) | None \<Rightarrow> (None, d\<lparr>dm_state := next\<rparr>))"

section \<open>The handler\<close>

record scheduled_operation =
  so_job :: job
  so_kind :: string
  so_expression :: string
  so_priority :: int
  so_deferred :: bool

definition maintenance_operations :: "job \<Rightarrow> scheduled_operation list" where
  "maintenance_operations j =
     (let op = (\<lambda>kind expression priority deferred.
            \<lparr>so_job = j, so_kind = kind, so_expression = expression, so_priority = priority,
             so_deferred = deferred\<rparr>)
      in if jm_strategy (jb_maintenance j) = ''after_scheduled_backup''
         then [op ''forget'' (jr_forget_cron (jb_retention j)) (-3) True,
               op ''check_metadata'' (ji_metadata_cron (jb_integrity j)) (-2) True,
               op ''check_data'' (ji_data_cron (jb_integrity j)) (-1) True]
         else [op ''forget'' (jr_forget_cron (jb_retention j)) 1 False,
               op ''prune'' (jr_prune_cron (jb_retention j)) 2 False,
               op ''check_metadata'' (ji_metadata_cron (jb_integrity j)) 3 False,
               op ''check_data'' (ji_data_cron (jb_integrity j)) 4 False])"

definition job_operations :: "job \<Rightarrow> scheduled_operation list" where
  "job_operations j =
     (if \<not> jb_enabled j then []
      else \<lparr>so_job = j, so_kind = ''backup'', so_expression = sh_expression (jb_schedule j), so_priority = 0,
             so_deferred = False\<rparr>
           # filter (\<lambda>o'. so_expression o' \<noteq> []) (maintenance_operations j))"

text \<open>By priority, then by the identity of the job: two stable sorts.\<close>

definition scheduled_operations :: "config \<Rightarrow> scheduled_operation list" where
  "scheduled_operations cf =
     sort_key so_priority (sort_key (\<lambda>o'. jb_id (so_job o')) (concat (map job_operations (cf_jobs cf))))"

definition scheduled_command ::
  "nat \<Rightarrow> nat \<Rightarrow> scheduled_operation \<Rightarrow> string \<Rightarrow> job_snapshot \<Rightarrow> string \<Rightarrow> time \<Rightarrow> time \<Rightarrow> journal_command" where
  "scheduled_command generation revision o' run_id snapshot scheduled minute now =
     (let payload = zero_payload\<lparr>cp_job_id := jb_id (so_job o'), cp_required_config_revision := revision,
            cp_maintenance := (if so_kind o' = ''backup'' then [] else so_kind o')\<rparr>;
          c = \<lparr>ac_id = run_id, ac_generation = generation, ac_kind = ''scheduled_'' @ so_kind o',
               ac_issued_at = scheduled, ac_expires_at = protocolTimestamp (minute + day), ac_payload = payload\<rparr>
      in (zero_journal_command c)
           \<lparr>jc_run_id := run_id, jc_run_kind := so_kind o', jc_config_revision := revision,
            jc_trigger := ''scheduled'', jc_scheduled_for := scheduled, jc_job_snapshot := snapshot,
            jc_received_at := protocolTimestamp now, jc_acknowledged := True, jc_state := ''received'',
            jc_wait_for_backup := so_deferred o',
            jc_max_deferral_at := (if so_deferred o' then protocolTimestamp (minute
              + int (jm_max_deferral_seconds (jb_maintenance (so_job o'))) * 1000000000) else [])\<rparr>)"

text \<open>What the loop carries: the repositories it takes for busy and the operations it counts.\<close>

record schedule_loop =
  sl_draining :: bool
  sl_previous :: time
  sl_minute :: time
  sl_now :: time
  sl_revision :: nat
  sl_busy :: "string list"
  sl_backups :: nat
  sl_maintenance :: nat

definition queued_already :: "schedule_loop \<Rightarrow> scheduled_operation \<Rightarrow> daemon \<Rightarrow> bool" where
  "queued_already sl o' d =
     (let queued = hasQueuedScheduledOperation (jb_id (so_job o')) (so_kind o')
      in (sl_draining sl \<and> queued False d) \<or> (so_deferred o' \<and> queued False d)
         \<or> (so_kind o' = ''backup'' \<and> queued True d))"

definition catches_up :: "schedule_loop \<Rightarrow> scheduled_operation \<Rightarrow> daemon \<Rightarrow> bool" where
  "catches_up sl o' d =
     (so_kind o' = ''backup'' \<and> rp_id (jb_repository (so_job o')) \<in> set (sl_busy sl)
      \<and> ((jm_strategy (jb_maintenance (so_job o')) = ''after_scheduled_backup''
            \<and> hasActiveMaintenance (jb_id (so_job o')) d)
         \<or> hasActiveReplication (jb_id (so_job o')) d))"

definition overlaps :: "schedule_loop \<Rightarrow> scheduled_operation \<Rightarrow> daemon \<Rightarrow> bool" where
  "overlaps sl o' d =
     (\<not> catches_up sl o' d
      \<and> (rp_id (jb_repository (so_job o')) \<in> set (sl_busy sl)
         \<or> (if so_kind o' = ''backup'' then 2 \<le> sl_backups sl else 1 \<le> sl_maintenance sl)))"

definition count_started :: "scheduled_operation \<Rightarrow> schedule_loop \<Rightarrow> schedule_loop" where
  "count_started o' sl =
     sl\<lparr>sl_busy := List.insert (rp_id (jb_repository (so_job o'))) (sl_busy sl),
        sl_backups := (if so_kind o' = ''backup'' then Suc (sl_backups sl) else sl_backups sl),
        sl_maintenance := (if so_kind o' = ''backup'' then sl_maintenance sl else Suc (sl_maintenance sl))\<rparr>"

text \<open>A due occurrence that is accepted: the command is saved, and started if nothing stands in its way.\<close>

definition accept_occurrence ::
  "daemon_env \<Rightarrow> scheduled_operation \<Rightarrow> string \<Rightarrow> schedule_loop \<Rightarrow> daemon \<Rightarrow>
   daemon_error option \<times> schedule_loop \<times> daemon" where
  "accept_occurrence env o' scheduled sl d =
     (case draw_ulid_at env (sl_now sl) d of
        (None, d) \<Rightarrow> (Some RandomFailure, sl, d)
      | (Some run_id, d) \<Rightarrow>
          (case encodeJobSnapshot (so_job o') of
             None \<Rightarrow> (Some SnapshotEncodingFailure, sl, d)
           | Some snapshot \<Rightarrow>
               (let c = scheduled_command (bs_generation (dm_bootstrap d)) (sl_revision sl) o' run_id snapshot
                          scheduled (sl_minute sl) (sl_now sl);
                    catch_up = catches_up sl o' d; overlap = overlaps sl o' d;
                    c = c\<lparr>jc_catch_up_backup := catch_up\<rparr>;
                    (c, d) = (if overlap \<and> \<not> so_deferred o' \<and> \<not> sl_draining sl
                              then finishScheduledOverlap env (sl_now sl) c d else (c, d));
                    (failed, d) = save_journal env (put_command run_id c d)
                in case failed of
                     Some f \<Rightarrow>
                       (let d = drop_command run_id d
                        in if f = SpoolCapacity then
                             (let (e, d) = refuseOccurrenceForPressure env (jb_id (so_job o')) (so_kind o') scheduled d
                              in (e, sl, d))
                           else (Some (StoreFailure f), sl, d))
                   | None \<Rightarrow>
                       if sl_draining sl \<or> overlap \<or> so_deferred o' \<or> catch_up then (None, sl, d)
                       else (let (e, d) = startOperation env run_id (so_job o') d
                             in (e, count_started o' sl, d)))))"

text \<open>One operation of the loop.\<close>

definition schedule_operation ::
  "daemon_env \<Rightarrow> scheduled_operation \<Rightarrow> schedule_loop \<Rightarrow> daemon \<Rightarrow> daemon_error option \<times> schedule_loop \<times> daemon" where
  "schedule_operation env o' sl d =
     (case firstDueSchedule (de_cron env) (so_expression o')
             (if sl_draining sl then sl_previous sl else sl_minute sl - 60 * 1000000000) (sl_minute sl) of
        Inl e \<Rightarrow> (Some (ScheduleFailure e), sl, d)
      | Inr (at, due) \<Rightarrow>
          if \<not> due then (None, sl, d)
          else
            (let scheduled = protocolTimestamp at; job_id = jb_id (so_job o');
                 (seen, d) = read_store env (occurrenceExists job_id (so_kind o') scheduled) d
             in case seen of
                  Inl f \<Rightarrow> (Some (StoreFailure f), sl, d)
                | Inr True \<Rightarrow> (None, sl, d)
                | Inr False \<Rightarrow>
                    if queued_already sl o' d then
                      (let (failed, d) = skip_occurrence env job_id (so_kind o') scheduled None d
                       in (store_failed failed, sl, d))
                    else
                      (let (room, d) = can_accept env criticalRunRecordEstimate d
                       in if \<not> room then
                            (let (e, d) = refuseOccurrenceForPressure env job_id (so_kind o') scheduled d in (e, sl, d))
                          else accept_occurrence env o' scheduled sl d)))"

fun schedule_all ::
  "daemon_env \<Rightarrow> scheduled_operation list \<Rightarrow> schedule_loop \<Rightarrow> daemon \<Rightarrow> daemon_error option \<times> daemon" where
  "schedule_all env [] sl d = (None, d)"
| "schedule_all env (o' # ops) sl d =
     (case schedule_operation env o' sl d of
        (Some e, sl, d) \<Rightarrow> (Some e, d)
      | (None, sl, d) \<Rightarrow> schedule_all env ops sl d)"

text \<open>The first critical section of \<open>scheduleBackups\<close>: nothing more to do, or the state of the loop.\<close>

definition note_schedule_minute :: "time \<Rightarrow> daemon \<Rightarrow> daemon" where
  "note_schedule_minute minute d =
     set_update (map_option (\<lambda>u. u\<lparr>au_last_schedule_minute := protocolTimestamp minute\<rparr>) (st_agent_update (dm_state d))) d"

definition begin_schedule :: "daemon_env \<Rightarrow> time \<Rightarrow> daemon \<Rightarrow> (daemon_error option + schedule_loop) \<times> daemon" where
  "begin_schedule env now d =
     (let minute = truncate_minute now; previous = dm_last_minute d;
          d = d\<lparr>dm_last_minute := minute\<rparr>
      in if minute \<le> previous then (Inl None, d)
         else
           (let draining = updating d;
                (failed, d) = (if draining then save_state env (note_schedule_minute minute d) else (None, d));
                (backups, maintenance) = activeCountsLocked d
            in case failed of
                 Some f \<Rightarrow> (Inl (Some (StoreFailure f)), d)
               | None \<Rightarrow>
                   if st_authentication_paused (dm_state d) then (Inl None, d)
                   else (Inr \<lparr>sl_draining = draining, sl_previous = previous, sl_minute = minute, sl_now = now,
                              sl_revision = cf_revision (dm_config d), sl_busy = dm_repositories d,
                              sl_backups = backups, sl_maintenance = maintenance\<rparr>, d)))"

definition scheduleBackups :: "daemon_env \<Rightarrow> daemon \<Rightarrow> daemon_error option \<times> daemon" where
  "scheduleBackups env d =
     (let (now, d) = read_now env d; ops = scheduled_operations (dm_config d)
      in case begin_schedule env now d of
           (Inl e, d) \<Rightarrow> (e, d)
         | (Inr sl, d) \<Rightarrow>
             (case schedule_all env ops sl d of
                (Some e, d) \<Rightarrow> (Some e, d)
              | (None, d) \<Rightarrow> if sl_draining sl then (None, d) else startNextDeferredMaintenance env [] True d))"

end
