(* ===== verification/Replication.thy ===== *)
theory Replication
  imports Scheduler
begin

text \<open>
  Replication of backups to the replicas of a job (agent/replication.go) and the synchronization of one
  replica on command (agent/replica_sync.go). A goroutine of the code is a task of the daemon; its
  critical sections are definitions here and its loop is the recursion over them.
\<close>

section \<open>Requests and inventories\<close>

definition copy_request :: "job \<Rightarrow> job_repository \<Rightarrow> restic_request" where
  "copy_request j target =
     zero_request\<lparr>rq_version := 1, rq_operation := ''copy'', rq_connection := rp_connection target,
       rq_source_connection := Some (rp_connection (jb_repository j)),
       rq_password := rp_service_password target,
       rq_source_password := rp_service_password (jb_repository j),
       rq_timeout_seconds := 24 * 60 * 60, rq_lock_wait_seconds := 5 * 60\<rparr>"

definition inventory_request :: "job_repository \<Rightarrow> restic_request" where
  "inventory_request r =
     zero_request\<lparr>rq_version := 1, rq_operation := ''snapshots'', rq_connection := rp_connection r,
       rq_password := rp_service_password r, rq_timeout_seconds := 60 * 60, rq_lock_wait_seconds := 5 * 60\<rparr>"

record copied_snapshot =
  co_id :: string
  co_original :: string

definition copied_fields :: "(string \<times> copied_snapshot decoder) list" where
  "copied_fields =
     [(''id'', on_field dec_string co_id (\<lambda>v. co_id_update (\<lambda>_. v))),
      (''original'', on_field dec_string co_original (\<lambda>v. co_original_update (\<lambda>_. v)))]"

definition decode_copied :: "string \<Rightarrow> copied_snapshot list option" where
  "decode_copied s =
     unmarshal (dec_list (dec_struct False copied_fields) \<lparr>co_id = [], co_original = []\<rparr>) [] s"

definition copied_mappings :: "copied_snapshot list \<Rightarrow> (string, string) gomap" where
  "copied_mappings ss =
     fold (\<lambda>s m. if \<not> is_digest (co_id s) then m
                 else (let m = mput (co_id s) (co_id s) m
                       in if is_digest (co_original s) then mput (co_original s) (co_id s) m else m)) ss []"

definition replicaInventory ::
  "daemon_env \<Rightarrow> job_repository \<Rightarrow> daemon \<Rightarrow> ((string, string) gomap \<times> nat option \<times> string) \<times> daemon" where
  "replicaInventory env r d =
     (let (listed, d) = run_restic env (inventory_request r) d
      in if rs_exit_code listed \<noteq> 0 then (([], None, rs_diagnostic listed), d)
         else (case decode_copied (rs_output listed) of
                 None \<Rightarrow> (([], None, ''Replica inventory response was invalid.''), d)
               | Some ss \<Rightarrow>
                   (let (stats, d) = run_restic env ((inventory_request r)\<lparr>rq_operation := ''stats''\<rparr>) d
                    in ((copied_mappings ss, measureRepositoryBytes stats, []), d))))"

definition boundedReplicationDiagnostic :: "string \<Rightarrow> string" where
  "boundedReplicationDiagnostic diagnostic =
     (let t = trim_space diagnostic
      in if t = [] then ''Replica copy did not complete.''
         else if 4096 < length (runes t) then concat (take 4096 (runes t)) else t)"

section \<open>Replication\<close>

definition startReplication :: "job \<Rightarrow> daemon \<Rightarrow> daemon" where
  "startReplication j d =
     (if updating d \<or> jb_id j \<in> set (dm_replication d) then d
      else d\<lparr>dm_replication := jb_id j # dm_replication d, dm_tasks := ReplicationTask j # dm_tasks d\<rparr>)"

definition pending_jobs :: "daemon \<Rightarrow> string list" where
  "pending_jobs d =
     map (\<lambda>(i, c). cr_job_id (the (jc_result c)))
       (filter (\<lambda>(i, c). jc_result c \<noteq> None \<and> jc_replication_pending c \<noteq> []) (dm_journal d))"

definition resumeReplications :: "daemon \<Rightarrow> daemon" where
  "resumeReplications d =
     (if updating d then d
      else fold startReplication (filter (\<lambda>j. jb_id j \<in> set (pending_jobs d)) (cf_jobs (dm_config d))) d)"

definition batch_candidate :: "time \<Rightarrow> job \<Rightarrow> job_repository \<Rightarrow> journal_command \<Rightarrow> bool" where
  "batch_candidate now j r c =
     (jc_state c = ''finished''
      \<and> (case jc_result c of None \<Rightarrow> False | Some res \<Rightarrow> cr_job_id res = jb_id j)
      \<and> rp_key r \<in> set (jc_replication_pending c)
      \<and> (case mget (jc_replication_retry_at c) (rp_key r) of None \<Rightarrow> True
         | Some at \<Rightarrow> (case time_parse at of None \<Rightarrow> True | Some t \<Rightarrow> t \<le> now)))"

definition batch_of :: "time \<Rightarrow> job \<Rightarrow> job_repository \<Rightarrow> daemon \<Rightarrow> journal_command list" where
  "batch_of now j r d = map snd (filter (\<lambda>(i, c). batch_candidate now j r c) (dm_journal d))"

fun first_batch :: "time \<Rightarrow> job \<Rightarrow> job_repository list \<Rightarrow> daemon \<Rightarrow> (job_repository \<times> journal_command list) option" where
  "first_batch now j [] d = None"
| "first_batch now j (r # rs) d =
     (if batch_of now j r d \<noteq> [] then Some (r, batch_of now j r d) else first_batch now j rs d)"

definition nextReplicationBatch ::
  "daemon_env \<Rightarrow> job \<Rightarrow> daemon \<Rightarrow> (job_repository \<times> journal_command list) option \<times> daemon" where
  "nextReplicationBatch env j d = (let (now, d) = read_now env d in (first_batch now j (jb_replicas j) d, d))"

text \<open>Both repositories are taken together or not at all.\<close>

definition take_repositories :: "string \<Rightarrow> string \<Rightarrow> daemon \<Rightarrow> daemon option" where
  "take_repositories a b d =
     (if a \<in> set (dm_repositories d) \<or> b \<in> set (dm_repositories d) then None
      else Some (d\<lparr>dm_repositories := List.insert b (List.insert a (dm_repositories d))\<rparr>))"

definition give_repositories :: "string \<Rightarrow> string \<Rightarrow> daemon \<Rightarrow> daemon" where
  "give_repositories a b d = d\<lparr>dm_repositories := removeAll b (removeAll a (dm_repositories d))\<rparr>"

record copy_outcome =
  cy_status :: string
  cy_code :: string
  cy_diagnostic :: string
  cy_mappings :: "(string, string) gomap"
  cy_bytes :: "nat option"

definition mapped :: "(string, string) gomap \<Rightarrow> string \<Rightarrow> string" where
  "mapped m s = (case mget m s of None \<Rightarrow> [] | Some t \<Rightarrow> t)"

definition batch_snapshots :: "journal_command list \<Rightarrow> string list" where
  "batch_snapshots cs = concat (map (\<lambda>c. cr_snapshot_ids (the (jc_result c))) cs)"

text \<open>What the copy came to, with the inventory of the replica after a copy that succeeded.\<close>

definition copy_outcome_of ::
  "daemon_env \<Rightarrow> job_repository \<Rightarrow> journal_command list \<Rightarrow> restic_result \<Rightarrow> daemon \<Rightarrow> copy_outcome \<times> daemon" where
  "copy_outcome_of env target cs copied d =
     (if rs_exit_code copied = 0 then
        (let ((m, bytes, diagnostic), d) = replicaInventory env target d;
             missing = list_ex (\<lambda>s. mapped m s = []) (batch_snapshots cs)
         in (\<lparr>cy_status = (if missing then ''failed'' else ''complete''),
              cy_code = (if missing then ''copy_failed'' else ''success''),
              cy_diagnostic = (if missing \<and> diagnostic = []
                then ''Replica inventory did not include every snapshot from this recovery point.'' else diagnostic),
              cy_mappings = m, cy_bytes = bytes\<rparr>, d))
      else
        (\<lparr>cy_status = ''failed'',
          cy_code = (if rs_outcome copied = ''cancelled''
                     then (if de_done env (dm_tick d) then ''cancelled'' else ''timed_out'') else ''copy_failed''),
          cy_diagnostic = rs_diagnostic copied, cy_mappings = [], cy_bytes = None\<rparr>, tick d))"

definition replication_payload ::
  "job_repository \<Rightarrow> copy_outcome \<Rightarrow> string list \<Rightarrow> time \<Rightarrow> time \<Rightarrow> payload_map" where
  "replication_payload r o' snapshots started finished =
     [(''repository_key'', JStr (rp_key r)), (''repository_id'', JStr (rp_id r)), (''status'', JStr (cy_status o')),
      (''result_code'', JStr (cy_code o')), (''started_at'', JStr (protocolTimestamp started)),
      (''finished_at'', JStr (protocolTimestamp finished)),
      (''snapshots'', JArr (if cy_status o' = ''complete''
         then map (\<lambda>s. JObj [(''original_snapshot_id'', JStr s), (''snapshot_id'', JStr (mapped (cy_mappings o') s))])
                snapshots
         else []))]
     @ put_pointer ''repository_bytes'' json_nat (cy_bytes o')
     @ (if cy_status o' = ''failed'' then [(''diagnostic'', JStr (boundedReplicationDiagnostic (cy_diagnostic o')))]
        else [])"

definition removeString :: "string \<Rightarrow> string list \<Rightarrow> string list" where
  "removeString target xs = sort (filter (\<lambda>v. v \<noteq> target) xs)"

text \<open>Another attempt is due after a quarter of an hour.\<close>

definition retry_delay :: int where
  "retry_delay = 15 * 60 * 1000000000"

definition finish_replicated ::
  "daemon_env \<Rightarrow> job_repository \<Rightarrow> copy_outcome \<Rightarrow> time \<Rightarrow> time \<Rightarrow> string \<Rightarrow> daemon \<Rightarrow> daemon" where
  "finish_replicated env r o' started finished cid d =
     (case command d cid of
        None \<Rightarrow> d
      | Some c \<Rightarrow>
          (case jc_result c of
             None \<Rightarrow> d
           | Some res \<Rightarrow>
               if rp_key r \<notin> set (jc_replication_pending c) then d
               else
                 (let (ok, c, d) = emit env (protocolTimestamp finished) ''replication_finished''
                        (replication_payload r o' (cr_snapshot_ids res) started finished) c d
                  in if cy_status o' = ''complete''
                     then put_command cid
                            (c\<lparr>jc_replication_pending := removeString (rp_key r) (jc_replication_pending c),
                               jc_replication_retry_at := mdel (rp_key r) (jc_replication_retry_at c)\<rparr>) d
                     else (let (now, d) = read_now env d
                           in put_command cid
                                (c\<lparr>jc_replication_retry_at := mput (rp_key r)
                                     (protocolTimestamp (now + retry_delay)) (jc_replication_retry_at c)\<rparr>) d))))"

definition finishReplicationBatch ::
  "daemon_env \<Rightarrow> job_repository \<Rightarrow> journal_command list \<Rightarrow> copy_outcome \<Rightarrow> time \<Rightarrow> time \<Rightarrow> daemon \<Rightarrow> daemon" where
  "finishReplicationBatch env r cs o' started finished d =
     snd (save_journal env
       (fold (\<lambda>c. finish_replicated env r o' started finished (ac_id (jc_command c))) cs d))"

text \<open>One turn of the loop of \<open>replicateJob\<close>; the flag tells whether the loop goes on.\<close>

definition replication_round :: "daemon_env \<Rightarrow> job \<Rightarrow> daemon \<Rightarrow> bool \<times> daemon" where
  "replication_round env j d =
     (case nextReplicationBatch env j d of
        (None, d) \<Rightarrow> (False, d)
      | (Some (target, cs), d) \<Rightarrow>
          (case take_repositories (rp_id (jb_repository j)) (rp_id target) d of
             None \<Rightarrow> (False, d)
           | Some d \<Rightarrow>
               (let (started, d) = read_now env d;
                    (copied, d) = run_restic env (copy_request j target) d;
                    (finished, d) = read_now env d;
                    d = give_repositories (rp_id (jb_repository j)) (rp_id target) d;
                    (o', d) = copy_outcome_of env target cs copied d
                in (cy_status o' \<noteq> ''failed'', finishReplicationBatch env target cs o' started finished d))))"

definition end_replication :: "daemon_env \<Rightarrow> job \<Rightarrow> daemon \<Rightarrow> daemon" where
  "end_replication env j d =
     (let d = d\<lparr>dm_replication := removeAll (jb_id j) (dm_replication d),
                dm_tasks := remove1 (ReplicationTask j) (dm_tasks d)\<rparr>;
          (e, d) = startNextDeferredMaintenance env (jb_id j) False d;
          (e, d) = startCatchUpBackup env (jb_id j) d
      in d)"

text \<open>The loop for at most \<open>n\<close> turns; the flag tells whether it came to its end.\<close>

fun replicate_rounds :: "nat \<Rightarrow> daemon_env \<Rightarrow> job \<Rightarrow> daemon \<Rightarrow> bool \<times> daemon" where
  "replicate_rounds 0 env j d = (False, d)"
| "replicate_rounds (Suc n) env j d =
     (case replication_round env j d of
        (True, d) \<Rightarrow> replicate_rounds n env j d
      | (False, d) \<Rightarrow> (True, end_replication env j d))"

section \<open>Synchronization of a replica\<close>

definition replicaForKey :: "job \<Rightarrow> string \<Rightarrow> job_repository option" where
  "replicaForKey j key = find (\<lambda>r. rp_key r = key) (jb_replica_setups j @ jb_replicas j)"

definition startReplicaSync :: "daemon_env \<Rightarrow> string \<Rightarrow> job \<Rightarrow> daemon \<Rightarrow> daemon_error option \<times> daemon" where
  "startReplicaSync env cid j d =
     (if updating d then (None, d)
      else (case command d cid of
              None \<Rightarrow> (None, d)
            | Some c \<Rightarrow>
                if jc_state c \<noteq> ''received'' then (None, d)
                else (case replicaForKey j (cp_repository_key (ac_payload (jc_command c))) of
                        None \<Rightarrow> finishWithoutExecution env cid ''failed'' ''execution_failed''
                                  ''The replica is unavailable in the required configuration.'' d
                      | Some target \<Rightarrow>
                          if jb_id j \<in> set (dm_replication d) then (None, d)
                          else (case take_repositories (rp_id (jb_repository j)) (rp_id target) d of
                                  None \<Rightarrow> (None, d)
                                | Some d \<Rightarrow>
                                    (let d = d\<lparr>dm_replication := jb_id j # dm_replication d\<rparr>;
                                         (failed, d) = save_journal env (put_command cid (c\<lparr>jc_state := ''running''\<rparr>) d)
                                     in case failed of
                                          Some f \<Rightarrow>
                                            (Some (StoreFailure f),
                                             put_command cid c
                                               (give_repositories (rp_id (jb_repository j)) (rp_id target)
                                                 (d\<lparr>dm_replication := removeAll (jb_id j) (dm_replication d)\<rparr>)))
                                        | None \<Rightarrow> (None, d\<lparr>dm_tasks := SyncTask cid j target # dm_tasks d\<rparr>))))))"

definition replicaSyncRetries :: "int list" where
  "replicaSyncRetries = [60, 300, 900]"

definition cancelled_copy :: restic_result where
  "cancelled_copy =
     \<lparr>rs_version = 0, rs_exit_code = 0, rs_outcome = ''cancelled'', rs_output = [],
      rs_diagnostic = ''context canceled'', rs_truncated = False, rs_dropped_bytes = 0\<rparr>"

text \<open>The attempts: the wait before one may be cut short by the end of the context (the first question), and
  the context may have ended when the timer fired (the second). \<open>res\<close> is the result so far.\<close>

fun sync_attempts :: "daemon_env \<Rightarrow> restic_request \<Rightarrow> int list \<Rightarrow> restic_result \<Rightarrow> daemon \<Rightarrow> restic_result \<times> daemon" where
  "sync_attempts env rq [] res d = (res, d)"
| "sync_attempts env rq (delay # delays) res d =
     (let cut = 0 < delay \<and> de_done env (dm_tick d); d = (if 0 < delay then tick d else d);
          over = 0 < delay \<and> \<not> cut \<and> de_done env (dm_tick d); d = (if 0 < delay then tick d else d)
      in if cut then (cancelled_copy, d)
         else if over then (res, d)
         else
           (let (res, d) = run_restic env rq d
            in if rs_exit_code res = 0 \<or> rs_exit_code res = 12 \<or> delays = [] then (res, d)
               else sync_attempts env rq delays res d))"

definition no_result :: restic_result where
  "no_result =
     \<lparr>rs_version = 0, rs_exit_code = 0, rs_outcome = [], rs_output = [], rs_diagnostic = [],
      rs_truncated = False, rs_dropped_bytes = 0\<rparr>"

definition sync_summary ::
  "daemon_env \<Rightarrow> job_repository \<Rightarrow> restic_result \<Rightarrow> daemon \<Rightarrow> (string \<times> string \<times> string \<times> string \<times> nat option) \<times> daemon" where
  "sync_summary env target copied d =
     (if rs_exit_code copied = 0 then
        (let ((m, bytes, diagnostic), d) = replicaInventory env target d
         in ((''complete'', ''success'', ''Replica synchronization completed.'', diagnostic, bytes), d))
      else if rs_outcome copied = ''cancelled'' then
        ((''cancelled'', ''cancelled'', ''Restic could not synchronize the replica.'',
          boundedReplicationDiagnostic (rs_diagnostic copied), None), d)
      else
        ((''failed'', ''copy_failed'', ''Restic could not synchronize the replica.'',
          boundedReplicationDiagnostic (rs_diagnostic copied), None), d))"

definition sync_result ::
  "nat \<Rightarrow> journal_command \<Rightarrow> job \<Rightarrow> job_repository \<Rightarrow> string \<times> string \<times> string \<times> string \<times> nat option \<Rightarrow>
   time \<Rightarrow> time \<Rightarrow> command_result" where
  "sync_result generation c j target o' started finished =
     (case o' of (status, code, summary, diagnostic, bytes) \<Rightarrow>
        zero_result\<lparr>cr_generation := generation, cr_run_id := jc_run_id c, cr_job_id := jb_id j,
          cr_repository_key := rp_key target, cr_status := status, cr_result_code := code,
          cr_started_at := protocolTimestamp started, cr_finished_at := protocolTimestamp finished,
          cr_repository_bytes := bytes, cr_summary := summary, cr_diagnostic := diagnostic\<rparr>)"

text \<open>The critical section at the end of \<open>runReplicaSync\<close>.\<close>

definition finish_sync ::
  "daemon_env \<Rightarrow> string \<Rightarrow> job \<Rightarrow> job_repository \<Rightarrow> string \<times> string \<times> string \<times> string \<times> nat option \<Rightarrow>
   time \<Rightarrow> time \<Rightarrow> daemon \<Rightarrow> daemon" where
  "finish_sync env cid j target o' started finished d =
     (let d = give_repositories (rp_id (jb_repository j)) (rp_id target)
            (d\<lparr>dm_replication := removeAll (jb_id j) (dm_replication d),
               dm_tasks := remove1 (SyncTask cid j target) (dm_tasks d)\<rparr>)
      in case command d cid of
           None \<Rightarrow> d
         | Some c \<Rightarrow>
             snd (save_journal env (put_command cid
               (c\<lparr>jc_state := ''finished'', jc_result := Some (sync_result (bs_generation (dm_bootstrap d)) c j target
                    o' started finished)\<rparr>) d)))"

definition runReplicaSync :: "daemon_env \<Rightarrow> string \<Rightarrow> job \<Rightarrow> job_repository \<Rightarrow> daemon \<Rightarrow> daemon" where
  "runReplicaSync env cid j target d =
     (let (started, d) = read_now env d;
          (copied, d) = sync_attempts env (copy_request j target) (0 # replicaSyncRetries) no_result d;
          (finished, d) = read_now env d;
          (o', d) = sync_summary env target copied d;
          d = finish_sync env cid j target o' started finished d
      in snd (startCatchUpBackup env (jb_id j) d))"

end
