(* ===== verification/Backup.thy ===== *)
theory Backup
  imports MaintenanceRepositories
begin

text \<open>
  The backup of files (agent/execution.go): the check of the targets, the request to restic, the
  summaries in its output, the log that is kept, and what an interrupted backup is taken for when its
  tagged snapshots are listed (\<open>reconciledResult\<close> of agent/commands.go).
\<close>

section \<open>Summaries\<close>

record restic_summary =
  sm_message_type :: string
  sm_files_new :: nat
  sm_files_changed :: nat
  sm_files_unmodified :: nat
  sm_directories_new :: nat
  sm_directories_changed :: nat
  sm_directories_unmodified :: nat
  sm_source_files :: nat
  sm_source_bytes :: nat
  sm_stored_bytes :: nat
  sm_snapshot_id :: string

definition zero_summary :: restic_summary where
  "zero_summary =
     \<lparr>sm_message_type = [], sm_files_new = 0, sm_files_changed = 0, sm_files_unmodified = 0,
      sm_directories_new = 0, sm_directories_changed = 0, sm_directories_unmodified = 0,
      sm_source_files = 0, sm_source_bytes = 0, sm_stored_bytes = 0, sm_snapshot_id = []\<rparr>"

definition summary_fields :: "(string \<times> restic_summary decoder) list" where
  "summary_fields =
     [(''message_type'', on_field dec_string sm_message_type (\<lambda>v. sm_message_type_update (\<lambda>_. v))),
      (''files_new'', on_field dec_uint64 sm_files_new (\<lambda>v. sm_files_new_update (\<lambda>_. v))),
      (''files_changed'', on_field dec_uint64 sm_files_changed (\<lambda>v. sm_files_changed_update (\<lambda>_. v))),
      (''files_unmodified'', on_field dec_uint64 sm_files_unmodified (\<lambda>v. sm_files_unmodified_update (\<lambda>_. v))),
      (''dirs_new'', on_field dec_uint64 sm_directories_new (\<lambda>v. sm_directories_new_update (\<lambda>_. v))),
      (''dirs_changed'', on_field dec_uint64 sm_directories_changed (\<lambda>v. sm_directories_changed_update (\<lambda>_. v))),
      (''dirs_unmodified'',
        on_field dec_uint64 sm_directories_unmodified (\<lambda>v. sm_directories_unmodified_update (\<lambda>_. v))),
      (''total_files_processed'', on_field dec_uint64 sm_source_files (\<lambda>v. sm_source_files_update (\<lambda>_. v))),
      (''total_bytes_processed'', on_field dec_uint64 sm_source_bytes (\<lambda>v. sm_source_bytes_update (\<lambda>_. v))),
      (''data_added_packed'', on_field dec_uint64 sm_stored_bytes (\<lambda>v. sm_stored_bytes_update (\<lambda>_. v))),
      (''snapshot_id'', on_field dec_string sm_snapshot_id (\<lambda>v. sm_snapshot_id_update (\<lambda>_. v)))]"

text \<open>The lines of a scanner whose buffer holds two megabytes.\<close>

definition summary_lines :: "string \<Rightarrow> string list" where
  "summary_lines text =
     (let parts = split_on newline text;
          parts = (if last parts = [] then butlast parts else parts)
      in map (\<lambda>l. trim_suffix l [CHR 0x0D]) (takeWhile (\<lambda>l. length l < 2097152) parts))"

definition summary_of_line :: "string \<Rightarrow> restic_summary option" where
  "summary_of_line line =
     (case unmarshal (dec_struct False summary_fields) zero_summary line of
        None \<Rightarrow> None
      | Some s \<Rightarrow> if sm_message_type s = ''summary'' then Some s else None)"

definition parseResticSummaries :: "string \<Rightarrow> restic_summary list" where
  "parseResticSummaries output = List.map_filter summary_of_line (summary_lines output)"

definition summary_statistics :: "restic_summary \<Rightarrow> run_statistics" where
  "summary_statistics s =
     [(''files_new'', json_nat (sm_files_new s)), (''files_changed'', json_nat (sm_files_changed s)),
      (''files_unmodified'', json_nat (sm_files_unmodified s)),
      (''directories_new'', json_nat (sm_directories_new s)),
      (''directories_changed'', json_nat (sm_directories_changed s)),
      (''directories_unmodified'', json_nat (sm_directories_unmodified s)),
      (''source_files'', json_nat (sm_source_files s)), (''source_bytes'', json_nat (sm_source_bytes s)),
      (''stored_bytes'', json_nat (sm_stored_bytes s))]"

section \<open>Logs\<close>

definition retainedLog :: "restic_result \<Rightarrow> string \<times> bool \<times> nat" where
  "retainedLog r =
     (let contents = log_line (rs_output r) @ log_line (rs_diagnostic r);
          dropped = nat (max (rs_dropped_bytes r) 0)
      in if maximumRunLog < length contents
         then (take maximumRunLog contents, True, (dropped + (length contents - maximumRunLog)) mod 2 ^ 64)
         else (contents, rs_truncated r, dropped))"

section \<open>The backup of files\<close>

text \<open>\<open>be_path\<close> is whether \<open>Lstat\<close> finds a directory or a regular file; \<open>be_done\<close> is whether the context
  has ended when restic returns.\<close>

record backup_env =
  be_run :: "restic_request \<Rightarrow> restic_result"
  be_now :: "nat \<Rightarrow> time"
  be_path :: "string \<Rightarrow> bool"
  be_done :: bool

record backup_outcome =
  bo_result :: command_result
  bo_log :: string
  bo_truncated :: bool
  bo_dropped :: nat

definition job_tags :: "job \<Rightarrow> string \<Rightarrow> string list" where
  "job_tags j run_id = [''backupchief-job:'' @ jb_id j, ''backupchief-run:'' @ run_id]"

definition backup_request :: "string \<Rightarrow> journal_command \<Rightarrow> job \<Rightarrow> restic_request" where
  "backup_request server_id c j =
     zero_request\<lparr>rq_version := 1, rq_operation := ''backup'', rq_connection := rp_connection (jb_repository j),
       rq_password := rp_service_password (jb_repository j), rq_root := js_root (jb_source j),
       rq_paths := js_paths (jb_source j), rq_excludes := js_excludes (jb_source j), rq_host := server_id,
       rq_tags := job_tags j (jc_run_id c), rq_timeout_seconds := 12 * 60 * 60, rq_lock_wait_seconds := 5 * 60\<rparr>"

definition backup_targets :: "job \<Rightarrow> string list" where
  "backup_targets j = (if js_paths (jb_source j) = [] then [js_root (jb_source j)] else js_paths (jb_source j))"

definition backup_base :: "nat \<Rightarrow> journal_command \<Rightarrow> job \<Rightarrow> time \<Rightarrow> command_result" where
  "backup_base generation c j started =
     zero_result\<lparr>cr_generation := generation, cr_run_id := jc_run_id c, cr_job_id := jb_id j,
       cr_run_kind := ''backup'', cr_started_at := protocolTimestamp started\<rparr>"

text \<open>The identities of the snapshots, each once.\<close>

definition summary_snapshots :: "restic_summary list \<Rightarrow> string list" where
  "summary_snapshots ss =
     fold (\<lambda>s ids. if is_digest (sm_snapshot_id s) \<and> sm_snapshot_id s \<notin> set ids then ids @ [sm_snapshot_id s]
                   else ids) ss []"

definition snapshot_status :: "int \<Rightarrow> restic_summary \<Rightarrow> command_result \<Rightarrow> command_result" where
  "snapshot_status code s r =
     (if code = 3 then set_status ''partial'' ''unreadable_files'' ''The snapshot completed with unreadable files.'' r
      else if sm_source_files s = 0
      then set_status ''complete'' ''empty_selection'' ''The snapshot completed with no selected files.'' r
      else set_status ''complete'' ''success'' ''The snapshot completed successfully.'' r)"

definition backup_failed :: "int \<Rightarrow> command_result \<Rightarrow> command_result" where
  "backup_failed code r =
     set_status ''failed'' (resultCodeForExit code) ''Restic did not produce a complete snapshot result.'' r"

definition backup_result :: "bool \<Rightarrow> restic_result \<Rightarrow> command_result \<Rightarrow> command_result" where
  "backup_result over response r =
     (if rs_outcome response = ''cancelled'' then
        (if over then set_status ''cancelled'' ''cancelled'' ''The backup was cancelled.'' r
         else set_status ''failed'' ''timed_out'' ''The backup exceeded its execution deadline.'' r)
      else
        (let ss = parseResticSummaries (rs_output response)
         in if (rs_exit_code response = 0 \<or> rs_exit_code response = 3) \<and> ss \<noteq> [] then
              (let r = r\<lparr>cr_statistics := Some (summary_statistics (last ss)), cr_snapshot_ids := summary_snapshots ss\<rparr>
               in if summary_snapshots ss \<noteq> [] then snapshot_status (rs_exit_code response) (last ss) r
                  else backup_failed (rs_exit_code response) r)
            else backup_failed (rs_exit_code response) r))"

definition invalid_root :: "command_result \<Rightarrow> command_result" where
  "invalid_root r =
     set_status ''failed'' ''invalid_root''
       ''A configured backup path is missing, inaccessible, or is a symbolic link.'' r"

definition executeFileBackup :: "backup_env \<Rightarrow> string \<Rightarrow> nat \<Rightarrow> journal_command \<Rightarrow> job \<Rightarrow> backup_outcome" where
  "executeFileBackup env server_id generation c j =
     (let base = backup_base generation c j (be_now env 0);
          finished = protocolTimestamp (be_now env 1)
      in if \<not> list_all (be_path env) (backup_targets j) then
           (let r = (invalid_root base)\<lparr>cr_finished_at := finished\<rparr>
            in \<lparr>bo_result = r, bo_log = cr_summary r @ [newline], bo_truncated = False, bo_dropped = 0\<rparr>)
         else
           (let response = be_run env (backup_request server_id c j);
                (log, truncated, dropped) = retainedLog response
            in \<lparr>bo_result = backup_result (be_done env) response (base\<lparr>cr_finished_at := finished\<rparr>),
                bo_log = log, bo_truncated = truncated, bo_dropped = dropped\<rparr>))"

section \<open>An interrupted backup\<close>

record reconciled_snapshot =
  rn_id :: string
  rn_summary :: "restic_summary option"

definition reconciled_fields :: "(string \<times> reconciled_snapshot decoder) list" where
  "reconciled_fields =
     [(''id'', on_field dec_string rn_id (\<lambda>v. rn_id_update (\<lambda>_. v))),
      (''summary'', on_field (dec_pointer (dec_struct False summary_fields) zero_summary) rn_summary
                      (\<lambda>v. rn_summary_update (\<lambda>_. v)))]"

definition decode_reconciled :: "string \<Rightarrow> reconciled_snapshot list option" where
  "decode_reconciled output =
     unmarshal (dec_list (dec_struct False reconciled_fields) \<lparr>rn_id = [], rn_summary = None\<rparr>) [] output"

definition unresolved_backup :: "nat \<Rightarrow> journal_command \<Rightarrow> time \<Rightarrow> command_result" where
  "unresolved_backup generation c now =
     set_status ''unresolved'' ''outcome_unresolved''
       ''The interrupted backup outcome could not be proved and was not rerun.''
       (zero_result\<lparr>cr_generation := generation, cr_run_id := jc_run_id c,
          cr_job_id := cp_job_id (ac_payload (jc_command c)), cr_run_kind := ''backup'',
          cr_started_at := jc_received_at c, cr_finished_at := protocolTimestamp now\<rparr>)"

definition reconciled_backup :: "restic_summary \<Rightarrow> command_result \<Rightarrow> command_result" where
  "reconciled_backup s r =
     set_status ''complete'' (if sm_source_files s = 0 then ''empty_selection'' else ''success'')
       ''The interrupted backup was reconciled to its tagged snapshot.''
       (r\<lparr>cr_statistics := Some (summary_statistics s)\<rparr>)"

definition reconciledResult :: "nat \<Rightarrow> journal_command \<Rightarrow> restic_result \<Rightarrow> time \<Rightarrow> command_result" where
  "reconciledResult generation c response now =
     (let r = unresolved_backup generation c now
      in if rs_exit_code response \<noteq> 0 then r
         else (case decode_reconciled (rs_output response) of
                 None \<Rightarrow> r
               | Some snapshots \<Rightarrow>
                   if snapshots = [] then r
                   else
                     (let r = r\<lparr>cr_snapshot_ids := filter is_digest (map rn_id snapshots)\<rparr>
                      in case rn_summary (last snapshots) of
                           None \<Rightarrow> r
                         | Some s \<Rightarrow> if cr_snapshot_ids r = [] then r else reconciled_backup s r)))"

end
