(* ===== verification/Commands.thy ===== *)
theory Commands
  imports Replication Backup
begin

text \<open>
  The handlers of the daemon that put its critical sections together (agent/commands.go): the runs of
  backups and maintenance with what follows them, the poll for commands, the dispatch of one command and
  of all of them, and what is made of the operations an earlier process left running.
\<close>

section \<open>Runs\<close>

definition end_task :: "daemon_task \<Rightarrow> daemon \<Rightarrow> daemon" where
  "end_task t d = d\<lparr>dm_tasks := remove1 t (dm_tasks d)\<rparr>"

definition follow :: "daemon_env \<Rightarrow> job \<Rightarrow> follow_up option \<Rightarrow> daemon \<Rightarrow> daemon" where
  "follow env j next d =
     (case next of
        None \<Rightarrow> d
      | Some f \<Rightarrow>
          (let d = (if fu_replicate f then startReplication j d else d);
               d = (if fu_release_maintenance f then snd (startNextDeferredMaintenance env (fu_job_id f) False d) else d)
           in if fu_release_catch_up f then snd (startCatchUpBackup env (fu_job_id f) d) else d))"

definition finishOperation ::
  "daemon_env \<Rightarrow> string \<Rightarrow> string \<Rightarrow> job \<Rightarrow> command_result \<Rightarrow> string \<Rightarrow> bool \<Rightarrow> nat \<Rightarrow> daemon \<Rightarrow> daemon" where
  "finishOperation env cid rid j r log truncated dropped d =
     (let r = for_protocol d r;
          (logged, d) = write_log env log d;
          (next, d) = finish_locked env cid rid j r logged log truncated dropped d
      in follow env j next d)"

text \<open>The goroutine of a backup whose outcome is given; the repository is measured unless the context ended.\<close>

definition runBackup :: "daemon_env \<Rightarrow> string \<Rightarrow> string \<Rightarrow> job \<Rightarrow> backup_outcome \<Rightarrow> daemon \<Rightarrow> daemon" where
  "runBackup env cid rid j out d =
     (let over = de_done env (dm_tick d); d = tick d;
          (r, d) = (if over then (bo_result out, d)
                    else (let (stats, d) = run_restic env ((maintenanceRequest j)\<lparr>rq_operation := ''stats'',
                                rq_timeout_seconds := 5 * 60, rq_lock_wait_seconds := 30\<rparr>) d
                          in ((bo_result out)\<lparr>cr_repository_bytes := measureRepositoryBytes stats\<rparr>, d)))
      in end_task (BackupTask cid rid j)
           (finishOperation env cid rid j r (bo_log out) (bo_truncated out) (bo_dropped out) d))"

definition runMaintenance ::
  "daemon_env \<Rightarrow> string \<Rightarrow> string \<Rightarrow> job \<Rightarrow> maintenance_plan option \<Rightarrow> repositories_outcome \<Rightarrow> daemon \<Rightarrow> daemon" where
  "runMaintenance env cid rid j plan out d =
     end_task (MaintenanceTask cid rid j plan)
       (finishOperation env cid rid j (mr_result out) (mr_log out) (mr_truncated out) (mr_dropped out) d)"

section \<open>Polling\<close>

fun receive_all :: "daemon_env \<Rightarrow> agent_command list \<Rightarrow> daemon \<Rightarrow> daemon_error option \<times> daemon" where
  "receive_all env [] d = (None, d)"
| "receive_all env (c # cs) d =
     (case receiveCommand env c d of (Some e, d) \<Rightarrow> (Some e, d) | (None, d) \<Rightarrow> receive_all env cs d)"

text \<open>\<open>polled\<close> is what \<open>PollCommands\<close> returned.\<close>

definition processCommands ::
  "daemon_env \<Rightarrow> daemon_error + agent_command list \<Rightarrow> daemon \<Rightarrow> daemon_error option \<times> daemon" where
  "processCommands env polled d =
     (if st_authentication_paused (dm_state d) then (None, d)
      else (case polled of
              Inl e \<Rightarrow> handleRequestError env (Some e) d
            | Inr cs \<Rightarrow> (case receive_all env cs d of (Some e, d) \<Rightarrow> (Some e, d)
                         | (None, d) \<Rightarrow> clearAuthenticationPause env d)))"

section \<open>Dispatch\<close>

text \<open>The acknowledgement: discarded instead when the command expired, and on disk before anything else.\<close>

definition acknowledge :: "daemon_env \<Rightarrow> string \<Rightarrow> journal_command \<Rightarrow> daemon \<Rightarrow> (daemon_error option + unit) \<times> daemon" where
  "acknowledge env cid c d =
     (if jc_acknowledged c then (Inr (), d)
      else (case discardExpiredUnacknowledgedCommand env cid d of
              (_, Some e, d) \<Rightarrow> (Inl (Some e), d)
            | (True, None, d) \<Rightarrow> (Inl None, d)
            | (False, None, d) \<Rightarrow>
                (case (de_request env (dm_tick d), tick d) of
                   (Some e, d) \<Rightarrow> (Inl (Some e), d)
                 | (None, d) \<Rightarrow>
                     (case command d cid of
                        None \<Rightarrow> (Inr (), d)
                      | Some current \<Rightarrow>
                          (let (failed, d) = save_journal env (put_command cid (current\<lparr>jc_acknowledged := True\<rparr>) d)
                           in (case failed of Some f \<Rightarrow> Inl (Some (StoreFailure f)) | None \<Rightarrow> Inr (), d))))))"

definition dispatch_cancel :: "daemon_env \<Rightarrow> string \<Rightarrow> string \<Rightarrow> daemon \<Rightarrow> daemon_error option \<times> daemon" where
  "dispatch_cancel env cid rid d =
     (case cancelRun env rid d of
        (Some e, d) \<Rightarrow> (Some e, d)
      | (None, d) \<Rightarrow> (let (failed, d) = save_journal env (drop_command cid d) in (store_failed failed, d)))"

definition dispatch_inspection :: "daemon_env \<Rightarrow> string \<Rightarrow> journal_command \<Rightarrow> daemon \<Rightarrow> daemon_error option \<times> daemon" where
  "dispatch_inspection env cid c d =
     (let r = de_inspect env (dm_tick d) (ac_payload (jc_command c)); d = tick d
      in case command d cid of
           None \<Rightarrow> (None, d)
         | Some current \<Rightarrow>
             (let (failed, d) = save_journal env
                    (put_command cid (current\<lparr>jc_state := ''finished'', jc_result := Some r\<rparr>) d)
              in (store_failed failed, d)))"

definition dispatched_kind :: "string \<Rightarrow> bool" where
  "dispatched_kind k = (k \<in> set [''run_backup'', ''run_maintenance'', ''sync_replica''] \<or> has_prefix k ''scheduled_'')"

text \<open>\<open>time.Parse\<close> of a text it refuses gives the zero time, the first of January of the year one.\<close>

definition zero_time :: time where
  "zero_time = - 62135596800 * 1000000000"

definition expires_at :: "agent_command \<Rightarrow> time" where
  "expires_at c = (case time_parse (ac_expires_at c) of None \<Rightarrow> zero_time | Some t \<Rightarrow> t)"

definition dispatch_expired :: "daemon_env \<Rightarrow> string \<Rightarrow> journal_command \<Rightarrow> daemon \<Rightarrow> daemon_error option \<times> daemon" where
  "dispatch_expired env cid c d =
     (if cm_revision (dm_metadata d) < cp_required_config_revision (ac_payload (jc_command c))
      then finishWithoutExecution env cid ''skipped'' ''config_unavailable''
             ''The required configuration was unavailable before expiry.'' d
      else finishWithoutExecution env cid ''skipped'' ''expired'' ''The command expired before execution.'' d)"

definition dispatch_job :: "daemon_env \<Rightarrow> string \<Rightarrow> journal_command \<Rightarrow> daemon \<Rightarrow> daemon_error option \<times> daemon" where
  "dispatch_job env cid c d =
     (case jobForExecution env c d of
        (Inl e, d) \<Rightarrow>
          if jc_trigger c = ''scheduled'' \<and> e = SnapshotFailure
          then finishWithoutExecution env cid ''skipped'' ''config_unavailable''
                 ''The saved job configuration is invalid.'' d
          else (Some e, d)
      | (Inr NotReady, d) \<Rightarrow> (None, d)
      | (Inr NoJob, d) \<Rightarrow> job_missing env cid d
      | (Inr (FoundJob j), d) \<Rightarrow>
          if \<not> jb_enabled j then job_missing env cid d
          else if ac_kind (jc_command c) = ''sync_replica'' then startReplicaSync env cid j d
          else startOperation env cid j d)"

text \<open>\<open>c\<close> is the entry as it was when the handler began, \<open>now_c\<close> the one the pointer of the code shows later.\<close>

definition dispatch_operation ::
  "daemon_env \<Rightarrow> string \<Rightarrow> journal_command \<Rightarrow> journal_command \<Rightarrow> daemon \<Rightarrow> daemon_error option \<times> daemon" where
  "dispatch_operation env cid c now_c d =
     (let k = ac_kind (jc_command c)
      in if \<not> dispatched_kind k \<or> jc_state c \<noteq> ''received'' \<or> jc_wait_for_backup now_c then (None, d)
         else if k \<in> set [''run_backup'', ''run_maintenance'', ''sync_replica''] then
           (let (now, d) = read_now env d
            in if expires_at (jc_command c) \<le> now then dispatch_expired env cid c d else dispatch_job env cid now_c d)
         else dispatch_job env cid now_c d)"

text \<open>\<open>helper\<close> is how handing a request to the update helper goes.\<close>

definition advanceCommand ::
  "daemon_env \<Rightarrow> daemon_error option \<times> daemon_error option \<Rightarrow> string \<Rightarrow> daemon \<Rightarrow> daemon_error option \<times> daemon" where
  "advanceCommand env helper cid d =
     (case command d cid of
        None \<Rightarrow> (None, d)
      | Some c \<Rightarrow>
          (case acknowledge env cid c d of
             (Inl e, d) \<Rightarrow> (e, d)
           | (Inr _, d) \<Rightarrow>
               (let k = ac_kind (jc_command c); now_c = (case command d cid of None \<Rightarrow> c | Some current \<Rightarrow> current)
                in if k = ''cancel_run'' then dispatch_cancel env cid (jc_run_id c) d
                   else if k = ''update_agent'' then
                     (if jc_state c = ''received''
                      then (let (e, request, d) = startAgentUpdate env (fst helper) (snd helper) cid d in (e, d))
                      else (None, d))
                   else if updating d then (None, d)
                   else if k = ''inspect_source'' \<and> jc_state c = ''received'' then dispatch_inspection env cid c d
                   else dispatch_operation env cid c now_c d)))"

definition join_errors :: "daemon_error list \<Rightarrow> daemon_error option" where
  "join_errors es = (if es = [] then None else Some (Joined es))"

fun advance_all ::
  "daemon_env \<Rightarrow> daemon_error option \<times> daemon_error option \<Rightarrow> string list \<Rightarrow> daemon_error list \<Rightarrow> daemon \<Rightarrow>
   daemon_error option \<times> daemon" where
  "advance_all env helper [] es d = (join_errors es, d)"
| "advance_all env helper (cid # cids) es d =
     (let over = de_done env (dm_tick d); d = tick d
      in if over then (Some ContextEnded, d)
         else (let (e, d) = advanceCommand env helper cid d
               in advance_all env helper cids (case e of None \<Rightarrow> es | Some e \<Rightarrow> es @ [e]) d))"

definition advanceCommands ::
  "daemon_env \<Rightarrow> daemon_error option \<times> daemon_error option \<Rightarrow> daemon \<Rightarrow> daemon_error option \<times> daemon" where
  "advanceCommands env helper d = advance_all env helper (sort (mkeys (dm_journal d))) [] d"

section \<open>Interrupted operations\<close>

definition unresolved_maintenance :: "nat \<Rightarrow> journal_command \<Rightarrow> job \<Rightarrow> time \<Rightarrow> command_result" where
  "unresolved_maintenance generation c j now =
     set_status ''unresolved'' ''outcome_unresolved''
       ''The interrupted maintenance outcome could not be proved and was not rerun.''
       (zero_result\<lparr>cr_generation := generation, cr_run_id := jc_run_id c, cr_job_id := jb_id j,
          cr_run_kind := jc_run_kind c, cr_started_at := jc_received_at c,
          cr_finished_at := protocolTimestamp now\<rparr>)"

definition reconciled_prune :: "maintenance_plan \<Rightarrow> command_result \<Rightarrow> command_result" where
  "reconciled_prune p r =
     (if \<not> pl_combined_retention p then r
      else if pl_prune_completed p then (set_statistic ''prune_status'' ''complete'' r)\<lparr>cr_prune_completed := True\<rparr>
      else if pl_prune_started p
      then set_summary ''The interrupted repository prune outcome could not be proved.''
             (set_statistic ''prune_status'' ''outcome_unresolved'' r)
      else if pl_prune_after_forget p then set_statistic ''prune_status'' ''pending'' r
      else set_statistic ''prune_status'' ''not_due'' r)"

definition reconciled_removal :: "nat \<Rightarrow> nat \<Rightarrow> command_result \<Rightarrow> command_result" where
  "reconciled_removal removed remaining r =
     (if remaining = 0 then set_status ''complete'' ''success'' (maintenanceSummary ''forget'' removed) r
      else if 0 < removed
      then set_status ''partial'' ''snapshot_removal_incomplete''
             (''Retention removed '' @ show_nat removed @ '' snapshot(s), but '' @ show_nat remaining
               @ '' selected snapshot(s) remain.'') r
      else set_status ''failed'' ''execution_failed''
             ''The interrupted retention run made no observable snapshot changes and was not repeated.'' r)"

definition reconcilable :: "journal_command \<Rightarrow> bool" where
  "reconcilable c =
     (jc_run_kind c = ''forget''
      \<and> (case jc_maintenance_plan c of None \<Rightarrow> False
         | Some p \<Rightarrow> pl_candidate_snapshot_ids p \<noteq> [] \<or> pl_forget_planned p))"

definition reconciled_inventory ::
  "maintenance_plan \<Rightarrow> string list \<Rightarrow> time \<Rightarrow> command_result \<Rightarrow> command_result" where
  "reconciled_inventory p inventory now r =
     (let remaining = count_in (pl_candidate_snapshot_ids p) inventory;
          removed = length (pl_candidate_snapshot_ids p) - remaining;
          r = (attachSnapshotEvidence ''repository'' inventory now r)
                \<lparr>cr_statistics := Some (maintenanceStatistics (length inventory + removed)
                   (length (pl_candidate_snapshot_ids p)) remaining (length (pl_protected_snapshot_ids p)))\<rparr>;
          r = reconciled_prune p r
      in if pl_combined_retention p \<and> \<not> pl_prune_completed p \<and> pl_prune_started p then r
         else reconciled_removal removed remaining r)"

definition reconciledMaintenance :: "daemon_env \<Rightarrow> journal_command \<Rightarrow> job \<Rightarrow> daemon \<Rightarrow> command_result \<times> daemon" where
  "reconciledMaintenance env c j d =
     (let (t, d) = read_now env d;
          r = unresolved_maintenance (bs_generation (dm_bootstrap d)) c j t
      in if \<not> reconcilable c then (r, d)
         else
           (let p = the (jc_maintenance_plan c);
                (listed, d) = run_restic env ((maintenanceRequest j)\<lparr>rq_operation := ''snapshots'',
                  rq_timeout_seconds := 300, rq_lock_wait_seconds := 30\<rparr>) d;
                (now, d) = read_now env d
            in (case parseSnapshotInventory listed of
                  None \<Rightarrow> attachSnapshotEvidence ''candidates'' (pl_candidate_snapshot_ids p) now r
                | Some inventory \<Rightarrow> reconciled_inventory p inventory now r, d)))"

definition reconcile_request :: "string \<Rightarrow> journal_command \<Rightarrow> job \<Rightarrow> restic_request" where
  "reconcile_request server_id c j =
     zero_request\<lparr>rq_version := 1, rq_operation := ''snapshots'', rq_connection := rp_connection (jb_repository j),
       rq_password := rp_service_password (jb_repository j), rq_host := server_id,
       rq_tags := job_tags j (jc_run_id c), rq_timeout_seconds := 300, rq_lock_wait_seconds := 30\<rparr>"

definition reconciled_outcome :: "daemon_env \<Rightarrow> journal_command \<Rightarrow> job \<Rightarrow> daemon \<Rightarrow> command_result \<times> daemon" where
  "reconciled_outcome env c j d =
     (if jc_run_kind c = ''backup'' then
        (let (listed, d) = run_restic env (reconcile_request (bs_server_id (dm_bootstrap d)) c j) d;
             (now, d) = read_now env d
         in (reconciledResult (bs_generation (dm_bootstrap d)) c listed now, d))
      else reconciledMaintenance env c j d)"

definition finish_reconciled ::
  "daemon_env \<Rightarrow> string \<Rightarrow> job \<Rightarrow> command_result \<Rightarrow> daemon \<Rightarrow> daemon_error option \<times> daemon" where
  "finish_reconciled env cid j r d =
     (case command d cid of
        None \<Rightarrow> (None, d)
      | Some c \<Rightarrow>
          if jc_state c \<noteq> ''running'' then (None, d)
          else
            (let (c, d) = appendSnapshotEvidenceEvents env r (c\<lparr>jc_state := ''finished'', jc_result := Some r\<rparr>) d;
                 (ok, c, d) = emit env (cr_finished_at r) ''run_finished'' (terminalEventPayload r) c d;
                 c = c\<lparr>jc_result_reported := (jc_trigger c = ''scheduled'')\<rparr>;
                 (failed, d) = save_journal env (recordOutcomeLocked env j r (put_command cid c d))
             in (store_failed failed, d)))"

definition reconcileOne :: "daemon_env \<Rightarrow> string \<Rightarrow> daemon \<Rightarrow> daemon_error option \<times> daemon" where
  "reconcileOne env cid d =
     (case command d cid of
        None \<Rightarrow> (None, d)
      | Some c \<Rightarrow>
          (case jobForExecution env c d of
             (Inl e, d) \<Rightarrow> (Some e, d)
           | (Inr NotReady, d) \<Rightarrow> (Some ConfigurationMissing, d)
           | (Inr NoJob, d) \<Rightarrow>
               finishWithoutExecution env cid ''unresolved'' ''outcome_unresolved''
                 ''The interrupted run configuration is unavailable and it was not rerun.'' d
           | (Inr (FoundJob j), d) \<Rightarrow>
               (let (r, d) = reconciled_outcome env c j d;
                    r = for_protocol d r;
                    (stats, d) = run_restic env ((maintenanceRequest j)\<lparr>rq_operation := ''stats'',
                      rq_timeout_seconds := 5 * 60, rq_lock_wait_seconds := 30\<rparr>) d
                in finish_reconciled env cid j (r\<lparr>cr_repository_bytes := measureRepositoryBytes stats\<rparr>) d)))"

fun reconcile_all :: "daemon_env \<Rightarrow> string list \<Rightarrow> daemon \<Rightarrow> daemon_error option \<times> daemon" where
  "reconcile_all env [] d = (None, d)"
| "reconcile_all env (cid # cids) d =
     (case reconcileOne env cid d of
        (Some e, d) \<Rightarrow> (Some e, d\<lparr>dm_reconciled := False\<rparr>)
      | (None, d) \<Rightarrow> reconcile_all env cids d)"

definition interrupted :: "journal_command \<Rightarrow> bool" where
  "interrupted c = (jc_state c = ''running'' \<and> ac_kind (jc_command c) \<noteq> ''update_agent'')"

text \<open>The jobs of the finished runs that still have replicas to reach, by identity; the last one counts.\<close>

definition replication_jobs :: "cron \<Rightarrow> daemon \<Rightarrow> (string, job) gomap" where
  "replication_jobs cron d =
     fold (\<lambda>(i, c) m.
       if jc_state c = ''finished'' \<and> jc_replication_pending c \<noteq> [] \<and> jc_job_snapshot c \<noteq> NoSnapshot
       then (case decodeJobSnapshot cron (jc_job_snapshot c) of Inl e \<Rightarrow> m | Inr j \<Rightarrow> mput (jb_id j) j m)
       else m) (dm_journal d) []"

definition reconcileInterrupted :: "daemon_env \<Rightarrow> daemon \<Rightarrow> daemon_error option \<times> daemon" where
  "reconcileInterrupted env d =
     (if dm_reconciled d then (None, d)
      else
        (let cids = map fst (filter (\<lambda>(i, c). interrupted c) (dm_journal d));
             jobs = map snd (replication_jobs (de_cron env) d)
         in case reconcile_all env cids (d\<lparr>dm_reconciled := True\<rparr>) of
              (Some e, d) \<Rightarrow> (Some e, d)
            | (None, d) \<Rightarrow> (None, fold startReplication jobs d)))"

definition dispatchCommands ::
  "daemon_env \<Rightarrow> daemon_error + agent_update_result option \<Rightarrow> daemon_error option \<times> daemon_error option \<Rightarrow> daemon \<Rightarrow>
   daemon_error option \<times> daemon" where
  "dispatchCommands env found helper d =
     (case consumeAgentUpdateResult env found d of
        (_, Some e, d) \<Rightarrow> (Some e, d)
      | (_, None, d) \<Rightarrow>
          (case reconcileInterrupted env d of
             (Some e, d) \<Rightarrow> handleRequestError env (Some e) d
           | (None, d) \<Rightarrow>
               if st_authentication_paused (dm_state d) then (None, d)
               else (let (e, d) = advanceCommands env helper d
                     in handleRequestError env e (resumeReplications d))))"

end
