(* ===== verification/Reporting.thy ===== *)
theory Reporting
  imports Commands
begin

text \<open>
  Reporting to the control plane (agent/commands.go, with \<open>SubmitEvents\<close> and \<open>SubmitInspectionResult\<close> of
  agent/client.go): the events of a command in batches, its log in chunks, its result, and the removal of
  a command that has nothing left to report. The handlers give, beside the error, the list of the
  requests that were answered, in order.
\<close>

section \<open>Requests\<close>

record log_completion =
  lc_generation :: nat
  lc_total_bytes :: nat
  lc_sha256 :: string
  lc_chunk_count :: nat
  lc_truncated :: bool
  lc_dropped_bytes :: nat

datatype report =
    EventsReport "agent_event list"
  | ChunkReport string string nat nat string
  | LogReport string string log_completion
  | ResultReport string command_result
  | UpdateReport string agent_update_result

definition statuses :: "string list" where
  "statuses = [''accepted'', ''duplicate'', ''rejected'']"

text \<open>\<open>SubmitEvents\<close> takes an answer only if it has one item for each event, in order.\<close>

definition SubmitEvents :: "daemon_env \<Rightarrow> agent_event list \<Rightarrow> daemon \<Rightarrow> (daemon_error + event_result list) \<times> daemon" where
  "SubmitEvents env batch d =
     (case de_events env (dm_tick d) batch of
        Inl e \<Rightarrow> (Inl e, tick d)
      | Inr items \<Rightarrow>
          (if length items = length batch
              \<and> list_all2 (\<lambda>item e. er_id item = ev_id e \<and> er_status item \<in> set statuses) items batch
           then Inr items else Inl TransportFailure, tick d))"

definition reported_inspection :: "daemon \<Rightarrow> command_result \<Rightarrow> command_result" where
  "reported_inspection d r =
     zero_result\<lparr>cr_generation := cr_generation r, cr_run_id := cr_run_id r, cr_status := cr_status r,
       cr_result_code := cr_result_code r, cr_summary := cr_summary r, cr_databases := cr_databases r,
       cr_tools := cr_tools r,
       cr_failure := (if cr_status r \<noteq> ''failed'' \<or> \<not> supports d ''1.2.0'' then None
         else if cr_failure r = None
         then Some \<lparr>sf_stage = ''unknown'',
                    sf_detail = ''This inspection completed before detailed failure reporting was available.''\<rparr>
         else cr_failure r)\<rparr>"

definition reported_result :: "daemon \<Rightarrow> command_result \<Rightarrow> command_result" where
  "reported_result d r =
     (if supports d ''1.3.0'' then r
      else r\<lparr>cr_artifacts := map (\<lambda>a. a\<lparr>ba_source_bytes := None, ba_stored_bytes := None\<rparr>) (cr_artifacts r)\<rparr>)"

section \<open>Events\<close>

text \<open>A rejected event of these kinds is kept and sent again.\<close>

definition critical_kinds :: "string list" where
  "critical_kinds = [''run_finished'', ''snapshot_inventory_chunk'', ''replication_finished'']"

definition rejected_events :: "event_result list \<Rightarrow> agent_event list \<Rightarrow> agent_event list" where
  "rejected_events items batch = map snd (filter (\<lambda>(item, e). er_status item = ''rejected'') (zip items batch))"

definition retained_events :: "event_result list \<Rightarrow> agent_event list \<Rightarrow> agent_event list" where
  "retained_events items batch = filter (\<lambda>e. ev_kind e \<in> set critical_kinds) (rejected_events items batch)"

definition rejection :: "event_result list \<Rightarrow> daemon_error option" where
  "rejection items =
     (case filter (\<lambda>item. er_status item = ''rejected'') items of
        [] \<Rightarrow> None | rejected \<Rightarrow> Some (EventRejected (er_id (last rejected))))"

definition store_answers ::
  "daemon_env \<Rightarrow> string \<Rightarrow> agent_event list \<Rightarrow> event_result list \<Rightarrow> daemon \<Rightarrow> daemon_error option \<times> daemon" where
  "store_answers env cid batch items d =
     (let retained = retained_events items batch; discarded = (length retained < length (rejected_events items batch));
          (failed, d) = (case command d cid of
             None \<Rightarrow> (None, d)
           | Some c \<Rightarrow>
               (let d = put_command cid (c\<lparr>jc_events := retained @ drop (length batch) (jc_events c)\<rparr>) d
                in save_journal env (if discarded then markSpoolGapLocked d else d)))
      in case failed of
           Some f \<Rightarrow> (Some (StoreFailure f), d)
         | None \<Rightarrow>
             (let (failed, d) = (if discarded then save_state env d else (None, d))
              in case failed of Some f \<Rightarrow> (Some (StoreFailure f), d) | None \<Rightarrow> (rejection items, d)))"

text \<open>The first result tells whether the handler stops here, and with which error.\<close>

definition flush_events ::
  "daemon_env \<Rightarrow> string \<Rightarrow> agent_event list \<Rightarrow> daemon \<Rightarrow> (daemon_error option + unit) \<times> report list \<times> daemon" where
  "flush_events env cid events d =
     (if events = [] then (Inr (), [], d)
      else
        (let batch = take maximumEventBatch events
         in case SubmitEvents env batch d of
              (Inl e, d) \<Rightarrow> (Inl (Some e), [], d)
            | (Inr items, d) \<Rightarrow>
                (case store_answers env cid batch items d of
                   (Some e, d) \<Rightarrow> (Inl (Some e), [EventsReport batch], d)
                 | (None, d) \<Rightarrow>
                     (if length batch < length events then Inl None else Inr (), [EventsReport batch], d))))"

section \<open>Logs\<close>

definition update_command :: "string \<Rightarrow> (journal_command \<Rightarrow> journal_command) \<Rightarrow> daemon_env \<Rightarrow> daemon \<Rightarrow> store_error option \<times> daemon" where
  "update_command cid f env d =
     (case command d cid of None \<Rightarrow> (None, d) | Some c \<Rightarrow> save_journal env (put_command cid (f c) d))"

fun upload_chunks ::
  "daemon_env \<Rightarrow> string \<Rightarrow> string \<Rightarrow> string \<Rightarrow> nat \<Rightarrow> string list \<Rightarrow> daemon \<Rightarrow> daemon_error option \<times> report list \<times> daemon" where
  "upload_chunks env cid rid log_id n [] d = (None, [], d)"
| "upload_chunks env cid rid log_id n (chunk # rest) d =
     (case (de_request env (dm_tick d), tick d) of
        (Some e, d) \<Rightarrow> (Some e, [], d)
      | (None, d) \<Rightarrow>
          (let sent = ChunkReport rid log_id n (n * maximumLogChunk) chunk;
               (failed, d) = update_command cid (\<lambda>c. c\<lparr>jc_next_log_chunk := n + 1\<rparr>) env d
           in case failed of
                Some f \<Rightarrow> (Some (StoreFailure f), [sent], d)
              | None \<Rightarrow>
                  (let (e, sents, d) = upload_chunks env cid rid log_id (Suc n) rest d in (e, sent # sents, d))))"

definition completion_of :: "nat \<Rightarrow> journal_command \<Rightarrow> log_completion" where
  "completion_of generation c =
     \<lparr>lc_generation = generation, lc_total_bytes = jc_log_bytes c, lc_sha256 = jc_log_sha256 c,
      lc_chunk_count = jc_next_log_chunk c, lc_truncated = jc_log_truncated c,
      lc_dropped_bytes = jc_log_dropped_bytes c\<rparr>"

definition complete_log ::
  "daemon_env \<Rightarrow> string \<Rightarrow> string \<Rightarrow> string \<Rightarrow> daemon \<Rightarrow> daemon_error option \<times> report list \<times> daemon" where
  "complete_log env cid rid log_id d =
     (case command d cid of
        None \<Rightarrow> (None, [], d)
      | Some c \<Rightarrow>
          (case (de_request env (dm_tick d), tick d) of
             (Some e, d) \<Rightarrow> (Some e, [], d)
           | (None, d) \<Rightarrow>
               (let (failed, d) = update_command cid (\<lambda>c. c\<lparr>jc_log_completed := True\<rparr>) env d
                in (store_failed failed,
                    [LogReport rid log_id (completion_of (bs_generation (dm_bootstrap d)) c)], d))))"

definition flush_log :: "daemon_env \<Rightarrow> string \<Rightarrow> journal_command \<Rightarrow> daemon \<Rightarrow> daemon_error option \<times> report list \<times> daemon" where
  "flush_log env cid c d =
     (if jc_log_id c = [] \<or> jc_log_completed c then (None, [], d)
      else (case ReadChecksummedRunLog (jc_log_id c) (jc_log_sha256 c) (dm_store d) of
              Inl f \<Rightarrow> (Some (StoreFailure f), [], d)
            | Inr log \<Rightarrow>
                (let n = jc_next_log_chunk c
                 in case upload_chunks env cid (jc_run_id c) (jc_log_id c) n
                           (chunks maximumLogChunk (drop (n * maximumLogChunk) log)) d of
                      (Some e, sent, d) \<Rightarrow> (Some e, sent, d)
                    | (None, sent, d) \<Rightarrow>
                        (let (e, last_sent, d) = complete_log env cid (jc_run_id c) (jc_log_id c) d
                         in (e, sent @ last_sent, d)))))"

section \<open>Results\<close>

definition submit ::
  "daemon_env \<Rightarrow> string \<Rightarrow> report \<Rightarrow> daemon \<Rightarrow> daemon_error option \<times> report list \<times> daemon" where
  "submit env cid r d =
     (case (de_request env (dm_tick d), tick d) of
        (Some e, d) \<Rightarrow> (Some e, [], d)
      | (None, d) \<Rightarrow>
          (let (failed, d) = update_command cid (\<lambda>c. c\<lparr>jc_result_reported := True\<rparr>) env d
           in (store_failed failed, [r], d)))"

definition flush_result :: "daemon_env \<Rightarrow> string \<Rightarrow> journal_command \<Rightarrow> daemon \<Rightarrow> daemon_error option \<times> report list \<times> daemon" where
  "flush_result env cid c d =
     (if jc_result_reported c then (None, [], d)
      else (case (jc_update_result c, jc_result c) of
              (Some u, _) \<Rightarrow> submit env cid (UpdateReport cid u) d
            | (None, Some r) \<Rightarrow>
                submit env cid (ResultReport cid
                  (if ac_kind (jc_command c) = ''inspect_source'' then reported_inspection d r
                   else reported_result d r)) d
            | (None, None) \<Rightarrow> (None, [], d)))"

definition fully_reported :: "journal_command \<Rightarrow> bool" where
  "fully_reported c =
     (jc_result_reported c \<and> jc_events c = [] \<and> (jc_log_id c = [] \<or> jc_log_completed c)
      \<and> jc_replication_pending c = [])"

definition remove_log :: "daemon_env \<Rightarrow> string \<Rightarrow> daemon \<Rightarrow> daemon_error option \<times> daemon" where
  "remove_log env log_id d =
     (let (failed, fs) = (if log_id = [] then (None, dm_store d) else RemoveRunLog log_id (dm_store d));
          d = d\<lparr>dm_store := fs\<rparr>
      in case failed of
           Some f \<Rightarrow> (Some (StoreFailure f), d)
         | None \<Rightarrow> (store_failed (compactIfPressured (de_usage env (dm_tick d)) (de_write env (dm_tick d))), tick d))"

definition flush_removal :: "daemon_env \<Rightarrow> string \<Rightarrow> string \<Rightarrow> daemon \<Rightarrow> daemon_error option \<times> daemon" where
  "flush_removal env cid log_id d =
     (case command d cid of
        None \<Rightarrow> (None, d)
      | Some c \<Rightarrow>
          if \<not> fully_reported c then (None, d)
          else (case save_journal env (drop_command cid d) of
                  (Some f, d) \<Rightarrow> (Some (StoreFailure f), d)
                | (None, d) \<Rightarrow> remove_log env log_id d))"

definition flushCommand :: "daemon_env \<Rightarrow> string \<Rightarrow> daemon \<Rightarrow> daemon_error option \<times> report list \<times> daemon" where
  "flushCommand env cid d =
     (case command d cid of
        None \<Rightarrow> (None, [], d)
      | Some c \<Rightarrow>
          if \<not> jc_acknowledged c then (None, [], d)
          else (case flush_events env cid (jc_events c) d of
                  (Inl e, sent, d) \<Rightarrow> (e, sent, d)
                | (Inr _, sent, d) \<Rightarrow>
                    (case flush_log env cid c d of
                       (Some e, logs, d) \<Rightarrow> (Some e, sent @ logs, d)
                     | (None, logs, d) \<Rightarrow>
                         (case flush_result env cid c d of
                            (Some e, results, d) \<Rightarrow> (Some e, sent @ logs @ results, d)
                          | (None, results, d) \<Rightarrow>
                              (let (e, d) = flush_removal env cid (jc_log_id c) d
                               in (e, sent @ logs @ results, d))))))"

text \<open>The commands of this generation, in order; the first error is the one that is returned, and an error
  does not keep the commands after it from being reported.\<close>

fun flush_all :: "daemon_env \<Rightarrow> string list \<Rightarrow> daemon \<Rightarrow> daemon_error option \<times> report list \<times> daemon" where
  "flush_all env [] d = (None, [], d)"
| "flush_all env (cid # cids) d =
     (let (e, sent, d) = flushCommand env cid d; (e', sent', d) = flush_all env cids d
      in (case e of None \<Rightarrow> e' | Some _ \<Rightarrow> e, sent @ sent', d))"

definition flushJournal :: "daemon_env \<Rightarrow> daemon \<Rightarrow> daemon_error option \<times> report list \<times> daemon" where
  "flushJournal env d =
     (case save_journal env d of
        (Some f, d) \<Rightarrow> (Some (StoreFailure f), [], d)
      | (None, d) \<Rightarrow>
          flush_all env (sort (map fst (filter (\<lambda>(i, c). ac_generation (jc_command c) = bs_generation (dm_bootstrap d))
            (dm_journal d)))) d)"

definition reportJournal :: "daemon_env \<Rightarrow> daemon \<Rightarrow> daemon_error option \<times> report list \<times> daemon" where
  "reportJournal env d =
     (let (e, sent, d) = flushJournal env d; (e, d) = handleRequestError env e d in (e, sent, d))"

end
