(* ===== verification/LifeCycle.thy ===== *)
theory LifeCycle
  imports Reporting
begin

text \<open>
  The abstract machine the daemon implements. Its state is what the daemon works on (the journal, the
  runs, the flags, the goroutines), its steps are the moves a command can make: it appears, it is edited
  within its life cycle, an operation starts when nothing stands in its way, it ends, and it disappears.
  The lemmas at the end are the laws every run of the machine obeys.
\<close>

section \<open>What the daemon works on\<close>

definition work ::
  "daemon \<Rightarrow> (string, journal_command) gomap \<times> string list \<times> (string, string) gomap \<times> string list \<times> string list
     \<times> daemon_task list \<times> agent_update_runtime option" where
  "work d = (dm_journal d, dm_active d, dm_kinds d, dm_repositories d, dm_replication d, dm_tasks d,
     st_agent_update (dm_state d))"

lemma work_eq:
  "(work d = work d') =
     (dm_journal d = dm_journal d' \<and> dm_active d = dm_active d' \<and> dm_kinds d = dm_kinds d'
      \<and> dm_repositories d = dm_repositories d' \<and> dm_replication d = dm_replication d' \<and> dm_tasks d = dm_tasks d'
      \<and> st_agent_update (dm_state d) = st_agent_update (dm_state d'))"
  by (simp add: work_def)

section \<open>Commands\<close>

text \<open>The sequence numbers of the events increase and do not pass the last one that was given out.\<close>

definition sequenced :: "journal_command \<Rightarrow> bool" where
  "sequenced c = (sorted_wrt (<) (map ev_sequence (jc_events c)) \<and> (\<forall>e \<in> set (jc_events c). ev_sequence e \<le> jc_sequence c))"

text \<open>A command is received, runs, and is finished; only an update whose request could not be written goes
  back.\<close>

definition state_step :: "string \<Rightarrow> string \<Rightarrow> string \<Rightarrow> bool" where
  "state_step kind s s' =
     (s' = s \<or> s' = ''finished'' \<or> (s = ''received'' \<and> s' = ''running'')
      \<or> (kind = ''update_agent'' \<and> s = ''running'' \<and> s' = ''received''))"

definition edited :: "journal_command \<Rightarrow> journal_command \<Rightarrow> bool" where
  "edited c c' =
     (jc_command c' = jc_command c \<and> jc_run_id c' = jc_run_id c \<and> jc_trigger c' = jc_trigger c
      \<and> jc_scheduled_for c' = jc_scheduled_for c \<and> jc_sequence c \<le> jc_sequence c'
      \<and> state_step (ac_kind (jc_command c)) (jc_state c) (jc_state c') \<and> (sequenced c \<longrightarrow> sequenced c'))"

text \<open>A command in which only the events and the sequence have grown.\<close>

definition grown :: "journal_command \<Rightarrow> journal_command \<Rightarrow> bool" where
  "grown c c' =
     (c' = c\<lparr>jc_sequence := jc_sequence c', jc_events := jc_events c'\<rparr> \<and> jc_sequence c \<le> jc_sequence c'
      \<and> (sequenced c \<longrightarrow> sequenced c'))"

lemma grown_fields:
  assumes "grown c c'"
  shows "jc_command c' = jc_command c" "jc_run_id c' = jc_run_id c" "jc_trigger c' = jc_trigger c"
    "jc_scheduled_for c' = jc_scheduled_for c" "jc_state c' = jc_state c" "jc_run_kind c' = jc_run_kind c"
    "jc_result c' = jc_result c" "jc_replication_pending c' = jc_replication_pending c"
    "jc_job_snapshot c' = jc_job_snapshot c" "jc_replication_retry_at c' = jc_replication_retry_at c"
    "jc_sequence c \<le> jc_sequence c'" "sequenced c \<longrightarrow> sequenced c'" "jc_maintenance_plan c' = jc_maintenance_plan c"
proof -
  have eq: "c' = c\<lparr>jc_sequence := jc_sequence c', jc_events := jc_events c'\<rparr>" using assms by (simp add: grown_def)
  show "jc_command c' = jc_command c" "jc_run_id c' = jc_run_id c" "jc_trigger c' = jc_trigger c"
    "jc_scheduled_for c' = jc_scheduled_for c" "jc_state c' = jc_state c" "jc_run_kind c' = jc_run_kind c"
    "jc_result c' = jc_result c" "jc_replication_pending c' = jc_replication_pending c"
    "jc_job_snapshot c' = jc_job_snapshot c" "jc_replication_retry_at c' = jc_replication_retry_at c"
    "jc_maintenance_plan c' = jc_maintenance_plan c"
    by (subst eq, simp)+
  show "jc_sequence c \<le> jc_sequence c'" "sequenced c \<longrightarrow> sequenced c'" using assms by (simp_all add: grown_def)
qed

lemma grown_refl [simp]: "grown c c"
  by (simp add: grown_def)

lemma grown_trans: "grown a b \<Longrightarrow> grown b c \<Longrightarrow> grown a c"
  by (cases a, cases b, cases c) (simp add: grown_def)

lemma grown_next: "grown c (next_sequence c)"
  by (cases c) (auto simp: grown_def next_sequence_def sequenced_def)

lemma grown_add: "grown c (add_event i t k p (next_sequence c))"
  by (cases c) (auto simp: grown_def next_sequence_def add_event_def sequenced_def eventEnvelope_def sorted_wrt_append)

lemma grown_sequenced: "grown c c' \<Longrightarrow> sequenced c \<Longrightarrow> sequenced c'"
  by (simp add: grown_def)

text \<open>Sequences look at the events and the last number only.\<close>

lemma sequenced_cong:
  "jc_events c' = jc_events c \<Longrightarrow> jc_sequence c' = jc_sequence c \<Longrightarrow> sequenced c' = sequenced c"
  by (simp add: sequenced_def)

section \<open>The machine\<close>

text \<open>\<open>same_runs\<close>: the journal, the runs with their kinds, and the pending update are the same.\<close>

definition same_runs :: "daemon \<Rightarrow> daemon \<Rightarrow> bool" where
  "same_runs d d' =
     (dm_journal d' = dm_journal d \<and> dm_active d' = dm_active d \<and> dm_kinds d' = dm_kinds d
      \<and> st_agent_update (dm_state d') = st_agent_update (dm_state d))"

definition same_flags :: "daemon \<Rightarrow> daemon \<Rightarrow> bool" where
  "same_flags d d' =
     (dm_active d' = dm_active d \<and> dm_kinds d' = dm_kinds d \<and> dm_repositories d' = dm_repositories d
      \<and> dm_replication d' = dm_replication d \<and> dm_tasks d' = dm_tasks d)"

inductive life :: "daemon \<Rightarrow> daemon \<Rightarrow> bool" where
  quiet: "work d' = work d \<Longrightarrow> life d d'"
| update: "dm_journal d' = dm_journal d \<Longrightarrow> same_flags d d' \<Longrightarrow> life d d'"
| add: "command d cid = None \<or> jc_trigger c = ''scheduled'' \<Longrightarrow> jc_state c \<in> {''received'', ''finished''} \<Longrightarrow> sequenced c \<Longrightarrow>
    work d' = work (put_command cid c d) \<Longrightarrow> life d d'"
| edit: "command d cid = Some c \<Longrightarrow> edited c c' \<Longrightarrow> work d' = work (put_command cid c' d) \<Longrightarrow> life d d'"
| drop: "dm_journal d' = filter P (dm_journal d) \<Longrightarrow> same_flags d d' \<Longrightarrow>
    st_agent_update (dm_state d') = st_agent_update (dm_state d) \<Longrightarrow> life d d'"
| start: "\<not> updating d \<Longrightarrow> command d cid = Some c \<Longrightarrow> jc_state c = ''received'' \<Longrightarrow> edited c c' \<Longrightarrow>
    jc_state c' = ''running'' \<Longrightarrow> \<not> operation_blocked d j (jc_run_kind c') \<Longrightarrow>
    work d' = work (occupy cid j' c' (put_command cid c' d)) \<Longrightarrow> life d d'"
| release: "work d' = work (release_run rid j d) \<Longrightarrow> life d d'"
| engage: "\<not> updating d \<Longrightarrow> same_runs d d' \<Longrightarrow> life d d'"
| disengage: "same_runs d d' \<Longrightarrow> set (dm_tasks d') \<subseteq> set (dm_tasks d) \<Longrightarrow> life d d'"

abbreviation lives :: "daemon \<Rightarrow> daemon \<Rightarrow> bool" where
  "lives d d' \<equiv> life\<^sup>*\<^sup>* d d'"

inductive_cases life_cases: "life d d'"

lemma lives_trans: "lives d d' \<Longrightarrow> lives d' d'' \<Longrightarrow> lives d d''"
  by (rule rtranclp_trans)

lemma lives_quiet: "work d' = work d \<Longrightarrow> lives d d'"
  by (blast intro: life.quiet)

section \<open>Laws of the machine\<close>

lemma mem_mput: "(k', v') \<in> set (mput k v m) \<Longrightarrow> (k' = k \<and> v' = v) \<or> (k', v') \<in> set m"
  using set_mput by fastforce

definition well_kept :: "daemon \<Rightarrow> bool" where
  "well_kept d =
     (distinct (mkeys (dm_journal d)) \<and> (\<forall>(i, c) \<in> set (dm_journal d). sequenced c)
      \<and> mcount (\<lambda>k. k = ''backup'') (dm_kinds d) \<le> 2 \<and> mcount (\<lambda>k. k \<noteq> ''backup'') (dm_kinds d) \<le> 1)"

lemma mcount_start:
  assumes "\<not> operation_blocked d j kind"
    and "mcount (\<lambda>k. k = ''backup'') (dm_kinds d) \<le> 2" "mcount (\<lambda>k. k \<noteq> ''backup'') (dm_kinds d) \<le> 1"
  shows "mcount (\<lambda>k. k = ''backup'') (mput rid kind (dm_kinds d)) \<le> 2"
    "mcount (\<lambda>k. k \<noteq> ''backup'') (mput rid kind (dm_kinds d)) \<le> 1"
proof -
  have "\<not> capacity_reached d kind" using assms(1) by (simp add: operation_blocked_def)
  then have room: "kind = ''backup'' \<Longrightarrow> mcount (\<lambda>k. k = ''backup'') (dm_kinds d) < 2"
    "kind \<noteq> ''backup'' \<Longrightarrow> mcount (\<lambda>k. k \<noteq> ''backup'') (dm_kinds d) < 1"
    by (auto simp: capacity_reached_def activeCountsLocked_def)
  show "mcount (\<lambda>k. k = ''backup'') (mput rid kind (dm_kinds d)) \<le> 2"
    using mcount_mput_le [of "\<lambda>k. k = ''backup''" rid kind "dm_kinds d"]
      mcount_mput_other [of "\<lambda>k. k = ''backup''" kind rid "dm_kinds d"] room assms(2) by fastforce
  show "mcount (\<lambda>k. k \<noteq> ''backup'') (mput rid kind (dm_kinds d)) \<le> 1"
    using mcount_mput_le [of "\<lambda>k. k \<noteq> ''backup''" rid kind "dm_kinds d"]
      mcount_mput_other [of "\<lambda>k. k \<noteq> ''backup''" kind rid "dm_kinds d"] room assms(3) by fastforce
qed

lemma well_kept_put:
  assumes "\<forall>(i, c) \<in> set m. sequenced c" "sequenced c"
  shows "\<forall>(i, c) \<in> set (mput cid c m). sequenced c"
  using assms by (auto dest!: mem_mput)

lemma well_kept_life: "life d d' \<Longrightarrow> well_kept d \<Longrightarrow> well_kept d'"
proof (induction rule: life.induct)
  case (add d cid c d')
  then have "\<forall>(i, c) \<in> set (mput cid c (dm_journal d)). sequenced c"
    by (intro well_kept_put) (simp_all add: well_kept_def)
  with add show ?case by (simp add: well_kept_def work_eq put_command_def distinct_mput)
next
  case (edit d cid c c' d')
  then have "sequenced c'" by (auto simp: well_kept_def edited_def dest: mget_Some_in)
  with edit have "\<forall>(i, c) \<in> set (mput cid c' (dm_journal d)). sequenced c"
    by (intro well_kept_put) (simp_all add: well_kept_def)
  with edit show ?case by (simp add: well_kept_def work_eq put_command_def distinct_mput)
next
  case (drop d' P d)
  then show ?case by (auto simp: well_kept_def same_flags_def intro: distinct_map_filter)
next
  case (start d cid c c' j d' j')
  then have "sequenced c'" by (auto simp: well_kept_def edited_def dest: mget_Some_in)
  with start have "\<forall>(i, c) \<in> set (mput cid c' (dm_journal d)). sequenced c"
    by (intro well_kept_put) (simp_all add: well_kept_def)
  with start show ?case
    using mcount_start [OF start.hyps(6), of "jc_run_id c'"]
    by (simp add: well_kept_def work_eq put_command_def occupy_def distinct_mput)
next
  case (release d' rid j d)
  have "mcount P (mdel rid (dm_kinds d)) \<le> mcount P (dm_kinds d)" for P by (rule mcount_mdel_le)
  with release show ?case by (auto simp: well_kept_def work_eq release_run_def intro: le_trans)
qed (auto simp: well_kept_def work_eq same_runs_def same_flags_def)

interpretation machine: step_invariant life well_kept
  by unfold_locales (rule well_kept_life)

text \<open>A command that is finished stays so until it disappears; only a scheduled run that drew the same
  identity could take its place.\<close>

lemma finished_life:
  "life d d' \<Longrightarrow> command d cid = Some c \<Longrightarrow> jc_state c = ''finished'' \<Longrightarrow> well_kept d \<Longrightarrow>
   command d' cid = None \<or> (\<exists>c'. command d' cid = Some c' \<and> (jc_state c' = ''finished'' \<or> jc_trigger c' = ''scheduled''))"
proof (induction rule: life.induct)
  case (drop d' P d)
  have "mget (filter P (dm_journal d)) cid \<noteq> None \<Longrightarrow> mget (filter P (dm_journal d)) cid = mget (dm_journal d) cid"
    using drop(6) by (auto simp: well_kept_def distinct_map_filter dest!: map_of_SomeD)
  with drop show ?case by (cases "command d' cid") auto
qed (auto simp: work_eq put_command_def occupy_def release_run_def same_runs_def same_flags_def edited_def state_step_def)

text \<open>While an update is pending no run and no goroutine begins.\<close>

lemma drained_life:
  "life d d' \<Longrightarrow> updating d \<Longrightarrow> set (dm_active d') \<subseteq> set (dm_active d) \<and> set (dm_tasks d') \<subseteq> set (dm_tasks d)"
  by (induction rule: life.induct)
    (auto simp: work_eq put_command_def release_run_def same_runs_def same_flags_def)

end
