(* ===== verification/Sections.thy ===== *)
theory Sections
  imports LifeCycle StateDbFacts
begin

text \<open>
  The critical sections and handlers of the daemon are runs of the abstract machine. First the operations
  that leave the work of the daemon alone, then the events, then each section and each handler.
\<close>

named_theorems framed \<open>operations that leave the work of the daemon alone\<close>
named_theorems lived \<open>sections that are runs of the machine\<close>

section \<open>Operations that leave the work alone\<close>

lemma work_simps [simp]:
  "work (tick d) = work d" "work (d\<lparr>dm_store := s\<rparr>) = work d" "work (d\<lparr>dm_tick := n\<rparr>) = work d"
  "work (d\<lparr>dm_cancelled := xs\<rparr>) = work d" "work (d\<lparr>dm_last_minute := t\<rparr>) = work d"
  "work (d\<lparr>dm_reconciled := b\<rparr>) = work d" "work (d\<lparr>dm_metadata := m\<rparr>) = work d"
  "work (d\<lparr>dm_config := cf\<rparr>) = work d" "work (cancel_all d) = work d" "work (markSpoolGapLocked d) = work d"
  "work (put_runtime r rt d) = work d" "work (cancel_runs rids d) = work d"
  by (simp_all add: work_def tick_def cancel_all_def markSpoolGapLocked_def put_runtime_def cancel_runs_def)

lemma work_state [simp]:
  "st_agent_update s = st_agent_update (dm_state d) \<Longrightarrow> work (d\<lparr>dm_state := s\<rparr>) = work d"
  by (simp add: work_def)

lemma read_now_frame [framed]: "read_now env d = (t, d') \<Longrightarrow> work d' = work d"
  by (auto simp: read_now_def)

lemma draw_ulid_at_frame [framed]: "draw_ulid_at env t d = (u, d') \<Longrightarrow> work d' = work d"
  by (auto simp: draw_ulid_at_def)

lemma draw_ulid_frame [framed]: "draw_ulid env d = (u, d') \<Longrightarrow> work d' = work d"
  by (auto simp: draw_ulid_def read_now_def draw_ulid_at_def Let_def)

lemma write_store_frame [framed]: "write_store env action d = (e, d') \<Longrightarrow> work d' = work d"
  by (auto simp: write_store_def split: prod.splits)

lemma save_journal_frame [framed]: "save_journal env d = (e, d') \<Longrightarrow> work d' = work d"
  unfolding save_journal_def by (rule write_store_frame)

lemma save_state_frame [framed]: "save_state env d = (e, d') \<Longrightarrow> work d' = work d"
  unfolding save_state_def by (rule write_store_frame)

lemma save_frames [simp]: "work (snd (save_journal env d)) = work d" "work (snd (save_state env d)) = work d"
  using save_journal_frame save_state_frame by (metis prod.collapse)+

lemma read_store_frame [framed]: "read_store env view d = (x, d') \<Longrightarrow> work d' = work d"
  by (auto simp: read_store_def)

lemma can_accept_frame [framed]: "can_accept env n d = (x, d') \<Longrightarrow> work d' = work d"
  by (auto simp: can_accept_def)

lemma write_run_log_frame [framed]: "write_run_log env i s d = (x, d') \<Longrightarrow> work d' = work d"
  by (auto simp: write_run_log_def split: prod.splits)

lemma run_restic_frame [framed]: "run_restic env rq d = (x, d') \<Longrightarrow> work d' = work d"
  by (auto simp: run_restic_def)

lemma write_log_frame [framed]: "write_log env log d = (x, d') \<Longrightarrow> work d' = work d"
  by (auto simp: write_log_def Let_def dest!: framed split: prod.splits option.splits)

lemma skip_occurrence_frame [framed]: "skip_occurrence env a b c st d = (e, d') \<Longrightarrow> work d' = work d"
  by (auto simp: skip_occurrence_def dest: framed)

lemma record_outcome_work [simp]: "work (recordOutcomeLocked env j r d) = work d"
  by (simp add: recordOutcomeLocked_def Let_def)

lemma save_finished_work [simp]: "work (save_finished env d) = work d"
  by (auto simp: save_finished_def dest: framed split: prod.splits)

lemma accept_jobs_work [simp]: "work (accept_jobs cf js d) = work d"
  by (induction js arbitrary: d) simp_all

lemma handle_error_frame [framed]: "handleRequestError env e d = (x, d') \<Longrightarrow> work d' = work d"
  by (auto simp: handleRequestError_def Let_def dest!: framed split: option.splits if_splits prod.splits)

lemma clear_pause_frame [framed]: "clearAuthenticationPause env d = (x, d') \<Longrightarrow> work d' = work d"
  by (auto simp: clearAuthenticationPause_def Let_def dest!: framed split: if_splits prod.splits)

lemma observe_time_work [simp]: "work (observeServerTime env s h d) = work d"
  by (simp add: observeServerTime_def Let_def)

lemma heartbeat_frame [framed]: "sendHeartbeat env d = (b, e, d') \<Longrightarrow> work d' = work d"
  by (auto simp: sendHeartbeat_def heartbeat_answered_def Let_def dest!: framed
      split: option.splits if_splits prod.splits)

section \<open>Events\<close>

lemma emit_grown: "emit env t k p c d = (ok, c', d') \<Longrightarrow> grown c c' \<and> work d' = work d"
  by (auto simp: emit_def Let_def grown_next grown_add dest!: framed split: prod.splits option.splits)

lemma emit_now_grown: "emit_now env k p c d = (ok, c', d') \<Longrightarrow> grown c c' \<and> work d' = work d"
  by (auto simp: emit_now_def Let_def grown_next grown_add dest!: framed split: prod.splits option.splits)

lemma evidence_chunks_grown: "evidence_chunks env t ms n ids c d = (c', d') \<Longrightarrow> grown c c' \<and> work d' = work d"
proof (induction ids arbitrary: n c d)
  case (Cons x ids)
  obtain ok c1 d1 where e: "emit env t ''snapshot_inventory_chunk''
      (ms @ [(''chunk_index'', json_nat n), (''snapshot_ids'', json_of_strings x)]) c d = (ok, c1, d1)"
    by (cases "emit env t ''snapshot_inventory_chunk''
      (ms @ [(''chunk_index'', json_nat n), (''snapshot_ids'', json_of_strings x)]) c d") auto
  with Cons.prems have "if ok then evidence_chunks env t ms (Suc n) ids c1 d1 = (c', d') else (c', d') = (c1, d1)"
    by auto
  then show ?case using emit_grown [OF e] Cons.IH by (auto split: if_splits intro: grown_trans)
qed simp

lemma repository_evidence_grown:
  "appendRepositorySnapshotEvidenceEvents env r c d = (c', d') \<Longrightarrow> grown c c' \<and> work d' = work d"
  unfolding appendRepositorySnapshotEvidenceEvents_def by (auto split: option.splits dest: evidence_chunks_grown)

lemma append_repositories_grown: "append_repositories env rs c d = (c', d') \<Longrightarrow> grown c c' \<and> work d' = work d"
proof (induction rs arbitrary: c d)
  case (Cons r rs)
  obtain c1 d1 where e: "appendRepositorySnapshotEvidenceEvents env r c d = (c1, d1)" by fastforce
  with Cons.prems have "append_repositories env rs c1 d1 = (c', d')" by simp
  then show ?case using repository_evidence_grown [OF e] Cons.IH by (auto intro: grown_trans)
qed simp

lemma evidence_grown: "appendSnapshotEvidenceEvents env r c d = (c', d') \<Longrightarrow> grown c c' \<and> work d' = work d"
  unfolding appendSnapshotEvidenceEvents_def
  by (auto split: option.splits if_splits dest: evidence_chunks_grown append_repositories_grown)

lemma skew_grown: "skew_event env c d = (c', d') \<Longrightarrow> grown c c' \<and> work d' = work d"
  unfolding skew_event_def Let_def using emit_now_grown by (metis grown_refl prod.collapse prod.inject)

text \<open>An edit is a grown command whose state and bookkeeping were changed besides.\<close>

lemma grown_edited: "grown c c' \<Longrightarrow> edited c c'"
  by (auto simp: edited_def state_step_def dest: grown_fields)

lemma edited_refl [simp]: "edited c c"
  by (simp add: edited_def state_step_def)

lemma edited_grown: "edited a b \<Longrightarrow> grown b c \<Longrightarrow> edited a c"
  using grown_fields [of b c] unfolding edited_def by (auto intro: le_trans)

lemma grown_edited_trans: "grown a b \<Longrightarrow> edited b c \<Longrightarrow> edited a c"
  using grown_fields [of a b] unfolding edited_def by (auto intro: le_trans)

text \<open>Changes of other fields.\<close>

definition touched :: "journal_command \<Rightarrow> journal_command \<Rightarrow> bool" where
  "touched c c' =
     (jc_command c' = jc_command c \<and> jc_run_id c' = jc_run_id c \<and> jc_trigger c' = jc_trigger c
      \<and> jc_scheduled_for c' = jc_scheduled_for c \<and> jc_sequence c' = jc_sequence c \<and> jc_events c' = jc_events c)"

lemma edited_touched:
  "edited a b \<Longrightarrow> touched b c \<Longrightarrow> state_step (ac_kind (jc_command a)) (jc_state a) (jc_state c) \<Longrightarrow> edited a c"
  using sequenced_cong [of c b] unfolding edited_def touched_def by auto

lemma touched_edited: "touched a b \<Longrightarrow> state_step (ac_kind (jc_command a)) (jc_state a) (jc_state b) \<Longrightarrow> edited a b"
  using edited_touched [of a a b] by simp

lemma step_finished [simp]: "state_step k s ''finished''" "state_step k s s" "state_step k ''received'' ''running''"
  by (simp_all add: state_step_def)

section \<open>Moves\<close>

lemma work_put: "work d' = work d \<Longrightarrow> work (put_command i c d') = work (put_command i c d)"
  by (simp add: work_eq put_command_def)

lemma lives_edit:
  "command d cid = Some c \<Longrightarrow> edited c c' \<Longrightarrow> work d' = work (put_command cid c' d) \<Longrightarrow> lives d d'"
  by (blast intro: life.edit)

lemma put_twice [simp]: "put_command i c (put_command i c0 d) = put_command i c d"
  by (simp add: put_command_def update_Some_unfold)

lemma command_work: "work d' = work d \<Longrightarrow> command d' = command d"
  by (simp add: work_eq)

lemma drop_put: "command d cid = None \<Longrightarrow> work (drop_command cid (put_command cid c d)) = work d"
  by (force simp: work_eq drop_command_def put_command_def mput_new map_of_eq_None_iff AList.delete_eq filter_id_conv)

lemma work_drop: "work d' = work d \<Longrightarrow> work (drop_command i d') = work (drop_command i d)"
  by (simp add: work_eq drop_command_def)

lemma work_update: "work d' = work d \<Longrightarrow> work (set_update u d') = work (set_update u d)"
  by (simp add: work_eq set_update_def)

lemma work_update_own: "work d' = work d \<Longrightarrow> work (set_update (st_agent_update (dm_state d)) d') = work d"
  by (simp add: work_eq set_update_def)

lemma lives_update: "lives d (set_update u d)"
  by (rule r_into_rtranclp, rule life.update) (simp_all add: set_update_def same_flags_def)

lemma lives_drop: "lives d (drop_command cid d)"
  by (rule r_into_rtranclp, rule life.drop [where P = "\<lambda>e. cid \<noteq> fst e"])
    (auto simp: drop_command_def AList.delete_eq same_flags_def case_prod_unfold)

lemma lives_work: "lives d d1 \<Longrightarrow> work d2 = work d1 \<Longrightarrow> lives d d2"
  by (blast intro: lives_trans lives_quiet)

lemma work_lives: "work d1 = work d \<Longrightarrow> lives d1 d2 \<Longrightarrow> lives d d2"
  by (blast intro: lives_trans lives_quiet)

section \<open>Receiving\<close>

lemma received_sequenced [simp]: "sequenced (received_command c rid now)"
  by (simp add: sequenced_def received_command_def zero_journal_command_def)

lemma note_update_work:
  assumes "note_update env c rid d1 = (e, d')" "work d1 = work (put_command (ac_id c) cc d)" "command d (ac_id c) = None"
  shows "lives d1 d' \<or> work d' = work d"
proof -
  obtain now d2 where now: "read_now env d1 = (now, d2)" by fastforce
  define u where "u = Some \<lparr>au_command_id = ac_id c, au_run_id = rid,
    au_target_version = cp_target_version (ac_payload c), au_started_at = protocolTimestamp now,
    au_last_schedule_minute = protocolTimestamp (dm_last_minute d2)\<rparr>"
  obtain f d3 where save: "save_state env (set_update u d2) = (f, d3)" by fastforce
  have w2: "work d2 = work d1" using now by (rule framed)
  have w3: "work d3 = work (set_update u d1)" using save_state_frame [OF save] work_update [OF w2] by simp
  show ?thesis
  proof (cases f)
    case None
    then have "d' = d3" using assms(1) now save by (simp add: note_update_def u_def)
    then show ?thesis using lives_work [OF lives_update w3] by blast
  next
    case (Some x)
    have au: "st_agent_update (dm_state d1) = st_agent_update (dm_state d)"
      using assms(2) by (simp add: work_eq put_command_def)
    have "st_agent_update (dm_state d2) = st_agent_update (dm_state d1)"
      "d' = snd (save_journal env (drop_command (ac_id c) (set_update (st_agent_update (dm_state d1)) d3)))"
      using assms(1) now save Some by (auto simp: note_update_def u_def read_now_def tick_def)
    then have "work d' = work (drop_command (ac_id c) (set_update (st_agent_update (dm_state d1)) d3))"
      by (simp only: save_frames)
    also have "\<dots> = work (drop_command (ac_id c) (put_command (ac_id c) cc d))"
      using w3 assms(2) au by (simp add: work_eq drop_command_def set_update_def put_command_def)
    finally show ?thesis using drop_put [OF assms(3)] by simp
  qed
qed

lemma receive_lives: "receiveCommand env c d = (e, d') \<Longrightarrow> lives d d'"
proof (cases "command d (ac_id c)")
  case (Some x)
  moreover assume "receiveCommand env c d = (e, d')"
  ultimately show ?thesis by (simp add: receiveCommand_def)
next
  case None
  assume r: "receiveCommand env c d = (e, d')"
  obtain u d1 where id: "receive_run_id env c d = (u, d1)" by fastforce
  have w1: "work d1 = work d" using id by (auto simp: receive_run_id_def dest: framed split: if_splits)
  show ?thesis
  proof (cases u)
    case None': None
    with r None id w1 show ?thesis by (auto simp: receiveCommand_def intro: lives_quiet)
  next
    case (Some rid)
    obtain now d2 where now: "read_now env d1 = (now, d2)" by fastforce
    let ?c = "received_command c rid now"
    obtain f d3 where save: "save_journal env (put_command (ac_id c) ?c d2) = (f, d3)" by fastforce
    have w2: "work d2 = work d" using read_now_frame [OF now] w1 by simp
    have w3: "work d3 = work (put_command (ac_id c) ?c d)" using save_journal_frame [OF save] work_put [OF w2] by simp
    have state: "jc_state ?c = ''received''" by (simp add: received_command_def)
    have added: "lives d d3" using w3 None state by (blast intro: life.add received_sequenced)
    show ?thesis
    proof (cases f)
      case (Some x)
      then have "d' = drop_command (ac_id c) d3"
        using r None id \<open>u = Some rid\<close> now save by (simp add: receiveCommand_def)
      then have "work d' = work d" using work_drop [OF w3] drop_put [OF None, of ?c] by simp
      then show ?thesis by (rule lives_quiet)
    next
      case no_error: None
      then have "(if ac_kind c = ''update_agent'' then note_update env c rid d3 else (None, d3)) = (e, d')"
        using r None id \<open>u = Some rid\<close> now save by (simp add: receiveCommand_def)
      then show ?thesis using note_update_work [OF _ w3 None, of env rid e d'] added
        by (auto split: if_splits intro: lives_trans lives_quiet)
    qed
  qed
qed

section \<open>Starting\<close>

text \<open>What starting an operation does to a command: an edit, or an edit to running with the flags taken.\<close>

definition started :: "daemon \<Rightarrow> string \<Rightarrow> journal_command \<Rightarrow> daemon \<Rightarrow> bool" where
  "started d cid c d' =
     (\<exists>c'. edited c c' \<and>
        (work d' = work (put_command cid c' d)
         \<or> (jc_state c' = ''running'' \<and> jc_run_kind c' = jc_run_kind c
            \<and> (\<exists>j'. work d' = work (occupy cid j' c' (put_command cid c' d))))))"

lemma work_occupy: "work d1 = work d2 \<Longrightarrow> work (occupy cid j c d1) = work (occupy cid j c d2)"
  by (simp add: work_eq occupy_def)

lemma started_edit: "edited c c' \<Longrightarrow> work d' = work (put_command cid c' d) \<Longrightarrow> started d cid c d'"
  unfolding started_def by blast

lemma launch_started:
  assumes "launch_operation env cid j c d = (e, d')" and "jc_state c = ''received''"
  shows "started d cid c d'"
proof -
  obtain ok c1 d1 where em: "emit_now env ''run_started'' [] (c\<lparr>jc_state := ''running''\<rparr>) d = (ok, c1, d1)"
    by (cases "emit_now env ''run_started'' [] (c\<lparr>jc_state := ''running''\<rparr>) d") auto
  have g1: "grown (c\<lparr>jc_state := ''running''\<rparr>) c1" and w1: "work d1 = work d" using emit_now_grown [OF em] by simp_all
  have run: "edited c (c\<lparr>jc_state := ''running''\<rparr>)" by (rule touched_edited) (simp_all add: touched_def assms(2))
  then have e1: "edited c c1" using g1 by (rule edited_grown)
  show ?thesis
  proof (cases ok)
    case False
    then have "d' = put_command cid c1 d1" using assms(1) em by (simp add: launch_operation_def)
    then show ?thesis using started_edit [OF e1] work_put [OF w1] by blast
  next
    case True
    obtain c2 d2 where sk: "skew_event env c1 d1 = (c2, d2)" by fastforce
    obtain f d3 where save: "save_journal env (put_command cid c2 d2) = (f, d3)" by fastforce
    have g2: "grown c1 c2" and w2: "work d2 = work d" using skew_grown [OF sk] w1 by simp_all
    have w3: "work d3 = work (put_command cid c2 d)" using save_journal_frame [OF save] work_put [OF w2] by simp
    have e2: "edited c c2" using e1 g2 by (rule edited_grown)
    show ?thesis
    proof (cases f)
      case None
      then have "d' = occupy cid j c2 d3" using assms(1) em True sk save by (simp add: launch_operation_def)
      moreover have "jc_state c2 = ''running''" "jc_run_kind c2 = jc_run_kind c"
        using grown_fields [OF grown_trans [OF g1 g2]] by simp_all
      ultimately show ?thesis using e2 w3 unfolding started_def by (metis work_occupy)
    next
      case (Some x)
      let ?c3 = "c2\<lparr>jc_state := ''received'', jc_sequence := jc_sequence c, jc_events := jc_events c\<rparr>"
      have "d' = put_command cid ?c3 d3" using assms(1) em True sk save Some by (simp add: launch_operation_def)
      moreover have "edited c ?c3"
        using grown_fields [OF grown_trans [OF g1 g2]] assms(2) by (intro touched_edited) (simp_all add: touched_def)
      moreover have "work (put_command cid ?c3 d3) = work (put_command cid ?c3 d)"
        using work_put [OF w3, of cid ?c3] by (simp only: put_twice)
      ultimately show ?thesis using started_edit by blast
    qed
  qed
qed

lemma started_touched:
  assumes "started d cid b d'" "edited a b" "jc_state a = ''received''" "jc_state b = ''received''" "jc_run_kind b = jc_run_kind a"
  shows "started d cid a d'"
proof -
  have "edited b c \<Longrightarrow> edited a c" for c
    using assms(2-4) unfolding edited_def by (auto intro: le_trans)
  with assms(1,5) show ?thesis unfolding started_def by metis
qed

lemma begin_started:
  assumes "begin_operation env cid j c d = (e, d')" and "jc_state c = ''received''"
  shows "started d cid c d'"
proof -
  let ?c = "c\<lparr>jc_config_revision := cp_required_config_revision (ac_payload (jc_command c))\<rparr>"
  have t: "edited c ?c" "edited c (?c\<lparr>jc_job_snapshot := s\<rparr>)" for s
    by (rule touched_edited; simp add: touched_def)+
  show ?thesis
  proof (cases "jc_job_snapshot c = NoSnapshot")
    case False
    with assms show ?thesis by (auto simp: begin_operation_def intro: launch_started)
  next
    case True
    show ?thesis
    proof (cases "encodeJobSnapshot j")
      case None
      then have "d' = put_command cid ?c d" using assms True by (simp add: begin_operation_def)
      then show ?thesis using started_edit [OF t(1)] by simp
    next
      case (Some s)
      then have "launch_operation env cid j (?c\<lparr>jc_job_snapshot := s\<rparr>) d = (e, d')"
        using assms True by (simp add: begin_operation_def)
      then have "started d cid (?c\<lparr>jc_job_snapshot := s\<rparr>) d'" by (rule launch_started) (simp add: assms)
      then show ?thesis by (rule started_touched [OF _ t(2)]) (simp_all add: assms)
    qed
  qed
qed

lemma prepare_touched:
  assumes "prepareMaintenanceLocked env j c d = (j', c', d')"
  shows "touched c c' \<and> jc_state c' = jc_state c \<and> jc_run_kind c' = jc_run_kind c \<and> work d' = work d"
  using assms unfolding prepareMaintenanceLocked_def Let_def
  by (auto simp: touched_def dest!: framed split: if_splits prod.splits)

lemma put_own: "command d cid = Some c \<Longrightarrow> put_command cid c d = d"
  by (simp add: put_command_def mput_same)

lemma command_put [simp]: "command (put_command cid c d) i = (if i = cid then Some c else command d i)"
  by (simp add: put_command_def)

lemma updating_work: "work d' = work d \<Longrightarrow> updating d' = updating d"
  by (simp add: work_eq)

lemma blocked_work: "work d' = work d \<Longrightarrow> operation_blocked d' j k = operation_blocked d j k"
  by (simp add: work_eq operation_blocked_def hasPendingReplicationLocked_def capacity_reached_def activeCountsLocked_def)

lemma prepare_operation_work:
  assumes "prepare_operation env cid j c d = ((f, j', c'), d')" "command d cid = Some c"
  shows "touched c c' \<and> jc_state c' = jc_state c \<and> jc_run_kind c' = jc_run_kind c \<and> work d' = work (put_command cid c' d)"
proof (cases "jc_run_kind c = ''backup''")
  case True
  with assms show ?thesis by (simp add: prepare_operation_def touched_def put_own)
next
  case False
  obtain j1 c1 d1 where p: "prepareMaintenanceLocked env j c d = (j1, c1, d1)"
    by (cases "prepareMaintenanceLocked env j c d") auto
  obtain f1 d2 where save: "save_state env (put_command cid c1 d1) = (f1, d2)" by fastforce
  have "c' = c1" "d' = d2" using assms(1) False p save by (simp_all add: prepare_operation_def)
  moreover have "work d2 = work (put_command cid c1 d)"
    using save_state_frame [OF save] work_put [of d1 d] prepare_touched [OF p] by metis
  ultimately show ?thesis using prepare_touched [OF p] by simp
qed

lemma started_lives:
  assumes "started d cid c d'" "command d cid = Some c" "\<not> updating d" "jc_state c = ''received''"
    "\<not> operation_blocked d j (jc_run_kind c)"
  shows "lives d d'"
proof -
  obtain c' where e: "edited c c'" and cases: "work d' = work (put_command cid c' d) \<or>
      (jc_state c' = ''running'' \<and> jc_run_kind c' = jc_run_kind c
       \<and> (\<exists>j'. work d' = work (occupy cid j' c' (put_command cid c' d))))"
    using assms(1) unfolding started_def by blast
  from cases show ?thesis
  proof
    assume "work d' = work (put_command cid c' d)"
    with assms(2) e show ?thesis by (rule lives_edit)
  next
    assume "jc_state c' = ''running'' \<and> jc_run_kind c' = jc_run_kind c
      \<and> (\<exists>j'. work d' = work (occupy cid j' c' (put_command cid c' d)))"
    then obtain j' where "jc_state c' = ''running''" "jc_run_kind c' = jc_run_kind c"
      "work d' = work (occupy cid j' c' (put_command cid c' d))" by blast
    then have "life d d'" using life.start [OF assms(3,2,4) e, of j d' j'] assms(5) by simp
    then show ?thesis by blast
  qed
qed

lemma start_operation_lives [lived]: "startOperation env cid j d = (e, d') \<Longrightarrow> lives d d'"
proof -
  assume s: "startOperation env cid j d = (e, d')"
  obtain room d1 where room: "can_accept env criticalRunRecordEstimate d = (room, d1)" by fastforce
  have w1: "work d1 = work d" using room by (rule framed)
  show ?thesis
  proof (cases "\<not> room \<or> updating d1 \<or> command d1 cid = None \<or> jc_state (the (command d1 cid)) \<noteq> ''received''")
    case True
    with s room have "d' = d1" by (auto simp: startOperation_def split: option.splits if_splits)
    with w1 show ?thesis by (simp add: lives_quiet)
  next
    case False
    then obtain c0 where c0: "command d1 cid = Some c0" "jc_state c0 = ''received''" "\<not> updating d1" room by auto
    define c where "c = with_kind c0"
    define d2 where "d2 = put_command cid c d1"
    have c: "jc_state c = ''received''" "edited c0 c" "command d2 cid = Some c" "\<not> updating d2"
      using c0 touched_edited [of c0 c]
      by (simp_all add: c_def d2_def with_kind_def touched_def put_command_def)
    have l2: "lives d d2" using work_lives [OF w1] lives_edit [OF c0(1) c(2), of d2] by (simp add: d2_def)
    show ?thesis
    proof (cases "operation_blocked d2 j (jc_run_kind c)")
      case True
      with s room c0 have "d' = d2" by (simp add: startOperation_def c_def d2_def)
      with l2 show ?thesis by simp
    next
      case unblocked: False
      obtain f j3 c3 d3 where p: "prepare_operation env cid j c d2 = ((f, j3, c3), d3)" by (metis prod.collapse)
      note pw = prepare_operation_work [OF p c(3)]
      have e3: "edited c c3" using pw by (intro touched_edited) simp_all
      show ?thesis
      proof (cases f)
        case (Some x)
        with s room c0 unblocked p have "d' = d3" by (simp add: startOperation_def c_def d2_def)
        with l2 lives_edit [OF c(3) e3] pw show ?thesis by (blast intro: lives_trans)
      next
        case None
        with s room c0 unblocked p have b: "begin_operation env cid j3 c3 d3 = (e, d')"
          by (simp add: startOperation_def c_def d2_def)
        have "jc_state c3 = ''received''" using pw c by simp
        with b have s3: "started d3 cid c3 d'" by (rule begin_started)
        have put: "work (put_command cid c' d3) = work (put_command cid c' d2)" for c'
          using work_put [of d3 "put_command cid c3 d2" cid c'] pw by (simp only: put_twice)
        have "started d2 cid c3 d'" using s3 by (simp only: started_def put work_occupy [OF put])
        then have "started d2 cid c d'" by (rule started_touched [OF _ e3]) (use pw c in simp_all)
        then show ?thesis using started_lives [OF _ c(3,4,1) unblocked] l2 by (blast intro: lives_trans)
      qed
    qed
  qed
qed

section \<open>Ending\<close>

text \<open>A section that saves an edited command.\<close>

lemma saved_edit:
  assumes "save_journal env (put_command cid c' d1) = (f, d2)" "work d1 = work d" "command d cid = Some c" "edited c c'"
  shows "lives d d2"
  using save_journal_frame [OF assms(1)] work_put [OF assms(2), of cid c'] lives_edit [OF assms(3,4)] by metis

lemma finish_unexecuted_lives [lived]: "finishWithoutExecution env cid st code sm d = (e, d') \<Longrightarrow> lives d d'"
proof (cases "command d cid")
  case None
  moreover assume "finishWithoutExecution env cid st code sm d = (e, d')"
  ultimately show ?thesis by (simp add: finishWithoutExecution_def)
next
  case (Some c)
  assume s: "finishWithoutExecution env cid st code sm d = (e, d')"
  obtain t d1 where now: "read_now env d = (t, d1)" by fastforce
  have w1: "work d1 = work d" using now by (rule framed)
  let ?g = "bs_generation (dm_bootstrap d1)"
  show ?thesis
  proof (cases "ac_kind (jc_command c) = ''sync_replica''")
    case True
    let ?c = "c\<lparr>jc_state := ''finished'', jc_result := Some (unexecuted_sync ?g (c\<lparr>jc_state := ''finished''\<rparr>)
      (protocolTimestamp t) code sm), jc_result_reported := False\<rparr>"
    obtain f d2 where save: "save_journal env (put_command cid ?c d1) = (f, d2)" by fastforce
    have "d' = d2" using s Some now True save by (simp add: finishWithoutExecution_def)
    moreover have "edited c ?c" by (rule touched_edited) (simp_all add: touched_def)
    ultimately show ?thesis using saved_edit [OF save w1 Some] by simp
  next
    case False
    let ?r = "unexecuted_result ?g (c\<lparr>jc_state := ''finished''\<rparr>) (protocolTimestamp t) st code sm"
    let ?c = "c\<lparr>jc_state := ''finished'', jc_result := Some ?r\<rparr>"
    obtain ok c1 d2 where em: "emit env (protocolTimestamp t) ''run_finished'' (terminalEventPayload ?r) ?c d1 = (ok, c1, d2)"
      by (metis prod.collapse)
    let ?c2 = "c1\<lparr>jc_result_reported := (jc_trigger c1 = ''scheduled'')\<rparr>"
    obtain f d3 where save: "save_journal env (put_command cid ?c2 d2) = (f, d3)" by fastforce
    have g: "grown ?c c1" and w2: "work d2 = work d" using emit_grown [OF em] w1 by simp_all
    have "d' = d3" using s Some now False em save by (simp add: finishWithoutExecution_def)
    moreover have "edited c ?c" by (rule touched_edited) (simp_all add: touched_def)
    then have "edited c ?c2" by (rule edited_touched [OF edited_grown [OF _ g]])
        (use grown_fields [OF g] in \<open>simp_all add: touched_def\<close>)
    ultimately show ?thesis using saved_edit [OF save w2 Some] by simp
  qed
qed

lemma cancel_run_lives [lived]: "cancelRun env rid d = (e, d') \<Longrightarrow> lives d d'"
  unfolding cancelRun_def
  by (auto split: if_splits option.splits dest: finish_unexecuted_lives intro: lives_quiet)

lemma discard_lives [lived]: "discardExpiredUnacknowledgedCommand env cid d = (b, e, d') \<Longrightarrow> lives d d'"
proof -
  assume s: "discardExpiredUnacknowledgedCommand env cid d = (b, e, d')"
  show ?thesis
  proof (cases "command d cid = None \<or> jc_acknowledged (the (command d cid)) \<or> jc_trigger (the (command d cid)) \<noteq> ''manual''
      \<or> time_parse (ac_expires_at (jc_command (the (command d cid)))) = None")
    case True
    with s have "d' = d" by (auto simp: discardExpiredUnacknowledgedCommand_def split: option.splits if_splits)
    then show ?thesis by simp
  next
    case False
    then obtain c expires where c: "command d cid = Some c" "\<not> jc_acknowledged c" "jc_trigger c = ''manual''"
      "time_parse (ac_expires_at (jc_command c)) = Some expires" by auto
    obtain now d1 where now: "read_now env d = (now, d1)" by fastforce
    have w1: "work d1 = work d" using now by (rule framed)
    obtain f d2 where save: "save_journal env (drop_command cid d1) = (f, d2)" by fastforce
    have w2: "work d2 = work (drop_command cid d)" using save_journal_frame [OF save] work_drop [OF w1] by simp
    have dropped: "lives d d2" using lives_work [OF lives_drop w2] .
    obtain g d3 where clear: "save_state env (set_update None d2) = (g, d3)" by fastforce
    have cleared: "lives d d3" using lives_work [OF lives_update save_state_frame [OF clear]] dropped by (blast intro: lives_trans)
    show ?thesis
    proof (cases "now < expires")
      case True
      then show ?thesis using s c now w1 by (auto simp: discardExpiredUnacknowledgedCommand_def intro: lives_quiet)
    next
      case late: False
      show ?thesis
      proof (cases f)
        case (Some x)
        then have "d' = d2\<lparr>dm_journal := dm_journal d1\<rparr>"
          using s c now late save by (simp add: discardExpiredUnacknowledgedCommand_def)
        then have "work d' = work d" using w1 w2 by (simp add: work_eq drop_command_def)
        then show ?thesis by (rule lives_quiet)
      next
        case None
        then have "d' = d2 \<or> d' = d3" using s c now late save clear
          by (auto simp: discardExpiredUnacknowledgedCommand_def Let_def split: option.splits if_splits)
        then show ?thesis using dropped cleared by blast
      qed
    qed
  qed
qed

lemma progress_lives: "lives d (databaseBackupProgress env cid a n m d)"
proof (cases "dm_protocol d = None \<or> \<not> supports d ''1.6.0'' \<or> command d cid = None
    \<or> jc_state (the (command d cid)) \<noteq> ''running''")
  case True
  then show ?thesis by (auto simp: databaseBackupProgress_def split: option.splits)
next
  case False
  then obtain c where c: "command d cid = Some c" "jc_state c = ''running''" by auto
  obtain u d1 where u: "draw_ulid env d = (u, d1)" by fastforce
  have w1: "work d1 = work d" using u by (rule framed)
  show ?thesis
  proof (cases u)
    case None
    then show ?thesis using False c u w1 by (simp add: databaseBackupProgress_def lives_quiet)
  next
    case (Some i)
    obtain t d2 where t: "read_now env d1 = (t, d2)" by fastforce
    have w2: "work d2 = work d" using read_now_frame [OF t] w1 by simp
    let ?c = "add_event i (protocolTimestamp t) ''run_progress'' (artifact_payload a n m) (next_sequence c)"
    obtain f d3 where save: "save_journal env (put_command cid ?c d2) = (f, d3)" by fastforce
    have w3: "work d3 = work (put_command cid ?c d)" using save_journal_frame [OF save] work_put [OF w2] by simp
    show ?thesis
    proof (cases f)
      case None
      then show ?thesis using False c u Some t save saved_edit [OF save w2 c(1) grown_edited [OF grown_add]]
        by (simp add: databaseBackupProgress_def)
    next
      case (Some x)
      have "work (put_command cid c d3) = work d" using work_put [OF w3, of cid c] c(1) by (simp add: put_own)
      then show ?thesis using False c u \<open>u = Some i\<close> t save Some
        by (simp add: databaseBackupProgress_def Let_def lives_quiet)
    qed
  qed
qed

lemma persist_lives [lived]: "persistPlan env cid plan d = (e, d') \<Longrightarrow> lives d d'"
proof (cases "command d cid")
  case None
  moreover assume "persistPlan env cid plan d = (e, d')"
  ultimately show ?thesis by (simp add: persistPlan_def)
next
  case (Some c)
  assume s: "persistPlan env cid plan d = (e, d')"
  obtain f d2 where save: "save_journal env (put_command cid (c\<lparr>jc_maintenance_plan := Some plan\<rparr>) d) = (f, d2)" by fastforce
  have "edited c (c\<lparr>jc_maintenance_plan := Some plan\<rparr>)" by (rule touched_edited) (simp_all add: touched_def)
  with s Some save saved_edit [OF save refl Some] show ?thesis by (simp add: persistPlan_def)
qed

lemma log_reference_edit:
  assumes "log_reference env r logged log tr dr c d = (c', d')"
  shows "\<exists>c1. grown c c1 \<and> touched c1 c' \<and> jc_state c' = jc_state c1 \<and> work d' = work d"
proof (cases logged)
  case (Inr i)
  with assms show ?thesis by (intro exI [of _ c]) (auto simp: log_reference_def touched_def)
next
  case (Inl err)
  let ?p = "[(''reason'', JStr (if err = StoreFailure SpoolCapacity then ''spool_pressure'' else ''log_unavailable'')),
    (''dropped_event_count'', json_nat 0), (''dropped_log_bytes'', json_uint64 (int (length log + dr)))]"
  obtain ok c1 d1 where em: "emit env (cr_finished_at r) ''reporting_gap'' ?p c d = (ok, c1, d1)" by (metis prod.collapse)
  have "c' = c1" "d' = snd (save_state env (markSpoolGapLocked d1))"
    using assms Inl em by (simp_all add: log_reference_def del: of_nat_add)
  with emit_grown [OF em] show ?thesis by (intro exI [of _ c1]) (simp add: touched_def)
qed

lemma finished_touched: "touched c (finished_command j r c) \<and> jc_state (finished_command j r c) = ''finished''"
  by (simp add: finished_command_def touched_def Let_def)

lemma end_run_lives:
  assumes "end_run env cid j r logged log tr dr c d = (c', d')" "command d cid = Some c"
  shows "lives d d'"
proof -
  obtain c1 d1 where ev: "appendSnapshotEvidenceEvents env r (finished_command j r c) d = (c1, d1)" by fastforce
  obtain ok c2 d2 where em: "emit env (cr_finished_at r) ''run_finished'' (terminalEventPayload r) c1 d1 = (ok, c2, d2)"
    by (metis prod.collapse)
  let ?c3 = "c2\<lparr>jc_result_reported := (jc_trigger c2 = ''scheduled'')\<rparr>"
  obtain c4 d4 where lg: "log_reference env r logged log tr dr ?c3 d2 = (c4, d4)" by fastforce
  have d': "d' = save_finished env (recordOutcomeLocked env j r (put_command cid c4 d4))"
    using assms(1) ev em lg by (auto simp: end_run_def)
  have g: "grown (finished_command j r c) c2" "work d2 = work d"
    using evidence_grown [OF ev] emit_grown [OF em] by (auto intro: grown_trans)
  obtain c5 where c5: "grown ?c3 c5" "touched c5 c4" "jc_state c4 = jc_state c5" "work d4 = work d"
    using log_reference_edit [OF lg] g by auto
  have "edited c (finished_command j r c)" using finished_touched by (intro touched_edited) simp_all
  then have "edited c c2" using g(1) by (rule edited_grown)
  then have "edited c ?c3" by (rule edited_touched)
      (use finished_touched [of c j r] grown_fields [OF g(1)] in \<open>simp_all add: touched_def\<close>)
  then have "edited c c5" using c5(1) by (rule edited_grown)
  moreover have "jc_state c4 = ''finished''"
    using c5(3) grown_fields(5) [OF c5(1)] grown_fields(5) [OF g(1)] finished_touched [of c j r] by simp
  ultimately have "edited c c4" using c5(2) by (intro edited_touched [of c c5 c4]) simp_all
  then show ?thesis using lives_edit [OF assms(2), of c4 d'] work_put [OF c5(4)] d' by simp
qed

lemma finish_locked_lives [lived]: "finish_locked env cid rid j r logged log tr dr d = (f, d') \<Longrightarrow> lives d d'"
proof -
  assume s: "finish_locked env cid rid j r logged log tr dr d = (f, d')"
  have rel: "lives d (release_run rid j d)" by (blast intro: life.release)
  show ?thesis
  proof (cases "command (release_run rid j d) cid")
    case None
    with s rel show ?thesis by (simp add: finish_locked_def)
  next
    case (Some c)
    obtain c1 d1 where e: "end_run env cid j r logged log tr dr c (release_run rid j d) = (c1, d1)" by fastforce
    with s Some have "d' = d1" by (simp add: finish_locked_def)
    with rel end_run_lives [OF e Some] show ?thesis by (blast intro: lives_trans)
  qed
qed

end
