(* ===== verification/Handlers.thy ===== *)
theory Handlers
  imports Sections
begin

text \<open>
  The scheduler, replication, the command handlers and reporting are runs of the abstract machine, and so
  is every step of the daemon.
\<close>

lemmas framed_lives = framed [THEN lives_quiet]

section \<open>Configuration\<close>

lemma finish_withdrawn_lives [lived]: "finish_withdrawn env is d = (e, d') \<Longrightarrow> lives d d'"
proof (induction "is" arbitrary: d)
  case (Cons i "is")
  then show ?case by (auto split: prod.splits option.splits dest!: lived intro: lives_trans)
qed simp

lemma apply_config_lives [lived]: "apply_config m cf d = (a, b, d') \<Longrightarrow> lives d d'"
  by (rule lives_quiet) (auto simp: apply_config_def acceptMaintenanceConfigLocked_def Let_def)

lemma reload_lives [lived]: "reloadLocalConfig env d = (e, d') \<Longrightarrow> lives d d'"
proof -
  assume r: "reloadLocalConfig env d = (e, d')"
  have "lives d (tick d)" by (simp add: lives_quiet)
  moreover have "lives d1 (cancel_runs rids d1)" for d1 rids by (simp add: lives_quiet)
  ultimately show ?thesis using r unfolding reloadLocalConfig_def
    by (auto split: config_file.splits if_splits prod.splits dest!: lived) (meson lives_trans)+
qed

lemma refresh_lives [lived]: "refreshConfig env d = (e, d') \<Longrightarrow> lives d d'"
proof -
  assume r: "refreshConfig env d = (e, d')"
  have *: "work (set_config_error t d1) = work d1" "work (set_rejected n s d1) = work d1" "work (config_accepted d1) = work d1"
    for t n s d1 by (simp_all add: set_config_error_def set_rejected_def config_accepted_def)
  show ?thesis
  proof (cases "de_fetch env (dm_tick d)")
    case (Fetched m cf)
    obtain a b d1 where ap: "apply_config m cf (tick d) = (a, b, d1)" by (metis prod.collapse)
    obtain f d2 where save: "save_state env (config_accepted d1) = (f, d2)" by fastforce
    have "lives d d2" using apply_config_lives [OF ap] save_state_frame [OF save] *(3) [of d1] work_simps(1) [of d]
      by (metis lives_work work_lives)
    moreover have "lives d2 (cancel_runs a d2)" by (simp add: lives_quiet)
    ultimately show ?thesis using r Fetched ap save
      by (auto simp: refreshConfig_def split: option.splits dest!: finish_withdrawn_lives intro: lives_trans)
  qed (use r * in \<open>auto simp: refreshConfig_def Let_def intro!: lives_quiet dest!: framed split: prod.splits option.splits\<close>)
qed

section \<open>The scheduler\<close>

lemma configured_job_lives [lived]: "configuredJob env i n d = (x, d') \<Longrightarrow> lives d d'"
proof -
  assume c: "configuredJob env i n d = (x, d')"
  have "lives d1 (tick d1)" for d1 by (simp add: lives_quiet)
  with c show ?thesis
    by (auto simp: configuredJob_def Let_def split: if_splits prod.splits option.splits dest!: refresh_lives)
      (meson lives_trans)+
qed

lemma job_for_execution_lives [lived]: "jobForExecution env c d = (x, d') \<Longrightarrow> lives d d'"
  by (auto simp: jobForExecution_def split: if_splits dest: configured_job_lives)

lemma start_with_job_lives:
  "start_with_job env cid (x, d1) = (e, d') \<Longrightarrow> lives d1 d'"
  by (auto simp: start_with_job_def job_missing_def split: sum.splits found_job.splits if_splits dest: lived)

lemma start_with_job_lives' [lived]:
  "start_with_job env cid (jobForExecution env c d) = (e, d') \<Longrightarrow> lives d d'"
proof -
  obtain x d1 where "jobForExecution env c d = (x, d1)" by fastforce
  then show "start_with_job env cid (jobForExecution env c d) = (e, d') \<Longrightarrow> lives d d'"
    using job_for_execution_lives start_with_job_lives by (metis lives_trans)
qed

lemma best_in: "best s cur xs = Some x \<Longrightarrow> cur = Some x \<or> x \<in> set xs"
  by (induction xs arbitrary: cur) (auto split: option.splits if_splits)

lemma release_wait_lives:
  assumes "save_journal env (put_command cid c' d) = (f, d1)" "command d cid = Some c" "touched c c'" "jc_state c' = jc_state c"
  shows "lives d d1" "lives d (put_command cid c d1)"
proof -
  have e: "edited c c'" using assms(3,4) by (intro touched_edited) simp_all
  show "lives d d1" using saved_edit [OF assms(1) refl assms(2) e] .
  have "work (put_command cid c d1) = work d"
    using work_put [OF save_journal_frame [OF assms(1)], of cid c] assms(2) by (simp add: put_own)
  then show "lives d (put_command cid c d1)" by (rule lives_quiet)
qed

lemma next_deferred_lives [lived]: "startNextDeferredMaintenance env i x d = (e, d') \<Longrightarrow> lives d d'"
proof -
  assume s: "startNextDeferredMaintenance env i x d = (e, d')"
  obtain now d1 where now: "read_now env d = (now, d1)" by fastforce
  have l1: "lives d d1" using now by (rule framed_lives)
  show ?thesis
  proof (cases "updating d \<or> next_deferred now i x d1 = None \<or> command d1 (fst (the (next_deferred now i x d1))) = None")
    case True
    with s now l1 show ?thesis by (auto simp: startNextDeferredMaintenance_def split: if_splits option.splits prod.splits)
  next
    case False
    then obtain cid c0 c where sel: "next_deferred now i x d1 = Some (cid, c0)" "command d1 cid = Some c" "\<not> updating d"
      by auto
    let ?c = "c\<lparr>jc_wait_for_backup := False\<rparr>"
    obtain f d2 where save: "save_journal env (put_command cid ?c d1) = (f, d2)" by fastforce
    have w: "lives d1 d2" "lives d1 (put_command cid c d2)"
      using release_wait_lives [OF save sel(2)] by (simp_all add: touched_def)
    show ?thesis
    proof (cases f)
      case (Some y)
      with s now sel save w l1 show ?thesis by (auto simp: startNextDeferredMaintenance_def intro: lives_trans)
    next
      case None
      with s now sel save have "start_with_job env cid (jobForExecution env ?c d2) = (e, d')"
        by (simp add: startNextDeferredMaintenance_def)
      then show ?thesis using w(1) l1 by (blast intro: lives_trans dest: start_with_job_lives')
    qed
  qed
qed

lemma catch_up_lives [lived]: "startCatchUpBackup env i d = (e, d') \<Longrightarrow> lives d d'"
  by (auto simp: startCatchUpBackup_def split: if_splits option.splits dest: start_with_job_lives')

lemma refuse_frame [framed]: "refuseOccurrenceForPressure env a b c d = (e, d') \<Longrightarrow> work d' = work d"
proof -
  assume r: "refuseOccurrenceForPressure env a b c d = (e, d')"
  let ?n = "dm_state (markSpoolGapLocked d)"
  obtain f d1 where s1: "skip_occurrence env a b c (Some ?n) d = (f, d1)" by fastforce
  obtain g d2 where s2: "skip_occurrence env a b c (Some ?n) d1 = (g, d2)" by fastforce
  have w: "work d1 = work d" "work d2 = work d" using s1 s2 by (auto dest!: skip_occurrence_frame)
  have "st_agent_update ?n = st_agent_update (dm_state d)" by (simp add: markSpoolGapLocked_def)
  with w have "work (d1\<lparr>dm_state := ?n\<rparr>) = work d" "work (d2\<lparr>dm_state := ?n\<rparr>) = work d"
    by (simp_all add: work_eq)
  with r s1 s2 w show ?thesis
    by (auto simp: refuseOccurrenceForPressure_def Let_def split: if_splits option.splits)
qed

lemma overlap_sequenced:
  assumes "finishScheduledOverlap env now c d = (c', d')" "jc_events c = []"
  shows "sequenced c' \<and> jc_state c' = ''finished'' \<and> work d' = work d"
  using assms
  by (auto simp: finishScheduledOverlap_def Let_def sequenced_def add_event_def eventEnvelope_def dest: framed
      split: prod.splits option.splits)

lemma scheduled_command_fresh:
  "jc_events (scheduled_command g r o' rid s sc m n) = []" "jc_state (scheduled_command g r o' rid s sc m n) = ''received''"
  by (simp_all add: scheduled_command_def zero_journal_command_def Let_def)

lemma accept_lives:
  assumes "accept_occurrence env o' sc sl d = (e, sl', d')"
  shows "lives d d'"
proof -
  obtain u d1 where u: "draw_ulid_at env (sl_now sl) d = (u, d1)" by fastforce
  have l1: "lives d d1" using u by (rule framed_lives)
  show ?thesis
  proof (cases "u = None \<or> encodeJobSnapshot (so_job o') = None")
    case True
    with assms u l1 show ?thesis by (auto simp: accept_occurrence_def split: option.splits)
  next
    case False
    then obtain rid snapshot where us: "u = Some rid" "encodeJobSnapshot (so_job o') = Some snapshot" by auto
    define c where "c = (scheduled_command (bs_generation (dm_bootstrap d1)) (sl_revision sl) o' rid snapshot sc
      (sl_minute sl) (sl_now sl))\<lparr>jc_catch_up_backup := catches_up sl o' d1\<rparr>"
    define skipped where "skipped = (overlaps sl o' d1 \<and> \<not> so_deferred o' \<and> \<not> sl_draining sl)"
    obtain c2 d2 where o2: "(if skipped then finishScheduledOverlap env (sl_now sl) c d1 else (c, d1)) = (c2, d2)"
      by fastforce
    obtain f d3 where save: "save_journal env (put_command rid c2 d2) = (f, d3)" by fastforce
    have cf: "jc_events c = []" "jc_state c = ''received''" "jc_trigger c = ''scheduled''"
      by (simp_all add: c_def scheduled_command_fresh) (simp add: scheduled_command_def Let_def)
    have "sequenced c" using cf by (simp add: sequenced_def)
    moreover have "jc_trigger c2 = jc_trigger c" using o2
      by (auto simp: finishScheduledOverlap_def Let_def add_event_def split: if_splits prod.splits option.splits)
    ultimately have c2: "sequenced c2" "jc_state c2 \<in> {''received'', ''finished''}" "work d2 = work d1" "jc_trigger c2 = ''scheduled''"
      using o2 cf overlap_sequenced [of env "sl_now sl" c d1 c2 d2] by (auto split: if_splits)
    have "work d3 = work (put_command rid c2 d1)" using save_journal_frame [OF save] work_put [OF c2(3)] by simp
    then have "lives d1 d3" using c2 by (blast intro: life.add)
    with l1 have l3: "lives d d3" by (rule lives_trans)
    show ?thesis
    proof (cases f)
      case (Some x)
      have l4: "lives d (drop_command rid d3)" using l3 lives_drop by (rule lives_trans)
      obtain g d4 where ref: "refuseOccurrenceForPressure env (jb_id (so_job o')) (so_kind o') sc (drop_command rid d3) = (g, d4)"
        by fastforce
      have "d' = drop_command rid d3 \<or> d' = d4" using assms u us o2 save Some ref
        by (auto simp: accept_occurrence_def Let_def c_def skipped_def split: if_splits)
      then show ?thesis using l4 lives_work [OF l4 refuse_frame [OF ref]] by blast
    next
      case None
      obtain g d4 where st: "startOperation env rid (so_job o') d3 = (g, d4)" by fastforce
      have "d' = d3 \<or> d' = d4" using assms u us o2 save None st
        by (auto simp: accept_occurrence_def Let_def c_def skipped_def split: if_splits)
      then show ?thesis using l3 start_operation_lives [OF st] by (blast intro: lives_trans)
    qed
  qed
qed

lemma schedule_operation_lives:
  assumes "schedule_operation env o' sl d = (e, sl', d')"
  shows "lives d d'"
  using assms unfolding schedule_operation_def Let_def
  by (auto split: sum.splits prod.splits if_splits bool.splits dest!: framed_lives accept_lives
      refuse_frame [THEN lives_quiet] intro: lives_trans)

lemma schedule_all_lives: "schedule_all env ops sl d = (e, d') \<Longrightarrow> lives d d'"
proof (induction ops arbitrary: sl d)
  case (Cons o' ops)
  then show ?case by (auto split: prod.splits option.splits dest!: schedule_operation_lives intro: lives_trans)
qed simp

lemma begin_schedule_lives: "begin_schedule env now d = (x, d') \<Longrightarrow> lives d d'"
proof -
  assume b: "begin_schedule env now d = (x, d')"
  let ?d = "d\<lparr>dm_last_minute := truncate_minute now\<rparr>"
  have l: "lives d ?d" by (simp add: lives_quiet)
  then have "lives d (note_schedule_minute (truncate_minute now) ?d)"
    unfolding note_schedule_minute_def by (blast intro: lives_trans lives_update)
  with l b show ?thesis
    by (auto simp: begin_schedule_def Let_def split: if_splits prod.splits option.splits dest!: save_state_frame
        intro: lives_work)
qed

lemma schedule_backups_lives: "lives d (snd (scheduleBackups env d))"
proof -
  obtain now d1 where now: "read_now env d = (now, d1)" by fastforce
  obtain x d2 where b: "begin_schedule env now d1 = (x, d2)" by fastforce
  have l2: "lives d d2" using now b by (blast intro: lives_trans dest: framed_lives begin_schedule_lives)
  show ?thesis
  proof (cases x)
    case (Inl e)
    with now b l2 show ?thesis by (simp add: scheduleBackups_def)
  next
    case (Inr sl)
    obtain e d3 where s: "schedule_all env (scheduled_operations (dm_config d1)) sl d2 = (e, d3)" by fastforce
    obtain g d4 where n: "startNextDeferredMaintenance env [] True d3 = (g, d4)" by fastforce
    have "snd (scheduleBackups env d) = d3 \<or> snd (scheduleBackups env d) = d4"
      using now b Inr s n by (auto simp: scheduleBackups_def split: option.splits)
    then show ?thesis using l2 schedule_all_lives [OF s] next_deferred_lives [OF n] by (metis lives_trans)
  qed
qed

section \<open>Replication\<close>

lemma same_runs_refl: "work d' = work d \<Longrightarrow> same_runs d d'"
  by (simp add: work_eq same_runs_def)

lemma start_replication_lives: "lives d (startReplication j d)"
proof (cases "updating d \<or> jb_id j \<in> set (dm_replication d)")
  case False
  then have "life d (startReplication j d)" by (intro life.engage) (simp_all add: startReplication_def same_runs_def)
  then show ?thesis by blast
qed (auto simp: startReplication_def)

lemma fold_replication_lives: "lives d (fold startReplication js d)"
  by (induction js arbitrary: d) (auto intro: lives_trans start_replication_lives)

lemma resume_lives: "lives d (resumeReplications d)"
  by (simp add: resumeReplications_def fold_replication_lives)

lemma lives_flags:
  "same_runs d d' \<Longrightarrow> set (dm_tasks d') \<subseteq> set (dm_tasks d) \<Longrightarrow> lives d d'"
  by (blast intro: life.disengage)

lemma take_lives: "take_repositories a b d = Some d' \<Longrightarrow> lives d d'"
  by (rule lives_flags) (auto simp: take_repositories_def same_runs_def split: if_splits)

lemma give_lives: "lives d (give_repositories a b d)"
  by (rule lives_flags) (auto simp: give_repositories_def same_runs_def)

lemma inventory_frame [framed]: "replicaInventory env r d = (x, d') \<Longrightarrow> work d' = work d"
  by (auto simp: replicaInventory_def Let_def dest!: run_restic_frame split: if_splits prod.splits option.splits)

lemma copy_outcome_frame [framed]: "copy_outcome_of env t cs r d = (x, d') \<Longrightarrow> work d' = work d"
  by (auto simp: copy_outcome_of_def Let_def dest!: inventory_frame split: if_splits prod.splits)

lemma next_batch_frame [framed]: "nextReplicationBatch env j d = (x, d') \<Longrightarrow> work d' = work d"
  by (auto simp: nextReplicationBatch_def dest!: read_now_frame split: prod.splits)

lemma finish_replicated_lives: "lives d (finish_replicated env r o' st fi cid d)"
proof (cases "command d cid = None \<or> jc_result (the (command d cid)) = None
    \<or> rp_key r \<notin> set (jc_replication_pending (the (command d cid)))")
  case True
  then show ?thesis by (auto simp: finish_replicated_def split: option.splits)
next
  case False
  then obtain c res where c: "command d cid = Some c" "jc_result c = Some res" "rp_key r \<in> set (jc_replication_pending c)"
    by auto
  obtain ok c1 d1 where em: "emit env (protocolTimestamp fi) ''replication_finished''
      (replication_payload r o' (cr_snapshot_ids res) st fi) c d = (ok, c1, d1)" by (metis prod.collapse)
  have g: "grown c c1" "work d1 = work d" using emit_grown [OF em] by simp_all
  obtain now d2 where now: "read_now env d1 = (now, d2)" by fastforce
  have w2: "work d2 = work d" using read_now_frame [OF now] g by simp
  let ?a = "c1\<lparr>jc_replication_pending := removeString (rp_key r) (jc_replication_pending c1),
      jc_replication_retry_at := mdel (rp_key r) (jc_replication_retry_at c1)\<rparr>"
  let ?b = "c1\<lparr>jc_replication_retry_at := mput (rp_key r) (protocolTimestamp (now + retry_delay)) (jc_replication_retry_at c1)\<rparr>"
  have "edited c ?a" "edited c ?b"
    by (rule edited_touched [OF grown_edited [OF g(1)]]; use grown_fields [OF g(1)] in \<open>simp add: touched_def\<close>)+
  then have "lives d (put_command cid ?a d1)" "lives d (put_command cid ?b d2)"
    using lives_edit [OF c(1)] work_put [OF g(2)] work_put [OF w2] by blast+
  then show ?thesis using c em now by (simp add: finish_replicated_def)
qed

lemma finish_batch_lives: "lives d (finishReplicationBatch env r cs o' st fi d)"
proof -
  have "lives d (fold (\<lambda>c. finish_replicated env r o' st fi (ac_id (jc_command c))) cs d)"
    by (induction cs arbitrary: d) (auto intro: lives_trans finish_replicated_lives)
  then show ?thesis by (simp add: finishReplicationBatch_def lives_work)
qed

lemmas more_frames =
  framed_lives inventory_frame [THEN lives_quiet] copy_outcome_frame [THEN lives_quiet]
  next_batch_frame [THEN lives_quiet] refuse_frame [THEN lives_quiet]

lemma round_lives [lived]: "replication_round env j d = (b, d') \<Longrightarrow> lives d d'"
proof -
  assume r: "replication_round env j d = (b, d')"
  obtain x d1 where n: "nextReplicationBatch env j d = (x, d1)" by fastforce
  have l1: "lives d d1" using n by (rule more_frames)
  show ?thesis
  proof (cases "x = None \<or> take_repositories (rp_id (jb_repository j)) (rp_id (fst (the x))) d1 = None")
    case True
    with r n l1 show ?thesis by (auto simp: replication_round_def split: option.splits)
  next
    case False
    then obtain target cs d2 where x: "x = Some (target, cs)"
      and t: "take_repositories (rp_id (jb_repository j)) (rp_id target) d1 = Some d2" by auto
    obtain t1 d3 where n1: "read_now env d2 = (t1, d3)" by fastforce
    obtain copied d4 where c: "run_restic env (copy_request j target) d3 = (copied, d4)" by fastforce
    obtain t2 d5 where n2: "read_now env d4 = (t2, d5)" by fastforce
    define d6 where "d6 = give_repositories (rp_id (jb_repository j)) (rp_id target) d5"
    obtain o' d7 where o: "copy_outcome_of env target cs copied d6 = (o', d7)" by fastforce
    have "lives d2 d5" using n1 c n2 by (blast intro: lives_trans dest: framed_lives)
    moreover have "lives d5 d6" unfolding d6_def by (rule give_lives)
    moreover have "lives d6 d7" using o by (rule more_frames)
    ultimately have "lives d d7" using l1 take_lives [OF t] by (metis lives_trans)
    moreover have "d' = finishReplicationBatch env target cs o' t1 t2 d7"
      using r n x t n1 c n2 o by (simp add: replication_round_def d6_def)
    ultimately show ?thesis using finish_batch_lives by (metis lives_trans)
  qed
qed

lemma end_replication_lives: "lives d (end_replication env j d)"
proof -
  define d1 where "d1 = d\<lparr>dm_replication := removeAll (jb_id j) (dm_replication d), dm_tasks := remove1 (ReplicationTask j) (dm_tasks d)\<rparr>"
  have l1: "lives d d1" unfolding d1_def by (rule lives_flags) (auto simp: same_runs_def dest: set_remove1_subset [THEN subsetD])
  obtain e d2 where n: "startNextDeferredMaintenance env (jb_id j) False d1 = (e, d2)" by fastforce
  obtain g d3 where c: "startCatchUpBackup env (jb_id j) d2 = (g, d3)" by fastforce
  have "end_replication env j d = d3" using n c by (simp add: end_replication_def d1_def)
  with l1 next_deferred_lives [OF n] catch_up_lives [OF c] show ?thesis by (metis lives_trans)
qed

lemma replicate_rounds_lives [lived]: "replicate_rounds n env j d = (b, d') \<Longrightarrow> lives d d'"
proof (induction n arbitrary: d)
  case (Suc n)
  obtain go d1 where r: "replication_round env j d = (go, d1)" by fastforce
  with Suc.prems have "if go then replicate_rounds n env j d1 = (b, d') else d' = end_replication env j d1"
    by (auto split: bool.splits)
  with round_lives [OF r] Suc.IH show ?case by (cases go) (auto intro: lives_trans end_replication_lives)
qed simp

lemma start_sync_lives [lived]: "startReplicaSync env cid j d = (e, d') \<Longrightarrow> lives d d'"
proof -
  assume s: "startReplicaSync env cid j d = (e, d')"
  show ?thesis
  proof (cases "updating d \<or> command d cid = None \<or> jc_state (the (command d cid)) \<noteq> ''received''")
    case True
    with s have "d' = d" by (auto simp: startReplicaSync_def split: option.splits if_splits)
    then show ?thesis by simp
  next
    case False
    then obtain c where c: "command d cid = Some c" "jc_state c = ''received''" and up: "\<not> updating d" by auto
    show ?thesis
    proof (cases "replicaForKey j (cp_repository_key (ac_payload (jc_command c)))")
      case None
      with s c up show ?thesis by (simp add: startReplicaSync_def finish_unexecuted_lives)
    next
      case (Some target)
      show ?thesis
      proof (cases "jb_id j \<in> set (dm_replication d) \<or> take_repositories (rp_id (jb_repository j)) (rp_id target) d = None")
        case True
        with s c up Some have "d' = d" by (auto simp: startReplicaSync_def split: if_splits)
        then show ?thesis by simp
      next
        case free: False
        then obtain d1 where t: "take_repositories (rp_id (jb_repository j)) (rp_id target) d = Some d1" by auto
        define d2 where "d2 = d1\<lparr>dm_replication := jb_id j # dm_replication d1\<rparr>"
        let ?c = "c\<lparr>jc_state := ''running''\<rparr>"
        obtain f d3 where save: "save_journal env (put_command cid ?c d2) = (f, d3)" by fastforce
        have d2: "same_runs d d2" "dm_tasks d2 = dm_tasks d"
          using t by (auto simp: take_repositories_def same_runs_def d2_def split: if_splits)
        have l2: "lives d d2" using d2 by (intro lives_flags) simp_all
        have c2: "command d2 cid = Some c" "\<not> updating d2" using d2 c up by (simp_all add: same_runs_def)
        have "edited c ?c" by (rule touched_edited) (simp_all add: touched_def c)
        note l3 = saved_edit [OF save refl c2(1) this]
        show ?thesis
        proof (cases f)
          case none: None
          have "\<not> updating d3" using c2(2) save_journal_frame [OF save] by (simp add: work_eq put_command_def)
          then have "lives d3 (d3\<lparr>dm_tasks := SyncTask cid j target # dm_tasks d3\<rparr>)"
            by (intro r_into_rtranclp life.engage) (simp_all add: same_runs_def)
          with s c up Some free t save none l2 l3 show ?thesis
            by (auto simp: startReplicaSync_def d2_def intro: lives_trans)
        next
          case (Some x)
          have "d' = put_command cid c (give_repositories (rp_id (jb_repository j)) (rp_id target)
              (d3\<lparr>dm_replication := removeAll (jb_id j) (dm_replication d3)\<rparr>))"
            using s c up \<open>replicaForKey _ _ = Some target\<close> free t save Some by (simp add: startReplicaSync_def d2_def)
          moreover have "same_runs d2 \<dots> \<and> dm_tasks \<dots> = dm_tasks d2"
            using save_journal_frame [OF save] work_put [OF save_journal_frame [OF save], of cid c] c2(1)
            by (simp add: work_eq put_command_def give_repositories_def same_runs_def mput_same)
          ultimately have "lives d2 d'" by (intro lives_flags) simp_all
          with l2 show ?thesis by (rule lives_trans)
        qed
      qed
    qed
  qed
qed

lemma sync_attempts_frame: "sync_attempts env rq ds res d = (x, d') \<Longrightarrow> work d' = work d"
proof (induction ds arbitrary: res d)
  case (Cons a ds)
  let ?d = "if 0 < a then tick (tick d) else d"
  obtain r d1 where r: "run_restic env rq ?d = (r, d1)" by fastforce
  have w: "work ?d = work d" "work d1 = work d" using run_restic_frame [OF r] by (auto split: if_splits)
  from Cons.prems r have "d' = ?d \<or> d' = d1 \<or> sync_attempts env rq ds r d1 = (x, d')"
    by (cases "0 < a") (auto simp: Let_def split: if_splits)
  with w Cons.IH show ?case by metis
qed simp

lemma finish_sync_lives: "lives d (finish_sync env cid j target o' st fi d)"
proof -
  define d1 where "d1 = give_repositories (rp_id (jb_repository j)) (rp_id target)
    (d\<lparr>dm_replication := removeAll (jb_id j) (dm_replication d), dm_tasks := remove1 (SyncTask cid j target) (dm_tasks d)\<rparr>)"
  have l1: "lives d d1" unfolding d1_def
    by (rule lives_flags) (auto simp: same_runs_def give_repositories_def dest: set_remove1_subset [THEN subsetD])
  show ?thesis
  proof (cases "command d1 cid")
    case None
    with l1 show ?thesis by (simp add: finish_sync_def d1_def)
  next
    case (Some c)
    let ?c = "c\<lparr>jc_state := ''finished'', jc_result := Some (sync_result (bs_generation (dm_bootstrap d1)) c j target o' st fi)\<rparr>"
    obtain f d2 where save: "save_journal env (put_command cid ?c d1) = (f, d2)" by fastforce
    have "edited c ?c" by (rule touched_edited) (simp_all add: touched_def)
    note l2 = saved_edit [OF save refl Some this]
    have "finish_sync env cid j target o' st fi d = d2" using Some save by (simp add: finish_sync_def d1_def)
    with l1 l2 show ?thesis by (simp add: lives_trans)
  qed
qed

lemma sync_summary_frame: "sync_summary env target r d = (x, d') \<Longrightarrow> work d' = work d"
  by (auto simp: sync_summary_def dest!: inventory_frame split: if_splits prod.splits)

lemma run_sync_lives: "lives d (runReplicaSync env cid j target d)"
proof -
  obtain t1 d1 where n1: "read_now env d = (t1, d1)" by fastforce
  obtain copied d2 where a: "sync_attempts env (copy_request j target) (0 # replicaSyncRetries) no_result d1 = (copied, d2)"
    by (metis prod.collapse)
  obtain t2 d3 where n2: "read_now env d2 = (t2, d3)" by fastforce
  obtain o' d4 where o: "sync_summary env target copied d3 = (o', d4)" by fastforce
  obtain e d5 where c: "startCatchUpBackup env (jb_id j) (finish_sync env cid j target o' t1 t2 d4) = (e, d5)" by fastforce
  have "runReplicaSync env cid j target d = d5"
    using n1 a n2 o c by (simp add: runReplicaSync_def del: sync_attempts.simps)
  moreover have "lives d d4"
    using read_now_frame [OF n1] sync_attempts_frame [OF a] read_now_frame [OF n2] sync_summary_frame [OF o]
    by (intro lives_quiet) simp
  ultimately show ?thesis using finish_sync_lives catch_up_lives [OF c] by (metis lives_trans)
qed

section \<open>Commands\<close>

lemma end_task_lives: "lives d (end_task t d)"
  by (rule lives_flags) (auto simp: end_task_def same_runs_def dest: set_remove1_subset [THEN subsetD])

lemma follow_lives: "lives d (follow env j nx d)"
proof (cases nx)
  case None
  then show ?thesis by (simp add: follow_def)
next
  case (Some f)
  define d1 where "d1 = (if fu_replicate f then startReplication j d else d)"
  define d2 where "d2 = (if fu_release_maintenance f then snd (startNextDeferredMaintenance env (fu_job_id f) False d1) else d1)"
  have "lives d1 (snd (startNextDeferredMaintenance env i x d1))" for i x
    using next_deferred_lives by (metis prod.collapse)
  moreover have "lives d2 (snd (startCatchUpBackup env i d2))" for i
    using catch_up_lives by (metis prod.collapse)
  moreover have "lives d d1" by (simp add: d1_def start_replication_lives)
  moreover have "follow env j nx d = (if fu_release_catch_up f then snd (startCatchUpBackup env (fu_job_id f) d2) else d2)"
    using Some by (simp add: follow_def d1_def d2_def Let_def)
  ultimately show ?thesis unfolding d2_def by (metis (full_types) lives_trans)
qed

lemma finish_operation_lives: "lives d (finishOperation env cid rid j r log tr dr d)"
proof -
  obtain logged d1 where w: "write_log env log d = (logged, d1)" by fastforce
  obtain nx d2 where f: "finish_locked env cid rid j (for_protocol d r) logged log tr dr d1 = (nx, d2)" by fastforce
  have "finishOperation env cid rid j r log tr dr d = follow env j nx d2"
    using w f by (simp add: finishOperation_def)
  with write_log_frame [OF w] finish_locked_lives [OF f] show ?thesis
    by (metis follow_lives lives_quiet lives_trans)
qed

lemma run_backup_lives: "lives d (runBackup env cid rid j out d)"
proof -
  obtain stats d1 where s: "run_restic env ((maintenanceRequest j)\<lparr>rq_operation := ''stats'',
      rq_timeout_seconds := 5 * 60, rq_lock_wait_seconds := 30\<rparr>) (tick d) = (stats, d1)" by fastforce
  have l: "lives d (tick d)" "lives d d1" using run_restic_frame [OF s] by (simp_all add: lives_quiet)
  have "lives d1 (end_task t (finishOperation env cid rid j r log tr dr d1))" for d1 t r log tr dr
    by (rule lives_trans [OF finish_operation_lives end_task_lives])
  with l s show ?thesis unfolding runBackup_def Let_def by (auto intro: lives_trans)
qed

lemma run_maintenance_lives: "lives d (runMaintenance env cid rid j plan out d)"
  unfolding runMaintenance_def by (blast intro: lives_trans end_task_lives finish_operation_lives)

lemma receive_all_lives: "receive_all env cs d = (e, d') \<Longrightarrow> lives d d'"
proof (induction cs arbitrary: d)
  case (Cons c cs)
  then show ?case by (auto split: prod.splits option.splits dest!: receive_lives intro: lives_trans)
qed simp

lemma process_lives: "lives d (snd (processCommands env polled d))"
proof -
  have "processCommands env polled d = (e, d') \<Longrightarrow> lives d d'" for e d'
    by (auto simp: processCommands_def split: if_splits sum.splits prod.splits option.splits
        dest!: receive_all_lives framed_lives intro: lives_trans)
  then show ?thesis by (metis prod.collapse)
qed

lemma saved_new_edit:
  assumes "save_journal env (put_command cid c' d) = (f, d2)" "command d cid = Some c" "touched c c'"
    "state_step (ac_kind (jc_command c)) (jc_state c) (jc_state c')"
  shows "lives d d2"
  using saved_edit [OF assms(1) refl assms(2) touched_edited] assms(3,4) by blast

lemma acknowledge_lives: "acknowledge env cid c d = (x, d') \<Longrightarrow> lives d d'"
proof -
  assume a: "acknowledge env cid c d = (x, d')"
  show ?thesis
  proof (cases "jc_acknowledged c")
    case True
    with a show ?thesis by (simp add: acknowledge_def)
  next
    case False
    obtain b e d1 where dis: "discardExpiredUnacknowledgedCommand env cid d = (b, e, d1)" by (metis prod.collapse)
    have l1: "lives d d1" using dis by (rule discard_lives)
    have l2: "lives d (tick d1)" using l1 by (rule lives_work) simp
    show ?thesis
    proof (cases "e \<noteq> None \<or> b \<or> de_request env (dm_tick d1) \<noteq> None \<or> command (tick d1) cid = None")
      case True
      then have "d' = d1 \<or> d' = tick d1" using a False dis
        by (auto simp: acknowledge_def split: option.splits bool.splits)
      with l1 l2 show ?thesis by blast
    next
      case go: False
      then obtain c1 where c1: "command (tick d1) cid = Some c1" by auto
      obtain f d2 where save: "save_journal env (put_command cid (c1\<lparr>jc_acknowledged := True\<rparr>) (tick d1)) = (f, d2)" by fastforce
      have "d' = d2" using a False dis go c1 save by (auto simp: acknowledge_def split: option.splits bool.splits)
      moreover have "lives (tick d1) d2" by (rule saved_new_edit [OF save c1]) (simp_all add: touched_def)
      ultimately show ?thesis using l2 by (metis lives_trans)
    qed
  qed
qed

lemma dispatch_cancel_lives: "dispatch_cancel env cid rid d = (e, d') \<Longrightarrow> lives d d'"
proof -
  have "save_journal env (drop_command cid d1) = (f, d2) \<Longrightarrow> lives d1 d2" for d1 f d2
    using save_journal_frame lives_drop lives_work by metis
  then show "dispatch_cancel env cid rid d = (e, d') \<Longrightarrow> lives d d'"
    by (auto simp: dispatch_cancel_def split: prod.splits option.splits dest!: cancel_run_lives intro: lives_trans)
qed

lemma dispatch_inspection_lives: "dispatch_inspection env cid c d = (e, d') \<Longrightarrow> lives d d'"
proof -
  assume s: "dispatch_inspection env cid c d = (e, d')"
  have l: "lives d (tick d)" by (simp add: lives_quiet)
  show ?thesis
  proof (cases "command (tick d) cid")
    case None
    with s l show ?thesis by (simp add: dispatch_inspection_def)
  next
    case (Some c1)
    let ?c = "c1\<lparr>jc_state := ''finished'', jc_result := Some (de_inspect env (dm_tick d) (ac_payload (jc_command c)))\<rparr>"
    obtain f d2 where save: "save_journal env (put_command cid ?c (tick d)) = (f, d2)" by fastforce
    have "lives (tick d) d2" by (rule saved_new_edit [OF save Some]) (simp_all add: touched_def)
    with s Some save l show ?thesis by (auto simp: dispatch_inspection_def intro: lives_trans)
  qed
qed

lemma dispatch_job_lives: "dispatch_job env cid c d = (e, d') \<Longrightarrow> lives d d'"
proof -
  assume s: "dispatch_job env cid c d = (e, d')"
  obtain x d1 where j: "jobForExecution env c d = (x, d1)" by fastforce
  have "lives d1 d'" using s j
    by (auto simp: dispatch_job_def job_missing_def split: sum.splits found_job.splits if_splits
        dest: finish_unexecuted_lives start_sync_lives start_operation_lives)
  with job_for_execution_lives [OF j] show ?thesis by (rule lives_trans)
qed

lemma dispatch_operation_lives: "dispatch_operation env cid c nc d = (e, d') \<Longrightarrow> lives d d'"
  by (auto simp: dispatch_operation_def dispatch_expired_def Let_def split: if_splits prod.splits
      dest!: finish_unexecuted_lives dispatch_job_lives read_now_frame [THEN lives_quiet] intro: lives_trans)

lemma start_update_lives: "startAgentUpdate env w st cid d = (e, rq, d') \<Longrightarrow> lives d d'"
proof -
  assume s: "startAgentUpdate env w st cid d = (e, rq, d')"
  show ?thesis
  proof (cases "command d cid = None \<or> st_agent_update (dm_state d) = None
      \<or> jc_state (the (command d cid)) \<noteq> ''received'' \<or> dm_active d \<noteq> [] \<or> dm_repositories d \<noteq> [] \<or> dm_replication d \<noteq> []")
    case True
    with s have "d' = d" by (auto simp: startAgentUpdate_def split: option.splits if_splits)
    then show ?thesis by simp
  next
    case False
    then obtain c u where c: "command d cid = Some c" "jc_state c = ''received''" "st_agent_update (dm_state d) = Some u" by auto
    let ?c = "c\<lparr>jc_state := ''running''\<rparr>"
    obtain f d1 where save: "save_journal env (put_command cid ?c d) = (f, d1)" by fastforce
    obtain g d2 where undo: "save_journal env (put_command cid c d1) = (g, d2)" by fastforce
    have w1: "work d1 = work (put_command cid ?c d)" using save by (rule save_journal_frame)
    have l1: "lives d d1" by (rule saved_new_edit [OF save c(1)]) (simp_all add: touched_def c)
    have "work (put_command cid c d1) = work d" using work_put [OF w1, of cid c] c(1) by (simp add: put_own)
    then have l2: "lives d (put_command cid c d1)" "lives d d2"
      using save_journal_frame [OF undo] by (simp_all add: lives_quiet)
    have "d' = d1 \<or> d' = put_command cid c d1 \<or> d' = d2"
      using s False c save undo by (auto simp: startAgentUpdate_def Let_def split: option.splits)
    with l1 l2 show ?thesis by blast
  qed
qed

lemma advance_lives: "advanceCommand env h cid d = (e, d') \<Longrightarrow> lives d d'"
proof -
  assume s: "advanceCommand env h cid d = (e, d')"
  show ?thesis
  proof (cases "command d cid")
    case None
    with s show ?thesis by (simp add: advanceCommand_def)
  next
    case (Some c)
    obtain x d1 where a: "acknowledge env cid c d = (x, d1)" by fastforce
    obtain e2 rq d2 where u: "startAgentUpdate env (fst h) (snd h) cid d1 = (e2, rq, d2)" by (metis prod.collapse)
    have "lives d1 d'"
    proof (cases x)
      case (Inl y)
      with s Some a show ?thesis by (simp add: advanceCommand_def)
    next
      case (Inr y)
      define nc where "nc = (case command d1 cid of None \<Rightarrow> c | Some current \<Rightarrow> current)"
      from s Some a Inr u have "d' = d1 \<or> d' = d2 \<or> dispatch_cancel env cid (jc_run_id c) d1 = (e, d')
          \<or> dispatch_inspection env cid c d1 = (e, d') \<or> dispatch_operation env cid c nc d1 = (e, d')"
        by (auto simp: advanceCommand_def Let_def nc_def split: if_splits)
      then show ?thesis
        using start_update_lives [OF u] dispatch_cancel_lives dispatch_inspection_lives dispatch_operation_lives by blast
    qed
    with acknowledge_lives [OF a] show ?thesis by (rule lives_trans)
  qed
qed

lemma advance_all_lives: "advance_all env h cids es d = (e, d') \<Longrightarrow> lives d d'"
proof (induction cids arbitrary: es d)
  case (Cons cid cids)
  obtain e1 d1 where a: "advanceCommand env h cid (tick d) = (e1, d1)" by fastforce
  have t: "lives d (tick d)" by (simp add: lives_quiet)
  from Cons.prems a have "d' = tick d \<or> (\<exists>es. advance_all env h cids es d1 = (e, d'))"
    by (auto simp: Let_def split: if_splits)
  with t advance_lives [OF a] Cons.IH show ?case by (meson lives_trans)
qed simp

lemma reconciled_maintenance_frame: "reconciledMaintenance env c j d = (r, d') \<Longrightarrow> work d' = work d"
  by (auto simp: reconciledMaintenance_def Let_def dest!: read_now_frame run_restic_frame split: if_splits prod.splits)

lemma reconciled_outcome_frame: "reconciled_outcome env c j d = (r, d') \<Longrightarrow> work d' = work d"
  by (auto simp: reconciled_outcome_def Let_def dest!: read_now_frame run_restic_frame reconciled_maintenance_frame
      split: if_splits prod.splits)

lemma finish_reconciled_lives: "finish_reconciled env cid j r d = (e, d') \<Longrightarrow> lives d d'"
proof -
  assume s: "finish_reconciled env cid j r d = (e, d')"
  show ?thesis
  proof (cases "command d cid = None \<or> jc_state (the (command d cid)) \<noteq> ''running''")
    case True
    with s have "d' = d" by (auto simp: finish_reconciled_def split: option.splits if_splits)
    then show ?thesis by simp
  next
    case False
    then obtain c where c: "command d cid = Some c" "jc_state c = ''running''" by auto
    let ?c = "c\<lparr>jc_state := ''finished'', jc_result := Some r\<rparr>"
    obtain c1 d1 where ev: "appendSnapshotEvidenceEvents env r ?c d = (c1, d1)" by fastforce
    obtain ok c2 d2 where em: "emit env (cr_finished_at r) ''run_finished'' (terminalEventPayload r) c1 d1 = (ok, c2, d2)"
      by (metis prod.collapse)
    let ?c3 = "c2\<lparr>jc_result_reported := (jc_trigger c2 = ''scheduled'')\<rparr>"
    obtain f d3 where save: "save_journal env (recordOutcomeLocked env j r (put_command cid ?c3 d2)) = (f, d3)" by fastforce
    have g: "grown ?c c2" "work d2 = work d" using evidence_grown [OF ev] emit_grown [OF em] by (auto intro: grown_trans)
    have "edited c ?c" by (rule touched_edited) (simp_all add: touched_def)
    then have "edited c ?c3" by (rule edited_touched [OF edited_grown [OF _ g(1)]])
        (use grown_fields [OF g(1)] in \<open>simp_all add: touched_def\<close>)
    moreover have "work d3 = work (put_command cid ?c3 d)"
      using save_journal_frame [OF save] work_put [OF g(2)] by simp
    moreover have "d' = d3" using s c ev em save by (simp add: finish_reconciled_def)
    ultimately show ?thesis using lives_edit [OF c(1)] by simp
  qed
qed

lemma reconcile_one_lives: "reconcileOne env cid d = (e, d') \<Longrightarrow> lives d d'"
proof -
  assume s: "reconcileOne env cid d = (e, d')"
  show ?thesis
  proof (cases "command d cid")
    case None
    with s show ?thesis by (simp add: reconcileOne_def)
  next
    case (Some c)
    obtain x d1 where j: "jobForExecution env c d = (x, d1)" by fastforce
    have "lives d1 d'"
      using s Some j
      by (auto simp: reconcileOne_def Let_def split: sum.splits found_job.splits prod.splits
          dest!: finish_unexecuted_lives finish_reconciled_lives reconciled_outcome_frame [THEN lives_quiet]
            run_restic_frame [THEN lives_quiet] intro: lives_trans)
    with job_for_execution_lives [OF j] show ?thesis by (rule lives_trans)
  qed
qed

lemma reconcile_all_lives: "reconcile_all env cids d = (e, d') \<Longrightarrow> lives d d'"
proof (induction cids arbitrary: d)
  case (Cons cid cids)
  obtain e1 d1 where r: "reconcileOne env cid d = (e1, d1)" by fastforce
  have "lives d1 (d1\<lparr>dm_reconciled := False\<rparr>)" by (simp add: lives_quiet)
  with Cons reconcile_one_lives [OF r] r show ?case by (cases e1) (auto intro: lives_trans)
qed simp

lemma reconcile_lives: "reconcileInterrupted env d = (e, d') \<Longrightarrow> lives d d'"
proof -
  assume s: "reconcileInterrupted env d = (e, d')"
  obtain e1 d1 where r: "reconcile_all env (map fst (filter (\<lambda>(i, c). interrupted c) (dm_journal d)))
      (d\<lparr>dm_reconciled := True\<rparr>) = (e1, d1)" by fastforce
  have "lives d (d\<lparr>dm_reconciled := True\<rparr>)" by (simp add: lives_quiet)
  with reconcile_all_lives [OF r] have l1: "lives d d1" by (metis lives_trans)
  have "d' = d \<or> d' = d1 \<or> (\<exists>js. d' = fold startReplication js d1)"
    using s r by (auto simp: reconcileInterrupted_def Let_def split: if_splits option.splits)
  then show ?thesis using l1 fold_replication_lives by (metis lives_trans rtranclp.rtrancl_refl)
qed

lemma consume_lives: "consumeAgentUpdateResult env found d = (b, e, d') \<Longrightarrow> lives d d'"
proof -
  assume s: "consumeAgentUpdateResult env found d = (b, e, d')"
  show ?thesis
  proof (cases "\<exists>r u c. found = Inr (Some r) \<and> st_agent_update (dm_state d) = Some u
      \<and> command d (au_command_id u) = Some c")
    case False
    with s have "d' = d"
      by (auto simp: consumeAgentUpdateResult_def split: sum.splits option.splits if_splits)
    then show ?thesis by simp
  next
    case True
    then obtain r u c where f: "found = Inr (Some r)" "st_agent_update (dm_state d) = Some u"
      and c: "command d (au_command_id u) = Some c" by blast
    let ?c = "c\<lparr>jc_state := ''finished'', jc_update_result := Some r, jc_result_reported := False\<rparr>"
    define d1 where "d1 = set_update None (put_command (au_command_id u) ?c d)"
    obtain f1 d2 where s1: "save_journal env d1 = (f1, d2)" by fastforce
    obtain f2 d3 where s2: "save_state env d2 = (f2, d3)" by fastforce
    have "edited c ?c" by (rule touched_edited) (simp_all add: touched_def)
    then have "lives d (put_command (au_command_id u) ?c d)" using lives_edit [OF c] by blast
    then have "lives d d1" unfolding d1_def by (blast intro: lives_trans lives_update)
    then have "lives d d2" "lives d d3" using save_journal_frame [OF s1] save_state_frame [OF s2]
      by (blast intro: lives_work, metis lives_work)
    moreover have "d' = d \<or> d' = d2 \<or> d' = d3"
      using s f c s1 s2 by (auto simp: consumeAgentUpdateResult_def d1_def Let_def split: if_splits option.splits)
    ultimately show ?thesis by blast
  qed
qed

lemma restore_lives: "restoreAgentUpdateState env d = (e, d') \<Longrightarrow> lives d d'"
proof -
  assume s: "restoreAgentUpdateState env d = (e, d')"
  define ids where "ids = sort (map fst (filter (\<lambda>(i, c). update_pending c) (dm_journal d)))"
  define u where "u = restored_update (restored_command d ids) (the (command d (restored_command d ids)))
    (st_agent_update (dm_state d))"
  define d1 where "d1 = set_update (Some u) d"
  define d2 where "d2 = (if au_last_schedule_minute u \<noteq> [] then
      (case time_parse (au_last_schedule_minute u) of None \<Rightarrow> d1 | Some minute \<Rightarrow> d1\<lparr>dm_last_minute := minute\<rparr>) else d1)"
  obtain f1 d3 where s1: "save_state env (set_update None d) = (f1, d3)" by fastforce
  obtain f2 d4 where s2: "save_state env d2 = (f2, d4)" by fastforce
  have "work d2 = work d1" by (simp add: d2_def split: option.split)
  then have l2: "lives d d2" using lives_update lives_work unfolding d1_def by blast
  have l: "lives d d3" "lives d d4"
    using lives_work [OF lives_update save_state_frame [OF s1]] lives_work [OF l2 save_state_frame [OF s2]] by simp_all
  have "restoreAgentUpdateState env d =
    (if ids = [] then if st_agent_update (dm_state d) = None then (None, d) else (store_failed f1, d3)
     else if st_agent_update (dm_state d) = Some u then (None, d2) else (store_failed f2, d4))"
    using s1 s2 unfolding restoreAgentUpdateState_def by (simp only: Let_def prod.case flip: ids_def u_def d1_def d2_def)
  with s l l2 show ?thesis by (auto split: if_splits)
qed

lemma discard_jobless_lives: "discardJoblessCancellations env d = (e, d') \<Longrightarrow> lives d d'"
proof -
  let ?d = "d\<lparr>dm_journal := filter (\<lambda>(i, c). \<not> jobless_cancellation c) (dm_journal d)\<rparr>"
  have l: "lives d ?d" by (rule r_into_rtranclp, rule life.drop) (simp_all add: same_flags_def)
  have "save_journal env ?d = (f, d2) \<Longrightarrow> lives d d2" for f d2
    using save_journal_frame l lives_work by metis
  then show "discardJoblessCancellations env d = (e, d') \<Longrightarrow> lives d d'"
    by (auto simp: discardJoblessCancellations_def Let_def split: if_splits prod.splits)
qed

lemma dispatch_lives: "lives d (snd (dispatchCommands env found h d))"
proof -
  obtain b e1 d1 where c: "consumeAgentUpdateResult env found d = (b, e1, d1)" by (metis prod.collapse)
  obtain e2 d2 where r: "reconcileInterrupted env d1 = (e2, d2)" by fastforce
  obtain e3 d3 where h2: "handleRequestError env e2 d2 = (e3, d3)" by fastforce
  obtain e4 d4 where a: "advanceCommands env h d2 = (e4, d4)" by fastforce
  obtain e5 d5 where h4: "handleRequestError env e4 (resumeReplications d4) = (e5, d5)" by fastforce
  have l: "lives d d1" "lives d1 d2" "lives d2 d3" "lives d2 d4" "lives d4 (resumeReplications d4)"
    "lives (resumeReplications d4) d5"
    using consume_lives [OF c] reconcile_lives [OF r] framed_lives h2 h4 a resume_lives
    by (auto simp: advanceCommands_def dest: advance_all_lives handle_error_frame [THEN lives_quiet])
  have "snd (dispatchCommands env found h d) \<in> {d1, d2, d3, d5}"
    using c r h2 a h4 by (auto simp: dispatchCommands_def split: option.splits)
  with l show ?thesis by (auto intro: lives_trans)
qed

section \<open>Reporting\<close>

lemma update_command_lives:
  assumes "update_command cid f env d = (x, d')" "\<And>c. touched c (f c) \<and> jc_state (f c) = jc_state c"
  shows "lives d d'"
proof (cases "command d cid")
  case None
  with assms(1) show ?thesis by (simp add: update_command_def)
next
  case (Some c)
  with assms show ?thesis by (auto simp: update_command_def intro: saved_new_edit)
qed

lemma take_length_take: "take (length (take n xs)) xs = take n xs"
  by (simp add: min_def)

lemma sorted_subsequence:
  assumes "sorted_wrt (<) (map f xs)"
  shows "sorted_wrt (<) (map f (filter Q (map snd (filter P (zip items xs)))))
    \<and> set (filter Q (map snd (filter P (zip items xs)))) \<subseteq> set xs"
  using assms
proof (induction items xs rule: list_induct2')
  case (4 x xs y ys)
  then show ?case by (auto dest: set_zip_rightD)
qed simp_all

lemma events_subsequence:
  assumes "sequenced c" "jc_events c = batch @ rest"
  shows "sequenced (c\<lparr>jc_events := filter Q (map snd (filter P (zip items batch))) @ rest\<rparr>)"
proof -
  let ?kept = "filter Q (map snd (filter P (zip items batch)))"
  have "sorted_wrt (<) (map ev_sequence batch)" using assms by (simp add: sequenced_def sorted_wrt_append)
  note sub = sorted_subsequence [OF this, of Q P items]
  have "\<forall>x \<in> set ?kept. \<forall>y \<in> set rest. ev_sequence x < ev_sequence y"
    using sub assms unfolding sequenced_def by (simp add: sorted_wrt_append) blast
  moreover have "\<forall>x \<in> set ?kept. ev_sequence x \<le> jc_sequence c"
    using sub assms unfolding sequenced_def by (metis UnCI set_append subsetD)
  ultimately show ?thesis
    using sub assms by (simp del: filter_map map_map filter_filter add: sequenced_def sorted_wrt_append ball_Un)
qed

lemma store_answers_lives:
  assumes "store_answers env cid batch items d = (e, d')"
    and "\<And>c. command d cid = Some c \<Longrightarrow> take (length batch) (jc_events c) = batch"
  shows "lives d d'"
proof -
  let ?retained = "retained_events items batch"
  define gap where "gap = (length ?retained < length (rejected_events items batch))"
  show ?thesis
  proof (cases "command d cid")
    case None
    obtain f d1 where "(if gap then save_state env d else (None, d)) = (f, d1)" by fastforce
    moreover from this have "work d1 = work d" by (auto dest: save_state_frame split: if_splits)
    ultimately show ?thesis using assms(1) None
      by (auto simp: store_answers_def gap_def Let_def intro: lives_quiet split: option.splits if_splits)
  next
    case (Some c)
    let ?c = "c\<lparr>jc_events := ?retained @ drop (length batch) (jc_events c)\<rparr>"
    let ?d = "if gap then markSpoolGapLocked (put_command cid ?c d) else put_command cid ?c d"
    obtain f d1 where s1: "save_journal env ?d = (f, d1)" by fastforce
    obtain g d2 where s2: "(if gap then save_state env d1 else (None, d1)) = (g, d2)" by fastforce
    have "jc_events c = batch @ drop (length batch) (jc_events c)"
      using assms(2) [OF Some] append_take_drop_id [of "length batch" "jc_events c"] by simp
    then have "sequenced c \<Longrightarrow> sequenced ?c"
      using events_subsequence [of c batch "drop (length batch) (jc_events c)" "\<lambda>e. ev_kind e \<in> set critical_kinds"
          "\<lambda>(item, e). er_status item = ''rejected''" items]
      by (simp add: retained_events_def rejected_events_def)
    then have e: "edited c ?c" by (simp add: edited_def)
    have w1: "work d1 = work (put_command cid ?c d)" using save_journal_frame [OF s1] by (cases gap) simp_all
    have w2: "work d2 = work (put_command cid ?c d)" using s2 w1 by (auto dest: save_state_frame split: if_splits)
    have "d' = d1 \<or> d' = d2" using assms(1) Some s1 s2
      by (auto simp: store_answers_def gap_def Let_def split: option.splits)
    then show ?thesis using lives_edit [OF Some e] w1 w2 by blast
  qed
qed

lemma flush_events_lives:
  assumes "flush_events env cid events d = (x, sent, d')"
    and "\<And>c. command d cid = Some c \<Longrightarrow> jc_events c = events"
  shows "lives d d'"
proof (cases "events = []")
  case True
  with assms show ?thesis by (simp add: flush_events_def)
next
  case False
  obtain y d1 where sub: "SubmitEvents env (take maximumEventBatch events) d = (y, d1)" by fastforce
  have w: "work d1 = work d" using sub by (auto simp: SubmitEvents_def split: sum.splits if_splits)
  show ?thesis
  proof (cases y)
    case (Inl e)
    with assms False sub w show ?thesis by (auto simp: flush_events_def intro: lives_quiet)
  next
    case (Inr items)
    obtain g d2 where st: "store_answers env cid (take maximumEventBatch events) items d1 = (g, d2)" by fastforce
    have "take (length (take maximumEventBatch events)) (jc_events c) = take maximumEventBatch events"
      if "command d1 cid = Some c" for c
    proof -
      have "jc_events c = events" using assms(2) [of c] that command_work [OF w] by simp
      then show ?thesis by (simp only: take_length_take)
    qed
    with st have "lives d1 d2" by (rule store_answers_lives)
    moreover have "d' = d2" using assms(1) False sub Inr st
      by (auto simp: flush_events_def Let_def split: option.splits)
    ultimately show ?thesis using w by (metis work_lives)
  qed
qed

lemma upload_chunks_lives: "upload_chunks env cid rid lid n cs d = (e, sent, d') \<Longrightarrow> lives d d'"
proof (induction cs arbitrary: n d sent)
  case (Cons c cs)
  have t: "lives d (tick d)" by (simp add: lives_quiet)
  obtain f d1 where u: "update_command cid (\<lambda>c. c\<lparr>jc_next_log_chunk := n + 1\<rparr>) env (tick d) = (f, d1)" by fastforce
  have l1: "lives (tick d) d1" using u by (rule update_command_lives) (simp add: touched_def)
  from Cons.prems u have "d' = tick d \<or> d' = d1 \<or> (\<exists>s. upload_chunks env cid rid lid (Suc n) cs d1 = (e, s, d'))"
    by (auto simp: Let_def split: option.splits prod.splits)
  with t l1 Cons.IH show ?case by (meson lives_trans)
qed simp

lemma complete_log_lives: "complete_log env cid rid lid d = (e, sent, d') \<Longrightarrow> lives d d'"
proof -
  assume s: "complete_log env cid rid lid d = (e, sent, d')"
  have t: "lives d (tick d)" by (simp add: lives_quiet)
  obtain f d1 where u: "update_command cid (\<lambda>c. c\<lparr>jc_log_completed := True\<rparr>) env (tick d) = (f, d1)" by fastforce
  have "lives (tick d) d1" using u by (rule update_command_lives) (simp add: touched_def)
  moreover have "d' = d \<or> d' = tick d \<or> d' = d1" using s u by (auto simp: complete_log_def split: option.splits)
  ultimately show ?thesis using t by (auto intro: lives_trans)
qed

lemma flush_log_lives: "flush_log env cid c d = (e, sent, d') \<Longrightarrow> lives d d'"
  unfolding flush_log_def Let_def
  by (auto split: if_splits sum.splits prod.splits option.splits dest!: upload_chunks_lives complete_log_lives
      intro: lives_trans)

lemma submit_lives: "submit env cid r d = (e, sent, d') \<Longrightarrow> lives d d'"
proof -
  assume s: "submit env cid r d = (e, sent, d')"
  have t: "lives d (tick d)" by (simp add: lives_quiet)
  obtain f d1 where u: "update_command cid (\<lambda>c. c\<lparr>jc_result_reported := True\<rparr>) env (tick d) = (f, d1)" by fastforce
  have "lives (tick d) d1" using u by (rule update_command_lives) (simp add: touched_def)
  moreover have "d' = tick d \<or> d' = d1" using s u by (auto simp: submit_def split: option.splits)
  ultimately show ?thesis using t by (auto intro: lives_trans)
qed

lemma flush_result_lives: "flush_result env cid c d = (e, sent, d') \<Longrightarrow> lives d d'"
  unfolding flush_result_def by (auto split: if_splits option.splits dest: submit_lives)

lemma remove_log_frame: "remove_log env lid d = (e, d') \<Longrightarrow> work d' = work d"
  by (auto simp: remove_log_def Let_def split: if_splits prod.splits option.splits)

lemma flush_removal_lives: "flush_removal env cid lid d = (e, d') \<Longrightarrow> lives d d'"
proof -
  assume s: "flush_removal env cid lid d = (e, d')"
  obtain f d1 where save: "save_journal env (drop_command cid d) = (f, d1)" by fastforce
  obtain g d2 where r: "remove_log env lid d1 = (g, d2)" by fastforce
  have "d' = d \<or> d' = d1 \<or> d' = d2" using s save r
    by (auto simp: flush_removal_def split: option.splits if_splits)
  then show ?thesis using lives_drop save_journal_frame [OF save] remove_log_frame [OF r] by (metis lives_work rtranclp.rtrancl_refl)
qed

lemma flush_command_lives: "flushCommand env cid d = (e, sent, d') \<Longrightarrow> lives d d'"
proof -
  assume s: "flushCommand env cid d = (e, sent, d')"
  show ?thesis
  proof (cases "command d cid = None \<or> \<not> jc_acknowledged (the (command d cid))")
    case True
    with s have "d' = d" by (auto simp: flushCommand_def split: option.splits)
    then show ?thesis by simp
  next
    case False
    then obtain c where c: "command d cid = Some c" "jc_acknowledged c" by auto
    obtain x s1 d1 where e: "flush_events env cid (jc_events c) d = (x, s1, d1)" by (metis prod.collapse)
    obtain e2 s2 d2 where l: "flush_log env cid c d1 = (e2, s2, d2)" by (metis prod.collapse)
    obtain e3 s3 d3 where r: "flush_result env cid c d2 = (e3, s3, d3)" by (metis prod.collapse)
    obtain e4 d4 where m: "flush_removal env cid (jc_log_id c) d3 = (e4, d4)" by fastforce
    have l1: "lives d d1" using e by (rule flush_events_lives) (simp add: c)
    have "d' \<in> {d1, d2, d3, d4}" using s c e l r m
      by (auto simp: flushCommand_def split: sum.splits option.splits)
    then show ?thesis
      using l1 flush_log_lives [OF l] flush_result_lives [OF r] flush_removal_lives [OF m] by (auto intro: lives_trans)
  qed
qed

lemma flush_all_lives: "flush_all env cids d = (e, sent, d') \<Longrightarrow> lives d d'"
proof (induction cids arbitrary: d e sent)
  case (Cons cid cids)
  then show ?case by (auto simp: Let_def split: prod.splits dest!: flush_command_lives intro: lives_trans)
qed simp

lemma report_lives: "lives d (snd (snd (reportJournal env d)))"
proof -
  obtain f d1 where s: "save_journal env d = (f, d1)" by fastforce
  obtain e sent d2 where fl: "flushJournal env d = (e, sent, d2)" by (metis prod.collapse)
  obtain g d3 where h: "handleRequestError env e d2 = (g, d3)" by fastforce
  have "lives d d2" using fl s
    by (auto simp: flushJournal_def split: option.splits dest!: flush_all_lives save_journal_frame [THEN lives_quiet]
        intro: lives_trans)
  then show ?thesis using fl h handle_error_frame [OF h] by (simp add: reportJournal_def lives_work)
qed

end
