(* ===== verification/Retired.thy ===== *)
theory Retired
  imports Reporting
begin

text \<open>
  Retired enrolments (agent/retired.go): what an earlier enrolment of the agent still has to report when it
  is enrolled again. The records are one value of the metadata bucket, which no other part of the agent
  touches, so they are a state of their own beside the daemon's.
\<close>

section \<open>Records\<close>

record retired_enrollment =
  re_endpoint :: string
  re_server_id :: string
  re_generation :: nat
  re_credential :: string
  re_expires_at :: string

definition validControlPlaneEndpoint :: "(string \<Rightarrow> endpoint_url option) \<Rightarrow> string \<Rightarrow> bool" where
  "validControlPlaneEndpoint parse value =
     (case parse value of
        None \<Rightarrow> False
      | Some u \<Rightarrow>
          if ur_scheme u = [] \<or> eu_host u = [] \<or> ur_has_user u \<or> ur_raw_query u \<noteq> [] \<or> ur_fragment u \<noteq> [] then False
          else ur_scheme u = ''https'' \<or> (ur_scheme u = ''http'' \<and> ur_hostname u = ''127.0.0.1''))"

text \<open>The number of bytes \<open>base64.RawURLEncoding\<close> decodes a text to: line breaks are skipped, and a last group of
  one character is refused.\<close>

definition raw_url_bytes :: "string \<Rightarrow> nat option" where
  "raw_url_bytes s =
     (let t = filter (\<lambda>c. c \<noteq> CHR 0x0A \<and> c \<noteq> CHR 0x0D) s
      in if list_all (\<lambda>c. is_digit c \<or> (CHR ''a'' \<le> c \<and> c \<le> CHR ''z'') \<or> (CHR ''A'' \<le> c \<and> c \<le> CHR ''Z'') \<or> c = CHR ''-'' \<or> c = CHR ''_'') t
            \<and> length t mod 4 \<noteq> 1
         then Some (length t * 3 div 4) else None)"

definition retired_ok :: "(string \<Rightarrow> endpoint_url option) \<Rightarrow> retired_enrollment \<Rightarrow> bool" where
  "retired_ok parse r =
     (\<not> (\<not> validControlPlaneEndpoint parse (re_endpoint r) \<or> \<not> is_ulid (re_server_id r) \<or> re_generation r = 0
         \<or> \<not> validateTimestamp (re_expires_at r))
      \<and> (case raw_url_bytes (re_credential r) of None \<Rightarrow> False | Some n \<Rightarrow> \<not> n < 32))"

text \<open>The record list is the JSON of an array; what was encoded is what is decoded.\<close>

definition openRetiredEnrollments ::
  "(string \<Rightarrow> endpoint_url option) \<Rightarrow> retired_enrollment list \<Rightarrow> retired_enrollment list option" where
  "openRetiredEnrollments parse rs = (if list_all (retired_ok parse) rs then Some rs else None)"

type_synonym retired_bucket = "retired_enrollment list option"

datatype retired_error = RetiredInvalid | RetiredFailed daemon_error

definition loadRetiredEnrollments ::
  "(string \<Rightarrow> endpoint_url option) \<Rightarrow> store_error option \<Rightarrow> retired_bucket \<Rightarrow> retired_error + retired_enrollment list" where
  "loadRetiredEnrollments parse failed b =
     (case failed of
        Some e \<Rightarrow> Inl (RetiredFailed (StoreFailure e))
      | None \<Rightarrow>
          (case b of
             None \<Rightarrow> Inr []
           | Some rs \<Rightarrow> (case openRetiredEnrollments parse rs of None \<Rightarrow> Inl RetiredInvalid | Some rs \<Rightarrow> Inr rs)))"

text \<open>A transaction on the bucket: the rest of the database stays as it is.\<close>

definition saveRetiredEnrollments ::
  "write_outcome \<Rightarrow> retired_enrollment list \<Rightarrow> retired_bucket \<Rightarrow> file_store \<Rightarrow>
   store_error option \<times> retired_bucket \<times> file_store" where
  "saveRetiredEnrollments w rs b fs =
     (case updateState w Inr fs of
        (Some e, fs) \<Rightarrow> (Some e, b, fs)
      | (None, fs) \<Rightarrow> (None, if rs = [] then None else Some rs, fs))"

definition same_enrollment :: "retired_enrollment \<Rightarrow> retired_enrollment \<Rightarrow> bool" where
  "same_enrollment a b = (re_server_id a = re_server_id b \<and> re_generation a = re_generation b)"

text \<open>The loop over the records: a record of the same enrolment is replaced, with the expiry of the one it
  replaces, which then is the one the next match gets.\<close>

fun replace_retired :: "retired_enrollment \<Rightarrow> retired_enrollment list \<Rightarrow> bool \<times> retired_enrollment \<times> retired_enrollment list" where
  "replace_retired r [] = (False, r, [])"
| "replace_retired r (x # xs) =
     (if same_enrollment x r then
        (let r = r\<lparr>re_expires_at := re_expires_at x\<rparr>; (found, s, ys) = replace_retired r xs in (True, s, r # ys))
      else (let (found, s, ys) = replace_retired r xs in (found, s, x # ys)))"

definition rotateRetiredEnrollments ::
  "(string \<Rightarrow> endpoint_url option) \<Rightarrow> store_error option \<Rightarrow> store_error option \<Rightarrow> write_outcome \<Rightarrow> retired_enrollment \<Rightarrow>
   retired_bucket \<Rightarrow> file_store \<Rightarrow> retired_error option \<times> retired_bucket \<times> file_store" where
  "rotateRetiredEnrollments parse failed failed' w r b fs =
     (case (case loadRetiredEnrollments parse failed b of
              Inr rs \<Rightarrow> Inr rs | Inl _ \<Rightarrow> loadRetiredEnrollments parse failed' b) of
        Inl e \<Rightarrow> (Some e, b, fs)
      | Inr rs \<Rightarrow>
          (let (found, s, ys) = replace_retired r rs;
               (e, b, fs) = saveRetiredEnrollments w (if found then ys else ys @ [s]) b fs
           in (map_option (RetiredFailed \<circ> StoreFailure) e, b, fs)))"

section \<open>Settling the journal\<close>

definition terminal_kinds :: "string list" where
  "terminal_kinds = [''snapshot_inventory_chunk'', ''run_finished'']"

text \<open>What a new enrolment makes of a run of the old one that had not ended.\<close>

definition settled_result :: "nat \<Rightarrow> time \<Rightarrow> journal_command \<Rightarrow> command_result" where
  "settled_result generation now c =
     (let running = (jc_state c = ''running'')
      in zero_result\<lparr>cr_generation := generation, cr_run_id := jc_run_id c,
           cr_job_id := cp_job_id (ac_payload (jc_command c)), cr_run_kind := jc_run_kind c,
           cr_status := (if running then ''unresolved'' else ''cancelled''),
           cr_result_code := (if running then ''outcome_unresolved'' else ''cancelled''),
           cr_started_at := jc_received_at c, cr_finished_at := protocolTimestamp now,
           cr_summary := (if running then ''Re-enrollment ended the run before its outcome was confirmed.''
                          else ''The backup was cancelled before re-enrollment.'')\<rparr>)"

definition end_unfinished :: "nat \<Rightarrow> time \<Rightarrow> string \<Rightarrow> journal_command \<Rightarrow> journal_command" where
  "end_unfinished generation now event_id c =
     (let r = settled_result generation now c
      in add_event event_id (protocolTimestamp now) ''run_finished'' (terminalEventPayload r)
           (next_sequence (c\<lparr>jc_state := ''finished'', jc_result := Some r\<rparr>)))"

definition quieted :: "journal_command \<Rightarrow> journal_command" where
  "quieted c =
     c\<lparr>jc_events := filter (\<lambda>e. ev_kind e \<in> set terminal_kinds) (jc_events c), jc_job_snapshot := NoSnapshot,
       jc_result_reported := True\<rparr>"

definition unfinished :: "journal_command \<Rightarrow> bool" where
  "unfinished c = (jc_state c = ''received'' \<or> jc_state c = ''running'')"

text \<open>The loop over the journal; \<open>draws\<close> are the random bytes of the identities, nothing if a draw failed.\<close>

fun settle_commands ::
  "bootstrap \<Rightarrow> time \<Rightarrow> (nat \<Rightarrow> nat list option) \<Rightarrow> nat \<Rightarrow> (string, journal_command) gomap \<Rightarrow>
   (string, journal_command) gomap option" where
  "settle_commands b now draws n [] = Some []"
| "settle_commands b now draws n ((i, c) # rest) =
     (if ac_generation (jc_command c) \<noteq> bs_generation b
      then map_option (Cons (i, c)) (settle_commands b now draws n rest)
      else if \<not> unfinished c then map_option (Cons (i, quieted c)) (settle_commands b now draws n rest)
      else (case newULID now (draws n) of
              None \<Rightarrow> None
            | Some event_id \<Rightarrow>
                map_option (Cons (i, quieted (end_unfinished (bs_generation b) now event_id c)))
                  (settle_commands b now draws (Suc n) rest)))"

record retire_env =
  ree_parse :: "string \<Rightarrow> endpoint_url option"
  ree_load :: "store_error option"
  ree_draws :: "nat \<Rightarrow> nat list option"
  ree_journal :: write_outcome
  ree_read :: "store_error option"
  ree_read_again :: "store_error option"
  ree_write :: write_outcome

definition retired_record :: "bootstrap \<Rightarrow> time \<Rightarrow> retired_enrollment" where
  "retired_record b now =
     \<lparr>re_endpoint = bs_endpoint b, re_server_id = bs_server_id b, re_generation = bs_generation b,
      re_credential = bs_credential b, re_expires_at = protocolTimestamp (now + seconds (24 * 3600))\<rparr>"

definition prepareRetiredGeneration ::
  "retire_env \<Rightarrow> bootstrap \<Rightarrow> time \<Rightarrow> retired_bucket \<Rightarrow> file_store \<Rightarrow> retired_error option \<times> retired_bucket \<times> file_store" where
  "prepareRetiredGeneration env b now rb fs =
     (case (case ree_load env of Some e \<Rightarrow> Inl e | None \<Rightarrow> LoadCommandJournal (fs_db fs)) of
        Inl e \<Rightarrow> (Some (RetiredFailed (StoreFailure e)), rb, fs)
      | Inr j \<Rightarrow>
          (case settle_commands b now (ree_draws env) 0 (cj_commands j) of
             None \<Rightarrow> (Some (RetiredFailed RandomFailure), rb, fs)
           | Some m \<Rightarrow>
               (case updateState (ree_journal env) (SaveCommandJournal (j\<lparr>cj_commands := m\<rparr>)) fs of
                  (Some e, fs) \<Rightarrow> (Some (RetiredFailed (StoreFailure e)), rb, fs)
                | (None, fs) \<Rightarrow>
                    rotateRetiredEnrollments (ree_parse env) (ree_read env) (ree_read_again env) (ree_write env)
                      (retired_record b now) rb fs)))"

section \<open>Reporting\<close>

text \<open>Events go out one batch at a time. The first result tells whether the handler stops here, and with which
  error; a rejected event is an error, and nothing of its batch is forgotten then.\<close>

definition retired_rejection :: "event_result list \<Rightarrow> daemon_error option" where
  "retired_rejection items =
     map_option (\<lambda>item. EventRejected (er_id item)) (find (\<lambda>item. er_status item = ''rejected'') items)"

definition retired_events ::
  "daemon_env \<Rightarrow> string \<Rightarrow> agent_event list \<Rightarrow> daemon \<Rightarrow> (daemon_error option + unit) \<times> report list \<times> daemon" where
  "retired_events env cid events d =
     (if events = [] then (Inr (), [], d)
      else
        (let batch = take maximumEventBatch events
         in case SubmitEvents env batch d of
              (Inl e, d) \<Rightarrow> (Inl (Some e), [], d)
            | (Inr items, d) \<Rightarrow>
                (case retired_rejection items of
                   Some e \<Rightarrow> (Inl (Some e), [EventsReport batch], d)
                 | None \<Rightarrow>
                     (case update_command cid (\<lambda>c. c\<lparr>jc_events := drop (length batch) (jc_events c)\<rparr>) env d of
                        (Some f, d) \<Rightarrow> (Inl (Some (StoreFailure f)), [EventsReport batch], d)
                      | (None, d) \<Rightarrow>
                          (if length batch < length events then Inl None else Inr (), [EventsReport batch], d)))))"

definition retired_completion :: "nat \<Rightarrow> journal_command \<Rightarrow> log_completion" where
  "retired_completion generation c =
     \<lparr>lc_generation = generation, lc_total_bytes = jc_log_bytes c, lc_sha256 = jc_log_sha256 c,
      lc_chunk_count = (jc_log_bytes c + maximumLogChunk - 1) div maximumLogChunk,
      lc_truncated = jc_log_truncated c, lc_dropped_bytes = jc_log_dropped_bytes c\<rparr>"

definition retired_log ::
  "daemon_env \<Rightarrow> nat \<Rightarrow> string \<Rightarrow> journal_command \<Rightarrow> daemon \<Rightarrow> daemon_error option \<times> report list \<times> daemon" where
  "retired_log env generation cid c d =
     (if jc_log_id c = [] \<or> jc_log_completed c then (None, [], d)
      else (case ReadChecksummedRunLog (jc_log_id c) (jc_log_sha256 c) (dm_store d) of
              Inl f \<Rightarrow> (Some (StoreFailure f), [], d)
            | Inr log \<Rightarrow>
                (let n = jc_next_log_chunk c
                 in case upload_chunks env cid (jc_run_id c) (jc_log_id c) n
                           (chunks maximumLogChunk (drop (n * maximumLogChunk) log)) d of
                      (Some e, sent, d) \<Rightarrow> (Some e, sent, d)
                    | (None, sent, d) \<Rightarrow>
                        (case (de_request env (dm_tick d), tick d) of
                           (Some e, d) \<Rightarrow> (Some e, sent, d)
                         | (None, d) \<Rightarrow>
                             (let (failed, d) = update_command cid (\<lambda>c. c\<lparr>jc_log_completed := True\<rparr>) env d
                              in (store_failed failed,
                                  sent @ [LogReport (jc_run_id c) (jc_log_id c) (retired_completion generation c)], d))))))"

definition remove_run_log :: "string \<Rightarrow> daemon \<Rightarrow> store_error option \<times> daemon" where
  "remove_run_log log_id d =
     (let (e, fs) = (if log_id = [] then (None, dm_store d) else RemoveRunLog log_id (dm_store d))
      in (e, d\<lparr>dm_store := fs\<rparr>))"

definition retired_removal :: "daemon_env \<Rightarrow> string \<Rightarrow> string \<Rightarrow> daemon \<Rightarrow> daemon_error option \<times> daemon" where
  "retired_removal env cid log_id d =
     (case command d cid of
        None \<Rightarrow> (None, d)
      | Some c \<Rightarrow>
          if jc_events c \<noteq> [] \<or> (jc_log_id c \<noteq> [] \<and> \<not> jc_log_completed c) then (None, d)
          else (case save_journal env (drop_command cid d) of
                  (Some f, d) \<Rightarrow> (Some (StoreFailure f), d)
                | (None, d) \<Rightarrow> (let (e, d) = remove_run_log log_id d in (store_failed e, d))))"

definition flushRetiredCommand ::
  "daemon_env \<Rightarrow> nat \<Rightarrow> string \<Rightarrow> daemon \<Rightarrow> daemon_error option \<times> report list \<times> daemon" where
  "flushRetiredCommand env generation cid d =
     (case command d cid of
        None \<Rightarrow> (None, [], d)
      | Some c \<Rightarrow>
          if ac_generation (jc_command c) \<noteq> generation then (None, [], d)
          else (case retired_events env cid (jc_events c) d of
                  (Inl e, sent, d) \<Rightarrow> (e, sent, d)
                | (Inr _, sent, d) \<Rightarrow>
                    (case retired_log env generation cid c d of
                       (Some e, logs, d) \<Rightarrow> (Some e, sent @ logs, d)
                     | (None, logs, d) \<Rightarrow>
                         (let (e, d) = retired_removal env cid (jc_log_id c) d in (e, sent @ logs, d)))))"

section \<open>Purging\<close>

fun remove_run_logs :: "string list \<Rightarrow> daemon \<Rightarrow> store_error option \<times> daemon" where
  "remove_run_logs [] d = (None, d)"
| "remove_run_logs (i # is) d =
     (case remove_run_log i d of (Some e, d) \<Rightarrow> (Some e, d) | (None, d) \<Rightarrow> remove_run_logs is d)"

definition of_generation :: "nat \<Rightarrow> string \<times> journal_command \<Rightarrow> bool" where
  "of_generation generation e = (ac_generation (jc_command (snd e)) = generation)"

definition purgeRetiredGeneration :: "daemon_env \<Rightarrow> nat \<Rightarrow> daemon \<Rightarrow> store_error option \<times> daemon" where
  "purgeRetiredGeneration env generation d =
     (let logs = filter (\<lambda>i. i \<noteq> []) (map (jc_log_id \<circ> snd) (filter (of_generation generation) (dm_journal d)))
      in case save_journal env (d\<lparr>dm_journal := filter (\<lambda>e. \<not> of_generation generation e) (dm_journal d)\<rparr>) of
           (Some f, d) \<Rightarrow> (Some f, d)
         | (None, d) \<Rightarrow> remove_run_logs logs d)"

definition purgeRetiredCommand :: "daemon_env \<Rightarrow> string \<Rightarrow> daemon \<Rightarrow> store_error option \<times> daemon" where
  "purgeRetiredCommand env cid d =
     (let log_id = (case command d cid of None \<Rightarrow> [] | Some c \<Rightarrow> jc_log_id c)
      in case save_journal env (drop_command cid d) of
           (Some f, d) \<Rightarrow> (Some f, d)
         | (None, d) \<Rightarrow> remove_run_log log_id d)"

section \<open>The report\<close>

abbreviation is_revoked :: "daemon_error option \<Rightarrow> bool" where
  "is_revoked e \<equiv> e \<noteq> None \<and> api_code (the e) = Some ''enrollment_revoked''"

fun flush_retired ::
  "daemon_env \<Rightarrow> nat \<Rightarrow> string list \<Rightarrow> daemon \<Rightarrow> daemon_error option \<times> report list \<times> daemon" where
  "flush_retired env generation [] d = (None, [], d)"
| "flush_retired env generation (cid # cids) d =
     (let (e, sent, d) = flushRetiredCommand env generation cid d
      in if is_revoked e then
           (case purgeRetiredCommand env cid d of
              (Some f, d) \<Rightarrow> (Some (StoreFailure f), sent, d)
            | (None, d) \<Rightarrow> (let (e, rest, d) = flush_retired env generation cids d in (e, sent @ rest, d)))
         else if e \<noteq> None then (e, sent, d)
         else (let (e, rest, d) = flush_retired env generation cids d in (e, sent @ rest, d)))"

text \<open>The first result is the one the caller takes for \<open>complete\<close>.\<close>

definition flushRetiredGeneration ::
  "daemon_env \<Rightarrow> nat \<Rightarrow> daemon \<Rightarrow> bool \<times> daemon_error option \<times> report list \<times> daemon" where
  "flushRetiredGeneration env generation d =
     (let (e, sent, d) = flush_retired env generation
            (sort (map fst (filter (of_generation generation) (dm_journal d)))) d
      in (e = None, e, sent, d))"

definition save_retired ::
  "daemon_env \<Rightarrow> retired_enrollment list \<Rightarrow> retired_bucket \<Rightarrow> daemon \<Rightarrow> store_error option \<times> retired_bucket \<times> daemon" where
  "save_retired env rs b d =
     (let (e, b, fs) = saveRetiredEnrollments (de_write env (dm_tick d)) rs b (dm_store d)
      in (e, b, tick (d\<lparr>dm_store := fs\<rparr>)))"

text \<open>A timestamp that does not parse is the zero time, which has passed.\<close>

definition enrollment_expired :: "time \<Rightarrow> retired_enrollment \<Rightarrow> bool" where
  "enrollment_expired now r = (case time_parse (re_expires_at r) of None \<Rightarrow> True | Some t \<Rightarrow> t \<le> now)"

text \<open>The loop over the records. \<open>kept\<close> shares its memory with the records, so its elements stand in their place
  when the records are saved after an error.\<close>

fun report_retired ::
  "daemon_env \<Rightarrow> retired_enrollment list \<Rightarrow> retired_enrollment list \<Rightarrow> retired_enrollment list \<Rightarrow> retired_bucket \<Rightarrow> daemon \<Rightarrow>
   daemon_error option \<times> report list \<times> retired_bucket \<times> daemon" where
  "report_retired env records kept [] b d =
     (let (e, b, d) = save_retired env kept b d in (store_failed e, [], b, d))"
| "report_retired env records kept (r # rs) b d =
     (let (now, d) = read_now env d
      in if enrollment_expired now r then
           (case purgeRetiredGeneration env (re_generation r) d of
              (Some f, d) \<Rightarrow> (Some (StoreFailure f), [], b, d)
            | (None, d) \<Rightarrow> report_retired env records kept rs b d)
         else
           (let (complete, e, sent, d) = flushRetiredGeneration env (re_generation r) d
            in if is_revoked e then
                 (case purgeRetiredGeneration env (re_generation r) d of
                    (Some f, d) \<Rightarrow> (Some (StoreFailure f), sent, b, d)
                  | (None, d) \<Rightarrow>
                      (let (e, rest, b, d) = report_retired env records kept rs b d in (e, sent @ rest, b, d)))
               else if e \<noteq> None then
                 (let (f, b, d) = save_retired env (kept @ drop (length kept) records) b d
                  in (if f = None then e else store_failed f, sent, b, d))
               else
                 (let (e, rest, b, d) = report_retired env records (if complete then kept else kept @ [r]) rs b d
                  in (e, sent @ rest, b, d))))"

definition reportRetiredJournal ::
  "daemon_env \<Rightarrow> (string \<Rightarrow> endpoint_url option) \<Rightarrow> retired_bucket \<Rightarrow> daemon \<Rightarrow>
   retired_error option \<times> report list \<times> retired_bucket \<times> daemon" where
  "reportRetiredJournal env parse b d =
     (case (loadRetiredEnrollments parse (de_read env (dm_tick d)) b, tick d) of
        (Inl e, d) \<Rightarrow> (Some e, [], b, d)
      | (Inr [], d) \<Rightarrow> (None, [], b, d)
      | (Inr rs, d) \<Rightarrow>
          (let records = sort_key re_generation rs; (e, sent, b, d) = report_retired env records [] records b d
           in (map_option RetiredFailed e, sent, b, d)))"

end
