(* ===== verification/RetiredSteps.thy ===== *)
theory RetiredSteps
  imports Handlers Retired
begin

text \<open>
  The report of retired enrolments is a run of the abstract machine too: it shortens the events of commands
  and removes commands, and touches no run.
\<close>

lemma shortened_lives:
  assumes "update_command cid (\<lambda>c. c\<lparr>jc_events := drop n (jc_events c)\<rparr>) env d = (e, d')"
  shows "lives d d'"
proof (cases "command d cid")
  case None
  with assms show ?thesis by (simp add: update_command_def)
next
  case (Some c)
  have "edited c (c\<lparr>jc_events := drop n (jc_events c)\<rparr>)"
    by (auto simp: edited_def sequenced_def state_step_def sorted_wrt_drop drop_map [symmetric] dest: in_set_dropD)
  moreover have "work d' = work (put_command cid (c\<lparr>jc_events := drop n (jc_events c)\<rparr>) d)"
    using assms Some by (auto simp: update_command_def dest: save_journal_frame)
  ultimately show ?thesis using Some by (rule_tac lives_edit)
qed

lemma retired_events_lives: "retired_events env cid events d = (x, sent, d') \<Longrightarrow> lives d d'"
proof -
  assume r: "retired_events env cid events d = (x, sent, d')"
  let ?batch = "take maximumEventBatch events"
  obtain y d1 where sub: "SubmitEvents env ?batch d = (y, d1)" by fastforce
  obtain f d2 where u: "update_command cid (\<lambda>c. c\<lparr>jc_events := drop (length ?batch) (jc_events c)\<rparr>) env d1 = (f, d2)"
    by fastforce
  have w: "work d1 = work d" using sub by (auto simp: SubmitEvents_def split: sum.splits if_splits)
  have "d' \<in> {d, d1, d2}" using r sub u
    by (auto simp: retired_events_def Let_def split: if_splits sum.splits option.splits)
  then show ?thesis using w shortened_lives [OF u] by (auto intro: lives_quiet work_lives)
qed

lemma retired_log_lives: "retired_log env generation cid c d = (e, sent, d') \<Longrightarrow> lives d d'"
proof -
  assume r: "retired_log env generation cid c d = (e, sent, d')"
  show ?thesis
  proof (cases "jc_log_id c = [] \<or> jc_log_completed c \<or> isl (ReadChecksummedRunLog (jc_log_id c) (jc_log_sha256 c) (dm_store d))")
    case True
    with r show ?thesis by (auto simp: retired_log_def split: if_splits sum.splits)
  next
    case False
    then obtain log where log: "ReadChecksummedRunLog (jc_log_id c) (jc_log_sha256 c) (dm_store d) = Inr log"
      by (auto simp: isl_def split: sum.splits) (metis sum.exhaust)
    let ?n = "jc_next_log_chunk c"
    obtain f s d1 where up: "upload_chunks env cid (jc_run_id c) (jc_log_id c) ?n
        (chunks maximumLogChunk (drop (?n * maximumLogChunk) log)) d = (f, s, d1)" by (metis prod.collapse)
    obtain g d2 where u: "update_command cid (\<lambda>c. c\<lparr>jc_log_completed := True\<rparr>) env (tick d1) = (g, d2)" by fastforce
    have "lives (tick d1) d2" using u by (rule update_command_lives) (simp add: touched_def)
    moreover have "lives d d1" using up by (rule upload_chunks_lives)
    moreover have "lives d1 (tick d1)" by (simp add: lives_quiet)
    moreover have "d' \<in> {d1, tick d1, d2}" using r False log up u
      by (auto simp: retired_log_def Let_def split: option.splits)
    ultimately show ?thesis by (auto intro: lives_trans)
  qed
qed

lemma remove_run_log_frame: "remove_run_log i d = (e, d') \<Longrightarrow> work d' = work d"
  by (auto simp: remove_run_log_def Let_def split: prod.splits)

lemma remove_run_logs_frame: "remove_run_logs is d = (e, d') \<Longrightarrow> work d' = work d"
proof (induction "is" arbitrary: d)
  case (Cons i "is")
  then show ?case by (auto split: prod.splits option.splits dest: remove_run_log_frame)
qed simp

lemma dropped_lives:
  assumes "save_journal env (drop_command cid d) = (f, d1)" "work d2 = work d1"
  shows "lives d d1" "lives d d2"
  using lives_drop [of d cid] save_journal_frame [OF assms(1)] assms(2) by (auto intro: lives_work)

lemma retired_removal_lives: "retired_removal env cid lid d = (e, d') \<Longrightarrow> lives d d'"
proof -
  assume r: "retired_removal env cid lid d = (e, d')"
  obtain f d1 where s: "save_journal env (drop_command cid d) = (f, d1)" by fastforce
  obtain g d2 where rm: "remove_run_log lid d1 = (g, d2)" by fastforce
  have "d' \<in> {d, d1, d2}" using r s rm by (auto simp: retired_removal_def split: option.splits if_splits)
  then show ?thesis using dropped_lives [OF s remove_run_log_frame [OF rm]] by auto
qed

lemma flush_retired_command_lives: "flushRetiredCommand env generation cid d = (e, sent, d') \<Longrightarrow> lives d d'"
proof -
  assume r: "flushRetiredCommand env generation cid d = (e, sent, d')"
  show ?thesis
  proof (cases "command d cid")
    case None
    with r show ?thesis by (simp add: flushRetiredCommand_def)
  next
    case (Some c)
    obtain x s1 d1 where ev: "retired_events env cid (jc_events c) d = (x, s1, d1)" by (metis prod.collapse)
    obtain e2 s2 d2 where l: "retired_log env generation cid c d1 = (e2, s2, d2)" by (metis prod.collapse)
    obtain e3 d3 where m: "retired_removal env cid (jc_log_id c) d2 = (e3, d3)" by fastforce
    have "d' \<in> {d, d1, d2, d3}" using r Some ev l m
      by (auto simp: flushRetiredCommand_def split: sum.splits option.splits if_splits)
    then show ?thesis using retired_events_lives [OF ev] retired_log_lives [OF l] retired_removal_lives [OF m]
      by (auto intro: lives_trans)
  qed
qed

lemma purge_command_lives: "purgeRetiredCommand env cid d = (e, d') \<Longrightarrow> lives d d'"
proof -
  assume r: "purgeRetiredCommand env cid d = (e, d')"
  let ?lid = "case command d cid of None \<Rightarrow> [] | Some c \<Rightarrow> jc_log_id c"
  obtain f d1 where s: "save_journal env (drop_command cid d) = (f, d1)" by fastforce
  obtain g d2 where rm: "remove_run_log ?lid d1 = (g, d2)" by fastforce
  have "d' \<in> {d1, d2}" using r s rm by (auto simp: purgeRetiredCommand_def Let_def split: option.splits)
  then show ?thesis using dropped_lives [OF s remove_run_log_frame [OF rm]] by auto
qed

lemma purge_generation_lives: "purgeRetiredGeneration env generation d = (e, d') \<Longrightarrow> lives d d'"
proof -
  assume r: "purgeRetiredGeneration env generation d = (e, d')"
  let ?d = "d\<lparr>dm_journal := filter (\<lambda>e. \<not> of_generation generation e) (dm_journal d)\<rparr>"
  obtain f d1 where s: "save_journal env ?d = (f, d1)" by fastforce
  have drop: "lives d ?d" by (rule r_into_rtranclp, rule life.drop) (simp_all add: same_flags_def)
  have "work d' = work d1" using r s
    by (auto simp: purgeRetiredGeneration_def Let_def split: option.splits dest: remove_run_logs_frame)
  then show ?thesis using lives_work [OF drop, of d'] save_journal_frame [OF s] by simp
qed

lemma flush_retired_lives: "flush_retired env generation cids d = (e, sent, d') \<Longrightarrow> lives d d'"
proof (induction cids arbitrary: d e sent)
  case (Cons cid cids)
  obtain e1 s1 d1 where r: "flushRetiredCommand env generation cid d = (e1, s1, d1)" by (metis prod.collapse)
  obtain f d2 where p: "purgeRetiredCommand env cid d1 = (f, d2)" by fastforce
  have l: "lives d d1" "lives d1 d2" using flush_retired_command_lives [OF r] purge_command_lives [OF p] by auto
  have "d' = d1 \<or> d' = d2 \<or> (\<exists>e s. flush_retired env generation cids d1 = (e, s, d'))
      \<or> (\<exists>e s. flush_retired env generation cids d2 = (e, s, d'))"
    using Cons.prems r p by (auto simp: Let_def split: if_splits option.splits prod.splits)
  with l Cons.IH show ?case by (meson lives_trans)
qed simp

lemma flush_generation_lives: "flushRetiredGeneration env generation d = (complete, e, sent, d') \<Longrightarrow> lives d d'"
  by (auto simp: flushRetiredGeneration_def Let_def split: prod.splits dest: flush_retired_lives)

lemma save_retired_frame: "save_retired env rs b d = (e, b', d') \<Longrightarrow> work d' = work d"
  by (auto simp: save_retired_def split: prod.splits)

lemma report_retired_lives: "report_retired env records kept rs b d = (e, sent, b', d') \<Longrightarrow> lives d d'"
proof (induction rs arbitrary: kept b d e sent)
  case Nil
  then show ?case by (auto intro: lives_quiet dest: save_retired_frame split: prod.splits)
next
  case (Cons r rs)
  have t: "lives d (tick d)" by (simp add: lives_quiet)
  obtain f1 d1 where p: "purgeRetiredGeneration env (re_generation r) (tick d) = (f1, d1)" by fastforce
  obtain c e2 s2 d2 where fl: "flushRetiredGeneration env (re_generation r) (tick d) = (c, e2, s2, d2)"
    by (metis prod.collapse)
  obtain f3 d3 where p3: "purgeRetiredGeneration env (re_generation r) d2 = (f3, d3)" by fastforce
  obtain f4 b4 d4 where s4: "save_retired env (kept @ drop (length kept) records) b d2 = (f4, b4, d4)"
    by (metis prod.collapse)
  have l: "lives d d1" "lives d d2" "lives d d3" "lives d d4"
    using purge_generation_lives [OF p] flush_generation_lives [OF fl] purge_generation_lives [OF p3]
      save_retired_frame [OF s4, THEN lives_quiet] t by (auto intro: lives_trans)
  have "d' \<in> {d1, d2, d3, d4}
      \<or> (\<exists>x \<in> {d1, d2, d3}. \<exists>k b e s. report_retired env records k rs b x = (e, s, b', d'))"
    using Cons.prems p fl p3 s4 by (auto simp: read_now_def Let_def split: if_splits option.splits prod.splits)
  with l Cons.IH show ?case by (blast intro: lives_trans)
qed

lemma report_retired_journal_lives: "lives d (snd (snd (snd (reportRetiredJournal env parse b d))))"
proof -
  obtain e sent b' d' where r: "reportRetiredJournal env parse b d = (e, sent, b', d')" by (metis prod.collapse)
  have t: "lives d (tick d)" by (simp add: lives_quiet)
  have "d' = tick d \<or> (\<exists>rs e s. report_retired env rs [] rs b (tick d) = (e, s, b', d'))"
    using r by (auto simp: reportRetiredJournal_def Let_def split: sum.splits list.splits prod.splits)
  with t r show ?thesis by (auto intro: lives_trans dest: report_retired_lives)
qed

end
