(* ===== verification/DaemonSteps.thy ===== *)
theory DaemonSteps
  imports RetiredSteps
begin

text \<open>
  The daemon as a whole: its goroutines take critical sections and whole handlers in any order, each with
  an environment of its own and with whatever jobs, identities and results they hold. Every such step is
  a run of the abstract machine, so the laws of the machine are laws of the daemon.
\<close>

section \<open>Steps\<close>

inductive daemon_step :: "daemon \<Rightarrow> daemon \<Rightarrow> bool" where
  heartbeat: "daemon_step d (snd (snd (sendHeartbeat env d)))"
| server_time: "daemon_step d (observeServerTime env server here d)"
| protocol: "daemon_step d (d\<lparr>dm_protocol := revision\<rparr>)"
| reload: "daemon_step d (snd (reloadLocalConfig env d))"
| refresh: "daemon_step d (snd (refreshConfig env d))"
| schedule: "daemon_step d (snd (scheduleBackups env d))"
| begin_section: "daemon_step d (snd (begin_schedule env now d))"
| operation_section: "daemon_step d (snd (snd (schedule_operation env op sl d)))"
| deferred_section: "daemon_step d (snd (startNextDeferredMaintenance env i expired d))"
| catch_up_section: "daemon_step d (snd (startCatchUpBackup env i d))"
| receive: "daemon_step d (snd (receiveCommand env c d))"
| process: "daemon_step d (snd (processCommands env polled d))"
| dispatch: "daemon_step d (snd (dispatchCommands env found helper d))"
| advance: "daemon_step d (snd (advanceCommand env helper cid d))"
| start: "daemon_step d (snd (startOperation env cid j d))"
| unexecuted: "daemon_step d (snd (finishWithoutExecution env cid status code summary d))"
| cancelled: "daemon_step d (snd (cancelRun env rid d))"
| discarded: "daemon_step d (snd (snd (discardExpiredUnacknowledgedCommand env cid d)))"
| progressed: "daemon_step d (databaseBackupProgress env cid a n m d)"
| planned: "daemon_step d (snd (persistPlan env cid plan d))"
| ended: "daemon_step d (snd (finish_locked env cid rid j r logged log truncated dropped d))"
| backup: "daemon_step d (runBackup env cid rid j bo d)"
| maintenance: "daemon_step d (runMaintenance env cid rid j plan mo d)"
| replication: "daemon_step d (startReplication j d)"
| replication_turn: "daemon_step d (snd (replication_round env j d))"
| replication_taken: "take_repositories a b d = Some d' \<Longrightarrow> daemon_step d d'"
| replication_given: "daemon_step d (give_repositories a b d)"
| replication_batch: "daemon_step d (finishReplicationBatch env target cs o' t t' d)"
| replication_end: "daemon_step d (end_replication env j d)"
| sync_start: "daemon_step d (snd (startReplicaSync env cid j d))"
| sync: "daemon_step d (runReplicaSync env cid j target d)"
| sync_end: "daemon_step d (finish_sync env cid j target o' t t' d)"
| update_result: "daemon_step d (snd (snd (consumeAgentUpdateResult env found d)))"
| reconciled: "daemon_step d (snd (reconcileOne env cid d))"
| startup_discard: "daemon_step d (snd (discardJoblessCancellations env d))"
| startup_restore: "daemon_step d (snd (restoreAgentUpdateState env d))"
| report: "daemon_step d (snd (snd (reportJournal env d)))"
| report_command: "daemon_step d (snd (snd (flushCommand env cid d)))"
| report_retired: "daemon_step d (snd (snd (snd (reportRetiredJournal env parse b d))))"
| report_retired_command: "daemon_step d (snd (snd (flushRetiredCommand env generation cid d)))"
| purge_retired: "daemon_step d (snd (purgeRetiredGeneration env generation d))"

inductive_cases daemon_step_cases: "daemon_step d d'"

lemma protocol_work [simp]: "work (d\<lparr>dm_protocol := r\<rparr>) = work d"
  by (simp add: work_def)

lemma step_lives: "daemon_step d d' \<Longrightarrow> lives d d'"
proof (induction rule: daemon_step.induct)
  case (heartbeat d env)
  then show ?case using heartbeat_frame [THEN lives_quiet] by (metis prod.collapse)
next
  case (operation_section d env op sl)
  then show ?case using schedule_operation_lives by (metis prod.collapse)
next
  case (discarded d env cid)
  then show ?case using discard_lives by (metis prod.collapse)
next
  case (report_command d env cid)
  then show ?case using flush_command_lives by (metis prod.collapse)
next
  case (report_retired_command d env generation cid)
  then show ?case using flush_retired_command_lives by (metis prod.collapse)
next
  case (purge_retired d env generation)
  then show ?case using purge_generation_lives by (metis prod.collapse)
next
  case (update_result d env found)
  then show ?case using consume_lives by (metis prod.collapse)
qed (simp_all add: lives_quiet schedule_backups_lives process_lives dispatch_lives progress_lives run_backup_lives
    run_maintenance_lives start_replication_lives take_lives give_lives finish_batch_lives end_replication_lives
    run_sync_lives finish_sync_lives report_lives reload_lives refresh_lives begin_schedule_lives next_deferred_lives
    catch_up_lives receive_lives advance_lives start_operation_lives finish_unexecuted_lives cancel_run_lives
    persist_lives finish_locked_lives round_lives start_sync_lives reconcile_one_lives discard_jobless_lives
    restore_lives report_retired_journal_lives prod_eq_iff)

interpretation daemon: refined_steps life well_kept daemon_step
  by unfold_locales (rule step_lives)

end
