(* ===== verification/DaemonFacts.thy ===== *)
theory DaemonFacts
  imports DaemonSteps JobRulesFacts
begin

text \<open>
  What the steps of the daemon guarantee: the abstract machine is refined, its invariant is kept, nothing
  begins while an update is pending, an operation begins only when its running state is on disk and
  nothing stands in its way, and errors leave the runs as they were.
\<close>

section \<open>What a save puts on disk\<close>

lemma save_commands_runs:
  "save_commands cs db = Inr db' \<Longrightarrow> \<forall>(i, c) \<in> set cs. c = f i \<Longrightarrow>
   bget (db_runs db') i = (if i \<in> fst ` set cs then Some (bare (f i)) else bget (db_runs db) i)"
proof (induction cs arbitrary: db)
  case (Cons x cs)
  obtain k c where x: "x = (k, c)" by (cases x)
  from Cons.prems(1) obtain db1 where one: "save_command k c db = Inr db1" and rest: "save_commands cs db1 = Inr db'"
    by (auto simp: x split: sum.splits)
  have "db_runs db1 = bput k (bare (f k)) (db_runs db)"
    using save_command_fields(1) [OF one] Cons.prems(2) by (simp add: x)
  with Cons.IH [OF rest] Cons.prems(2) show ?case by (auto simp: x)
qed simp

definition on_disk :: "daemon \<Rightarrow> string \<Rightarrow> journal_command option" where
  "on_disk d i = bget (db_runs (fs_db (dm_store d))) i"

lemma save_journal_on_disk:
  assumes "save_journal env d = (None, d')"
  shows "on_disk d' i = map_option bare (command d i)"
proof -
  obtain db where db: "SaveCommandJournal (journal_of d) (fs_db (dm_store d)) = Inr db" "fs_db (dm_store d') = db"
    using assms update_state_ok [of "de_write env (dm_tick d)" "SaveCommandJournal (journal_of d)" "dm_store d"]
    by (auto simp: save_journal_def write_store_def tick_def Let_def split: prod.splits)
  have sorted: "set (sorted_commands (dm_journal d)) = (\<lambda>i. (i, the (command d i))) ` set (mkeys (dm_journal d))"
    by (simp add: sorted_commands_def)
  have "save_commands (sorted_commands (dm_journal d)) (clear_journal (fs_db (dm_store d))) = Inr db"
    using db(1) by (simp add: SaveCommandJournal_def saveCommandJournal_def journal_of_def split: if_splits)
  from save_commands_runs [OF this, of "\<lambda>i. the (command d i)" i]
  have "on_disk d' i = (if i \<in> set (mkeys (dm_journal d)) then Some (bare (the (command d i))) else None)"
    by (simp add: on_disk_def db(2) sorted clear_journal_def image_image)
  then show ?thesis by (cases "command d i") (force simp: map_of_eq_None_iff dest: mget_Some_in)+
qed

section \<open>How an operation starts\<close>

lemma known_job_repositories: "operation_repositories (known_job r j) k = operation_repositories j k"
  by (simp add: operation_repositories_def known_job_def)

lemma prepare_repositories:
  "prepareMaintenanceLocked env j c d = (j', c', d') \<Longrightarrow> operation_repositories j' k = operation_repositories j k"
  unfolding prepareMaintenanceLocked_def Let_def
  by (auto simp: known_job_repositories split: if_splits prod.splits)

lemma list_ex_mput: "mget m k = Some c \<Longrightarrow> P (k, v) = P (k, c) \<Longrightarrow> list_ex P (mput k v m) = list_ex P m"
  by (induction m) (auto split: if_splits)

lemma blocked_put:
  assumes "command d cid = Some c" "jc_replication_pending c' = jc_replication_pending c" "jc_result c' = jc_result c"
  shows "operation_blocked (put_command cid c' d) j k = operation_blocked d j k"
proof -
  have "hasPendingReplicationLocked i (put_command cid c' d) = hasPendingReplicationLocked i d" for i
    unfolding hasPendingReplicationLocked_def put_command_def using assms by (simp add: list_ex_mput)
  then show ?thesis by (simp add: operation_blocked_def capacity_reached_def activeCountsLocked_def put_command_def)
qed

text \<open>\<open>calm\<close>: no run, flag or goroutine has changed, and no command its state, sequence or events.\<close>

definition progress_of :: "journal_command \<Rightarrow> string \<times> nat \<times> agent_event list" where
  "progress_of c = (jc_state c, jc_sequence c, jc_events c)"

definition calm :: "daemon \<Rightarrow> daemon \<Rightarrow> bool" where
  "calm d d' = (same_flags d d' \<and> (\<forall>i. map_option progress_of (command d' i) = map_option progress_of (command d i)))"

lemma calm_put:
  "command d cid = Some c \<Longrightarrow> progress_of c' = progress_of c \<Longrightarrow> work d' = work (put_command cid c' d) \<Longrightarrow> calm d d'"
  by (simp add: calm_def work_eq same_flags_def put_command_def)

lemma calm_work: "work d' = work d \<Longrightarrow> calm d d'"
  by (simp add: calm_def work_eq same_flags_def)

lemma calm_trans: "calm a b \<Longrightarrow> calm b c \<Longrightarrow> calm a c"
  by (simp add: calm_def same_flags_def)

text \<open>\<open>begun\<close>: the operation runs, and its running state is on disk.\<close>

definition begun :: "string \<Rightarrow> job \<Rightarrow> journal_command \<Rightarrow> daemon \<Rightarrow> daemon \<Rightarrow> bool" where
  "begun cid j c d d' =
     (command d' cid = Some c \<and> jc_state c = ''running'' \<and> on_disk d' cid = Some (bare c)
      \<and> dm_active d' = List.insert (jc_run_id c) (dm_active d)
      \<and> dm_kinds d' = mput (jc_run_id c) (jc_run_kind c) (dm_kinds d)
      \<and> dm_repositories d' = fold List.insert (operation_repositories j (jc_run_kind c)) (dm_repositories d)
      \<and> (\<exists>j'. dm_tasks d' = operation_task cid j' c # dm_tasks d))"

lemma begun_work:
  "begun cid j c d1 d' \<Longrightarrow> dm_active d1 = dm_active d \<Longrightarrow> dm_kinds d1 = dm_kinds d \<Longrightarrow>
   dm_repositories d1 = dm_repositories d \<Longrightarrow> dm_tasks d1 = dm_tasks d \<Longrightarrow> begun cid j c d d'"
  by (simp add: begun_def)

definition launched :: "string \<Rightarrow> job \<Rightarrow> journal_command \<Rightarrow> daemon \<Rightarrow> daemon_error option \<Rightarrow> daemon \<Rightarrow> bool" where
  "launched cid j c d e d' =
     ((e = None \<and> (\<exists>c'. begun cid j c' d d' \<and> jc_run_kind c' = jc_run_kind c))
      \<or> (e = Some RandomFailure \<and> same_flags d d')
      \<or> (e \<noteq> None \<and> e \<noteq> Some RandomFailure \<and> calm d d'))"

lemma launch_launched:
  assumes "launch_operation env cid j c d = (e, d')" "command d cid = Some c0" "progress_of c = progress_of c0"
    "jc_state c = ''received''"
  shows "launched cid j c d e d'"
proof -
  obtain ok c1 d1 where em: "emit_now env ''run_started'' [] (c\<lparr>jc_state := ''running''\<rparr>) d = (ok, c1, d1)"
    by (cases "emit_now env ''run_started'' [] (c\<lparr>jc_state := ''running''\<rparr>) d") auto
  have g1: "grown (c\<lparr>jc_state := ''running''\<rparr>) c1" and w1: "work d1 = work d" using emit_now_grown [OF em] by simp_all
  show ?thesis
  proof (cases ok)
    case False
    then have "e = Some RandomFailure" "d' = put_command cid c1 d1" using assms(1) em by (simp_all add: launch_operation_def)
    then show ?thesis using w1 by (simp add: launched_def same_flags_def work_eq put_command_def)
  next
    case True
    obtain c2 d2 where sk: "skew_event env c1 d1 = (c2, d2)" by fastforce
    obtain f d3 where save: "save_journal env (put_command cid c2 d2) = (f, d3)" by fastforce
    have g2: "grown (c\<lparr>jc_state := ''running''\<rparr>) c2" and w2: "work d2 = work d"
      using skew_grown [OF sk] w1 grown_trans [OF g1] by simp_all
    have w3: "work d3 = work (put_command cid c2 d)" using save_journal_frame [OF save] work_put [OF w2] by simp
    show ?thesis
    proof (cases f)
      case None
      then have "e = None" "d' = occupy cid j c2 d3" using assms(1) em True sk save by (simp_all add: launch_operation_def)
      moreover have "on_disk d3 cid = Some (bare c2)" using save_journal_on_disk [of env _ d3 cid] save None by simp
      moreover have "jc_state c2 = ''running''" "jc_run_kind c2 = jc_run_kind c" using grown_fields [OF g2] by simp_all
      ultimately show ?thesis using w3
        by (auto simp: launched_def begun_def occupy_def work_eq put_command_def on_disk_def)
    next
      case (Some x)
      let ?c3 = "c2\<lparr>jc_state := ''received'', jc_sequence := jc_sequence c, jc_events := jc_events c\<rparr>"
      have "e = Some (StoreFailure x)" "d' = put_command cid ?c3 d3"
        using assms(1) em True sk save Some by (simp_all add: launch_operation_def)
      moreover have "work (put_command cid ?c3 d3) = work (put_command cid ?c3 d)"
        using work_put [OF w3, of cid ?c3] by (simp only: put_twice)
      moreover have "progress_of ?c3 = progress_of c0" using assms(3,4) by (simp add: progress_of_def)
      ultimately show ?thesis using calm_put [OF assms(2)] by (simp add: launched_def)
    qed
  qed
qed

lemma launched_cong:
  "launched cid j c d1 e d' \<Longrightarrow> calm d d1 \<Longrightarrow> operation_repositories j = operation_repositories j0 \<Longrightarrow>
   jc_run_kind c = jc_run_kind c0 \<Longrightarrow> launched cid j0 c0 d e d'"
  by (auto simp: launched_def calm_def same_flags_def begun_def)

lemma begin_launched:
  assumes "begin_operation env cid j c d = (e, d')" "command d cid = Some c" "jc_state c = ''received''"
  shows "launched cid j c d e d'"
proof -
  let ?c = "c\<lparr>jc_config_revision := cp_required_config_revision (ac_payload (jc_command c))\<rparr>"
  show ?thesis
  proof (cases "jc_job_snapshot c = NoSnapshot")
    case False
    with assms show ?thesis by (auto simp: begin_operation_def intro: launch_launched)
  next
    case True
    show ?thesis
    proof (cases "encodeJobSnapshot j")
      case None
      then have "e = Some SnapshotEncodingFailure" "d' = put_command cid ?c d"
        using assms True by (simp_all add: begin_operation_def)
      then show ?thesis using calm_put [OF assms(2), of ?c d'] by (simp add: launched_def progress_of_def)
    next
      case (Some s)
      let ?c' = "?c\<lparr>jc_job_snapshot := s\<rparr>"
      have "launched cid j ?c' d e d'"
        using assms True Some by (intro launch_launched [OF _ assms(2)]) (simp_all add: begin_operation_def progress_of_def)
      then show ?thesis by (rule launched_cong) (simp_all add: calm_work)
    qed
  qed
qed

lemma prepare_operation_launched:
  assumes "prepare_operation env cid j c d = ((f, j', c'), d')" "command d cid = Some c"
  shows "calm d d' \<and> command d' cid = Some c' \<and> jc_state c' = jc_state c \<and> jc_run_kind c' = jc_run_kind c
    \<and> operation_repositories j' = operation_repositories j"
proof -
  note w = prepare_operation_work [OF assms]
  have "jc_sequence c' = jc_sequence c" "jc_events c' = jc_events c" using w by (simp_all add: touched_def)
  then have "calm d d'" using w by (intro calm_put [OF assms(2)]) (simp_all add: progress_of_def)
  moreover have "command d' cid = Some c'" using w by (simp add: work_eq put_command_def)
  moreover have "operation_repositories j' k = operation_repositories j k" for k
    using assms(1) prepare_repositories [of env j c d]
    by (auto simp: prepare_operation_def Let_def split: if_splits prod.splits)
  ultimately show ?thesis using w by (simp add: fun_eq_iff)
qed

text \<open>Starting an operation: it was not possible, or it was started, or it failed.\<close>

lemma start_operation_cases:
  assumes "startOperation env cid j d = (e, d')"
  obtains (idle) "e = None" "calm d d'"
  | (tried) c where "\<not> updating d" "command d cid = Some c" "jc_state c = ''received''"
      "\<not> operation_blocked d j (jc_run_kind (with_kind c))"
      "(\<exists>f. e = Some (StoreFailure f)) \<and> calm d d' \<or> launched cid j (with_kind c) d e d'"
proof -
  obtain room d1 where room: "can_accept env criticalRunRecordEstimate d = (room, d1)" by fastforce
  have w1: "work d1 = work d" using room by (rule framed)
  show ?thesis
  proof (cases "\<not> room \<or> updating d1 \<or> command d1 cid = None \<or> jc_state (the (command d1 cid)) \<noteq> ''received''")
    case True
    with assms room have "d' = d1" "e = None" by (auto simp: startOperation_def split: option.splits if_splits)
    with w1 show ?thesis using idle by (simp add: calm_work)
  next
    case False
    then obtain c0 where c0: "command d1 cid = Some c0" "jc_state c0 = ''received''" "\<not> updating d1" room by auto
    define c where "c = with_kind c0"
    define d2 where "d2 = put_command cid c d1"
    have before: "\<not> updating d" "command d cid = Some c0" using c0 w1 by (simp_all add: work_eq)
    have calm2: "calm d d2" using calm_put [OF before(2), of c d2] work_put [OF w1, of cid c]
      by (simp add: d2_def c_def with_kind_def progress_of_def)
    have c: "command d2 cid = Some c" "jc_state c = ''received''" using c0 by (simp_all add: d2_def c_def with_kind_def)
    have blocked: "operation_blocked d2 j k = operation_blocked d j k" for k
      using blocked_put [OF before(2), of c j k] blocked_work [OF work_put [OF w1, of cid c], of j k]
      by (simp add: d2_def c_def with_kind_def)
    show ?thesis
    proof (cases "operation_blocked d2 j (jc_run_kind c)")
      case True
      with assms room c0 have "d' = d2" "e = None" by (simp_all add: startOperation_def c_def d2_def)
      with calm2 show ?thesis using idle by simp
    next
      case unblocked: False
      obtain f j3 c3 d3 where p: "prepare_operation env cid j c d2 = ((f, j3, c3), d3)" by (metis prod.collapse)
      note pl = prepare_operation_launched [OF p c(1)]
      have calm3: "calm d d3" using calm2 pl calm_trans by blast
      have "(\<exists>f. e = Some (StoreFailure f)) \<and> calm d d' \<or> launched cid j c d e d'"
      proof (cases f)
        case (Some x)
        with assms room c0 unblocked p have "e = Some (StoreFailure x)" "d' = d3" by (simp_all add: startOperation_def c_def d2_def)
        with calm3 show ?thesis by simp
      next
        case None
        with assms room c0 unblocked p have b: "begin_operation env cid j3 c3 d3 = (e, d')"
          by (simp add: startOperation_def c_def d2_def)
        have "launched cid j3 c3 d3 e d'" using pl c by (intro begin_launched [OF b]) simp_all
        then show ?thesis using calm3 pl launched_cong by metis
      qed
      then show ?thesis using tried [of c0] before c0(2) unblocked blocked by (simp add: c_def)
    qed
  qed
qed

section \<open>Starting when nothing stands in the way\<close>

lemma newULID_Some [simp]: "(newULID t r = None) = (r = None)"
  by (simp add: newULID_def split: option.splits)

lemma emit_now_drawn:
  assumes "emit_now env k p c d = (ok, c', d')" "\<forall>n. de_random env n \<noteq> None"
  shows ok
proof -
  have "de_random env (dm_tick (tick d)) \<noteq> None" using assms(2) by blast
  with assms(1) show ?thesis
    by (auto simp: emit_now_def draw_ulid_def draw_ulid_at_def read_now_def Let_def split: option.splits)
qed

lemma launch_drawn:
  assumes "launch_operation env cid j c d = (e, d')" "\<forall>n. de_random env n \<noteq> None"
  shows "e = None \<or> (\<exists>f. e = Some (StoreFailure f))"
proof -
  obtain ok c1 d1 where em: "emit_now env ''run_started'' [] (c\<lparr>jc_state := ''running''\<rparr>) d = (ok, c1, d1)"
    by (metis prod.collapse)
  obtain c2 d2 where sk: "skew_event env c1 d1 = (c2, d2)" by fastforce
  obtain f d3 where save: "save_journal env (put_command cid c2 d2) = (f, d3)" by fastforce
  have ok using em assms(2) by (rule emit_now_drawn)
  with assms(1) em sk save show ?thesis by (cases f) (auto simp: launch_operation_def)
qed

lemma start_operation_begins:
  assumes "startOperation env cid j d = (e, d')" "\<forall>n. de_random env n \<noteq> None" "\<not> updating d" "command d cid = Some c"
    and "jc_state c = ''received''" "jc_job_snapshot c \<noteq> NoSnapshot" "\<not> operation_blocked d j (jc_run_kind (with_kind c))"
    and "canAcceptWork (de_usage env (dm_tick d)) criticalRunRecordEstimate (dm_store d)"
  shows "(\<exists>f. e = Some (StoreFailure f)) \<or> (e = None \<and> (\<exists>c'. begun cid j c' d d'))"
proof -
  let ?d1 = "tick d"
  let ?c1 = "with_kind c"
  let ?d2 = "put_command cid ?c1 ?d1"
  have w1: "work ?d1 = work d" by (simp add: work_def tick_def)
  have same [simp]: "\<not> updating ?d1" "command ?d1 cid = Some c" using assms(3,4) by (simp_all add: tick_def)
  have c1: "command ?d2 cid = Some ?c1" "jc_state ?c1 = ''received''" "jc_job_snapshot ?c1 \<noteq> NoSnapshot"
    using assms(5,6) by (simp_all add: with_kind_def)
  have "operation_blocked ?d2 j (jc_run_kind ?c1) = operation_blocked ?d1 j (jc_run_kind ?c1)"
    using blocked_put [OF same(2), of ?c1] by (simp add: with_kind_def)
  then have free: "\<not> operation_blocked ?d2 j (jc_run_kind ?c1)" using assms(7) blocked_work [OF w1] by simp
  obtain f j3 c3 d3 where p: "prepare_operation env cid j ?c1 ?d2 = ((f, j3, c3), d3)" by (metis prod.collapse)
  note pl = prepare_operation_launched [OF p c1(1)]
  have snapshot: "jc_job_snapshot c3 \<noteq> NoSnapshot"
    using p c1(3) by (auto simp: prepare_operation_def prepareMaintenanceLocked_def Let_def split: if_splits prod.splits)
  have start: "startOperation env cid j d =
      (case f of Some f \<Rightarrow> (Some (StoreFailure f), d3) | None \<Rightarrow> begin_operation env cid j3 c3 d3)"
    using assms(5,8) same free p by (simp add: startOperation_def can_accept_def del: not_None_eq split: option.split)
  show ?thesis
  proof (cases f)
    case (Some x)
    with assms(1) start have "e = Some (StoreFailure x)" by simp
    then show ?thesis by blast
  next
    case None
    then have l: "launch_operation env cid j3 c3 d3 = (e, d')"
      using assms(1) start snapshot by (simp add: begin_operation_def)
    have tried: "launched cid j3 c3 d3 e d'" using pl c1(2) by (intro launch_launched [OF l, of c3]) simp_all
    have "calm d ?d2" using work_put [OF w1, of cid ?c1]
      by (intro calm_put [OF assms(4)]) (simp_all add: with_kind_def progress_of_def)
    then have "calm d d3" using pl calm_trans by blast
    with tried pl have "launched cid j ?c1 d e d'" using launched_cong by metis
    with launch_drawn [OF l assms(2)] show ?thesis unfolding launched_def by blast
  qed
qed

section \<open>While an update is pending\<close>

lemma same_flags_work: "work d' = work d \<Longrightarrow> same_flags d d'"
  by (simp add: same_flags_def work_eq)

lemma same_flags_trans: "same_flags a b \<Longrightarrow> same_flags b c \<Longrightarrow> same_flags a c"
  by (simp add: same_flags_def)

lemma same_flags_put [simp]: "same_flags d (put_command i c d') = same_flags d d'" "same_flags d (drop_command i d') = same_flags d d'"
  "same_flags d (set_update u d') = same_flags d d'"
  by (simp_all add: same_flags_def put_command_def drop_command_def set_update_def)

lemmas flags_frames = framed [THEN same_flags_work]

lemma overlap_frame: "finishScheduledOverlap env now c d = (c', d') \<Longrightarrow> work d' = work d"
  by (auto simp: finishScheduledOverlap_def Let_def dest!: draw_ulid_at_frame split: prod.splits option.splits)

lemma accept_draining:
  assumes "accept_occurrence env o' scheduled sl d = (e, sl', d')" "sl_draining sl"
  shows "same_flags d d' \<and> sl' = sl"
proof (cases "draw_ulid_at env (sl_now sl) d")
  case (Pair u d1)
  have w1: "same_flags d d1" using draw_ulid_at_frame [OF Pair] by (rule same_flags_work)
  show ?thesis
  proof (cases "u = None \<or> encodeJobSnapshot (so_job o') = None")
    case True
    with assms Pair w1 show ?thesis by (auto simp: accept_occurrence_def split: option.splits)
  next
    case False
    then obtain rid s where us: "u = Some rid" "encodeJobSnapshot (so_job o') = Some s" by auto
    define c where "c = (scheduled_command (bs_generation (dm_bootstrap d1)) (sl_revision sl) o' rid s scheduled
      (sl_minute sl) (sl_now sl))\<lparr>jc_catch_up_backup := catches_up sl o' d1\<rparr>"
    obtain f d3 where save: "save_journal env (put_command rid c d1) = (f, d3)" by fastforce
    have w3: "same_flags d d3" using same_flags_work [OF save_journal_frame [OF save]] w1
      by (simp add: same_flags_def put_command_def)
    obtain e4 d4 where r: "refuseOccurrenceForPressure env (jb_id (so_job o')) (so_kind o') scheduled (drop_command rid d3) = (e4, d4)"
      by fastforce
    have "same_flags d d4" using same_flags_work [OF refuse_frame [OF r]] w3
      by (simp add: same_flags_def drop_command_def)
    with assms Pair us save r w3 show ?thesis
      by (auto simp: accept_occurrence_def c_def Let_def split: option.splits if_splits)
  qed
qed

lemma schedule_operation_draining:
  assumes "schedule_operation env o' sl d = (e, sl', d')" "sl_draining sl"
  shows "same_flags d d' \<and> sl' = sl"
  using assms unfolding schedule_operation_def Let_def
  by (auto split: sum.splits prod.splits if_splits bool.splits dest!: accept_draining flags_frames
      intro: same_flags_trans simp: same_flags_work)

lemma schedule_all_draining:
  "schedule_all env ops sl d = (e, d') \<Longrightarrow> sl_draining sl \<Longrightarrow> same_flags d d'"
proof (induction ops arbitrary: d)
  case Nil
  then show ?case by (simp add: same_flags_work)
next
  case (Cons o' ops)
  obtain e1 sl1 d1 where one: "schedule_operation env o' sl d = (e1, sl1, d1)" by (metis prod.collapse)
  note s = schedule_operation_draining [OF one Cons.prems(2)]
  show ?case
  proof (cases e1)
    case None
    with Cons one s have "same_flags d1 d'" by simp
    with s show ?thesis using same_flags_trans by blast
  qed (use Cons.prems one s in auto)
qed

lemma begin_schedule_flags:
  assumes "begin_schedule env now d = (x, d')"
  shows "same_flags d d' \<and> (\<forall>sl. x = Inr sl \<longrightarrow> sl_draining sl = updating d)"
proof -
  let ?d = "d\<lparr>dm_last_minute := truncate_minute now\<rparr>"
  obtain f d1 where save: "save_state env (note_schedule_minute (truncate_minute now) ?d) = (f, d1)" by fastforce
  have "same_flags d d1" using same_flags_work [OF save_state_frame [OF save]]
    by (simp add: note_schedule_minute_def set_update_def same_flags_def)
  moreover have "same_flags d ?d" by (simp add: same_flags_def)
  moreover have "d' \<in> {?d, d1} \<and> (\<forall>sl. x = Inr sl \<longrightarrow> sl_draining sl = updating d)"
  proof (cases "truncate_minute now \<le> dm_last_minute d")
    case True
    with assms show ?thesis by (auto simp: begin_schedule_def)
  next
    case later: False
    show ?thesis
    proof (cases "updating d")
      case True
      then have draining: "updating ?d" by simp
      show ?thesis using assms
        unfolding begin_schedule_def Let_def if_not_P [OF later] if_P [OF draining] save
        by (cases f) (auto simp: case_prod_unfold True split: if_splits)
    next
      case False
      then have draining: "\<not> updating ?d" by simp
      show ?thesis using assms
        unfolding begin_schedule_def Let_def if_not_P [OF later] if_not_P [OF draining]
        by (auto simp: case_prod_unfold False split: if_splits)
    qed
  qed
  ultimately show ?thesis by blast
qed

lemma schedule_backups_draining:
  assumes "updating d" shows "same_flags d (snd (scheduleBackups env d))"
proof -
  obtain now d1 where now: "read_now env d = (now, d1)" by fastforce
  obtain x d2 where b: "begin_schedule env now d1 = (x, d2)" by fastforce
  have w1: "same_flags d d1" "updating d1"
    using same_flags_work [OF read_now_frame [OF now]] updating_work [OF read_now_frame [OF now]] assms by simp_all
  note bs = begin_schedule_flags [OF b]
  show ?thesis
  proof (cases x)
    case (Inl e)
    with now b have "snd (scheduleBackups env d) = d2" by (simp add: scheduleBackups_def Let_def)
    with bs w1 show ?thesis using same_flags_trans by simp
  next
    case (Inr sl)
    then have "sl_draining sl" using bs w1 by simp
    obtain e3 d3 where all: "schedule_all env (scheduled_operations (dm_config d1)) sl d2 = (e3, d3)" by fastforce
    have "same_flags d2 d3" using schedule_all_draining [OF all \<open>sl_draining sl\<close>] .
    then have "same_flags d d3" using bs w1 same_flags_trans by blast
    moreover have "snd (scheduleBackups env d) = d3"
      using now b Inr all \<open>sl_draining sl\<close> by (simp add: scheduleBackups_def Let_def split: option.split)
    ultimately show ?thesis by simp
  qed
qed

lemma saved_flags:
  "save_journal env (put_command cid c d1) = (f, d2) \<Longrightarrow> same_flags d d1 \<Longrightarrow> same_flags d d2"
  "save_journal env (drop_command cid d1) = (f, d2) \<Longrightarrow> same_flags d d1 \<Longrightarrow> same_flags d d2"
  "save_state env (set_update u d1) = (f, d2) \<Longrightarrow> same_flags d d1 \<Longrightarrow> same_flags d d2"
  by (auto dest!: framed simp: work_eq same_flags_def put_command_def drop_command_def set_update_def)

lemma finish_unexecuted_flags: "finishWithoutExecution env cid s k m d = (e, d') \<Longrightarrow> same_flags d d'"
  unfolding finishWithoutExecution_def Let_def
  by (auto split: option.splits prod.splits if_splits dest!: read_now_frame emit_grown save_journal_frame
      simp: work_eq same_flags_def put_command_def)

lemma cancel_run_flags: "cancelRun env rid d = (e, d') \<Longrightarrow> same_flags d d'"
  by (auto simp: cancelRun_def same_flags_work dest: finish_unexecuted_flags split: if_splits option.splits prod.splits)

lemma discard_flags:
  "discardExpiredUnacknowledgedCommand env cid d = (b, e, d') \<Longrightarrow>
   same_flags d d' \<and> (b = False \<longrightarrow> e = None \<longrightarrow> st_agent_update (dm_state d') = st_agent_update (dm_state d))"
  unfolding discardExpiredUnacknowledgedCommand_def Let_def
  by (auto split: option.splits prod.splits if_splits dest!: framed
      simp: work_eq same_flags_def drop_command_def set_update_def)

lemma acknowledge_flags:
  assumes "acknowledge env cid c d = (x, d')"
  shows "same_flags d d' \<and> (x = Inr () \<longrightarrow> st_agent_update (dm_state d') = st_agent_update (dm_state d))"
proof (cases "jc_acknowledged c")
  case True
  with assms show ?thesis by (simp add: acknowledge_def same_flags_def)
next
  case False
  obtain b e d1 where dis: "discardExpiredUnacknowledgedCommand env cid d = (b, e, d1)" by (metis prod.collapse)
  note df = discard_flags [OF dis]
  show ?thesis
  proof (cases "e = None \<and> \<not> b \<and> de_request env (dm_tick d1) = None")
    case False
    with assms dis df \<open>\<not> jc_acknowledged c\<close> show ?thesis
      by (auto simp: acknowledge_def same_flags_def tick_def split: option.splits if_splits bool.splits)
  next
    case True
    show ?thesis
    proof (cases "command (tick d1) cid")
      case None
      with assms dis df \<open>\<not> jc_acknowledged c\<close> True show ?thesis
        by (auto simp: acknowledge_def same_flags_def tick_def)
    next
      case (Some cur)
      obtain f d2 where save: "save_journal env (put_command cid (cur\<lparr>jc_acknowledged := True\<rparr>) (tick d1)) = (f, d2)" by fastforce
      have "d' = d2" using assms dis \<open>\<not> jc_acknowledged c\<close> True Some save by (simp add: acknowledge_def)
      with save_journal_frame [OF save] df True show ?thesis by (simp add: work_eq same_flags_def put_command_def tick_def)
    qed
  qed
qed

lemma dispatch_cancel_flags: "dispatch_cancel env cid rid d = (e, d') \<Longrightarrow> same_flags d d'"
  unfolding dispatch_cancel_def Let_def
  by (auto split: prod.splits option.splits dest!: cancel_run_flags save_journal_frame
      simp: work_eq same_flags_def drop_command_def)

lemma saved_fields [simp]:
  "dm_active (snd (save_journal env d)) = dm_active d" "dm_kinds (snd (save_journal env d)) = dm_kinds d"
  "dm_repositories (snd (save_journal env d)) = dm_repositories d"
  "dm_replication (snd (save_journal env d)) = dm_replication d" "dm_tasks (snd (save_journal env d)) = dm_tasks d"
  using save_frames(1) [of env d] by (simp_all only: work_eq)

lemma start_update_flags: "startAgentUpdate env w s cid d = (e, rq, d') \<Longrightarrow> same_flags d d'"
  unfolding startAgentUpdate_def Let_def
  by (auto split: prod.splits option.splits if_splits dest!: save_journal_frame
      simp: work_eq same_flags_def put_command_def)

lemma advance_draining:
  assumes "updating d" shows "same_flags d (snd (advanceCommand env helper cid d))"
proof (cases "command d cid")
  case None
  then show ?thesis by (simp add: advanceCommand_def same_flags_def)
next
  case (Some c)
  obtain x d1 where ack: "acknowledge env cid c d = (x, d1)" by fastforce
  note af = acknowledge_flags [OF ack]
  show ?thesis
  proof (cases x)
    case (Inl e)
    with Some ack af show ?thesis by (simp add: advanceCommand_def)
  next
    case (Inr u)
    then have upd: "updating d1" using af assms by simp
    obtain e2 d2 where cancel: "dispatch_cancel env cid (jc_run_id c) d1 = (e2, d2)" by fastforce
    obtain e3 rq d3 where update: "startAgentUpdate env (fst helper) (snd helper) cid d1 = (e3, rq, d3)" by (metis prod.collapse)
    have flags: "same_flags d d1" "same_flags d d2" "same_flags d d3"
      using af dispatch_cancel_flags [OF cancel] start_update_flags [OF update] same_flags_trans by blast+
    have "snd (advanceCommand env helper cid d) \<in> {d1, d2, d3}"
      using Some ack Inr upd cancel update by (simp add: advanceCommand_def Let_def del: not_None_eq)
    with flags show ?thesis by blast
  qed
qed

lemma note_update_flags: "note_update env c rid d = (e, d') \<Longrightarrow> same_flags d d'"
  unfolding note_update_def Let_def
  by (auto split: prod.splits option.splits dest!: framed simp: work_eq same_flags_def drop_command_def set_update_def)

lemma receive_flags: "receiveCommand env c d = (e, d') \<Longrightarrow> same_flags d d'"
  unfolding receiveCommand_def receive_run_id_def Let_def
  by (auto split: prod.splits option.splits if_splits dest!: framed note_update_flags
      simp: work_eq same_flags_def put_command_def drop_command_def)

section \<open>A concrete daemon\<close>

definition sample_env :: daemon_env where
  "sample_env =
     \<lparr>de_clock = (\<lambda>_. 1700000000000000000), de_random = (\<lambda>_. Some (replicate 10 0)), de_write = (\<lambda>_. Written),
      de_read = (\<lambda>_. None), de_usage = (\<lambda>_. 0), de_done = (\<lambda>_. False), de_cron = daily_cron, de_lib = local_lib,
      de_run = (\<lambda>_ _. no_result), de_request = (\<lambda>_. None), de_events = (\<lambda>_ _. Inr []),
      de_load = (\<lambda>_. ConfigUnreadable), de_fetch = (\<lambda>_. NotModified), de_inspect = (\<lambda>_ _. zero_result)\<rparr>"

definition sample_config :: config where
  "sample_config =
     \<lparr>cf_protocol_revision = ''1.12.0'', cf_generation = 1, cf_revision = 3, cf_schema_version = 1, cf_issued_at = [],
      cf_destinations = [], cf_jobs = [sample_job], cf_warnings = []\<rparr>"

text \<open>A scheduled backup that waits, and the daemon that has it.\<close>

definition waiting_command :: journal_command where
  "waiting_command =
     stored_command\<lparr>jc_state := ''received'', jc_sequence := 0, jc_events := [], jc_job_snapshot := JobSnapshot sample_job\<rparr>"

definition sample_daemon :: daemon where
  "sample_daemon =
     \<lparr>dm_bootstrap = \<lparr>bs_endpoint = [], bs_server_id = ''server'', bs_generation = 1, bs_credential = [],
        bs_hostname = [], bs_setup_token_hash = [], bs_cache_key = [], bs_enrollment_token_hash = []\<rparr>,
      dm_version = ''1.0.0'', dm_protocol = Some ''1.12.0'',
      dm_metadata = \<lparr>cm_generation = 1, cm_revision = 3, cm_digest = [], cm_file_digest = []\<rparr>,
      dm_config = sample_config, dm_state = zero_state, dm_journal = [(stored_id, waiting_command)],
      dm_store = \<lparr>fs_db = empty_db, fs_reserve_released = False, fs_logs = []\<rparr>,
      dm_active = [], dm_cancelled = [], dm_kinds = [], dm_repositories = [], dm_replication = [],
      dm_reconciled = True, dm_last_minute = 0, dm_tasks = [], dm_tick = 0\<rparr>"

definition sample_update :: agent_update_runtime where
  "sample_update =
     \<lparr>au_command_id = ''u'', au_run_id = ''r'', au_target_version = ''2.0.0'', au_started_at = [],
      au_last_schedule_minute = []\<rparr>"

lemmas sample_defs = sample_env_def sample_config_def waiting_command_def sample_daemon_def sample_update_def

lemma sample_well_kept: "well_kept sample_daemon"
  by (simp add: well_kept_def sequenced_def sample_defs)

text \<open>A journal with this one command can be saved.\<close>

lemma single_saved:
  assumes "dm_journal d = [(stored_id, c)]" "command_stored_ok stored_id c" "fs_db (dm_store d) = empty_db"
  shows "fst (save_journal (sample_env\<lparr>de_write := \<lambda>_. w\<rparr>) d) =
    (case w of Written \<Rightarrow> None | DiskFull \<Rightarrow> Some SpoolCapacity | _ \<Rightarrow> Some StorageFailed)"
  using assms
  by (auto simp: save_journal_def write_store_def updateState_def journal_of_def SaveCommandJournal_def
      saveCommandJournal_def sorted_commands_def save_command_def Let_def clear_journal_def empty_db_def
      split: prod.splits option.splits write_outcome.splits)

abbreviation writing :: "write_outcome \<Rightarrow> daemon_env" where
  "writing w \<equiv> sample_env\<lparr>de_write := \<lambda>_. w\<rparr>"

lemma sample_writing: "sample_env = writing Written"
  by (simp add: sample_env_def)

lemma waiting_ok: "command_stored_ok stored_id waiting_command"
  by (simp add: command_stored_ok_def waiting_command_def stored_command_def is_ulid_def stored_id_def
      ulid_alphabet_def list_all_iff)

lemma sample_launches:
  "\<exists>d'. launch_operation (writing w) stored_id sample_job waiting_command (tick sample_daemon)
     = (case w of Written \<Rightarrow> None | DiskFull \<Rightarrow> Some (StoreFailure SpoolCapacity) | _ \<Rightarrow> Some (StoreFailure StorageFailed), d')"
proof -
  obtain u where u: "newULID 1700000000000000000 (Some (replicate 10 0)) = Some u" by (simp add: newULID_def)
  define c where "c = add_event u (protocolTimestamp 1700000000000000000) ''run_started'' []
    (next_sequence (waiting_command\<lparr>jc_state := ''running''\<rparr>))"
  define d where "d = sample_daemon\<lparr>dm_tick := 4\<rparr>"
  have em: "emit_now (writing w) ''run_started'' [] (waiting_command\<lparr>jc_state := ''running''\<rparr>) (tick sample_daemon) = (True, c, d)"
    using u by (simp add: emit_now_def draw_ulid_def draw_ulid_at_def read_now_def tick_def sample_env_def sample_daemon_def
        c_def d_def)
  have sk: "skew_event (writing w) c d = (c, d)" by (simp add: skew_event_def d_def sample_daemon_def zero_state_def)
  have "command_stored_ok stored_id c"
    using waiting_ok by (simp add: command_stored_ok_def c_def add_event_def next_sequence_def)
  then have "fst (save_journal (writing w) (put_command stored_id c d)) =
      (case w of Written \<Rightarrow> None | DiskFull \<Rightarrow> Some SpoolCapacity | _ \<Rightarrow> Some StorageFailed)"
    by (intro single_saved [of _ c]) (simp_all add: d_def sample_daemon_def put_command_def)
  then obtain d' where "save_journal (writing w) (put_command stored_id c d) =
      (case w of Written \<Rightarrow> None | DiskFull \<Rightarrow> Some SpoolCapacity | _ \<Rightarrow> Some StorageFailed, d')"
    by (metis prod.collapse)
  with em sk show ?thesis by (cases w) (simp_all add: launch_operation_def)
qed

lemma sample_fields:
  "command sample_daemon stored_id = Some waiting_command" "\<not> updating sample_daemon"
  "jc_state waiting_command = ''received''" "jc_job_snapshot waiting_command \<noteq> NoSnapshot"
  "with_kind waiting_command = waiting_command" "jc_run_kind waiting_command = ''backup''"
  "canAcceptWork (de_usage (writing w) (dm_tick sample_daemon)) criticalRunRecordEstimate (dm_store sample_daemon)"
  "\<not> operation_blocked sample_daemon j ''backup''" "\<forall>n. de_random (writing w) n \<noteq> None"
  by (simp_all add: sample_defs with_kind_def stored_command_def operation_blocked_def capacity_reached_def
      activeCountsLocked_def zero_state_def operation_repositories_def canAcceptWork_def
      criticalRunRecordEstimate_def SpoolBytesLimit_def)

lemma sample_start:
  "startOperation (writing w) stored_id sample_job sample_daemon
     = launch_operation (writing w) stored_id sample_job waiting_command (tick sample_daemon)"
proof -
  have own: "put_command stored_id waiting_command (tick sample_daemon) = tick sample_daemon"
    using sample_fields(1) by (intro put_own) (simp add: tick_def)
  have ticked: "\<not> operation_blocked (tick sample_daemon) j ''backup''"
    "command (tick sample_daemon) stored_id = Some waiting_command" "\<not> updating (tick sample_daemon)" for j
    using sample_fields blocked_work [of "tick sample_daemon" sample_daemon] by (simp_all add: work_def tick_def)
  show ?thesis using sample_fields own ticked
    by (simp add: startOperation_def can_accept_def prepare_operation_def begin_operation_def)
qed

lemma sample_starts:
  obtains d' c' where "startOperation sample_env stored_id sample_job sample_daemon = (None, d')"
    "begun stored_id sample_job c' sample_daemon d'"
proof -
  obtain d' where start: "startOperation (writing Written) stored_id sample_job sample_daemon = (None, d')"
    using sample_launches [of Written] sample_start [of Written] by auto
  have "\<exists>c'. begun stored_id sample_job c' sample_daemon d'"
    using start_operation_begins [OF start sample_fields(9,2,1,3,4) _ sample_fields(7)]
      sample_fields(5,6) sample_fields(8) [of sample_job] by simp
  with start show ?thesis using that sample_writing by metis
qed

section \<open>Properties\<close>



text \<open>C6: Invariant. From a daemon that is well kept, whatever the order of the steps, at most two backups and
  one maintenance operation run, no command is in the journal twice, and the events of a command have
  increasing sequence numbers up to the last one given out.\<close>
theorem daemon_invariant:
  assumes "daemon_step\<^sup>*\<^sup>* d d'" "well_kept d"
  shows "(case activeCountsLocked d' of (backups, maintenance) \<Rightarrow> backups \<le> 2 \<and> maintenance \<le> 1)
    \<and> distinct (mkeys (dm_journal d'))
    \<and> (\<forall>(i, c) \<in> set (dm_journal d'). sorted_wrt (<) (map ev_sequence (jc_events c))
         \<and> (\<forall>e \<in> set (jc_events c). ev_sequence e \<le> jc_sequence c))"
proof -
  have "well_kept d'" using assms by (rule daemon.detailed_reachable)
  then show ?thesis by (simp add: well_kept_def activeCountsLocked_def sequenced_def)
qed

lemma daemon_invariant_witness:
  "\<exists>d'. dm_tasks d' \<noteq> [] \<and> (case activeCountsLocked d' of (backups, maintenance) \<Rightarrow> backups \<le> 2 \<and> maintenance \<le> 1)"
proof -
  obtain d' c' where "startOperation sample_env stored_id sample_job sample_daemon = (None, d')"
    and b: "begun stored_id sample_job c' sample_daemon d'" using sample_starts .
  then have "daemon_step sample_daemon d'" using daemon_step.start by (metis snd_conv)
  then have "daemon_step\<^sup>*\<^sup>* sample_daemon d'" by blast
  from daemon_invariant [OF this sample_well_kept]
  have "case activeCountsLocked d' of (backups, maintenance) \<Rightarrow> backups \<le> 2 \<and> maintenance \<le> 1" by (rule conjunct1)
  moreover have "dm_tasks d' \<noteq> []" using b by (auto simp: begun_def)
  ultimately show ?thesis by (intro exI [of _ d'] conjI)
qed

text \<open>C7: Safety. An operation begins only if no update is pending, its command was received, the capacity is not
  reached, its repositories are free and, for maintenance, no replication of the job is active or
  pending; and only after its running state is on disk. Then its run is counted and its repositories are
  taken.\<close>
theorem operation_begins_durably:
  assumes "startOperation env cid j d = (e, d')" "dm_tasks d' \<noteq> dm_tasks d"
  shows "e = None \<and> \<not> updating d
    \<and> (\<exists>c c'. command d cid = Some c \<and> jc_state c = ''received'' \<and> \<not> operation_blocked d j (jc_run_kind c')
         \<and> command d' cid = Some c' \<and> jc_state c' = ''running'' \<and> on_disk d' cid = Some (bare c')
         \<and> jc_run_id c' \<in> set (dm_active d') \<and> mget (dm_kinds d') (jc_run_id c') = Some (jc_run_kind c')
         \<and> set (operation_repositories j (jc_run_kind c')) \<subseteq> set (dm_repositories d'))"
proof -
  have fold_set: "set (fold List.insert xs ys) = set xs \<union> set ys" for xs ys :: "string list"
    by (induction xs arbitrary: ys) auto
  show ?thesis
    using assms(1)
  proof (cases rule: start_operation_cases)
    case idle
    then show ?thesis using assms(2) by (simp add: calm_def same_flags_def)
  next
    case (tried c)
    then have "launched cid j (with_kind c) d e d'" "e \<noteq> Some RandomFailure" "\<not> calm d d'"
      using assms(2) by (auto simp: calm_def same_flags_def launched_def)
    then obtain c' where "e = None" "begun cid j c' d d'" "jc_run_kind c' = jc_run_kind (with_kind c)"
      by (auto simp: launched_def)
    with tried show ?thesis by (intro conjI exI [of _ c] exI [of _ c']) (auto simp: begun_def fold_set)
  qed
qed

lemma operation_begins_durably_witness:
  "\<exists>d'. fst (startOperation sample_env stored_id sample_job sample_daemon) = None
    \<and> snd (startOperation sample_env stored_id sample_job sample_daemon) = d'
    \<and> map_option jc_state (on_disk d' stored_id) = Some ''running''"
proof -
  obtain d' c' where start: "startOperation sample_env stored_id sample_job sample_daemon = (None, d')"
    and b: "begun stored_id sample_job c' sample_daemon d'" using sample_starts .
  have "dm_tasks d' \<noteq> dm_tasks sample_daemon" using b by (auto simp: begun_def)
  from operation_begins_durably [OF start this] obtain c' where
    "on_disk d' stored_id = Some (bare c')" "jc_state c' = ''running''" by blast
  with start show ?thesis by (simp add: bare_def as_stored_def)
qed

text \<open>C8: Errors. When starting an operation fails, no run, flag or goroutine has changed; unless the random
  source failed, every command also has the state, the sequence and the events it had before, so the
  operation is tried again.\<close>
theorem failed_start_changes_nothing:
  assumes "startOperation env cid j d = (Some e, d')"
  shows "same_flags d d' \<and> (e \<noteq> RandomFailure \<longrightarrow> (\<forall>i. map_option progress_of (command d' i) = map_option progress_of (command d i)))"
  using assms by (cases rule: start_operation_cases) (auto simp: launched_def calm_def)

lemma failed_start_changes_nothing_witness:
  "\<exists>d'. startOperation (writing DiskFull) stored_id sample_job sample_daemon = (Some (StoreFailure SpoolCapacity), d')
    \<and> map_option progress_of (command d' stored_id) = Some (''received'', 0, [])"
proof -
  obtain d' where start: "startOperation (writing DiskFull) stored_id sample_job sample_daemon
      = (Some (StoreFailure SpoolCapacity), d')"
    using sample_launches [of DiskFull] sample_start [of DiskFull] by auto
  from failed_start_changes_nothing [OF this] have
    "map_option progress_of (command d' stored_id) = map_option progress_of (command sample_daemon stored_id)" by simp
  with start sample_fields(1) show ?thesis by (simp add: progress_of_def waiting_command_def)
qed

text \<open>C9: Safety. While an update of the agent is pending, no handler begins an operation, a replication or a
  synchronization, takes a repository or counts a run: neither the scheduler, nor the dispatch of a
  command, nor a released maintenance operation or backup.\<close>
theorem draining_starts_nothing:
  assumes "updating d"
  shows "same_flags d (snd (scheduleBackups env d)) \<and> same_flags d (snd (advanceCommand env helper cid d))
    \<and> same_flags d (snd (startOperation env cid j d)) \<and> same_flags d (snd (startNextDeferredMaintenance env i expired d))
    \<and> same_flags d (snd (startCatchUpBackup env i d)) \<and> same_flags d (snd (receiveCommand env command' d))
    \<and> startReplicaSync env cid j d = (None, d) \<and> startReplication j d = d \<and> resumeReplications d = d"
proof -
  have "same_flags d (snd (startOperation env cid j d))"
  proof (cases "startOperation env cid j d")
    case (Pair e d')
    from Pair have "same_flags d d'"
    proof (cases rule: start_operation_cases)
      case idle
      then show ?thesis by (simp add: calm_def)
    qed (use assms in simp)
    with Pair show ?thesis by simp
  qed
  moreover have "same_flags d (snd (receiveCommand env command' d))" using receive_flags by (metis prod.collapse)
  ultimately show ?thesis using assms schedule_backups_draining advance_draining
    by (simp add: startNextDeferredMaintenance_def startCatchUpBackup_def startReplicaSync_def startReplication_def
        resumeReplications_def same_flags_work)
qed

lemma draining_starts_nothing_witness:
  "same_flags (set_update (Some sample_update) sample_daemon)
     (snd (scheduleBackups sample_env (set_update (Some sample_update) sample_daemon)))"
  using draining_starts_nothing [of "set_update (Some sample_update) sample_daemon"] by (simp add: set_update_def)

text \<open>C10: Safety. The update helper is handed a request only when no run is active and no repository and no
  replication is taken; the command is then running on disk, and the request names it.\<close>
theorem update_handed_over_idle:
  assumes "startAgentUpdate env written helped cid d = (e, Some request, d')"
  shows "dm_active d = [] \<and> dm_repositories d = [] \<and> dm_replication d = [] \<and> updating d
    \<and> map_option jc_state (on_disk d' cid) = Some ''running''
    \<and> ur_command_id request = cid \<and> (\<exists>c. command d cid = Some c \<and> ur_run_id request = jc_run_id c
         \<and> ur_target_version request = cp_target_version (ac_payload (jc_command c)))"
  using assms unfolding startAgentUpdate_def Let_def
  by (auto split: option.splits if_splits prod.splits dest!: save_journal_on_disk [where i = cid]
      simp: bare_def as_stored_def)

lemma update_handed_over_idle_witness:
  "\<exists>d'. map_option jc_state (on_disk d' stored_id) = Some ''running''"
proof -
  let ?d = "set_update (Some sample_update) sample_daemon"
  obtain e rq d' where s: "startAgentUpdate sample_env None None stored_id ?d = (e, rq, d')" by (metis prod.collapse)
  have "fst (save_journal sample_env (put_command stored_id (waiting_command\<lparr>jc_state := ''running''\<rparr>) ?d)) = None"
    using waiting_ok
    by (subst sample_writing, subst single_saved [of _ "waiting_command\<lparr>jc_state := ''running''\<rparr>"]) (simp_all add: put_command_def set_update_def sample_daemon_def command_stored_ok_def)
  then obtain d2 where saved: "save_journal sample_env
      (put_command stored_id (waiting_command\<lparr>jc_state := ''running''\<rparr>) ?d) = (None, d2)" by (metis prod.collapse)
  have "command ?d stored_id = Some waiting_command" "st_agent_update (dm_state ?d) = Some sample_update"
    "dm_active ?d = []" "dm_repositories ?d = []" "dm_replication ?d = []"
    by (simp_all add: set_update_def sample_daemon_def)
  then have "\<exists>r. rq = Some r" using s saved sample_fields(3) by (auto simp: startAgentUpdate_def)
  then show ?thesis using update_handed_over_idle s by blast
qed

end
