(* ===== verification/SchedulerFacts.thy ===== *)
theory SchedulerFacts
  imports DaemonFacts
begin

text \<open>
  What the scheduler guarantees: an occurrence is handled at most once and is on record when its handler
  has ended without an error, and a maintenance operation whose deferral has run out is started, the most
  urgent one first.
\<close>

section \<open>Occurrences stay on record\<close>

definition kept :: "daemon \<Rightarrow> daemon \<Rightarrow> bool" where
  "kept d d' =
     (\<forall>k. bget (db_occurrences (fs_db (dm_store d))) k \<noteq> None \<longrightarrow> bget (db_occurrences (fs_db (dm_store d'))) k \<noteq> None)"

lemma kept_trans: "kept a b \<Longrightarrow> kept b c \<Longrightarrow> kept a c"
  by (simp add: kept_def)

lemma kept_store: "dm_store d' = dm_store d \<Longrightarrow> kept d d'"
  by (simp add: kept_def)

lemma kept_cong: "kept d d' \<Longrightarrow> dm_store d1 = dm_store d \<Longrightarrow> dm_store d2 = dm_store d' \<Longrightarrow> kept d1 d2"
  by (simp add: kept_def)

lemma kept_exists: "kept d d' \<Longrightarrow> occurrenceExists a b c (fs_db (dm_store d)) \<Longrightarrow> occurrenceExists a b c (fs_db (dm_store d'))"
  unfolding kept_def occurrenceExists_def by blast

lemma write_store_kept:
  assumes "write_store env action d = (e, d')"
    "\<And>db db' k. action db = Inr db' \<Longrightarrow> bget (db_occurrences db) k \<noteq> None \<Longrightarrow> bget (db_occurrences db') k \<noteq> None"
  shows "kept d d'"
proof -
  obtain e1 fs where up: "updateState (de_write env (dm_tick d)) action (dm_store d) = (e1, fs)" by fastforce
  then have eq: "e = e1" "dm_store d' = fs" using assms(1) by (auto simp: write_store_def tick_def)
  show ?thesis
  proof (cases e1)
    case None
    with update_state_ok [of _ action "dm_store d" fs] up have "action (fs_db (dm_store d)) = Inr (fs_db fs)" by blast
    with assms(2) eq show ?thesis by (simp add: kept_def)
  next
    case (Some x)
    with update_state_error up eq show ?thesis by (simp add: kept_def)
  qed
qed

lemma save_journal_kept: "save_journal env d = (e, d') \<Longrightarrow> kept d d'"
  unfolding save_journal_def by (erule write_store_kept) (use save_journal_occurrences(1) in fastforce)

lemma save_state_kept: "save_state env d = (e, d') \<Longrightarrow> kept d d'"
  unfolding save_state_def by (erule write_store_kept) (auto dest: sym)

lemma skip_kept: "skip_occurrence env a b c st d = (e, d') \<Longrightarrow> kept d d'"
  unfolding skip_occurrence_def
  by (erule write_store_kept) (auto simp: recordSkippedOccurrence_def Let_def split: option.splits)

lemma skip_recorded:
  assumes "skip_occurrence env a b c st d = (None, d')"
  shows "occurrenceExists a b c (fs_db (dm_store d'))"
proof -
  have "fs_db (dm_store d') = recordSkippedOccurrence a b c st (fs_db (dm_store d))"
    using assms by (auto simp: skip_occurrence_def write_store_def tick_def dest!: update_state_ok split: prod.splits)
  then show ?thesis by (simp add: recordSkippedOccurrence_def occurrenceExists_def Let_def split: option.splits)
qed

lemma put_store [simp]: "dm_store (put_command i c d) = dm_store d" "dm_store (drop_command i d) = dm_store d"
  by (simp_all add: put_command_def drop_command_def)

lemma saved_put_kept: "save_journal env (put_command i c d) = (e, d') \<Longrightarrow> kept d d'"
  by (drule save_journal_kept) (simp add: kept_def)

lemma emit_now_store: "emit_now env k p c d = (ok, c', d') \<Longrightarrow> dm_store d' = dm_store d"
  by (auto simp: emit_now_def draw_ulid_def draw_ulid_at_def read_now_def tick_def Let_def split: option.splits)

lemma skew_store: "skew_event env c d = (c', d') \<Longrightarrow> dm_store d' = dm_store d"
  by (cases "emit_now env ''clock_skew''
      [(''offset_seconds'', JNum ((if st_clock_offset_seconds (dm_state d) < 0 then ''-'' else [])
         @ show_nat (nat \<bar>st_clock_offset_seconds (dm_state d)\<bar>)))] c d")
    (auto simp: skew_event_def Let_def dest: emit_now_store split: if_splits)

lemma launch_kept: "launch_operation env cid j c d = (e, d') \<Longrightarrow> kept d d'"
  unfolding launch_operation_def Let_def
  by (auto simp: kept_def occupy_def split: prod.splits if_splits option.splits dest!: emit_now_store skew_store saved_put_kept)

lemma begin_kept: "begin_operation env cid j c d = (e, d') \<Longrightarrow> kept d d'"
  unfolding begin_operation_def Let_def by (auto simp: kept_store dest: launch_kept split: if_splits option.splits)

lemma prepare_kept: "prepare_operation env cid j c d = (x, d') \<Longrightarrow> kept d d'"
proof -
  have store: "prepareMaintenanceLocked env j c d = (j', c', d1) \<Longrightarrow> dm_store d1 = dm_store d" for j' c' d1
    unfolding prepareMaintenanceLocked_def Let_def
    by (auto simp: put_runtime_def read_now_def tick_def split: if_splits prod.splits)
  assume "prepare_operation env cid j c d = (x, d')"
  then show ?thesis unfolding prepare_operation_def Let_def
    by (auto simp: kept_def dest!: store save_state_kept split: if_splits prod.splits)
qed

lemma start_operation_kept: "startOperation env cid j d = (e, d') \<Longrightarrow> kept d d'"
proof -
  assume s: "startOperation env cid j d = (e, d')"
  obtain room d1 where room: "can_accept env criticalRunRecordEstimate d = (room, d1)" by fastforce
  then have st: "dm_store d1 = dm_store d" by (auto simp: can_accept_def tick_def)
  show ?thesis
  proof (cases "\<not> room \<or> updating d1 \<or> command d1 cid = None \<or> jc_state (the (command d1 cid)) \<noteq> ''received''")
    case True
    with s room st show ?thesis by (auto simp: startOperation_def kept_def split: option.splits if_splits)
  next
    case False
    then obtain c where c: "command d1 cid = Some c" "jc_state c = ''received''" "\<not> updating d1" room by auto
    let ?d2 = "put_command cid (with_kind c) d1"
    obtain f j3 c3 d3 where p: "prepare_operation env cid j (with_kind c) ?d2 = ((f, j3, c3), d3)" by (metis prod.collapse)
    have "kept d d3" using prepare_kept [OF p] by (rule kept_cong) (simp_all add: st)
    moreover obtain e4 d4 where b: "begin_operation env cid j3 c3 d3 = (e4, d4)" by fastforce
    moreover have "d' = ?d2 \<or> d' = d3 \<or> d' = d4"
      using s room c p b by (auto simp: startOperation_def Let_def split: if_splits option.splits)
    ultimately show ?thesis using begin_kept [OF b] kept_trans st by (auto simp: kept_store)
  qed
qed

section \<open>Every due occurrence is handled once\<close>

lemma refuse_recorded:
  assumes "refuseOccurrenceForPressure env a b c d = (None, d')"
  shows "occurrenceExists a b c (fs_db (dm_store d'))"
proof -
  let ?n = "dm_state (markSpoolGapLocked d)"
  obtain f d1 where s1: "skip_occurrence env a b c (Some ?n) d = (f, d1)" by fastforce
  obtain g d2 where s2: "skip_occurrence env a b c (Some ?n) d1 = (g, d2)" by fastforce
  show ?thesis
  proof (cases "f = Some SpoolCapacity")
    case True
    then have "g = None" "dm_store d' = dm_store d2"
      using assms s1 s2 by (auto simp: refuseOccurrenceForPressure_def Let_def split: option.splits)
    then show ?thesis using skip_recorded s2 by metis
  next
    case False
    then have "f = None" "dm_store d' = dm_store d1"
      using assms s1 by (auto simp: refuseOccurrenceForPressure_def Let_def split: option.splits)
    then show ?thesis using skip_recorded s1 by metis
  qed
qed

lemma overlap_fields:
  "finishScheduledOverlap env now c d = (c', d') \<Longrightarrow>
   jc_trigger c' = jc_trigger c \<and> jc_scheduled_for c' = jc_scheduled_for c \<and> jc_run_kind c' = jc_run_kind c
   \<and> jc_command c' = jc_command c \<and> dm_journal d' = dm_journal d"
  by (auto simp: finishScheduledOverlap_def Let_def draw_ulid_at_def tick_def add_event_def split: option.splits)

lemma saved_scheduled:
  assumes "save_journal env (put_command i c d) = (None, d')" "distinct (mkeys (dm_journal d))"
    "jc_trigger c = ''scheduled''" "jc_scheduled_for c \<noteq> []"
  shows "occurrenceExists (cp_job_id (ac_payload (jc_command c))) (jc_run_kind c) (jc_scheduled_for c) (fs_db (dm_store d'))"
proof -
  let ?j = "journal_of (put_command i c d)"
  have "SaveCommandJournal ?j (fs_db (dm_store d)) = Inr (fs_db (dm_store d'))"
    using assms(1) by (auto simp: save_journal_def write_store_def tick_def dest!: update_state_ok split: prod.splits)
  moreover have "distinct (mkeys (cj_commands ?j))" "(i, c) \<in> set (cj_commands ?j)"
    using assms(2) mget_Some_in [of "mput i c (dm_journal d)" i c]
    by (simp_all add: journal_of_def put_command_def distinct_mput)
  ultimately show ?thesis using save_journal_occurrences(2) assms(3,4) by blast
qed

lemma accept_recorded:
  assumes "accept_occurrence env o' scheduled sl d = (None, sl', d')" "distinct (mkeys (dm_journal d))" "scheduled \<noteq> []"
  shows "occurrenceExists (jb_id (so_job o')) (so_kind o') scheduled (fs_db (dm_store d'))"
proof -
  obtain u d1 where draw: "draw_ulid_at env (sl_now sl) d = (u, d1)" by fastforce
  have j1: "dm_journal d1 = dm_journal d" using draw by (auto simp: draw_ulid_at_def tick_def)
  obtain rid s where us: "u = Some rid" "encodeJobSnapshot (so_job o') = Some s"
    using assms(1) draw by (auto simp: accept_occurrence_def split: option.splits)
  define c where "c = (scheduled_command (bs_generation (dm_bootstrap d1)) (sl_revision sl) o' rid s scheduled
    (sl_minute sl) (sl_now sl))\<lparr>jc_catch_up_backup := catches_up sl o' d1\<rparr>"
  obtain c2 d2 where over: "(if overlaps sl o' d1 \<and> \<not> so_deferred o' \<and> \<not> sl_draining sl
      then finishScheduledOverlap env (sl_now sl) c d1 else (c, d1)) = (c2, d2)" by fastforce
  have cf: "jc_trigger c = ''scheduled''" "jc_scheduled_for c = scheduled" "jc_run_kind c = so_kind o'"
    "cp_job_id (ac_payload (jc_command c)) = jb_id (so_job o')"
    by (simp_all add: c_def scheduled_command_def zero_journal_command_def Let_def)
  have same: "jc_trigger c2 = ''scheduled''" "jc_scheduled_for c2 = scheduled" "jc_run_kind c2 = so_kind o'"
    "cp_job_id (ac_payload (jc_command c2)) = jb_id (so_job o')" "dm_journal d2 = dm_journal d"
    using over overlap_fields [of env "sl_now sl" c d1 c2 d2] j1
      cf by (simp_all split: if_splits)
  obtain f d3 where save: "save_journal env (put_command rid c2 d2) = (f, d3)" by fastforce
  have unfold: "accept_occurrence env o' scheduled sl d =
      (case f of
         Some f \<Rightarrow>
           (let d = drop_command rid d3
            in if f = SpoolCapacity then
                 (let (e, d) = refuseOccurrenceForPressure env (jb_id (so_job o')) (so_kind o') scheduled d in (e, sl, d))
               else (Some (StoreFailure f), sl, d))
       | None \<Rightarrow>
           if sl_draining sl \<or> overlaps sl o' d1 \<or> so_deferred o' \<or> catches_up sl o' d1 then (None, sl, d3)
           else (let (e, d) = startOperation env rid (so_job o') d3 in (e, count_started o' sl, d)))"
    by (simp only: accept_occurrence_def draw us prod.case option.case Let_def c_def [symmetric] over save)
  show ?thesis
  proof (cases f)
    case (Some x)
    then obtain e4 d4 where r: "refuseOccurrenceForPressure env (jb_id (so_job o')) (so_kind o') scheduled (drop_command rid d3) = (e4, d4)"
      by fastforce
    then have "e4 = None" "d' = d4" using assms(1) unfold Some by (auto simp: Let_def split: if_splits)
    then show ?thesis using refuse_recorded r by blast
  next
    case None
    then have rec: "occurrenceExists (jb_id (so_job o')) (so_kind o') scheduled (fs_db (dm_store d3))"
      using saved_scheduled [of env rid c2 d2 d3] save assms(2,3) same by simp
    obtain e4 d4 where st: "startOperation env rid (so_job o') d3 = (e4, d4)" by fastforce
    have "d' = d3 \<or> d' = d4" using assms(1) unfold None st by (auto split: if_splits)
    then show ?thesis using rec kept_exists [OF start_operation_kept [OF st]] by blast
  qed
qed

lemma timestamp_not_Nil: "protocolTimestamp t \<noteq> []"
  by (simp add: protocolTimestamp_def Let_def)

text \<open>C11: Safety. An occurrence that is on record is not run again, even when the clock went back; and when the
  handler of a due occurrence ends without an error, the occurrence is on record, whether it was
  accepted, skipped because an earlier one is still queued, or refused because the disk is full.\<close>
theorem due_occurrence_once:
  assumes "schedule_operation env o' sl d = (e, sl', d')" "distinct (mkeys (dm_journal d))"
    and "firstDueSchedule (de_cron env) (so_expression o')
           (if sl_draining sl then sl_previous sl else sl_minute sl - seconds 60) (sl_minute sl) = Inr (at, True)"
  shows "(occurrenceExists (jb_id (so_job o')) (so_kind o') (protocolTimestamp at) (fs_db (dm_store d)) \<longrightarrow> work d' = work d)
    \<and> (e = None \<longrightarrow> occurrenceExists (jb_id (so_job o')) (so_kind o') (protocolTimestamp at) (fs_db (dm_store d')))"
proof -
  let ?job = "jb_id (so_job o')" and ?at = "protocolTimestamp at"
  obtain seen d1 where read: "read_store env (occurrenceExists ?job (so_kind o') ?at) d = (seen, d1)" by fastforce
  have d1: "dm_store d1 = dm_store d" "dm_journal d1 = dm_journal d" "work d1 = work d"
    "\<forall>b. seen = Inr b \<longrightarrow> b = occurrenceExists ?job (so_kind o') ?at (fs_db (dm_store d))"
    using read by (auto simp: read_store_def tick_def work_def split: option.splits)
  obtain f d2 where skip: "skip_occurrence env ?job (so_kind o') ?at None d1 = (f, d2)" by fastforce
  obtain room d3 where room: "can_accept env criticalRunRecordEstimate d1 = (room, d3)" by fastforce
  have d3: "dm_journal d3 = dm_journal d" using room d1(2) by (auto simp: can_accept_def tick_def)
  obtain e4 d4 where refuse: "refuseOccurrenceForPressure env ?job (so_kind o') ?at d3 = (e4, d4)" by fastforce
  obtain e5 sl5 d5 where accept: "accept_occurrence env o' ?at sl d3 = (e5, sl5, d5)" by (metis prod.collapse)
  have handled: "(e, sl', d') =
      (case seen of
         Inl f \<Rightarrow> (Some (StoreFailure f), sl, d1)
       | Inr True \<Rightarrow> (None, sl, d1)
       | Inr False \<Rightarrow>
           if queued_already sl o' d1 then (store_failed f, sl, d2)
           else if \<not> room then (e4, sl, d4) else (e5, sl5, d5))"
    using assms(1,3) read skip room refuse accept
    by (simp add: schedule_operation_def Let_def split: sum.splits bool.splits if_splits)
  have "e = None \<Longrightarrow> occurrenceExists ?job (so_kind o') ?at (fs_db (dm_store d'))"
    using handled d1 d3 skip refuse accept accept_recorded [of env o' ?at sl d3] assms(2)
      timestamp_not_Nil
    by (auto simp: store_failed_def dest: skip_recorded refuse_recorded split: sum.splits bool.splits if_splits)
  moreover have "occurrenceExists ?job (so_kind o') ?at (fs_db (dm_store d)) \<Longrightarrow> work d' = work d"
    using handled d1 by (auto split: sum.splits bool.splits)
  ultimately show ?thesis by blast
qed

text \<open>The backup of the sample job, a day after the last minute that was handled, with no room left.\<close>

definition sample_loop :: schedule_loop where
  "sample_loop =
     \<lparr>sl_draining = True, sl_previous = 0, sl_minute = seconds 86400, sl_now = seconds 86400, sl_revision = 3,
      sl_busy = [], sl_backups = 0, sl_maintenance = 0\<rparr>"

definition sample_operation :: scheduled_operation where
  "sample_operation =
     \<lparr>so_job = sample_job, so_kind = ''backup'', so_expression = ''0 3 * * *'', so_priority = 0, so_deferred = False\<rparr>"

lemma due_occurrence_once_witness:
  "\<exists>d'. schedule_operation (sample_env\<lparr>de_usage := \<lambda>_. SpoolBytesLimit\<rparr>) sample_operation sample_loop sample_daemon
      = (None, sample_loop, d')
    \<and> occurrenceExists (jb_id sample_job) ''backup'' (protocolTimestamp (seconds 86400)) (fs_db (dm_store d'))"
proof -
  let ?env = "sample_env\<lparr>de_usage := \<lambda>_. SpoolBytesLimit\<rparr>"
  have due: "firstDueSchedule (de_cron ?env) (so_expression sample_operation)
      (if sl_draining sample_loop then sl_previous sample_loop else sl_minute sample_loop - seconds 60)
      (sl_minute sample_loop) = Inr (seconds 86400, True)"
    by (simp add: firstDueSchedule_def sample_env_def sample_operation_def sample_loop_def daily_schedule
        truncate_minute_def)
  have fresh: "\<not> occurrenceExists a b c empty_db" for a b c by (simp add: occurrenceExists_def empty_db_def)
  have queued: "\<not> queued_already sample_loop sample_operation d" if "dm_journal d = dm_journal sample_daemon" for d
    using that by (simp add: queued_already_def hasQueuedScheduledOperation_def sample_daemon_def waiting_command_def
        stored_command_def sample_operation_def sample_loop_def sample_job_def sample_ulid_def numeral_eq_Suc)
  obtain e d' where "refuseOccurrenceForPressure ?env (jb_id sample_job) ''backup'' (protocolTimestamp (seconds 86400))
      (tick (tick sample_daemon)) = (e, d')" by fastforce
  moreover from this have "e = None"
    by (auto simp: refuseOccurrenceForPressure_def skip_occurrence_def write_store_def updateState_def sample_env_def
        Let_def split: prod.splits option.splits if_splits)
  ultimately have "schedule_operation ?env sample_operation sample_loop sample_daemon = (None, sample_loop, d')"
    using due fresh queued [of "tick sample_daemon"]
    by (simp add: schedule_operation_def read_store_def can_accept_def tick_def canAcceptWork_def sample_env_def
        sample_daemon_def sample_operation_def criticalRunRecordEstimate_def SpoolBytesLimit_def)
  with due_occurrence_once [OF this _ due] show ?thesis
    by (simp add: sample_daemon_def sample_operation_def)
qed

section \<open>Deferred maintenance starts\<close>

lemma best_least:
  assumes antisym: "\<And>a b. s a b \<Longrightarrow> \<not> s b a" and trans: "\<And>a b c. \<not> s b a \<Longrightarrow> \<not> s c b \<Longrightarrow> \<not> s c a"
  shows "best s cur xs = Some x \<Longrightarrow> (\<forall>y \<in> set xs. \<not> s y x) \<and> (\<forall>y. cur = Some y \<longrightarrow> \<not> s y x)"
proof (induction xs arbitrary: cur)
  case Nil
  then show ?case using antisym by auto
next
  case (Cons a xs)
  let ?cur = "case cur of None \<Rightarrow> Some a | Some y \<Rightarrow> if s a y then Some a else Some y"
  from Cons.prems have "best s ?cur xs = Some x" by simp
  note ih = Cons.IH [OF this]
  show ?case
  proof (cases cur)
    case None
    with ih show ?thesis by simp
  next
    case (Some y)
    show ?thesis
    proof (cases "s a y")
      case True
      with ih Some have "\<not> s a x" by simp
      with True ih Some show ?thesis using trans [of a x y] antisym by auto
    next
      case False
      with ih Some have "\<not> s y x" by simp
      with False ih Some show ?thesis using trans [of y x a] by auto
    qed
  qed
qed

lemma best_some: "best s (Some y) xs \<noteq> None"
  by (induction xs arbitrary: y) (auto split: if_splits)

lemma best_of_some: "xs \<noteq> [] \<Longrightarrow> best s None xs \<noteq> None"
  using best_some [of s] by (cases xs) simp_all

lemma sooner_order:
  "sooner_deferred a b \<Longrightarrow> \<not> sooner_deferred b a"
  "\<not> sooner_deferred b a \<Longrightarrow> \<not> sooner_deferred c b \<Longrightarrow> \<not> sooner_deferred c a"
  by (auto simp: sooner_deferred_def)

text \<open>What the handler needs of a waiting command to start it.\<close>

definition ready_to_start :: "cron \<Rightarrow> daemon \<Rightarrow> journal_command \<Rightarrow> bool" where
  "ready_to_start cron d c =
     (case decodeJobSnapshot cron (jc_job_snapshot c) of
        Inl e \<Rightarrow> False
      | Inr j \<Rightarrow> jb_enabled j \<and> \<not> operation_blocked d j (jc_run_kind (with_kind c)))"

text \<open>C12: Liveness. When a deferred maintenance operation has passed its deadline and the saved jobs of the
  operations that have can be started, the handler starts one, unless the disk fails: one whose deadline
  has passed, such that no other of them is more urgent by its kind or by the time it was due.\<close>
theorem expired_maintenance_starts:
  assumes "startNextDeferredMaintenance env [] True d = (e, d')" "\<not> updating d" "distinct (mkeys (dm_journal d))"
    and "(i, c) \<in> set (dm_journal d)" "deferred_candidate now [] True c" "now = de_clock env (dm_tick d)"
    and "\<forall>(i, c) \<in> set (dm_journal d). deferred_candidate now [] True c \<longrightarrow> ready_to_start (de_cron env) d c"
    and "\<forall>n. de_random env n \<noteq> None" "\<forall>n. canAcceptWork (de_usage env n) criticalRunRecordEstimate (dm_store d)"
  shows "(\<exists>f. e = Some (StoreFailure f))
    \<or> (e = None \<and> (\<exists>k b c' t. command d k = Some b \<and> deferred_candidate now [] True b
         \<and> (\<forall>(i, c) \<in> set (dm_journal d). deferred_candidate now [] True c \<longrightarrow> \<not> sooner_deferred c b)
         \<and> command d' k = Some c' \<and> jc_state c' = ''running'' \<and> dm_tasks d' = t # dm_tasks d))"
proof -
  let ?d1 = "tick d"
  let ?cs = "filter (\<lambda>(i, c). deferred_candidate now [] True c) (dm_journal d)"
  have next_: "next_deferred now [] True ?d1 = best (\<lambda>a b. sooner_deferred (snd a) (snd b)) None ?cs"
    by (simp add: next_deferred_def tick_def)
  have "?cs \<noteq> []" using assms(4,5) by (auto simp: filter_empty_conv)
  then obtain k b where best: "best (\<lambda>a b. sooner_deferred (snd a) (snd b)) None ?cs = Some (k, b)"
    using best_of_some [of ?cs] by fastforce
  have b: "(k, b) \<in> set (dm_journal d)" "deferred_candidate now [] True b" using best_in [OF best] by auto
  have least: "\<forall>(i, c) \<in> set (dm_journal d). deferred_candidate now [] True c \<longrightarrow> \<not> sooner_deferred c b"
  proof -
    have "\<forall>y \<in> set ?cs. \<not> sooner_deferred (snd y) (snd (k, b))"
      by (rule conjunct1 [OF best_least [OF _ _ best]]) (auto simp: sooner_order(1) dest: sooner_order(2))
    then show ?thesis by auto
  qed
  have kb: "command d k = Some b" "command ?d1 k = Some b" using b(1) assms(3) by (simp_all add: tick_def)
  obtain j where j: "decodeJobSnapshot (de_cron env) (jc_job_snapshot b) = Inr j" "jb_enabled j"
    "\<not> operation_blocked d j (jc_run_kind (with_kind b))"
  proof -
    have "ready_to_start (de_cron env) d b" using assms(7) b by auto
    then show ?thesis using that by (auto simp: ready_to_start_def split: sum.splits)
  qed
  let ?b = "b\<lparr>jc_wait_for_backup := False\<rparr>"
  obtain f d2 where save: "save_journal env (put_command k ?b ?d1) = (f, d2)" by fastforce
  have w2: "work d2 = work (put_command k ?b d)"
    using save_journal_frame [OF save] work_put [of ?d1 d k ?b] by (simp add: work_def tick_def)
  have start: "startNextDeferredMaintenance env [] True d =
      (case f of Some f \<Rightarrow> (Some (StoreFailure f), put_command k b d2) | None \<Rightarrow> startOperation env k j d2)"
    using assms(2,6) next_ best kb save j(1,2)
    by (simp add: startNextDeferredMaintenance_def read_now_def jobForExecution_def start_with_job_def
        decodeJobSnapshot_def split: option.split job_snapshot.splits if_splits)
  show ?thesis
  proof (cases f)
    case (Some x)
    with assms(1) start have "e = Some (StoreFailure x)" by simp
    then show ?thesis by blast
  next
    case None
    have begin_: "startOperation env k j d2 = (e, d')" using assms(1) start None by simp
    have "fs_reserve_released (dm_store d2) = fs_reserve_released (dm_store d)"
      using save None by (auto simp: save_journal_def write_store_def updateState_def tick_def put_command_def
          split: prod.splits sum.splits write_outcome.splits if_splits)
    then have room: "canAcceptWork (de_usage env (dm_tick d2)) criticalRunRecordEstimate (dm_store d2)"
      using assms(9) by (simp add: canAcceptWork_def)
    have "operation_blocked (put_command k ?b d) j kind = operation_blocked d j kind" for kind
      by (rule blocked_put [OF kb(1)]) simp_all
    then have free: "\<not> operation_blocked d2 j (jc_run_kind (with_kind ?b))"
      using j(3) blocked_work [OF w2] by (simp add: with_kind_def split: if_splits)
    have fields: "\<not> updating d2" "command d2 k = Some ?b" "jc_state ?b = ''received''" "jc_job_snapshot ?b \<noteq> NoSnapshot"
      using assms(2) w2 b(2) j(1)
      by (auto simp: work_eq put_command_def deferred_candidate_def decodeJobSnapshot_def)
    have tasks: "dm_tasks d2 = dm_tasks d" using w2 by (simp add: work_eq put_command_def)
    from start_operation_begins [OF begin_ assms(8) fields free room]
    consider f where "e = Some (StoreFailure f)" | c' where "e = None" "begun k j c' d2 d'" by blast
    then show ?thesis
    proof cases
      case 1
      then show ?thesis by blast
    next
      case 2
      then obtain j' where "dm_tasks d' = operation_task k j' c' # dm_tasks d" "command d' k = Some c'" "jc_state c' = ''running''"
        using tasks by (auto simp: begun_def)
      with 2 kb(1) b(2) least show ?thesis by blast
    qed
  qed
qed

definition deferred_daemon :: daemon where
  "deferred_daemon = sample_daemon\<lparr>dm_journal := [(stored_id, waiting_command\<lparr>jc_run_kind := ''forget'',
     jc_wait_for_backup := True, jc_max_deferral_at := ''2023-01-01T00:00:00.000000Z''\<rparr>)]\<rparr>"

lemma expired_maintenance_starts_witness:
  "\<not> (fst (startNextDeferredMaintenance sample_env [] True deferred_daemon) = None
      \<and> dm_tasks (snd (startNextDeferredMaintenance sample_env [] True deferred_daemon)) = dm_tasks deferred_daemon)"
proof -
  let ?c = "waiting_command\<lparr>jc_run_kind := ''forget'', jc_wait_for_backup := True,
     jc_max_deferral_at := ''2023-01-01T00:00:00.000000Z''\<rparr>"
  obtain e d' where r: "startNextDeferredMaintenance sample_env [] True deferred_daemon = (e, d')" by fastforce
  have parsed: "time_parse ''2023-01-01T00:00:00.000000Z'' = Some 1672531200000000000" by code_simp
  have cand: "deferred_candidate 1700000000000000000 [] True ?c"
    by (simp add: deferred_candidate_def waiting_command_def parsed)
  have ready: "ready_to_start daily_cron deferred_daemon ?c"
    using sample_job_valid
    by (simp add: ready_to_start_def waiting_command_def decodeJobSnapshot_def with_kind_def operation_blocked_def
        deferred_daemon_def sample_daemon_def capacity_reached_def activeCountsLocked_def hasPendingReplicationLocked_def
        operation_repositories_def stored_command_def sample_job_def)
  have journal: "dm_journal deferred_daemon = [(stored_id, ?c)]" by (simp add: deferred_daemon_def)
  have mem: "(stored_id, ?c) \<in> set (dm_journal deferred_daemon)" and unique: "distinct (mkeys (dm_journal deferred_daemon))"
    by (simp_all only: journal) simp_all
  have idle: "\<not> updating deferred_daemon" by (simp add: deferred_daemon_def sample_daemon_def zero_state_def)
  have now: "1700000000000000000 = de_clock sample_env (dm_tick deferred_daemon)" by (simp add: sample_env_def)
  have ready_all: "\<forall>(i, c) \<in> set (dm_journal deferred_daemon).
      deferred_candidate 1700000000000000000 [] True c \<longrightarrow> ready_to_start (de_cron sample_env) deferred_daemon c"
    using ready by (simp add: journal sample_env_def)
  have draws: "\<forall>n. de_random sample_env n \<noteq> None"
    and room: "\<forall>n. canAcceptWork (de_usage sample_env n) criticalRunRecordEstimate (dm_store deferred_daemon)"
    by (simp_all add: sample_env_def deferred_daemon_def sample_daemon_def canAcceptWork_def
        criticalRunRecordEstimate_def SpoolBytesLimit_def)
  from expired_maintenance_starts [OF r idle unique mem cand now ready_all draws room]
  have "(\<exists>f. e = Some (StoreFailure f)) \<or> (\<exists>t. dm_tasks d' = t # dm_tasks deferred_daemon)" by blast
  with r show ?thesis by auto
qed

end
