(* ===== verification/ReplicationFacts.thy ===== *)
theory ReplicationFacts
  imports DaemonFacts
begin

text \<open>
  What replication guarantees: the loop over the replicas of a job ends, a replica is taken off the list of
  pending ones only when its inventory names every snapshot, and what the synchronization of a replica
  reports when it is cut short.
\<close>

section \<open>The pending replicas\<close>

definition keyed :: "daemon \<Rightarrow> bool" where
  "keyed d = (distinct (mkeys (dm_journal d)) \<and> (\<forall>(i, c) \<in> set (dm_journal d). i = ac_id (jc_command c)))"

definition pending_count :: "daemon \<Rightarrow> nat" where
  "pending_count d = sum_list (map (\<lambda>(i, c). length (jc_replication_pending c)) (dm_journal d))"

lemma sum_mput:
  "mget m k = Some c \<Longrightarrow>
   sum_list (map (\<lambda>(i, c). f c) (mput k v m)) + f c = sum_list (map (\<lambda>(i, c). f c) m) + (f v :: nat)"
  by (induction m) (auto split: if_splits)

lemma pending_put:
  "command d cid = Some c \<Longrightarrow>
   pending_count (put_command cid c' d) + length (jc_replication_pending c) = pending_count d + length (jc_replication_pending c')"
  using sum_mput [of "dm_journal d" cid c "\<lambda>c. length (jc_replication_pending c)" c']
  by (simp add: pending_count_def put_command_def)

lemma keyed_put: "keyed d \<Longrightarrow> cid = ac_id (jc_command c) \<Longrightarrow> keyed (put_command cid c d)"
  by (auto simp: keyed_def put_command_def distinct_mput dest!: mem_mput)

lemma keyed_command: "keyed d \<Longrightarrow> command d cid = Some c \<Longrightarrow> ac_id (jc_command c) = cid"
  by (auto simp: keyed_def dest: mget_Some_in)

lemma keyed_mem: "keyed d \<Longrightarrow> (i, c) \<in> set (dm_journal d) \<Longrightarrow> command d (ac_id (jc_command c)) = Some c"
  by (auto simp: keyed_def)

lemma removeString_set [simp]: "set (removeString k xs) = set xs - {k}"
  by (auto simp: removeString_def)

lemma removeString_shorter: "k \<in> set xs \<Longrightarrow> length (removeString k xs) < length xs"
  by (auto simp: removeString_def intro: length_filter_less)

section \<open>What finishing a batch does\<close>

lemma finish_replicated_cases:
  assumes "finish_replicated env r o' st fi cid d = d'"
  shows "dm_journal d' = dm_journal d \<or> (\<exists>c c'. command d cid = Some c \<and> jc_result c \<noteq> None \<and> rp_key r \<in> set (jc_replication_pending c)
    \<and> dm_journal d' = mput cid c' (dm_journal d) \<and> jc_command c' = jc_command c \<and> jc_result c' = jc_result c
    \<and> jc_replication_pending c' = (if cy_status o' = ''complete'' then removeString (rp_key r) (jc_replication_pending c)
        else jc_replication_pending c))"
proof (cases "\<exists>c res. command d cid = Some c \<and> jc_result c = Some res \<and> rp_key r \<in> set (jc_replication_pending c)")
  case True
  then obtain c res where c: "command d cid = Some c" "jc_result c = Some res" "rp_key r \<in> set (jc_replication_pending c)" by blast
  obtain ok c1 d1 where em: "emit env (protocolTimestamp fi) ''replication_finished''
      (replication_payload r o' (cr_snapshot_ids res) st fi) c d = (ok, c1, d1)" by (metis prod.collapse)
  note g = emit_grown [OF em]
  have j1: "dm_journal d1 = dm_journal d" using g by (simp add: work_eq)
  have c1: "jc_command c1 = jc_command c" "jc_result c1 = jc_result c" "jc_replication_pending c1 = jc_replication_pending c"
    using g grown_fields by blast+
  show ?thesis
    using assms c em j1 c1
    by (auto simp: finish_replicated_def put_command_def read_now_def tick_def Let_def split: if_splits)
next
  case False
  then show ?thesis using assms by (auto simp: finish_replicated_def split: option.splits)
qed

lemma finish_replicated_keyed: "keyed d \<Longrightarrow> keyed (finish_replicated env r o' st fi cid d)"
proof -
  assume k: "keyed d"
  from finish_replicated_cases [OF refl, of env r o' st fi cid d] show ?thesis
  proof (elim disjE exE conjE)
    fix c c' assume "command d cid = Some c" "jc_command c' = jc_command c"
      "dm_journal (finish_replicated env r o' st fi cid d) = mput cid c' (dm_journal d)"
    moreover from this have "keyed (put_command cid c' d)" using k keyed_command by (intro keyed_put) auto
    ultimately show ?thesis by (simp add: keyed_def put_command_def)
  qed (use k in \<open>simp add: keyed_def\<close>)
qed

lemma finish_replicated_pending: "pending_count (finish_replicated env r o' st fi cid d) \<le> pending_count d"
  using finish_replicated_cases [OF refl, of env r o' st fi cid d]
proof (elim disjE exE conjE)
  fix c c' assume c: "command d cid = Some c" "rp_key r \<in> set (jc_replication_pending c)"
    "dm_journal (finish_replicated env r o' st fi cid d) = mput cid c' (dm_journal d)"
    "jc_replication_pending c' = (if cy_status o' = ''complete'' then removeString (rp_key r) (jc_replication_pending c)
        else jc_replication_pending c)"
  then have "length (jc_replication_pending c') \<le> length (jc_replication_pending c)"
    using removeString_shorter [of "rp_key r" "jc_replication_pending c"] by auto
  moreover have "pending_count (finish_replicated env r o' st fi cid d) = pending_count (put_command cid c' d)"
    using c(3) by (simp add: pending_count_def put_command_def)
  ultimately show ?thesis using pending_put [OF c(1), of c'] by linarith
qed (simp add: pending_count_def)

lemma finish_replicated_strict:
  assumes "command d cid = Some c" "jc_result c \<noteq> None" "rp_key r \<in> set (jc_replication_pending c)" "cy_status o' = ''complete''"
  shows "pending_count (finish_replicated env r o' st fi cid d) < pending_count d"
proof -
  obtain res where res: "jc_result c = Some res" using assms(2) by blast
  obtain ok c1 d1 where em: "emit env (protocolTimestamp fi) ''replication_finished''
      (replication_payload r o' (cr_snapshot_ids res) st fi) c d = (ok, c1, d1)" by (metis prod.collapse)
  note g = emit_grown [OF em]
  let ?c = "c1\<lparr>jc_replication_pending := removeString (rp_key r) (jc_replication_pending c1),
    jc_replication_retry_at := mdel (rp_key r) (jc_replication_retry_at c1)\<rparr>"
  have "finish_replicated env r o' st fi cid d = put_command cid ?c d1"
    using assms res em by (simp add: finish_replicated_def)
  moreover have "dm_journal d1 = dm_journal d" using g by (simp add: work_eq)
  ultimately have "pending_count (finish_replicated env r o' st fi cid d) = pending_count (put_command cid ?c d)"
    by (simp add: pending_count_def put_command_def)
  moreover have "length (jc_replication_pending ?c) < length (jc_replication_pending c)"
    using removeString_shorter [OF assms(3)] grown_fields(8) [OF conjunct1 [OF g]] by simp
  ultimately show ?thesis using pending_put [OF assms(1), of ?c] by linarith
qed

lemma fold_finish:
  "pending_count (fold (\<lambda>c. finish_replicated env r o' st fi (ac_id (jc_command c))) cs d) \<le> pending_count d"
  "keyed d \<Longrightarrow> keyed (fold (\<lambda>c. finish_replicated env r o' st fi (ac_id (jc_command c))) cs d)"
proof (induction cs arbitrary: d)
  case (Cons c cs)
  { case 1 show ?case using Cons(1) finish_replicated_pending [of env r o' st fi "ac_id (jc_command c)" d] by (auto intro: le_trans) }
  { case 2 then show ?case using Cons(2) finish_replicated_keyed by simp }
qed simp_all

section \<open>One turn of the loop\<close>

lemma first_batch_in:
  "first_batch now j rs d = Some (r, cs) \<Longrightarrow> r \<in> set rs \<and> cs = batch_of now j r d \<and> cs \<noteq> []"
  by (induction rs) (auto split: if_splits)

lemma batch_candidate_fields:
  "batch_candidate now j r c \<Longrightarrow> jc_result c \<noteq> None \<and> rp_key r \<in> set (jc_replication_pending c)"
  by (cases "jc_result c") (simp_all add: batch_candidate_def)

lemma batch_member:
  "keyed d \<Longrightarrow> c \<in> set (batch_of now j r d) \<Longrightarrow>
   command d (ac_id (jc_command c)) = Some c \<and> jc_result c \<noteq> None \<and> rp_key r \<in> set (jc_replication_pending c)"
  by (auto simp: batch_of_def keyed_mem dest: batch_candidate_fields)

lemma outcome_status: "copy_outcome_of env t cs r d = (o', d') \<Longrightarrow> cy_status o' = ''complete'' \<or> cy_status o' = ''failed''"
  by (auto simp: copy_outcome_of_def Let_def split: if_splits prod.splits)

text \<open>A turn either ends the loop without touching the journal, or finishes a batch.\<close>

lemma round_cases:
  assumes "replication_round env j d = (go_on, d')"
  obtains (idle) "\<not> go_on" "dm_journal d' = dm_journal d"
  | (turn) now t cs o' st fi d1 d2 n where "t \<in> set (jb_replicas j)" "cs = batch_of now j t d" "cs \<noteq> []"
      "copy_outcome_of env t cs (de_run env n (copy_request j t)) d1 = (o', d2)"
      "go_on = (cy_status o' \<noteq> ''failed'')" "dm_journal d2 = dm_journal d"
      "d' = finishReplicationBatch env t cs o' st fi d2"
proof -
  obtain x d1 where n: "nextReplicationBatch env j d = (x, d1)" by fastforce
  have j1: "dm_journal d1 = dm_journal d" using n by (auto simp: nextReplicationBatch_def read_now_def tick_def Let_def)
  show ?thesis
  proof (cases "x = None \<or> take_repositories (rp_id (jb_repository j)) (rp_id (fst (the x))) d1 = None")
    case True
    with assms n j1 show ?thesis by (intro idle) (auto simp: replication_round_def split: option.splits)
  next
    case False
    then obtain t cs d2 where x: "x = Some (t, cs)"
      and taken: "take_repositories (rp_id (jb_repository j)) (rp_id t) d1 = Some d2" by auto
    let ?copied = "de_run env (Suc (dm_tick d2)) (copy_request j t)"
    let ?d3 = "give_repositories (rp_id (jb_repository j)) (rp_id t) (tick (tick (tick d2)))"
    obtain o' d4 where o: "copy_outcome_of env t cs ?copied ?d3 = (o', d4)" by fastforce
    have "first_batch (de_clock env (dm_tick d)) j (jb_replicas j) (tick d) = Some (t, cs)"
      using n x by (auto simp: nextReplicationBatch_def read_now_def)
    note batch = first_batch_in [OF this]
    have same: "batch_of now j t (tick d) = batch_of now j t d" for now by (simp add: batch_of_def tick_def)
    have "dm_journal ?d3 = dm_journal d"
      using taken j1 by (auto simp: take_repositories_def give_repositories_def tick_def split: if_splits)
    then have "dm_journal d4 = dm_journal d" using copy_outcome_frame [OF o] by (simp add: work_eq)
    moreover have "go_on = (cy_status o' \<noteq> ''failed'')"
      "d' = finishReplicationBatch env t cs o' (de_clock env (dm_tick d2)) (de_clock env (Suc (Suc (dm_tick d2)))) d4"
      using assms n x taken o
      by (simp_all add: replication_round_def read_now_def run_restic_def tick_def Let_def)
    ultimately show ?thesis using turn batch o unfolding same by blast
  qed
qed

lemma save_journal_journal: "save_journal env d = (e, d') \<Longrightarrow> dm_journal d' = dm_journal d"
  by (drule save_journal_frame) (simp add: work_eq)

lemma finish_batch_journal:
  "dm_journal (finishReplicationBatch env t cs o' st fi d)
     = dm_journal (fold (\<lambda>c. finish_replicated env t o' st fi (ac_id (jc_command c))) cs d)"
  by (simp add: finishReplicationBatch_def save_journal_journal [of env _ "fst (save_journal env x)" for x, OF prod.collapse [symmetric]])

lemma keyed_journal: "dm_journal d' = dm_journal d \<Longrightarrow> keyed d' = keyed d \<and> pending_count d' = pending_count d"
  by (simp add: keyed_def pending_count_def)

lemma round_progress:
  assumes "replication_round env j d = (go_on, d')" "keyed d"
  shows "keyed d' \<and> (go_on \<longrightarrow> pending_count d' < pending_count d)"
  using assms(1)
proof (cases rule: round_cases)
  case idle
  with assms(2) show ?thesis by (simp add: keyed_def)
next
  case (turn now t cs o' st fi d1 d2 n)
  let ?fin = "\<lambda>c. finish_replicated env t o' st fi (ac_id (jc_command c))"
  have k2: "keyed d2" "pending_count d2 = pending_count d" using keyed_journal [OF turn(6)] assms(2) by simp_all
  have d': "keyed d' = keyed (fold ?fin cs d2)" "pending_count d' = pending_count (fold ?fin cs d2)"
    using keyed_journal [OF finish_batch_journal] turn(7) by simp_all
  have "keyed d'" using d'(1) fold_finish(2) [OF k2(1)] by simp
  moreover have "pending_count d' < pending_count d" if go_on
  proof -
    have complete: "cy_status o' = ''complete''" using that turn(5) outcome_status [OF turn(4)] by blast
    obtain c rest where cs: "cs = c # rest" using turn(3) by (cases cs) auto
    have "command d (ac_id (jc_command c)) = Some c \<and> jc_result c \<noteq> None \<and> rp_key t \<in> set (jc_replication_pending c)"
      using batch_member [OF assms(2), of c now j t] turn(2) cs by (metis list.set_intros(1))
    then have "pending_count (?fin c d2) < pending_count d2"
      using complete turn(6) by (intro finish_replicated_strict [of _ _ c]) simp_all
    moreover have "pending_count (fold ?fin rest (?fin c d2)) \<le> pending_count (?fin c d2)" by (rule fold_finish(1))
    ultimately show ?thesis using d'(2) cs k2(2) by simp
  qed
  ultimately show ?thesis by blast
qed

text \<open>C16: Termination. The loop over the replicas of a job ends: with more turns than there are pending replicas
  in the journal, it comes to its end, whatever restic answers.\<close>
theorem replication_terminates:
  assumes "keyed d" "pending_count d < n"
  shows "\<exists>d'. replicate_rounds n env j d = (True, d')"
  using assms
proof (induction n arbitrary: d)
  case (Suc n)
  obtain go_on d1 where r: "replication_round env j d = (go_on, d1)" by fastforce
  note p = round_progress [OF r Suc.prems(1)]
  show ?case
  proof (cases go_on)
    case True
    with p Suc have "\<exists>d'. replicate_rounds n env j d1 = (True, d')" by auto
    with r True show ?thesis by simp
  qed (use r in simp)
qed simp

lemma replication_terminates_witness: "\<exists>d'. replicate_rounds 1 sample_env sample_job sample_daemon = (True, d')"
proof (rule replication_terminates)
  show "keyed sample_daemon"
    by (simp add: keyed_def sample_daemon_def waiting_command_def stored_command_def)
  show "pending_count sample_daemon < 1"
    by (simp add: pending_count_def sample_daemon_def waiting_command_def stored_command_def)
qed

section \<open>Taken off the list only when verified\<close>

lemma finish_replicated_loses:
  assumes "command d cid = Some c" "key \<in> set (jc_replication_pending c)"
  shows "(\<exists>c'. command (finish_replicated env r o' st fi i d) cid = Some c' \<and> key \<in> set (jc_replication_pending c'))
    \<or> (rp_key r = key \<and> i = cid \<and> cy_status o' = ''complete'')"
  using finish_replicated_cases [OF refl, of env r o' st fi i d] assms
  by (cases "i = cid"; cases "rp_key r = key") (auto split: if_splits)

lemma fold_finish_loses:
  "command d cid = Some c \<Longrightarrow> key \<in> set (jc_replication_pending c) \<Longrightarrow>
   command (fold (\<lambda>c. finish_replicated env r o' st fi (ac_id (jc_command c))) cs d) cid = Some c' \<Longrightarrow>
   key \<notin> set (jc_replication_pending c') \<Longrightarrow>
   rp_key r = key \<and> cid \<in> (\<lambda>c. ac_id (jc_command c)) ` set cs \<and> cy_status o' = ''complete''"
proof (induction cs arbitrary: d c)
  case (Cons b cs)
  from finish_replicated_loses [OF Cons.prems(1,2), of env r o' st fi "ac_id (jc_command b)"] show ?case
  proof
    assume "\<exists>c'. command (finish_replicated env r o' st fi (ac_id (jc_command b)) d) cid = Some c'
        \<and> key \<in> set (jc_replication_pending c')"
    then show ?thesis using Cons.IH Cons.prems(3,4) by fastforce
  qed simp
qed simp

text \<open>Where a mapped identity comes from.\<close>

definition listed_as :: "copied_snapshot list \<Rightarrow> string \<Rightarrow> string \<Rightarrow> bool" where
  "listed_as ss s s' = (\<exists>x \<in> set ss. co_id x = s' \<and> is_digest s' \<and> (s = co_id x \<or> s = co_original x))"

lemma copied_mappings_listed: "mget (copied_mappings ss) s = Some s' \<Longrightarrow> listed_as ss s s'"
proof -
  have "mget (fold (\<lambda>s m. if \<not> is_digest (co_id s) then m
                 else (let m = mput (co_id s) (co_id s) m
                       in if is_digest (co_original s) then mput (co_original s) (co_id s) m else m)) ss m) s = Some s'
      \<Longrightarrow> mget m s = Some s' \<or> listed_as ss s s'" for m
    by (induction ss arbitrary: m) (fastforce simp: listed_as_def Let_def split: if_splits)+
  from this [of "[]"] show "mget (copied_mappings ss) s = Some s' \<Longrightarrow> listed_as ss s s'"
    by (simp add: copied_mappings_def)
qed

lemma mapped_listed: "mapped (copied_mappings ss) s \<noteq> [] \<Longrightarrow> \<exists>s'. listed_as ss s s'"
  using copied_mappings_listed by (auto simp: mapped_def split: option.splits)

lemma inventory_mapped:
  "replicaInventory env t d = ((m, bytes, diagnostic), d') \<Longrightarrow> m = [] \<or>
    (\<exists>n ss. rs_exit_code (de_run env n (inventory_request t)) = 0
      \<and> decode_copied (rs_output (de_run env n (inventory_request t))) = Some ss \<and> m = copied_mappings ss)"
  by (auto simp: replicaInventory_def run_restic_def Let_def split: if_splits option.splits prod.splits)


section \<open>A synchronization that is cut short\<close>

text \<open>The outcome of a synchronization that is cancelled. When the first copy fails and the context ends while
  the code waits to try again, the result the code builds has no exit code, so the synchronization is
  reported as complete although nothing was copied.\<close>
theorem cancelled_sync_reported_complete:
  assumes "rs_exit_code (de_run env (dm_tick d) (copy_request j target)) \<notin> {0, 12}" "de_done env (Suc (dm_tick d))"
  shows "\<exists>d1 d2 bytes diagnostic.
    sync_attempts env (copy_request j target) (0 # replicaSyncRetries) no_result d = (cancelled_copy, d1)
    \<and> sync_summary env target cancelled_copy d1
        = ((''complete'', ''success'', ''Replica synchronization completed.'', diagnostic, bytes), d2)"
proof -
  obtain d1 where "sync_attempts env (copy_request j target) (0 # replicaSyncRetries) no_result d = (cancelled_copy, d1)"
    using assms by (simp add: replicaSyncRetries_def run_restic_def tick_def)
  moreover obtain m bytes diagnostic d2 where "replicaInventory env target d1 = ((m, bytes, diagnostic), d2)"
    by (metis prod.collapse)
  ultimately show ?thesis by (simp add: sync_summary_def cancelled_copy_def)
qed

lemma cancelled_sync_reported_complete_witness:
  "\<exists>d1. sync_attempts (sample_env\<lparr>de_run := \<lambda>_ _. no_result\<lparr>rs_exit_code := 1\<rparr>, de_done := \<lambda>_. True\<rparr>)
     (copy_request sample_job sample_repository) (0 # replicaSyncRetries) no_result sample_daemon = (cancelled_copy, d1)"
  using cancelled_sync_reported_complete [of "sample_env\<lparr>de_run := \<lambda>_ _. no_result\<lparr>rs_exit_code := 1\<rparr>, de_done := \<lambda>_. True\<rparr>"
    sample_daemon sample_job sample_repository] by auto

section \<open>A concrete replication\<close>

definition copied_id :: string where
  "copied_id = sample_id (CHR ''c'')"

definition copied_output :: string where
  "copied_output = CHR ''['' # CHR ''{'' # CHR 0x22 # ''id'' @ CHR 0x22 # CHR '':'' # CHR 0x22 # copied_id @ [CHR 0x22, CHR ''}'', CHR '']'']"

lemma copied_decoded: "decode_copied copied_output = Some [\<lparr>co_id = copied_id, co_original = []\<rparr>]"
  by code_simp

text \<open>A daemon with one backup that has not reached its replica, and a restic that copies and lists it.\<close>

definition second_repository :: job_repository where
  "second_repository = sample_repository\<lparr>rp_key := ''replica'', rp_id := ''second''\<rparr>"

definition copied_job :: job where
  "copied_job = sample_job\<lparr>jb_replicas := [second_repository]\<rparr>"

definition finished_command :: journal_command where
  "finished_command =
     stored_command\<lparr>jc_state := ''finished'', jc_replication_pending := [''replica''],
       jc_result := Some (zero_result\<lparr>cr_job_id := jb_id sample_job, cr_snapshot_ids := [copied_id]\<rparr>)\<rparr>"

definition finished_daemon :: daemon where
  "finished_daemon = sample_daemon\<lparr>dm_journal := [(stored_id, finished_command)]\<rparr>"

definition copying_env :: daemon_env where
  "copying_env = sample_env\<lparr>de_run := \<lambda>_ rq. if rq_operation rq = ''copy'' then no_result
     else no_result\<lparr>rs_output := copied_output\<rparr>\<rparr>"

lemmas copying_defs = second_repository_def copied_job_def finished_command_def finished_daemon_def copying_env_def

lemma finished_kept: "keyed finished_daemon" "command finished_daemon stored_id = Some finished_command"
  by (simp_all add: keyed_def finished_daemon_def finished_command_def stored_command_def)

lemma finished_batch: "first_batch now copied_job (jb_replicas copied_job) (tick finished_daemon)
    = Some (second_repository, [finished_command])"
  by (simp add: copied_job_def finished_daemon_def batch_of_def batch_candidate_def finished_command_def second_repository_def
      tick_def stored_command_def)

lemma copied_complete:
  "\<exists>d'. copy_outcome_of copying_env second_repository [finished_command]
     (de_run copying_env n (copy_request copied_job second_repository)) d
     = (\<lparr>cy_status = ''complete'', cy_code = ''success'', cy_diagnostic = [], cy_mappings = [(copied_id, copied_id)],
         cy_bytes = measureRepositoryBytes (no_result\<lparr>rs_output := copied_output\<rparr>)\<rparr>, d')"
proof -
  have "is_digest copied_id" "copied_id \<noteq> []"
    by (simp_all add: is_digest_def copied_id_def sample_id_def hex_alphabet_def list_all_iff)
  then show ?thesis
    by (simp add: copy_outcome_of_def copy_request_def inventory_request_def zero_request_def copying_env_def no_result_def
        replicaInventory_def run_restic_def copied_decoded copied_mappings_def batch_snapshots_def finished_command_def
        mapped_def is_digest_def Let_def)
qed

lemma copied_round:
  "\<exists>d' c'. replication_round copying_env copied_job finished_daemon = (True, d')
     \<and> command d' stored_id = Some c' \<and> ''replica'' \<notin> set (jc_replication_pending c')"
proof -
  have batch: "nextReplicationBatch copying_env copied_job finished_daemon
      = (Some (second_repository, [finished_command]), tick finished_daemon)"
    using finished_batch by (simp add: nextReplicationBatch_def read_now_def)
  obtain d2 where taken: "take_repositories (rp_id (jb_repository copied_job)) (rp_id second_repository) (tick finished_daemon)
      = Some d2"
    by (simp add: take_repositories_def finished_daemon_def sample_daemon_def tick_def)
  then have j2: "dm_journal d2 = dm_journal finished_daemon"
    by (auto simp: take_repositories_def tick_def split: if_splits)
  let ?d3 = "give_repositories (rp_id (jb_repository copied_job)) (rp_id second_repository) (tick (tick (tick d2)))"
  obtain o' d4 where o: "copy_outcome_of copying_env second_repository [finished_command]
      (de_run copying_env (Suc (dm_tick d2)) (copy_request copied_job second_repository)) ?d3 = (o', d4)"
    and complete: "cy_status o' = ''complete''"
    using copied_complete by force
  obtain st fi where r: "replication_round copying_env copied_job finished_daemon
      = (True, finishReplicationBatch copying_env second_repository [finished_command] o' st fi d4)"
    using batch taken o complete by (simp add: replication_round_def read_now_def run_restic_def tick_def)
  have "dm_journal d4 = dm_journal ?d3" using copy_outcome_frame [OF o] by (simp add: work_eq)
  then have "command d4 stored_id = Some finished_command"
    using j2 finished_kept(2) by (simp add: give_repositories_def tick_def)
  then have "\<exists>c'. command (finish_replicated copying_env second_repository o' st fi stored_id d4) stored_id = Some c'
      \<and> ''replica'' \<notin> set (jc_replication_pending c')"
    using finish_replicated_cases [OF refl, of copying_env second_repository o' st fi stored_id d4] complete
      finish_replicated_strict [of d4 stored_id finished_command second_repository o' copying_env st fi]
    by (auto simp: pending_count_def finished_command_def second_repository_def)
  moreover have "ac_id (jc_command finished_command) = stored_id"
    by (simp add: finished_command_def stored_command_def)
  ultimately show ?thesis using r finish_batch_journal by simp
qed


end
