(* ===== verification/ReportingFacts.thy ===== *)
theory ReportingFacts
  imports DaemonFacts
begin

text \<open>
  What reporting guarantees: the pieces of a log that are sent, the events that are kept until they are
  answered, and what was reported of a command that is removed from the journal.
\<close>

section \<open>Frames\<close>

lemma save_journal_commands:
  "save_journal env d = (f, d') \<Longrightarrow>
   command d' = command d \<and> dm_state d' = dm_state d \<and> dm_bootstrap d' = dm_bootstrap d"
  using save_journal_frame [of env d f d']
  by (auto simp: work_eq save_journal_def write_store_def tick_def split: prod.splits)

lemma update_command_effect:
  "update_command cid f env d = (e, d') \<Longrightarrow> command d cid = Some c \<Longrightarrow>
   command d' cid = Some (f c) \<and> dm_state d' = dm_state d \<and> dm_bootstrap d' = dm_bootstrap d"
  by (auto simp: update_command_def put_command_def dest!: save_journal_commands)

section \<open>The pieces of a log\<close>

definition piece :: "string \<Rightarrow> nat \<Rightarrow> string" where
  "piece log i = take maximumLogChunk (drop (i * maximumLogChunk) log)"

definition piece_report :: "journal_command \<Rightarrow> string \<Rightarrow> nat \<Rightarrow> report" where
  "piece_report c log i = ChunkReport (jc_run_id c) (jc_log_id c) i (i * maximumLogChunk) (piece log i)"

lemma chunk_size [simp]: "0 < maximumLogChunk"
  by (simp add: maximumLogChunk_def)

lemma pieces_concat: "n \<le> k \<Longrightarrow> concat (map (piece log) [n..<k]) = take ((k - n) * maximumLogChunk) (drop (n * maximumLogChunk) log)"
proof (induction k)
  case (Suc k)
  show ?case
  proof (cases "n \<le> k")
    case True
    then have "(Suc k - n) * maximumLogChunk = (k - n) * maximumLogChunk + maximumLogChunk"
      "(k - n) * maximumLogChunk + n * maximumLogChunk = k * maximumLogChunk"
      by (simp_all add: Suc_diff_le flip: add_mult_distrib)
    with True Suc.IH show ?thesis by (simp add: piece_def take_add)
  next
    case False
    with Suc.prems have "n = Suc k" by simp
    then show ?thesis by simp
  qed
qed simp

lemma upload_exact:
  assumes "upload_chunks env cid (jc_run_id c) (jc_log_id c) n (chunks maximumLogChunk (drop (n * maximumLogChunk) log)) d
      = (e, sent, d')"
    and "command d cid = Some b" "jc_next_log_chunk b = n"
  shows "\<exists>k. n \<le> k \<and> sent = map (piece_report c log) [n..<k] \<and> command d' cid = Some (b\<lparr>jc_next_log_chunk := k\<rparr>)
    \<and> dm_state d' = dm_state d \<and> dm_bootstrap d' = dm_bootstrap d \<and> (e = None \<longrightarrow> length log \<le> k * maximumLogChunk)"
  using assms
proof (induction "chunks maximumLogChunk (drop (n * maximumLogChunk) log)" arbitrary: n d b sent)
  case Nil
  then have "drop (n * maximumLogChunk) log = []"
    by (cases "drop (n * maximumLogChunk) log = []") (simp_all add: chunks_step)
  with Nil show ?case by (intro exI [of _ n]) simp
next
  case (Cons x xs)
  have "drop (n * maximumLogChunk) log \<noteq> []" using Cons.hyps(2) by (cases "drop (n * maximumLogChunk) log") auto
  then have x: "x = piece log n" and xs: "xs = chunks maximumLogChunk (drop (Suc n * maximumLogChunk) log)"
    using Cons.hyps(2) by (simp_all add: chunks_step piece_def add.commute)
  note run = Cons.prems(1) [folded Cons.hyps(2)]
  show ?case
  proof (cases "de_request env (dm_tick d)")
    case (Some f)
    with run Cons.prems(2,3) show ?thesis by (intro exI [of _ n]) (auto simp: tick_def)
  next
    case None
    obtain f d1 where u: "update_command cid (\<lambda>c. c\<lparr>jc_next_log_chunk := n + 1\<rparr>) env (tick d) = (f, d1)" by fastforce
    have c1: "command d1 cid = Some (b\<lparr>jc_next_log_chunk := Suc n\<rparr>)" "dm_state d1 = dm_state d"
      and b1: "dm_bootstrap d1 = dm_bootstrap d"
      using update_command_effect [OF u] Cons.prems(2) by (simp_all add: tick_def)
    show ?thesis
    proof (cases f)
      case (Some g)
      with run None u c1 b1 show ?thesis by (intro exI [of _ "Suc n"]) (auto simp: piece_report_def x)
    next
      case f: None
      obtain sents where r: "upload_chunks env cid (jc_run_id c) (jc_log_id c) (Suc n) xs d1 = (e, sents, d')"
        and sent: "sent = piece_report c log n # sents"
        using run None u f by (auto simp: piece_report_def x split: prod.splits)
      from Cons.hyps(1) [OF xs r [unfolded xs] c1(1)] obtain k where "Suc n \<le> k"
        "sents = map (piece_report c log) [Suc n..<k]" "command d' cid = Some (b\<lparr>jc_next_log_chunk := k\<rparr>)"
        "dm_state d' = dm_state d1" "dm_bootstrap d' = dm_bootstrap d1" "e = None \<longrightarrow> length log \<le> k * maximumLogChunk"
        by auto
      with sent c1 b1 show ?thesis by (intro exI [of _ k]) (simp add: upt_conv_Cons)
    qed
  qed
qed


lemma complete_exact:
  assumes "complete_log env cid rid lid d = (e, sent, d')" "command d cid = Some c"
  shows "dm_state d' = dm_state d \<and>
    ((e \<noteq> None \<and> sent = [] \<and> command d' cid = Some c)
     \<or> (sent = [LogReport rid lid (completion_of (bs_generation (dm_bootstrap d)) c)]
         \<and> command d' cid = Some (c\<lparr>jc_log_completed := True\<rparr>)))"
proof (cases "de_request env (dm_tick d)")
  case None
  with assms show ?thesis by (auto simp: complete_log_def tick_def split: prod.splits dest!: update_command_effect)
next
  case (Some f)
  with assms have "e = Some f" "sent = []" "d' = tick d" by (simp_all add: complete_log_def)
  with assms(2) show ?thesis by (simp add: tick_def)
qed

text \<open>The handler reads the log of the command it has; the events of the command may have been sent since.\<close>

lemma flush_log_exact:
  assumes "flush_log env cid c d = (e, sent, d')" "command d cid = Some (c\<lparr>jc_events := es\<rparr>)"
    and "jc_log_id c \<noteq> []" "\<not> jc_log_completed c"
    and "ReadChecksummedRunLog (jc_log_id c) (jc_log_sha256 c) (dm_store d) = Inr log"
  obtains k where "jc_next_log_chunk c \<le> k" "dm_state d' = dm_state d"
    "e \<noteq> None" "command d' cid = Some (c\<lparr>jc_events := es, jc_next_log_chunk := k\<rparr>)"
    "sent = map (piece_report c log) [jc_next_log_chunk c..<k]"
  | k where "jc_next_log_chunk c \<le> k" "dm_state d' = dm_state d" "length log \<le> k * maximumLogChunk"
    "command d' cid = Some (c\<lparr>jc_events := es, jc_next_log_chunk := k, jc_log_completed := True\<rparr>)"
    "sent = map (piece_report c log) [jc_next_log_chunk c..<k]
       @ [LogReport (jc_run_id c) (jc_log_id c)
            (completion_of (bs_generation (dm_bootstrap d)) (c\<lparr>jc_next_log_chunk := k\<rparr>))]"
proof -
  let ?n = "jc_next_log_chunk c"
  obtain f s1 d1 where up: "upload_chunks env cid (jc_run_id c) (jc_log_id c) ?n
      (chunks maximumLogChunk (drop (?n * maximumLogChunk) log)) d = (f, s1, d1)" by (metis prod.collapse)
  from upload_exact [OF up assms(2)] obtain k where k: "?n \<le> k" "s1 = map (piece_report c log) [?n..<k]"
    "command d1 cid = Some (c\<lparr>jc_events := es, jc_next_log_chunk := k\<rparr>)" "dm_state d1 = dm_state d"
    "dm_bootstrap d1 = dm_bootstrap d" "f = None \<longrightarrow> length log \<le> k * maximumLogChunk" by auto
  show ?thesis
  proof (cases f)
    case (Some g)
    with assms up have "e = Some g" "sent = s1" "d' = d1" by (simp_all add: flush_log_def)
    with k show ?thesis by (intro that(1) [of k]) simp_all
  next
    case None
    obtain g s2 d2 where done_: "complete_log env cid (jc_run_id c) (jc_log_id c) d1 = (g, s2, d2)" by (metis prod.collapse)
    have r: "e = g" "sent = s1 @ s2" "d' = d2" using assms up None done_ by (simp_all add: flush_log_def)
    have same: "completion_of n (c\<lparr>jc_events := es, jc_next_log_chunk := k\<rparr>) = completion_of n (c\<lparr>jc_next_log_chunk := k\<rparr>)" for n
      by (simp add: completion_of_def)
    from complete_exact [OF done_ k(3)] show ?thesis
    proof (elim conjE disjE)
      assume "g \<noteq> None" "s2 = []" "command d2 cid = Some (c\<lparr>jc_events := es, jc_next_log_chunk := k\<rparr>)" "dm_state d2 = dm_state d1"
      with r k show ?thesis by (intro that(1) [of k]) simp_all
    next
      assume "s2 = [LogReport (jc_run_id c) (jc_log_id c)
          (completion_of (bs_generation (dm_bootstrap d1)) (c\<lparr>jc_events := es, jc_next_log_chunk := k\<rparr>))]"
        "command d2 cid = Some (c\<lparr>jc_events := es, jc_next_log_chunk := k, jc_log_completed := True\<rparr>)" "dm_state d2 = dm_state d1"
      with r k None same show ?thesis by (intro that(2) [of k]) simp_all
    qed
  qed
qed

text \<open>The upload of a log. Whatever fails, the pieces that were answered are the next ones of the log, in
  order, each with its offset and the text the log has there, and the command remembers how many were
  sent; the completion is sent only after the whole log, and counts the pieces.\<close>
theorem log_upload_exact:
  assumes "flush_log env cid c d = (e, sent, d')" "command d cid = Some (c\<lparr>jc_events := es\<rparr>)"
    and "jc_log_id c \<noteq> []" "\<not> jc_log_completed c"
    and "ReadChecksummedRunLog (jc_log_id c) (jc_log_sha256 c) (dm_store d) = Inr log"
  shows "\<exists>k c'. jc_next_log_chunk c \<le> k \<and> command d' cid = Some c' \<and> jc_next_log_chunk c' = k
    \<and> ((e \<noteq> None \<and> \<not> jc_log_completed c' \<and> sent = map (piece_report c log) [jc_next_log_chunk c..<k])
       \<or> (jc_log_completed c'
          \<and> concat (map (piece log) [jc_next_log_chunk c..<k]) = drop (jc_next_log_chunk c * maximumLogChunk) log
          \<and> sent = map (piece_report c log) [jc_next_log_chunk c..<k]
              @ [LogReport (jc_run_id c) (jc_log_id c)
                   (completion_of (bs_generation (dm_bootstrap d)) (c\<lparr>jc_next_log_chunk := k\<rparr>))]))"
  using assms
proof (cases rule: flush_log_exact)
  case (1 k)
  then show ?thesis using assms(4) by (intro exI [of _ k]) auto
next
  case (2 k)
  have "length (drop (jc_next_log_chunk c * maximumLogChunk) log) \<le> (k - jc_next_log_chunk c) * maximumLogChunk"
    using 2(3) by (simp add: diff_mult_distrib)
  then have "concat (map (piece log) [jc_next_log_chunk c..<k]) = drop (jc_next_log_chunk c * maximumLogChunk) log"
    using pieces_concat [OF 2(1), of log] by simp
  with 2 show ?thesis by (intro exI [of _ k]) auto
qed

section \<open>Events\<close>

text \<open>The control plane took the event: it answered a batch, and accepted or knew the event.\<close>

definition answered :: "daemon_env \<Rightarrow> agent_event \<Rightarrow> bool" where
  "answered env ev = (\<exists>n batch items item. de_events env n batch = Inr items \<and> (item, ev) \<in> set (zip items batch)
     \<and> er_id item = ev_id ev \<and> er_status item \<in> {''accepted'', ''duplicate''})"

lemma submitted:
  assumes "SubmitEvents env batch d = (Inr items, d')" "(item, ev) \<in> set (zip items batch)" "er_status item \<noteq> ''rejected''"
  shows "answered env ev"
proof -
  have "de_events env (dm_tick d) batch = Inr items"
    and "list_all2 (\<lambda>item e. er_id item = ev_id e \<and> er_status item \<in> set statuses) items batch"
    using assms(1) by (auto simp: SubmitEvents_def split: sum.splits if_splits)
  moreover from this(2) assms(2) have "er_id item = ev_id ev \<and> er_status item \<in> set statuses"
    by (auto simp: list_all2_iff)
  ultimately show ?thesis using assms(2,3) unfolding answered_def by (auto simp: statuses_def)
qed

definition accounted :: "daemon_env \<Rightarrow> agent_event \<Rightarrow> daemon \<Rightarrow> bool" where
  "accounted env ev d =
     (answered env ev \<or> (ev_kind ev \<notin> set critical_kinds \<and> st_spool_gap_detected (dm_state d)))"

lemma save_state_commands: "save_state env d = (f, d') \<Longrightarrow> command d' = command d \<and> dm_state d' = dm_state d"
  by (frule save_state_frame) (auto simp: work_eq save_state_def write_store_def tick_def split: prod.splits)

lemma discarded_event:
  assumes "ev \<in> set (rejected_events items batch)" "ev \<notin> set (retained_events items batch)"
  shows "ev_kind ev \<notin> set critical_kinds \<and> length (retained_events items batch) < length (rejected_events items batch)"
  using assms length_filter_less [of ev "rejected_events items batch" "\<lambda>e. ev_kind e \<in> set critical_kinds"]
  by (auto simp: retained_events_def)

lemma store_answers_effect:
  assumes "store_answers env cid batch items d = (f, d')" "command d cid = Some c"
  shows "command d' cid = Some (c\<lparr>jc_events := retained_events items batch @ drop (length batch) (jc_events c)\<rparr>)
    \<and> (length (retained_events items batch) < length (rejected_events items batch) \<longrightarrow> st_spool_gap_detected (dm_state d'))"
proof -
  let ?gap = "length (retained_events items batch) < length (rejected_events items batch)"
  let ?c = "c\<lparr>jc_events := retained_events items batch @ drop (length batch) (jc_events c)\<rparr>"
  let ?d = "if ?gap then markSpoolGapLocked (put_command cid ?c d) else put_command cid ?c d"
  obtain f1 d1 where s1: "save_journal env ?d = (f1, d1)" by fastforce
  obtain f2 d2 where s2: "save_state env d1 = (f2, d2)" by fastforce
  have d: "command ?d cid = Some ?c" "?gap \<longrightarrow> st_spool_gap_detected (dm_state ?d)"
    by (simp_all add: markSpoolGapLocked_def put_command_def)
  have "d' = d1 \<or> d' = d2" using assms s1 s2 by (auto simp: store_answers_def Let_def split: option.splits if_splits)
  then show ?thesis using save_journal_commands [OF s1] save_state_commands [OF s2] d by auto
qed

lemma flush_events_effect:
  assumes "flush_events env cid (jc_events c) d = (x, sent, d')" "command d cid = Some c"
  shows "\<exists>es. command d' cid = Some (c\<lparr>jc_events := es\<rparr>) \<and> (\<forall>ev \<in> set (jc_events c). ev \<in> set es \<or> accounted env ev d')"
proof (cases "jc_events c = []")
  case True
  with assms show ?thesis by (intro exI [of _ "[]"]) (auto simp: flush_events_def)
next
  case False
  let ?batch = "take maximumEventBatch (jc_events c)"
  obtain y d1 where sub: "SubmitEvents env ?batch d = (y, d1)" by fastforce
  have d1: "command d1 cid = Some c" using sub assms(2) by (auto simp: SubmitEvents_def tick_def split: sum.splits)
  show ?thesis
  proof (cases y)
    case (Inl e)
    with assms(1) False sub d1 show ?thesis by (intro exI [of _ "jc_events c"]) (simp add: flush_events_def)
  next
    case (Inr items)
    obtain f d2 where st: "store_answers env cid ?batch items d1 = (f, d2)" by fastforce
    note effect = store_answers_effect [OF st d1]
    have d': "d' = d2" using assms(1) False sub Inr st by (auto simp: flush_events_def Let_def split: option.splits)
    have len: "length items = length ?batch" using sub Inr by (auto simp: SubmitEvents_def split: sum.splits if_splits)
    have "ev \<in> set (retained_events items ?batch) \<or> accounted env ev d2" if "ev \<in> set ?batch" for ev
    proof -
      from that len have "ev \<in> set (map snd (zip items ?batch))" by simp
      then obtain item where item: "(item, ev) \<in> set (zip items ?batch)" by auto
      show ?thesis
      proof (cases "er_status item = ''rejected''")
        case True
        with item have "ev \<in> set (rejected_events items ?batch)" by (force simp: rejected_events_def)
        with discarded_event [of ev items ?batch] effect show ?thesis by (auto simp: accounted_def)
      next
        case False
        with submitted [OF sub [unfolded Inr] item] show ?thesis by (simp add: accounted_def)
      qed
    qed
    moreover have "set (jc_events c) = set ?batch \<union> set (drop (length ?batch) (jc_events c))"
      by (metis append_take_drop_id set_append take_length_take)
    ultimately have "\<forall>ev \<in> set (jc_events c).
        ev \<in> set (retained_events items ?batch @ drop (length ?batch) (jc_events c)) \<or> accounted env ev d2"
      unfolding set_append by blast
    with effect d' show ?thesis by blast
  qed
qed


section \<open>A command and what was reported of it\<close>

definition final_report :: "string \<Rightarrow> journal_command \<Rightarrow> report \<Rightarrow> bool" where
  "final_report cid c r =
     (case (jc_update_result c, jc_result c) of
        (Some u, _) \<Rightarrow> r = UpdateReport cid u
      | (None, Some x) \<Rightarrow> (\<exists>y. r = ResultReport cid y \<and> cr_run_id y = cr_run_id x \<and> cr_status y = cr_status x)
      | (None, None) \<Rightarrow> False)"

text \<open>The command \<open>b\<close> became of \<open>c\<close> while the requests \<open>sent\<close> were answered.\<close>

definition told :: "string \<Rightarrow> journal_command \<Rightarrow> report list \<Rightarrow> journal_command \<Rightarrow> bool" where
  "told cid c sent b =
     (jc_replication_pending b = jc_replication_pending c \<and> jc_log_id b = jc_log_id c
      \<and> (jc_log_completed b \<longrightarrow> jc_log_completed c \<or> (\<exists>l. LogReport (jc_run_id c) (jc_log_id c) l \<in> set sent))
      \<and> (jc_result_reported b \<longrightarrow> jc_result_reported c \<or> (\<exists>r \<in> set sent. final_report cid c r)))"

lemma told_append: "told cid c s b \<Longrightarrow> told cid c (s @ t) b"
  by (auto simp: told_def)

lemma flush_log_told:
  assumes "flush_log env cid c d = (e, sent, d')" "command d cid = Some (c\<lparr>jc_events := es\<rparr>)"
  shows "dm_state d' = dm_state d \<and> (\<exists>b. command d' cid = Some b \<and> jc_events b = es \<and> told cid c sent b)"
proof (cases "jc_log_id c = [] \<or> jc_log_completed c \<or> (\<exists>f. ReadChecksummedRunLog (jc_log_id c) (jc_log_sha256 c) (dm_store d) = Inl f)")
  case True
  with assms(1) have "d' = d"
    by (cases "jc_log_id c = [] \<or> jc_log_completed c") (auto simp: flush_log_def)
  with assms(2) show ?thesis by (simp add: told_def)
next
  case False
  then obtain log where log: "ReadChecksummedRunLog (jc_log_id c) (jc_log_sha256 c) (dm_store d) = Inr log" by (metis sum.exhaust)
  have open_: "jc_log_id c \<noteq> []" "\<not> jc_log_completed c" using False by auto
  show ?thesis
  proof (rule flush_log_exact [OF assms open_ log], goal_cases)
    case (1 k)
    then show ?thesis by (simp add: told_def)
  next
    case (2 k)
    then show ?thesis by (auto simp: told_def)
  qed
qed

lemma submit_effect:
  assumes "submit env cid r d = (e, sent, d')" "command d cid = Some b"
  shows "dm_state d' = dm_state d
    \<and> (command d' cid = Some b \<or> (command d' cid = Some (b\<lparr>jc_result_reported := True\<rparr>) \<and> sent = [r]))"
proof (cases "de_request env (dm_tick d)")
  case None
  with assms show ?thesis by (auto simp: submit_def tick_def split: prod.splits dest!: update_command_effect)
next
  case (Some f)
  with assms have "d' = tick d" by (simp add: submit_def)
  with assms(2) show ?thesis by (simp add: tick_def)
qed

lemma flush_result_told:
  assumes "flush_result env cid c d = (e, sent, d')" "command d cid = Some b" "told cid c before b"
  shows "dm_state d' = dm_state d \<and> (\<exists>b'. command d' cid = Some b' \<and> jc_events b' = jc_events b \<and> told cid c (before @ sent) b')"
proof (cases "d' = d")
  case True
  then show ?thesis using assms(2) told_append [OF assms(3)] by simp
next
  case False
  with assms(1) obtain r where r: "submit env cid r d = (e, sent, d')" "final_report cid c r"
    by (auto simp: flush_result_def final_report_def reported_inspection_def reported_result_def
        split: if_splits option.splits)
  from submit_effect [OF r(1) assms(2)] show ?thesis
  proof (elim conjE disjE)
    assume "dm_state d' = dm_state d" "command d' cid = Some b"
    then show ?thesis using told_append [OF assms(3)] by simp
  next
    assume "dm_state d' = dm_state d" "command d' cid = Some (b\<lparr>jc_result_reported := True\<rparr>)" "sent = [r]"
    then show ?thesis using assms(3) r(2) by (auto simp: told_def)
  qed
qed

lemma remove_log_state: "remove_log env lid d = (e, d') \<Longrightarrow> dm_state d' = dm_state d \<and> command d' = command d"
  by (auto simp: remove_log_def Let_def tick_def split: if_splits prod.splits option.splits)

lemma flush_removal_effect:
  assumes "flush_removal env cid lid d = (e, d')" "command d cid = Some b"
  shows "dm_state d' = dm_state d \<and> (command d' cid = Some b \<or> fully_reported b)"
proof (cases "fully_reported b")
  case True
  obtain f d1 where s: "save_journal env (drop_command cid d) = (f, d1)" by fastforce
  obtain g d2 where r: "remove_log env lid d1 = (g, d2)" by fastforce
  have "d' = d1 \<or> d' = d2" using assms s r True by (auto simp: flush_removal_def split: option.splits)
  then show ?thesis using save_journal_commands [OF s] remove_log_state [OF r] True by (auto simp: drop_command_def)
next
  case False
  with assms show ?thesis by (simp add: flush_removal_def)
qed

lemma flush_command_effect:
  assumes "flushCommand env cid d = (e, sent, d')" "command d cid = Some c"
  shows "(\<exists>b. command d' cid = Some b \<and> (\<forall>ev \<in> set (jc_events c). ev \<in> set (jc_events b) \<or> accounted env ev d'))
    \<or> (jc_acknowledged c \<and> (\<exists>b. told cid c sent b \<and> fully_reported b) \<and> (\<forall>ev \<in> set (jc_events c). accounted env ev d'))"
proof (cases "jc_acknowledged c")
  case False
  with assms show ?thesis by (simp add: flushCommand_def)
next
  case True
  obtain x s1 d1 where ev: "flush_events env cid (jc_events c) d = (x, s1, d1)" by (metis prod.collapse)
  from flush_events_effect [OF ev assms(2)] obtain es where
    es: "command d1 cid = Some (c\<lparr>jc_events := es\<rparr>)" "\<forall>ev \<in> set (jc_events c). ev \<in> set es \<or> accounted env ev d1" by blast
  have acc: "accounted env ev d2 = accounted env ev d1" if "dm_state d2 = dm_state d1" for ev d2
    using that by (simp add: accounted_def)
  show ?thesis
  proof (cases x)
    case (Inl f)
    with assms True ev have "d' = d1" by (simp add: flushCommand_def)
    with es show ?thesis by (intro disjI1 exI [of _ "c\<lparr>jc_events := es\<rparr>"]) simp
  next
    case (Inr u)
    obtain f2 s2 d2 where lg: "flush_log env cid c d1 = (f2, s2, d2)" by (metis prod.collapse)
    from flush_log_told [OF lg es(1)] obtain b where
      b: "command d2 cid = Some b" "jc_events b = es" "told cid c s2 b" "dm_state d2 = dm_state d1" by blast
    show ?thesis
    proof (cases f2)
      case (Some g)
      with assms True ev Inr lg have "d' = d2" by (simp add: flushCommand_def)
      with es(2) b acc [OF b(4)] show ?thesis by (intro disjI1 exI [of _ b]) simp
    next
      case None
      obtain f3 s3 d3 where rs: "flush_result env cid c d2 = (f3, s3, d3)" by (metis prod.collapse)
      from flush_result_told [OF rs b(1,3)] obtain b' where
        b': "command d3 cid = Some b'" "jc_events b' = es" "told cid c (s2 @ s3) b'" "dm_state d3 = dm_state d1"
        unfolding b(2,4) by blast
      show ?thesis
      proof (cases f3)
        case (Some g)
        with assms True ev Inr lg None rs have "d' = d3" by (simp add: flushCommand_def)
        with es(2) b' acc [OF b'(4)] show ?thesis by (intro disjI1 exI [of _ b']) simp
      next
        case f3: None
        obtain f4 d4 where rm: "flush_removal env cid (jc_log_id c) d3 = (f4, d4)" by fastforce
        have r: "d' = d4" "sent = s1 @ s2 @ s3"
          using assms True ev Inr lg None rs f3 rm by (simp_all add: flushCommand_def)
        have "told cid c sent b'" using b'(3) r(2) by (auto simp: told_def)
        moreover from flush_removal_effect [OF rm b'(1)]
        have "dm_state d4 = dm_state d1" "command d4 cid = Some b' \<or> fully_reported b'" using b'(4) by auto
        moreover have "fully_reported b' \<Longrightarrow> es = []" using b'(2) by (simp add: fully_reported_def)
        ultimately show ?thesis
        proof (elim disjE)
          assume kept: "command d4 cid = Some b'" "dm_state d4 = dm_state d1"
          with es(2) b'(2) r(1) acc [OF kept(2)] show ?thesis by (intro disjI1 exI [of _ b']) simp
        next
          assume full: "fully_reported b'" "dm_state d4 = dm_state d1" "told cid c sent b'" "fully_reported b' \<Longrightarrow> es = []"
          then have "\<forall>ev \<in> set (jc_events c). accounted env ev d'" using es(2) r(1) acc [OF full(2)] by simp
          with full True show ?thesis by blast
        qed
      qed
    qed
  qed
qed

text \<open>C13: Safety. No event is lost silently. After the report of a command, whatever failed in it, each of its
  events is still in the journal, or was taken by the control plane, or was refused, is of a kind that can
  be dropped, and the gap in the history is noted for the control plane.\<close>
theorem no_event_lost:
  assumes "flushCommand env cid d = (e, sent, d')" "command d cid = Some c" "ev \<in> set (jc_events c)"
  shows "(\<exists>b. command d' cid = Some b \<and> ev \<in> set (jc_events b)) \<or> answered env ev
    \<or> (ev_kind ev \<notin> set critical_kinds \<and> st_spool_gap_detected (dm_state d'))"
  using flush_command_effect [OF assms(1,2)] assms(3) by (auto simp: accounted_def)

text \<open>C14: Safety. A command leaves the journal only when it was acknowledged, no replica waits for it, its log is
  complete at the control plane and its result is reported there, each of these before or by a request of
  this report that was answered.\<close>
theorem removed_when_reported:
  assumes "flushCommand env cid d = (e, sent, d')" "command d cid = Some c" "command d' cid = None"
  shows "jc_acknowledged c \<and> jc_replication_pending c = []
    \<and> (jc_log_id c = [] \<or> jc_log_completed c \<or> (\<exists>l. LogReport (jc_run_id c) (jc_log_id c) l \<in> set sent))
    \<and> (jc_result_reported c \<or> (\<exists>r \<in> set sent. final_report cid c r))"
  using flush_command_effect [OF assms(1,2)] assms(3) by (auto simp: told_def fully_reported_def)


section \<open>Concrete reports\<close>

text \<open>A command whose backup ended: it has events and a log to report.\<close>

definition logged_command :: journal_command where
  "logged_command = stored_command\<lparr>jc_state := ''finished'', jc_log_id := stored_id, jc_log_sha256 := sha256_hex ''log''\<rparr>"

definition logged_daemon :: daemon where
  "logged_daemon = sample_daemon\<lparr>dm_journal := [(stored_id, logged_command)],
     dm_store := \<lparr>fs_db = empty_db, fs_reserve_released = False, fs_logs = [(stored_id, ''log'')]\<rparr>\<rparr>"

lemma logged_fields:
  "command logged_daemon stored_id = Some logged_command" "jc_log_id logged_command = stored_id" "stored_id \<noteq> []"
  "\<not> jc_log_completed logged_command" "jc_next_log_chunk logged_command = 0" "jc_events logged_command = [stored_event 1, stored_event 2]"
  "jc_events logged_command = es \<Longrightarrow> logged_command\<lparr>jc_events := es\<rparr> = logged_command"
  by (auto simp: logged_daemon_def logged_command_def stored_command_def stored_id_def)

lemma logged_log: "ReadChecksummedRunLog (jc_log_id logged_command) (jc_log_sha256 logged_command) (dm_store logged_daemon) = Inr ''log''"
  using sha256_hex_digest [of "''log''"]
  by (simp add: ReadChecksummedRunLog_def ReadRunLog_def logged_command_def logged_daemon_def maximumRunLog_def
      is_ulid_def stored_id_def ulid_alphabet_def list_all_iff)

lemma log_upload_exact_witness:
  "\<exists>e sent d' k c'. flush_log sample_env stored_id logged_command logged_daemon = (e, sent, d')
    \<and> command d' stored_id = Some c' \<and> jc_next_log_chunk c' = k"
proof -
  obtain e sent d' where r: "flush_log sample_env stored_id logged_command logged_daemon = (e, sent, d')" by (metis prod.collapse)
  have "command logged_daemon stored_id = Some (logged_command\<lparr>jc_events := jc_events logged_command\<rparr>)"
    using logged_fields(1) by simp
  from log_upload_exact [OF r this _ logged_fields(4) logged_log] logged_fields(2,3) r show ?thesis by metis
qed

lemma no_event_lost_witness:
  "\<exists>e sent d'. flushCommand sample_env stored_id logged_daemon = (e, sent, d')
    \<and> ((\<exists>b. command d' stored_id = Some b \<and> stored_event 1 \<in> set (jc_events b)) \<or> answered sample_env (stored_event 1)
       \<or> (ev_kind (stored_event 1) \<notin> set critical_kinds \<and> st_spool_gap_detected (dm_state d')))"
proof -
  obtain e sent d' where r: "flushCommand sample_env stored_id logged_daemon = (e, sent, d')" by (metis prod.collapse)
  have "stored_event 1 \<in> set (jc_events logged_command)" by (simp add: logged_fields(6))
  from no_event_lost [OF r logged_fields(1) this] r show ?thesis by blast
qed

lemma removed_when_reported_witness:
  "\<exists>e sent d'. flushCommand sample_env stored_id (put_command stored_id (stored_command\<lparr>jc_events := [], jc_result_reported := True\<rparr>) sample_daemon)
      = (e, sent, d') \<and> command d' stored_id = None \<and> jc_acknowledged stored_command"
proof -
  let ?c = "stored_command\<lparr>jc_events := [], jc_result_reported := True\<rparr>"
  let ?d = "put_command stored_id ?c sample_daemon"
  obtain e sent d' where r: "flushCommand sample_env stored_id ?d = (e, sent, d')" by (metis prod.collapse)
  have c: "command ?d stored_id = Some ?c" by (simp add: put_command_def)
  obtain f d1 where s: "save_journal sample_env (drop_command stored_id ?d) = (f, d1)" by fastforce
  obtain g d2 where m: "remove_log sample_env [] d1 = (g, d2)" by fastforce
  have "command d1 stored_id = None"
    using save_journal_commands [OF s] by (simp add: drop_command_def put_command_def sample_daemon_def)
  moreover have "d' = d1 \<or> d' = d2" using r s m
    by (auto simp: flushCommand_def c stored_command_def flush_events_def flush_log_def flush_result_def
        flush_removal_def fully_reported_def split: option.splits)
  ultimately have gone: "command d' stored_id = None" using remove_log_state [OF m] by auto
  from removed_when_reported [OF r c gone] have "jc_acknowledged stored_command" by simp
  with r gone show ?thesis by blast
qed

end
