(* ===== verification/Sessions.thy ===== *)
theory Sessions
  imports AgentTypes RepositoryFacts
begin

text \<open>
  How a repository is prepared for restic (repository/session.go): natively, for local paths and S3, or
  through rclone with a section of its configuration file. The guarded proxy, the bundled rclone
  executable, its \<open>obscure\<close> command and the write of the configuration file answer from outside.
\<close>

section \<open>Bindings\<close>

datatype strategy = PreferNative | RequireRclone

record binding =
  bd_name :: string
  bd_connection :: connection
  bd_strategy :: strategy
  bd_trust_on_first_use :: bool

record prepared_repository =
  pr_repository :: string
  pr_options :: "string list"

datatype session_error =
    SessionInvalid | BindingNameInvalid | BindingNameDuplicate | TrustWithKeys | BindingInvalid repo_error
  | TransportFailed | RcloneMissing | NoNativeBackend | NoExecutable | AuthenticationUnprepared
  | DriverUnsupported | ConfigurationUnwritten

definition new_line :: char where
  "new_line = CHR 0x0A"

definition validRemoteName :: "string \<Rightarrow> bool" where
  "validRemoteName value = (value \<noteq> [] \<and> \<not> contains_any value (''[]'' @ line_breaks))"

definition supportsNative :: "connection \<Rightarrow> bool" where
  "supportsNative c = (case c of LocalConnection p \<Rightarrow> True | S3Connection v \<Rightarrow> True | _ \<Rightarrow> False)"

definition validateBinding :: "repo_lib \<Rightarrow> binding \<Rightarrow> bool \<Rightarrow> session_error option" where
  "validateBinding lib b allow =
     (if bd_trust_on_first_use b then
        (case bd_connection b of
           SFTPConnection v \<Rightarrow>
             if fc_host_keys v \<noteq> [] \<or> bd_strategy b \<noteq> RequireRclone then Some TrustWithKeys
             else if is_inl (canonicalTarget lib (fc_host v) (fc_port v)) \<or> \<not> lineSafe (fc_username v) 255
                     \<or> \<not> validSFTPPath (fc_path v) \<or> validate_authentication lib (fc_authentication v) \<noteq> None
             then Some (BindingInvalid SFTPInvalid) else None
         | _ \<Rightarrow> Some TrustWithKeys)
      else map_option BindingInvalid (connection_validate lib allow (bd_connection b)))"

section \<open>Native repositories\<close>

text \<open>\<open>url.URL\<close> escapes the bytes of a path that are not unreserved and not among these.\<close>

definition path_byte :: "char \<Rightarrow> bool" where
  "path_byte c =
     (is_digit c \<or> (65 \<le> byte c \<and> byte c \<le> 90) \<or> (97 \<le> byte c \<and> byte c \<le> 122) \<or> c \<in> set ''-_.~$&+,/:;=@'')"

definition upper_hex :: "nat \<Rightarrow> char" where
  "upper_hex n = ''0123456789ABCDEF'' ! (n mod 16)"

definition escape_with :: "(char \<Rightarrow> bool) \<Rightarrow> string \<Rightarrow> string" where
  "escape_with keep s =
     concat (map (\<lambda>c. if keep c then [c] else [CHR ''%'', upper_hex (byte c div 16), upper_hex (byte c)]) s)"

text \<open>The repository and the environment of a connection restic opens itself.\<close>

fun nativeSpec :: "repo_lib \<Rightarrow> connection \<Rightarrow> session_error + prepared_repository \<times> string list" where
  "nativeSpec lib (LocalConnection path) = Inr (\<lparr>pr_repository = path, pr_options = []\<rparr>, [])"
| "nativeSpec lib (S3Connection v) =
     (case canonicalS3Endpoint lib (sc_endpoint v) (sc_region v) of
        Inl e \<Rightarrow> Inl (BindingInvalid e)
      | Inr host \<Rightarrow>
          Inr (\<lparr>pr_repository = ''s3:https://'' @ trim_suffix host '':443''
                  @ escape_with path_byte (''/'' @ sc_bucket v @ ''/'' @ sc_prefix v),
                pr_options = [''s3.region='' @ sc_region v, ''s3.bucket-lookup=path'', ''s3.retries=1'']\<rparr>,
               [''AWS_ACCESS_KEY_ID='' @ sc_access_key v, ''AWS_SECRET_ACCESS_KEY='' @ sc_secret_key v]))"
| "nativeSpec lib _ = Inl NoNativeBackend"

definition PrepareNative :: "repo_lib \<Rightarrow> connection \<Rightarrow> bool \<Rightarrow> session_error + prepared_repository \<times> string list" where
  "PrepareNative lib c allow =
     (case connection_validate lib allow c of Some e \<Rightarrow> Inl (BindingInvalid e) | None \<Rightarrow> nativeSpec lib c)"

section \<open>Repositories through rclone\<close>

definition rclonePrepared :: "string \<Rightarrow> string \<Rightarrow> string \<Rightarrow> prepared_repository" where
  "rclonePrepared name path program =
     \<lparr>pr_repository = ''rclone:'' @ name @ '':'' @ path, pr_options = [''rclone.program='' @ program]\<rparr>"

definition config_lines :: "string list \<Rightarrow> string" where
  "config_lines ls = concat (map (\<lambda>l. l @ [new_line]) ls)"

text \<open>The line with the authentication: a key is put on one line.\<close>

definition one_line_key :: "string \<Rightarrow> string" where
  "one_line_key s = concat (map (\<lambda>c. if c = new_line then [CHR 0x5C, CHR ''n''] else [c]) (trim_space s))"

definition authentication_line ::
  "(string \<Rightarrow> string option) \<Rightarrow> sftp_authentication \<Rightarrow> session_error + string" where
  "authentication_line obscure a =
     (case a of
        NoAuthentication \<Rightarrow> Inl (BindingInvalid SFTPInvalid)
      | PasswordAuthentication s \<Rightarrow>
          (case obscure s of
             None \<Rightarrow> Inl AuthenticationUnprepared
           | Some password \<Rightarrow>
               if lineSafe password 4096 then Inr (''pass = '' @ password) else Inl AuthenticationUnprepared)
      | Ed25519Authentication s \<Rightarrow> Inr (''key_pem = '' @ one_line_key s))"

definition sftp_lines ::
  "string \<Rightarrow> string \<Rightarrow> canonical_target \<Rightarrow> sftp_connection \<Rightarrow> string \<Rightarrow> bool \<Rightarrow> string list" where
  "sftp_lines name proxy t v auth trust =
     [''['' @ name @ '']'', ''type = sftp'', ''host = '' @ ct_host t, ''port = '' @ show_nat (ct_port t),
      ''user = '' @ fc_username v, auth, ''shell_type = none'', ''disable_hashcheck = true'',
      ''host_keys = '' @ join_with '','' (fc_host_keys v), ''http_proxy = '' @ proxy]
     @ (if trust then [''pin_host_key = true''] else [])"

definition s3_lines :: "string \<Rightarrow> string \<Rightarrow> s3_connection \<Rightarrow> string list" where
  "s3_lines name host v =
     [''['' @ name @ '']'', ''type = s3'', ''provider = Other'', ''env_auth = false'',
      ''access_key_id = '' @ sc_access_key v, ''secret_access_key = '' @ sc_secret_key v,
      ''endpoint = https://'' @ trim_suffix host '':443'', ''region = '' @ sc_region v,
      ''force_path_style = true'', ''no_check_bucket = true'']"

definition rcloneSpec ::
  "repo_lib \<Rightarrow> binding \<Rightarrow> string \<Rightarrow> string \<Rightarrow> (string \<Rightarrow> string option) \<Rightarrow>
   session_error + prepared_repository \<times> string" where
  "rcloneSpec lib b program proxy obscure =
     (if \<not> is_abs program \<or> nul \<in> set program then Inl NoExecutable
      else (case bd_connection b of
              LocalConnection path \<Rightarrow>
                Inr (rclonePrepared (bd_name b) path program,
                     config_lines [''['' @ bd_name b @ '']'', ''type = local''])
            | S3Connection v \<Rightarrow>
                (case canonicalS3Endpoint lib (sc_endpoint v) (sc_region v) of
                   Inl e \<Rightarrow> Inl (BindingInvalid e)
                 | Inr host \<Rightarrow>
                     Inr (rclonePrepared (bd_name b) (sc_bucket v @ ''/'' @ sc_prefix v) program,
                          config_lines (s3_lines (bd_name b) host v)))
            | SFTPConnection v \<Rightarrow>
                (case canonicalTarget lib (fc_host v) (fc_port v) of
                   Inl e \<Rightarrow> Inl (BindingInvalid e)
                 | Inr t \<Rightarrow>
                     (case authentication_line obscure (fc_authentication v) of
                        Inl e \<Rightarrow> Inl e
                      | Inr auth \<Rightarrow>
                          Inr (rclonePrepared (bd_name b) (fc_path v) program,
                               config_lines (sftp_lines (bd_name b) proxy t v auth (bd_trust_on_first_use b)))))
            | NoConnection \<Rightarrow> Inl DriverUnsupported))"

definition PrepareRclone ::
  "repo_lib \<Rightarrow> connection \<Rightarrow> string \<Rightarrow> string \<Rightarrow> string \<Rightarrow> bool \<Rightarrow> bool \<Rightarrow> (string \<Rightarrow> string option) option \<Rightarrow>
   session_error + prepared_repository \<times> string" where
  "PrepareRclone lib c name program proxy allow trust obscure =
     (let b = \<lparr>bd_name = name, bd_connection = c, bd_strategy = RequireRclone, bd_trust_on_first_use = trust\<rparr>
      in case validateBinding lib b allow of
           Some e \<Rightarrow> Inl e
         | None \<Rightarrow> rcloneSpec lib b program proxy (case obscure of None \<Rightarrow> \<lambda>_. None | Some f \<Rightarrow> f))"

text \<open>\<open>strings.Cut\<close> at the first equals sign.\<close>

fun cut_equals :: "string \<Rightarrow> (string \<times> string) option" where
  "cut_equals [] = None"
| "cut_equals (c # cs) =
     (if c = CHR ''='' then Some ([], cs) else map_option (\<lambda>(k, v). (c # k, v)) (cut_equals cs))"

fun host_keys_line :: "string list \<Rightarrow> string list" where
  "host_keys_line [] = []"
| "host_keys_line (l # ls) =
     (case cut_equals l of
        Some (k, v) \<Rightarrow>
          if trim_space k = ''host_keys''
          then filter (\<lambda>p. p \<noteq> []) (map trim_space (split_on (CHR '','') (trim_space v)))
          else host_keys_line ls
      | None \<Rightarrow> host_keys_line ls)"

definition ParseHostKeys :: "string \<Rightarrow> string list" where
  "ParseHostKeys configuration = host_keys_line (split_on new_line configuration)"

section \<open>Sessions\<close>

definition proxyEnvironment :: "string \<Rightarrow> string list" where
  "proxyEnvironment proxy =
     [''HTTPS_PROXY='' @ proxy, ''HTTP_PROXY='' @ proxy, ''NO_PROXY='',
      ''https_proxy='' @ proxy, ''http_proxy='' @ proxy, ''no_proxy='']"

definition appendUnique :: "string list \<Rightarrow> string list \<Rightarrow> string list" where
  "appendUnique values additions = fold (\<lambda>v vs. if v \<in> set vs then vs else vs @ [v]) additions values"

definition commandEnvironment :: "string \<Rightarrow> string list \<Rightarrow> string list" where
  "commandEnvironment work extra =
     appendUnique [''PATH=/usr/bin:/bin'', ''HOME='' @ work, ''TMPDIR='' @ work, ''LANG=C''] extra"

record session =
  ss_program :: string
  ss_config_path :: string
  ss_environment :: "string list"
  ss_prepared :: "(string, prepared_repository) gomap"
  ss_configuration :: string

definition uses_rclone :: "binding \<Rightarrow> bool" where
  "uses_rclone b = (bd_strategy b = RequireRclone \<or> \<not> supportsNative (bd_connection b))"

text \<open>The first loop: the bindings are checked, and the hosts the proxy may reach are collected.\<close>

fun check_bindings ::
  "repo_lib \<Rightarrow> bool \<Rightarrow> string list \<Rightarrow> binding list \<Rightarrow> session_error + target list" where
  "check_bindings lib allow seen [] = Inr []"
| "check_bindings lib allow seen (b # bs) =
     (if \<not> validRemoteName (bd_name b) then Inl BindingNameInvalid
      else if bd_name b \<in> set seen then Inl BindingNameDuplicate
      else (case validateBinding lib b allow of
              Some e \<Rightarrow> Inl e
            | None \<Rightarrow>
                (case connection_target lib (bd_connection b) of
                   Inl e \<Rightarrow> Inl (BindingInvalid e)
                 | Inr t \<Rightarrow>
                     (case check_bindings lib allow (bd_name b # seen) bs of
                        Inl e \<Rightarrow> Inl e
                      | Inr ts \<Rightarrow> Inr ((case t of None \<Rightarrow> [] | Some t \<Rightarrow> [t]) @ ts)))))"

fun prepare_bindings ::
  "repo_lib \<Rightarrow> string \<Rightarrow> (string \<Rightarrow> string option) \<Rightarrow> binding list \<Rightarrow> session \<Rightarrow> session_error + session" where
  "prepare_bindings lib proxy obscure [] s = Inr s"
| "prepare_bindings lib proxy obscure (b # bs) s =
     (case (if uses_rclone b
            then map_sum id (\<lambda>(p, sect). (p, sect, [])) (rcloneSpec lib b (ss_program s) proxy obscure)
            else map_sum id (\<lambda>(p, env). (p, [], env)) (nativeSpec lib (bd_connection b))) of
        Inl e \<Rightarrow> Inl e
      | Inr (p, sect, env) \<Rightarrow>
          prepare_bindings lib proxy obscure bs
            (s\<lparr>ss_configuration := ss_configuration s @ sect,
               ss_environment := appendUnique (ss_environment s) env,
               ss_prepared := mput (bd_name b) p (ss_prepared s)\<rparr>))"

text \<open>\<open>OpenSession\<close>: \<open>start\<close> is the proxy for the targets, \<open>rclone\<close> the path of the executable, \<open>written\<close>
  whether the configuration could be written.\<close>

definition OpenSession ::
  "repo_lib \<Rightarrow> string \<Rightarrow> string \<Rightarrow> bool \<Rightarrow> (target list \<Rightarrow> string option) \<Rightarrow> string option \<Rightarrow>
   (string \<Rightarrow> string option) \<Rightarrow> bool \<Rightarrow> binding list \<Rightarrow> session_error + session" where
  "OpenSession lib state work allow start rclone obscure written bs =
     (if \<not> is_abs state \<or> \<not> is_abs work \<or> bs = [] then Inl SessionInvalid
      else (case check_bindings lib allow [] bs of
              Inl e \<Rightarrow> Inl e
            | Inr targets \<Rightarrow>
                if targets \<noteq> [] \<and> start targets = None then Inl TransportFailed
                else if list_ex uses_rclone bs \<and> rclone = None then Inl RcloneMissing
                else
                  (let proxy = (if targets = [] then [] else the (start targets));
                       s = \<lparr>ss_program = (if list_ex uses_rclone bs then the rclone else []),
                            ss_config_path = (if list_ex uses_rclone bs then path_join [work, ''rclone.conf''] else []),
                            ss_environment = (if targets = [] then [] else proxyEnvironment proxy),
                            ss_prepared = [], ss_configuration = []\<rparr>
                   in case prepare_bindings lib proxy obscure bs s of
                        Inl e \<Rightarrow> Inl e
                      | Inr s \<Rightarrow>
                          if ss_configuration s = [] then Inr s
                          else if \<not> written then Inl ConfigurationUnwritten
                          else Inr (s\<lparr>ss_environment :=
                                 appendUnique (ss_environment s) [''RCLONE_CONFIG='' @ ss_config_path s]\<rparr>))))"


section \<open>Lines\<close>

lemma split_line: "c \<notin> set l \<Longrightarrow> split_on c (l @ c # rest) = l # split_on c rest"
  by (induction l) auto

lemma split_config_lines: "\<forall>l \<in> set ls. new_line \<notin> set l \<Longrightarrow> split_on new_line (config_lines ls) = ls @ [[]]"
  by (induction ls) (simp_all add: config_lines_def split_line)

lemma join_with_set: "set (join_with sep ls) \<subseteq> set sep \<union> \<Union> (set ` set ls)"
  by (induction sep ls rule: join_with.induct) auto

lemma line_safe_clean: "lineSafe s n \<Longrightarrow> new_line \<notin> set s"
  by (auto simp: lineSafe_def contains_any_def line_breaks_def new_line_def list_ex_iff)

lemma remote_name_clean: "validRemoteName s \<Longrightarrow> new_line \<notin> set s"
  by (auto simp: validRemoteName_def contains_any_def line_breaks_def new_line_def list_ex_iff)

lemma host_keys_clean: "check_host_keys seen ks \<Longrightarrow> k \<in> set ks \<Longrightarrow> new_line \<notin> set k"
  by (induction seen ks rule: check_host_keys.induct)
    (auto simp: validSFTPHostKey_def contains_any_def line_breaks_def new_line_def list_ex_iff split: if_splits)

lemma one_line_key_clean: "new_line \<notin> set (one_line_key s)"
  by (auto simp: one_line_key_def new_line_def)

lemma show_nat_clean: "new_line \<notin> set (show_nat n)"
proof
  assume "new_line \<in> set (show_nat n)"
  with show_nat_digits [of n] have "is_digit new_line" by (auto simp: list_all_iff)
  then show "False" by (simp add: is_digit_def new_line_def)
qed

lemma join_host_port_clean: "new_line \<notin> set h \<Longrightarrow> new_line \<notin> set (join_host_port h p)"
  using show_nat_clean [of p] by (simp add: join_host_port_def new_line_def)

text \<open>What the address library prints of a host name that passed the test on its characters.\<close>

definition prints_one_line :: "netip_lib \<Rightarrow> bool" where
  "prints_one_line lib = (\<forall>h a. list_all host_char h \<and> np_parse lib h = Some a \<longrightarrow> new_line \<notin> set (np_print lib a))"

lemma authority_clean:
  assumes "Authority lib t = Inr a" "prints_one_line lib"
  shows "new_line \<notin> set a"
proof -
  let ?h = "to_lower (tg_host t)"
  have ok: "list_all host_char ?h" using assms(1) by (auto simp: Authority_def Let_def split: if_splits)
  then have "new_line \<notin> set ?h" by (auto simp: list_all_iff host_char_def new_line_def is_digit_def byte_def)
  moreover have "a = join_host_port ?h (tg_port t) \<or> (\<exists>ip. np_parse lib ?h = Some ip \<and> a = join_host_port (np_print lib ip) (tg_port t))"
    using assms(1) by (auto simp: Authority_def Let_def split: if_splits option.splits)
  ultimately show ?thesis using assms(2) ok join_host_port_clean by (auto simp: prints_one_line_def)
qed

lemma split_host_port_sub: "split_host_port s = Some h \<Longrightarrow> set h \<subseteq> set s"
  by (auto simp: split_host_port_def Let_def dest: set_takeWhileD in_set_takeD split: if_splits list.splits)

lemma canonical_target_clean:
  "canonicalTarget lib h p = Inr t \<Longrightarrow> prints_one_line (rl_netip lib) \<Longrightarrow> new_line \<notin> set (ct_host t)"
  using authority_clean split_host_port_sub
  by (fastforce simp: canonicalTarget_def split: if_splits sum.splits option.splits)

lemma trim_suffix_sub: "set (trim_suffix s p) \<subseteq> set s"
  by (auto simp: trim_suffix_def dest: in_set_takeD)

lemma s3_endpoint_clean:
  assumes "canonicalS3Endpoint lib e r = Inr host" "prints_one_line (rl_netip lib)" "new_line \<notin> set r"
  shows "new_line \<notin> set (trim_suffix host '':443'')"
proof -
  have "(\<exists>a t. Authority (rl_netip lib) t = Inr a \<and> host = a)
    \<or> host = join_host_port (''s3.dualstack.'' @ r @ ''.amazonaws.com'') 443"
    using assms(1) by (auto simp: canonicalS3Endpoint_def Endpoint_def Let_def split: sum.splits option.splits if_splits)
  moreover have "new_line \<notin> set (''s3.dualstack.'' @ r @ ''.amazonaws.com'')" using assms(3) by (simp add: new_line_def)
  ultimately have "new_line \<notin> set host" using authority_clean [OF _ assms(2)] join_host_port_clean by metis
  then show ?thesis using trim_suffix_sub by blast
qed

text \<open>The setting a line of a section gives, and the settings of a section.\<close>

definition setting :: "string \<Rightarrow> string" where
  "setting line = takeWhile (\<lambda>c. c \<noteq> CHR '' '') line"

definition expected_settings :: "binding \<Rightarrow> string list" where
  "expected_settings b =
     (case bd_connection b of
        S3Connection v \<Rightarrow>
          [''type'', ''provider'', ''env_auth'', ''access_key_id'', ''secret_access_key'', ''endpoint'', ''region'',
           ''force_path_style'', ''no_check_bucket'']
      | SFTPConnection v \<Rightarrow>
          [''type'', ''host'', ''port'', ''user'',
           (case fc_authentication v of PasswordAuthentication s \<Rightarrow> ''pass'' | _ \<Rightarrow> ''key_pem''),
           ''shell_type'', ''disable_hashcheck'', ''host_keys'', ''http_proxy'']
          @ (if bd_trust_on_first_use b then [''pin_host_key''] else [])
      | _ \<Rightarrow> [''type''])"

text \<open>C22: Safety. The section rclone reads for a repository has its name in the first line and then exactly the
  settings of its driver, one in each line: no user name, password, key, host or path adds a line. The
  region of an S3 repository is the one value the checks let have a line break, which is excluded here.\<close>
theorem rclone_section_exact:
  assumes "rcloneSpec lib b program proxy obscure = Inr (p, sect)" "validateBinding lib b allow = None"
    and "validRemoteName (bd_name b)" "new_line \<notin> set proxy" "prints_one_line (rl_netip lib)"
    and "\<forall>v. bd_connection b = S3Connection v \<longrightarrow> new_line \<notin> set (sc_region v)"
  shows "\<exists>ls. split_on new_line sect = (''['' @ bd_name b @ '']'') # ls @ [[]] \<and> map setting ls = expected_settings b"
proof -
  have name: "new_line \<notin> set (''['' @ bd_name b @ '']'')" using remote_name_clean [OF assms(3)] by (simp add: new_line_def)
  have done_: ?thesis if "sect = config_lines ((''['' @ bd_name b @ '']'') # ls)" "\<forall>l \<in> set ls. new_line \<notin> set l"
    "map setting ls = expected_settings b" for ls
    using that name by (intro exI [of _ ls]) (subst that(1), subst split_config_lines, auto)
  note spec = assms(1) [unfolded rcloneSpec_def]
  show ?thesis
  proof (cases "bd_connection b")
    case NoConnection
    with spec show ?thesis by (simp split: if_splits)
  next
    case (LocalConnection path)
    with spec show ?thesis
      by (intro done_ [of "[''type = local'']"])
        (auto simp: setting_def expected_settings_def new_line_def split: if_splits)
  next
    case (S3Connection v)
    then obtain host where host: "canonicalS3Endpoint lib (sc_endpoint v) (sc_region v) = Inr host"
      and s: "sect = config_lines (s3_lines (bd_name b) host v)"
      using spec by (auto split: if_splits sum.splits)
    have region: "new_line \<notin> set (sc_region v)" using assms(6) S3Connection by blast
    have "\<not> bd_trust_on_first_use b" using assms(2) S3Connection by (auto simp: validateBinding_def split: if_splits)
    then have "lineSafe (sc_access_key v) 1000" "lineSafe (sc_secret_key v) 1000"
      using assms(2) S3Connection by (auto simp: validateBinding_def split: if_splits)
    then have "\<forall>l \<in> set (tl (s3_lines (bd_name b) host v)). new_line \<notin> set l"
      using line_safe_clean s3_endpoint_clean [OF host assms(5) region] region
      by (simp add: s3_lines_def new_line_def)
    with s S3Connection show ?thesis
      by (intro done_ [of "tl (s3_lines (bd_name b) host v)"])
        (simp_all add: s3_lines_def setting_def expected_settings_def)
  next
    case (SFTPConnection v)
    then obtain t auth where t: "canonicalTarget lib (fc_host v) (fc_port v) = Inr t"
      and auth: "authentication_line obscure (fc_authentication v) = Inr auth"
      and s: "sect = config_lines (sftp_lines (bd_name b) proxy t v auth (bd_trust_on_first_use b))"
      using spec by (auto split: if_splits sum.splits)
    have valid: "lineSafe (fc_username v) 255" "check_host_keys [] (fc_host_keys v)"
      using assms(2) SFTPConnection
      by (auto simp: validateBinding_def validateHostKeys_def split: if_splits)
    have "new_line \<notin> set auth"
      using auth line_safe_clean one_line_key_clean
      by (auto simp: authentication_line_def new_line_def split: sftp_authentication.splits option.splits if_splits)
    moreover have "new_line \<notin> set (join_with '','' (fc_host_keys v))"
      using join_with_set [of "'',''" "fc_host_keys v"] host_keys_clean [OF valid(2)] by (auto simp: new_line_def)
    ultimately have "\<forall>l \<in> set (tl (sftp_lines (bd_name b) proxy t v auth (bd_trust_on_first_use b))). new_line \<notin> set l"
      using line_safe_clean [OF valid(1)] canonical_target_clean [OF t assms(5)] assms(4) show_nat_clean [of "ct_port t"]
      by (simp add: sftp_lines_def new_line_def)
    moreover have "setting auth = (case fc_authentication v of PasswordAuthentication s \<Rightarrow> ''pass'' | _ \<Rightarrow> ''key_pem'')"
      using auth by (auto simp: authentication_line_def setting_def split: sftp_authentication.splits option.splits if_splits)
    ultimately show ?thesis using s SFTPConnection
      by (intro done_ [of "tl (sftp_lines (bd_name b) proxy t v auth (bd_trust_on_first_use b))"])
        (simp_all add: sftp_lines_def expected_settings_def, simp_all add: setting_def)
  qed
qed


text \<open>A first connection to an SFTP server, whose host key is not known yet.\<close>

definition sample_binding :: binding where
  "sample_binding =
     \<lparr>bd_name = ''backupchief_storage'',
      bd_connection = SFTPConnection \<lparr>fc_host = ''Backup.example.com'', fc_port = 22, fc_username = ''agent'',
        fc_path = ''/srv'', fc_host_keys = [], fc_authentication = PasswordAuthentication ''secret''\<rparr>,
      bd_strategy = RequireRclone, bd_trust_on_first_use = True\<rparr>"

lemma sample_binding_prepared:
  "rcloneSpec local_lib sample_binding ''/usr/bin/rclone'' [] Some =
     Inr (\<lparr>pr_repository = ''rclone:backupchief_storage:/srv'', pr_options = [''rclone.program=/usr/bin/rclone'']\<rparr>,
       config_lines [''[backupchief_storage]'', ''type = sftp'', ''host = backup.example.com'', ''port = 22'',
         ''user = agent'', ''pass = secret'', ''shell_type = none'', ''disable_hashcheck = true'', ''host_keys = '',
         ''http_proxy = '', ''pin_host_key = true''])"
  "validateBinding local_lib sample_binding False = None" "validRemoteName (bd_name sample_binding)"
  by code_simp+

lemma rclone_section_exact_witness:
  "\<exists>ls. split_on new_line (config_lines [''[backupchief_storage]'', ''type = sftp'', ''host = backup.example.com'',
      ''port = 22'', ''user = agent'', ''pass = secret'', ''shell_type = none'', ''disable_hashcheck = true'',
      ''host_keys = '', ''http_proxy = '', ''pin_host_key = true''])
    = ''[backupchief_storage]'' # ls @ [[]] \<and> map setting ls = expected_settings sample_binding"
proof -
  have "prints_one_line (rl_netip local_lib)" by (simp add: prints_one_line_def local_lib_def)
  from rclone_section_exact [OF sample_binding_prepared _ this] show ?thesis by (simp add: sample_binding_def)
qed

end
