(* ===== verification/Requests.thy ===== *)
theory Requests
  imports Sessions JobRules
begin

text \<open>
  The command line of a request to restic (restic/request.go, with \<open>safeDumpTarget\<close> of restic/dump.go).
  A request is checked and turned into arguments and an environment, or refused. What the file system
  says of a directory and the number of processors are fields of \<open>machine\<close>.
\<close>

datatype request_error =
    DualInvalid | StaleLocksLimited | RepositoryUnprepared session_error | LimitsInvalid | NewPasswordInvalid
  | KeyIDInvalid | RootRelative | HostInvalid | TagInvalid | ExcludeRefused | TooManyPaths | PathOutside
  | StdinInvalid | ListingInvalid | DumpInvalid | WalkInvalid | SubsetInvalid | PolicyEmpty | ForgetInvalid
  | RestoreInvalid | RestorePathInvalid | OperationUnsupported

type_synonym arguments = "string list"

record machine =
  mc_directory :: "string \<Rightarrow> bool"
  mc_processors :: nat

section \<open>Common parts\<close>

definition one_line_secret :: "string \<Rightarrow> bool" where
  "one_line_secret s = (s \<noteq> [] \<and> \<not> contains_any s line_breaks)"

definition limits_ok :: "restic_request \<Rightarrow> bool" where
  "limits_ok r =
     (1 \<le> rq_timeout_seconds r \<and> rq_timeout_seconds r \<le> 86400 \<and> 0 \<le> rq_lock_wait_seconds r
      \<and> rq_lock_wait_seconds r \<le> 300 \<and> rq_lock_wait_seconds r < rq_timeout_seconds r)"

text \<open>\<open>Duration.String\<close> of whole seconds below an hour.\<close>

definition show_wait :: "int \<Rightarrow> string" where
  "show_wait wait =
     (let n = nat wait
      in if n < 60 then show_nat n @ ''s'' else show_nat (n div 60) @ ''m'' @ show_nat (n mod 60) @ ''s'')"

definition appendRepositoryOptions :: "arguments \<Rightarrow> string list \<Rightarrow> arguments" where
  "appendRepositoryOptions args options = args @ concat (map (\<lambda>x. [''-o'', x]) options)"

definition common_arguments :: "restic_request \<Rightarrow> string \<Rightarrow> string \<Rightarrow> string \<Rightarrow> string list \<Rightarrow> arguments" where
  "common_arguments r passwordFile cache repository options =
     appendRepositoryOptions
       [''--password-file'', passwordFile, ''--cache-dir'', cache, ''--cleanup-cache'', ''--retry-lock'',
        show_wait (rq_lock_wait_seconds r), ''--repo'', repository] options"

definition common_environment :: "string \<Rightarrow> string list" where
  "common_environment cache =
     [''PATH=/usr/bin:/bin'', ''HOME='' @ cache, ''TMPDIR='' @ cache, ''LANG=C'', ''GOMAXPROCS=1'',
      ''RESTIC_PROGRESS_FPS=1'', ''RESTIC_READ_CONCURRENCY=1'']"

definition baseArgumentsPrepared ::
  "restic_request \<Rightarrow> string \<Rightarrow> string \<Rightarrow> prepared_repository \<Rightarrow> request_error + arguments \<times> string list" where
  "baseArgumentsPrepared r passwordFile cache p =
     (if rq_version r \<noteq> 1 \<or> \<not> one_line_secret (rq_password r) \<or> \<not> limits_ok r then Inl LimitsInvalid
      else Inr (common_arguments r passwordFile cache (pr_repository p) (pr_options p), common_environment cache))"

definition allowsStaleLockRecovery :: "string \<Rightarrow> bool" where
  "allowsStaleLockRecovery operation =
     (operation \<in> set [''snapshots'', ''forget_plan'', ''forget'', ''prune'', ''check_metadata'', ''check_data''])"

definition safeStdinFilename :: "string \<Rightarrow> bool" where
  "safeStdinFilename value =
     (value \<noteq> [] \<and> length value \<le> 255 \<and> filepath_base value = value \<and> value \<noteq> ''.'' \<and> value \<noteq> ''..''
      \<and> \<not> contains_any value (CHR ''/'' # CHR 0x5C # nul # [CHR 0x0D, CHR 0x0A]))"

definition safeSnapshotPath :: "string \<Rightarrow> bool" where
  "safeSnapshotPath value =
     (if value = [] \<or> \<not> has_prefix value ''/'' \<or> contains_any value [CHR 0x5C, nul] then False
      else if value \<noteq> ''/'' \<and> (has_suffix value ''/'' \<or> contains_sub value ''//'') then False
      else list_all (\<lambda>part. part \<noteq> ''.'' \<and> part \<noteq> ''..'') (split_on (CHR ''/'') value))"

definition maxDumpBytes :: int where
  "maxDumpBytes = 64 * 2 ^ 20"

definition maxWalkNodes :: int where
  "maxWalkNodes = 5000000"

definition safeDumpTarget :: "machine \<Rightarrow> string \<Rightarrow> bool" where
  "safeDumpTarget m target =
     (is_abs target \<and> clean_path target = target \<and> filepath_base target \<noteq> ''.''
      \<and> mc_directory m (filepath_dir target))"

definition tag_ok :: "string \<Rightarrow> bool" where
  "tag_ok tag = (tag \<noteq> [] \<and> nul \<notin> set tag \<and> length tag \<le> 255)"

definition tag_arguments :: "string list \<Rightarrow> arguments" where
  "tag_arguments tags = concat (map (\<lambda>t. [''--tag'', t]) tags)"

definition host_arguments :: "string \<Rightarrow> arguments" where
  "host_arguments host = (if host = [] then [] else [''--host'', host])"

definition host_ok :: "string \<Rightarrow> bool" where
  "host_ok host = (nul \<notin> set host \<and> length host \<le> 255)"

section \<open>Operations\<close>

definition backup_arguments :: "restic_request \<Rightarrow> string \<Rightarrow> request_error + arguments" where
  "backup_arguments r cache =
     (let targets = (if rq_paths r = [] then [clean_path (rq_root r)] else rq_paths r)
      in if \<not> is_abs (rq_root r) \<or> nul \<in> set (rq_root r) then Inl RootRelative
         else if \<not> host_ok (rq_host r) then Inl HostInvalid
         else if \<not> list_all tag_ok (rq_tags r) then Inl TagInvalid
         else if list_ex (\<lambda>e. nul \<in> set e) (rq_excludes r) then Inl ExcludeRefused
         else if 100 < length targets then Inl TooManyPaths
         else if \<not> list_all (source_path_ok (rq_root r)) targets then Inl PathOutside
         else Inr ([''backup'', ''--json'', ''--one-file-system'', ''--no-scan''] @ host_arguments (rq_host r)
                @ [''--exclude'', cache]
                @ (case rq_connection r of LocalConnection path \<Rightarrow> [''--exclude'', path] | _ \<Rightarrow> [])
                @ tag_arguments (rq_tags r)
                @ concat (map (\<lambda>e. [''--exclude'', e]) (rq_excludes r)) @ [''--''] @ targets))"

definition stdin_arguments :: "restic_request \<Rightarrow> request_error + arguments" where
  "stdin_arguments r =
     (let command = rq_stdin_command r
      in if \<not> safeStdinFilename (rq_stdin_filename r) \<or> length command < 1 \<or> 100 < length command
            \<or> \<not> is_abs (command ! 0) \<or> rq_command_config r = [] \<or> 2 ^ 20 < length (rq_command_config r)
            \<or> nul \<in> set (rq_command_config r)
            \<or> list_ex (\<lambda>a. a = [] \<or> nul \<in> set a \<or> 4096 < length a) command
         then Inl StdinInvalid
         else if \<not> host_ok (rq_host r) then Inl HostInvalid
         else if \<not> list_all tag_ok (rq_tags r) then Inl TagInvalid
         else Inr ([''backup'', ''--json'', ''--stdin-from-command'', ''--stdin-filename'', rq_stdin_filename r]
                @ host_arguments (rq_host r) @ tag_arguments (rq_tags r) @ [''--''] @ command))"

definition policy_arguments :: "retention_policy \<Rightarrow> arguments" where
  "policy_arguments p =
     [''forget'', ''--dry-run'', ''--json'', ''--group-by'', [],
      ''--keep-last'', show_nat (rn_last p), ''--keep-hourly'', show_nat (rn_hourly p),
      ''--keep-daily'', show_nat (rn_daily p), ''--keep-weekly'', show_nat (rn_weekly p),
      ''--keep-monthly'', show_nat (rn_monthly p), ''--keep-yearly'', show_nat (rn_yearly p)]"

definition retentionEmpty :: "retention_policy \<Rightarrow> bool" where
  "retentionEmpty p =
     (rn_last p = 0 \<and> rn_hourly p = 0 \<and> rn_daily p = 0 \<and> rn_weekly p = 0 \<and> rn_monthly p = 0 \<and> rn_yearly p = 0)"

definition restore_arguments :: "restic_request \<Rightarrow> request_error + arguments" where
  "restore_arguments r =
     (if \<not> is_digest (rq_snapshot r) \<or> \<not> is_abs (rq_target r) \<or> nul \<in> set (rq_target r) then Inl RestoreInvalid
      else if rq_path r \<noteq> [] \<and> \<not> safeSnapshotPath (rq_path r) then Inl RestorePathInvalid
      else Inr [''restore'', rq_snapshot r @ (if rq_path r = [] then [] else '':'' @ rq_path r), ''--target'',
             rq_target r, ''--verify'', ''--overwrite'', ''never''])"

definition operation_arguments ::
  "machine \<Rightarrow> restic_request \<Rightarrow> string \<Rightarrow> string \<Rightarrow> request_error + arguments" where
  "operation_arguments m r newPasswordFile cache =
     (let op = rq_operation r in
      if op = ''init'' then Inr [''init'', ''--repository-version'', ''2'', ''--json'']
      else if op = ''key_add'' then
        (if \<not> one_line_secret (rq_new_password r) then Inl NewPasswordInvalid
         else Inr [''key'', ''add'', ''--new-password-file'', newPasswordFile])
      else if op = ''key_verify'' then Inr [''cat'', ''config'']
      else if op = ''key_list'' then Inr [''key'', ''list'', ''--json'']
      else if op = ''key_remove'' then
        (if \<not> is_digest (rq_key_id r) then Inl KeyIDInvalid else Inr [''key'', ''remove'', rq_key_id r])
      else if op = ''backup'' then backup_arguments r cache
      else if op = ''backup_stdin'' then stdin_arguments r
      else if op = ''snapshots'' then
        (if \<not> list_all tag_ok (rq_tags r) then Inl TagInvalid
         else Inr ([''snapshots'', ''--json''] @ host_arguments (rq_host r) @ tag_arguments (rq_tags r)))
      else if op = ''ls'' then
        (if \<not> is_digest (rq_snapshot r) \<or> \<not> safeSnapshotPath (rq_path r) then Inl ListingInvalid
         else Inr [''cat'', ''tree'', rq_snapshot r @ '':'' @ rq_path r])
      else if op = ''dump_file'' then
        (if \<not> is_digest (rq_snapshot r) \<or> \<not> safeSnapshotPath (rq_path r) \<or> rq_path r = ''/''
            \<or> \<not> safeDumpTarget m (rq_target r) \<or> rq_max_bytes r < 1 \<or> maxDumpBytes < rq_max_bytes r
         then Inl DumpInvalid
         else Inr [''dump'', rq_snapshot r @ '':'' @ filepath_dir (rq_path r), ''/'' @ filepath_base (rq_path r)])
      else if op = ''walk'' then
        (if \<not> is_digest (rq_snapshot r) \<or> rq_max_nodes r < 1 \<or> maxWalkNodes < rq_max_nodes r then Inl WalkInvalid
         else Inr [''find'', ''--json'', ''--snapshot'', rq_snapshot r, ''*''])
      else if op = ''stats'' then Inr [''stats'', ''--mode'', ''raw-data'', ''--json'']
      else if op = ''check'' then Inr [''check'', ''--read-data'']
      else if op = ''check_metadata'' then Inr [''check'', ''--json'']
      else if op = ''check_data'' then
        (if rq_data_subset_total r < 2 \<or> 12 < rq_data_subset_total r \<or> rq_data_subset_part r < 1
            \<or> rq_data_subset_total r < rq_data_subset_part r
         then Inl SubsetInvalid
         else Inr [''check'', ''--json'', ''--read-data-subset'',
                show_nat (nat (rq_data_subset_part r)) @ ''/'' @ show_nat (nat (rq_data_subset_total r))])
      else if op = ''forget_plan'' then
        (case rq_retention r of
           None \<Rightarrow> Inl PolicyEmpty
         | Some p \<Rightarrow>
             if retentionEmpty p then Inl PolicyEmpty
             else if \<not> list_all tag_ok (rq_tags r) then Inl TagInvalid
             else Inr (policy_arguments p @ tag_arguments (rq_tags r)))
      else if op = ''forget'' then
        (if rq_snapshot_ids r = [] \<or> 100 < length (rq_snapshot_ids r) \<or> \<not> list_all is_digest (rq_snapshot_ids r)
         then Inl ForgetInvalid else Inr (''forget'' # rq_snapshot_ids r))
      else if op = ''prune'' then Inr [''prune'']
      else if op = ''restore'' then restore_arguments r
      else Inl OperationUnsupported)"

definition argumentsPrepared ::
  "machine \<Rightarrow> restic_request \<Rightarrow> string \<Rightarrow> string \<Rightarrow> string \<Rightarrow> prepared_repository \<Rightarrow>
   request_error + arguments \<times> string list" where
  "argumentsPrepared m r passwordFile newPasswordFile cache p =
     (if rq_recover_stale_locks r \<and> \<not> allowsStaleLockRecovery (rq_operation r) then Inl StaleLocksLimited
      else (case baseArgumentsPrepared r passwordFile cache p of
              Inl e \<Rightarrow> Inl e
            | Inr (args, env) \<Rightarrow>
                (case operation_arguments m r newPasswordFile cache of
                   Inl e \<Rightarrow> Inl e
                 | Inr rest \<Rightarrow>
                     Inr (args @ rest,
                       env @ (if rq_interactive r
                              then [''GOMAXPROCS='' @ show_nat (mc_processors m), ''RESTIC_READ_CONCURRENCY=8'']
                              else [])))))"

text \<open>The two repositories of a copy are one request.\<close>

definition appendDualOperation :: "arguments \<Rightarrow> string \<Rightarrow> string \<Rightarrow> string \<Rightarrow> arguments" where
  "appendDualOperation args operation source sourcePasswordFile =
     args @
       (if operation = ''init_from'' then
          [''init'', ''--repository-version'', ''2'', ''--copy-chunker-params'', ''--from-repo'', source,
           ''--from-password-file'', sourcePasswordFile, ''--json'']
        else if operation = ''copy'' then
          [''copy'', ''--from-repo'', source, ''--from-password-file'', sourcePasswordFile, ''--json'']
        else [''unsupported-dual-operation''])"

definition dualArguments ::
  "restic_request \<Rightarrow> string \<Rightarrow> string \<Rightarrow> string \<Rightarrow> prepared_repository \<Rightarrow> prepared_repository \<Rightarrow>
   request_error + arguments \<times> string list" where
  "dualArguments r passwordFile sourcePasswordFile cache destination source =
     (if rq_version r \<noteq> 1 \<or> rq_source_connection r = None \<or> rq_password r = [] \<or> rq_source_password r = []
         \<or> contains_any (rq_password r @ rq_source_password r) line_breaks \<or> \<not> limits_ok r
      then Inl DualInvalid
      else Inr (appendDualOperation
             (common_arguments r passwordFile cache (pr_repository destination)
               (appendUnique (pr_options destination) (pr_options source)))
             (rq_operation r) (pr_repository source) sourcePasswordFile,
           common_environment cache))"

text \<open>The forms that prepare the repository themselves.\<close>

definition with_native ::
  "repo_lib \<Rightarrow> restic_request \<Rightarrow> bool \<Rightarrow> (prepared_repository \<Rightarrow> request_error + arguments \<times> string list) \<Rightarrow>
   request_error + arguments \<times> string list" where
  "with_native lib r local f =
     (case PrepareNative lib (rq_connection r) local of
        Inl e \<Rightarrow> Inl (RepositoryUnprepared e)
      | Inr (p, extra) \<Rightarrow> map_sum id (\<lambda>(args, env). (args, env @ extra)) (f p))"

definition request_arguments ::
  "repo_lib \<Rightarrow> machine \<Rightarrow> restic_request \<Rightarrow> string \<Rightarrow> string \<Rightarrow> string \<Rightarrow> bool \<Rightarrow> request_error + arguments \<times> string list" where
  "request_arguments lib m r passwordFile newPasswordFile cache local =
     with_native lib r local (argumentsPrepared m r passwordFile newPasswordFile cache)"

definition baseArguments ::
  "repo_lib \<Rightarrow> restic_request \<Rightarrow> string \<Rightarrow> string \<Rightarrow> bool \<Rightarrow> request_error + arguments \<times> string list" where
  "baseArguments lib r passwordFile cache local = with_native lib r local (baseArgumentsPrepared r passwordFile cache)"

definition staleLockArgumentsPrepared ::
  "restic_request \<Rightarrow> string \<Rightarrow> string \<Rightarrow> prepared_repository \<Rightarrow> request_error + arguments \<times> string list" where
  "staleLockArgumentsPrepared r passwordFile cache p =
     map_sum id (\<lambda>(args, env). (args @ [''unlock''], env))
       (baseArgumentsPrepared (r\<lparr>rq_lock_wait_seconds := 0, rq_recover_stale_locks := False\<rparr>) passwordFile cache p)"

definition staleLockArguments ::
  "repo_lib \<Rightarrow> restic_request \<Rightarrow> string \<Rightarrow> string \<Rightarrow> bool \<Rightarrow> request_error + arguments \<times> string list" where
  "staleLockArguments lib r passwordFile cache local =
     with_native lib r local (staleLockArgumentsPrepared r passwordFile cache)"

end
