(* ===== verification/Runner.thy ===== *)
theory Runner
  imports Requests
begin

text \<open>
  What surrounds a run of restic (restic/runner.go, and the outputs of restic/dump.go, restic/progress.go
  and restic/walk.go): the repositories of a request, its final arguments, the bounded output, the
  redaction of secrets and the result. The process itself, its exit code and what it writes, is given.
\<close>

section \<open>Repositories and arguments\<close>

definition shared_operation :: "string \<Rightarrow> bool" where
  "shared_operation operation =
     (operation \<in> set [''backup'', ''backup_stdin'', ''ls'', ''walk'', ''dump_file''])"

definition dual_operation :: "string \<Rightarrow> bool" where
  "dual_operation operation = (operation = ''init_from'' \<or> operation = ''copy'')"

definition is_local :: "connection \<Rightarrow> bool" where
  "is_local c = (case c of LocalConnection p \<Rightarrow> True | _ \<Rightarrow> False)"

definition runner_bindings :: "restic_request \<Rightarrow> binding list" where
  "runner_bindings r =
     (let strategy = (case rq_source_connection r of
            None \<Rightarrow> PreferNative
          | Some source \<Rightarrow>
              if dual_operation (rq_operation r) \<and> (\<not> is_local (rq_connection r) \<or> \<not> is_local source)
              then RequireRclone else PreferNative);
          binding = (\<lambda>name c. \<lparr>bd_name = name, bd_connection = c, bd_strategy = strategy, bd_trust_on_first_use = False\<rparr>)
      in case rq_source_connection r of
           None \<Rightarrow> [binding ''backupchief_repository'' (rq_connection r)]
         | Some source \<Rightarrow>
             [binding ''backupchief_destination'' (rq_connection r), binding ''backupchief_source'' source])"

text \<open>The state directory of the agent is left out of a backup, before the first argument that is two dashes.\<close>

fun exclude_state :: "string \<Rightarrow> arguments \<Rightarrow> arguments" where
  "exclude_state state [] = []"
| "exclude_state state (a # args) =
     (if a = ''--'' then [''--exclude'', state, a] @ args else a # exclude_state state args)"

text \<open>\<open>strings.ReplaceAll\<close> of a text that is not empty: \<open>cur\<close> is the piece read so far.\<close>

function split_sub :: "string \<Rightarrow> string \<Rightarrow> string \<Rightarrow> string list" where
  "split_sub old cur t =
     (case t of
        [] \<Rightarrow> [cur]
      | c # cs \<Rightarrow>
          if old \<noteq> [] \<and> has_prefix t old then cur # split_sub old [] (drop (length old) t)
          else split_sub old (cur @ [c]) cs)"
  by pat_completeness auto
termination by (relation "measure (\<lambda>(old, cur, t). length t)") auto

declare split_sub.simps [simp del]

definition replace_all :: "string \<Rightarrow> string \<Rightarrow> string \<Rightarrow> string" where
  "replace_all old new t = join_with new (split_sub old [] t)"

definition command_config_mark :: string where
  "command_config_mark = ''{backupchief-command-config}''"

definition final_arguments :: "string \<Rightarrow> string \<Rightarrow> restic_request \<Rightarrow> arguments \<Rightarrow> arguments" where
  "final_arguments state configFile r args =
     (if rq_operation r = ''backup'' then exclude_state state args
      else if rq_operation r = ''backup_stdin'' then map (replace_all command_config_mark configFile) args
      else args)"

definition joinResultLogs :: "string \<Rightarrow> restic_result list \<Rightarrow> string" where
  "joinResultLogs prefix results =
     join_with [new_line]
       (filter (\<lambda>p. p \<noteq> [])
         (map trim_space (prefix # concat (map (\<lambda>r. [rs_output r, rs_diagnostic r]) results))))"

text \<open>With the recovery of stale locks, an unlock runs before the operation, whose diagnostic it joins.\<close>

definition recovered_result :: "restic_result \<Rightarrow> restic_result \<Rightarrow> restic_result" where
  "recovered_result unlocked result =
     result\<lparr>rs_diagnostic :=
       trim_space (joinResultLogs ''stale repository lock cleanup attempted before maintenance'' [unlocked]
         @ [new_line] @ rs_diagnostic result)\<rparr>"

section \<open>Redaction\<close>

definition unreserved :: "char \<Rightarrow> bool" where
  "unreserved c =
     (is_digit c \<or> (65 \<le> byte c \<and> byte c \<le> 90) \<or> (97 \<le> byte c \<and> byte c \<le> 122) \<or> c \<in> set ''-_.~'')"

definition QueryEscape :: "string \<Rightarrow> string" where
  "QueryEscape s =
     map (\<lambda>c. if c = CHR '' '' then CHR ''+'' else c) (escape_with (\<lambda>c. unreserved c \<or> c = CHR '' '') s)"

definition PathEscape :: "string \<Rightarrow> string" where
  "PathEscape s = escape_with (\<lambda>c. unreserved c \<or> c \<in> set ''$&+:=@'') s"

definition request_secrets :: "restic_request \<Rightarrow> string list" where
  "request_secrets r =
     [rq_password r, rq_source_password r, rq_new_password r] @ connection_secrets (rq_connection r)
     @ (case rq_source_connection r of None \<Rightarrow> [] | Some c \<Rightarrow> connection_secrets c)"

definition redaction_mark :: string where
  "redaction_mark = ''[REDACTED]''"

definition redacted_values :: "restic_request \<Rightarrow> string list" where
  "redacted_values r =
     concat (map (\<lambda>s. if s = [] then [] else [s, QueryEscape s, PathEscape s]) (request_secrets r))"

definition redact :: "string \<Rightarrow> restic_request \<Rightarrow> string" where
  "redact text r = fold (\<lambda>v t. replace_all v redaction_mark t) (redacted_values r) text"

section \<open>Output\<close>

record bounded_output =
  bo_data :: string
  bo_limit :: nat
  bo_overflow :: bool
  bo_cancels :: bool
  bo_tail_limit :: nat
  bo_tail :: string
  bo_dropped :: nat

text \<open>One write; the second result tells whether it cancels the process.\<close>

definition write_bounded :: "string \<Rightarrow> bounded_output \<Rightarrow> bounded_output \<times> bool" where
  "write_bounded p b =
     (if 0 < bo_tail_limit b then
        (let room = bo_limit b - bo_tail_limit b - length (bo_data b);
             tail = bo_tail b @ drop room p; discard = length tail - bo_tail_limit b
         in (if bo_tail_limit b < length tail
             then b\<lparr>bo_data := bo_data b @ take room p, bo_tail := drop discard tail,
                    bo_dropped := bo_dropped b + discard, bo_overflow := True\<rparr>
             else b\<lparr>bo_data := bo_data b @ take room p, bo_tail := tail\<rparr>, False))
      else if bo_limit b < length (bo_data b) + length p
      then (b\<lparr>bo_overflow := True, bo_dropped := bo_dropped b + length p\<rparr>, bo_cancels b)
      else if bo_overflow b then (b, False)
      else (b\<lparr>bo_data := bo_data b @ p\<rparr>, False))"

definition bounded_text :: "bounded_output \<Rightarrow> string" where
  "bounded_text b = bo_data b @ bo_tail b"

definition new_output :: "nat \<Rightarrow> bool \<Rightarrow> nat \<Rightarrow> bounded_output" where
  "new_output limit cancels tail =
     \<lparr>bo_data = [], bo_limit = limit, bo_overflow = False, bo_cancels = cancels, bo_tail_limit = tail, bo_tail = [],
      bo_dropped = 0\<rparr>"

definition backup_operation :: "string \<Rightarrow> bool" where
  "backup_operation operation = (operation = ''backup'' \<or> operation = ''backup_stdin'')"

definition new_stdout :: "string \<Rightarrow> bounded_output" where
  "new_stdout operation =
     (if backup_operation operation then new_output (8 * 2 ^ 20) False (2 ^ 20)
      else new_output (if operation = ''ls'' then 4 * 2 ^ 20 else 8 * 2 ^ 20) True 0)"

definition new_stderr :: "string \<Rightarrow> bounded_output" where
  "new_stderr operation =
     (if backup_operation operation then new_output (256 * 2 ^ 10) False (64 * 2 ^ 10)
      else new_output (256 * 2 ^ 10) True 0)"

record dump_output =
  du_file :: string
  du_limit :: int
  du_overflow :: bool
  du_failed :: bool

text \<open>One write of a dumped file: \<open>ok\<close> tells whether the file took it; the second result cancels the process.\<close>

definition write_dump :: "bool \<Rightarrow> string \<Rightarrow> dump_output \<Rightarrow> dump_output \<times> bool" where
  "write_dump ok p d =
     (if du_overflow d \<or> du_failed d then (d, False)
      else if du_limit d < int (length (du_file d)) + int (length p) then (d\<lparr>du_overflow := True\<rparr>, True)
      else if \<not> ok then (d\<lparr>du_failed := True\<rparr>, True)
      else (d\<lparr>du_file := du_file d @ p\<rparr>, False))"

definition dump_kept :: "bool \<Rightarrow> dump_output \<Rightarrow> bool" where
  "dump_kept keep d = (keep \<and> \<not> du_overflow d \<and> \<not> du_failed d)"

text \<open>The lines of the progress of a backup: a line longer than the limit is dropped.\<close>

record progress_output =
  po_pending :: string
  po_discarding :: bool

function write_progress :: "string \<Rightarrow> progress_output \<Rightarrow> string list \<times> progress_output" where
  "write_progress input p =
     (if input = [] then ([], p)
      else
        (let line = takeWhile (\<lambda>c. c \<noteq> new_line) input; ended = (new_line \<in> set input);
             long = (64 * 2 ^ 10 < length (po_pending p) + length line);
             discarding = (long \<or> po_discarding p);
             pending = (if discarding then (if long then [] else po_pending p) else po_pending p @ line)
         in if \<not> ended then ([], \<lparr>po_pending = pending, po_discarding = discarding\<rparr>)
            else
              (let (ls, q) = write_progress (drop (Suc (length line)) input) \<lparr>po_pending = [], po_discarding = False\<rparr>
               in ((if discarding then [] else [pending]) @ ls, q))))"
  by pat_completeness auto
termination by (relation "measure (\<lambda>(input, p). length input)") auto

declare write_progress.simps [simp del]

text \<open>One node of a walk: its path and the target of a link are what the checks read; the rest of its metadata
  is passed on. \<open>ok\<close> tells whether the stream takes the line. An error ends the walk.\<close>

record walk_node =
  wn_path :: string
  wn_link_target :: string
  wn_metadata :: "(string \<times> json) list"

record walk_progress =
  wp_nodes :: int
  wp_budget :: bool
  wp_forwarded :: "walk_node list"

datatype walk_error = BudgetReached | StreamClosed

definition forward_node ::
  "restic_request \<Rightarrow> bool \<Rightarrow> walk_node \<Rightarrow> walk_progress \<Rightarrow> walk_error option \<times> walk_progress" where
  "forward_node r ok node w =
     (if wn_path node = [] \<or> 16 * 2 ^ 10 < length (wn_path node) \<or> hd (wn_path node) \<noteq> CHR ''/'' then (None, w)
      else
        (let target = (if 16 * 2 ^ 10 < length (wn_link_target node) then [] else wn_link_target node);
             nodes = wp_nodes w + 1
         in if rq_max_nodes r < nodes then (Some BudgetReached, w\<lparr>wp_nodes := nodes, wp_budget := True\<rparr>)
            else if \<not> ok then (Some StreamClosed, w\<lparr>wp_nodes := nodes\<rparr>)
            else (None, w\<lparr>wp_nodes := nodes, wp_forwarded := wp_forwarded w
                   @ [node\<lparr>wn_path := redact (wn_path node) r, wn_link_target := redact target r\<rparr>]\<rparr>)))"

section \<open>Results\<close>

text \<open>How a process ended: its exit code, whether waiting for it failed, and whether its context ended.\<close>

record process_end =
  pe_exit_code :: int
  pe_failed :: bool
  pe_cancelled :: bool

definition exit_code_of :: "process_end \<Rightarrow> int" where
  "exit_code_of pe = (if pe_exit_code pe < 0 then 1 else pe_exit_code pe)"

definition failed_result :: "int \<Rightarrow> restic_result" where
  "failed_result code =
     \<lparr>rs_version = 1, rs_exit_code = code, rs_outcome = ''failed'', rs_output = [], rs_diagnostic = [],
      rs_truncated = False, rs_dropped_bytes = 0\<rparr>"

definition cancelled_text :: string where
  "cancelled_text = ''restic execution cancelled or timed out''"

definition process_result ::
  "restic_request \<Rightarrow> process_end \<Rightarrow> bounded_output \<Rightarrow> bounded_output \<Rightarrow> restic_result" where
  "process_result r pe out err =
     (let code = exit_code_of pe;
          result = (failed_result code)\<lparr>rs_truncated := (bo_overflow out \<or> bo_overflow err),
            rs_dropped_bytes := int (bo_dropped out + bo_dropped err)\<rparr>
      in if rs_truncated result \<and> rq_operation r \<noteq> ''backup''
         then result\<lparr>rs_diagnostic := ''restic output exceeded its limit''\<rparr>
         else
           (let result = result\<lparr>rs_output := redact (bounded_text out) r, rs_diagnostic := redact (bounded_text err) r\<rparr>
            in if pe_cancelled pe then result\<lparr>rs_outcome := ''cancelled'', rs_diagnostic := cancelled_text\<rparr>
               else if \<not> pe_failed pe then result\<lparr>rs_outcome := ''complete''\<rparr>
               else if code = 3 \<and> backup_operation (rq_operation r) then result\<lparr>rs_outcome := ''partial''\<rparr>
               else if code = 11 then result\<lparr>rs_outcome := ''locked''\<rparr>
               else result))"

record walk_state =
  wk_budget :: bool
  wk_invalid :: bool
  wk_failed :: bool

definition walkResult :: "restic_request \<Rightarrow> process_end \<Rightarrow> walk_state \<Rightarrow> bounded_output \<Rightarrow> restic_result" where
  "walkResult r pe w err =
     (let result = (failed_result (exit_code_of pe))\<lparr>rs_diagnostic := redact (bounded_text err) r\<rparr>
      in if wk_budget w
         then result\<lparr>rs_exit_code := 0, rs_outcome := ''partial'', rs_truncated := True,
                rs_diagnostic := ''snapshot walk stopped at its node budget''\<rparr>
         else if wk_failed w then result\<lparr>rs_diagnostic := ''snapshot walk output stream closed''\<rparr>
         else if pe_cancelled pe then result\<lparr>rs_outcome := ''cancelled'', rs_diagnostic := cancelled_text\<rparr>
         else if wk_invalid w
         then (if trim_space (rs_diagnostic result) = []
               then result\<lparr>rs_diagnostic := ''restic walk output was invalid''\<rparr> else result)
         else if rs_exit_code result = 0 then result\<lparr>rs_outcome := ''complete''\<rparr>
         else if rs_exit_code result = 11 then result\<lparr>rs_outcome := ''locked''\<rparr>
         else result)"

text \<open>The result of a dump, and whether its file is kept.\<close>

definition dumpResult ::
  "restic_request \<Rightarrow> process_end \<Rightarrow> dump_output \<Rightarrow> bounded_output \<Rightarrow> restic_result \<times> bool" where
  "dumpResult r pe d err =
     (let start = (failed_result (exit_code_of pe))\<lparr>rs_diagnostic := redact (bounded_text err) r\<rparr>;
          result =
            (if du_overflow d
             then start\<lparr>rs_truncated := True, rs_diagnostic := ''file dump exceeded its byte limit''\<rparr>
             else if du_failed d then start\<lparr>rs_diagnostic := ''cannot write private file dump target''\<rparr>
             else if pe_cancelled pe then start\<lparr>rs_outcome := ''cancelled'', rs_diagnostic := cancelled_text\<rparr>
             else if \<not> pe_failed pe then start\<lparr>rs_outcome := ''complete''\<rparr>
             else if rs_exit_code start = 11 then start\<lparr>rs_outcome := ''locked''\<rparr>
             else start)
      in (result, dump_kept (rs_outcome result = ''complete'') d))"

end
