(* ===== verification/RunnerFacts.thy ===== *)
theory RunnerFacts
  imports Runner "HOL-Library.Sublist"
begin

text \<open>
  What a run of restic is given and what it gives back: the paths of a backup stand behind its options, the
  output is kept within its bounds, and the secrets of a request do not come out.
\<close>

section \<open>Splitting and joining\<close>

lemma split_sub_pieces: "p \<in> set (split_sub old cur t) \<Longrightarrow> sublist p (cur @ t)"
proof (induction old cur t rule: split_sub.induct)
  case (1 old cur t)
  show ?case
  proof (cases t)
    case Nil
    with 1(3) show ?thesis by (simp add: split_sub.simps)
  next
    case (Cons c cs)
    show ?thesis
    proof (cases "old \<noteq> [] \<and> has_prefix t old")
      case True
      then have "p = cur \<or> p \<in> set (split_sub old [] (drop (length old) t))"
        using 1(3) Cons by (subst (asm) split_sub.simps) auto
      then show ?thesis
      proof
        assume "p \<in> set (split_sub old [] (drop (length old) t))"
        then have "sublist p (drop (length old) t)" using 1(1) [OF Cons True] by simp
        then show ?thesis by (metis append_take_drop_id sublist_appendI sublist_order.order_trans append_Nil2 append_assoc)
      qed (simp add: prefix_imp_sublist)
    next
      case False
      then have "p \<in> set (split_sub old (cur @ [c]) cs)"
        using 1(3) Cons by (subst (asm) split_sub.simps) auto
      then show ?thesis using 1(2) [OF Cons False] Cons by simp
    qed
  qed
qed

lemma sublist_in_prefix:
  assumes "sublist old cur" "old \<noteq> []"
  shows "\<exists>i < length cur. has_prefix (drop i (cur @ t)) old"
proof -
  from assms(1) obtain a b where "cur = a @ old @ b" by (auto simp: sublist_def)
  with assms(2) show ?thesis by (intro exI [of _ "length a"]) (auto simp: has_prefix_iff)
qed

lemma split_sub_clean:
  "old \<noteq> [] \<Longrightarrow> \<forall>i < length cur. \<not> has_prefix (drop i (cur @ t)) old \<Longrightarrow> p \<in> set (split_sub old cur t) \<Longrightarrow> \<not> sublist old p"
proof (induction old cur t rule: split_sub.induct)
  case (1 old cur t)
  have own: "\<not> sublist old cur" using sublist_in_prefix [of old cur t] 1(3,4) by blast
  show ?case
  proof (cases t)
    case Nil
    with 1(5) own show ?thesis by (simp add: split_sub.simps)
  next
    case (Cons c cs)
    show ?thesis
    proof (cases "old \<noteq> [] \<and> has_prefix t old")
      case True
      then have "p = cur \<or> p \<in> set (split_sub old [] (drop (length old) t))"
        using 1(5) Cons by (subst (asm) split_sub.simps) auto
      with own 1(1) [OF Cons True] 1(3) show ?thesis by auto
    next
      case False
      then have "p \<in> set (split_sub old (cur @ [c]) cs)"
        using 1(5) Cons by (subst (asm) split_sub.simps) auto
      moreover have "\<forall>i < length (cur @ [c]). \<not> has_prefix (drop i ((cur @ [c]) @ cs)) old"
      proof (intro allI impI)
        fix i assume "i < length (cur @ [c])"
        then consider "i < length cur" | "i = length cur" by fastforce
        then show "\<not> has_prefix (drop i ((cur @ [c]) @ cs)) old"
        proof cases
          case 1
          with \<open>\<forall>i < length cur. \<not> has_prefix (drop i (cur @ t)) old\<close> Cons show ?thesis by simp
        next
          case 2
          with False Cons 1(3) show ?thesis by simp
        qed
      qed
      ultimately show ?thesis using 1(2) [OF Cons False 1(3)] by blast
    qed
  qed
qed

lemma sublist_split:
  assumes "sublist s (a @ x # b)" "x \<notin> set s"
  shows "sublist s a \<or> sublist s b"
proof -
  from assms(1) obtain u v where "a @ x # b = u @ s @ v" by (auto simp: sublist_def)
  then obtain w where "(a = u @ w \<and> w @ x # b = s @ v) \<or> (a @ w = u \<and> x # b = w @ s @ v)"
    by (auto simp: append_eq_append_conv2)
  then show ?thesis
  proof
    assume l: "a = u @ w \<and> w @ x # b = s @ v"
    then obtain z where "(w = s @ z \<and> z @ x # b = v) \<or> (w @ z = s \<and> x # b = z @ v)"
      by (auto simp: append_eq_append_conv2)
    with l assms(2) have "\<exists>z. w = s @ z" by (cases z) auto
    with l show ?thesis by (auto simp: sublist_def)
  next
    assume r: "a @ w = u \<and> x # b = w @ s @ v"
    show ?thesis
    proof (cases w)
      case Nil
      with r assms(2) have "s = []" by (cases s) auto
      then show ?thesis by simp
    next
      case (Cons y w')
      with r show ?thesis by (auto simp: sublist_def)
    qed
  qed
qed

section \<open>Redaction\<close>

text \<open>A secret that cannot be confused with the mark that is put in its place.\<close>

definition distinct_from_mark :: "string \<Rightarrow> bool" where
  "distinct_from_mark s =
     (s \<noteq> [] \<and> CHR ''['' \<notin> set s \<and> CHR '']'' \<notin> set s \<and> \<not> sublist s ''REDACTED'')"

lemma joined_by_mark:
  assumes "distinct_from_mark s"
  shows "sublist s (join_with redaction_mark ps) \<Longrightarrow> \<exists>p \<in> set ps. sublist s p"
proof (induction redaction_mark ps rule: join_with.induct)
  case 1
  with assms show ?case by (simp add: distinct_from_mark_def)
next
  case (3 p q ps)
  have mark: "redaction_mark = CHR ''['' # ''REDACTED'' @ [CHR '']'']" by (simp add: redaction_mark_def)
  have out: "CHR ''['' \<notin> set s" "CHR '']'' \<notin> set s" "\<not> sublist s ''REDACTED''"
    using assms by (simp_all add: distinct_from_mark_def)
  let ?rest = "join_with redaction_mark (q # ps)"
  have "join_with redaction_mark (p # q # ps) = p @ CHR ''['' # (''REDACTED'' @ CHR '']'' # ?rest)"
    by (simp add: mark)
  with 3(2) have "sublist s (p @ CHR ''['' # (''REDACTED'' @ CHR '']'' # ?rest))" by (simp only:)
  then have "sublist s p \<or> sublist s (''REDACTED'' @ CHR '']'' # ?rest)" by (rule sublist_split) (rule out(1))
  moreover have "sublist s ?rest" if "sublist s (''REDACTED'' @ CHR '']'' # ?rest)"
    using sublist_split [OF that out(2)] out(3) by blast
  ultimately have "sublist s p \<or> sublist s ?rest" by blast
  with 3(1) show ?case by auto
qed simp

lemma replace_keeps_clean:
  "distinct_from_mark s \<Longrightarrow> \<not> sublist s t \<Longrightarrow> \<not> sublist s (replace_all v redaction_mark t)"
  using joined_by_mark split_sub_pieces unfolding replace_all_def by (metis append_Nil sublist_order.order_trans)

lemma replace_cleans: "distinct_from_mark s \<Longrightarrow> \<not> sublist s (replace_all s redaction_mark t)"
  using joined_by_mark [of s "split_sub s [] t"] split_sub_clean [of s "[]" t]
  by (auto simp: replace_all_def distinct_from_mark_def)

lemma fold_keeps_clean:
  "distinct_from_mark s \<Longrightarrow> \<not> sublist s t \<Longrightarrow> \<not> sublist s (fold (\<lambda>v t. replace_all v redaction_mark t) vs t)"
  by (induction vs arbitrary: t) (auto simp: replace_keeps_clean)

lemma fold_cleans:
  "distinct_from_mark s \<Longrightarrow> s \<in> set vs \<Longrightarrow> \<not> sublist s (fold (\<lambda>v t. replace_all v redaction_mark t) vs t)"
  by (induction vs arbitrary: t) (auto simp: replace_cleans fold_keeps_clean)

lemma redact_cleans:
  "s \<in> set (request_secrets r) \<Longrightarrow> distinct_from_mark s \<Longrightarrow> \<not> sublist s (redact text r)"
  unfolding redact_def by (rule fold_cleans) (auto simp: redacted_values_def distinct_from_mark_def)


text \<open>A request whose repository password shows up in an error of restic.\<close>

definition sample_request :: restic_request where
  "sample_request =
     zero_request\<lparr>rq_version := 1, rq_operation := ''backup'', rq_connection := LocalConnection ''/srv/backup'',
       rq_password := ''hunter2'', rq_root := ''/srv'', rq_paths := [''/srv/data''], rq_host := ''web'',
       rq_tags := [''run''], rq_excludes := [''*.tmp''], rq_timeout_seconds := 3600\<rparr>"

lemma sample_redacted: "redact ''bad password hunter2!'' sample_request = ''bad password [REDACTED]!''"
  by code_simp


section \<open>Output within its bounds\<close>

text \<open>What is kept of a stream with a limit and a tail: its start and its end.\<close>

definition kept_text :: "nat \<Rightarrow> nat \<Rightarrow> string \<Rightarrow> string" where
  "kept_text limit tail whole =
     (if length whole \<le> limit then whole else take (limit - tail) whole @ drop (length whole - tail) whole)"

definition kept_state :: "nat \<Rightarrow> bool \<Rightarrow> nat \<Rightarrow> string \<Rightarrow> bounded_output" where
  "kept_state limit cancels tail whole =
     (new_output limit cancels tail)\<lparr>bo_data := take (limit - tail) whole,
       bo_tail := drop (max (limit - tail) (length whole - tail)) whole, bo_dropped := length whole - limit,
       bo_overflow := limit < length whole\<rparr>"

lemma write_kept:
  assumes "0 < tail" "tail \<le> limit"
  shows "fst (write_bounded p (kept_state limit cancels tail whole)) = kept_state limit cancels tail (whole @ p)"
proof -
  define K where "K = limit - tail"
  have limit: "limit = K + tail" using assms K_def by simp
  show ?thesis
  proof (cases "length whole \<le> K")
    case True
    then have "max K (length whole - tail) = K" by simp
    with True show ?thesis using assms(1)
      by (auto simp: write_bounded_def kept_state_def new_output_def Let_def limit max_def
          intro!: arg_cong [where f = "\<lambda>n. drop n p"])
  next
    case False
    then show ?thesis using assms(1)
      by (auto simp: write_bounded_def kept_state_def new_output_def Let_def limit max_def
          intro!: arg_cong [where f = "\<lambda>n. drop n whole"])
  qed
qed

text \<open>C24: Bounds. Whatever the pieces a process writes its output in, a backup keeps the whole of it within the
  limit, and otherwise its start and its end, and counts every byte in between as dropped.\<close>
theorem output_kept_exact:
  assumes "0 < tail" "tail \<le> limit"
  shows "let b = fold (\<lambda>p b. fst (write_bounded p b)) ps (new_output limit cancels tail); whole = concat ps
    in bounded_text b = kept_text limit tail whole \<and> length (bounded_text b) \<le> limit
      \<and> bo_dropped b + length (bounded_text b) = length whole \<and> bo_overflow b = (limit < length whole)"
proof -
  have "fold (\<lambda>p b. fst (write_bounded p b)) ps (kept_state limit cancels tail whole)
      = kept_state limit cancels tail (whole @ concat ps)" for whole
    by (induction ps arbitrary: whole) (simp_all add: write_kept [OF assms])
  from this [of "[]"] have "fold (\<lambda>p b. fst (write_bounded p b)) ps (new_output limit cancels tail)
      = kept_state limit cancels tail (concat ps)" by (simp add: kept_state_def new_output_def)
  moreover have "bounded_text (kept_state limit cancels tail whole) = kept_text limit tail whole" for whole
  proof (cases "length whole \<le> limit")
    case True
    then have "max (limit - tail) (length whole - tail) = limit - tail" by simp
    with True show ?thesis by (simp add: bounded_text_def kept_state_def kept_text_def new_output_def)
  next
    case False
    then have "max (limit - tail) (length whole - tail) = length whole - tail" by simp
    with False show ?thesis by (simp add: bounded_text_def kept_state_def kept_text_def new_output_def)
  qed
  ultimately show ?thesis using assms by (simp add: kept_text_def kept_state_def Let_def)
qed

lemma output_kept_exact_witness:
  "bounded_text (fold (\<lambda>p b. fst (write_bounded p b)) [''abc'', ''defgh'', ''ij''] (new_output 6 False 2)) = ''abcdij''"
  using output_kept_exact [of 2 6 "[''abc'', ''defgh'', ''ij'']" False] by (simp add: Let_def kept_text_def)

section \<open>The arguments of a backup\<close>

lemma exclude_state_found:
  "''--'' \<notin> set front \<Longrightarrow> exclude_state state (front @ ''--'' # rest) = front @ [''--exclude'', state, ''--''] @ rest"
  by (induction front) auto

lemma show_wait_no_dashes: "show_wait n \<noteq> ''--''"
proof
  assume dashes: "show_wait n = ''--''"
  have "last (show_wait n) = CHR ''s''" by (simp add: show_wait_def Let_def)
  then show "False" by (simp add: dashes)
qed

text \<open>The values of a request that stand between its options.\<close>

definition option_values :: "restic_request \<Rightarrow> string \<Rightarrow> string \<Rightarrow> prepared_repository \<Rightarrow> string list" where
  "option_values r passwordFile cache p =
     passwordFile # cache # pr_repository p # pr_options p @ rq_host r # rq_tags r @ rq_excludes r
     @ (case rq_connection r of LocalConnection path \<Rightarrow> [path] | _ \<Rightarrow> [])"

text \<open>C25: Safety. A backup that is accepted has one to a hundred targets, all below its root, and restic gets them
  behind its options, of which the exclusion of the state directory is the last one. This needs that no
  value between the options is two dashes, which the checks let a tag, a host and an exclusion be.\<close>
theorem backup_targets_behind_options:
  assumes "argumentsPrepared m r passwordFile newPasswordFile cache p = Inr (args, env)" "rq_operation r = ''backup''"
    and "''--'' \<notin> set (option_values r passwordFile cache p)"
  shows "\<exists>options targets. final_arguments state configFile r args = options @ [''--exclude'', state, ''--''] @ targets
    \<and> ''--'' \<notin> set options \<and> targets \<noteq> [] \<and> length targets \<le> 100
    \<and> (\<forall>t \<in> set targets. source_path_ok (rq_root r) t)"
proof -
  let ?targets = "if rq_paths r = [] then [clean_path (rq_root r)] else rq_paths r"
  obtain base more where b: "baseArgumentsPrepared r passwordFile cache p = Inr (base, common_environment cache)"
    and m: "backup_arguments r cache = Inr more" and args: "args = base @ more"
    using assms(1,2) by (auto simp: argumentsPrepared_def operation_arguments_def baseArgumentsPrepared_def
        split: if_splits sum.splits)
  have base: "base = common_arguments r passwordFile cache (pr_repository p) (pr_options p)"
    using b by (simp add: baseArgumentsPrepared_def split: if_splits)
  obtain front where more: "more = front @ ''--'' # ?targets" and front: "front =
      [''backup'', ''--json'', ''--one-file-system'', ''--no-scan''] @ host_arguments (rq_host r)
      @ [''--exclude'', cache]
      @ (case rq_connection r of LocalConnection path \<Rightarrow> [''--exclude'', path] | _ \<Rightarrow> [])
      @ tag_arguments (rq_tags r) @ concat (map (\<lambda>e. [''--exclude'', e]) (rq_excludes r))"
    and t: "length ?targets \<le> 100" "list_all (source_path_ok (rq_root r)) ?targets"
    using m by (simp add: backup_arguments_def Let_def split: if_splits)
  have "''--'' \<notin> set base" using assms(3) not_sym [OF show_wait_no_dashes]
    by (auto simp: base common_arguments_def appendRepositoryOptions_def option_values_def)
  moreover have "''--'' \<notin> set front" using assms(3)
    by (auto simp: front host_arguments_def tag_arguments_def option_values_def split: connection.splits)
  ultimately have "exclude_state state ((base @ front) @ ''--'' # ?targets)
      = (base @ front) @ [''--exclude'', state, ''--''] @ ?targets" by (intro exclude_state_found) simp
  moreover have "final_arguments state configFile r args = exclude_state state ((base @ front) @ ''--'' # ?targets)"
    by (simp add: final_arguments_def assms(2) args more)
  ultimately show ?thesis
    using t \<open>''--'' \<notin> set base\<close> \<open>''--'' \<notin> set front\<close>
    by (intro exI [of _ "base @ front"] exI [of _ ?targets]) (auto simp: list_all_iff)
qed


lemma backup_targets_behind_options_witness:
  "\<exists>args env options targets. argumentsPrepared \<lparr>mc_directory = \<lambda>_. True, mc_processors = 4\<rparr> sample_request ''/w/password'' []
      ''/s/cache'' \<lparr>pr_repository = ''/srv/backup'', pr_options = []\<rparr> = Inr (args, env)
    \<and> final_arguments ''/s'' [] sample_request args = options @ [''--exclude'', ''/s'', ''--''] @ targets
    \<and> source_path_ok ''/srv'' (hd targets)"
proof -
  let ?m = "\<lparr>mc_directory = \<lambda>_. True, mc_processors = 4\<rparr>"
  let ?p = "\<lparr>pr_repository = ''/srv/backup'', pr_options = []\<rparr>"
  have "is_inl (argumentsPrepared ?m sample_request ''/w/password'' [] ''/s/cache'' ?p) = False" by code_simp
  then obtain args env where a: "argumentsPrepared ?m sample_request ''/w/password'' [] ''/s/cache'' ?p = Inr (args, env)"
    by (cases "argumentsPrepared ?m sample_request ''/w/password'' [] ''/s/cache'' ?p") (auto simp: is_inl_def)
  have "rq_operation sample_request = ''backup''" "rq_root sample_request = ''/srv''" by (simp_all add: sample_request_def)
  moreover have "''--'' \<notin> set (option_values sample_request ''/w/password'' ''/s/cache'' ?p)"
    by (simp add: option_values_def sample_request_def zero_request_def)
  ultimately obtain options targets where "final_arguments ''/s'' [] sample_request args = options @ [''--exclude'', ''/s'', ''--''] @ targets"
    "targets \<noteq> []" "\<forall>t \<in> set targets. source_path_ok ''/srv'' t"
    using backup_targets_behind_options [OF a, of "''/s''" "[]"] by auto
  with a show ?thesis by (intro exI conjI) auto
qed

text \<open>With an exclusion that is two dashes, the state directory is no exclusion but a path behind one.\<close>

lemma dashes_add_state:
  "''--'' \<notin> set front \<Longrightarrow>
   exclude_state state (front @ [''--exclude'', ''--'', ''--''] @ targets)
     = front @ [''--exclude'', ''--exclude'', state, ''--'', ''--''] @ targets"
  using exclude_state_found [of "front @ [''--exclude'']" state "''--'' # targets"] by simp

end
