(* ===== verification/Updater.thy ===== *)
theory Updater
  imports Finishing
begin

text \<open>
  The helper that replaces the agent's package (updater/updater.go, updater/state.go). It runs as its own
  process and may be killed at any point; what it has to remember is in files of the state directory. The
  package manager, the readiness file the new agent writes, the clock and the outcome of every write answer
  from outside, by the number of the call.
\<close>

section \<open>Data\<close>

datatype 'a stored = Missing | Unreadable | Holds 'a

record readiness =
  rd_command_id :: string
  rd_run_id :: string
  rd_version :: string

record durable_state =
  ds_request :: update_request
  ds_previous :: string
  ds_phase :: string
  ds_diagnostic :: string

datatype lock_outcome = LockFree | LockHeld | LockFailed

datatype wait_end = TimedOut | ContextEnded string

text \<open>\<open>Inl\<close> and \<open>Some\<close> hold the text of an error.\<close>

record updater_env =
  ue_lock :: lock_outcome
  ue_secure :: bool
  ue_manager :: "string option"
  ue_version :: "nat \<Rightarrow> string + string"
  ue_refresh :: "nat \<Rightarrow> string option"
  ue_available :: "nat \<Rightarrow> string \<Rightarrow> string option"
  ue_install :: "nat \<Rightarrow> string \<Rightarrow> string option"
  ue_downgrade :: "nat \<Rightarrow> string \<Rightarrow> string option"
  ue_polls :: "nat \<Rightarrow> readiness option list"
  ue_wait_end :: "nat \<Rightarrow> wait_end"
  ue_write :: "nat \<Rightarrow> bool"
  ue_remove :: "nat \<Rightarrow> bool"
  ue_clock :: "nat \<Rightarrow> time"

datatype update_action =
    Refreshed
  | Available string
  | Saved durable_state
  | InstallTried string
  | DowngradeTried string
  | Ready string
  | Reported agent_update_result

text \<open>The files, and what was done so far.\<close>

record updater =
  up_tick :: nat
  up_log :: "update_action list"
  up_request :: "update_request stored"
  up_state :: "durable_state stored"
  up_result :: "agent_update_result option"

datatype updater_error =
    LockError | RequestUnsafe | RequestInvalid | RequestUnreadable | StateMismatch | StateUnreadable | PhaseInvalid
  | WriteFailed | RemoveFailed | VersionPanic | ReadinessInvalid

definition up_step :: "updater \<Rightarrow> updater" where
  "up_step u = u\<lparr>up_tick := Suc (up_tick u)\<rparr>"

definition did :: "update_action \<Rightarrow> updater \<Rightarrow> updater" where
  "did a u = u\<lparr>up_log := up_log u @ [a]\<rparr>"

section \<open>Versions and requests\<close>

definition version_ok :: "string \<Rightarrow> bool" where
  "version_ok s =
     (let parts = split_on (CHR ''.'') s
      in length parts = 3
         \<and> list_all (\<lambda>p. p \<noteq> [] \<and> list_all is_digit p \<and> (p = ''0'' \<or> hd p \<noteq> CHR ''0'')) parts)"

definition validateRequest :: "update_request \<Rightarrow> bool" where
  "validateRequest r =
     (is_ulid (ur_command_id r) \<and> is_ulid (ur_run_id r) \<and> ur_generation r \<noteq> 0 \<and> version_ok (ur_previous_version r)
      \<and> version_ok (ur_target_version r) \<and> ur_started_at r \<noteq> [])"

definition WriteReadiness :: "bool \<Rightarrow> readiness \<Rightarrow> updater_error option" where
  "WriteReadiness written r =
     (if \<not> is_ulid (rd_command_id r) \<or> \<not> is_ulid (rd_run_id r) \<or> \<not> version_ok (rd_version r)
      then Some ReadinessInvalid else if \<not> written then Some WriteFailed else None)"

text \<open>The request file: its attributes (a regular file of mode 0600, of the service user, within its size), what
  it holds, and the checks of its values.\<close>

definition readSecureRequest :: "bool \<Rightarrow> update_request stored \<Rightarrow> updater_error + update_request" where
  "readSecureRequest secure f =
     (case f of
        Missing \<Rightarrow> Inl RequestUnreadable
      | Unreadable \<Rightarrow> Inl (if secure then RequestUnreadable else RequestUnsafe)
      | Holds r \<Rightarrow> if \<not> secure then Inl RequestUnsafe else if validateRequest r then Inr r else Inl RequestInvalid)"

definition sameRequest :: "update_request \<Rightarrow> update_request \<Rightarrow> bool" where
  "sameRequest a b =
     (ur_command_id a = ur_command_id b \<and> ur_run_id a = ur_run_id b \<and> ur_generation a = ur_generation b
      \<and> ur_target_version a = ur_target_version b \<and> ur_started_at a = ur_started_at b)"

text \<open>\<open>strconv.Atoi\<close> with its error ignored: zero for a text that is no number, and the nearest limit for one
  that is too large. A version has no part that begins with a sign unless the package manager says so.\<close>

definition atoi_or_limit :: "string \<Rightarrow> int" where
  "atoi_or_limit s =
     (let negative = has_prefix s ''-''; body = (if negative \<or> has_prefix s ''+'' then tl s else s);
          value = int (digits_val body)
      in if body = [] \<or> \<not> list_all is_digit body then 0
         else if negative then max (- (2 ^ 63)) (- value) else min (2 ^ 63 - 1) value)"

fun compare_parts :: "nat \<Rightarrow> string list \<Rightarrow> string list \<Rightarrow> int option" where
  "compare_parts 0 ls rs = Some 0"
| "compare_parts (Suc n) (l # ls) (r # rs) =
     (if atoi_or_limit l < atoi_or_limit r then Some (-1)
      else if atoi_or_limit r < atoi_or_limit l then Some 1
      else compare_parts n ls rs)"
| "compare_parts (Suc n) _ _ = None"

text \<open>Reading a part that is not there is a panic, \<open>None\<close>.\<close>

definition compareVersions :: "string \<Rightarrow> string \<Rightarrow> int option" where
  "compareVersions left right = compare_parts 3 (split_on (CHR ''.'') left) (split_on (CHR ''.'') right)"

definition update_diagnostic :: "string \<Rightarrow> string" where
  "update_diagnostic err = take 4096 err"

section \<open>Files\<close>

definition write_state :: "updater_env \<Rightarrow> durable_state \<Rightarrow> updater \<Rightarrow> updater_error option \<times> updater" where
  "write_state env s u =
     (if ue_write env (up_tick u) then (None, did (Saved s) (up_step u\<lparr>up_state := Holds s\<rparr>))
      else (Some WriteFailed, up_step u))"

definition writeTerminal ::
  "updater_env \<Rightarrow> update_request \<Rightarrow> string \<Rightarrow> string \<Rightarrow> string \<Rightarrow> string \<Rightarrow> updater \<Rightarrow> updater_error option \<times> updater" where
  "writeTerminal env r status code installed diagnostic u =
     (let finished = ue_clock env (up_tick u); u = up_step u;
          result = \<lparr>ar_generation = ur_generation r, ar_run_id = ur_run_id r, ar_status = status, ar_result_code = code,
            ar_previous_version = ur_previous_version r, ar_target_version = ur_target_version r,
            ar_installed_version = installed, ar_started_at = ur_started_at r,
            ar_finished_at = protocolTimestamp finished, ar_diagnostic = diagnostic\<rparr>
      in if \<not> ue_write env (up_tick u) then (Some WriteFailed, up_step u)
         else
           (let u = did (Reported result) (up_step u\<lparr>up_result := Some result\<rparr>)
            in if \<not> ue_remove env (up_tick u) then (Some RemoveFailed, up_step u)
               else
                 (let u = up_step (u\<lparr>up_request := Missing\<rparr>); u = up_step u
                  in (None, up_step (if ue_remove env (up_tick u) then u\<lparr>up_state := Missing\<rparr> else u)))))"

definition writeFailure ::
  "updater_env \<Rightarrow> update_request \<Rightarrow> string \<Rightarrow> string \<Rightarrow> string \<Rightarrow> updater \<Rightarrow> updater_error option \<times> updater" where
  "writeFailure env r code installed err u = writeTerminal env r ''failed'' code installed (update_diagnostic err) u"

section \<open>Steps\<close>

text \<open>The readiness file is read again and again until it names this run and the version, or the time is over.\<close>

definition waitForReadiness :: "updater_env \<Rightarrow> update_request \<Rightarrow> string \<Rightarrow> updater \<Rightarrow> string option \<times> updater" where
  "waitForReadiness env r version u =
     (let found = list_ex (\<lambda>f. case f of None \<Rightarrow> False
             | Some x \<Rightarrow> rd_command_id x = ur_command_id r \<and> rd_run_id x = ur_run_id r \<and> rd_version x = version)
           (ue_polls env (up_tick u))
      in if found then (None, did (Ready version) (up_step u))
         else (Some (case ue_wait_end env (up_tick u) of
                 TimedOut \<Rightarrow> ''agent readiness timed out for version '' @ version
               | ContextEnded text' \<Rightarrow> text'), up_step u))"

definition up_join :: "string \<Rightarrow> string \<Rightarrow> string" where
  "up_join a b = a @ [CHR 0x0A] @ b"

definition downgrade :: "updater_env \<Rightarrow> string \<Rightarrow> updater \<Rightarrow> string option \<times> updater" where
  "downgrade env version u =
     (ue_downgrade env (up_tick u) version, did (DowngradeTried version) (up_step u))"

definition rollback ::
  "updater_env \<Rightarrow> update_request \<Rightarrow> string \<Rightarrow> string \<Rightarrow> updater \<Rightarrow> updater_error option \<times> updater" where
  "rollback env r previous cause u =
     (case write_state env \<lparr>ds_request = r, ds_previous = previous, ds_phase = ''rolling_back'',
              ds_diagnostic = update_diagnostic cause\<rparr> (up_step u) of
        (Some e, u) \<Rightarrow> (Some e, u)
      | (None, u) \<Rightarrow>
          (case downgrade env previous u of
             (Some err, u) \<Rightarrow> writeFailure env r ''rollback_failed'' (ur_target_version r) (up_join cause err) u
           | (None, u) \<Rightarrow>
               (case waitForReadiness env r previous u of
                  (Some err, u) \<Rightarrow> writeFailure env r ''rollback_failed'' previous (up_join cause err) u
                | (None, u) \<Rightarrow>
                    writeTerminal env r ''failed'' ''readiness_failed_rolled_back'' previous (update_diagnostic cause) u)))"

definition resume_wait :: "updater_env \<Rightarrow> durable_state \<Rightarrow> updater \<Rightarrow> updater_error option \<times> updater" where
  "resume_wait env s u =
     (case waitForReadiness env (ds_request s) (ds_previous s) u of
        (Some err, u) \<Rightarrow> writeFailure env (ds_request s) ''rollback_failed'' (ds_previous s) err u
      | (None, u) \<Rightarrow>
          writeTerminal env (ds_request s) ''failed'' ''readiness_failed_rolled_back'' (ds_previous s) (ds_diagnostic s) u)"

definition resumeRollback :: "updater_env \<Rightarrow> durable_state \<Rightarrow> string \<Rightarrow> updater \<Rightarrow> updater_error option \<times> updater" where
  "resumeRollback env s installed u =
     (if installed = ds_previous s then resume_wait env s u
      else (case downgrade env (ds_previous s) (up_step u) of
              (Some err, u) \<Rightarrow> writeFailure env (ds_request s) ''rollback_failed'' installed err u
            | (None, u) \<Rightarrow> resume_wait env s u))"

definition await_target ::
  "updater_env \<Rightarrow> update_request \<Rightarrow> string \<Rightarrow> updater \<Rightarrow> updater_error option \<times> updater" where
  "await_target env r previous u =
     (case waitForReadiness env r (ur_target_version r) u of
        (None, u) \<Rightarrow> writeTerminal env r ''complete'' ''success'' (ur_target_version r) [] u
      | (Some err, u) \<Rightarrow> rollback env r previous err u)"

definition install_target ::
  "updater_env \<Rightarrow> update_request \<Rightarrow> string \<Rightarrow> updater \<Rightarrow> updater_error option \<times> updater" where
  "install_target env r installed u =
     (let failed = ue_install env (up_tick u) (ur_target_version r);
          u = did (InstallTried (ur_target_version r)) (up_step u)
      in case failed of
           None \<Rightarrow> await_target env r installed u
         | Some err \<Rightarrow>
             (case (ue_version env (up_tick u), up_step u) of
                (Inr current, u) \<Rightarrow>
                  if current \<noteq> installed then rollback env r installed (''target installation failed: '' @ err) u
                  else writeFailure env r ''installation_failed'' installed err u
              | (Inl _, u) \<Rightarrow> writeFailure env r ''installation_failed'' installed err u))"

text \<open>The checks before the installation.\<close>

definition check_available ::
  "updater_env \<Rightarrow> string \<Rightarrow> updater \<Rightarrow> string option \<times> updater" where
  "check_available env version u =
     (case ue_available env (up_tick u) version of
        Some err \<Rightarrow> (Some err, up_step u)
      | None \<Rightarrow> (None, did (Available version) (up_step u)))"

definition preflight ::
  "updater_env \<Rightarrow> update_request \<Rightarrow> string \<Rightarrow> updater \<Rightarrow> updater_error option \<times> updater" where
  "preflight env r installed u =
     (let state = \<lparr>ds_request = r, ds_previous = installed, ds_phase = ''preflight'', ds_diagnostic = []\<rparr>;
          failure = writeFailure env r ''preflight_failed'' installed
      in case write_state env state u of
           (Some e, u) \<Rightarrow> (Some e, u)
         | (None, u) \<Rightarrow>
             (case (ue_refresh env (up_tick u), up_step u) of
                (Some err, u) \<Rightarrow> failure err u
              | (None, u) \<Rightarrow>
                  (case check_available env (ur_target_version r) (did Refreshed u) of
                     (Some err, u) \<Rightarrow> failure err u
                   | (None, u) \<Rightarrow>
                       (case check_available env installed u of
                          (Some err, u) \<Rightarrow> failure (''previous package is unavailable for rollback: '' @ err) u
                        | (None, u) \<Rightarrow>
                            (case write_state env (state\<lparr>ds_phase := ''installing''\<rparr>) (up_step u) of
                               (Some e, u) \<Rightarrow> (Some e, u)
                             | (None, u) \<Rightarrow> install_target env r installed u)))))"

definition start_update ::
  "updater_env \<Rightarrow> update_request \<Rightarrow> string \<Rightarrow> updater \<Rightarrow> updater_error option \<times> updater" where
  "start_update env r installed u =
     (if installed = ur_target_version r then writeTerminal env r ''complete'' ''already_installed'' installed [] u
      else (case compareVersions (ur_target_version r) installed of
              None \<Rightarrow> (Some VersionPanic, u)
            | Some order \<Rightarrow>
                if order \<le> 0
                then writeFailure env r ''target_not_newer'' installed
                       ''target version is not newer than the installed package'' u
                else preflight env r installed u))"

text \<open>A state that was left behind is taken up where it was.\<close>

definition resume_update ::
  "updater_env \<Rightarrow> durable_state \<Rightarrow> string \<Rightarrow> updater \<Rightarrow> updater_error option \<times> updater" where
  "resume_update env s installed u =
     (let r = ds_request s
      in if ds_phase s = ''installing'' then
           (if installed = ur_target_version r then await_target env r (ds_previous s) u
            else if installed \<noteq> ds_previous s
            then rollback env r (ds_previous s) (''interrupted installation left unexpected package version '' @ installed) u
            else start_update env r installed u)
         else if ds_phase s = ''rolling_back'' then resumeRollback env s installed u
         else if ds_phase s = ''preflight'' then start_update env r installed u
         else (Some PhaseInvalid, u))"

definition updater_main :: "updater_env \<Rightarrow> updater \<Rightarrow> updater_error option \<times> updater" where
  "updater_main env u =
     (case ue_lock env of
        LockHeld \<Rightarrow> (None, u)
      | LockFailed \<Rightarrow> (Some LockError, u)
      | LockFree \<Rightarrow>
          (case readSecureRequest (ue_secure env) (up_request u) of
             Inl e \<Rightarrow> (Some e, u)
           | Inr r \<Rightarrow>
               (case ue_manager env of
                  Some err \<Rightarrow> writeFailure env r ''preflight_failed'' (ur_previous_version r) err u
                | None \<Rightarrow>
                    (case (ue_version env (up_tick u), up_step u) of
                       (Inl err, u) \<Rightarrow> writeFailure env r ''preflight_failed'' (ur_previous_version r) err u
                     | (Inr installed, u) \<Rightarrow>
                         (case up_state u of
                            Holds s \<Rightarrow>
                              if \<not> sameRequest (ds_request s) r then (Some StateMismatch, u)
                              else resume_update env s installed u
                          | Unreadable \<Rightarrow> (Some StateUnreadable, u)
                          | Missing \<Rightarrow> start_update env (r\<lparr>ur_previous_version := installed\<rparr>) installed u)))))"

end
