(* ===== verification/UpdaterFacts.thy ===== *)
theory UpdaterFacts
  imports Updater
begin

text \<open>
  What the update helper guarantees: when it installs a package, and what its result says.
\<close>

section \<open>The log\<close>

text \<open>The log grew by actions none of which tries an installation.\<close>

definition quiet :: "updater \<Rightarrow> updater \<Rightarrow> bool" where
  "quiet u u' = (\<exists>as. up_log u' = up_log u @ as \<and> (\<forall>v. InstallTried v \<notin> set as))"

lemma quiet_refl [simp]: "quiet u u"
  by (simp add: quiet_def)

lemma quiet_trans: "quiet u v \<Longrightarrow> quiet v w \<Longrightarrow> quiet u w"
  by (auto simp: quiet_def)

lemma quiet_same: "up_log u' = up_log u \<Longrightarrow> quiet u u'"
  by (simp add: quiet_def)

lemma quiet_did: "(\<forall>v. a \<noteq> InstallTried v) \<Longrightarrow> up_log u' = up_log u @ [a] \<Longrightarrow> quiet u u'"
  by (auto simp: quiet_def)

lemma write_state_effect:
  "write_state env s u = (e, u') \<Longrightarrow> quiet u u' \<and> up_request u' = up_request u \<and>
     (e = None \<longrightarrow> up_log u' = up_log u @ [Saved s])"
  by (auto simp: write_state_def up_step_def did_def quiet_def split: if_splits)

lemma terminal_effect:
  "writeTerminal env r st code inst diag u = (e, u') \<Longrightarrow> quiet u u' \<and> set (up_log u) \<subseteq> set (up_log u') \<and>
     (e = None \<longrightarrow> up_request u' = Missing \<and> (\<exists>res. up_result u' = Some res \<and> ar_run_id res = ur_run_id r
        \<and> ar_generation res = ur_generation r \<and> ar_target_version res = ur_target_version r \<and> ar_status res = st
        \<and> ar_result_code res = code \<and> ar_installed_version res = inst))"
  by (auto simp: writeTerminal_def up_step_def did_def quiet_def Let_def split: if_splits)

lemma wait_effect:
  "waitForReadiness env r v u = (e, u') \<Longrightarrow> quiet u u' \<and> (e = None \<longrightarrow> Ready v \<in> set (up_log u'))"
  by (auto simp: waitForReadiness_def up_step_def did_def quiet_def Let_def split: if_splits)

lemma downgrade_effect: "downgrade env v u = (e, u') \<Longrightarrow> quiet u u'"
  by (auto simp: downgrade_def up_step_def did_def quiet_def)

lemma check_effect:
  "check_available env v u = (e, u') \<Longrightarrow> quiet u u' \<and> (e = None \<longrightarrow> up_log u' = up_log u @ [Available v])"
  by (auto simp: check_available_def up_step_def did_def quiet_def split: option.splits)

section \<open>What is reported\<close>

text \<open>The helper ended without an error: its result is there, the request is gone, and a result that is
  complete names the target, whose agent was ready unless it was installed already.\<close>

definition ends :: "update_request \<Rightarrow> updater_error option \<times> updater \<Rightarrow> bool" where
  "ends r x =
     (case x of (e, u) \<Rightarrow> e = None \<longrightarrow>
        up_request u = Missing \<and>
        (\<exists>res. up_result u = Some res \<and> ar_run_id res = ur_run_id r \<and> ar_generation res = ur_generation r
           \<and> ar_target_version res = ur_target_version r
           \<and> (ar_status res = ''complete'' \<longrightarrow> ar_installed_version res = ur_target_version r
                \<and> (ar_result_code res = ''already_installed'' \<or> Ready (ur_target_version r) \<in> set (up_log u)))))"

text \<open>A step that tries no installation and ends so.\<close>

definition closes :: "update_request \<Rightarrow> updater \<Rightarrow> updater_error option \<times> updater \<Rightarrow> bool" where
  "closes r u x = (quiet u (snd x) \<and> ends r x)"

lemma closes_after: "quiet u v \<Longrightarrow> closes r v x \<Longrightarrow> closes r u x"
  by (auto simp: closes_def intro: quiet_trans)

lemma closes_error: "quiet u v \<Longrightarrow> closes r u (Some e, v)"
  by (simp add: closes_def ends_def)

lemma terminal_closes:
  assumes "st = ''complete'' \<Longrightarrow> inst = ur_target_version r
    \<and> (code = ''already_installed'' \<or> Ready (ur_target_version r) \<in> set (up_log u))"
  shows "closes r u (writeTerminal env r st code inst diag u)"
proof -
  obtain e u' where w: "writeTerminal env r st code inst diag u = (e, u')" by fastforce
  from terminal_effect [OF w] assms show ?thesis unfolding w closes_def ends_def by auto
qed

lemma failed_closes: "closes r u (writeTerminal env r ''failed'' code inst diag u)"
  by (rule terminal_closes) simp

lemma failure_closes: "closes r u (writeFailure env r code inst err u)"
  unfolding writeFailure_def by (rule failed_closes)

lemma rollback_closes: "closes r u (rollback env r previous cause u)"
proof -
  have s: "quiet u (up_step u)" by (simp add: up_step_def quiet_def)
  obtain e u1 where w: "write_state env \<lparr>ds_request = r, ds_previous = previous, ds_phase = ''rolling_back'',
      ds_diagnostic = update_diagnostic cause\<rparr> (up_step u) = (e, u1)" by fastforce
  have q1: "quiet u u1" using write_state_effect [OF w] s quiet_trans by blast
  show ?thesis
  proof (cases e)
    case (Some f)
    with w q1 show ?thesis by (simp add: rollback_def closes_error)
  next
    case None
    obtain f u2 where d: "downgrade env previous u1 = (f, u2)" by fastforce
    have q2: "quiet u u2" using downgrade_effect [OF d] q1 quiet_trans by blast
    obtain g u3 where wt: "waitForReadiness env r previous u2 = (g, u3)" by fastforce
    have q3: "quiet u u3" using wait_effect [OF wt] q2 quiet_trans by blast
    show ?thesis using w None d wt closes_after [OF q2 failure_closes] closes_after [OF q3 failure_closes]
        closes_after [OF q3 failed_closes]
      by (simp add: rollback_def split: option.split)
  qed
qed

lemma resume_wait_closes: "closes (ds_request s) u (resume_wait env s u)"
proof -
  obtain e u1 where w: "waitForReadiness env (ds_request s) (ds_previous s) u = (e, u1)" by fastforce
  have q: "quiet u u1" using wait_effect [OF w] by blast
  show ?thesis using w closes_after [OF q failure_closes] closes_after [OF q failed_closes]
    by (simp add: resume_wait_def split: option.split)
qed

lemma resume_rollback_closes: "closes (ds_request s) u (resumeRollback env s installed u)"
proof (cases "installed = ds_previous s")
  case True
  then show ?thesis by (simp add: resumeRollback_def resume_wait_closes)
next
  case False
  obtain e u1 where d: "downgrade env (ds_previous s) (up_step u) = (e, u1)" by fastforce
  have "quiet u (up_step u)" by (simp add: up_step_def quiet_def)
  then have q: "quiet u u1" using downgrade_effect [OF d] quiet_trans by blast
  show ?thesis using False d closes_after [OF q failure_closes] closes_after [OF q resume_wait_closes]
    by (simp add: resumeRollback_def split: option.split)
qed

lemma await_closes: "closes r u (await_target env r previous u)"
proof -
  obtain e u1 where w: "waitForReadiness env r (ur_target_version r) u = (e, u1)" by fastforce
  note we = wait_effect [OF w]
  show ?thesis
  proof (cases e)
    case None
    then have "closes r u1 (writeTerminal env r ''complete'' ''success'' (ur_target_version r) [] u1)"
      using we by (intro terminal_closes) simp
    with w None we show ?thesis by (auto simp: await_target_def intro: closes_after)
  next
    case (Some f)
    with w we show ?thesis by (auto simp: await_target_def intro: closes_after rollback_closes)
  qed
qed


section \<open>When a package is installed\<close>

text \<open>The log between two points tries one installation: of the target, after it and the version that is
  installed were found in the repository, and after the state that names them was saved.\<close>

definition prepared :: "update_request \<Rightarrow> string \<Rightarrow> updater \<Rightarrow> updater \<Rightarrow> bool" where
  "prepared r installed u u' =
     (\<exists>before s after. up_log u' = up_log u @ before
        @ [Available (ur_target_version r), Available installed, Saved s, InstallTried (ur_target_version r)] @ after
      \<and> (\<forall>v. InstallTried v \<notin> set before \<union> set after)
      \<and> ds_request s = r \<and> ds_previous s = installed \<and> ds_phase s = ''installing'')"

lemma install_effect:
  assumes "install_target env r installed u = x"
  shows "ends r x \<and> (\<exists>after. up_log (snd x) = up_log u @ [InstallTried (ur_target_version r)] @ after
    \<and> (\<forall>v. InstallTried v \<notin> set after))"
proof -
  let ?u = "did (InstallTried (ur_target_version r)) (up_step u)"
  have "closes r ?u x"
  proof (cases "ue_install env (up_tick u) (ur_target_version r)")
    case None
    with assms show ?thesis by (auto simp: install_target_def await_closes)
  next
    case (Some err)
    have q: "quiet ?u (up_step ?u)" by (simp add: up_step_def quiet_def)
    from Some assms show ?thesis
      using closes_after [OF q failure_closes] closes_after [OF q rollback_closes]
      by (cases "ue_version env (up_tick ?u)") (auto simp: install_target_def Let_def)
  qed
  then show ?thesis by (auto simp: closes_def quiet_def did_def up_step_def)
qed

lemma preflight_effect:
  assumes "preflight env r installed u = x"
  shows "ends r x \<and> (quiet u (snd x) \<or> prepared r installed u (snd x))"
proof -
  let ?state = "\<lparr>ds_request = r, ds_previous = installed, ds_phase = ''preflight'', ds_diagnostic = []\<rparr>"
  obtain e1 u1 where w1: "write_state env ?state u = (e1, u1)" by fastforce
  have q1: "quiet u u1" using write_state_effect [OF w1] by blast
  show ?thesis
  proof (cases e1)
    case (Some f)
    with assms w1 q1 show ?thesis by (auto simp: preflight_def ends_def)
  next
    case e1: None
    have q: "quiet u (up_step u1)" using q1 by (simp add: quiet_def up_step_def)
    show ?thesis
    proof (cases "ue_refresh env (up_tick u1)")
      case (Some err)
      with assms w1 e1 closes_after [OF q failure_closes] show ?thesis by (auto simp: preflight_def closes_def)
    next
      case refreshed: None
      let ?u = "did Refreshed (up_step u1)"
      have q: "quiet u ?u" using q1 by (auto simp: quiet_def up_step_def did_def)
      obtain e2 u2 where c2: "check_available env (ur_target_version r) ?u = (e2, u2)" by fastforce
      have q2: "quiet u u2" using check_effect [OF c2] q quiet_trans by blast
      show ?thesis
      proof (cases e2)
        case (Some err)
        with assms w1 e1 refreshed c2 closes_after [OF q2 failure_closes] show ?thesis
          by (auto simp: preflight_def closes_def)
      next
        case e2: None
        have l2: "up_log u2 = up_log ?u @ [Available (ur_target_version r)]" using check_effect [OF c2] e2 by blast
        obtain e3 u3 where c3: "check_available env installed u2 = (e3, u3)" by fastforce
        have q3: "quiet u u3" using check_effect [OF c3] q2 quiet_trans by blast
        show ?thesis
        proof (cases e3)
          case (Some err)
          with assms w1 e1 refreshed c2 e2 c3 closes_after [OF q3 failure_closes] show ?thesis
            by (auto simp: preflight_def closes_def)
        next
          case e3: None
          have l3: "up_log u3 = up_log u2 @ [Available installed]" using check_effect [OF c3] e3 by blast
          let ?s = "?state\<lparr>ds_phase := ''installing''\<rparr>"
          obtain e4 u4 where w4: "write_state env ?s (up_step u3) = (e4, u4)" by fastforce
          have q4: "quiet u u4" using write_state_effect [OF w4] q3 by (auto simp: quiet_def up_step_def)
          show ?thesis
          proof (cases e4)
            case (Some f)
            with assms w1 e1 refreshed c2 e2 c3 e3 w4 q4 show ?thesis by (auto simp: preflight_def ends_def)
          next
            case e4: None
            have l4: "up_log u4 = up_log u3 @ [Saved ?s]" using write_state_effect [OF w4] e4 by (simp add: up_step_def)
            obtain before where b: "up_log ?u = up_log u @ before" "\<forall>v. InstallTried v \<notin> set before"
              using q by (auto simp: quiet_def)
            have x: "install_target env r installed u4 = x"
              using assms w1 e1 refreshed c2 e2 c3 e3 w4 e4 by (simp add: preflight_def)
            then obtain after where a: "up_log (snd x) = up_log u4 @ [InstallTried (ur_target_version r)] @ after"
              "\<forall>v. InstallTried v \<notin> set after" and done_: "ends r x" using install_effect [OF x] by blast
            have "up_log (snd x) = up_log u @ before
                @ [Available (ur_target_version r), Available installed, Saved ?s, InstallTried (ur_target_version r)] @ after"
              using a(1) l4 l3 l2 b(1) by simp
            moreover have "ds_request ?s = r" "ds_previous ?s = installed" "ds_phase ?s = ''installing''" by simp_all
            ultimately have "prepared r installed u (snd x)"
              unfolding prepared_def using a(2) b(2) by (intro exI [of _ before] exI [of _ ?s] exI [of _ after]) simp
            with done_ show ?thesis by blast
          qed
        qed
      qed
    qed
  qed
qed

text \<open>Whatever the helper does, it is quiet or has prepared the installation of a newer version.\<close>

definition sound :: "update_request \<Rightarrow> updater \<Rightarrow> updater_error option \<times> updater \<Rightarrow> bool" where
  "sound r u x = (ends r x \<and> (quiet u (snd x) \<or>
     (\<exists>installed order. prepared r installed u (snd x) \<and> compareVersions (ur_target_version r) installed = Some order
        \<and> 0 < order)))"

lemma closes_sound: "closes r u x \<Longrightarrow> sound r u x"
  by (simp add: closes_def sound_def)

lemma start_sound: "sound r u (start_update env r installed u)"
proof (cases "installed = ur_target_version r")
  case True
  then show ?thesis
    by (simp add: start_update_def) (intro closes_sound terminal_closes, simp)
next
  case False
  show ?thesis
  proof (cases "compareVersions (ur_target_version r) installed")
    case None
    with False show ?thesis by (simp add: start_update_def closes_sound closes_error)
  next
    case (Some order)
    with False preflight_effect [where env = env and r = r and installed = installed and u = u, OF refl] show ?thesis
      by (auto simp: start_update_def sound_def [of r u "preflight env r installed u"] closes_sound failure_closes)
  qed
qed

lemma resume_sound: "sound (ds_request s) u (resume_update env s installed u)"
  unfolding resume_update_def Let_def
  by (auto intro: closes_sound await_closes rollback_closes resume_rollback_closes closes_error [OF quiet_refl] start_sound)

text \<open>The run acts for the request in its file, or for the one it had begun, which is the same but for the
  version it started from.\<close>

definition acts_for :: "updater \<Rightarrow> update_request \<Rightarrow> bool" where
  "acts_for u r = (\<exists>r0. up_request u = Holds r0 \<and> ur_run_id r = ur_run_id r0 \<and> ur_generation r = ur_generation r0
     \<and> ur_target_version r = ur_target_version r0)"

lemma main_sound:
  assumes "ue_lock env = LockFree"
  shows "(\<exists>f u'. updater_main env u = (Some f, u') \<and> quiet u u') \<or> (\<exists>r. acts_for u r \<and> sound r u (updater_main env u))"
proof (cases "readSecureRequest (ue_secure env) (up_request u)")
  case (Inl f)
  with assms show ?thesis by (simp add: updater_main_def)
next
  case (Inr r)
  then have req: "up_request u = Holds r" by (auto simp: readSecureRequest_def split: stored.splits if_splits)
  then have own: "acts_for u r" "acts_for u (r\<lparr>ur_previous_version := v\<rparr>)" for v by (simp_all add: acts_for_def)
  show ?thesis
  proof (cases "ue_manager env")
    case (Some err)
    with assms Inr own(1) closes_sound [OF failure_closes] show ?thesis by (auto simp: updater_main_def)
  next
    case manager: None
    let ?u = "up_step u"
    have q: "quiet u ?u" by (simp add: up_step_def quiet_def)
    have lift: "sound r' u x" if "sound r' ?u x" for r' x
    proof -
      have "prepared r' i ?u v \<Longrightarrow> prepared r' i u v" for i v by (simp add: prepared_def up_step_def)
      with that show ?thesis using quiet_trans [OF q] unfolding sound_def by blast
    qed
    show ?thesis
    proof (cases "ue_version env (up_tick u)")
      case (Inl err)
      then have "updater_main env u = writeFailure env r ''preflight_failed'' (ur_previous_version r) err ?u"
        using assms Inr manager by (simp add: updater_main_def)
      with own(1) lift closes_sound [OF failure_closes] show ?thesis by metis
    next
      case installed: (Inr installed)
      show ?thesis
      proof (cases "up_state u")
        case Missing
        then have "updater_main env u = start_update env (r\<lparr>ur_previous_version := installed\<rparr>) installed ?u"
          using assms Inr manager installed by (simp add: updater_main_def up_step_def)
        with own(2) lift start_sound show ?thesis by metis
      next
        case Unreadable
        with assms Inr manager installed q show ?thesis by (simp add: updater_main_def up_step_def)
      next
        case (Holds s)
        show ?thesis
        proof (cases "sameRequest (ds_request s) r")
          case True
          then have "updater_main env u = resume_update env s installed ?u"
            using Holds assms Inr manager installed by (simp add: updater_main_def up_step_def)
          moreover have "acts_for u (ds_request s)" using True req by (simp add: acts_for_def sameRequest_def)
          ultimately show ?thesis using lift resume_sound by metis
        next
          case False
          with Holds assms Inr manager installed q show ?thesis by (simp add: updater_main_def up_step_def)
        qed
      qed
    qed
  qed
qed

text \<open>C26: Safety. The update helper tries at most one installation in a run, of the version the request names; and
  only after it found this version and the version that is installed in the repository, and saved the state
  that names both, so that a helper started again can go back.\<close>
theorem install_only_prepared:
  assumes "updater_main env u = (e, u')" "up_log u = []" "InstallTried v \<in> set (up_log u')"
  shows "\<exists>r before installed s after order. acts_for u r \<and> v = ur_target_version r
    \<and> up_log u' = before @ [Available v, Available installed, Saved s, InstallTried v] @ after
    \<and> (\<forall>w. InstallTried w \<notin> set before \<union> set after)
    \<and> ds_request s = r \<and> ds_previous s = installed \<and> ds_phase s = ''installing''
    \<and> compareVersions v installed = Some order \<and> 0 < order"
proof -
  have no: "\<not> quiet u u'" using assms(2,3) by (auto simp: quiet_def)
  have "ue_lock env = LockFree" using assms no by (cases "ue_lock env") (auto simp: updater_main_def)
  from main_sound [OF this, of u] no assms(1) obtain r installed order where r: "acts_for u r"
    "prepared r installed u u'" "compareVersions (ur_target_version r) installed = Some order" "0 < order"
    by (auto simp: sound_def)
  from r(2) assms(2) obtain before s after where l: "up_log u' = before
      @ [Available (ur_target_version r), Available installed, Saved s, InstallTried (ur_target_version r)] @ after"
    "\<forall>w. InstallTried w \<notin> set before \<union> set after"
    "ds_request s = r" "ds_previous s = installed" "ds_phase s = ''installing''"
    by (auto simp: prepared_def)
  moreover have "v = ur_target_version r" using assms(3) l(1,2) by auto
  ultimately show ?thesis using r by blast
qed

text \<open>The result of an update. When the helper ends without an error and had the lock, its result is there for
  the run of the request, and the request is gone; a result that is complete names the target as installed,
  and then the agent of that version has said it is ready, or the version was installed before.\<close>
theorem update_ends_reported:
  assumes "updater_main env u = (None, u')" "ue_lock env = LockFree"
  shows "\<exists>r res. acts_for u r \<and> up_request u' = Missing \<and> up_result u' = Some res
    \<and> ar_run_id res = ur_run_id r \<and> ar_generation res = ur_generation r \<and> ar_target_version res = ur_target_version r
    \<and> (ar_status res = ''complete'' \<longrightarrow> ar_installed_version res = ur_target_version r
         \<and> (ar_result_code res = ''already_installed'' \<or> Ready (ur_target_version r) \<in> set (up_log u')))"
  using main_sound [OF assms(2), of u] assms(1) by (auto simp: sound_def ends_def)


section \<open>A concrete update\<close>

definition sample_update_request :: update_request where
  "sample_update_request =
     \<lparr>ur_command_id = replicate 26 (CHR ''1''), ur_run_id = replicate 26 (CHR ''2''), ur_generation = 1,
      ur_previous_version = ''1.0.0'', ur_target_version = ''1.1.0'', ur_started_at = ''t''\<rparr>"

definition sample_updater_env :: updater_env where
  "sample_updater_env =
     \<lparr>ue_lock = LockFree, ue_secure = True, ue_manager = None, ue_version = (\<lambda>_. Inr ''1.0.0''),
      ue_refresh = (\<lambda>_. None), ue_available = (\<lambda>_ _. None), ue_install = (\<lambda>_ _. None), ue_downgrade = (\<lambda>_ _. None),
      ue_polls = (\<lambda>_. [None, Some \<lparr>rd_command_id = replicate 26 (CHR ''1''), rd_run_id = replicate 26 (CHR ''2''),
        rd_version = ''1.1.0''\<rparr>]),
      ue_wait_end = (\<lambda>_. TimedOut), ue_write = (\<lambda>_. True), ue_remove = (\<lambda>_. True), ue_clock = (\<lambda>_. 0)\<rparr>"

definition sample_updater :: updater where
  "sample_updater =
     \<lparr>up_tick = 0, up_log = [], up_request = Holds sample_update_request, up_state = Missing, up_result = None\<rparr>"

lemma sample_versions: "version_ok ''1.1.0''" "version_ok ''1.0.0''" "compareVersions ''1.1.0'' ''1.0.0'' = Some 1"
  by code_simp+

lemma sample_request_ok: "validateRequest sample_update_request"
  using sample_versions by (simp add: validateRequest_def sample_update_request_def is_ulid_def ulid_alphabet_def list_all_iff)

lemma sample_updated:
  "fst (updater_main sample_updater_env sample_updater) = None \<and>
   InstallTried ''1.1.0'' \<in> set (up_log (snd (updater_main sample_updater_env sample_updater)))"
proof -
  have "updater_main sample_updater_env sample_updater
      = start_update sample_updater_env sample_update_request ''1.0.0'' (up_step sample_updater)"
    using sample_request_ok
    by (simp add: updater_main_def readSecureRequest_def sample_updater_env_def sample_updater_def sample_update_request_def up_step_def)
  then show ?thesis using sample_versions(3)
    by (simp add: start_update_def preflight_def write_state_def check_available_def install_target_def await_target_def
        waitForReadiness_def writeTerminal_def sample_updater_env_def sample_update_request_def did_def up_step_def Let_def)
qed

lemma install_only_prepared_witness:
  "\<exists>s. Saved s \<in> set (up_log (snd (updater_main sample_updater_env sample_updater))) \<and> ds_phase s = ''installing''"
proof -
  obtain e u' where r: "updater_main sample_updater_env sample_updater = (e, u')" by fastforce
  have "InstallTried ''1.1.0'' \<in> set (up_log u')"
    using sample_updated r by simp
  moreover have "up_log sample_updater = []" by (simp add: sample_updater_def)
  ultimately obtain before installed s after where
    "up_log u' = before @ [Available ''1.1.0'', Available installed, Saved s, InstallTried ''1.1.0''] @ after"
    "ds_phase s = ''installing''"
    using install_only_prepared [OF r] by blast
  with r show ?thesis by (intro exI [of _ s]) simp
qed

lemma update_ends_reported_witness:
  "\<exists>res. up_result (snd (updater_main sample_updater_env sample_updater)) = Some res \<and> ar_target_version res = ''1.1.0''"
proof -
  obtain u' where r: "updater_main sample_updater_env sample_updater = (None, u')"
    using sample_updated by (metis prod.collapse)
  have "ue_lock sample_updater_env = LockFree" by (simp add: sample_updater_env_def)
  from update_ends_reported [OF r this] r show ?thesis
    by (auto simp: acts_for_def sample_updater_def sample_update_request_def)
qed

end
