(* ===== verification/PartUpload.thy ===== *)
theory PartUpload
  imports Digest Egress
begin

text \<open>
  The upload of an archive in parts (partupload/uploader.go). One thread writes the archive and blocks while
  every slot is taken; each part is put by a goroutine of its own. The state is shared, so the writer's loop
  and the ends of the goroutines are steps that interleave in any order. What the storage answers, and
  \<open>url.Parse\<close>, come from outside.
\<close>

section \<open>Targets\<close>

record upload_target =
  ut_part_bytes :: int
  ut_concurrency :: int
  ut_maximum_bytes :: int
  ut_part_urls :: "string list"

definition minPartBytes :: int where
  "minPartBytes = 5 * 2 ^ 20"

definition maxPartBytes :: int where
  "maxPartBytes = 5 * 2 ^ 30"

definition maxParts :: nat where
  "maxParts = 10000"

text \<open>The quotient of two \<open>int64\<close> is rounded towards zero.\<close>

definition quotient :: "int \<Rightarrow> int \<Rightarrow> int" where
  "quotient a b = (if a < 0 then - ((- a) div b) else a div b)"

definition limits_valid :: "upload_target \<Rightarrow> bool" where
  "limits_valid t =
     (\<not> (ut_part_bytes t < minPartBytes \<or> maxPartBytes < ut_part_bytes t
         \<or> ut_concurrency t < 1 \<or> 16 < ut_concurrency t \<or> ut_maximum_bytes t < 1
         \<or> ut_part_urls t = [] \<or> maxParts < length (ut_part_urls t)
         \<or> int (length (ut_part_urls t))
             < quotient (wrap_int64 (ut_maximum_bytes t + ut_part_bytes t - 1)) (ut_part_bytes t)))"

definition part_url_host :: "url option \<Rightarrow> string option" where
  "part_url_host parsed =
     (case parsed of
        None \<Rightarrow> None
      | Some u \<Rightarrow>
          if ur_scheme u \<noteq> ''https'' \<or> ur_has_user u \<or> ur_hostname u = [] \<or> (ur_port u \<noteq> [] \<and> ur_port u \<noteq> ''443'')
             \<or> ur_fragment u \<noteq> []
          then None else Some (ur_hostname u))"

fun same_host :: "string \<Rightarrow> url option list \<Rightarrow> string option" where
  "same_host host [] = Some host"
| "same_host host (u # us) =
     (case part_url_host u of
        None \<Rightarrow> None
      | Some h \<Rightarrow> if host = [] then same_host h us else if h = host then same_host host us else None)"

definition Host :: "(string \<Rightarrow> url option) \<Rightarrow> upload_target \<Rightarrow> string option" where
  "Host parse t = (if \<not> limits_valid t then None else same_host [] (map parse (ut_part_urls t)))"

section \<open>One part\<close>

text \<open>What came of one PUT: no request, no response, or a status and the ETag of the response.\<close>

datatype put_answer = NoRequest | NoResponse | Response nat string

definition put_result :: "put_answer \<Rightarrow> (bool, string) sum" where
  "put_result a =
     (case a of
        NoRequest \<Rightarrow> Inl False
      | NoResponse \<Rightarrow> Inl True
      | Response status etag \<Rightarrow>
          if status \<noteq> 200 then Inl (500 \<le> status \<or> status = 429 \<or> status = 408)
          else if etag = [] \<or> 1024 < length etag then Inl False else Inr etag)"

definition partAttempts :: nat where
  "partAttempts = 3"

text \<open>The attempts that are left: the context may end while the code waits before one, or after it failed.\<close>

fun put_attempts :: "nat \<Rightarrow> bool \<Rightarrow> (bool \<times> put_answer \<times> bool) list \<Rightarrow> string option" where
  "put_attempts 0 first answers = None"
| "put_attempts (Suc n) first [] = None"
| "put_attempts (Suc n) first ((ended, a, ended') # answers) =
     (if \<not> first \<and> ended then None
      else (case put_result a of
              Inr etag \<Rightarrow> Some etag
            | Inl retry \<Rightarrow> if \<not> retry \<or> ended' then None else put_attempts n False answers))"

definition uploadPart :: "(bool \<times> put_answer \<times> bool) list \<Rightarrow> string option" where
  "uploadPart answers = put_attempts partAttempts True answers"

section \<open>The uploader\<close>

datatype upload_failure = ArchiveTooLarge | InvalidArchive | EmptyArchive | StorageRefused

text \<open>\<open>ul_rest\<close> is what the write in progress has not copied yet, \<open>ul_submitting\<close> that the writer waits for a slot;
  \<open>ul_sent\<close> are the bodies the goroutines were given.\<close>

record uploader =
  ul_error :: "upload_failure option"
  ul_cancelled :: bool
  ul_etags :: "string list"
  ul_sent :: "string list"
  ul_flight :: "nat list"
  ul_buffer :: string
  ul_header :: string
  ul_hashed :: string
  ul_written :: nat
  ul_next_part :: nat
  ul_closed :: bool
  ul_rest :: string
  ul_submitting :: bool

definition new_uploader :: uploader where
  "new_uploader =
     \<lparr>ul_error = None, ul_cancelled = False, ul_etags = [], ul_sent = [], ul_flight = [], ul_buffer = [], ul_header = [],
      ul_hashed = [], ul_written = 0, ul_next_part = 1, ul_closed = False, ul_rest = [], ul_submitting = False\<rparr>"

definition fail_upload :: "upload_failure \<Rightarrow> uploader \<Rightarrow> uploader" where
  "fail_upload f u =
     u\<lparr>ul_error := (case ul_error u of None \<Rightarrow> Some f | Some e \<Rightarrow> Some e), ul_cancelled := True\<rparr>"

definition validSignature :: "string \<Rightarrow> bool" where
  "validSignature header =
     (header = ''PK'' @ [CHR 0x03, CHR 0x04] \<or> header = ''PK'' @ [CHR 0x05, CHR 0x06])"

text \<open>The beginning of \<open>Write\<close>, up to its loop.\<close>

definition begin_write :: "upload_target \<Rightarrow> string \<Rightarrow> uploader \<Rightarrow> uploader" where
  "begin_write t data u =
     (if ul_error u \<noteq> None then u
      else if ut_maximum_bytes t < int (ul_written u) + int (length data) then fail_upload ArchiveTooLarge u
      else
        (let header = (if length (ul_header u) < 4 then ul_header u @ take (4 - length (ul_header u)) data else ul_header u);
             v = u\<lparr>ul_header := header\<rparr>
         in if length (ul_header u) < 4 \<and> length header = 4 \<and> \<not> validSignature header
            then fail_upload InvalidArchive v
            else v\<lparr>ul_hashed := ul_hashed u @ data, ul_rest := data\<rparr>))"

text \<open>One turn of the loop of \<open>Write\<close>: the buffer is filled, and a full buffer is to be submitted.\<close>

definition fill_buffer :: "upload_target \<Rightarrow> uploader \<Rightarrow> uploader" where
  "fill_buffer t u =
     (let room = nat (ut_part_bytes t) - length (ul_buffer u); buffer = ul_buffer u @ take room (ul_rest u)
      in u\<lparr>ul_buffer := buffer, ul_rest := drop room (ul_rest u),
           ul_written := ul_written u + min room (length (ul_rest u)),
           ul_submitting := (int (length buffer) = ut_part_bytes t)\<rparr>)"

text \<open>\<open>submit\<close> once a slot was taken; an error ends the write.\<close>

definition submit_part :: "upload_target \<Rightarrow> uploader \<Rightarrow> uploader" where
  "submit_part t u =
     (if ul_error u \<noteq> None then u\<lparr>ul_submitting := False, ul_rest := []\<rparr>
      else if length (ut_part_urls t) < ul_next_part u
      then fail_upload ArchiveTooLarge (u\<lparr>ul_submitting := False, ul_rest := []\<rparr>)
      else u\<lparr>ul_next_part := ul_next_part u + 1, ul_sent := ul_sent u @ [ul_buffer u], ul_buffer := [],
             ul_etags := ul_etags u @ [[]], ul_flight := ul_flight u @ [ul_next_part u], ul_submitting := False\<rparr>)"

definition submit_cancelled :: "uploader \<Rightarrow> uploader" where
  "submit_cancelled u = fail_upload StorageRefused (u\<lparr>ul_submitting := False, ul_rest := []\<rparr>)"

text \<open>The end of a goroutine.\<close>

definition part_ended :: "string option \<Rightarrow> nat \<Rightarrow> uploader \<Rightarrow> uploader" where
  "part_ended result part u =
     (let v = u\<lparr>ul_flight := remove1 part (ul_flight u)\<rparr>
      in case result of
           None \<Rightarrow> fail_upload StorageRefused v
         | Some etag \<Rightarrow> v\<lparr>ul_etags := (ul_etags v)[part - 1 := etag]\<rparr>)"

text \<open>\<open>Close\<close> up to the wait for the goroutines: what is in the buffer is the last part.\<close>

definition begin_close :: "uploader \<Rightarrow> uploader" where
  "begin_close u =
     (let v = u\<lparr>ul_closed := True\<rparr>
      in if ul_error u \<noteq> None then v
         else if ul_written u = 0 then fail_upload EmptyArchive v
         else if length (ul_header u) < 4 then fail_upload InvalidArchive v
         else v\<lparr>ul_submitting := (ul_buffer u \<noteq> [])\<rparr>)"

definition Parts :: "uploader \<Rightarrow> (nat \<times> string) list" where
  "Parts u = map (\<lambda>i. (i + 1, ul_etags u ! i)) [0..<length (ul_etags u)]"

definition SHA256 :: "uploader \<Rightarrow> string" where
  "SHA256 u = sha256_hex (ul_hashed u)"

text \<open>The steps. The archive is written and closed by one thread, which writes no more once it closed; the parent
  context may end at any time.\<close>

inductive upload_step :: "upload_target \<Rightarrow> uploader \<Rightarrow> uploader \<Rightarrow> bool" for t where
  write_begins: "\<not> ul_closed u \<Longrightarrow> ul_rest u = [] \<Longrightarrow> \<not> ul_submitting u \<Longrightarrow> upload_step t u (begin_write t data u)"
| buffer_fills: "ul_rest u \<noteq> [] \<Longrightarrow> \<not> ul_submitting u \<Longrightarrow> upload_step t u (fill_buffer t u)"
| slot_taken: "ul_submitting u \<Longrightarrow> int (length (ul_flight u)) < ut_concurrency t \<Longrightarrow> upload_step t u (submit_part t u)"
| slot_refused: "ul_submitting u \<Longrightarrow> ul_cancelled u \<Longrightarrow> upload_step t u (submit_cancelled u)"
| part_ends: "part \<in> set (ul_flight u) \<Longrightarrow> upload_step t u (part_ended (uploadPart answers) part u)"
| close_begins: "\<not> ul_closed u \<Longrightarrow> ul_rest u = [] \<Longrightarrow> \<not> ul_submitting u \<Longrightarrow> upload_step t u (begin_close u)"
| context_ends: "upload_step t u (u\<lparr>ul_cancelled := True\<rparr>)"

text \<open>\<open>Close\<close> returns no error.\<close>

definition closed_well :: "uploader \<Rightarrow> bool" where
  "closed_well u = (ul_closed u \<and> \<not> ul_submitting u \<and> ul_flight u = [] \<and> ul_error u = None)"

section \<open>What is uploaded\<close>

lemma put_result_etag: "put_result a = Inr e \<Longrightarrow> e \<noteq> [] \<and> length e \<le> 1024"
  by (auto simp: put_result_def split: put_answer.splits if_splits)

lemma put_attempts_etag: "put_attempts n first answers = Some e \<Longrightarrow> e \<noteq> [] \<and> length e \<le> 1024"
  by (induction n first answers rule: put_attempts.induct) (auto dest: put_result_etag split: if_splits sum.splits)

lemma uploaded_etag: "uploadPart answers = Some e \<Longrightarrow> e \<noteq> [] \<and> length e \<le> 1024"
  unfolding uploadPart_def by (rule put_attempts_etag)

definition whole_part :: "upload_target \<Rightarrow> string \<Rightarrow> bool" where
  "whole_part t body = (int (length body) = ut_part_bytes t)"

text \<open>The invariant of the upload, in three parts: the counts of the parts, the sizes of what is sent, and, while
  nothing failed, what was written and where it is.\<close>

definition part_counts :: "upload_target \<Rightarrow> uploader \<Rightarrow> bool" where
  "part_counts t u =
     (length (ul_etags u) = length (ul_sent u) \<and> ul_next_part u = length (ul_sent u) + 1
      \<and> length (ul_sent u) \<le> length (ut_part_urls t)
      \<and> distinct (ul_flight u) \<and> set (ul_flight u) \<subseteq> {1..length (ul_sent u)}
      \<and> int (length (ul_flight u)) \<le> ut_concurrency t
      \<and> (ul_error u = None \<longrightarrow> (\<forall>i < length (ul_etags u). Suc i \<in> set (ul_flight u) \<or> ul_etags u ! i \<noteq> [])))"

definition part_sizes :: "upload_target \<Rightarrow> uploader \<Rightarrow> bool" where
  "part_sizes t u =
     (0 < ut_part_bytes t
      \<and> (\<forall>b \<in> set (butlast (ul_sent u)). whole_part t b)
      \<and> (\<not> ul_closed u \<or> ul_submitting u \<longrightarrow> (\<forall>b \<in> set (ul_sent u). whole_part t b))
      \<and> (\<forall>b \<in> set (ul_sent u). int (length b) \<le> ut_part_bytes t)
      \<and> int (length (ul_buffer u)) \<le> ut_part_bytes t
      \<and> (ul_closed u \<longrightarrow> ul_rest u = [])
      \<and> (ul_submitting u \<and> \<not> ul_closed u \<longrightarrow> whole_part t (ul_buffer u))
      \<and> (\<not> ul_submitting u \<and> (ul_rest u \<noteq> [] \<or> ul_error u = None) \<longrightarrow> int (length (ul_buffer u)) < ut_part_bytes t))"

definition archive_kept :: "upload_target \<Rightarrow> uploader \<Rightarrow> bool" where
  "archive_kept t u =
     (ul_error u = None \<longrightarrow>
        ul_hashed u = concat (ul_sent u) @ ul_buffer u @ ul_rest u
        \<and> ul_written u = length (concat (ul_sent u)) + length (ul_buffer u)
        \<and> int (length (ul_hashed u)) \<le> ut_maximum_bytes t
        \<and> ul_header u = take 4 (ul_hashed u) \<and> (length (ul_header u) = 4 \<longrightarrow> validSignature (ul_header u))
        \<and> (ul_closed u \<longrightarrow> 4 \<le> length (ul_hashed u) \<and> ul_rest u = [] \<and> (ul_submitting u \<or> ul_buffer u = [])))"

definition upload_ok :: "upload_target \<Rightarrow> uploader \<Rightarrow> bool" where
  "upload_ok t u = (part_counts t u \<and> part_sizes t u \<and> archive_kept t u)"

lemma upload_ok_new: "0 < ut_part_bytes t \<Longrightarrow> 0 < ut_concurrency t \<Longrightarrow> 0 \<le> ut_maximum_bytes t \<Longrightarrow> upload_ok t new_uploader"
  by (simp add: upload_ok_def part_counts_def part_sizes_def archive_kept_def new_uploader_def)

lemma counts_same:
  "part_counts t u \<Longrightarrow> ul_etags v = ul_etags u \<Longrightarrow> ul_next_part v = ul_next_part u \<Longrightarrow> ul_sent v = ul_sent u \<Longrightarrow>
   ul_flight v = ul_flight u \<Longrightarrow> ul_error v = ul_error u \<or> ul_error v \<noteq> None \<Longrightarrow> part_counts t v"
  by (auto simp: part_counts_def)

lemma failed_error [simp]: "(ul_error (fail_upload f u) = None) = False" "\<exists>y. ul_error (fail_upload f u) = Some y"
  by (simp_all add: fail_upload_def split: option.split)

lemma failed_fields [simp]:
  "ul_etags (fail_upload f u) = ul_etags u" "ul_next_part (fail_upload f u) = ul_next_part u"
  "ul_sent (fail_upload f u) = ul_sent u" "ul_flight (fail_upload f u) = ul_flight u"
  "ul_buffer (fail_upload f u) = ul_buffer u" "ul_rest (fail_upload f u) = ul_rest u"
  "ul_closed (fail_upload f u) = ul_closed u" "ul_submitting (fail_upload f u) = ul_submitting u"
  by (simp_all add: fail_upload_def)

lemma kept_failed: "ul_error u \<noteq> None \<Longrightarrow> archive_kept t u"
  by (auto simp: archive_kept_def)

section \<open>The writer\<close>

lemma write_counts: "part_counts t u \<Longrightarrow> part_counts t (begin_write t data u)"
  by (erule counts_same) (simp_all add: begin_write_def Let_def)

lemma write_sizes:
  "part_sizes t u \<Longrightarrow> \<not> ul_closed u \<Longrightarrow> ul_rest u = [] \<Longrightarrow> \<not> ul_submitting u \<Longrightarrow> part_sizes t (begin_write t data u)"
  by (auto simp: part_sizes_def begin_write_def Let_def)

lemma write_kept_archive:
  assumes "archive_kept t u" "\<not> ul_closed u" "ul_rest u = []"
  shows "archive_kept t (begin_write t data u)"
proof (cases "ul_error (begin_write t data u)")
  case None
  let ?h = "if length (ul_header u) < 4 then ul_header u @ take (4 - length (ul_header u)) data else ul_header u"
  have e: "ul_error u = None" "\<not> ut_maximum_bytes t < int (ul_written u) + int (length data)"
    "\<not> (length (ul_header u) < 4 \<and> length ?h = 4 \<and> \<not> validSignature ?h)"
    using None by (simp_all add: begin_write_def Let_def split: if_splits)
  then have w: "begin_write t data u = u\<lparr>ul_header := ?h, ul_hashed := ul_hashed u @ data, ul_rest := data\<rparr>"
    by (simp only: begin_write_def Let_def) auto
  have k: "ul_header u = take 4 (ul_hashed u)" "length (ul_header u) = 4 \<longrightarrow> validSignature (ul_header u)"
    using assms(1) e(1) unfolding archive_kept_def by blast+
  have k2: "ul_hashed u = concat (ul_sent u) @ ul_buffer u" "ul_written u = length (concat (ul_sent u)) + length (ul_buffer u)"
    using assms(1,3) e(1) unfolding archive_kept_def by simp_all
  have h: "?h = take 4 (ul_hashed u @ data)" unfolding k(1) by (auto simp: min_def)
  have "length ?h = 4 \<longrightarrow> validSignature ?h" using e(3) k(2) by (cases "length (ul_header u) < 4") auto
  then have s: "length (take 4 (ul_hashed u @ data)) = 4 \<longrightarrow> validSignature (take 4 (ul_hashed u @ data))" by (simp only: h)
  have "ul_header (begin_write t data u) = take 4 (ul_hashed u @ data)" by (simp only: w h) simp
  moreover have "ul_hashed (begin_write t data u) = ul_hashed u @ data" "ul_rest (begin_write t data u) = data"
    "ul_sent (begin_write t data u) = ul_sent u" "ul_buffer (begin_write t data u) = ul_buffer u"
    "ul_written (begin_write t data u) = ul_written u" "ul_closed (begin_write t data u) = ul_closed u"
    by (simp_all only: w) simp_all
  moreover have "int (length (ul_hashed u @ data)) \<le> ut_maximum_bytes t" using e(2) k2 by simp
  ultimately show ?thesis using s k2 assms(2) unfolding archive_kept_def by simp
qed (simp add: archive_kept_def)

lemma fill_counts: "part_counts t u \<Longrightarrow> part_counts t (fill_buffer t u)"
  by (erule counts_same) (simp_all add: fill_buffer_def Let_def)

lemma fill_sizes:
  assumes "part_sizes t u" "ul_rest u \<noteq> []" "\<not> ul_submitting u"
  shows "part_sizes t (fill_buffer t u)"
proof -
  let ?room = "nat (ut_part_bytes t) - length (ul_buffer u)"
  let ?b = "ul_buffer u @ take ?room (ul_rest u)"
  have open_: "\<not> ul_closed u" and room: "int (length (ul_buffer u)) < ut_part_bytes t"
    using assms by (auto simp: part_sizes_def)
  have "int (length ?b) = ut_part_bytes t \<or> (int (length ?b) < ut_part_bytes t \<and> drop ?room (ul_rest u) = [])"
  proof (cases "length (ul_rest u) < ?room")
    case True
    then show ?thesis by auto
  next
    case False
    with room show ?thesis by simp
  qed
  with open_ assms show ?thesis by (auto simp: part_sizes_def fill_buffer_def Let_def whole_part_def)
qed

lemma fill_kept: "archive_kept t u \<Longrightarrow> ul_rest u \<noteq> [] \<Longrightarrow> archive_kept t (fill_buffer t u)"
  by (auto simp: archive_kept_def fill_buffer_def Let_def min.commute)

lemma submit_counts:
  assumes "part_counts t u" "int (length (ul_flight u)) < ut_concurrency t"
  shows "part_counts t (submit_part t u)"
proof (cases "ul_error u \<noteq> None \<or> length (ut_part_urls t) < ul_next_part u")
  case True
  then show ?thesis by (auto simp: submit_part_def intro!: counts_same [OF assms(1)])
next
  case False
  have "Suc i \<in> set (ul_flight u @ [Suc (length (ul_sent u))]) \<or> (ul_etags u @ [[]]) ! i \<noteq> []"
    if "i < Suc (length (ul_etags u))" for i
    using that assms(1) False by (cases "i < length (ul_etags u)") (auto simp: part_counts_def nth_append less_Suc_eq)
  moreover have "Suc (length (ul_sent u)) \<notin> set (ul_flight u)" using assms(1) by (auto simp: part_counts_def)
  ultimately show ?thesis using False assms by (auto simp: part_counts_def submit_part_def)
qed

lemma submit_sizes: "part_sizes t u \<Longrightarrow> ul_submitting u \<Longrightarrow> part_sizes t (submit_part t u)"
  by (cases "ul_sent u = []") (auto simp: part_sizes_def submit_part_def butlast_append)

lemma submit_kept: "archive_kept t u \<Longrightarrow> ul_submitting u \<Longrightarrow> part_sizes t u \<Longrightarrow> archive_kept t (submit_part t u)"
  by (auto simp: archive_kept_def submit_part_def part_sizes_def)

lemma failed_kept [simp]: "archive_kept t (fail_upload f u)"
  by (rule kept_failed) simp

lemma refused_counts: "part_counts t u \<Longrightarrow> part_counts t (submit_cancelled u)"
  by (erule counts_same) (simp_all add: submit_cancelled_def)

lemma cancelled_counts: "part_counts t u \<Longrightarrow> part_counts t (u\<lparr>ul_cancelled := True\<rparr>)"
  by (erule counts_same) simp_all

lemma close_counts: "part_counts t u \<Longrightarrow> part_counts t (begin_close u)"
  by (erule counts_same) (simp_all add: begin_close_def Let_def)

lemma closed_fields:
  "ul_etags (begin_close u) = ul_etags u" "ul_sent (begin_close u) = ul_sent u" "ul_flight (begin_close u) = ul_flight u"
  "ul_buffer (begin_close u) = ul_buffer u" "ul_rest (begin_close u) = ul_rest u" "ul_closed (begin_close u)"
  by (simp_all add: begin_close_def Let_def)

lemma close_began:
  assumes "ul_error (begin_close u) = None"
  shows "ul_error u = None \<and> 4 \<le> length (ul_header u)
    \<and> begin_close u = u\<lparr>ul_closed := True, ul_submitting := (ul_buffer u \<noteq> [])\<rparr>"
proof -
  have e: "ul_error u = None" by (rule ccontr) (use assms in \<open>simp add: begin_close_def Let_def\<close>)
  have w: "ul_written u \<noteq> 0" by (rule notI) (use assms e in \<open>simp add: begin_close_def Let_def\<close>)
  have h: "\<not> length (ul_header u) < 4" by (rule notI) (use assms e w in \<open>simp add: begin_close_def Let_def\<close>)
  from e w h show ?thesis by (simp add: begin_close_def Let_def)
qed

lemma refused_ok:
  assumes "upload_ok t u"
  shows "upload_ok t (submit_cancelled u)"
proof -
  have "part_counts t (submit_cancelled u)" using assms refused_counts by (simp add: upload_ok_def)
  moreover have "part_sizes t (submit_cancelled u)" using assms
    unfolding upload_ok_def part_sizes_def by (auto simp: submit_cancelled_def)
  ultimately show ?thesis by (simp add: upload_ok_def submit_cancelled_def)
qed

lemma close_sizes:
  assumes "part_sizes t u" "\<not> ul_closed u" "ul_rest u = []" "\<not> ul_submitting u"
  shows "part_sizes t (begin_close u)"
proof -
  have sub: "ul_submitting (begin_close u) = (ul_buffer u \<noteq> [])" if "ul_error (begin_close u) = None"
    using close_began [OF that] by simp
  have err: "ul_error (begin_close u) = None \<Longrightarrow> ul_error u = None" using close_began by blast
  have "\<forall>b \<in> set (ul_sent u). whole_part t b" "int (length (ul_buffer u)) \<le> ut_part_bytes t" "0 < ut_part_bytes t"
    "ul_error u = None \<longrightarrow> int (length (ul_buffer u)) < ut_part_bytes t"
    "\<forall>b \<in> set (ul_sent u). int (length b) \<le> ut_part_bytes t" "\<forall>b \<in> set (butlast (ul_sent u)). whole_part t b"
    using assms unfolding part_sizes_def by blast+
  then show ?thesis unfolding part_sizes_def closed_fields assms(3) using closed_fields(6) [of u] err by simp
qed

lemma close_kept:
  assumes "archive_kept t u" "ul_rest u = []"
  shows "archive_kept t (begin_close u)"
proof (cases "ul_error (begin_close u)")
  case None
  have e: "ul_error u = None" and h: "4 \<le> length (ul_header u)"
    and b: "begin_close u = u\<lparr>ul_closed := True, ul_submitting := (ul_buffer u \<noteq> [])\<rparr>"
    using close_began [OF None] by simp_all
  have "ul_header u = take 4 (ul_hashed u)" using assms(1) e unfolding archive_kept_def by blast
  with h have "4 \<le> length (ul_hashed u)" by simp
  moreover have "ul_hashed u = concat (ul_sent u) @ ul_buffer u @ ul_rest u"
    "ul_written u = length (concat (ul_sent u)) + length (ul_buffer u)" "int (length (ul_hashed u)) \<le> ut_maximum_bytes t"
    "ul_header u = take 4 (ul_hashed u)" "length (ul_header u) = 4 \<longrightarrow> validSignature (ul_header u)"
    using assms(1) e unfolding archive_kept_def by blast+
  ultimately show ?thesis using assms(2) unfolding archive_kept_def b by (simp del: append.assoc)
qed (simp add: archive_kept_def)

lemma close_ok:
  "upload_ok t u \<Longrightarrow> \<not> ul_closed u \<Longrightarrow> ul_rest u = [] \<Longrightarrow> \<not> ul_submitting u \<Longrightarrow> upload_ok t (begin_close u)"
  using close_counts close_sizes close_kept unfolding upload_ok_def by blast

section \<open>The goroutines\<close>

lemma ended_counts:
  assumes "part_counts t u" "part \<in> set (ul_flight u)" "\<And>e. result = Some e \<Longrightarrow> e \<noteq> []"
  shows "part_counts t (part_ended result part u)"
proof -
  have part: "1 \<le> part" "part \<le> length (ul_etags u)" "distinct (ul_flight u)" using assms by (auto simp: part_counts_def)
  have len: "int (length (remove1 part (ul_flight u))) \<le> int (length (ul_flight u))" by (simp add: length_remove1)
  show ?thesis
  proof (cases result)
    case None
    with assms(1) part(3) len show ?thesis by (auto simp: part_counts_def part_ended_def)
  next
    case (Some e)
    have "Suc i \<in> set (remove1 part (ul_flight u)) \<or> (ul_etags u)[part - 1 := e] ! i \<noteq> []"
      if "i < length (ul_etags u)" "Suc i \<in> set (ul_flight u) \<or> ul_etags u ! i \<noteq> []" for i
      using that part assms(3) [OF Some] by (cases "Suc i = part") (auto simp: nth_list_update)
    with Some assms(1) part(3) len show ?thesis by (auto simp: part_counts_def part_ended_def)
  qed
qed

lemma ended_sizes: "part_sizes t u \<Longrightarrow> part_sizes t (part_ended result part u)"
  by (cases result) (auto simp: part_sizes_def part_ended_def)

lemma ended_kept: "archive_kept t u \<Longrightarrow> archive_kept t (part_ended result part u)"
proof (cases result)
  case (Some e)
  have "archive_kept t (part_ended (Some e) part u) = archive_kept t u" by (simp add: part_ended_def archive_kept_def)
  then show "archive_kept t u \<Longrightarrow> archive_kept t (part_ended result part u)" using Some by simp
qed (simp add: part_ended_def)

lemma ended_ok:
  assumes "upload_ok t u" "part \<in> set (ul_flight u)"
  shows "upload_ok t (part_ended (uploadPart answers) part u)"
proof -
  have "part_counts t (part_ended (uploadPart answers) part u)"
    using assms uploaded_etag by (intro ended_counts) (simp_all add: upload_ok_def)
  with ended_sizes ended_kept assms(1) show ?thesis by (simp add: upload_ok_def)
qed

lemma upload_step_ok: "upload_step t u u' \<Longrightarrow> upload_ok t u \<Longrightarrow> upload_ok t u'"
proof (induction rule: upload_step.induct)
  case (write_begins u data)
  then show ?case using write_counts write_sizes write_kept_archive by (simp add: upload_ok_def)
next
  case (buffer_fills u)
  then show ?case using fill_counts fill_sizes fill_kept by (simp add: upload_ok_def)
next
  case (slot_taken u)
  then show ?case using submit_counts submit_sizes submit_kept by (simp add: upload_ok_def)
next
  case (slot_refused u)
  then show ?case by (intro refused_ok)
next
  case (part_ends part u answers)
  then show ?case by (intro ended_ok)
next
  case (close_begins u)
  then show ?case by (intro close_ok)
next
  case (context_ends u)
  have "part_sizes t (u\<lparr>ul_cancelled := True\<rparr>) = part_sizes t u" by (simp add: part_sizes_def)
  moreover have "archive_kept t (u\<lparr>ul_cancelled := True\<rparr>) = archive_kept t u" by (simp add: archive_kept_def)
  ultimately show ?case using context_ends cancelled_counts by (simp only: upload_ok_def)
qed

interpretation upload: step_invariant "upload_step t" "upload_ok t" for t
  by unfold_locales (rule upload_step_ok)

lemma upload_reachable_ok:
  assumes "(upload_step t)\<^sup>*\<^sup>* new_uploader u" "limits_valid t"
  shows "upload_ok t u"
  using assms(1)
proof (rule upload.reachable)
  show "upload_ok t new_uploader" using assms(2) by (intro upload_ok_new) (auto simp: limits_valid_def minPartBytes_def)
qed

text \<open>C28: The upload of an archive. However the writer and the uploads interleave, an upload that closes without
  an error has sent the archive that was written, whole and in order: its parts are numbered from one and
  each has an ETag of the storage, all but the last have the size of a part, no more parts were sent than
  there are addresses, and the digest is that of the archive.\<close>
theorem upload_complete:
  assumes "limits_valid t" "(upload_step t)\<^sup>*\<^sup>* new_uploader u" "closed_well u"
  shows "map fst (Parts u) = [1..<Suc (length (ul_sent u))] \<and> (\<forall>(n, etag) \<in> set (Parts u). etag \<noteq> [])
    \<and> SHA256 u = sha256_hex (concat (ul_sent u))
    \<and> length (concat (ul_sent u)) = ul_written u \<and> int (ul_written u) \<le> ut_maximum_bytes t
    \<and> 4 \<le> ul_written u \<and> validSignature (take 4 (concat (ul_sent u)))
    \<and> length (ul_sent u) \<le> length (ut_part_urls t)
    \<and> (\<forall>b \<in> set (butlast (ul_sent u)). whole_part t b) \<and> (\<forall>b \<in> set (ul_sent u). int (length b) \<le> ut_part_bytes t)"
proof -
  have ok: "part_counts t u" "part_sizes t u" "archive_kept t u"
    using upload_reachable_ok [OF assms(2,1)] by (simp_all add: upload_ok_def)
  have c: "ul_closed u" "\<not> ul_submitting u" "ul_flight u = []" "ul_error u = None"
    using assms(3) by (simp_all add: closed_well_def)
  have keep: "ul_hashed u = concat (ul_sent u) @ ul_buffer u @ ul_rest u"
    "ul_written u = length (concat (ul_sent u)) + length (ul_buffer u)"
    and k3: "4 \<le> length (ul_hashed u)" "int (length (ul_hashed u)) \<le> ut_maximum_bytes t"
    and empty: "ul_rest u = []" "ul_buffer u = []"
    using ok(3) c unfolding archive_kept_def by blast+
  have k: "ul_hashed u = concat (ul_sent u)" "ul_written u = length (ul_hashed u)" "4 \<le> length (ul_hashed u)"
    "int (length (ul_hashed u)) \<le> ut_maximum_bytes t"
    using keep k3 empty by simp_all
  have h: "ul_header u = take 4 (ul_hashed u)" "length (ul_header u) = 4 \<longrightarrow> validSignature (ul_header u)"
    using ok(3) c(4) unfolding archive_kept_def by blast+
  have "validSignature (take 4 (concat (ul_sent u)))" using h k(3) unfolding k(1) by simp
  moreover have "\<forall>i < length (ul_etags u). ul_etags u ! i \<noteq> []" "length (ul_etags u) = length (ul_sent u)"
    using ok(1) c by (simp_all add: part_counts_def)
  moreover have "map fst (Parts u) = [1..<Suc (length (ul_etags u))]"
    by (simp add: Parts_def comp_def map_Suc_upt [symmetric] del: upt_Suc)
  moreover have "\<forall>(n, etag) \<in> set (Parts u). etag \<noteq> []" if "\<forall>i < length (ul_etags u). ul_etags u ! i \<noteq> []"
    using that by (auto simp: Parts_def)
  ultimately show ?thesis using ok(1,2) k by (auto simp: part_counts_def part_sizes_def SHA256_def)
qed

text \<open>The run of a small archive: it is written, closed, and its only part is put.\<close>

definition small_target :: upload_target where
  "small_target = \<lparr>ut_part_bytes = minPartBytes, ut_concurrency = 1, ut_maximum_bytes = 100, ut_part_urls = [''https://s/1'']\<rparr>"

definition small_archive :: string where
  "small_archive = ''PK'' @ [CHR 0x03, CHR 0x04]"

definition small_buffered :: uploader where
  "small_buffered = new_uploader\<lparr>ul_buffer := small_archive, ul_header := small_archive, ul_hashed := small_archive, ul_written := 4\<rparr>"

definition small_closed :: uploader where
  "small_closed = small_buffered\<lparr>ul_closed := True, ul_submitting := True\<rparr>"

definition small_sent :: uploader where
  "small_sent = small_closed\<lparr>ul_next_part := 2, ul_sent := [small_archive], ul_buffer := [], ul_etags := [[]],
     ul_flight := [1], ul_submitting := False\<rparr>"

definition small_uploaded :: uploader where
  "small_uploaded = small_sent\<lparr>ul_flight := [], ul_etags := [''e'']\<rparr>"

lemmas small_run = small_target_def small_archive_def small_buffered_def small_closed_def small_sent_def small_uploaded_def
  new_uploader_def

lemma small_valid: "limits_valid small_target"
  by (simp add: limits_valid_def small_target_def minPartBytes_def maxPartBytes_def maxParts_def quotient_def wrap_int64_def)

lemma small_buffers:
  "fill_buffer small_target (begin_write small_target small_archive new_uploader) = small_buffered"
  by (simp add: begin_write_def fill_buffer_def small_run Let_def validSignature_def minPartBytes_def)

lemma small_closes: "begin_close small_buffered = small_closed"
  by (simp add: begin_close_def small_run Let_def)

lemma small_sends: "submit_part small_target small_closed = small_sent"
  by (simp add: submit_part_def small_run)

lemma small_put: "uploadPart [(False, Response 200 ''e'', False)] = Some ''e''"
  by (simp add: uploadPart_def partAttempts_def put_result_def numeral_3_eq_3)

lemma small_ends: "part_ended (Some ''e'') 1 small_sent = small_uploaded"
  by (simp add: part_ended_def small_run)

lemma small_reachable: "(upload_step small_target)\<^sup>*\<^sup>* new_uploader small_uploaded"
proof -
  let ?w = "begin_write small_target small_archive new_uploader"
  have "upload_step small_target new_uploader ?w" by (intro write_begins) (simp_all add: new_uploader_def)
  moreover have "upload_step small_target ?w (fill_buffer small_target ?w)"
    by (intro buffer_fills) (simp_all add: begin_write_def small_run Let_def validSignature_def)
  moreover have "upload_step small_target small_buffered (begin_close small_buffered)"
    by (intro close_begins) (simp_all add: small_run)
  moreover have "upload_step small_target small_closed (submit_part small_target small_closed)"
    by (intro slot_taken) (simp_all add: small_run)
  moreover have "upload_step small_target small_sent (part_ended (uploadPart [(False, Response 200 ''e'', False)]) 1 small_sent)"
    by (intro part_ends) (simp add: small_sent_def)
  ultimately show ?thesis unfolding small_buffers small_closes small_sends small_put small_ends
    by (meson converse_rtranclp_into_rtranclp rtranclp.rtrancl_refl)
qed

lemma small_closed_well: "closed_well small_uploaded"
  by (simp add: closed_well_def small_run)

lemma upload_complete_witness: "SHA256 small_uploaded = sha256_hex (concat (ul_sent small_uploaded)) \<and> ul_sent small_uploaded = [small_archive]"
  using upload_complete [OF small_valid small_reachable small_closed_well] by (simp add: small_uploaded_def small_sent_def)

text \<open>The sum in the check of the limits overflows: a target with the largest maximum needs only one address.\<close>

lemma limits_overflow:
  "limits_valid \<lparr>ut_part_bytes = minPartBytes, ut_concurrency = 1, ut_maximum_bytes = 2 ^ 63 - 1, ut_part_urls = [''u'']\<rparr>"
  by (simp add: limits_valid_def minPartBytes_def maxPartBytes_def maxParts_def quotient_def wrap_int64_def)

end
