(* ===== verification/RetiredFacts.thy ===== *)
theory RetiredFacts
  imports ReportingFacts
begin

text \<open>
  What becomes of the commands of a retired enrolment: they are settled before the new enrolment, a command is
  removed only when it is reported, and what a report leaves behind.
\<close>

section \<open>Settling\<close>

text \<open>How a command of the retired generation is kept.\<close>

definition settled :: "nat \<Rightarrow> journal_command \<Rightarrow> journal_command \<Rightarrow> bool" where
  "settled generation c c' =
     (jc_command c' = jc_command c \<and> jc_run_id c' = jc_run_id c \<and> jc_log_id c' = jc_log_id c \<and> jc_result_reported c'
      \<and> \<not> unfinished c' \<and> (\<forall>e \<in> set (jc_events c'). ev_kind e \<in> set terminal_kinds)
      \<and> (if unfinished c then
           jc_state c' = ''finished'' \<and> (\<exists>r. jc_result c' = Some r \<and> cr_run_id r = jc_run_id c
              \<and> cr_status r = (if jc_state c = ''running'' then ''unresolved'' else ''cancelled''))
           \<and> (\<exists>es e. jc_events c' = es @ [e] \<and> ev_kind e = ''run_finished'' \<and> ev_run_id e = jc_run_id c
                \<and> ev_sequence e = Suc (jc_sequence c))
         else jc_state c' = jc_state c \<and> jc_result c' = jc_result c
           \<and> jc_events c' = filter (\<lambda>e. ev_kind e \<in> set terminal_kinds) (jc_events c)))"

lemma quieted_settled: "\<not> unfinished c \<Longrightarrow> settled generation c (quieted c)"
  by (auto simp: settled_def quieted_def unfinished_def)

lemma ended_settled: "unfinished c \<Longrightarrow> settled generation c (quieted (end_unfinished generation now i c))"
  by (simp add: settled_def quieted_def unfinished_def end_unfinished_def settled_result_def add_event_def
      next_sequence_def eventEnvelope_def terminal_kinds_def Let_def)

definition kept_entry :: "nat \<Rightarrow> string \<times> journal_command \<Rightarrow> string \<times> journal_command \<Rightarrow> bool" where
  "kept_entry generation e e' =
     (fst e' = fst e \<and> (if of_generation generation e then settled generation (snd e) (snd e') else snd e' = snd e))"

lemma kept_entry_pair:
  "kept_entry generation (i, c) (i', c') =
     (i' = i \<and> (if ac_generation (jc_command c) = generation then settled generation c c' else c' = c))"
  by (simp add: kept_entry_def of_generation_def)

lemma settle_commands_settled:
  "settle_commands b now draws n m = Some m' \<Longrightarrow>
   list_all2 (kept_entry (bs_generation b)) m m'"
proof (induction b now draws n m arbitrary: m' rule: settle_commands.induct)
  case (2 b now draws n i c rest)
  then show ?case
    by (auto simp: kept_entry_pair quieted_settled ended_settled split: if_splits option.splits)
qed simp

text \<open>A replaced record keeps its expiry.\<close>

lemma replace_retired_found:
  "replace_retired r rs = (found, s, ys) \<Longrightarrow> same_enrollment s r \<and> re_credential s = re_credential r
     \<and> (found \<longrightarrow> (\<exists>y \<in> set ys. same_enrollment y r \<and> re_credential y = re_credential r \<and> (\<exists>x \<in> set rs. re_expires_at y = re_expires_at x)))
     \<and> (\<not> found \<longrightarrow> s = r)"
proof (induction r rs arbitrary: found s ys rule: replace_retired.induct)
  case (2 r x xs)
  show ?case
  proof (cases "same_enrollment x r")
    case True
    let ?r = "r\<lparr>re_expires_at := re_expires_at x\<rparr>"
    obtain f s1 ys1 where rec: "replace_retired ?r xs = (f, s1, ys1)" by (metis prod.collapse)
    note ih = "2.IH"(1) [OF True refl rec]
    have "found" "s = s1" "ys = ?r # ys1" using "2.prems" True rec by (auto simp: Let_def)
    then show ?thesis using ih by (simp add: same_enrollment_def)
  next
    case False
    obtain f s1 ys1 where rec: "replace_retired r xs = (f, s1, ys1)" by (metis prod.collapse)
    note ih = "2.IH"(2) [OF False rec]
    have "found = f" "s = s1" "ys = x # ys1" using "2.prems" False rec by auto
    with ih show ?thesis by auto
  qed
qed (auto simp: same_enrollment_def)

lemma updateState_none: "updateState w action fs = (None, fs') \<Longrightarrow> action (fs_db fs) = Inr (fs_db fs')"
  by (auto simp: updateState_def split: if_splits sum.splits write_outcome.splits)

lemma rotate_effect:
  assumes "rotateRetiredEnrollments parse f f' w r b fs = (None, b', fs')"
  shows "fs_db fs' = fs_db fs \<and> (\<exists>rs x. b' = Some rs \<and> x \<in> set rs \<and> same_enrollment x r \<and> re_credential x = re_credential r)"
proof -
  obtain rs where rs: "(case loadRetiredEnrollments parse f b of Inr rs \<Rightarrow> Inr rs | Inl _ \<Rightarrow> loadRetiredEnrollments parse f' b) = Inr rs"
    using assms by (auto simp: rotateRetiredEnrollments_def split: sum.splits)
  obtain found s ys where rep: "replace_retired r rs = (found, s, ys)" by (metis prod.collapse)
  obtain e b1 fs1 where save: "saveRetiredEnrollments w (if found then ys else ys @ [s]) b fs = (e, b1, fs1)" by (metis prod.collapse)
  have e: "e = None" "b' = b1" "fs' = fs1" using assms rs rep save by (auto simp: rotateRetiredEnrollments_def Let_def)
  note found = replace_retired_found [OF rep]
  let ?new = "if found then ys else ys @ [s]"
  have mem: "\<exists>x \<in> set ?new. same_enrollment x r \<and> re_credential x = re_credential r" using found by auto
  then have "?new \<noteq> []" by auto
  moreover have "fs_db fs1 = fs_db fs \<and> b1 = (if ?new = [] then None else Some ?new)"
    using save e(1) updateState_none [of w Inr fs] by (auto simp: saveRetiredEnrollments_def split: prod.splits option.splits)
  ultimately show ?thesis using mem e by auto
qed


section \<open>A command that is removed\<close>

lemma first_rejection:
  "retired_rejection items = None \<Longrightarrow> item \<in> set items \<Longrightarrow> er_status item \<noteq> ''rejected''"
  by (auto simp: retired_rejection_def find_None_iff)

lemma submit_state: "SubmitEvents env batch d = (y, d1) \<Longrightarrow> d1 = tick d"
  by (auto simp: SubmitEvents_def split: sum.splits if_splits)

lemma retired_events_effect:
  assumes "retired_events env cid (jc_events c) d = (x, sent, d')" "command d cid = Some c"
  shows "\<exists>es. command d' cid = Some (c\<lparr>jc_events := es\<rparr>) \<and> (x = Inl None \<longrightarrow> es \<noteq> [])
    \<and> (x = Inr () \<longrightarrow> es = [] \<and> (\<forall>ev \<in> set (jc_events c). answered env ev)
         \<and> (jc_events c \<noteq> [] \<longrightarrow> sent = [EventsReport (jc_events c)]))"
proof (cases "jc_events c = []")
  case True
  with assms show ?thesis by (intro exI [of _ "[]"]) (auto simp: retired_events_def)
next
  case False
  let ?batch = "take maximumEventBatch (jc_events c)"
  obtain y d1 where sub: "SubmitEvents env ?batch d = (y, d1)" by fastforce
  have d1: "command d1 cid = Some c" using submit_state [OF sub] assms(2) by (simp add: tick_def)
  consider (failed) e where "y = Inl e" | (rejected) items e where "y = Inr items" "retired_rejection items = Some e"
    | (taken) items where "y = Inr items" "retired_rejection items = None"
    by (metis obj_sumE option.exhaust)
  then show ?thesis
  proof cases
    case failed
    with assms(1) False sub d1 show ?thesis by (intro exI [of _ "jc_events c"]) (auto simp: retired_events_def)
  next
    case rejected
    with assms(1) False sub d1 show ?thesis by (intro exI [of _ "jc_events c"]) (auto simp: retired_events_def Let_def)
  next
    case taken
    obtain f d2 where u: "update_command cid (\<lambda>c. c\<lparr>jc_events := drop (length ?batch) (jc_events c)\<rparr>) env d1 = (f, d2)"
      by fastforce
    let ?rest = "drop (length ?batch) (jc_events c)"
    have c2: "command d2 cid = Some (c\<lparr>jc_events := ?rest\<rparr>)" using update_command_effect [OF u d1] by simp
    have ans: "answered env ev" if "ev \<in> set ?batch" for ev
    proof -
      have "length items = length ?batch" using sub taken(1) by (auto simp: SubmitEvents_def split: sum.splits if_splits)
      then have "ev \<in> set (map snd (zip items ?batch))" using that by simp
      then obtain item where item: "(item, ev) \<in> set (zip items ?batch)" by auto
      then have "er_status item \<noteq> ''rejected''" using first_rejection [OF taken(2)] by (auto dest: set_zip_leftD)
      with sub taken(1) item show ?thesis by (auto intro: submitted)
    qed
    have out: "d' = d2" "x = (if f \<noteq> None then Inl (map_option StoreFailure f)
        else if length ?batch < length (jc_events c) then Inl None else Inr ())" "sent = [EventsReport ?batch]"
      using assms(1) False sub taken u by (auto simp: retired_events_def Let_def split: option.splits)
    have more: "?rest \<noteq> []" if "x = Inl None" using that out(2) by (auto split: if_splits)
    have whole: "?batch = jc_events c" if "x = Inr ()" using that out(2) by (auto split: if_splits)
    have "?rest = [] \<and> (\<forall>ev \<in> set (jc_events c). answered env ev) \<and> sent = [EventsReport (jc_events c)]" if "x = Inr ()"
      using ans out(3) unfolding whole [OF that] by simp
    with more c2 show ?thesis unfolding out(1) by blast
  qed
qed

lemma upload_chunks_effect:
  assumes "upload_chunks env cid rid lid n cs d = (e, sent, d')" "command d cid = Some c"
  shows "\<exists>k. command d' cid = Some (c\<lparr>jc_next_log_chunk := k\<rparr>)"
  using assms
proof (induction cs arbitrary: n d c sent)
  case Nil
  then show ?case by (intro exI [of _ "jc_next_log_chunk c"]) simp
next
  case (Cons x xs)
  obtain f d1 where u: "update_command cid (\<lambda>c. c\<lparr>jc_next_log_chunk := n + 1\<rparr>) env (tick d) = (f, d1)" by fastforce
  have c1: "command d1 cid = Some (c\<lparr>jc_next_log_chunk := n + 1\<rparr>)"
    using update_command_effect [OF u] Cons.prems(2) by (simp add: tick_def)
  have "d' = tick d \<or> d' = d1 \<or> (\<exists>s. upload_chunks env cid rid lid (Suc n) xs d1 = (e, s, d'))"
    using Cons.prems(1) u by (auto simp: Let_def split: option.splits prod.splits)
  moreover have "command (tick d) cid = Some (c\<lparr>jc_next_log_chunk := jc_next_log_chunk c\<rparr>)"
    using Cons.prems(2) by (simp add: tick_def)
  moreover have "\<exists>k. command d' cid = Some (c\<lparr>jc_next_log_chunk := k\<rparr>)"
    if "upload_chunks env cid rid lid (Suc n) xs d1 = (e, s, d')" for s
    using Cons.IH [OF that c1] by simp
  ultimately show ?case using c1 by blast
qed

text \<open>The command stays in the journal, and its log counts as completed only when the completion was sent.\<close>

lemma retired_log_effect:
  assumes "retired_log env generation cid c d = (e, sent, d')" "command d cid = Some (c\<lparr>jc_events := es\<rparr>)"
  shows "\<exists>k b. command d' cid = Some (c\<lparr>jc_events := es, jc_next_log_chunk := k, jc_log_completed := b\<rparr>)
    \<and> (b \<longrightarrow> jc_log_completed c \<or> LogReport (jc_run_id c) (jc_log_id c) (retired_completion generation c) \<in> set sent)"
proof (cases "jc_log_id c = [] \<or> jc_log_completed c \<or> isl (ReadChecksummedRunLog (jc_log_id c) (jc_log_sha256 c) (dm_store d))")
  case True
  then have "d' = d" using assms(1) by (auto simp: retired_log_def split: if_splits sum.splits)
  with assms(2) show ?thesis
    by (intro exI [of _ "jc_next_log_chunk c"] exI [of _ "jc_log_completed c"]) simp
next
  case False
  then obtain log where log: "ReadChecksummedRunLog (jc_log_id c) (jc_log_sha256 c) (dm_store d) = Inr log"
    by (metis sum.collapse(2))
  let ?n = "jc_next_log_chunk c"
  obtain f s d1 where up: "upload_chunks env cid (jc_run_id c) (jc_log_id c) ?n
      (chunks maximumLogChunk (drop (?n * maximumLogChunk) log)) d = (f, s, d1)" by (metis prod.collapse)
  from upload_chunks_effect [OF up assms(2)] obtain k where
    k: "command d1 cid = Some (c\<lparr>jc_events := es, jc_next_log_chunk := k\<rparr>)" by auto
  then have kt: "command (tick d1) cid = Some (c\<lparr>jc_events := es, jc_next_log_chunk := k, jc_log_completed := False\<rparr>)"
    using False by (simp add: tick_def)
  obtain g d2 where u: "update_command cid (\<lambda>c. c\<lparr>jc_log_completed := True\<rparr>) env (tick d1) = (g, d2)" by fastforce
  have c2: "command d2 cid = Some (c\<lparr>jc_events := es, jc_next_log_chunk := k, jc_log_completed := True\<rparr>)"
    using update_command_effect [OF u kt] by simp
  have "(d' = d1 \<or> d' = tick d1) \<or> (d' = d2 \<and> LogReport (jc_run_id c) (jc_log_id c) (retired_completion generation c) \<in> set sent)"
    using assms(1) False log up u by (auto simp: retired_log_def Let_def split: option.splits)
  moreover have "command d1 = command (tick d1)" by (simp add: tick_def)
  ultimately show ?thesis using kt c2 by metis
qed

text \<open>Safety. A command of a retired enrolment is removed from the journal only when all of it was reported:
  its events went out in one batch and each was accepted or known, and its log, if it has one that was not
  completed before, was completed.\<close>
theorem retired_removed_reported:
  assumes "flushRetiredCommand env generation cid d = (e, sent, d')" "command d cid = Some c" "command d' cid = None"
  shows "ac_generation (jc_command c) = generation \<and> (\<forall>ev \<in> set (jc_events c). answered env ev)
    \<and> (jc_events c \<noteq> [] \<longrightarrow> EventsReport (jc_events c) \<in> set sent)
    \<and> (jc_log_id c = [] \<or> jc_log_completed c
        \<or> LogReport (jc_run_id c) (jc_log_id c) (retired_completion generation c) \<in> set sent)"
proof -
  have g: "ac_generation (jc_command c) = generation" using assms by (auto simp: flushRetiredCommand_def split: if_splits)
  obtain x s1 d1 where ev: "retired_events env cid (jc_events c) d = (x, s1, d1)" by (metis prod.collapse)
  from retired_events_effect [OF ev assms(2)] obtain es where es: "command d1 cid = Some (c\<lparr>jc_events := es\<rparr>)"
    and ok: "x = Inr () \<longrightarrow> (\<forall>ev \<in> set (jc_events c). answered env ev) \<and> (jc_events c \<noteq> [] \<longrightarrow> s1 = [EventsReport (jc_events c)])"
    by blast
  have x: "x = Inr ()"
  proof (rule ccontr)
    assume "x \<noteq> Inr ()"
    then obtain y where "x = Inl y" by (cases x) auto
    with assms(1,2) ev g have "d' = d1" by (simp add: flushRetiredCommand_def)
    with es assms(3) show False by simp
  qed
  obtain e2 s2 d2 where l: "retired_log env generation cid c d1 = (e2, s2, d2)" by (metis prod.collapse)
  from retired_log_effect [OF l es] obtain k b where
    c2: "command d2 cid = Some (c\<lparr>jc_events := es, jc_next_log_chunk := k, jc_log_completed := b\<rparr>)"
    and done_: "b \<longrightarrow> jc_log_completed c \<or> LogReport (jc_run_id c) (jc_log_id c) (retired_completion generation c) \<in> set s2"
    by blast
  have e2: "e2 = None"
  proof (rule ccontr)
    assume "e2 \<noteq> None"
    with assms(1,2) ev g x l have "d' = d2" by (auto simp: flushRetiredCommand_def)
    with c2 assms(3) show False by simp
  qed
  obtain e3 d3 where m: "retired_removal env cid (jc_log_id c) d2 = (e3, d3)" by fastforce
  have out: "d' = d3" "sent = s1 @ s2" using assms(1,2) ev g x l e2 m by (simp_all add: flushRetiredCommand_def)
  have "jc_log_id c = [] \<or> b"
  proof (rule ccontr)
    assume "\<not> (jc_log_id c = [] \<or> b)"
    with m c2 have "d3 = d2" by (simp add: retired_removal_def)
    with c2 out assms(3) show False by simp
  qed
  with g ok x done_ out(2) show ?thesis by auto
qed

section \<open>What a report leaves behind\<close>

lemma report_retired_forgets: "report_retired env records [] rs b d = (None, sent, b', d') \<Longrightarrow> b' = None"
proof (induction rs arbitrary: b d sent)
  case Nil
  then show ?case
    by (auto simp: save_retired_def saveRetiredEnrollments_def store_failed_def split: prod.splits option.splits)
next
  case (Cons r rs)
  obtain f1 d1 where p: "purgeRetiredGeneration env (re_generation r) (tick d) = (f1, d1)" by fastforce
  obtain c e2 s2 d2 where fl: "flushRetiredGeneration env (re_generation r) (tick d) = (c, e2, s2, d2)"
    by (metis prod.collapse)
  obtain f3 d3 where p3: "purgeRetiredGeneration env (re_generation r) d2 = (f3, d3)" by fastforce
  have complete: "c = (e2 = None)" using fl by (auto simp: flushRetiredGeneration_def Let_def split: prod.splits)
  have "\<exists>x s. report_retired env records [] rs b x = (None, s, b', d')"
    using Cons.prems p fl p3 complete
    by (auto simp: read_now_def Let_def store_failed_def split: if_splits option.splits prod.splits)
  with Cons.IH show ?case by blast
qed

lemma save_retired_command: "save_retired env rs b d = (e, b', d') \<Longrightarrow> command d' = command d"
  by (auto dest!: save_retired_frame intro: command_work)

lemma report_nothing:
  "de_read env (dm_tick d) = None \<Longrightarrow> reportRetiredJournal env parse None d = (None, [], None, tick d)"
  by (simp add: reportRetiredJournal_def loadRetiredEnrollments_def)

text \<open>A command with more than one batch: the flush ends without an error after the first one.\<close>

lemma flush_first_batch:
  assumes "flushRetiredCommand env (ac_generation (jc_command c)) cid d = (e, sent, d')" "command d cid = Some c"
    and "maximumEventBatch < length (jc_events c)"
    and "\<And>n batch e. de_events env n batch = Inl e \<Longrightarrow> api_code e \<noteq> Some ''enrollment_revoked''"
  shows "\<not> is_revoked e \<and> (e = None \<longrightarrow> sent = [EventsReport (take maximumEventBatch (jc_events c))]
    \<and> command d' cid = Some (c\<lparr>jc_events := drop maximumEventBatch (jc_events c)\<rparr>))"
proof -
  let ?batch = "take maximumEventBatch (jc_events c)"
  have ne: "jc_events c \<noteq> []" and len: "length ?batch = maximumEventBatch" using assms(3) by auto
  obtain y d1 where sub: "SubmitEvents env ?batch d = (y, d1)" by fastforce
  have d1: "command d1 cid = Some c" using submit_state [OF sub] assms(2) by (simp add: tick_def)
  obtain f d2 where u: "update_command cid (\<lambda>c. c\<lparr>jc_events := drop maximumEventBatch (jc_events c)\<rparr>) env d1 = (f, d2)"
    by fastforce
  have c2: "command d2 cid = Some (c\<lparr>jc_events := drop maximumEventBatch (jc_events c)\<rparr>)"
    using update_command_effect [OF u d1] by simp
  have y: "api_code x \<noteq> Some ''enrollment_revoked''" if "y = Inl x" for x
    using sub that assms(4) by (auto simp: SubmitEvents_def split: sum.splits if_splits)
  have ev: "retired_events env cid (jc_events c) d = (case y of
      Inl x \<Rightarrow> (Inl (Some x), [], d1)
    | Inr items \<Rightarrow> (case retired_rejection items of
          Some x \<Rightarrow> (Inl (Some x), [EventsReport ?batch], d1)
        | None \<Rightarrow> (Inl (map_option StoreFailure f), [EventsReport ?batch], d2)))"
    using ne assms(3) sub u by (auto simp: retired_events_def Let_def len split: sum.splits option.splits)
  have rejected: "api_code x = None" if "retired_rejection items = Some x" for items x
    using that by (auto simp: retired_rejection_def)
  show ?thesis
  proof (cases y)
    case (Inl x)
    with assms(1,2) ev have "e = Some x" by (simp add: flushRetiredCommand_def)
    with y [OF Inl] show ?thesis by simp
  next
    case (Inr items)
    show ?thesis
    proof (cases "retired_rejection items")
      case (Some x)
      with Inr assms(1,2) ev have "e = Some x" by (simp add: flushRetiredCommand_def)
      with rejected [OF Some] show ?thesis by simp
    next
      case None
      with Inr assms(1,2) ev have "e = map_option StoreFailure f" "d' = d2" "sent = [EventsReport ?batch]"
        by (simp_all add: flushRetiredCommand_def)
      with c2 show ?thesis by (cases f) simp_all
    qed
  qed
qed

text \<open>What is lost. A command of a retired enrolment with more events than one batch has its first batch
  sent, and the report then forgets the enrolment: the other events stay in the journal, and no later report
  sends anything of it.\<close>
theorem retired_events_stranded:
  assumes "reportRetiredJournal env parse (Some [r]) d = (None, sent, b', d')"
    and "dm_journal d = [(cid, c)]" "ac_generation (jc_command c) = re_generation r"
    and "maximumEventBatch < length (jc_events c)" "\<not> enrollment_expired (de_clock env (Suc (dm_tick d))) r"
    and "\<And>n batch e. de_events env n batch = Inl e \<Longrightarrow> api_code e \<noteq> Some ''enrollment_revoked''"
  shows "b' = None \<and> sent = [EventsReport (take maximumEventBatch (jc_events c))]
    \<and> command d' cid = Some (c\<lparr>jc_events := drop maximumEventBatch (jc_events c)\<rparr>)
    \<and> drop maximumEventBatch (jc_events c) \<noteq> []
    \<and> (de_read env' (dm_tick d') = None \<longrightarrow> reportRetiredJournal env' parse' b' d' = (None, [], None, tick d'))"
proof -
  let ?d = "tick (tick d)"
  have j: "dm_journal ?d = [(cid, c)]" using assms(2) by (simp add: tick_def)
  obtain e s d1 where fl: "flushRetiredCommand env (re_generation r) cid ?d = (e, s, d1)" by (metis prod.collapse)
  have "command ?d cid = Some c" using j by simp
  from flush_first_batch [OF fl [folded assms(3)] this assms(4,6)]
  have nr: "\<not> is_revoked e" and kept: "e = None \<longrightarrow> s = [EventsReport (take maximumEventBatch (jc_events c))]
      \<and> command d1 cid = Some (c\<lparr>jc_events := drop maximumEventBatch (jc_events c)\<rparr>)" by auto
  have gen: "flushRetiredGeneration env (re_generation r) ?d = (e = None, e, s, d1)"
    using j assms(3) fl nr by (cases e) (simp_all add: flushRetiredGeneration_def of_generation_def)
  obtain f1 b1 d2 where s1: "save_retired env [] (Some [r]) d1 = (f1, b1, d2)" by (metis prod.collapse)
  obtain f2 b2 d3 where s2: "save_retired env [r] (Some [r]) d1 = (f2, b2, d3)" by (metis prod.collapse)
  have load: "loadRetiredEnrollments parse (de_read env (dm_tick d)) (Some [r]) = Inr [r]"
    using assms(1) by (auto simp: reportRetiredJournal_def loadRetiredEnrollments_def openRetiredEnrollments_def
        split: option.splits if_splits)
  have rep: "report_retired env [r] [] [r] (Some [r]) (tick d) = (None, sent, b', d')"
  proof -
    obtain e0 s0 b0 d0 where "report_retired env [r] [] [r] (Some [r]) (tick d) = (e0, s0, b0, d0)" by (metis prod.collapse)
    with assms(1) load show ?thesis by (simp add: reportRetiredJournal_def Let_def del: report_retired.simps)
  qed
  have now: "read_now env (tick d) = (de_clock env (Suc (dm_tick d)), ?d)" by (simp add: read_now_def tick_def)
  have e: "e = None"
  proof (rule ccontr)
    assume "e \<noteq> None"
    with rep now assms(5) gen nr s2 show False by (auto simp: store_failed_def split: if_splits)
  qed
  have out: "sent = s" "d' = d2" using rep now assms(5) gen e s1 by auto
  have "b' = None" using rep by (rule report_retired_forgets)
  with out kept e save_retired_command [OF s1] assms(4) report_nothing show ?thesis by simp
qed

section \<open>Concrete enrolments\<close>

definition manual_command :: journal_command where
  "manual_command = stored_command\<lparr>jc_trigger := ''manual''\<rparr>"

definition old_bootstrap :: bootstrap where
  "old_bootstrap = dm_bootstrap sample_daemon"

definition sample_retire_env :: retire_env where
  "sample_retire_env =
     \<lparr>ree_parse = (\<lambda>_. None), ree_load = None, ree_draws = (\<lambda>_. Some (replicate 10 0)), ree_journal = Written,
      ree_read = None, ree_read_again = None, ree_write = Written\<rparr>"

lemma manual_saved:
  "command_stored_ok stored_id c \<Longrightarrow> jc_trigger c \<noteq> ''scheduled'' \<Longrightarrow>
   \<exists>db'. SaveCommandJournal \<lparr>cj_version = commandJournalVersion, cj_commands = [(stored_id, c)]\<rparr> db = Inr db'"
  by (simp add: SaveCommandJournal_def saveCommandJournal_def sorted_commands_def save_command_def Let_def)


lemma retired_removed_reported_witness:
  "\<exists>e sent d'. flushRetiredCommand sample_env 1 stored_id (put_command stored_id (stored_command\<lparr>jc_events := []\<rparr>) sample_daemon)
      = (e, sent, d') \<and> command d' stored_id = None \<and> ac_generation (jc_command stored_command) = 1"
proof -
  let ?c = "stored_command\<lparr>jc_events := []\<rparr>"
  let ?d = "put_command stored_id ?c sample_daemon"
  obtain e sent d' where r: "flushRetiredCommand sample_env 1 stored_id ?d = (e, sent, d')" by (metis prod.collapse)
  have c: "command ?d stored_id = Some ?c" by (simp add: put_command_def)
  obtain f d1 where s: "save_journal sample_env (drop_command stored_id ?d) = (f, d1)" by fastforce
  obtain g d2 where m: "remove_run_log [] d1 = (g, d2)" by fastforce
  have gone: "command d1 stored_id = None"
    using save_journal_commands [OF s] by (simp add: drop_command_def put_command_def sample_daemon_def)
  moreover have "command d2 = command d1" using remove_run_log_frame [OF m] by (rule command_work)
  moreover have "d' = d1 \<or> d' = d2" using r s m
    by (auto simp: flushRetiredCommand_def c stored_command_def retired_events_def retired_log_def
        retired_removal_def split: option.splits)
  ultimately have gone: "command d' stored_id = None" by auto
  from retired_removed_reported [OF r c gone] have "ac_generation (jc_command stored_command) = 1" by simp
  with r gone show ?thesis by blast
qed

text \<open>A command with 31 events.\<close>

definition accepting_env :: daemon_env where
  "accepting_env =
     sample_env\<lparr>de_events := \<lambda>n batch. Inr (map (\<lambda>e. \<lparr>er_id = ev_id e, er_status = ''accepted'', er_code = []\<rparr>) batch)\<rparr>"

definition long_command :: journal_command where
  "long_command = waiting_command\<lparr>jc_events := map stored_event [1..<32]\<rparr>"

definition long_daemon :: daemon where
  "long_daemon = sample_daemon\<lparr>dm_journal := [(stored_id, long_command)]\<rparr>"

definition sample_retired :: retired_enrollment where
  "sample_retired =
     \<lparr>re_endpoint = ''https://c'', re_server_id = stored_id, re_generation = 1, re_credential = replicate 43 (CHR ''A''),
      re_expires_at = ''2026-01-02T00:00:00.000000Z''\<rparr>"

definition sample_parse :: "string \<Rightarrow> endpoint_url option" where
  "sample_parse value =
     Some \<lparr>ur_scheme = ''https'', ur_hostname = ''c'', ur_port = [], ur_has_user = False, ur_raw_query = [],
       ur_force_query = False, ur_fragment = [], ur_path = [], ur_raw_path = [], eu_host = ''c''\<rparr>"

lemma sample_expiry: "time_parse ''2026-01-02T00:00:00.000000Z'' = Some 1767312000000000000"
  "timestamp_shape ''2026-01-02T00:00:00.000000Z''"
  by code_simp+

lemma sample_credential: "raw_url_bytes (replicate 43 (CHR ''A'')) = Some 32"
  by (simp add: raw_url_bytes_def list_all_iff filter_replicate)

lemma sample_retired_ok: "retired_ok sample_parse sample_retired"
proof -
  have "is_ulid stored_id" using waiting_ok by (simp add: command_stored_ok_def)
  moreover have "validControlPlaneEndpoint sample_parse ''https://c''"
    by (simp add: validControlPlaneEndpoint_def sample_parse_def)
  ultimately show ?thesis using sample_expiry sample_credential
    by (simp add: retired_ok_def sample_retired_def validateTimestamp_def)
qed

lemma accepting_save: "save_journal accepting_env d = save_journal sample_env d"
  by (simp add: save_journal_def write_store_def accepting_env_def)

lemma accepted_submit:
  "SubmitEvents accepting_env batch d = (Inr (map (\<lambda>e. \<lparr>er_id = ev_id e, er_status = ''accepted'', er_code = []\<rparr>) batch), tick d)"
  by (simp add: SubmitEvents_def accepting_env_def statuses_def list_all2_conv_all_nth)

lemma accepted_none: "retired_rejection (map (\<lambda>e. \<lparr>er_id = ev_id e, er_status = ''accepted'', er_code = []\<rparr>) batch) = None"
  by (auto simp: retired_rejection_def find_None_iff)

lemma long_flushed:
  "\<exists>sent d'. flushRetiredCommand accepting_env 1 stored_id (tick (tick long_daemon)) = (None, sent, d')"
proof -
  let ?d = "tick (tick long_daemon)"
  have c: "command ?d stored_id = Some long_command" by (simp add: tick_def long_daemon_def)
  let ?c = "long_command\<lparr>jc_events := drop maximumEventBatch (jc_events long_command)\<rparr>"
  have len: "jc_events long_command \<noteq> []" "length (jc_events long_command) = 31"
    by (simp_all add: long_command_def)
  have d3: "command (tick ?d) stored_id = Some long_command" using c by (simp add: tick_def)
  have ok: "command_stored_ok stored_id ?c" using waiting_ok by (simp add: command_stored_ok_def long_command_def)
  have "dm_journal (put_command stored_id ?c (tick ?d)) = [(stored_id, ?c)]"
    "fs_db (dm_store (put_command stored_id ?c (tick ?d))) = empty_db"
    by (simp_all add: put_command_def tick_def long_daemon_def sample_daemon_def)
  from single_saved [OF this(1) ok this(2), of Written]
  have "fst (save_journal sample_env (put_command stored_id ?c (tick ?d))) = None" by (subst sample_writing) simp
  then obtain d2 where s: "save_journal sample_env (put_command stored_id ?c (tick ?d)) = (None, d2)" by (metis prod.collapse)
  have "length (take maximumEventBatch (jc_events long_command)) = maximumEventBatch" "maximumEventBatch < length (jc_events long_command)"
    using len by (simp_all add: maximumEventBatch_def)
  then have "retired_events accepting_env stored_id (jc_events long_command) ?d
      = (Inl None, [EventsReport (take maximumEventBatch (jc_events long_command))], d2)"
    using len(1) d3 s by (simp add: retired_events_def accepted_submit accepted_none update_command_def accepting_save Let_def)
  moreover have "ac_generation (jc_command long_command) = 1"
    by (simp add: long_command_def waiting_command_def stored_command_def)
  ultimately show ?thesis using c by (simp add: flushRetiredCommand_def)
qed

lemma retired_events_stranded_witness:
  "\<exists>sent b d'. reportRetiredJournal accepting_env sample_parse (Some [sample_retired]) long_daemon = (None, sent, b, d')
    \<and> b = None \<and> command d' stored_id = Some (long_command\<lparr>jc_events := drop maximumEventBatch (jc_events long_command)\<rparr>)"
proof -
  obtain s d1 where fl: "flushRetiredCommand accepting_env 1 stored_id (tick (tick long_daemon)) = (None, s, d1)"
    using long_flushed by blast
  have g: "ac_generation (jc_command long_command) = re_generation sample_retired" "re_generation sample_retired = 1"
    by (simp_all add: long_command_def waiting_command_def stored_command_def sample_retired_def)
  have j: "dm_journal long_daemon = [(stored_id, long_command)]" by (simp add: long_daemon_def)
  have time: "\<not> enrollment_expired (de_clock accepting_env (Suc (dm_tick long_daemon))) sample_retired"
    using sample_expiry by (simp add: enrollment_expired_def sample_retired_def accepting_env_def sample_env_def)
  have gen: "flushRetiredGeneration accepting_env 1 (tick (tick long_daemon)) = (True, None, s, d1)"
    using j fl g by (simp add: flushRetiredGeneration_def of_generation_def tick_def)
  have w: "de_write accepting_env n = Written" "de_read accepting_env n = None" for n
    by (simp_all add: accepting_env_def sample_env_def)
  obtain b d' where save: "save_retired accepting_env [] (Some [sample_retired]) d1 = (None, b, d')"
    by (simp add: save_retired_def saveRetiredEnrollments_def updateState_def w)
  have now: "read_now accepting_env (tick long_daemon) = (de_clock accepting_env (Suc (dm_tick long_daemon)), tick (tick long_daemon))"
    by (simp add: read_now_def tick_def)
  have rep: "report_retired accepting_env [sample_retired] [] [sample_retired] (Some [sample_retired]) (tick long_daemon) = (None, s, b, d')"
    using now time gen save g(2) by (simp add: store_failed_def)
  have r: "reportRetiredJournal accepting_env sample_parse (Some [sample_retired]) long_daemon = (None, s, b, d')"
    using rep w(2) sample_retired_ok
    by (simp add: reportRetiredJournal_def loadRetiredEnrollments_def openRetiredEnrollments_def Let_def del: report_retired.simps)
  have "maximumEventBatch < length (jc_events long_command)" by (simp add: long_command_def maximumEventBatch_def)
  from retired_events_stranded [OF r j g(1) this time] r show ?thesis
    by (auto simp: accepting_env_def)
qed

end
