(* ===== verification/Documents.thy ===== *)
theory Documents
  imports RepositoryCodec JobRules
begin

text \<open>
  The configuration document (agent/config.go): the Go structs that stand for its JSON, how a tree is decoded
  into them and how they are encoded, and that decoding gives back what was encoded. Destinations and jobs
  stay trees here (\<open>json.RawMessage\<close>), since what they are decoded as depends on their contents.
\<close>

section \<open>Documents\<close>

record selection_document =
  sl_mode :: string
  sl_databases :: "string list"

record dump_document =
  dp_include_routines :: bool
  dp_include_events :: bool
  dp_custom_flags :: "string list"

record source_document =
  sr_root :: string
  sr_paths :: "string list"
  sr_one_file_system :: "bool option"
  sr_excludes :: "string list"
  sr_host :: string
  sr_port :: nat
  sr_username :: string
  sr_password :: string
  sr_password_file :: string
  sr_connection_database :: string
  sr_selection :: "selection_document option"
  sr_dump :: "dump_document option"
  sr_table_selection :: "table_selection option"

record repository_document =
  ry_repository_key :: string
  ry_id :: string
  ry_destination :: string
  ry_path :: string
  ry_password :: string
  ry_status :: string
  ry_source :: string

record replication_document =
  rc_mode :: string
  rc_coalesce :: bool
  rc_safety_hold_seconds :: nat

record retention_document =
  rn_last :: "nat option"
  rn_hourly :: "nat option"
  rn_daily :: "nat option"
  rn_weekly :: "nat option"
  rn_monthly :: "nat option"
  rn_yearly :: "nat option"
  rn_forget_schedule :: string
  rn_prune_schedule :: string

record integrity_document =
  ig_metadata_schedule :: string
  ig_data_schedule :: string
  ig_data_parts :: nat

record repository_safety =
  sy_latest_complete :: "complete_snapshot_proof option"
  sy_has_unresolved_runs :: bool
  sy_protected_snapshot_ids :: "string list"
  sy_protected_run_ids :: "string list"

record job_document =
  jd_name :: string
  jd_type :: string
  jd_enabled :: "bool option"
  jd_source :: source_document
  jd_repository :: repository_document
  jd_replicas :: "repository_document list"
  jd_replica_setups :: "repository_document list"
  jd_replication :: "replication_document option"
  jd_schedule :: string
  jd_maintenance :: "job_maintenance option"
  jd_retention :: "retention_document option"
  jd_integrity :: "integrity_document option"
  jd_safety :: "repository_safety option"

record metadata_document =
  md_protocol_revision :: string
  md_generation :: nat
  md_revision :: nat
  md_schema_version :: nat
  md_issued_at :: string
  md_digest :: string

record host_document =
  hd_name :: string
  hd_id :: string

record realtime_config =
  rm_key :: string
  rm_host :: string
  rm_port :: int
  rm_channel :: string
  rm_auth_url :: string
  rm_encrypted :: bool

type_synonym raw_map = "(string, json) gomap"

record config_document =
  cg_schema :: string
  cg_metadata :: metadata_document
  cg_host :: host_document
  cg_realtime :: "realtime_config option"
  cg_destinations :: "raw_map option"
  cg_jobs :: "raw_map option"

section \<open>Zero values\<close>

definition zero_entry :: table_selection_entry where
  "zero_entry = \<lparr>te_database = [], te_schema = [], te_table = []\<rparr>"

definition zero_table_selection :: table_selection where
  "zero_table_selection = \<lparr>ts_mode = [], ts_tables = []\<rparr>"

definition zero_selection :: selection_document where
  "zero_selection = \<lparr>sl_mode = [], sl_databases = []\<rparr>"

definition zero_dump :: dump_document where
  "zero_dump = \<lparr>dp_include_routines = False, dp_include_events = False, dp_custom_flags = []\<rparr>"

definition zero_source_document :: source_document where
  "zero_source_document =
     \<lparr>sr_root = [], sr_paths = [], sr_one_file_system = None, sr_excludes = [], sr_host = [], sr_port = 0,
      sr_username = [], sr_password = [], sr_password_file = [], sr_connection_database = [], sr_selection = None,
      sr_dump = None, sr_table_selection = None\<rparr>"

definition zero_repository_document :: repository_document where
  "zero_repository_document =
     \<lparr>ry_repository_key = [], ry_id = [], ry_destination = [], ry_path = [], ry_password = [], ry_status = [],
      ry_source = []\<rparr>"

definition zero_replication :: replication_document where
  "zero_replication = \<lparr>rc_mode = [], rc_coalesce = False, rc_safety_hold_seconds = 0\<rparr>"

definition zero_maintenance :: job_maintenance where
  "zero_maintenance = \<lparr>jm_strategy = [], jm_max_deferral_seconds = 0, jm_prune_interval_seconds = 0\<rparr>"

definition zero_retention_document :: retention_document where
  "zero_retention_document =
     \<lparr>rn_last = None, rn_hourly = None, rn_daily = None, rn_weekly = None, rn_monthly = None, rn_yearly = None,
      rn_forget_schedule = [], rn_prune_schedule = []\<rparr>"

definition zero_integrity_document :: integrity_document where
  "zero_integrity_document = \<lparr>ig_metadata_schedule = [], ig_data_schedule = [], ig_data_parts = 0\<rparr>"

definition zero_proof :: complete_snapshot_proof where
  "zero_proof = \<lparr>cs_run_id = [], cs_finished_at = [], cs_snapshot_ids = []\<rparr>"

definition zero_safety :: repository_safety where
  "zero_safety =
     \<lparr>sy_latest_complete = None, sy_has_unresolved_runs = False, sy_protected_snapshot_ids = [], sy_protected_run_ids = []\<rparr>"

definition zero_job_document :: job_document where
  "zero_job_document =
     \<lparr>jd_name = [], jd_type = [], jd_enabled = None, jd_source = zero_source_document,
      jd_repository = zero_repository_document, jd_replicas = [], jd_replica_setups = [], jd_replication = None,
      jd_schedule = [], jd_maintenance = None, jd_retention = None, jd_integrity = None, jd_safety = None\<rparr>"

definition zero_metadata :: metadata_document where
  "zero_metadata =
     \<lparr>md_protocol_revision = [], md_generation = 0, md_revision = 0, md_schema_version = 0, md_issued_at = [], md_digest = []\<rparr>"

definition zero_host :: host_document where
  "zero_host = \<lparr>hd_name = [], hd_id = []\<rparr>"

definition zero_realtime :: realtime_config where
  "zero_realtime = \<lparr>rm_key = [], rm_host = [], rm_port = 0, rm_channel = [], rm_auth_url = [], rm_encrypted = False\<rparr>"

definition zero_config_document :: config_document where
  "zero_config_document =
     \<lparr>cg_schema = [], cg_metadata = zero_metadata, cg_host = zero_host, cg_realtime = None, cg_destinations = None,
      cg_jobs = None\<rparr>"

section \<open>Decoding\<close>

definition int_of_literal :: "string \<Rightarrow> int option" where
  "int_of_literal l =
     (case (if has_prefix l ''-'' then map_option (\<lambda>n. - int n) (parse_nat (tl l)) else map_option int (parse_nat l)) of
        None \<Rightarrow> None | Some n \<Rightarrow> if - (2 ^ 63) \<le> n \<and> n < 2 ^ 63 then Some n else None)"

fun dec_int :: "int decoder" where
  "dec_int JNull old = Some old"
| "dec_int (JNum l) old = int_of_literal l"
| "dec_int _ old = None"

text \<open>A map is made when there is none; a key that is there again takes the later value.\<close>

fun dec_raw_map :: "raw_map option decoder" where
  "dec_raw_map JNull old = Some None"
| "dec_raw_map (JObj ms) old = Some (Some (fold (\<lambda>(k, v). mput k v) ms (case old of None \<Rightarrow> [] | Some m \<Rightarrow> m)))"
| "dec_raw_map _ old = None"

definition entry_fields :: "(string \<times> table_selection_entry decoder) list" where
  "entry_fields =
     [(''database'', on_field dec_string te_database (\<lambda>v. te_database_update (\<lambda>_. v))),
      (''schema'', on_field dec_string te_schema (\<lambda>v. te_schema_update (\<lambda>_. v))),
      (''table'', on_field dec_string te_table (\<lambda>v. te_table_update (\<lambda>_. v)))]"

definition table_selection_fields :: "(string \<times> table_selection decoder) list" where
  "table_selection_fields =
     [(''mode'', on_field dec_string ts_mode (\<lambda>v. ts_mode_update (\<lambda>_. v))),
      (''tables'', on_field (dec_list (dec_struct False entry_fields) zero_entry) ts_tables (\<lambda>v. ts_tables_update (\<lambda>_. v)))]"

definition selection_fields :: "(string \<times> selection_document decoder) list" where
  "selection_fields =
     [(''mode'', on_field dec_string sl_mode (\<lambda>v. sl_mode_update (\<lambda>_. v))),
      (''databases'', on_field (dec_list dec_string []) sl_databases (\<lambda>v. sl_databases_update (\<lambda>_. v)))]"

definition dump_fields :: "(string \<times> dump_document decoder) list" where
  "dump_fields =
     [(''include_routines'', on_field dec_bool dp_include_routines (\<lambda>v. dp_include_routines_update (\<lambda>_. v))),
      (''include_events'', on_field dec_bool dp_include_events (\<lambda>v. dp_include_events_update (\<lambda>_. v))),
      (''custom_flags'', on_field (dec_list dec_string []) dp_custom_flags (\<lambda>v. dp_custom_flags_update (\<lambda>_. v)))]"

definition source_fields :: "(string \<times> source_document decoder) list" where
  "source_fields =
     [(''root'', on_field dec_string sr_root (\<lambda>v. sr_root_update (\<lambda>_. v))),
      (''paths'', on_field (dec_list dec_string []) sr_paths (\<lambda>v. sr_paths_update (\<lambda>_. v))),
      (''one_file_system'', on_field (dec_pointer dec_bool False) sr_one_file_system (\<lambda>v. sr_one_file_system_update (\<lambda>_. v))),
      (''excludes'', on_field (dec_list dec_string []) sr_excludes (\<lambda>v. sr_excludes_update (\<lambda>_. v))),
      (''host'', on_field dec_string sr_host (\<lambda>v. sr_host_update (\<lambda>_. v))),
      (''port'', on_field dec_uint16 sr_port (\<lambda>v. sr_port_update (\<lambda>_. v))),
      (''username'', on_field dec_string sr_username (\<lambda>v. sr_username_update (\<lambda>_. v))),
      (''password'', on_field dec_string sr_password (\<lambda>v. sr_password_update (\<lambda>_. v))),
      (''password_file'', on_field dec_string sr_password_file (\<lambda>v. sr_password_file_update (\<lambda>_. v))),
      (''connection_database'', on_field dec_string sr_connection_database (\<lambda>v. sr_connection_database_update (\<lambda>_. v))),
      (''selection'', on_field (dec_pointer (dec_struct False selection_fields) zero_selection) sr_selection
         (\<lambda>v. sr_selection_update (\<lambda>_. v))),
      (''dump'', on_field (dec_pointer (dec_struct False dump_fields) zero_dump) sr_dump (\<lambda>v. sr_dump_update (\<lambda>_. v))),
      (''table_selection'', on_field (dec_pointer (dec_struct False table_selection_fields) zero_table_selection)
         sr_table_selection (\<lambda>v. sr_table_selection_update (\<lambda>_. v)))]"

definition repository_fields :: "(string \<times> repository_document decoder) list" where
  "repository_fields =
     [(''repository_key'', on_field dec_string ry_repository_key (\<lambda>v. ry_repository_key_update (\<lambda>_. v))),
      (''id'', on_field dec_string ry_id (\<lambda>v. ry_id_update (\<lambda>_. v))),
      (''destination'', on_field dec_string ry_destination (\<lambda>v. ry_destination_update (\<lambda>_. v))),
      (''path'', on_field dec_string ry_path (\<lambda>v. ry_path_update (\<lambda>_. v))),
      (''password'', on_field dec_string ry_password (\<lambda>v. ry_password_update (\<lambda>_. v))),
      (''status'', on_field dec_string ry_status (\<lambda>v. ry_status_update (\<lambda>_. v))),
      (''source'', on_field dec_string ry_source (\<lambda>v. ry_source_update (\<lambda>_. v)))]"

definition replication_fields :: "(string \<times> replication_document decoder) list" where
  "replication_fields =
     [(''mode'', on_field dec_string rc_mode (\<lambda>v. rc_mode_update (\<lambda>_. v))),
      (''coalesce'', on_field dec_bool rc_coalesce (\<lambda>v. rc_coalesce_update (\<lambda>_. v))),
      (''safety_hold_seconds'', on_field dec_uint64 rc_safety_hold_seconds (\<lambda>v. rc_safety_hold_seconds_update (\<lambda>_. v)))]"

definition maintenance_fields :: "(string \<times> job_maintenance decoder) list" where
  "maintenance_fields =
     [(''strategy'', on_field dec_string jm_strategy (\<lambda>v. jm_strategy_update (\<lambda>_. v))),
      (''max_deferral_seconds'', on_field dec_uint64 jm_max_deferral_seconds (\<lambda>v. jm_max_deferral_seconds_update (\<lambda>_. v))),
      (''prune_interval_seconds'', on_field dec_uint64 jm_prune_interval_seconds (\<lambda>v. jm_prune_interval_seconds_update (\<lambda>_. v)))]"

definition retention_fields :: "(string \<times> retention_document decoder) list" where
  "retention_fields =
     [(''last'', on_field (dec_pointer dec_uint64 0) rn_last (\<lambda>v. rn_last_update (\<lambda>_. v))),
      (''hourly'', on_field (dec_pointer dec_uint64 0) rn_hourly (\<lambda>v. rn_hourly_update (\<lambda>_. v))),
      (''daily'', on_field (dec_pointer dec_uint64 0) rn_daily (\<lambda>v. rn_daily_update (\<lambda>_. v))),
      (''weekly'', on_field (dec_pointer dec_uint64 0) rn_weekly (\<lambda>v. rn_weekly_update (\<lambda>_. v))),
      (''monthly'', on_field (dec_pointer dec_uint64 0) rn_monthly (\<lambda>v. rn_monthly_update (\<lambda>_. v))),
      (''yearly'', on_field (dec_pointer dec_uint64 0) rn_yearly (\<lambda>v. rn_yearly_update (\<lambda>_. v))),
      (''forget_schedule'', on_field dec_string rn_forget_schedule (\<lambda>v. rn_forget_schedule_update (\<lambda>_. v))),
      (''prune_schedule'', on_field dec_string rn_prune_schedule (\<lambda>v. rn_prune_schedule_update (\<lambda>_. v)))]"

definition integrity_fields :: "(string \<times> integrity_document decoder) list" where
  "integrity_fields =
     [(''metadata_schedule'', on_field dec_string ig_metadata_schedule (\<lambda>v. ig_metadata_schedule_update (\<lambda>_. v))),
      (''data_schedule'', on_field dec_string ig_data_schedule (\<lambda>v. ig_data_schedule_update (\<lambda>_. v))),
      (''data_parts'', on_field dec_uint64 ig_data_parts (\<lambda>v. ig_data_parts_update (\<lambda>_. v)))]"

definition proof_fields :: "(string \<times> complete_snapshot_proof decoder) list" where
  "proof_fields =
     [(''run_id'', on_field dec_string cs_run_id (\<lambda>v. cs_run_id_update (\<lambda>_. v))),
      (''finished_at'', on_field dec_string cs_finished_at (\<lambda>v. cs_finished_at_update (\<lambda>_. v))),
      (''snapshot_ids'', on_field (dec_list dec_string []) cs_snapshot_ids (\<lambda>v. cs_snapshot_ids_update (\<lambda>_. v)))]"

definition safety_fields :: "(string \<times> repository_safety decoder) list" where
  "safety_fields =
     [(''latest_complete'', on_field (dec_pointer (dec_struct False proof_fields) zero_proof) sy_latest_complete
         (\<lambda>v. sy_latest_complete_update (\<lambda>_. v))),
      (''has_unresolved_runs'', on_field dec_bool sy_has_unresolved_runs (\<lambda>v. sy_has_unresolved_runs_update (\<lambda>_. v))),
      (''protected_snapshot_ids'', on_field (dec_list dec_string []) sy_protected_snapshot_ids
         (\<lambda>v. sy_protected_snapshot_ids_update (\<lambda>_. v))),
      (''protected_run_ids'', on_field (dec_list dec_string []) sy_protected_run_ids
         (\<lambda>v. sy_protected_run_ids_update (\<lambda>_. v)))]"

definition job_fields :: "(string \<times> job_document decoder) list" where
  "job_fields =
     [(''name'', on_field dec_string jd_name (\<lambda>v. jd_name_update (\<lambda>_. v))),
      (''type'', on_field dec_string jd_type (\<lambda>v. jd_type_update (\<lambda>_. v))),
      (''enabled'', on_field (dec_pointer dec_bool False) jd_enabled (\<lambda>v. jd_enabled_update (\<lambda>_. v))),
      (''source'', on_field (dec_struct False source_fields) jd_source (\<lambda>v. jd_source_update (\<lambda>_. v))),
      (''repository'', on_field (dec_struct False repository_fields) jd_repository (\<lambda>v. jd_repository_update (\<lambda>_. v))),
      (''replicas'', on_field (dec_list (dec_struct False repository_fields) zero_repository_document) jd_replicas
         (\<lambda>v. jd_replicas_update (\<lambda>_. v))),
      (''replica_setups'', on_field (dec_list (dec_struct False repository_fields) zero_repository_document) jd_replica_setups
         (\<lambda>v. jd_replica_setups_update (\<lambda>_. v))),
      (''replication'', on_field (dec_pointer (dec_struct False replication_fields) zero_replication) jd_replication
         (\<lambda>v. jd_replication_update (\<lambda>_. v))),
      (''schedule'', on_field dec_string jd_schedule (\<lambda>v. jd_schedule_update (\<lambda>_. v))),
      (''maintenance'', on_field (dec_pointer (dec_struct False maintenance_fields) zero_maintenance) jd_maintenance
         (\<lambda>v. jd_maintenance_update (\<lambda>_. v))),
      (''retention'', on_field (dec_pointer (dec_struct False retention_fields) zero_retention_document) jd_retention
         (\<lambda>v. jd_retention_update (\<lambda>_. v))),
      (''integrity'', on_field (dec_pointer (dec_struct False integrity_fields) zero_integrity_document) jd_integrity
         (\<lambda>v. jd_integrity_update (\<lambda>_. v))),
      (''safety'', on_field (dec_pointer (dec_struct False safety_fields) zero_safety) jd_safety
         (\<lambda>v. jd_safety_update (\<lambda>_. v)))]"

definition metadata_fields :: "(string \<times> metadata_document decoder) list" where
  "metadata_fields =
     [(''protocol_revision'', on_field dec_string md_protocol_revision (\<lambda>v. md_protocol_revision_update (\<lambda>_. v))),
      (''generation'', on_field dec_uint64 md_generation (\<lambda>v. md_generation_update (\<lambda>_. v))),
      (''revision'', on_field dec_uint64 md_revision (\<lambda>v. md_revision_update (\<lambda>_. v))),
      (''schema_version'', on_field dec_uint64 md_schema_version (\<lambda>v. md_schema_version_update (\<lambda>_. v))),
      (''issued_at'', on_field dec_string md_issued_at (\<lambda>v. md_issued_at_update (\<lambda>_. v))),
      (''digest'', on_field dec_string md_digest (\<lambda>v. md_digest_update (\<lambda>_. v)))]"

definition host_fields :: "(string \<times> host_document decoder) list" where
  "host_fields =
     [(''name'', on_field dec_string hd_name (\<lambda>v. hd_name_update (\<lambda>_. v))),
      (''id'', on_field dec_string hd_id (\<lambda>v. hd_id_update (\<lambda>_. v)))]"

definition realtime_fields :: "(string \<times> realtime_config decoder) list" where
  "realtime_fields =
     [(''key'', on_field dec_string rm_key (\<lambda>v. rm_key_update (\<lambda>_. v))),
      (''host'', on_field dec_string rm_host (\<lambda>v. rm_host_update (\<lambda>_. v))),
      (''port'', on_field dec_int rm_port (\<lambda>v. rm_port_update (\<lambda>_. v))),
      (''channel'', on_field dec_string rm_channel (\<lambda>v. rm_channel_update (\<lambda>_. v))),
      (''auth_url'', on_field dec_string rm_auth_url (\<lambda>v. rm_auth_url_update (\<lambda>_. v))),
      (''encrypted'', on_field dec_bool rm_encrypted (\<lambda>v. rm_encrypted_update (\<lambda>_. v)))]"

definition config_fields :: "(string \<times> config_document decoder) list" where
  "config_fields =
     [(''$schema'', on_field dec_string cg_schema (\<lambda>v. cg_schema_update (\<lambda>_. v))),
      (''metadata'', on_field (dec_struct False metadata_fields) cg_metadata (\<lambda>v. cg_metadata_update (\<lambda>_. v))),
      (''host'', on_field (dec_struct False host_fields) cg_host (\<lambda>v. cg_host_update (\<lambda>_. v))),
      (''realtime'', on_field (dec_pointer (dec_struct False realtime_fields) zero_realtime) cg_realtime
         (\<lambda>v. cg_realtime_update (\<lambda>_. v))),
      (''destinations'', on_field dec_raw_map cg_destinations (\<lambda>v. cg_destinations_update (\<lambda>_. v))),
      (''jobs'', on_field dec_raw_map cg_jobs (\<lambda>v. cg_jobs_update (\<lambda>_. v)))]"

section \<open>Encoding\<close>

text \<open>A field with \<open>omitempty\<close> is left out when it holds the zero value.\<close>

definition omit_text :: "string \<Rightarrow> json option" where
  "omit_text v = (if v = [] then None else Some (JStr v))"

definition omit_texts :: "string list \<Rightarrow> json option" where
  "omit_texts vs = (if vs = [] then None else Some (JArr (map JStr vs)))"

definition json_number :: "nat \<Rightarrow> json" where
  "json_number n = JNum (show_nat n)"

definition omit_number :: "nat \<Rightarrow> json option" where
  "omit_number n = (if n = 0 then None else Some (json_number n))"

definition omit_flag :: "bool \<Rightarrow> json option" where
  "omit_flag b = (if b then Some (JBool True) else None)"

definition omit_list :: "('a \<Rightarrow> json) \<Rightarrow> 'a list \<Rightarrow> json option" where
  "omit_list f xs = (if xs = [] then None else Some (JArr (map f xs)))"

definition json_int :: "int \<Rightarrow> json" where
  "json_int n = JNum (if n < 0 then ''-'' @ show_nat (nat (- n)) else show_nat (nat n))"

definition json_struct :: "(string \<times> json option) list \<Rightarrow> json" where
  "json_struct fs = JObj (concat (map (\<lambda>(k, v). put_option k v) fs))"

definition json_of_entry :: "table_selection_entry \<Rightarrow> json" where
  "json_of_entry e =
     json_struct [(''database'', Some (JStr (te_database e))), (''schema'', omit_text (te_schema e)),
       (''table'', Some (JStr (te_table e)))]"

definition json_of_table_selection :: "table_selection \<Rightarrow> json" where
  "json_of_table_selection s =
     json_struct [(''mode'', Some (JStr (ts_mode s))), (''tables'', Some (JArr (map json_of_entry (ts_tables s))))]"

definition json_of_selection :: "selection_document \<Rightarrow> json" where
  "json_of_selection s =
     json_struct [(''mode'', Some (JStr (sl_mode s))), (''databases'', omit_texts (sl_databases s))]"

definition json_of_dump :: "dump_document \<Rightarrow> json" where
  "json_of_dump d =
     json_struct [(''include_routines'', omit_flag (dp_include_routines d)), (''include_events'', omit_flag (dp_include_events d)),
       (''custom_flags'', omit_texts (dp_custom_flags d))]"

definition json_of_source :: "source_document \<Rightarrow> json" where
  "json_of_source s =
     json_struct
       [(''root'', omit_text (sr_root s)), (''paths'', omit_texts (sr_paths s)),
        (''one_file_system'', map_option JBool (sr_one_file_system s)), (''excludes'', omit_texts (sr_excludes s)),
        (''host'', omit_text (sr_host s)), (''port'', omit_number (sr_port s)), (''username'', omit_text (sr_username s)),
        (''password'', omit_text (sr_password s)), (''password_file'', omit_text (sr_password_file s)),
        (''connection_database'', omit_text (sr_connection_database s)),
        (''selection'', map_option json_of_selection (sr_selection s)), (''dump'', map_option json_of_dump (sr_dump s)),
        (''table_selection'', map_option json_of_table_selection (sr_table_selection s))]"

definition json_of_repository :: "repository_document \<Rightarrow> json" where
  "json_of_repository r =
     json_struct
       [(''repository_key'', omit_text (ry_repository_key r)), (''id'', omit_text (ry_id r)),
        (''destination'', Some (JStr (ry_destination r))), (''path'', Some (JStr (ry_path r))),
        (''password'', Some (JStr (ry_password r))), (''status'', omit_text (ry_status r)), (''source'', omit_text (ry_source r))]"

definition json_of_replication :: "replication_document \<Rightarrow> json" where
  "json_of_replication r =
     json_struct [(''mode'', Some (JStr (rc_mode r))), (''coalesce'', Some (JBool (rc_coalesce r))),
       (''safety_hold_seconds'', Some (json_number (rc_safety_hold_seconds r)))]"

definition json_of_maintenance :: "job_maintenance \<Rightarrow> json" where
  "json_of_maintenance m =
     json_struct [(''strategy'', Some (JStr (jm_strategy m))), (''max_deferral_seconds'', Some (json_number (jm_max_deferral_seconds m))),
       (''prune_interval_seconds'', Some (json_number (jm_prune_interval_seconds m)))]"

definition json_of_retention :: "retention_document \<Rightarrow> json" where
  "json_of_retention r =
     json_struct
       [(''last'', map_option json_number (rn_last r)), (''hourly'', map_option json_number (rn_hourly r)),
        (''daily'', map_option json_number (rn_daily r)), (''weekly'', map_option json_number (rn_weekly r)),
        (''monthly'', map_option json_number (rn_monthly r)), (''yearly'', map_option json_number (rn_yearly r)),
        (''forget_schedule'', omit_text (rn_forget_schedule r)), (''prune_schedule'', omit_text (rn_prune_schedule r))]"

definition json_of_integrity :: "integrity_document \<Rightarrow> json" where
  "json_of_integrity i =
     json_struct [(''metadata_schedule'', omit_text (ig_metadata_schedule i)), (''data_schedule'', omit_text (ig_data_schedule i)),
       (''data_parts'', omit_number (ig_data_parts i))]"

definition json_of_proof :: "complete_snapshot_proof \<Rightarrow> json" where
  "json_of_proof p =
     json_struct [(''run_id'', Some (JStr (cs_run_id p))), (''finished_at'', Some (JStr (cs_finished_at p))),
       (''snapshot_ids'', Some (JArr (map JStr (cs_snapshot_ids p))))]"

definition json_of_safety :: "repository_safety \<Rightarrow> json" where
  "json_of_safety s =
     json_struct
       [(''latest_complete'', map_option json_of_proof (sy_latest_complete s)),
        (''has_unresolved_runs'', omit_flag (sy_has_unresolved_runs s)),
        (''protected_snapshot_ids'', omit_texts (sy_protected_snapshot_ids s)),
        (''protected_run_ids'', omit_texts (sy_protected_run_ids s))]"

definition json_of_job :: "job_document \<Rightarrow> json" where
  "json_of_job j =
     json_struct
       [(''name'', omit_text (jd_name j)), (''type'', Some (JStr (jd_type j))), (''enabled'', map_option JBool (jd_enabled j)),
        (''source'', Some (json_of_source (jd_source j))), (''repository'', Some (json_of_repository (jd_repository j))),
        (''replicas'', omit_list json_of_repository (jd_replicas j)),
        (''replica_setups'', omit_list json_of_repository (jd_replica_setups j)),
        (''replication'', map_option json_of_replication (jd_replication j)), (''schedule'', Some (JStr (jd_schedule j))),
        (''maintenance'', map_option json_of_maintenance (jd_maintenance j)),
        (''retention'', map_option json_of_retention (jd_retention j)),
        (''integrity'', map_option json_of_integrity (jd_integrity j)), (''safety'', map_option json_of_safety (jd_safety j))]"

definition json_of_metadata :: "metadata_document \<Rightarrow> json" where
  "json_of_metadata m =
     json_struct
       [(''protocol_revision'', omit_text (md_protocol_revision m)), (''generation'', omit_number (md_generation m)),
        (''revision'', omit_number (md_revision m)), (''schema_version'', Some (json_number (md_schema_version m))),
        (''issued_at'', omit_text (md_issued_at m)), (''digest'', omit_text (md_digest m))]"

definition json_of_host :: "host_document \<Rightarrow> json" where
  "json_of_host h = json_struct [(''name'', omit_text (hd_name h)), (''id'', omit_text (hd_id h))]"

definition json_of_realtime :: "realtime_config \<Rightarrow> json" where
  "json_of_realtime r =
     json_struct
       [(''key'', Some (JStr (rm_key r))), (''host'', Some (JStr (rm_host r))), (''port'', Some (json_int (rm_port r))),
        (''channel'', Some (JStr (rm_channel r))), (''auth_url'', Some (JStr (rm_auth_url r))),
        (''encrypted'', omit_flag (rm_encrypted r))]"

text \<open>The members of a map come in the order of their keys.\<close>

definition json_of_raw_map :: "raw_map option \<Rightarrow> json" where
  "json_of_raw_map m =
     (case m of None \<Rightarrow> JNull | Some m \<Rightarrow> JObj (map (\<lambda>k. (k, the (mget m k))) (sort (mkeys m))))"

definition json_of_config :: "config_document \<Rightarrow> json" where
  "json_of_config c =
     json_struct
       [(''$schema'', omit_text (cg_schema c)), (''metadata'', Some (json_of_metadata (cg_metadata c))),
        (''host'', Some (json_of_host (cg_host c))), (''realtime'', map_option json_of_realtime (cg_realtime c)),
        (''destinations'', Some (json_of_raw_map (cg_destinations c))), (''jobs'', Some (json_of_raw_map (cg_jobs c)))]"

section \<open>Decoding what was encoded\<close>

text \<open>One field of a struct: the member is decoded into the field, or the field holds the value it is left out
  for.\<close>

lemma dec_struct_json: "dec_struct strict fs (json_struct ps) r = dec_members strict fs (concat (map (\<lambda>(k, v). put_option k v) ps)) r"
  by (simp add: json_struct_def dec_struct.simps)

lemma some_step:
  assumes "find_field fs k = Some (on_field d g s)" "d j (g r) = Some v"
  shows "dec_members strict fs (put_option k (Some j) @ ms) r = dec_members strict fs ms (s v r)"
  using assms by (simp add: put_option_def on_field_def)

lemma text_step:
  assumes "find_field fs k = Some (on_field dec_string g s)" "s [] r = r"
  shows "dec_members strict fs (put_option k (omit_text v) @ ms) r = dec_members strict fs ms (s v r)"
  using assms by (cases "v = []") (simp_all add: put_option_def on_field_def omit_text_def)

declare dec_list.simps [simp del] dec_struct.simps [simp del] append_Nil2 [simp del]

lemma dec_texts [simp]: "dec_list dec_string [] (JArr (map JStr vs)) old = Some vs"
  using dec_list_JArr [of vs dec_string JStr "[]"] by simp

lemma texts_step:
  assumes "find_field fs k = Some (on_field (dec_list dec_string []) g s)" "s [] r = r"
  shows "dec_members strict fs (put_option k (omit_texts vs) @ ms) r = dec_members strict fs ms (s vs r)"
  using assms by (cases "vs = []") (simp_all add: put_option_def on_field_def omit_texts_def)

lemma dec_number [simp]: "n < 2 ^ 64 \<Longrightarrow> dec_uint64 (json_number n) old = Some n"
  by (simp add: json_number_def uint64_of_show_nat)

lemma dec_port [simp]: "n < 2 ^ 16 \<Longrightarrow> dec_uint16 (json_number n) old = Some n"
  by (simp add: json_number_def)

lemma number_step:
  assumes "find_field fs k = Some (on_field dec_uint64 g s)" "s 0 r = r" "n < 2 ^ 64"
  shows "dec_members strict fs (put_option k (omit_number n) @ ms) r = dec_members strict fs ms (s n r)"
  using assms by (cases "n = 0") (simp_all add: put_option_def on_field_def omit_number_def)

lemma port_step:
  assumes "find_field fs k = Some (on_field dec_uint16 g s)" "s 0 r = r" "n < 2 ^ 16"
  shows "dec_members strict fs (put_option k (omit_number n) @ ms) r = dec_members strict fs ms (s n r)"
  using assms by (cases "n = 0") (simp_all add: put_option_def on_field_def omit_number_def)

lemma flag_step:
  assumes "find_field fs k = Some (on_field dec_bool g s)" "s False r = r"
  shows "dec_members strict fs (put_option k (omit_flag b) @ ms) r = dec_members strict fs ms (s b r)"
  using assms by (cases b) (simp_all add: put_option_def on_field_def omit_flag_def)

lemma pointer_step:
  assumes "find_field fs k = Some (on_field (dec_pointer d zero) g s)" "s None r = r" "g r = None"
    "\<And>x. p = Some x \<Longrightarrow> enc x \<noteq> JNull \<and> d (enc x) zero = Some x"
  shows "dec_members strict fs (put_option k (map_option enc p) @ ms) r = dec_members strict fs ms (s p r)"
  using assms by (cases p) (simp_all add: put_option_def on_field_def dec_pointer_def)

lemma list_step:
  assumes "find_field fs k = Some (on_field (dec_list d zero) g s)" "s [] r = r" "\<And>x. x \<in> set xs \<Longrightarrow> d (enc x) zero = Some x"
  shows "dec_members strict fs (put_option k (omit_list enc xs) @ ms) r = dec_members strict fs ms (s xs r)"
  using assms dec_list_JArr [of xs d enc zero]
  by (cases "xs = []") (simp_all add: put_option_def on_field_def omit_list_def)

lemmas field_steps = dec_struct_json some_step text_step texts_step number_step port_step flag_step pointer_step list_step
  find_field_def

lemma struct_not_null [simp]: "json_struct fs \<noteq> JNull"
  by (simp add: json_struct_def)

lemma json_number_not_null [simp]: "json_number n \<noteq> JNull"
  by (simp add: json_number_def)

lemma entry_decode [simp]: "dec_struct False entry_fields (json_of_entry e) zero_entry = Some e"
  by (simp add: json_of_entry_def zero_entry_def field_steps entry_fields_def)

lemma table_selection_decode [simp]:
  "dec_struct False table_selection_fields (json_of_table_selection s) zero_table_selection = Some s"
proof -
  have "dec_list (dec_struct False entry_fields) zero_entry (JArr (map json_of_entry xs)) old = Some xs" for xs old
    by (rule dec_list_JArr) simp
  then show ?thesis
    by (simp add: json_of_table_selection_def zero_table_selection_def field_steps table_selection_fields_def)
qed

lemma selection_decode [simp]: "dec_struct False selection_fields (json_of_selection s) zero_selection = Some s"
  by (simp add: json_of_selection_def zero_selection_def field_steps selection_fields_def)

lemma dump_decode [simp]: "dec_struct False dump_fields (json_of_dump s) zero_dump = Some s"
  by (simp add: json_of_dump_def zero_dump_def field_steps dump_fields_def)

lemma documents_not_null [simp]:
  "json_of_selection s \<noteq> JNull" "json_of_dump d \<noteq> JNull" "json_of_table_selection t \<noteq> JNull" "json_of_replication rr \<noteq> JNull"
  "json_of_maintenance m \<noteq> JNull" "json_of_retention rn \<noteq> JNull" "json_of_integrity i \<noteq> JNull" "json_of_proof p \<noteq> JNull"
  "json_of_safety y \<noteq> JNull" "json_of_realtime rt \<noteq> JNull"
  by (simp_all add: json_of_selection_def json_of_dump_def json_of_table_selection_def json_of_replication_def
      json_of_maintenance_def json_of_retention_def json_of_integrity_def json_of_proof_def json_of_safety_def
      json_of_realtime_def)

lemma source_decode [simp]:
  "sr_port s < 2 ^ 16 \<Longrightarrow> dec_struct False source_fields (json_of_source s) zero_source_document = Some s"
  by (simp add: json_of_source_def zero_source_document_def field_steps source_fields_def)

lemma repository_decode [simp]:
  "dec_struct False repository_fields (json_of_repository r) zero_repository_document = Some r"
  by (simp add: json_of_repository_def zero_repository_document_def field_steps repository_fields_def)

lemma replication_decode [simp]:
  "rc_safety_hold_seconds r < 2 ^ 64 \<Longrightarrow> dec_struct False replication_fields (json_of_replication r) zero_replication = Some r"
  by (simp add: json_of_replication_def zero_replication_def field_steps replication_fields_def)

lemma maintenance_decode [simp]:
  "jm_max_deferral_seconds m < 2 ^ 64 \<Longrightarrow> jm_prune_interval_seconds m < 2 ^ 64 \<Longrightarrow>
   dec_struct False maintenance_fields (json_of_maintenance m) zero_maintenance = Some m"
  by (simp add: json_of_maintenance_def zero_maintenance_def field_steps maintenance_fields_def)

definition option_below :: "nat \<Rightarrow> nat option \<Rightarrow> bool" where
  "option_below k v = (case v of None \<Rightarrow> True | Some n \<Rightarrow> n < k)"

definition retention_small :: "retention_document \<Rightarrow> bool" where
  "retention_small r =
     list_all (option_below (2 ^ 64)) [rn_last r, rn_hourly r, rn_daily r, rn_weekly r, rn_monthly r, rn_yearly r]"

lemma number_pointer_step:
  assumes "find_field fs k = Some (on_field (dec_pointer dec_uint64 0) g s)" "s None r = r" "g r = None"
    "option_below (2 ^ 64) p"
  shows "dec_members strict fs (put_option k (map_option json_number p) @ ms) r = dec_members strict fs ms (s p r)"
  using assms by (cases p) (simp_all add: put_option_def on_field_def dec_pointer_def option_below_def)

lemma retention_decode [simp]:
  "retention_small r \<Longrightarrow> dec_struct False retention_fields (json_of_retention r) zero_retention_document = Some r"
  by (simp add: json_of_retention_def zero_retention_document_def retention_small_def dec_struct_json text_step
      number_pointer_step find_field_def retention_fields_def)

lemma integrity_decode [simp]:
  "ig_data_parts i < 2 ^ 64 \<Longrightarrow> dec_struct False integrity_fields (json_of_integrity i) zero_integrity_document = Some i"
  by (simp add: json_of_integrity_def zero_integrity_document_def field_steps integrity_fields_def)

lemma proof_decode [simp]: "dec_struct False proof_fields (json_of_proof p) zero_proof = Some p"
  by (simp add: json_of_proof_def zero_proof_def field_steps proof_fields_def)

lemma safety_decode [simp]: "dec_struct False safety_fields (json_of_safety s) zero_safety = Some s"
  by (simp add: json_of_safety_def zero_safety_def field_steps safety_fields_def)

text \<open>The numbers of a job document fit their types.\<close>

definition job_small :: "job_document \<Rightarrow> bool" where
  "job_small j =
     (sr_port (jd_source j) < 2 ^ 16
      \<and> (case jd_replication j of None \<Rightarrow> True | Some r \<Rightarrow> rc_safety_hold_seconds r < 2 ^ 64)
      \<and> (case jd_maintenance j of None \<Rightarrow> True
         | Some m \<Rightarrow> jm_max_deferral_seconds m < 2 ^ 64 \<and> jm_prune_interval_seconds m < 2 ^ 64)
      \<and> (case jd_retention j of None \<Rightarrow> True | Some r \<Rightarrow> retention_small r)
      \<and> (case jd_integrity j of None \<Rightarrow> True | Some i \<Rightarrow> ig_data_parts i < 2 ^ 64))"

lemma job_decode [simp]:
  assumes "job_small j"
  shows "dec_struct False job_fields (json_of_job j) zero_job_document = Some j"
proof -
  have small: "sr_port (jd_source j) < 2 ^ 16" "\<And>r. jd_replication j = Some r \<Longrightarrow> rc_safety_hold_seconds r < 2 ^ 64"
    "\<And>m. jd_maintenance j = Some m \<Longrightarrow> jm_max_deferral_seconds m < 2 ^ 64"
    "\<And>m. jd_maintenance j = Some m \<Longrightarrow> jm_prune_interval_seconds m < 2 ^ 64"
    "\<And>r. jd_retention j = Some r \<Longrightarrow> retention_small r" "\<And>i. jd_integrity j = Some i \<Longrightarrow> ig_data_parts i < 2 ^ 64"
    using assms by (auto simp: job_small_def split: option.splits)
  then show ?thesis
    by (simp add: json_of_job_def zero_job_document_def field_steps job_fields_def)
qed

interpretation job_codec: wire_codec json_of_job "dec_struct False job_fields" zero_job_document job_small
  by unfold_locales (rule job_decode)

lemma metadata_decode [simp]:
  "md_generation m < 2 ^ 64 \<Longrightarrow> md_revision m < 2 ^ 64 \<Longrightarrow> md_schema_version m < 2 ^ 64 \<Longrightarrow>
   dec_struct False metadata_fields (json_of_metadata m) zero_metadata = Some m"
  by (simp add: json_of_metadata_def zero_metadata_def field_steps metadata_fields_def)

lemma host_decode [simp]: "dec_struct False host_fields (json_of_host h) zero_host = Some h"
  by (simp add: json_of_host_def zero_host_def field_steps host_fields_def)

lemma show_nat_no_sign [simp]: "has_prefix (show_nat n) ''-'' = False"
proof (cases "show_nat n")
  case (Cons c cs)
  then have "is_digit c" using show_nat_digits [of n] by simp
  then have "c \<noteq> CHR ''-''" by (auto simp: is_digit_def)
  with Cons show ?thesis by simp
qed (simp add: has_prefix_def)

lemma dec_int_json [simp]: "- (2 ^ 63) \<le> n \<Longrightarrow> n < 2 ^ 63 \<Longrightarrow> dec_int (json_int n) old = Some n"
  by (auto simp: json_int_def int_of_literal_def)

lemma realtime_decode [simp]:
  "- (2 ^ 63) \<le> rm_port r \<Longrightarrow> rm_port r < 2 ^ 63 \<Longrightarrow>
   dec_struct False realtime_fields (json_of_realtime r) zero_realtime = Some r"
  by (simp add: json_of_realtime_def zero_realtime_def field_steps realtime_fields_def)

definition map_sorted :: "raw_map option \<Rightarrow> bool" where
  "map_sorted m = (case m of None \<Rightarrow> True | Some m \<Rightarrow> sorted_wrt (<) (mkeys m))"

lemma fold_mput: "distinct (mkeys (acc @ m)) \<Longrightarrow> fold (\<lambda>(k, v). mput k v) m acc = acc @ m"
proof (induction m arbitrary: acc)
  case (Cons e m)
  obtain k v where e: "e = (k, v)" by (cases e)
  have "mput k v acc = acc @ [(k, v)]" using Cons.prems e by (intro mput_new) auto
  with Cons.IH [of "acc @ [(k, v)]"] Cons.prems e show ?case by simp
qed (simp add: append_Nil2)

lemma raw_map_decode [simp]: "map_sorted m \<Longrightarrow> dec_raw_map (json_of_raw_map m) None = Some m"
proof (cases m)
  case (Some ms)
  assume "map_sorted m"
  then have s: "sorted_wrt (<) (mkeys ms)" using Some by (simp add: map_sorted_def)
  then have d: "distinct (mkeys ms)" "sort (mkeys ms) = mkeys ms"
    by (auto simp: strict_sorted_iff sorted_sort_id)
  have "map (\<lambda>k. (k, the (mget ms k))) (mkeys ms) = ms" using d(1)
    by (auto intro!: map_idI simp: comp_def)
  with Some d fold_mput [of "[]" ms] show ?thesis by (simp add: json_of_raw_map_def)
qed (simp add: json_of_raw_map_def)

definition config_small :: "config_document \<Rightarrow> bool" where
  "config_small c =
     (md_generation (cg_metadata c) < 2 ^ 64 \<and> md_revision (cg_metadata c) < 2 ^ 64 \<and> md_schema_version (cg_metadata c) < 2 ^ 64
      \<and> (case cg_realtime c of None \<Rightarrow> True | Some r \<Rightarrow> - (2 ^ 63) \<le> rm_port r \<and> rm_port r < 2 ^ 63)
      \<and> map_sorted (cg_destinations c) \<and> map_sorted (cg_jobs c))"

lemma config_decode:
  assumes "config_small c"
  shows "dec_struct False config_fields (json_of_config c) zero_config_document = Some c"
proof -
  have small: "md_generation (cg_metadata c) < 2 ^ 64" "md_revision (cg_metadata c) < 2 ^ 64"
    "md_schema_version (cg_metadata c) < 2 ^ 64" "\<And>r. cg_realtime c = Some r \<Longrightarrow> - (2 ^ 63) \<le> rm_port r"
    "\<And>r. cg_realtime c = Some r \<Longrightarrow> rm_port r < 2 ^ 63" "map_sorted (cg_destinations c)" "map_sorted (cg_jobs c)"
    using assms by (auto simp: config_small_def split: option.splits)
  then show ?thesis
    by (simp add: json_of_config_def zero_config_document_def field_steps config_fields_def)
qed

interpretation config_codec: wire_codec json_of_config "dec_struct False config_fields" zero_config_document config_small
  by unfold_locales (rule config_decode)

declare dec_list.simps [simp] dec_struct.simps [simp] append_Nil2 [simp]

end
