(* ===== verification/Normalization.thy ===== *)
theory Normalization
  imports Documents
begin

text \<open>
  The configuration (agent/config.go): the jobs and destinations a document is turned into, the defaults it is
  filled up with, the resources of a newer control plane that are kept as they came, and the encoding of a
  configuration. \<open>url.Parse\<close>, the cron library and the checks on keys are parameters.
\<close>

section \<open>Errors and libraries\<close>

datatype normalize_error =
    KeyInvalid | JobTypeUnsupported | JobNameInvalid | DestinationUnknown | ResolveRefused repo_error
  | ReplicaIdentityInvalid | ReplicaDestinationUnknown | ReplicaRefused repo_error | ReplicaPasswordInvalid
  | ReplicationPolicyInvalid | LatestRunInvalid | ProtectedRunInvalid | MySQLIncomplete | PostgreSQLIncomplete
  | JobRefused job_error

datatype config_error =
    ConfigTooLarge | ConfigNotUTF8 | ConfigMalformed | KeysRepeated | ConfigMistyped
  | EnvelopeInvalid | IdentityMismatch | StandaloneManaged | SchemaUnsupported | HostNameInvalid | HostIdInvalid
  | RealtimeInvalid | RealtimeHostInvalid | RealtimeChannelInvalid | RealtimeAuthInvalid
  | DestinationsMissing | JobsMissing | DestinationKeyInvalid string | ResourceInvalid string
  | DestinationInvalid string repo_error | JobKeyInvalid string | CredentialsInvalid string | JobMistyped string
  | JobInvalid string normalize_error

record config_lib =
  cl_repo :: repo_lib
  cl_cron :: cron
  cl_parse :: "string \<Rightarrow> endpoint_url option"

section \<open>Keys\<close>

definition key_char :: "char \<Rightarrow> bool" where
  "key_char c =
     (is_digit c \<or> (CHR ''a'' \<le> c \<and> c \<le> CHR ''z'') \<or> (CHR ''A'' \<le> c \<and> c \<le> CHR ''Z'') \<or> c \<in> set ''._-'')"

definition config_key_ok :: "string \<Rightarrow> string \<Rightarrow> bool" where
  "config_key_ok prefix key =
     (let rest = drop (length prefix) key
      in has_prefix key prefix \<and> rest \<noteq> [] \<and> length rest \<le> 64 \<and> list_all key_char rest \<and> hd rest \<notin> set ''._-'')"

definition resource_type_ok :: "string \<Rightarrow> bool" where
  "resource_type_ok s =
     (s \<noteq> [] \<and> length s \<le> 64 \<and> CHR ''a'' \<le> hd s \<and> hd s \<le> CHR ''z''
      \<and> list_all (\<lambda>c. is_digit c \<or> (CHR ''a'' \<le> c \<and> c \<le> CHR ''z'') \<or> c \<in> set ''._-'') s)"

section \<open>Defaults\<close>

definition sha256_bytes :: "string \<Rightarrow> nat list" where
  "sha256_bytes s =
     concat (map (\<lambda>w. map (\<lambda>i. unat w div 256 ^ i mod 256) [3, 2, 1, 0])
       (fold sha_block (chunks 16 (sha_words (sha_pad (map byte s)))) sha_initial))"

text \<open>The day of the week is left open with an asterisk.\<close>

definition cron_text :: "nat \<Rightarrow> nat \<Rightarrow> nat option \<Rightarrow> string" where
  "cron_text minute hour day =
     show_nat minute @ '' '' @ show_nat hour @ '' * * '' @ (case day of None \<Rightarrow> ''*'' | Some d \<Rightarrow> show_nat d)"

definition defaultRetention :: "string \<Rightarrow> job_retention" where
  "defaultRetention key =
     (let b = sha256_bytes key
      in \<lparr>jr_last = 12, jr_hourly = 24, jr_daily = 7, jr_weekly = 4, jr_monthly = 3, jr_yearly = 0,
          jr_keep_latest_complete = True, jr_group_by = [],
          jr_forget_cron = cron_text (b ! 0 mod 60) (1 + b ! 1 mod 4) None,
          jr_prune_cron = cron_text (b ! 2 mod 60) (2 + b ! 3 mod 4) (Some (b ! 4 mod 7)),
          jr_latest_complete = None, jr_has_unresolved_runs = False, jr_protected_snapshot_ids = [],
          jr_protected_run_ids = []\<rparr>)"

definition given :: "'a option \<Rightarrow> 'a \<Rightarrow> 'a" where
  "given v old = (case v of None \<Rightarrow> old | Some x \<Rightarrow> x)"

definition given_text :: "string \<Rightarrow> string \<Rightarrow> string" where
  "given_text v old = (if v = [] then old else v)"

definition applyRetention :: "retention_document \<Rightarrow> job_retention \<Rightarrow> job_retention" where
  "applyRetention s r =
     r\<lparr>jr_last := given (rn_last s) (jr_last r), jr_hourly := given (rn_hourly s) (jr_hourly r),
       jr_daily := given (rn_daily s) (jr_daily r), jr_weekly := given (rn_weekly s) (jr_weekly r),
       jr_monthly := given (rn_monthly s) (jr_monthly r), jr_yearly := given (rn_yearly s) (jr_yearly r),
       jr_forget_cron := given_text (rn_forget_schedule s) (jr_forget_cron r),
       jr_prune_cron := given_text (rn_prune_schedule s) (jr_prune_cron r)\<rparr>"

definition defaultIntegrity :: "string \<Rightarrow> job_retention \<Rightarrow> job_integrity" where
  "defaultIntegrity key r =
     (let b = sha256_bytes (''integrity:'' @ key)
      in \<lparr>ji_metadata_cron = cron_text (b ! 0 mod 60) (b ! 1 mod 5) (Some (b ! 2 mod 7)), ji_data_mode = ''auto'',
          ji_data_cron = cron_text (b ! 3 mod 60) (b ! 4 mod 5) (Some (b ! 5 mod 7)),
          ji_data_parts = (if 6 < jr_monthly r \<or> 0 < jr_yearly r then 12 else 4)\<rparr>)"

definition apply_integrity :: "integrity_document \<Rightarrow> job_integrity \<Rightarrow> job_integrity" where
  "apply_integrity s i =
     i\<lparr>ji_metadata_cron := given_text (ig_metadata_schedule s) (ji_metadata_cron i),
       ji_data_mode := (if ig_data_schedule s \<noteq> [] then ''custom'' else ji_data_mode i),
       ji_data_cron := given_text (ig_data_schedule s) (ji_data_cron i),
       ji_data_parts := (if ig_data_parts s \<noteq> 0 then ig_data_parts s else ji_data_parts i)\<rparr>"

section \<open>Repositories\<close>

definition resolveRepository :: "repo_lib \<Rightarrow> destination \<Rightarrow> string \<Rightarrow> repo_error + (connection \<times> string)" where
  "resolveRepository lib d path =
     (case destination_resolve d path of Inl e \<Rightarrow> Inl e | Inr c \<Rightarrow> Inr (c, connection_location lib c))"

definition replica_identity_ok :: "string \<Rightarrow> string list \<Rightarrow> repository_document \<Rightarrow> bool" where
  "replica_identity_ok primary seen r =
     (repository_key_ok (ry_repository_key r) \<and> is_digest (ry_id r) \<and> ry_repository_key r \<notin> set seen
      \<and> ry_source r = primary \<and> ry_status r \<in> set [''provisioning'', ''active'', ''failed''])"

definition replica_of :: "repository_document \<Rightarrow> connection \<Rightarrow> string \<Rightarrow> job_repository" where
  "replica_of r c location =
     \<lparr>rp_key = ry_repository_key r, rp_id = ry_id r, rp_destination = ry_destination r, rp_path = ry_path r,
      rp_location = location, rp_service_password = ry_password r, rp_status = ry_status r, rp_source = ry_source r,
      rp_connection = c\<rparr>"

text \<open>The loop of \<open>normalizeReplicas\<close>; \<open>seen\<close> are the keys met before.\<close>

fun normalize_replicas ::
  "repo_lib \<Rightarrow> (string, destination) gomap \<Rightarrow> string \<Rightarrow> string list \<Rightarrow> repository_document list \<Rightarrow>
   normalize_error + (job_repository list \<times> string list)" where
  "normalize_replicas lib dests primary seen [] = Inr ([], seen)"
| "normalize_replicas lib dests primary seen (r # rs) =
     (if \<not> replica_identity_ok primary seen r then Inl ReplicaIdentityInvalid
      else (case mget dests (ry_destination r) of
              None \<Rightarrow> Inl ReplicaDestinationUnknown
            | Some d \<Rightarrow>
                (case resolveRepository lib d (ry_path r) of
                   Inl e \<Rightarrow> Inl (ReplicaRefused e)
                 | Inr (c, location) \<Rightarrow>
                     if \<not> one_line 1024 (ry_password r) then Inl ReplicaPasswordInvalid
                     else (case normalize_replicas lib dests primary (ry_repository_key r # seen) rs of
                             Inl e \<Rightarrow> Inl e
                           | Inr (xs, seen) \<Rightarrow> Inr (replica_of r c location # xs, seen)))))"

definition replication_policy_ok :: "replication_document option \<Rightarrow> bool" where
  "replication_policy_ok p =
     (case p of None \<Rightarrow> False
      | Some r \<Rightarrow> rc_mode r = ''attached'' \<and> rc_coalesce r \<and> rc_safety_hold_seconds r \<in> {0, 604800})"

section \<open>Sources and safety\<close>

definition normalize_source :: "job_document \<Rightarrow> normalize_error + job_source" where
  "normalize_source j =
     (let s = jd_source j;
          none = \<lparr>js_root = [], js_paths = [], js_one_file_system = False, js_excludes = [], js_mysql = None, js_postgresql = None\<rparr>
      in if isMySQLJob (jd_type j) then
           (case (sr_selection s, sr_dump s) of
              (Some l, Some p) \<Rightarrow>
                Inr (none\<lparr>js_mysql := Some
                  \<lparr>my_host = sr_host s, my_port = sr_port s, my_username = sr_username s, my_password = sr_password s,
                   my_password_file = sr_password_file s, my_selection_mode = sl_mode l, my_databases = sl_databases l,
                   my_include_routines = dp_include_routines p, my_include_events = dp_include_events p,
                   my_custom_flags = dp_custom_flags p, my_table_selection = sr_table_selection s\<rparr>\<rparr>)
            | _ \<Rightarrow> Inl MySQLIncomplete)
         else if isPostgreSQLJob (jd_type j) then
           (case (sr_selection s, sr_dump s) of
              (Some l, None) \<Rightarrow>
                Inr (none\<lparr>js_postgresql := Some
                  \<lparr>pg_host = sr_host s, pg_port = sr_port s, pg_username = sr_username s, pg_password = sr_password s,
                   pg_password_file = sr_password_file s, pg_connection_database = sr_connection_database s,
                   pg_selection_mode = sl_mode l, pg_databases = sl_databases l,
                   pg_table_selection = sr_table_selection s\<rparr>\<rparr>)
            | _ \<Rightarrow> Inl PostgreSQLIncomplete)
         else Inr (none\<lparr>js_root := sr_root s, js_paths := sr_paths s,
                        js_one_file_system := given (sr_one_file_system s) True, js_excludes := sr_excludes s\<rparr>))"

definition apply_safety :: "repository_safety \<Rightarrow> job_retention \<Rightarrow> normalize_error + job_retention" where
  "apply_safety s r =
     (case (case sy_latest_complete s of
              None \<Rightarrow> Inr r
            | Some p \<Rightarrow>
                (case parsePrefixedULID (cs_run_id p) ''run_'' of
                   None \<Rightarrow> Inl LatestRunInvalid
                 | Some run \<Rightarrow> Inr (r\<lparr>jr_latest_complete := Some (p\<lparr>cs_run_id := run\<rparr>)\<rparr>))) of
        Inl e \<Rightarrow> Inl e
      | Inr r \<Rightarrow>
          (case those (map (\<lambda>i. parsePrefixedULID i ''run_'') (sy_protected_run_ids s)) of
             None \<Rightarrow> Inl ProtectedRunInvalid
           | Some runs \<Rightarrow>
               Inr (r\<lparr>jr_has_unresolved_runs := sy_has_unresolved_runs s,
                      jr_protected_snapshot_ids := sy_protected_snapshot_ids s,
                      jr_protected_run_ids := jr_protected_run_ids r @ runs\<rparr>)))"

section \<open>Jobs\<close>

definition job_identity :: "string \<Rightarrow> string" where
  "job_identity key = (let i = trim_prefix key ''job_'' in if is_ulid i then i else derivedID (''job:'' @ key))"

definition primary_key :: "job_document \<Rightarrow> string \<Rightarrow> string" where
  "primary_key j job_id =
     (let k = ry_repository_key (jd_repository j) in if k = [] \<and> is_ulid job_id then ''repository_'' @ to_lower job_id else k)"

definition primary_id :: "job_document \<Rightarrow> string \<Rightarrow> string" where
  "primary_id j location = (let i = ry_id (jd_repository j) in if i = [] then sha256_hex location else i)"

definition job_key_ok :: "bool \<Rightarrow> string \<Rightarrow> bool" where
  "job_key_ok managed key = (config_key_ok ''job_'' key \<and> (managed \<longrightarrow> is_ulid (trim_prefix key ''job_'')))"

definition name_ok :: "string \<Rightarrow> bool" where
  "name_ok name = (\<not> (name \<noteq> [] \<and> (255 < rune_length name \<or> nul \<in> set name)))"

definition normalize_policies :: "string \<Rightarrow> job_document \<Rightarrow> normalize_error + (job_retention \<times> job_integrity)" where
  "normalize_policies key j =
     (let r = (case jd_retention j of None \<Rightarrow> defaultRetention key | Some s \<Rightarrow> applyRetention s (defaultRetention key));
          i = (case jd_integrity j of None \<Rightarrow> defaultIntegrity key r | Some s \<Rightarrow> apply_integrity s (defaultIntegrity key r))
      in case (case jd_safety j of None \<Rightarrow> Inr r | Some s \<Rightarrow> apply_safety s r) of
           Inl e \<Rightarrow> Inl e | Inr r \<Rightarrow> Inr (r, i))"

definition normalize_repositories ::
  "repo_lib \<Rightarrow> (string, destination) gomap \<Rightarrow> string \<Rightarrow> job_document \<Rightarrow>
   normalize_error + (job_repository \<times> job_repository list \<times> job_repository list)" where
  "normalize_repositories lib dests job_id j =
     (let d = jd_repository j
      in case mget dests (ry_destination d) of
           None \<Rightarrow> Inl DestinationUnknown
         | Some destination \<Rightarrow>
             (case resolveRepository lib destination (ry_path d) of
                Inl e \<Rightarrow> Inl (ResolveRefused e)
              | Inr (c, location) \<Rightarrow>
                  (let primary = primary_key j job_id
                   in case normalize_replicas lib dests primary [primary] (jd_replicas j) of
                        Inl e \<Rightarrow> Inl e
                      | Inr (replicas, seen) \<Rightarrow>
                          (case normalize_replicas lib dests primary seen (jd_replica_setups j) of
                             Inl e \<Rightarrow> Inl e
                           | Inr (setups, _) \<Rightarrow>
                               if (replicas \<noteq> [] \<or> setups \<noteq> []) \<and> \<not> replication_policy_ok (jd_replication j)
                               then Inl ReplicationPolicyInvalid
                               else Inr (\<lparr>rp_key = primary, rp_id = primary_id j location, rp_destination = ry_destination d,
                                          rp_path = ry_path d, rp_location = location, rp_service_password = ry_password d,
                                          rp_status = [], rp_source = [], rp_connection = c\<rparr>, replicas, setups)))))"

definition normalizeJob ::
  "config_lib \<Rightarrow> string \<Rightarrow> job_document \<Rightarrow> (string, destination) gomap \<Rightarrow> bool \<Rightarrow> normalize_error + job" where
  "normalizeJob lib key j dests managed =
     (if \<not> job_key_ok managed key then Inl KeyInvalid
      else if \<not> isSupportedJobType (jd_type j) then Inl JobTypeUnsupported
      else if \<not> name_ok (jd_name j) then Inl JobNameInvalid
      else (case normalize_repositories (cl_repo lib) dests (job_identity key) j of
              Inl e \<Rightarrow> Inl e
            | Inr (repository, replicas, setups) \<Rightarrow>
                (case normalize_policies key j of
                   Inl e \<Rightarrow> Inl e
                 | Inr (retention, integrity) \<Rightarrow>
                     (case normalize_source j of
                        Inl e \<Rightarrow> Inl e
                      | Inr source \<Rightarrow>
                          (let job = \<lparr>jb_key = key, jb_id = job_identity key, jb_name = jd_name j, jb_type = jd_type j,
                                 jb_enabled = given (jd_enabled j) True, jb_source = source, jb_repository = repository,
                                 jb_replicas = replicas, jb_replica_setups = setups,
                                 jb_schedule = \<lparr>sh_kind = ''cron'', sh_preset = [], sh_expression = jd_schedule j, sh_timezone = ''UTC''\<rparr>,
                                 jb_maintenance = given (jd_maintenance j) zero_maintenance,
                                 jb_retention = retention, jb_integrity = integrity\<rparr>
                           in case validateJob (cl_cron lib) job of Some e \<Rightarrow> Inl (JobRefused e) | None \<Rightarrow> Inr job)))))"

section \<open>Resources\<close>

definition raw_members :: "json \<Rightarrow> raw_map option" where
  "raw_members v = (case v of JNull \<Rightarrow> Some [] | JObj ms \<Rightarrow> Some (fold (\<lambda>(k, v). mput k v) ms []) | _ \<Rightarrow> None)"

definition decodeResourceDiscriminator :: "json \<Rightarrow> string \<Rightarrow> string option" where
  "decodeResourceDiscriminator raw field =
     (case raw_members raw of
        None \<Rightarrow> None
      | Some m \<Rightarrow>
          (case mget m field of
             None \<Rightarrow> None
           | Some v \<Rightarrow>
               (case dec_string v [] of None \<Rightarrow> None | Some s \<Rightarrow> if resource_type_ok s then Some s else None)))"

text \<open>Whether the source of a job has the members \<open>password\<close> and \<open>password_file\<close>.\<close>

definition databaseCredentialFields :: "json \<Rightarrow> (bool \<times> bool) option" where
  "databaseCredentialFields raw =
     (case dec_struct False [(''source'', dec_raw_map)] raw None of
        None \<Rightarrow> None
      | Some m \<Rightarrow>
          (let m = given m [] in Some (mget m ''password'' \<noteq> None, mget m ''password_file'' \<noteq> None)))"

definition validateRealtime ::
  "(string \<Rightarrow> endpoint_url option) \<Rightarrow> realtime_config option \<Rightarrow> string \<Rightarrow> nat \<Rightarrow> config_error option" where
  "validateRealtime parse config host_id generation =
     (case config of
        None \<Rightarrow> None
      | Some r \<Rightarrow>
          if rm_key r = [] \<or> 255 < length (rm_key r) \<or> rm_host r = [] \<or> 253 < length (rm_host r) \<or> rm_port r < 1
             \<or> 65535 < rm_port r \<or> \<not> rm_encrypted r
          then Some RealtimeInvalid
          else if (case parse (''https://'' @ rm_host r) of None \<Rightarrow> True
                   | Some u \<Rightarrow> ur_hostname u \<noteq> rm_host r \<or> ur_port u \<noteq> [] \<or> ur_path u \<noteq> [])
          then Some RealtimeHostInvalid
          else if rm_channel r \<noteq> ''private-agent.server_'' @ host_id @ ''.generation_'' @ show_nat generation
          then Some RealtimeChannelInvalid
          else if (case parse (rm_auth_url r) of None \<Rightarrow> True
                   | Some u \<Rightarrow> ur_scheme u \<noteq> ''https'' \<or> eu_host u = [] \<or> ur_has_user u \<or> ur_fragment u \<noteq> []
                             \<or> 2048 < length (rm_auth_url r))
          then Some RealtimeAuthInvalid
          else None)"

section \<open>Configurations\<close>

record full_config = config +
  cx_host_name :: string
  cx_host_id :: string
  cx_realtime :: "realtime_config option"
  cx_unsupported_destinations :: raw_map
  cx_unsupported_jobs :: raw_map

definition addWarning :: "string \<Rightarrow> full_config \<Rightarrow> full_config" where
  "addWarning w c =
     (let n = length (cf_warnings c)
      in if n < 99 then c\<lparr>cf_warnings := cf_warnings c @ [w]\<rparr>
         else if n = 99
         then c\<lparr>cf_warnings := cf_warnings c @ [''additional unsupported configuration resources were skipped'']\<rparr>
         else c)"

definition quoted :: "string \<Rightarrow> string" where
  "quoted s = quote # s @ [quote]"

definition skip_destination :: "string \<Rightarrow> json \<Rightarrow> string \<Rightarrow> full_config \<Rightarrow> full_config" where
  "skip_destination key raw driver c =
     addWarning (''destination '' @ quoted key @ '' uses unsupported driver '' @ quoted driver @ ''; skipped'')
       (c\<lparr>cx_unsupported_destinations := mput key raw (cx_unsupported_destinations c)\<rparr>)"

definition skip_job :: "string \<Rightarrow> json \<Rightarrow> string \<Rightarrow> full_config \<Rightarrow> full_config" where
  "skip_job key raw reason c =
     addWarning (''job '' @ quoted key @ reason @ ''; skipped'') (c\<lparr>cx_unsupported_jobs := mput key raw (cx_unsupported_jobs c)\<rparr>)"

text \<open>The loops over the destinations and the jobs, in the order of their keys.\<close>

definition destination_key_ok :: "bool \<Rightarrow> string \<Rightarrow> bool" where
  "destination_key_ok managed key = (config_key_ok ''storage_'' key \<and> (managed \<longrightarrow> is_ulid (trim_prefix key ''storage_'')))"

definition add_destination :: "config_lib \<Rightarrow> bool \<Rightarrow> string \<Rightarrow> json \<Rightarrow> full_config \<Rightarrow> config_error + full_config" where
  "add_destination lib managed key raw c =
     (if \<not> destination_key_ok managed key then Inl (DestinationKeyInvalid key)
      else (case decodeResourceDiscriminator raw ''driver'' of
              None \<Rightarrow> Inl (ResourceInvalid key)
            | Some driver \<Rightarrow>
                if driver \<notin> set [''local'', ''s3'', ''sftp''] then Inr (skip_destination key raw driver c)
                else (case DecodeDestination (cl_repo lib) raw of
                        Inl e \<Rightarrow> Inl (DestinationInvalid key e)
                      | Inr d \<Rightarrow> Inr (c\<lparr>cf_destinations := mput key d (cf_destinations c)\<rparr>))))"

definition add_decoded_job :: "config_lib \<Rightarrow> bool \<Rightarrow> string \<Rightarrow> json \<Rightarrow> full_config \<Rightarrow> config_error + full_config" where
  "add_decoded_job lib managed key raw c =
     (case dec_struct False job_fields raw zero_job_document of
        None \<Rightarrow> Inl (JobMistyped key)
      | Some j \<Rightarrow>
          (let d = ry_destination (jd_repository j)
           in if mget (cx_unsupported_destinations c) d \<noteq> None
              then Inr (skip_job key raw ('' references unsupported destination '' @ quoted d) c)
              else (case normalizeJob lib key j (cf_destinations c) managed of
                      Inl e \<Rightarrow> Inl (JobInvalid key e)
                    | Inr job \<Rightarrow> Inr (c\<lparr>cf_jobs := cf_jobs c @ [job]\<rparr>))))"

definition add_job :: "config_lib \<Rightarrow> bool \<Rightarrow> string \<Rightarrow> json \<Rightarrow> full_config \<Rightarrow> config_error + full_config" where
  "add_job lib managed key raw c =
     (if \<not> job_key_ok managed key then Inl (JobKeyInvalid key)
      else (case decodeResourceDiscriminator raw ''type'' of
              None \<Rightarrow> Inl (ResourceInvalid key)
            | Some t \<Rightarrow>
                (let revision = cf_protocol_revision c; introduced = jobTypeIntroducedIn t
                 in if \<not> isSupportedJobType t then Inr (skip_job key raw ('' uses unsupported type '' @ quoted t) c)
                    else if managed \<and> introduced \<noteq> [] \<and> \<not> protocolRevisionSupports revision introduced
                    then Inr (skip_job key raw ('' requires protocol revision '' @ introduced) c)
                    else if isDatabaseJob t then
                      (case databaseCredentialFields raw of
                         None \<Rightarrow> Inl (CredentialsInvalid key)
                       | Some (password, file) \<Rightarrow>
                           if password \<and> file then Inl (CredentialsInvalid key)
                           else if managed \<and> file \<and> \<not> protocolRevisionSupports revision ''1.14.0''
                           then Inr (skip_job key raw '' requires protocol revision 1.14.0'' c)
                           else add_decoded_job lib managed key raw c)
                    else add_decoded_job lib managed key raw c)))"

fun add_resources ::
  "(string \<Rightarrow> json \<Rightarrow> full_config \<Rightarrow> config_error + full_config) \<Rightarrow> raw_map \<Rightarrow> string list \<Rightarrow> full_config \<Rightarrow>
   config_error + full_config" where
  "add_resources add m [] c = Inr c"
| "add_resources add m (k # ks) c =
     (case add k (the (mget m k)) c of Inl e \<Rightarrow> Inl e | Inr c \<Rightarrow> add_resources add m ks c)"

definition ConfigSchemaURL :: string where
  "ConfigSchemaURL = ''https://pkg.backup.chief.app/config.schema.json''"

definition envelope_error :: "bool \<Rightarrow> nat \<Rightarrow> config_document \<Rightarrow> config_error option" where
  "envelope_error managed expected d =
     (let m = cg_metadata d
      in if managed then
           (if \<not> compatibleProtocolRevision (md_protocol_revision m) \<or> md_schema_version m \<noteq> 1 \<or> md_generation m = 0
               \<or> md_revision m = 0 \<or> \<not> validateTimestamp (md_issued_at m)
            then Some EnvelopeInvalid
            else if expected \<noteq> 0 \<and> md_generation m \<noteq> expected then Some IdentityMismatch else None)
         else if md_schema_version m \<noteq> 1 \<or> md_protocol_revision m \<noteq> [] \<or> md_generation m \<noteq> 0 \<or> md_revision m \<noteq> 0
                 \<or> md_issued_at m \<noteq> [] \<or> md_digest m \<noteq> [] \<or> hd_id (cg_host d) \<noteq> [] \<or> cg_realtime d \<noteq> None
         then Some StandaloneManaged else None)"

definition host_identity :: "bool \<Rightarrow> config_document \<Rightarrow> config_error + string" where
  "host_identity managed d =
     (if cg_schema d \<noteq> [] \<and> cg_schema d \<noteq> ConfigSchemaURL then Inl SchemaUnsupported
      else if \<not> name_ok (hd_name (cg_host d)) then Inl HostNameInvalid
      else if hd_id (cg_host d) = [] then (if managed then Inl HostIdInvalid else Inr [])
      else (case parsePrefixedULID (hd_id (cg_host d)) ''server_'' of None \<Rightarrow> Inl HostIdInvalid | Some i \<Rightarrow> Inr i))"

definition empty_config :: "config_document \<Rightarrow> string \<Rightarrow> full_config" where
  "empty_config d host_id =
     (let m = cg_metadata d
      in \<lparr>cf_protocol_revision = md_protocol_revision m, cf_generation = md_generation m, cf_revision = md_revision m,
          cf_schema_version = md_schema_version m, cf_issued_at = md_issued_at m, cf_destinations = [], cf_jobs = [],
          cf_warnings = [], cx_host_name = hd_name (cg_host d), cx_host_id = host_id, cx_realtime = cg_realtime d,
          cx_unsupported_destinations = [], cx_unsupported_jobs = []\<rparr>)"

definition normalizeConfig :: "config_lib \<Rightarrow> config_document \<Rightarrow> nat \<Rightarrow> config_error + full_config" where
  "normalizeConfig lib d expected =
     (let managed = (md_generation (cg_metadata d) \<noteq> 0 \<or> expected \<noteq> 0)
      in case envelope_error managed expected d of
           Some e \<Rightarrow> Inl e
         | None \<Rightarrow>
             (case host_identity managed d of
                Inl e \<Rightarrow> Inl e
              | Inr host_id \<Rightarrow>
                  (case validateRealtime (cl_parse lib) (cg_realtime d) host_id (md_generation (cg_metadata d)) of
                     Some e \<Rightarrow> Inl e
                   | None \<Rightarrow>
                       (case cg_destinations d of
                          None \<Rightarrow> Inl DestinationsMissing
                        | Some ds \<Rightarrow>
                            if 1000 < length ds then Inl DestinationsMissing
                            else (case cg_jobs d of
                                    None \<Rightarrow> Inl JobsMissing
                                  | Some js \<Rightarrow>
                                      if 1000 < length js then Inl JobsMissing
                                      else (case add_resources (add_destination lib managed) ds (sort (mkeys ds)) (empty_config d host_id) of
                                              Inl e \<Rightarrow> Inl e
                                            | Inr c \<Rightarrow>
                                                (case add_resources (add_job lib managed) js (sort (mkeys js)) c of
                                                   Inl e \<Rightarrow> Inl e
                                                 | Inr c \<Rightarrow> Inr (c\<lparr>cf_jobs := sort_key jb_key (cf_jobs c)\<rparr>))))))))"

section \<open>Texts\<close>

definition valid_utf8 :: "string \<Rightarrow> bool" where
  "valid_utf8 s = list_all (\<lambda>p. length p \<noteq> 1 \<or> byte (hd p) < 128) (pieces s)"

fun keys_distinct :: "json \<Rightarrow> bool" where
  "keys_distinct (JArr vs) = list_all keys_distinct vs"
| "keys_distinct (JObj ms) = (distinct (map fst ms) \<and> list_all (\<lambda>(k, v). keys_distinct v) ms)"
| "keys_distinct _ = True"

definition maximumConfig :: nat where
  "maximumConfig = 2 ^ 20"

text \<open>The metadata is given even when the document is refused, once it was decoded.\<close>

definition zero_config_metadata :: config_metadata where
  "zero_config_metadata = \<lparr>cm_generation = 0, cm_revision = 0, cm_digest = [], cm_file_digest = []\<rparr>"

definition metadata_of :: "config_document \<Rightarrow> string \<Rightarrow> config_metadata" where
  "metadata_of d file_digest =
     (let m = cg_metadata d
      in \<lparr>cm_generation = md_generation m, cm_revision = md_revision m,
          cm_digest = (if md_digest m = [] then file_digest else md_digest m), cm_file_digest = file_digest\<rparr>)"

definition decode_document :: "string \<Rightarrow> config_error + config_document" where
  "decode_document data =
     (if maximumConfig < length data then Inl ConfigTooLarge
      else if \<not> valid_utf8 data then Inl ConfigNotUTF8
      else (case json_parse data of
              None \<Rightarrow> Inl ConfigMalformed
            | Some v \<Rightarrow>
                if \<not> keys_distinct v then Inl KeysRepeated
                else (case dec_struct False config_fields v zero_config_document of
                        None \<Rightarrow> Inl ConfigMistyped | Some d \<Rightarrow> Inr d)))"

definition DecodeConfig :: "config_lib \<Rightarrow> string \<Rightarrow> nat \<Rightarrow> (config_error + full_config) \<times> config_metadata" where
  "DecodeConfig lib data expected =
     (case decode_document data of
        Inl e \<Rightarrow> (Inl e, zero_config_metadata)
      | Inr d \<Rightarrow> (normalizeConfig lib d expected, metadata_of d (sha256_hex data)))"

section \<open>Encoding\<close>

definition encode_source :: "job \<Rightarrow> source_document" where
  "encode_source j =
     (let s = jb_source j
      in case (isMySQLJob (jb_type j), js_mysql s, isPostgreSQLJob (jb_type j), js_postgresql s) of
           (True, Some m, _) \<Rightarrow>
             zero_source_document\<lparr>sr_host := my_host m, sr_port := my_port m, sr_username := my_username m,
               sr_password := my_password m, sr_password_file := my_password_file m,
               sr_selection := Some \<lparr>sl_mode = my_selection_mode m, sl_databases = my_databases m\<rparr>,
               sr_dump := Some \<lparr>dp_include_routines = my_include_routines m, dp_include_events = my_include_events m,
                 dp_custom_flags = my_custom_flags m\<rparr>,
               sr_table_selection := my_table_selection m\<rparr>
         | (_, _, True, Some p) \<Rightarrow>
             zero_source_document\<lparr>sr_host := pg_host p, sr_port := pg_port p, sr_username := pg_username p,
               sr_password := pg_password p, sr_password_file := pg_password_file p,
               sr_connection_database := pg_connection_database p,
               sr_selection := Some \<lparr>sl_mode = pg_selection_mode p, sl_databases = pg_databases p\<rparr>,
               sr_table_selection := pg_table_selection p\<rparr>
         | _ \<Rightarrow>
             zero_source_document\<lparr>sr_root := js_root s, sr_paths := js_paths s,
               sr_one_file_system := Some (js_one_file_system s), sr_excludes := js_excludes s\<rparr>)"

text \<open>The key of a destination in the document is its key with the prefix, whether the configuration has the
  destination or not.\<close>

definition encode_replica :: "job_repository \<Rightarrow> repository_document" where
  "encode_replica r =
     \<lparr>ry_repository_key = rp_key r, ry_id = rp_id r, ry_destination = prefixConfigKey (rp_destination r) ''storage_'',
      ry_path = rp_path r, ry_password = rp_service_password r, ry_status = rp_status r, ry_source = rp_source r\<rparr>"

definition encode_retention :: "job_retention \<Rightarrow> retention_document" where
  "encode_retention r =
     \<lparr>rn_last = Some (jr_last r), rn_hourly = Some (jr_hourly r), rn_daily = Some (jr_daily r),
      rn_weekly = Some (jr_weekly r), rn_monthly = Some (jr_monthly r), rn_yearly = Some (jr_yearly r),
      rn_forget_schedule = jr_forget_cron r, rn_prune_schedule = jr_prune_cron r\<rparr>"

definition encode_safety :: "job_retention \<Rightarrow> repository_safety" where
  "encode_safety r =
     \<lparr>sy_latest_complete = map_option (\<lambda>p. p\<lparr>cs_run_id := prefixID (cs_run_id p) ''run_''\<rparr>) (jr_latest_complete r),
      sy_has_unresolved_runs = jr_has_unresolved_runs r, sy_protected_snapshot_ids = jr_protected_snapshot_ids r,
      sy_protected_run_ids = prefixedIDs (jr_protected_run_ids r) ''run_''\<rparr>"

definition encode_job :: "job \<Rightarrow> job_document" where
  "encode_job j =
     \<lparr>jd_name = jb_name j, jd_type = jb_type j, jd_enabled = Some (jb_enabled j), jd_source = encode_source j,
      jd_repository = (encode_replica (jb_repository j))\<lparr>ry_status := [], ry_source := []\<rparr>,
      jd_replicas = map encode_replica (jb_replicas j), jd_replica_setups = map encode_replica (jb_replica_setups j),
      jd_replication = (if jb_replicas j = [] \<and> jb_replica_setups j = [] then None
        else Some \<lparr>rc_mode = ''attached'', rc_coalesce = True, rc_safety_hold_seconds = 0\<rparr>),
      jd_schedule = sh_expression (jb_schedule j),
      jd_maintenance = (if jm_strategy (jb_maintenance j) = [] then None else Some (jb_maintenance j)),
      jd_retention = Some (encode_retention (jb_retention j)),
      jd_integrity = Some \<lparr>ig_metadata_schedule = ji_metadata_cron (jb_integrity j),
        ig_data_schedule = ji_data_cron (jb_integrity j), ig_data_parts = ji_data_parts (jb_integrity j)\<rparr>,
      jd_safety = Some (encode_safety (jb_retention j))\<rparr>"

fun encode_destinations :: "(string, destination) gomap \<Rightarrow> raw_map \<Rightarrow> repo_error + raw_map" where
  "encode_destinations [] m = Inr m"
| "encode_destinations ((k, d) # ds) m =
     (case marshal_destination d of
        Inl e \<Rightarrow> Inl e | Inr raw \<Rightarrow> encode_destinations ds (mput (prefixConfigKey k ''storage_'') raw m))"

definition encode_jobs :: "job list \<Rightarrow> raw_map \<Rightarrow> raw_map" where
  "encode_jobs js m = fold (\<lambda>j. mput (prefixConfigKey (jb_key j) ''job_'') (json_of_job (encode_job j))) js m"

definition encodeConfig :: "full_config \<Rightarrow> string \<Rightarrow> repo_error + config_document" where
  "encodeConfig c digest =
     (case encode_destinations (cf_destinations c) (cx_unsupported_destinations c) of
        Inl e \<Rightarrow> Inl e
      | Inr ds \<Rightarrow>
          (let alone = (cf_generation c = 0)
           in Inr \<lparr>cg_schema = ConfigSchemaURL,
                cg_metadata = \<lparr>md_protocol_revision = (if alone then [] else cf_protocol_revision c),
                  md_generation = cf_generation c, md_revision = cf_revision c, md_schema_version = 1,
                  md_issued_at = cf_issued_at c, md_digest = (if alone then [] else digest)\<rparr>,
                cg_host = \<lparr>hd_name = cx_host_name c, hd_id = prefixID (cx_host_id c) ''server_''\<rparr>,
                cg_realtime = cx_realtime c, cg_destinations = Some ds,
                cg_jobs = Some (encode_jobs (cf_jobs c) (cx_unsupported_jobs c))\<rparr>))"

section \<open>The installed configuration\<close>

text \<open>\<open>print\<close> is \<open>json.MarshalIndent\<close> with two spaces, on the tree of a document; a raw message is its tree, so two
  spellings of one text are one. \<open>installed\<close> is the file, nothing if it could not be read.\<close>

datatype save_error = SaveRefused config_error | ConfigRollback | ConfigConflict | ConfigUnchanged | SaveUnencodable | SaveFailed

definition ProtocolRevision :: string where
  "ProtocolRevision = ''1.16.0''"

definition at_host :: "bootstrap \<Rightarrow> full_config \<Rightarrow> full_config" where
  "at_host b c = c\<lparr>cx_host_name := bs_hostname b, cx_host_id := bs_server_id b\<rparr>"

definition configDiffersOnlyByProtocol :: "config_lib \<Rightarrow> bootstrap \<Rightarrow> string option \<Rightarrow> full_config \<Rightarrow> bool" where
  "configDiffersOnlyByProtocol lib b installed incoming =
     (case installed of
        None \<Rightarrow> False
      | Some data \<Rightarrow>
          (case DecodeConfig lib data (bs_generation b) of
             (Inl e, _) \<Rightarrow> False
           | (Inr c, _) \<Rightarrow>
               (case (encodeConfig ((at_host b c)\<lparr>cf_protocol_revision := ProtocolRevision\<rparr>) [],
                      encodeConfig (incoming\<lparr>cf_protocol_revision := ProtocolRevision\<rparr>) []) of
                  (Inr old, Inr new) \<Rightarrow> json_of_config old = json_of_config new
                | _ \<Rightarrow> False)))"

definition revision_error ::
  "config_lib \<Rightarrow> bootstrap \<Rightarrow> string option \<Rightarrow> full_config \<Rightarrow> config_metadata \<Rightarrow> config_metadata option \<Rightarrow> save_error option" where
  "revision_error lib b installed c m previous =
     (case previous of
        None \<Rightarrow> None
      | Some p \<Rightarrow>
          if cm_generation m < cm_generation p \<or> (cm_generation m = cm_generation p \<and> cm_revision m < cm_revision p)
          then Some ConfigRollback
          else if cm_generation m = cm_generation p \<and> cm_revision m = cm_revision p then
            (if cm_digest m \<noteq> cm_digest p \<and> \<not> configDiffersOnlyByProtocol lib b installed c then Some ConfigConflict
             else if cm_digest m = cm_digest p then Some ConfigUnchanged else None)
          else None)"

text \<open>The result has the text of the file that was written, if one was.\<close>

definition SaveConfig ::
  "config_lib \<Rightarrow> (json \<Rightarrow> string) \<Rightarrow> bool \<Rightarrow> bootstrap \<Rightarrow> string \<Rightarrow> string option \<Rightarrow> config_metadata option \<Rightarrow>
   save_error option \<times> config_metadata \<times> string option" where
  "SaveConfig lib print written b data installed previous =
     (case DecodeConfig lib data (bs_generation b) of
        (Inl e, m) \<Rightarrow> (Some (SaveRefused e), m, None)
      | (Inr c, m) \<Rightarrow>
          (let c = at_host b c
           in case revision_error lib b installed c m previous of
                Some e \<Rightarrow> (Some e, m, None)
              | None \<Rightarrow>
                  (case encodeConfig c (cm_digest m) of
                     Inl e \<Rightarrow> (Some SaveUnencodable, m, None)
                   | Inr d \<Rightarrow>
                       (let file = print (json_of_config d) @ [CHR 0x0A]
                        in if \<not> written then (Some SaveFailed, m, None)
                           else (None, m\<lparr>cm_file_digest := sha256_hex file\<rparr>, Some file)))))"

definition LoadConfig :: "config_lib \<Rightarrow> bootstrap \<Rightarrow> string option \<Rightarrow> config_error option \<times> config_metadata" where
  "LoadConfig lib b installed =
     (case installed of
        None \<Rightarrow> (Some ConfigMalformed, zero_config_metadata)
      | Some data \<Rightarrow>
          (case DecodeConfig lib data (bs_generation b) of (Inl e, m) \<Rightarrow> (Some e, m) | (Inr c, m) \<Rightarrow> (None, m)))"

end
