(* ===== verification/NormalizationFacts.thy ===== *)
theory NormalizationFacts
  imports Normalization JobRulesFacts
begin

text \<open>
  What the normalization of a configuration guarantees: the jobs that are accepted, what becomes of the
  resources of a document, that a job survives being written and read again, and which configurations may
  replace the installed one.
\<close>

section \<open>Replicas\<close>

lemma encode_replica_of: "has_prefix (ry_destination r) ''storage_'' \<Longrightarrow> encode_replica (replica_of r c location) = r"
  by (simp add: encode_replica_def replica_of_def prefixConfigKey_def)

text \<open>A repository of a job stands where its destination puts it.\<close>

definition resolved :: "repo_lib \<Rightarrow> (string, destination) gomap \<Rightarrow> job_repository \<Rightarrow> bool" where
  "resolved lib dests r =
     (\<exists>d. mget dests (rp_destination r) = Some d \<and> destination_resolve d (rp_path r) = Inr (rp_connection r)
        \<and> rp_location r = connection_location lib (rp_connection r))"

lemma resolve_result:
  "resolveRepository lib d path = Inr (c, location) \<Longrightarrow> destination_resolve d path = Inr c \<and> location = connection_location lib c"
  by (auto simp: resolveRepository_def split: sum.splits)

lemma normalize_replicas_Cons:
  assumes "normalize_replicas lib dests primary seen (r # rs) = Inr (xs, seen')"
  obtains d c location ys where "replica_identity_ok primary seen r" "mget dests (ry_destination r) = Some d"
    "resolveRepository lib d (ry_path r) = Inr (c, location)" "one_line 1024 (ry_password r)"
    "normalize_replicas lib dests primary (ry_repository_key r # seen) rs = Inr (ys, seen')"
    "xs = replica_of r c location # ys"
  using assms by (auto split: if_splits option.splits sum.splits prod.splits)

lemma normalize_replicas_effect:
  "normalize_replicas lib dests primary seen rs = Inr (xs, seen') \<Longrightarrow>
   seen' = rev (map rp_key xs) @ seen \<and> (distinct seen \<longrightarrow> distinct seen') \<and> list_all (resolved lib dests) xs
   \<and> (\<forall>x \<in> set xs. repository_key_ok (rp_key x) \<and> is_digest (rp_id x) \<and> rp_source x = primary)
   \<and> ((\<forall>k \<in> set (mkeys dests). has_prefix k ''storage_'') \<longrightarrow> map encode_replica xs = rs)"
proof (induction lib dests primary seen rs arbitrary: xs seen' rule: normalize_replicas.induct)
  case (2 lib dests primary seen r rs)
  from "2.prems" obtain d c location ys where ok: "replica_identity_ok primary seen r"
    and d: "mget dests (ry_destination r) = Some d" and res: "resolveRepository lib d (ry_path r) = Inr (c, location)"
    and pw: "one_line 1024 (ry_password r)"
    and rest: "normalize_replicas lib dests primary (ry_repository_key r # seen) rs = Inr (ys, seen')"
    and xs: "xs = replica_of r c location # ys"
    by (rule normalize_replicas_Cons)
  have ih: "seen' = rev (map rp_key ys) @ ry_repository_key r # seen
    \<and> (distinct (ry_repository_key r # seen) \<longrightarrow> distinct seen') \<and> list_all (resolved lib dests) ys
    \<and> (\<forall>x \<in> set ys. repository_key_ok (rp_key x) \<and> is_digest (rp_id x) \<and> rp_source x = primary)
    \<and> ((\<forall>k \<in> set (mkeys dests). has_prefix k ''storage_'') \<longrightarrow> map encode_replica ys = rs)"
    by (rule "2.IH" [OF _ d res refl _ rest]) (use ok pw in simp_all)
  have key: "rp_key (replica_of r c location) = ry_repository_key r" by (simp add: replica_of_def)
  have new: "ry_repository_key r \<notin> set seen" using ok by (simp add: replica_identity_ok_def)
  have r: "resolved lib dests (replica_of r c location)"
    using d resolve_result [OF res] by (simp add: resolved_def replica_of_def)
  have "ry_destination r \<in> set (mkeys dests)" using d by (force dest: mget_Some_in)
  then have enc: "(\<forall>k \<in> set (mkeys dests). has_prefix k ''storage_'') \<longrightarrow> encode_replica (replica_of r c location) = r"
    using encode_replica_of by blast
  have rest_ok: "seen' = rev (map rp_key ys) @ ry_repository_key r # seen"
    "distinct (ry_repository_key r # seen) \<longrightarrow> distinct seen'" "list_all (resolved lib dests) ys"
    "\<forall>x \<in> set ys. repository_key_ok (rp_key x) \<and> is_digest (rp_id x) \<and> rp_source x = primary"
    "(\<forall>k \<in> set (mkeys dests). has_prefix k ''storage_'') \<longrightarrow> map encode_replica ys = rs"
    using ih by blast+
  have id_ok: "repository_key_ok (ry_repository_key r)" "is_digest (ry_id r)" "ry_source r = primary"
    using ok by (auto simp: replica_identity_ok_def)
  have keys: "seen' = rev (map rp_key xs) @ seen" using rest_ok(1) by (simp add: xs key)
  have d: "distinct seen \<longrightarrow> distinct seen'" using rest_ok(2) new unfolding distinct.simps by blast
  have l: "list_all (resolved lib dests) xs" using rest_ok(3) r by (simp add: xs)
  have k: "\<forall>x \<in> set xs. repository_key_ok (rp_key x) \<and> is_digest (rp_id x) \<and> rp_source x = primary"
    using rest_ok(4) id_ok by (simp add: xs replica_of_def)
  have e: "(\<forall>k \<in> set (mkeys dests). has_prefix k ''storage_'') \<longrightarrow> map encode_replica xs = r # rs"
    using rest_ok(5) enc by (simp add: xs)
  show ?case by (intro conjI keys d l k e)
qed auto

section \<open>Accepted jobs\<close>

lemma normalize_repositories_parts:
  assumes "normalize_repositories lib dests i j = Inr (r, xs, ys)"
  obtains d c location seen seen' where "mget dests (ry_destination (jd_repository j)) = Some d"
    "resolveRepository lib d (ry_path (jd_repository j)) = Inr (c, location)"
    "normalize_replicas lib dests (primary_key j i) [primary_key j i] (jd_replicas j) = Inr (xs, seen)"
    "normalize_replicas lib dests (primary_key j i) seen (jd_replica_setups j) = Inr (ys, seen')"
    "\<not> ((xs \<noteq> [] \<or> ys \<noteq> []) \<and> \<not> replication_policy_ok (jd_replication j))"
    "r = \<lparr>rp_key = primary_key j i, rp_id = primary_id j location, rp_destination = ry_destination (jd_repository j),
       rp_path = ry_path (jd_repository j), rp_location = location, rp_service_password = ry_password (jd_repository j),
       rp_status = [], rp_source = [], rp_connection = c\<rparr>"
  using assms by (auto simp: normalize_repositories_def Let_def split: option.splits sum.splits prod.splits if_splits)

lemma normalize_repositories_effect:
  assumes "normalize_repositories lib dests i j = Inr (r, xs, ys)"
  shows "list_all (resolved lib dests) (r # xs @ ys) \<and> distinct (rp_key r # map rp_key (xs @ ys)) \<and> rp_key r = primary_key j i
    \<and> (\<forall>x \<in> set (xs @ ys). repository_key_ok (rp_key x) \<and> rp_source x = rp_key r)
    \<and> (xs @ ys \<noteq> [] \<longrightarrow> replication_policy_ok (jd_replication j))"
proof -
  from assms obtain d c location seen seen' where d: "mget dests (ry_destination (jd_repository j)) = Some d"
    and res: "resolveRepository lib d (ry_path (jd_repository j)) = Inr (c, location)"
    and xs: "normalize_replicas lib dests (primary_key j i) [primary_key j i] (jd_replicas j) = Inr (xs, seen)"
    and ys: "normalize_replicas lib dests (primary_key j i) seen (jd_replica_setups j) = Inr (ys, seen')"
    and p: "\<not> ((xs \<noteq> [] \<or> ys \<noteq> []) \<and> \<not> replication_policy_ok (jd_replication j))"
    and r: "r = \<lparr>rp_key = primary_key j i, rp_id = primary_id j location, rp_destination = ry_destination (jd_repository j),
       rp_path = ry_path (jd_repository j), rp_location = location, rp_service_password = ry_password (jd_repository j),
       rp_status = [], rp_source = [], rp_connection = c\<rparr>"
    by (rule normalize_repositories_parts)
  note ex = normalize_replicas_effect [OF xs] and ey = normalize_replicas_effect [OF ys]
  have "resolved lib dests r" using d resolve_result [OF res] by (simp add: resolved_def r)
  then have l: "list_all (resolved lib dests) (r # xs @ ys)" using ex ey by simp
  have key: "rp_key r = primary_key j i" by (simp add: r)
  from ex have "distinct [primary_key j i] \<longrightarrow> distinct seen" by blast
  then have "distinct seen" by simp
  moreover from ey have "distinct seen \<longrightarrow> distinct seen'" by blast
  ultimately have "distinct seen'" by blast
  moreover have "seen' = rev (rp_key r # map rp_key (xs @ ys))" using ex ey key by simp
  ultimately have d: "distinct (rp_key r # map rp_key (xs @ ys))" by (metis distinct_rev)
  have s: "\<forall>x \<in> set (xs @ ys). repository_key_ok (rp_key x) \<and> rp_source x = rp_key r" using ex ey key by auto
  have "xs @ ys \<noteq> [] \<longrightarrow> replication_policy_ok (jd_replication j)" using p by auto
  then show ?thesis by (intro conjI l d key s)
qed

lemma normalizeJob_parts:
  assumes "normalizeJob lib key j dests managed = Inr job"
  obtains r xs ys ret integ src where "job_key_ok managed key" "isSupportedJobType (jd_type j)" "name_ok (jd_name j)"
    "normalize_repositories (cl_repo lib) dests (job_identity key) j = Inr (r, xs, ys)"
    "normalize_policies key j = Inr (ret, integ)" "normalize_source j = Inr src" "validateJob (cl_cron lib) job = None"
    "job = \<lparr>jb_key = key, jb_id = job_identity key, jb_name = jd_name j, jb_type = jd_type j,
       jb_enabled = given (jd_enabled j) True, jb_source = src, jb_repository = r, jb_replicas = xs, jb_replica_setups = ys,
       jb_schedule = \<lparr>sh_kind = ''cron'', sh_preset = [], sh_expression = jd_schedule j, sh_timezone = ''UTC''\<rparr>,
       jb_maintenance = given (jd_maintenance j) zero_maintenance, jb_retention = ret, jb_integrity = integ\<rparr>"
  using assms
  by (auto simp: normalizeJob_def Let_def split: if_splits sum.splits prod.splits option.splits)

text \<open>What is accepted. A job that normalization makes passes the rules of a job; the repositories of the job
  have different keys, each replica names the primary repository as its source, and every repository has the
  connection and the location its destination gives for its path.\<close>
theorem job_accepted:
  assumes "normalizeJob lib key j dests managed = Inr job"
  shows "validateJob (cl_cron lib) job = None \<and> jb_key job = key \<and> (managed \<longrightarrow> jb_id job = trim_prefix key ''job_'')
    \<and> distinct (rp_key (jb_repository job) # map rp_key (jb_replicas job @ jb_replica_setups job))
    \<and> (\<forall>r \<in> set (jb_replicas job @ jb_replica_setups job). rp_source r = rp_key (jb_repository job))
    \<and> (\<forall>r \<in> set (jb_repository job # jb_replicas job @ jb_replica_setups job). resolved (cl_repo lib) dests r)"
  using assms
proof (rule normalizeJob_parts)
  fix r xs ys ret integ src
  assume k: "job_key_ok managed key" and rep: "normalize_repositories (cl_repo lib) dests (job_identity key) j = Inr (r, xs, ys)"
    and v: "validateJob (cl_cron lib) job = None"
    and job: "job = \<lparr>jb_key = key, jb_id = job_identity key, jb_name = jd_name j, jb_type = jd_type j,
       jb_enabled = given (jd_enabled j) True, jb_source = src, jb_repository = r, jb_replicas = xs, jb_replica_setups = ys,
       jb_schedule = \<lparr>sh_kind = ''cron'', sh_preset = [], sh_expression = jd_schedule j, sh_timezone = ''UTC''\<rparr>,
       jb_maintenance = given (jd_maintenance j) zero_maintenance, jb_retention = ret, jb_integrity = integ\<rparr>"
  have "managed \<longrightarrow> job_identity key = trim_prefix key ''job_''" using k by (simp add: job_key_ok_def job_identity_def Let_def)
  with normalize_repositories_effect [OF rep] v show ?thesis by (auto simp: job list_all_iff)
qed

section \<open>Writing a job and reading it again\<close>

lemma ulid_no_prefix: "is_ulid i \<Longrightarrow> \<not> has_prefix i ''run_''"
  by (auto simp: has_prefix_iff is_ulid_def ulid_alphabet_def)

lemma prefixed_ulid_read: "is_ulid i \<Longrightarrow> parsePrefixedULID (p @ i) p = Some i"
  by (simp add: parsePrefixedULID_def)

lemma run_prefix_read [simp]: "is_ulid i \<Longrightarrow> parsePrefixedULID (prefixID i ''run_'') ''run_'' = Some i"
  using prefixed_ulid_read [of i "''run_''"] by (simp add: prefixID_def ulid_no_prefix is_ulid_not_Nil)

lemma run_prefixes_read: "list_all is_ulid is \<Longrightarrow> those (map (\<lambda>i. parsePrefixedULID i ''run_'') (prefixedIDs is ''run_'')) = Some is"
  by (induction "is") (simp_all add: prefixedIDs_def)

lemma applied_retention:
  "applyRetention (encode_retention r) d =
     d\<lparr>jr_last := jr_last r, jr_hourly := jr_hourly r, jr_daily := jr_daily r, jr_weekly := jr_weekly r,
       jr_monthly := jr_monthly r, jr_yearly := jr_yearly r, jr_forget_cron := given_text (jr_forget_cron r) (jr_forget_cron d),
       jr_prune_cron := given_text (jr_prune_cron r) (jr_prune_cron d)\<rparr>"
  by (simp add: applyRetention_def encode_retention_def given_def)

lemma cron_text_not_Nil [simp]: "cron_text m h d \<noteq> []"
  by (simp add: cron_text_def)

text \<open>What the retention of a job has that a document does not give.\<close>

definition retention_shape :: "job_retention \<Rightarrow> bool" where
  "retention_shape r = (jr_keep_latest_complete r \<and> jr_group_by r = [] \<and> jr_forget_cron r \<noteq> [] \<and> jr_prune_cron r \<noteq> [])"

lemma default_shape: "retention_shape (defaultRetention key)" "jr_latest_complete (defaultRetention key) = None"
  "jr_has_unresolved_runs (defaultRetention key) = False" "jr_protected_snapshot_ids (defaultRetention key) = []"
  "jr_protected_run_ids (defaultRetention key) = []"
  by (simp_all add: retention_shape_def defaultRetention_def Let_def)

lemma given_text_not_Nil: "old \<noteq> [] \<Longrightarrow> given_text v old \<noteq> []"
  by (simp add: given_text_def)

lemma applied_shape:
  "retention_shape d \<Longrightarrow> retention_shape (applyRetention s d)" "jr_protected_run_ids (applyRetention s d) = jr_protected_run_ids d"
  by (simp_all add: retention_shape_def applyRetention_def given_text_not_Nil)

lemma safety_shape: "apply_safety s r = Inr r' \<Longrightarrow> retention_shape r \<Longrightarrow> retention_shape r'"
  by (auto simp: apply_safety_def retention_shape_def split: option.splits)

lemma policies_shape:
  assumes "normalize_policies key j = Inr (r, i)"
  shows "retention_shape r \<and> ji_metadata_cron i \<noteq> [] \<and> ji_data_cron i \<noteq> [] \<and> ji_data_parts i \<noteq> 0"
proof -
  have d: "ji_metadata_cron (defaultIntegrity key q) \<noteq> []" "ji_data_cron (defaultIntegrity key q) \<noteq> []"
    "ji_data_parts (defaultIntegrity key q) \<noteq> 0" for q
    by (simp_all add: defaultIntegrity_def Let_def)
  let ?q = "case jd_retention j of None \<Rightarrow> defaultRetention key | Some s \<Rightarrow> applyRetention s (defaultRetention key)"
  have q: "retention_shape ?q" using default_shape applied_shape by (simp split: option.split)
  have r: "(case jd_safety j of None \<Rightarrow> Inr ?q | Some s \<Rightarrow> apply_safety s ?q) = Inr r"
    and i: "i = (case jd_integrity j of None \<Rightarrow> defaultIntegrity key ?q | Some s \<Rightarrow> apply_integrity s (defaultIntegrity key ?q))"
    using assms by (auto simp: normalize_policies_def Let_def split: sum.splits)
  have "retention_shape r" using r q safety_shape by (auto split: option.splits)
  with d show ?thesis by (simp add: i apply_integrity_def given_text_not_Nil split: option.split)
qed

lemma job_document_fields [simp]:
  "jd_name (encode_job j) = jb_name j" "jd_type (encode_job j) = jb_type j" "jd_enabled (encode_job j) = Some (jb_enabled j)"
  "jd_source (encode_job j) = encode_source j" "jd_schedule (encode_job j) = sh_expression (jb_schedule j)"
  "jd_replicas (encode_job j) = map encode_replica (jb_replicas j)"
  "jd_replica_setups (encode_job j) = map encode_replica (jb_replica_setups j)"
  by (simp_all add: encode_job_def)

lemma policies_read:
  assumes "retention_shape (jb_retention job)" "ji_metadata_cron (jb_integrity job) \<noteq> []" "ji_data_cron (jb_integrity job) \<noteq> []"
    "ji_data_parts (jb_integrity job) \<noteq> 0" "list_all is_ulid (jr_protected_run_ids (jb_retention job))"
    "\<forall>p. jr_latest_complete (jb_retention job) = Some p \<longrightarrow> is_ulid (cs_run_id p)"
  shows "normalize_policies key (encode_job job) = Inr (jb_retention job, (jb_integrity job)\<lparr>ji_data_mode := ''custom''\<rparr>)"
proof -
  let ?r = "jb_retention job" and ?i = "jb_integrity job"
  let ?q = "applyRetention (encode_retention ?r) (defaultRetention key)"
  have q: "?q = ?r\<lparr>jr_latest_complete := None, jr_has_unresolved_runs := False, jr_protected_snapshot_ids := [], jr_protected_run_ids := []\<rparr>"
    using assms(1) default_shape [of key] by (simp add: applied_retention retention_shape_def given_text_def)
  have i: "apply_integrity \<lparr>ig_metadata_schedule = ji_metadata_cron ?i, ig_data_schedule = ji_data_cron ?i,
      ig_data_parts = ji_data_parts ?i\<rparr> d = ?i\<lparr>ji_data_mode := ''custom''\<rparr>" for d
    using assms(2-4) by (simp add: apply_integrity_def given_text_def)
  have s: "apply_safety (encode_safety ?r) ?q = Inr ?r"
    using assms(5,6) run_prefixes_read [OF assms(5)]
    by (cases "jr_latest_complete ?r") (simp_all add: apply_safety_def encode_safety_def q)
  show ?thesis using s i by (simp add: normalize_policies_def encode_job_def)
qed

lemma source_read:
  assumes "normalize_source j = Inr s" "jd_type j = jb_type job" "jb_source job = s"
  shows "normalize_source (encode_job job) = Inr s"
proof -
  have types: "\<not> (isMySQLJob t \<and> isPostgreSQLJob t)" for t by (auto simp: isMySQLJob_def isPostgreSQLJob_def)
  show ?thesis
    using assms(1,2) types [of "jb_type job"]
    by (auto simp: encode_source_def [of job, unfolded assms(3) Let_def] normalize_source_def Let_def zero_source_document_def given_def split: if_splits option.splits)
qed

text \<open>The rules of a job do not depend on how the data check was chosen, nor on numbers without a strategy.\<close>

definition as_written :: "job \<Rightarrow> job" where
  "as_written job =
     job\<lparr>jb_integrity := (jb_integrity job)\<lparr>ji_data_mode := ''custom''\<rparr>,
         jb_maintenance := (if jm_strategy (jb_maintenance job) = [] then zero_maintenance else jb_maintenance job)\<rparr>"

lemma as_written_valid:
  assumes "validateJob cron job = None"
  shows "validateJob cron (as_written job) = None"
proof -
  have f: "jb_source (as_written job) = jb_source job" "jb_type (as_written job) = jb_type job" "jb_id (as_written job) = jb_id job"
    "jb_repository (as_written job) = jb_repository job" "jb_replicas (as_written job) = jb_replicas job"
    "jb_replica_setups (as_written job) = jb_replica_setups job" "jb_schedule (as_written job) = jb_schedule job"
    "jb_retention (as_written job) = jb_retention job" by (simp_all add: as_written_def)
  have s: "validate_source (as_written job) = validate_source job" by (simp only: validate_source_def f)
  have "replica_ok (as_written job) = replica_ok job" by (rule ext, rule ext) (simp only: replica_ok_def f)
  then have r: "validate_repositories (as_written job) = validate_repositories job" by (simp only: validate_repositories_def f)
  have m: "maintenance_policy_ok (jb_maintenance job) \<Longrightarrow> maintenance_policy_ok (jb_maintenance (as_written job))"
    by (auto simp: maintenance_policy_ok_def as_written_def zero_maintenance_def)
  have i: "validate_integrity cron (jb_integrity job) = None \<Longrightarrow> validate_integrity cron (jb_integrity (as_written job)) = None"
    by (simp add: validate_integrity_def as_written_def split: if_splits)
  show ?thesis using assms m i unfolding validateJob_def f s r by (simp split: if_splits)
qed

lemma repositories_read:
  assumes "normalize_repositories lib dests i j = Inr (jb_repository job, jb_replicas job, jb_replica_setups job)"
    "\<forall>k \<in> set (mkeys dests). has_prefix k ''storage_''" "rp_id (jb_repository job) \<noteq> []"
  shows "normalize_repositories lib dests i (encode_job job)
    = Inr (jb_repository job, jb_replicas job, jb_replica_setups job)"
  using assms(1)
proof (rule normalize_repositories_parts)
  fix d c location seen seen'
  assume d: "mget dests (ry_destination (jd_repository j)) = Some d"
    and res: "resolveRepository lib d (ry_path (jd_repository j)) = Inr (c, location)"
    and xs: "normalize_replicas lib dests (primary_key j i) [primary_key j i] (jd_replicas j) = Inr (jb_replicas job, seen)"
    and ys: "normalize_replicas lib dests (primary_key j i) seen (jd_replica_setups j) = Inr (jb_replica_setups job, seen')"
    and r: "jb_repository job = \<lparr>rp_key = primary_key j i, rp_id = primary_id j location,
       rp_destination = ry_destination (jd_repository j), rp_path = ry_path (jd_repository j), rp_location = location,
       rp_service_password = ry_password (jd_repository j), rp_status = [], rp_source = [], rp_connection = c\<rparr>"
  let ?e = "encode_job job"
  have "ry_destination (jd_repository j) \<in> set (mkeys dests)" using d by (force dest: mget_Some_in)
  then have e: "jd_repository ?e = \<lparr>ry_repository_key = primary_key j i, ry_id = primary_id j location,
      ry_destination = ry_destination (jd_repository j), ry_path = ry_path (jd_repository j),
      ry_password = ry_password (jd_repository j), ry_status = [], ry_source = []\<rparr>"
    using assms(2) by (auto simp: encode_job_def encode_replica_def prefixConfigKey_def r)
  have key: "primary_key ?e i = primary_key j i" by (simp add: primary_key_def e Let_def)
  have i: "primary_id ?e location = primary_id j location" using assms(3) by (simp add: primary_id_def e r Let_def)
  have reps: "jd_replicas ?e = jd_replicas j" "jd_replica_setups ?e = jd_replica_setups j"
    using normalize_replicas_effect [OF xs] normalize_replicas_effect [OF ys] assms(2) by simp_all
  have p: "(jb_replicas job = [] \<and> jb_replica_setups job = []) \<or> replication_policy_ok (jd_replication ?e)"
    by (auto simp: encode_job_def replication_policy_ok_def)
  show ?thesis unfolding normalize_repositories_def Let_def e reps key using d res xs ys p i by (simp add: e r)
qed


section \<open>The resources of a document\<close>

lemma add_resources_step:
  assumes "add_resources add m (k # ks) c = Inr c'"
  obtains c1 where "add k (the (mget m k)) c = Inr c1" "add_resources add m ks c1 = Inr c'"
  using assms by (auto split: sum.splits)

lemma add_resources_keeps:
  assumes "\<forall>k \<in> set ks. \<forall>c c'. add k (the (mget m k)) c = Inr c' \<longrightarrow> P c \<longrightarrow> P c'"
  shows "add_resources add m ks c = Inr c' \<Longrightarrow> P c \<Longrightarrow> P c'"
  using assms
proof (induction ks arbitrary: c)
  case (Cons k ks)
  from Cons.prems(1) obtain c1 where c1: "add k (the (mget m k)) c = Inr c1" "add_resources add m ks c1 = Inr c'"
    by (rule add_resources_step)
  have "P c1" using Cons.prems(2,3) c1(1) by simp
  with Cons.IH c1(2) Cons.prems(3) show ?case by simp
qed simp

lemma add_resources_each:
  assumes here: "\<forall>k \<in> set ks. \<forall>c c'. add k (the (mget m k)) c = Inr c' \<longrightarrow> Q k c'"
    and kept: "\<forall>k' \<in> set ks. \<forall>k c c'. add k' (the (mget m k')) c = Inr c' \<longrightarrow> Q k c \<longrightarrow> Q k c'"
  shows "add_resources add m ks c = Inr c' \<Longrightarrow> k \<in> set ks \<Longrightarrow> Q k c'"
  using here kept
proof (induction ks arbitrary: c)
  case (Cons k' ks)
  from Cons.prems(1) obtain c1 where c1: "add k' (the (mget m k')) c = Inr c1" "add_resources add m ks c1 = Inr c'"
    by (rule add_resources_step)
  show ?case
  proof (cases "k \<in> set ks")
    case True
    with Cons.IH [OF c1(2)] Cons.prems(3,4) show ?thesis by simp
  next
    case False
    then have q: "Q k c1" using Cons.prems(2,3) c1(1) by simp
    have "\<forall>k' \<in> set ks. \<forall>c c'. add k' (the (mget m k')) c = Inr c' \<longrightarrow> Q k c \<longrightarrow> Q k c'" using Cons.prems(4) by simp
    then show ?thesis using c1(2) q by (rule add_resources_keeps)
  qed
qed simp

text \<open>What becomes of a destination and of a job of the document.\<close>

definition known_driver :: "string \<Rightarrow> bool" where
  "known_driver d = (d \<in> set [''local'', ''s3'', ''sftp''])"

definition destination_placed :: "config_lib \<Rightarrow> raw_map \<Rightarrow> full_config \<Rightarrow> string \<Rightarrow> bool" where
  "destination_placed lib ds c k =
     (let raw = the (mget ds k)
      in case decodeResourceDiscriminator raw ''driver'' of
           None \<Rightarrow> False
         | Some driver \<Rightarrow>
             if known_driver driver
             then \<exists>d. DecodeDestination (cl_repo lib) raw = Inr d \<and> mget (cf_destinations c) k = Some d
             else mget (cx_unsupported_destinations c) k = Some raw)"

definition job_placed :: "raw_map \<Rightarrow> full_config \<Rightarrow> string \<Rightarrow> bool" where
  "job_placed js c k =
     (k \<in> jb_key ` set (cf_jobs c) \<or> mget (cx_unsupported_jobs c) k = Some (the (mget js k)))"

lemma warned_fields [simp]:
  "cf_destinations (addWarning w c) = cf_destinations c" "cf_jobs (addWarning w c) = cf_jobs c"
  "cx_unsupported_destinations (addWarning w c) = cx_unsupported_destinations c"
  "cx_unsupported_jobs (addWarning w c) = cx_unsupported_jobs c"
  "cf_protocol_revision (addWarning w c) = cf_protocol_revision c"
  by (simp_all add: addWarning_def Let_def)

lemma warned_length: "length (cf_warnings c) \<le> 100 \<Longrightarrow> length (cf_warnings (addWarning w c)) \<le> 100"
  by (simp add: addWarning_def Let_def)

lemma destination_added:
  assumes "add_destination lib managed k raw c = Inr c'"
  shows "(\<exists>driver d. decodeResourceDiscriminator raw ''driver'' = Some driver \<and> known_driver driver
            \<and> DecodeDestination (cl_repo lib) raw = Inr d \<and> c' = c\<lparr>cf_destinations := mput k d (cf_destinations c)\<rparr>)
       \<or> (\<exists>driver. decodeResourceDiscriminator raw ''driver'' = Some driver \<and> \<not> known_driver driver
            \<and> c' = skip_destination k raw driver c)"
  using assms by (auto simp: add_destination_def known_driver_def split: if_splits option.splits sum.splits)

lemma job_added:
  assumes "add_job lib managed k raw c = Inr c'"
  shows "(\<exists>reason. c' = skip_job k raw reason c)
       \<or> (\<exists>j job. normalizeJob lib k j (cf_destinations c) managed = Inr job \<and> c' = c\<lparr>cf_jobs := cf_jobs c @ [job]\<rparr>)"
  using assms
  by (auto simp: add_job_def add_decoded_job_def Let_def split: if_splits option.splits sum.splits prod.splits)

lemma destination_placed_here: "add_destination lib managed k (the (mget ds k)) c = Inr c' \<Longrightarrow> destination_placed lib ds c' k"
  by (drule destination_added) (auto simp: destination_placed_def skip_destination_def)

lemma destination_placed_kept:
  "add_destination lib managed k' (the (mget ds k')) c = Inr c' \<Longrightarrow> destination_placed lib ds c k \<Longrightarrow> destination_placed lib ds c' k"
  by (drule destination_added) (auto simp: destination_placed_def skip_destination_def Let_def split: option.splits if_splits)

lemma destination_placed_same:
  "destination_placed lib ds c k \<Longrightarrow> cf_destinations c' = cf_destinations c \<Longrightarrow>
   cx_unsupported_destinations c' = cx_unsupported_destinations c \<Longrightarrow> destination_placed lib ds c' k"
  by (simp only: destination_placed_def)

lemma job_keeps_destinations:
  "add_job lib managed k raw c = Inr c' \<Longrightarrow>
   cf_destinations c' = cf_destinations c \<and> cx_unsupported_destinations c' = cx_unsupported_destinations c"
  by (drule job_added) (auto simp: skip_job_def)

lemma normalized_key: "normalizeJob lib k j dests managed = Inr job \<Longrightarrow> jb_key job = k \<and> validateJob (cl_cron lib) job = None"
  by (erule normalizeJob_parts) simp

lemma job_placed_here: "add_job lib managed k (the (mget js k)) c = Inr c' \<Longrightarrow> job_placed js c' k"
  by (drule job_added) (auto simp: job_placed_def skip_job_def dest: normalized_key)

lemma job_placed_kept: "add_job lib managed k' (the (mget js k')) c = Inr c' \<Longrightarrow> job_placed js c k \<Longrightarrow> job_placed js c' k"
  by (drule job_added) (auto simp: job_placed_def skip_job_def split: if_splits)

text \<open>The jobs of a configuration are valid, stand in the document, and there are at most a hundred warnings.\<close>

definition jobs_sound :: "config_lib \<Rightarrow> raw_map \<Rightarrow> full_config \<Rightarrow> bool" where
  "jobs_sound lib js c =
     ((\<forall>j \<in> set (cf_jobs c). validateJob (cl_cron lib) j = None \<and> jb_key j \<in> set (mkeys js)) \<and> length (cf_warnings c) \<le> 100)"

lemma jobs_sound_kept:
  "add_job lib managed k raw c = Inr c' \<Longrightarrow> k \<in> set (mkeys js) \<Longrightarrow> jobs_sound lib js c \<Longrightarrow> jobs_sound lib js c'"
  by (drule job_added) (force simp: jobs_sound_def skip_job_def intro!: warned_length dest!: normalized_key)

lemma jobs_sound_destinations:
  "add_destination lib managed k raw c = Inr c' \<Longrightarrow> jobs_sound lib js c \<Longrightarrow> jobs_sound lib js c'"
  by (drule destination_added) (auto simp: jobs_sound_def skip_destination_def intro!: warned_length)

lemma normalizeConfig_parts:
  assumes "normalizeConfig lib d expected = Inr c"
  obtains ds js h c1 c2 managed where "cg_destinations d = Some ds" "cg_jobs d = Some js"
    "add_resources (add_destination lib managed) ds (sort (mkeys ds)) (empty_config d h) = Inr c1"
    "add_resources (add_job lib managed) js (sort (mkeys js)) c1 = Inr c2"
    "c = c2\<lparr>cf_jobs := sort_key jb_key (cf_jobs c2)\<rparr>"
  using assms by (auto simp: normalizeConfig_def Let_def split: option.splits sum.splits if_splits)

text \<open>C30: Nothing of a document is lost. When a document is accepted, every destination and every job of it is either
  decoded or kept, as it came, among what this agent does not support; a destination is decoded exactly when its
  driver is known. The jobs are valid, come from the document and are in the order of their keys, and there are at
  most a hundred warnings.\<close>
theorem config_nothing_lost:
  assumes "normalizeConfig lib d expected = Inr c"
  shows "list_all (destination_placed lib (the (cg_destinations d)) c) (mkeys (the (cg_destinations d)))
    \<and> list_all (job_placed (the (cg_jobs d)) c) (mkeys (the (cg_jobs d)))
    \<and> jobs_sound lib (the (cg_jobs d)) c \<and> sorted (map jb_key (cf_jobs c))"
proof -
  obtain ds js h c1 c2 managed where d: "cg_destinations d = Some ds" "cg_jobs d = Some js"
    and c1: "add_resources (add_destination lib managed) ds (sort (mkeys ds)) (empty_config d h) = Inr c1"
    and c2: "add_resources (add_job lib managed) js (sort (mkeys js)) c1 = Inr c2"
    and c: "c = c2\<lparr>cf_jobs := sort_key jb_key (cf_jobs c2)\<rparr>"
    using assms by (rule normalizeConfig_parts)
  have "destination_placed lib ds c1 k" if "k \<in> set (mkeys ds)" for k
    by (rule add_resources_each [OF _ _ c1]) (use that in \<open>auto intro: destination_placed_here destination_placed_kept\<close>)
  moreover have "cf_destinations c2 = cf_destinations c1 \<and> cx_unsupported_destinations c2 = cx_unsupported_destinations c1"
    by (rule add_resources_keeps [OF _ c2]) (auto dest: job_keeps_destinations)
  ultimately have dp: "\<forall>k \<in> set (mkeys ds). destination_placed lib ds c k"
    unfolding c by (intro ballI) (rule destination_placed_same [of _ _ c1], simp_all)
  have "job_placed js c2 k" if "k \<in> set (mkeys js)" for k
    by (rule add_resources_each [OF _ _ c2]) (use that in \<open>auto intro: job_placed_here job_placed_kept\<close>)
  then have jp: "\<forall>k \<in> set (mkeys js). job_placed js c k" by (auto simp: c job_placed_def)
  have "jobs_sound lib js (empty_config d h)" by (simp add: jobs_sound_def empty_config_def Let_def)
  then have "jobs_sound lib js c1" by (rule add_resources_keeps [OF _ c1, rotated]) (auto intro: jobs_sound_destinations)
  then have "jobs_sound lib js c2" by (rule add_resources_keeps [OF _ c2, rotated]) (intro ballI allI impI, erule jobs_sound_kept, simp_all)
  then have "jobs_sound lib js c \<and> sorted (map jb_key (cf_jobs c))" by (simp add: c jobs_sound_def)
  with dp jp show ?thesis by (simp add: d list_all_iff)
qed

section \<open>Installing a configuration\<close>

text \<open>The order of the installed configurations.\<close>

definition not_older :: "config_metadata \<Rightarrow> config_metadata \<Rightarrow> bool" where
  "not_older m p = (cm_generation p < cm_generation m \<or> (cm_generation p = cm_generation m \<and> cm_revision p \<le> cm_revision m))"


section \<open>Examples\<close>

text \<open>A job of the document of a managed server, on a local destination.\<close>

definition sample_key :: string where
  "sample_key = ''job_'' @ sample_ulid (CHR ''2'')"

definition sample_destination :: string where
  "sample_destination = ''storage_'' @ sample_ulid (CHR ''1'')"

definition sample_destinations :: "(string, destination) gomap" where
  "sample_destinations = [(sample_destination, LocalDestination ''/srv/backup'')]"

definition sample_place :: job_repository where
  "sample_place =
     \<lparr>rp_key = ''repository_'' @ sample_ulid (CHR ''1''), rp_id = sample_id (CHR ''a''), rp_destination = sample_destination,
      rp_path = ''host'', rp_location = ''/srv/backup/host'', rp_service_password = ''secret'', rp_status = [],
      rp_source = [], rp_connection = LocalConnection ''/srv/backup/host''\<rparr>"

definition sample_written :: job where
  "sample_written =
     sample_job\<lparr>jb_key := sample_key, jb_repository := sample_place,
       jb_schedule := \<lparr>sh_kind = ''cron'', sh_preset = [], sh_expression = ''0 3 * * *'', sh_timezone = ''UTC''\<rparr>\<rparr>"

definition sample_lib :: config_lib where
  "sample_lib = \<lparr>cl_repo = local_lib, cl_cron = daily_cron, cl_parse = (\<lambda>_. None)\<rparr>"

lemma sample_resolves: "destination_resolve (LocalDestination ''/srv/backup'') ''host'' = Inr (LocalConnection ''/srv/backup/host'')"
  by (simp add: destination_resolve_def validRelativePath_def contains_any_def has_prefix_def
      rune_length_ascii byte_def path_join_def clean_path_def clean_step_def)

lemma sample_written_fields [simp]:
  "jb_source sample_written = jb_source sample_job" "jb_type sample_written = ''file''" "jb_id sample_written = sample_ulid (CHR ''2'')"
  "jb_repository sample_written = sample_place" "jb_replicas sample_written = []" "jb_replica_setups sample_written = []"
  "sh_expression (jb_schedule sample_written) = ''0 3 * * *''" "jb_retention sample_written = sample_retention"
  "jb_integrity sample_written = jb_integrity sample_job" "jb_maintenance sample_written = jb_maintenance sample_job"
  "jb_name sample_written = ''a''" "jb_enabled sample_written = True" "jb_key sample_written = sample_key"
  by (simp_all add: sample_written_def sample_job_def)

lemma sample_written_valid: "validateJob daily_cron sample_written = None"
proof -
  have "validate_source sample_written = validate_source sample_job"
    by (simp only: validate_source_def sample_written_fields) (simp add: sample_job_def)
  moreover have "validate_repositories sample_written = None"
    using is_ulid_not_Nil [OF sample_ids(2)] sample_lengths
    by (simp add: sample_place_def validate_repositories_def rune_length_ascii byte_def one_line_def
        repository_key_ok_def has_prefix_def contains_any_def line_breaks_def)
  moreover have "jb_type sample_job = ''file''" "jb_id sample_job = sample_ulid (CHR ''2'')"
    "sh_expression (jb_schedule sample_job) = ''0 3 * * *''" "jb_retention sample_job = sample_retention"
    by (simp_all add: sample_job_def)
  ultimately show ?thesis using sample_job_valid sample_source sample_repositories
    unfolding validateJob_def by (simp split: if_splits)
qed

lemma sample_source_read: "normalize_source (encode_job sample_written) = Inr (jb_source sample_job)"
  by (simp add: normalize_source_def encode_source_def isMySQLJob_def isPostgreSQLJob_def zero_source_document_def given_def
      Let_def sample_job_def)

lemma sample_policies_read:
  "normalize_policies sample_key (encode_job sample_written) = Inr (sample_retention, (jb_integrity sample_job)\<lparr>ji_data_mode := ''custom''\<rparr>)"
  using policies_read [of sample_written sample_key]
  by (simp add: retention_shape_def sample_retention_def sample_job_def)

lemma sample_identity [simp]: "job_identity sample_key = sample_ulid (CHR ''2'')"
  using trim_prefix_append [of "''job_''" "sample_ulid (CHR ''2'')"] by (simp add: job_identity_def sample_key_def Let_def)

lemma sample_repositories_read:
  "normalize_repositories local_lib sample_destinations (sample_ulid (CHR ''2'')) (encode_job sample_written) = Inr (sample_place, [], [])"
proof -
  have "has_prefix sample_destination ''storage_''" unfolding sample_destination_def by (rule has_prefix_append)
  then have r: "jd_repository (encode_job sample_written) = \<lparr>ry_repository_key = ''repository_'' @ sample_ulid (CHR ''1''),
      ry_id = sample_id (CHR ''a''), ry_destination = sample_destination, ry_path = ''host'', ry_password = ''secret'',
      ry_status = [], ry_source = []\<rparr>"
    by (simp add: encode_job_def encode_replica_def prefixConfigKey_def sample_place_def)
  show ?thesis using is_digest_not_Nil [OF sample_ids(1)]
    by (simp add: normalize_repositories_def r sample_destinations_def resolveRepository_def sample_resolves primary_key_def
        primary_id_def sample_place_def)
qed

lemma sample_normalized: "normalizeJob sample_lib sample_key (encode_job sample_written) sample_destinations True = Inr (as_written sample_written)"
proof -
  have "config_key_ok ''job_'' sample_key" by code_simp
  then have k: "job_key_ok True sample_key"
    unfolding job_key_ok_def sample_key_def trim_prefix_append using sample_ids(3) by blast
  have "name_ok ''a''" by (simp add: name_ok_def rune_length_ascii byte_def nul_def)
  moreover have "validateJob daily_cron (as_written sample_written) = None" by (rule as_written_valid [OF sample_written_valid])
  moreover have "jd_maintenance (encode_job sample_written) = None" by (simp add: encode_job_def sample_job_def)
  moreover have "as_written sample_written = \<lparr>jb_key = sample_key, jb_id = sample_ulid (CHR ''2''), jb_name = ''a'', jb_type = ''file'',
       jb_enabled = True, jb_source = jb_source sample_job, jb_repository = sample_place, jb_replicas = [], jb_replica_setups = [],
       jb_schedule = \<lparr>sh_kind = ''cron'', sh_preset = [], sh_expression = ''0 3 * * *'', sh_timezone = ''UTC''\<rparr>,
       jb_maintenance = zero_maintenance, jb_retention = sample_retention,
       jb_integrity = (jb_integrity sample_job)\<lparr>ji_data_mode := ''custom''\<rparr>\<rparr>"
    by (simp add: as_written_def sample_written_def sample_job_def)
  ultimately show ?thesis using k
    by (simp add: normalizeJob_def sample_repositories_read sample_policies_read sample_source_read sample_lib_def given_def Let_def
        isSupportedJobType_def)
qed

lemma job_accepted_witness: "resolved local_lib sample_destinations sample_place"
  using job_accepted [OF sample_normalized] by (simp add: as_written_def sample_lib_def)


text \<open>A document with a destination and a job this agent does not know.\<close>

definition foreign_document :: config_document where
  "foreign_document =
     zero_config_document\<lparr>cg_metadata := zero_metadata\<lparr>md_schema_version := 1\<rparr>,
       cg_destinations := Some [(''storage_x'', JObj [(''driver'', JStr ''gcs'')])],
       cg_jobs := Some [(''job_x'', JObj [(''type'', JStr ''mongodb'')])]\<rparr>"

lemma foreign_discriminators:
  "decodeResourceDiscriminator (JObj [(''driver'', JStr ''gcs'')]) ''driver'' = Some ''gcs''"
  "decodeResourceDiscriminator (JObj [(''type'', JStr ''mongodb'')]) ''type'' = Some ''mongodb''"
  by (simp_all add: decodeResourceDiscriminator_def raw_members_def resource_type_ok_def)

lemma foreign_accepted: "\<exists>c. normalizeConfig sample_lib foreign_document 0 = Inr c"
proof -
  have n: "name_ok []" by (simp add: name_ok_def)
  have k: "config_key_ok ''storage_'' ''storage_x''" "config_key_ok ''job_'' ''job_x''"
    by (simp_all add: config_key_ok_def key_char_def)
  show ?thesis
    by (simp add: normalizeConfig_def foreign_document_def zero_config_document_def zero_metadata_def zero_host_def envelope_error_def
        host_identity_def n validateRealtime_def add_destination_def destination_key_ok_def k add_job_def job_key_ok_def
        foreign_discriminators isSupportedJobType_def Let_def)
qed

lemma config_nothing_lost_witness:
  "\<exists>c. list_all (job_placed [(''job_x'', JObj [(''type'', JStr ''mongodb'')])] c) [''job_x'']"
proof -
  obtain c where "normalizeConfig sample_lib foreign_document 0 = Inr c" using foreign_accepted by blast
  from config_nothing_lost [OF this] show ?thesis by (auto simp: foreign_document_def)
qed

text \<open>The document of a managed server without jobs, as a text.\<close>

definition managed_document :: config_document where
  "managed_document =
     zero_config_document\<lparr>
       cg_metadata := \<lparr>md_protocol_revision = ''1.16.0'', md_generation = 1, md_revision = 2, md_schema_version = 1,
         md_issued_at = ''2026-01-01T00:00:00.000000Z'', md_digest = []\<rparr>,
       cg_host := \<lparr>hd_name = [], hd_id = ''server_'' @ sample_ulid (CHR ''1'')\<rparr>,
       cg_destinations := Some [], cg_jobs := Some []\<rparr>"

definition managed_text :: string where
  "managed_text = json_text (json_of_config managed_document)"

lemma managed_small: "config_small managed_document"
  by (simp add: config_small_def managed_document_def zero_config_document_def map_sorted_def)

lemmas managed_json = json_of_config_def managed_document_def zero_config_document_def json_struct_def put_option_def
  json_of_metadata_def json_of_host_def json_of_raw_map_def omit_text_def omit_number_def json_number_def sample_ulid_def

lemma small_numbers: "show_nat 1 = ''1''" "show_nat 2 = ''2''" "show_nat (Suc 0) = ''1''"
  by code_simp+

lemma managed_ok: "json_ok (json_of_config managed_document)" "keys_distinct (json_of_config managed_document)"
  by (simp_all add: managed_json ascii_def byte_def is_digit_def list_all_iff small_numbers)

lemma printed_ascii: "ascii s \<Longrightarrow> ascii (print_string s)"
proof -
  have d: "byte (hex_digit n) < 128" for n
  proof -
    have "n mod 16 \<in> set [0..<16]" by simp
    moreover have "\<forall>i \<in> set [0..<16]. byte (hex_alphabet ! i) < 128" by code_simp
    ultimately show ?thesis by (simp add: hex_digit_def)
  qed
  then have "byte c < 128 \<Longrightarrow> list_all (\<lambda>c. byte c < 128) (print_char c)" for c
    by (simp add: print_char_def byte_def quote_def backslash_def)
  then show "ascii s \<Longrightarrow> ascii (print_string s)"
    by (auto simp: ascii_def print_string_def list_all_iff quote_def byte_def)
qed

lemma managed_length: "length managed_text \<le> maximumConfig"
  by (simp add: managed_text_def managed_json print_string_def print_char_def quote_def backslash_def byte_def small_numbers
      maximumConfig_def)

lemma managed_ascii: "ascii managed_text"
  by (simp add: managed_text_def managed_json print_string_def print_char_def quote_def backslash_def byte_def small_numbers
      ascii_def list_all_iff)

lemma managed_read: "decode_document managed_text = Inr managed_document"
proof -
  have "valid_utf8 managed_text" using managed_ascii
    by (auto simp: valid_utf8_def ascii_def pieces_all_ascii list_all_iff)
  moreover have "json_parse managed_text = Some (json_of_config managed_document)"
    unfolding managed_text_def by (rule json_parse_text [OF managed_ok(1)])
  ultimately show ?thesis using managed_length managed_ok(2) config_decode [OF managed_small]
    by (simp add: decode_document_def)
qed

definition managed_config :: full_config where
  "managed_config = empty_config managed_document (sample_ulid (CHR ''1''))"

lemma managed_normalized: "normalizeConfig sample_lib managed_document 1 = Inr managed_config"
proof -
  have t: "validateTimestamp ''2026-01-01T00:00:00.000000Z''" by code_simp
  have p: "compatibleProtocolRevision ''1.16.0''" by code_simp
  have i: "parsePrefixedULID (''server_'' @ sample_ulid (CHR ''1'')) ''server_'' = Some (sample_ulid (CHR ''1''))"
    by (rule prefixed_ulid_read [OF sample_ids(2)])
  have n: "name_ok []" by (simp add: name_ok_def)
  have e: "envelope_error True 1 managed_document = None"
    using t p by (simp add: envelope_error_def managed_document_def Let_def)
  have h: "host_identity True managed_document = Inr (sample_ulid (CHR ''1''))"
    using i n by (simp add: host_identity_def managed_document_def zero_config_document_def)
  have m: "md_generation (cg_metadata managed_document) = 1" "cg_realtime managed_document = None"
    "cg_destinations managed_document = Some []" "cg_jobs managed_document = Some []"
    by (simp_all add: managed_document_def zero_config_document_def)
  show ?thesis unfolding normalizeConfig_def m Let_def by (simp add: e [unfolded One_nat_def] h validateRealtime_def managed_config_def empty_config_def Let_def)
qed

definition managed_bootstrap :: bootstrap where
  "managed_bootstrap =
     \<lparr>bs_endpoint = ''https://c'', bs_server_id = sample_ulid (CHR ''1''), bs_generation = 1, bs_credential = ''k'',
      bs_hostname = ''h'', bs_setup_token_hash = [], bs_cache_key = [], bs_enrollment_token_hash = []\<rparr>"

definition earlier_metadata :: config_metadata where
  "earlier_metadata = \<lparr>cm_generation = 1, cm_revision = 1, cm_digest = ''d'', cm_file_digest = ''f''\<rparr>"

lemma managed_saved:
  "\<exists>m file. SaveConfig sample_lib json_text True managed_bootstrap managed_text None (Some earlier_metadata) = (None, m, file)"
proof -
  let ?m = "metadata_of managed_document (sha256_hex managed_text)"
  have d: "DecodeConfig sample_lib managed_text 1 = (Inr managed_config, ?m)"
    by (simp add: DecodeConfig_def managed_read managed_normalized [unfolded One_nat_def])
  have "cm_generation ?m = 1" "cm_revision ?m = 2" by (simp_all add: metadata_of_def managed_document_def Let_def)
  then have "revision_error sample_lib managed_bootstrap None (at_host managed_bootstrap managed_config) ?m (Some earlier_metadata) = None"
    by (simp add: revision_error_def earlier_metadata_def)
  moreover obtain doc where "encodeConfig (at_host managed_bootstrap managed_config) (cm_digest ?m) = Inr doc"
    by (simp add: encodeConfig_def at_host_def managed_config_def empty_config_def Let_def)
  moreover have "bs_generation managed_bootstrap = 1" by (simp add: managed_bootstrap_def)
  ultimately show ?thesis using d by (simp add: SaveConfig_def Let_def)
qed


end
