(* ===== verification/Realtime.thy ===== *)
theory Realtime
  imports Documents
begin

text \<open>
  The realtime connection (pusher/client.go): one client, its configuration that may be replaced at any time, and
  the goroutines that dial, read, subscribe and reconnect. Every part that holds the client's mutex is one
  definition, which returns what its goroutine does next; the goroutines are a list of tasks, and a step takes
  any of them. A ping of the ticker changes nothing of the client and is left out. The dialer, the authorization request, what the server sends and what a write gives are open.
\<close>

section \<open>Messages\<close>

record pusher_message =
  ms_event :: string
  ms_data :: "json option"
  ms_channel :: string

record established_data =
  es_socket_id :: string
  es_activity_timeout :: int
  es_colo :: string

definition established_fields :: "(string \<times> established_data decoder) list" where
  "established_fields =
     [(''socket_id'', on_field dec_string es_socket_id (\<lambda>v. es_socket_id_update (\<lambda>_. v))),
      (''activity_timeout'', on_field dec_int es_activity_timeout (\<lambda>v. es_activity_timeout_update (\<lambda>_. v))),
      (''socketchief_colo'', on_field dec_string es_colo (\<lambda>v. es_colo_update (\<lambda>_. v)))]"

text \<open>The data of a message is a JSON text inside a JSON string.\<close>

definition UnmarshalData :: "json option \<Rightarrow> established_data option" where
  "UnmarshalData data =
     (case data of
        None \<Rightarrow> None
      | Some v \<Rightarrow>
          (case dec_string v [] of
             None \<Rightarrow> None
           | Some text \<Rightarrow>
               unmarshal (dec_struct False established_fields)
                 \<lparr>es_socket_id = [], es_activity_timeout = 0, es_colo = []\<rparr> text))"

section \<open>The client\<close>

text \<open>Times are in nanoseconds. A timer that has fired is no longer there; a connection is the number of its dial.\<close>

record realtime_client =
  rl_config :: "realtime_config option"
  rl_stopped :: bool
  rl_conn :: "nat option"
  rl_socket :: string
  rl_connected :: bool
  rl_subscribed :: bool
  rl_connecting :: bool
  rl_generation :: nat
  rl_timer :: "(nat \<times> int) option"
  rl_delay :: int
  rl_read_timeout :: int
  rl_ping :: "(nat \<times> int) option"
  rl_handlers :: "string list"

definition in_seconds :: "int \<Rightarrow> int" where
  "in_seconds n = n * 1000000000"

definition defaultActivityTimeout :: int where
  "defaultActivityTimeout = in_seconds 120"

definition pongTimeout :: int where
  "pongTimeout = in_seconds 30"

definition minimumReconnectDelay :: int where
  "minimumReconnectDelay = in_seconds 2"

definition maximumReconnectDelay :: int where
  "maximumReconnectDelay = in_seconds 300"

definition new_client :: "realtime_config option \<Rightarrow> string \<Rightarrow> realtime_client option" where
  "new_client config credential =
     (if config = None \<or> credential = [] then None
      else Some \<lparr>rl_config = config, rl_stopped = False, rl_conn = None, rl_socket = [], rl_connected = False,
             rl_subscribed = False, rl_connecting = False, rl_generation = 0, rl_timer = None,
             rl_delay = minimumReconnectDelay, rl_read_timeout = 0, rl_ping = None, rl_handlers = []\<rparr>)"

definition isConnectionActive :: "nat \<Rightarrow> realtime_client \<Rightarrow> bool" where
  "isConnectionActive k c = (rl_conn c = Some k \<and> \<not> rl_stopped c)"

text \<open>What a goroutine does next. \<open>Dialing\<close> has the generation and the configuration its attempt began with.\<close>

datatype task =
    Connecting
  | Dialing nat realtime_config
  | Rescheduling
  | TimerFired nat
  | Reading nat
  | AfterEstablished nat string int string
  | Subscribing nat string
  | Authorizing nat realtime_config string
  | SubscriptionTimer nat
  | Failing nat
  | Closing nat
  | Notifying pusher_message

section \<open>Connecting\<close>

definition connect_begin :: "realtime_client \<Rightarrow> realtime_client \<times> task list" where
  "connect_begin c =
     (if rl_stopped c then (c, [Rescheduling])
      else (case rl_config c of
              None \<Rightarrow> (c, [Rescheduling])
            | Some config \<Rightarrow>
                if rl_conn c \<noteq> None \<or> rl_connecting c then (c, [])
                else (c\<lparr>rl_connecting := True\<rparr>, [Dialing (rl_generation c) config])))"

text \<open>The end of the dial: \<open>connection\<close> is its number, nothing when it failed.\<close>

definition dial_ended :: "nat \<Rightarrow> realtime_config \<Rightarrow> nat option \<Rightarrow> realtime_client \<Rightarrow> realtime_client \<times> task list" where
  "dial_ended generation config connection c =
     (let current = (rl_generation c = generation);
          c = (if current then c\<lparr>rl_connecting := False\<rparr> else c)
      in case connection of
           None \<Rightarrow> (c, [Rescheduling])
         | Some k \<Rightarrow>
             if \<not> current \<or> rl_stopped c \<or> rl_config c \<noteq> Some config \<or> rl_conn c \<noteq> None then (c, [Closing k])
             else (c\<lparr>rl_conn := Some k, rl_socket := [], rl_connected := False, rl_subscribed := False,
                     rl_read_timeout := defaultActivityTimeout + pongTimeout, rl_timer := None\<rparr>, [Reading k]))"

definition upperHalfJitter :: "int \<Rightarrow> int option \<Rightarrow> int" where
  "upperHalfJitter ceiling drawn =
     (if ceiling \<le> 0 then 0
      else (let half = ceiling div 2
            in case drawn of None \<Rightarrow> ceiling | Some v \<Rightarrow> half + v mod (ceiling - half + 1)))"

definition scheduleReconnect :: "int option \<Rightarrow> realtime_client \<Rightarrow> realtime_client" where
  "scheduleReconnect drawn c =
     (if rl_stopped c \<or> rl_config c = None \<or> rl_conn c \<noteq> None \<or> rl_connecting c then c
      else c\<lparr>rl_timer := Some (rl_generation c, upperHalfJitter (rl_delay c) drawn),
             rl_delay := min (rl_delay c * 2) maximumReconnectDelay\<rparr>)"

definition timer_fired :: "nat \<Rightarrow> realtime_client \<Rightarrow> task list" where
  "timer_fired generation c = (if rl_stopped c \<or> rl_generation c \<noteq> generation then [] else [Connecting])"

text \<open>What the ends of a connection have in common.\<close>

definition drop_connection :: "realtime_client \<Rightarrow> realtime_client" where
  "drop_connection c = c\<lparr>rl_conn := None, rl_socket := [], rl_connected := False, rl_subscribed := False, rl_ping := None\<rparr>"

definition close_task :: "nat option \<Rightarrow> task list" where
  "close_task k = (case k of None \<Rightarrow> [] | Some k \<Rightarrow> [Closing k])"

definition disconnect :: "realtime_client \<Rightarrow> realtime_client \<times> task list" where
  "disconnect c =
     ((drop_connection c)\<lparr>rl_stopped := True, rl_generation := rl_generation c + 1, rl_timer := None,
        rl_connecting := False, rl_config := None\<rparr>, close_task (rl_conn c))"

definition UpdateConfig :: "realtime_config option \<Rightarrow> realtime_client \<Rightarrow> realtime_client \<times> task list" where
  "UpdateConfig config c =
     (if config = None then disconnect c
      else if rl_stopped c then (c, [])
      else if rl_config c = config then (c, [])
      else ((drop_connection c)\<lparr>rl_config := config, rl_generation := rl_generation c + 1, rl_connecting := False,
              rl_delay := minimumReconnectDelay, rl_timer := None\<rparr>, close_task (rl_conn c) @ [Connecting]))"

definition OnEvent :: "string \<Rightarrow> realtime_client \<Rightarrow> realtime_client" where
  "OnEvent event c = c\<lparr>rl_handlers := List.insert event (rl_handlers c)\<rparr>"

text \<open>The reader stops: an error, a deadline, or the client was stopped.\<close>

definition reader_ended :: "nat \<Rightarrow> realtime_client \<Rightarrow> realtime_client \<times> task list" where
  "reader_ended k c =
     (if rl_conn c \<noteq> Some k then (c, [])
      else (drop_connection c, Closing k # (if \<not> rl_stopped c \<and> rl_config c \<noteq> None then [Rescheduling] else [])))"

definition failConnection :: "nat \<Rightarrow> realtime_client \<Rightarrow> realtime_client \<times> task list" where
  "failConnection k c =
     (if rl_conn c \<noteq> Some k \<or> rl_stopped c then (c, []) else (drop_connection c, [Closing k, Rescheduling]))"

section \<open>Messages of the server\<close>

definition notifyEventListeners :: "pusher_message \<Rightarrow> realtime_client \<Rightarrow> task list" where
  "notifyEventListeners m c = (if ms_event m \<in> set (rl_handlers c) then [Notifying m] else [])"

text \<open>The timeout is read into a duration, whose product with a second may wrap around.\<close>

definition activity_timeout :: "established_data \<Rightarrow> int" where
  "activity_timeout d =
     (if 0 < es_activity_timeout d then wrap_int64 (in_seconds (es_activity_timeout d)) else defaultActivityTimeout)"

definition connection_established :: "nat \<Rightarrow> established_data \<Rightarrow> realtime_client \<Rightarrow> realtime_client \<times> task list" where
  "connection_established k d c =
     (if rl_conn c \<noteq> Some k \<or> rl_stopped c then (c, [Reading k])
      else (c\<lparr>rl_socket := es_socket_id d, rl_connected := True,
              rl_read_timeout := wrap_int64 (activity_timeout d + pongTimeout)\<rparr>,
            [AfterEstablished k (es_socket_id d) (activity_timeout d)
               (case rl_config c of None \<Rightarrow> [] | Some g \<Rightarrow> rm_channel g)]))"

text \<open>What follows, without the mutex at first; \<open>time.NewTicker\<close> panics on a period that is not positive.\<close>

definition start_ping :: "nat \<Rightarrow> int \<Rightarrow> realtime_client \<Rightarrow> realtime_client" where
  "start_ping k period c = (if rl_conn c \<noteq> Some k \<or> rl_stopped c then c else c\<lparr>rl_ping := Some (k, period)\<rparr>)"

definition after_established :: "nat \<Rightarrow> string \<Rightarrow> int \<Rightarrow> string \<Rightarrow> realtime_client \<Rightarrow> (realtime_client \<times> task list) option" where
  "after_established k socket period channel c =
     (if period \<le> 0 then None
      else Some (start_ping k period c,
             Reading k # (if channel = [] then [] else [Subscribing k socket, SubscriptionTimer k])))"

definition subscription_succeeded :: "nat \<Rightarrow> pusher_message \<Rightarrow> realtime_client \<Rightarrow> realtime_client \<times> task list" where
  "subscription_succeeded k m c =
     (if rl_conn c \<noteq> Some k \<or> rl_stopped c \<or> map_option rm_channel (rl_config c) \<noteq> Some (ms_channel m) then (c, [Reading k])
      else (c\<lparr>rl_subscribed := True, rl_delay := minimumReconnectDelay\<rparr>,
            notifyEventListeners m (c\<lparr>rl_subscribed := True, rl_delay := minimumReconnectDelay\<rparr>) @ [Reading k]))"

text \<open>The reader handles one message and goes on reading.\<close>

definition handlePusherMessage :: "nat \<Rightarrow> pusher_message \<Rightarrow> realtime_client \<Rightarrow> realtime_client \<times> task list" where
  "handlePusherMessage k m c =
     (if \<not> isConnectionActive k c then (c, [Reading k])
      else if ms_event m = ''pusher:connection_established'' then
        (case UnmarshalData (ms_data m) of None \<Rightarrow> (c, [Reading k]) | Some d \<Rightarrow> connection_established k d c)
      else if ms_event m \<in> set [''pusher:ping'', ''pusher:pong'', ''pusher:error''] then (c, [Reading k])
      else if ms_event m = ''pusher:subscription_error'' then
        (let (c, tasks) = failConnection k c in (c, tasks @ [Reading k]))
      else if ms_event m = ''pusher_internal:subscription_succeeded'' then subscription_succeeded k m c
      else (c, notifyEventListeners m c @ [Reading k]))"

section \<open>Subscribing\<close>

definition sendMessageOnConn :: "nat \<Rightarrow> bool \<Rightarrow> realtime_client \<Rightarrow> bool" where
  "sendMessageOnConn k written c = (isConnectionActive k c \<and> written)"

text \<open>The answer to the authorization request: nothing, or a status and a body.\<close>

datatype auth_answer = NoAnswer | Answer nat json

definition generateChannelAuth :: "string \<Rightarrow> auth_answer \<Rightarrow> string option" where
  "generateChannelAuth auth_url answer =
     (if auth_url = [] then None
      else (case answer of
              NoAnswer \<Rightarrow> None
            | Answer status body \<Rightarrow>
                if status \<noteq> 200 then None
                else dec_struct False [(''auth'', dec_string)] body []))"

definition subscribe_begin :: "nat \<Rightarrow> string \<Rightarrow> realtime_client \<Rightarrow> task list" where
  "subscribe_begin k socket c =
     (case rl_config c of
        None \<Rightarrow> [Failing k]
      | Some config \<Rightarrow>
          if rl_conn c \<noteq> Some k \<or> rl_stopped c \<or> rm_channel config = [] then [Failing k]
          else [Authorizing k config socket])"

definition subscribe_data :: "realtime_config \<Rightarrow> auth_answer \<Rightarrow> json option" where
  "subscribe_data config answer =
     (if has_prefix (rm_channel config) ''private-'' then
        map_option (\<lambda>auth. JObj [(''auth'', JStr auth), (''channel'', JStr (rm_channel config))])
          (generateChannelAuth (rm_auth_url config) answer)
      else Some (JObj [(''channel'', JStr (rm_channel config))]))"

definition subscribe_sent :: "nat \<Rightarrow> realtime_config \<Rightarrow> auth_answer \<Rightarrow> bool \<Rightarrow> realtime_client \<Rightarrow> task list" where
  "subscribe_sent k config answer written c =
     (if subscribe_data config answer = None \<or> \<not> sendMessageOnConn k written c then [Failing k] else [])"

definition subscription_timer :: "nat \<Rightarrow> realtime_client \<Rightarrow> task list" where
  "subscription_timer k c = (if rl_conn c = Some k \<and> \<not> rl_subscribed c then [Failing k] else [])"

text \<open>The address of the WebSocket.\<close>

definition show_int :: "int \<Rightarrow> string" where
  "show_int n = (if n < 0 then ''-'' @ show_nat (nat (- n)) else show_nat (nat n))"

definition buildWebSocketURLFromConfig :: "realtime_config option \<Rightarrow> string" where
  "buildWebSocketURLFromConfig config =
     (case config of
        None \<Rightarrow> []
      | Some g \<Rightarrow>
          (if rm_encrypted g then ''wss'' else ''ws'') @ ''://'' @ rm_host g @ '':'' @ show_int (rm_port g) @ ''/app/'' @ rm_key g
          @ ''?protocol=7&client=backupchief&version=1.0.0'')"

section \<open>Steps\<close>

text \<open>\<open>wd_opened\<close> counts the connections that were opened, \<open>wd_closed\<close> are those that were closed, and
  \<open>wd_confirmed\<close> what the server confirmed: a connection and a channel.\<close>

record realtime_world =
  wd_client :: realtime_client
  wd_tasks :: "task list"
  wd_opened :: nat
  wd_closed :: "nat list"
  wd_confirmed :: "(nat \<times> string) list"
  wd_panicked :: bool

definition run_task :: "task \<Rightarrow> realtime_client \<times> task list \<Rightarrow> realtime_world \<Rightarrow> realtime_world" where
  "run_task t r w = w\<lparr>wd_client := fst r, wd_tasks := remove1 t (wd_tasks w) @ snd r\<rparr>"

definition hear :: "nat \<Rightarrow> pusher_message \<Rightarrow> realtime_world \<Rightarrow> realtime_world" where
  "hear k m w =
     (if ms_event m = ''pusher_internal:subscription_succeeded'' then w\<lparr>wd_confirmed := (k, ms_channel m) # wd_confirmed w\<rparr> else w)"

inductive realtime_step :: "realtime_world \<Rightarrow> realtime_world \<Rightarrow> bool" where
  connects: "Connecting \<in> set (wd_tasks w) \<Longrightarrow> \<not> wd_panicked w \<Longrightarrow>
     realtime_step w (run_task Connecting (connect_begin (wd_client w)) w)"
| dial_fails: "Dialing g config \<in> set (wd_tasks w) \<Longrightarrow> \<not> wd_panicked w \<Longrightarrow>
     realtime_step w (run_task (Dialing g config) (dial_ended g config None (wd_client w)) w)"
| dial_opens: "Dialing g config \<in> set (wd_tasks w) \<Longrightarrow> \<not> wd_panicked w \<Longrightarrow>
     realtime_step w (run_task (Dialing g config) (dial_ended g config (Some (wd_opened w)) (wd_client w))
       (w\<lparr>wd_opened := wd_opened w + 1\<rparr>))"
| reschedules: "Rescheduling \<in> set (wd_tasks w) \<Longrightarrow> \<not> wd_panicked w \<Longrightarrow>
     realtime_step w (run_task Rescheduling (scheduleReconnect drawn (wd_client w), []) w)"
| timer_fires: "rl_timer (wd_client w) = Some (g, delay) \<Longrightarrow> \<not> wd_panicked w \<Longrightarrow>
     realtime_step w (w\<lparr>wd_client := (wd_client w)\<lparr>rl_timer := None\<rparr>, wd_tasks := wd_tasks w @ [TimerFired g]\<rparr>)"
| timer_runs: "TimerFired g \<in> set (wd_tasks w) \<Longrightarrow> \<not> wd_panicked w \<Longrightarrow>
     realtime_step w (run_task (TimerFired g) (wd_client w, timer_fired g (wd_client w)) w)"
| reading_ends: "Reading k \<in> set (wd_tasks w) \<Longrightarrow> \<not> wd_panicked w \<Longrightarrow>
     realtime_step w (run_task (Reading k) (reader_ended k (wd_client w)) w)"
| message_read: "Reading k \<in> set (wd_tasks w) \<Longrightarrow> \<not> wd_panicked w \<Longrightarrow> \<not> rl_stopped (wd_client w) \<Longrightarrow>
     realtime_step w (run_task (Reading k) (handlePusherMessage k m (wd_client w)) (hear k m w))"
| established: "AfterEstablished k socket period channel \<in> set (wd_tasks w) \<Longrightarrow> \<not> wd_panicked w \<Longrightarrow>
     after_established k socket period channel (wd_client w) = Some r \<Longrightarrow>
     realtime_step w (run_task (AfterEstablished k socket period channel) r w)"
| ticker_panics: "AfterEstablished k socket period channel \<in> set (wd_tasks w) \<Longrightarrow> \<not> wd_panicked w \<Longrightarrow>
     after_established k socket period channel (wd_client w) = None \<Longrightarrow> realtime_step w (w\<lparr>wd_panicked := True\<rparr>)"
| subscribes: "Subscribing k socket \<in> set (wd_tasks w) \<Longrightarrow> \<not> wd_panicked w \<Longrightarrow>
     realtime_step w (run_task (Subscribing k socket) (wd_client w, subscribe_begin k socket (wd_client w)) w)"
| authorizes: "Authorizing k config socket \<in> set (wd_tasks w) \<Longrightarrow> \<not> wd_panicked w \<Longrightarrow>
     realtime_step w (run_task (Authorizing k config socket)
       (wd_client w, subscribe_sent k config answer written (wd_client w)) w)"
| subscription_waited: "SubscriptionTimer k \<in> set (wd_tasks w) \<Longrightarrow> \<not> wd_panicked w \<Longrightarrow>
     realtime_step w (run_task (SubscriptionTimer k) (wd_client w, subscription_timer k (wd_client w)) w)"
| fails: "Failing k \<in> set (wd_tasks w) \<Longrightarrow> \<not> wd_panicked w \<Longrightarrow>
     realtime_step w (run_task (Failing k) (failConnection k (wd_client w)) w)"
| closes: "Closing k \<in> set (wd_tasks w) \<Longrightarrow> \<not> wd_panicked w \<Longrightarrow>
     realtime_step w (run_task (Closing k) (wd_client w, []) (w\<lparr>wd_closed := k # wd_closed w\<rparr>))"
| notifies: "Notifying m \<in> set (wd_tasks w) \<Longrightarrow> \<not> wd_panicked w \<Longrightarrow>
     realtime_step w (run_task (Notifying m) (wd_client w, []) w)"
| configured: "\<not> wd_panicked w \<Longrightarrow>
     realtime_step w (w\<lparr>wd_client := fst (UpdateConfig config (wd_client w)),
       wd_tasks := wd_tasks w @ snd (UpdateConfig config (wd_client w))\<rparr>)"
| disconnected: "\<not> wd_panicked w \<Longrightarrow>
     realtime_step w (w\<lparr>wd_client := fst (disconnect (wd_client w)), wd_tasks := wd_tasks w @ snd (disconnect (wd_client w))\<rparr>)"
| handler_added: "\<not> wd_panicked w \<Longrightarrow> realtime_step w (w\<lparr>wd_client := OnEvent event (wd_client w)\<rparr>)"

text \<open>\<open>Start\<close>.\<close>

definition started :: "realtime_client \<Rightarrow> realtime_world" where
  "started c = \<lparr>wd_client = c, wd_tasks = [Connecting], wd_opened = 0, wd_closed = [], wd_confirmed = [], wd_panicked = False\<rparr>"

end
