(* ===== verification/RealtimeFacts.thy ===== *)
theory RealtimeFacts
  imports Realtime
begin

text \<open>
  The invariant of the realtime connection and what follows from it: a client that is not connected tries again,
  at most one connection is open, it is watched until the server has confirmed the subscription, and a client
  that was stopped stays stopped.
\<close>

section \<open>The invariant\<close>

definition live :: "realtime_client \<Rightarrow> bool" where
  "live c = (\<not> rl_stopped c \<and> rl_config c \<noteq> None)"

text \<open>Something is under way that ends in an attempt to connect.\<close>

definition retrying :: "realtime_world \<Rightarrow> bool" where
  "retrying w =
     (let c = wd_client w; ts = set (wd_tasks w)
      in rl_timer c \<noteq> None \<or> Connecting \<in> ts \<or> Rescheduling \<in> ts \<or> TimerFired (rl_generation c) \<in> ts
         \<or> (\<exists>g. Dialing (rl_generation c) g \<in> ts))"

definition retry_ok :: "realtime_world \<Rightarrow> bool" where
  "retry_ok w = (live (wd_client w) \<longrightarrow> rl_conn (wd_client w) = None \<longrightarrow> retrying w)"

definition dialing_ok :: "realtime_world \<Rightarrow> bool" where
  "dialing_ok w =
     (let c = wd_client w; ts = set (wd_tasks w)
      in (rl_connecting c \<longrightarrow> (\<exists>g. Dialing (rl_generation c) g \<in> ts))
         \<and> (\<forall>n g. Dialing n g \<in> ts \<longrightarrow> n \<le> rl_generation c \<and> (n = rl_generation c \<longrightarrow> rl_config c = Some g))
         \<and> (\<forall>n. TimerFired n \<in> ts \<longrightarrow> n \<le> rl_generation c))"

definition delay_ok :: "realtime_client \<Rightarrow> bool" where
  "delay_ok c =
     ((\<forall>n d. rl_timer c = Some (n, d) \<longrightarrow> n = rl_generation c \<and> in_seconds 1 \<le> d \<and> d \<le> maximumReconnectDelay)
      \<and> minimumReconnectDelay \<le> rl_delay c \<and> rl_delay c \<le> maximumReconnectDelay)"

definition reader_ok :: "realtime_world \<Rightarrow> bool" where
  "reader_ok w =
     (\<forall>k. rl_conn (wd_client w) = Some k \<longrightarrow> rl_timer (wd_client w) = None
        \<and> (Reading k \<in> set (wd_tasks w) \<or> (\<exists>s p ch. AfterEstablished k s p ch \<in> set (wd_tasks w))))"

definition closing_ok :: "realtime_world \<Rightarrow> bool" where
  "closing_ok w =
     (\<forall>k < wd_opened w. rl_conn (wd_client w) = Some k \<or> Closing k \<in> set (wd_tasks w) \<or> k \<in> set (wd_closed w))"

definition stopped_ok :: "realtime_client \<Rightarrow> bool" where
  "stopped_ok c =
     ((rl_stopped c \<longrightarrow> rl_config c = None \<and> rl_conn c = None \<and> rl_timer c = None \<and> \<not> rl_connecting c)
      \<and> (\<not> rl_stopped c \<longrightarrow> rl_config c \<noteq> None)
      \<and> (rl_conn c = None \<longrightarrow> \<not> rl_connected c \<and> \<not> rl_subscribed c))"

definition subscription_ok :: "realtime_world \<Rightarrow> bool" where
  "subscription_ok w =
     (let c = wd_client w; ts = set (wd_tasks w)
      in \<forall>k g. rl_conn c = Some k \<longrightarrow> rl_config c = Some g \<longrightarrow>
           (rl_subscribed c \<longrightarrow> (k, rm_channel g) \<in> set (wd_confirmed w))
           \<and> (rl_connected c \<longrightarrow> \<not> rl_subscribed c \<longrightarrow> rm_channel g \<noteq> [] \<longrightarrow>
                SubscriptionTimer k \<in> ts \<or> Failing k \<in> ts \<or> (\<exists>s p. AfterEstablished k s p (rm_channel g) \<in> ts)))"

definition realtime_ok :: "realtime_world \<Rightarrow> bool" where
  "realtime_ok w =
     (retry_ok w \<and> dialing_ok w \<and> delay_ok (wd_client w) \<and> reader_ok w \<and> closing_ok w \<and> stopped_ok (wd_client w) \<and> subscription_ok w)"

lemmas realtime_operations = connect_begin_def dial_ended_def scheduleReconnect_def timer_fired_def disconnect_def
  UpdateConfig_def OnEvent_def reader_ended_def failConnection_def connection_established_def start_ping_def
  after_established_def subscription_succeeded_def handlePusherMessage_def subscribe_begin_def subscribe_sent_def
  subscription_timer_def notifyEventListeners_def drop_connection_def close_task_def run_task_def hear_def Let_def

lemma jitter_bounds:
  assumes "0 < ceiling"
  shows "ceiling div 2 \<le> upperHalfJitter ceiling drawn \<and> upperHalfJitter ceiling drawn \<le> ceiling"
proof (cases drawn)
  case (Some v)
  have "0 < ceiling - ceiling div 2 + 1" using assms by simp
  then have "0 \<le> v mod (ceiling - ceiling div 2 + 1)" "v mod (ceiling - ceiling div 2 + 1) < ceiling - ceiling div 2 + 1"
    by (rule pos_mod_sign, rule pos_mod_bound)
  then show ?thesis using assms by (simp add: upperHalfJitter_def Some Let_def)
qed (use assms in \<open>simp add: upperHalfJitter_def Let_def\<close>)

lemma not_remaining: "x \<notin> set (remove1 y xs) \<Longrightarrow> x = y \<or> x \<notin> set xs"
  by (cases "x = y") simp_all

lemma in_remaining: "x \<in> set (remove1 y xs) \<Longrightarrow> x \<in> set xs"
  by (meson notin_set_remove1)

text \<open>Cases on a step and on what each operation does.\<close>

lemmas realtime_cases = realtime_operations isConnectionActive_def

lemma stopped_kept: "realtime_step w w' \<Longrightarrow> stopped_ok (wd_client w) \<Longrightarrow> stopped_ok (wd_client w')"
  by (induction rule: realtime_step.induct)
    (auto simp: stopped_ok_def realtime_cases split: option.splits if_splits prod.splits)

lemma closing_kept: "realtime_step w w' \<Longrightarrow> closing_ok w \<Longrightarrow> closing_ok w'"
  by (induction rule: realtime_step.induct)
    (auto simp: closing_ok_def realtime_cases less_Suc_eq dest!: not_remaining split: option.splits if_splits prod.splits)

text \<open>Most steps neither dial nor fire a timer.\<close>

definition quiet :: "task list \<Rightarrow> bool" where
  "quiet ts = ((\<forall>n g. Dialing n g \<notin> set ts) \<and> (\<forall>n. TimerFired n \<notin> set ts))"

lemma dialing_quiet:
  assumes "dialing_ok w" "quiet (snd r)" "quiet [t]" "wd_client v = wd_client w" "wd_tasks v = wd_tasks w"
    "rl_connecting (fst r) = rl_connecting (wd_client w)" "rl_generation (fst r) = rl_generation (wd_client w)"
    "rl_config (fst r) = rl_config (wd_client w)"
  shows "dialing_ok (run_task t r v)"
proof -
  have "Dialing n g \<noteq> t" "TimerFired n \<noteq> t" for n g using assms(3) by (auto simp: quiet_def)
  then have "(Dialing n g \<in> set (wd_tasks (run_task t r v))) = (Dialing n g \<in> set (wd_tasks w))"
    "(TimerFired n \<in> set (wd_tasks (run_task t r v))) = (TimerFired n \<in> set (wd_tasks w))" for n g
    using assms(2,5) by (auto simp: run_task_def quiet_def)
  with assms(1,6-8) show ?thesis by (simp add: dialing_ok_def run_task_def Let_def)
qed

lemma handled_quiet:
  "quiet (snd (handlePusherMessage k m c)) \<and> rl_connecting (fst (handlePusherMessage k m c)) = rl_connecting c
    \<and> rl_generation (fst (handlePusherMessage k m c)) = rl_generation c \<and> rl_config (fst (handlePusherMessage k m c)) = rl_config c"
  by (auto simp: quiet_def realtime_cases split: option.splits if_splits prod.splits)

lemma dialing_ended_ok:
  assumes "dialing_ok w" "Dialing g config \<in> set (wd_tasks w)" "wd_client v = wd_client w" "wd_tasks v = wd_tasks w"
  shows "dialing_ok (run_task (Dialing g config) (dial_ended g config connection (wd_client w)) v)"
proof -
  let ?c = "wd_client w" and ?r = "dial_ended g config connection (wd_client w)"
  have r: "quiet (snd ?r)" "rl_generation (fst ?r) = rl_generation ?c" "rl_config (fst ?r) = rl_config ?c"
    "rl_connecting (fst ?r) = (rl_connecting ?c \<and> rl_generation ?c \<noteq> g)"
    by (auto simp: quiet_def dial_ended_def Let_def split: option.split)
  show ?thesis using assms(1) r unfolding dialing_ok_def quiet_def Let_def
    by (auto simp: run_task_def assms(4) dest!: in_remaining)
qed

lemma dialing_replaced:
  assumes "dialing_ok w" "quiet ts" "\<not> rl_connecting c" "rl_generation c = rl_generation (wd_client w) + 1"
  shows "dialing_ok (w\<lparr>wd_client := c, wd_tasks := wd_tasks w @ ts\<rparr>)"
  using assms by (fastforce simp: dialing_ok_def quiet_def Let_def)

lemma dialing_kept: "realtime_step w w' \<Longrightarrow> dialing_ok w \<Longrightarrow> delay_ok (wd_client w) \<Longrightarrow> dialing_ok w'"
proof (induction rule: realtime_step.induct)
  case (connects w)
  then show ?case
    by (auto simp: dialing_ok_def connect_begin_def run_task_def Let_def split: option.splits if_splits)
next
  case (dial_fails g config w)
  then show ?case by (intro dialing_ended_ok) simp_all
next
  case (dial_opens g config w)
  then show ?case by (intro dialing_ended_ok) simp_all
next
  case (timer_fires w g delay)
  then show ?case by (auto simp: dialing_ok_def delay_ok_def Let_def)
next
  case (timer_runs g w)
  then show ?case by (auto simp: dialing_ok_def run_task_def timer_fired_def Let_def dest: in_remaining)
next
  case (message_read k w m)
  then show ?case using handled_quiet by (intro dialing_quiet) (simp_all add: quiet_def hear_def)
next
  case (configured w config)
  show ?case
  proof (cases "config \<noteq> None \<and> (rl_stopped (wd_client w) \<or> rl_config (wd_client w) = config)")
    case True
    then have "UpdateConfig config (wd_client w) = (wd_client w, [])" by (auto simp: UpdateConfig_def)
    with configured show ?thesis by simp
  next
    case False
    then have "quiet (snd (UpdateConfig config (wd_client w)))" "\<not> rl_connecting (fst (UpdateConfig config (wd_client w)))"
      "rl_generation (fst (UpdateConfig config (wd_client w))) = rl_generation (wd_client w) + 1"
      by (auto simp: quiet_def UpdateConfig_def disconnect_def close_task_def drop_connection_def split: option.splits)
    with configured show ?thesis by (intro dialing_replaced)
  qed
next
  case (disconnected w)
  then show ?case
    by (intro dialing_replaced) (auto simp: quiet_def disconnect_def close_task_def drop_connection_def split: option.splits)
next
  case (established k socket period channel w r)
  then show ?case
    by (intro dialing_quiet) (auto simp: quiet_def after_established_def start_ping_def split: if_splits)
next
  case (ticker_panics k socket period channel w)
  then show ?case by (simp add: dialing_ok_def)
next
  case (handler_added w event)
  then show ?case by (simp add: dialing_ok_def OnEvent_def Let_def)
qed (auto intro!: dialing_quiet simp: quiet_def scheduleReconnect_def reader_ended_def subscribe_begin_def subscribe_sent_def
      subscription_timer_def failConnection_def drop_connection_def split: option.splits)

lemma scheduled_delay:
  assumes "delay_ok c"
  shows "delay_ok (scheduleReconnect drawn c)"
proof -
  have "0 < rl_delay c" "in_seconds 1 \<le> rl_delay c div 2" "rl_delay c \<le> maximumReconnectDelay" "minimumReconnectDelay \<le> rl_delay c"
    using assms by (auto simp: delay_ok_def minimumReconnectDelay_def in_seconds_def)
  with jitter_bounds [of "rl_delay c" drawn] assms show ?thesis
    by (auto simp: delay_ok_def scheduleReconnect_def minimumReconnectDelay_def maximumReconnectDelay_def in_seconds_def min_def)
qed

lemma delay_kept: "realtime_step w w' \<Longrightarrow> delay_ok (wd_client w) \<Longrightarrow> delay_ok (wd_client w')"
proof (induction rule: realtime_step.induct)
  case (reschedules w drawn)
  then show ?case by (simp add: run_task_def scheduled_delay)
qed (auto simp: delay_ok_def realtime_cases minimumReconnectDelay_def maximumReconnectDelay_def in_seconds_def
      split: option.splits if_splits prod.splits)

lemma reader_kept: "realtime_step w w' \<Longrightarrow> reader_ok w \<Longrightarrow> stopped_ok (wd_client w) \<Longrightarrow> reader_ok w'"
  by (induction rule: realtime_step.induct)
    (auto simp: stopped_ok_def reader_ok_def realtime_cases  split: option.splits if_splits prod.splits)

lemma subscription_kept: "realtime_step w w' \<Longrightarrow> subscription_ok w \<Longrightarrow> stopped_ok (wd_client w) \<Longrightarrow> subscription_ok w'"
  by (induction rule: realtime_step.induct)
    (auto simp: subscription_ok_def stopped_ok_def realtime_cases dest!: not_remaining split: option.splits if_splits prod.splits)

lemma retry_kept:
  "realtime_step w w' \<Longrightarrow> retry_ok w \<Longrightarrow> dialing_ok w \<Longrightarrow> delay_ok (wd_client w) \<Longrightarrow> stopped_ok (wd_client w) \<Longrightarrow> retry_ok w'"
  by (induction rule: realtime_step.induct)
    (auto simp: retry_ok_def retrying_def live_def dialing_ok_def delay_ok_def stopped_ok_def realtime_cases
      dest!: not_remaining split: option.splits if_splits prod.splits)

lemma realtime_step_ok: "realtime_step w w' \<Longrightarrow> realtime_ok w \<Longrightarrow> realtime_ok w'"
  unfolding realtime_ok_def
  using retry_kept dialing_kept delay_kept reader_kept closing_kept stopped_kept subscription_kept by blast

interpretation realtime: step_invariant realtime_step realtime_ok
  by unfold_locales (rule realtime_step_ok)

lemma started_ok:
  assumes "new_client config credential = Some c"
  shows "realtime_ok (started c)"
proof -
  have c: "c = \<lparr>rl_config = config, rl_stopped = False, rl_conn = None, rl_socket = [], rl_connected = False,
      rl_subscribed = False, rl_connecting = False, rl_generation = 0, rl_timer = None, rl_delay = minimumReconnectDelay,
      rl_read_timeout = 0, rl_ping = None, rl_handlers = []\<rparr>" "config \<noteq> None"
    using assms by (auto simp: new_client_def split: if_splits)
  then have "stopped_ok c" "delay_ok c" by (simp_all add: stopped_ok_def delay_ok_def minimumReconnectDelay_def maximumReconnectDelay_def in_seconds_def)
  with c show ?thesis
    by (simp add: realtime_ok_def started_def retry_ok_def retrying_def dialing_ok_def reader_ok_def closing_ok_def subscription_ok_def)
qed

lemma reachable_ok: "new_client config credential = Some c \<Longrightarrow> realtime_step\<^sup>*\<^sup>* (started c) w \<Longrightarrow> realtime_ok w"
  by (rule realtime.reachable [OF _ started_ok])

section \<open>What follows\<close>

text \<open>C32: Liveness. Whatever the order of the goroutines, failures and configurations, a client that has a
  configuration and no connection is about to try: a timer runs, of one second to five minutes, or a goroutine is
  left that dials or schedules the next attempt; when no goroutine is left, the timer
  runs. (A panic of the ticker ends the process as it is.)\<close>
theorem realtime_never_stranded:
  assumes "new_client config credential = Some c" "realtime_step\<^sup>*\<^sup>* (started c) w" "live (wd_client w)" "rl_conn (wd_client w) = None"
  shows "retrying w \<and> (case rl_timer (wd_client w) of None \<Rightarrow> wd_tasks w \<noteq> []
      | Some (g, d) \<Rightarrow> g = rl_generation (wd_client w) \<and> in_seconds 1 \<le> d \<and> d \<le> maximumReconnectDelay)"
proof -
  have ok: "retry_ok w" "delay_ok (wd_client w)" using reachable_ok [OF assms(1,2)] by (simp_all add: realtime_ok_def)
  then have r: "retrying w" using assms(3,4) by (simp add: retry_ok_def)
  then have "wd_tasks w \<noteq> []" if "rl_timer (wd_client w) = None" using that by (auto simp: retrying_def Let_def)
  with r ok(2) show ?thesis by (auto simp: delay_ok_def split: option.split)
qed

text \<open>Invariant. At most one connection is open: every connection that was opened is the current one, is closed,
  or is being closed. The current one is read, is only taken for subscribed if the server confirmed the configured
  channel on it, and is replaced unless it is confirmed in time.\<close>
theorem realtime_connection_watched:
  assumes "new_client config credential = Some c" "realtime_step\<^sup>*\<^sup>* (started c) w"
  shows "closing_ok w \<and> reader_ok w \<and> subscription_ok w \<and> (rl_subscribed (wd_client w) \<longrightarrow> rl_conn (wd_client w) \<noteq> None)"
  using reachable_ok [OF assms] by (auto simp: realtime_ok_def stopped_ok_def)

lemma stopped_forever: "realtime_step w w' \<Longrightarrow> rl_stopped (wd_client w) \<Longrightarrow> rl_stopped (wd_client w')"
  by (induction rule: realtime_step.induct) (auto simp: realtime_cases split: option.splits if_splits prod.splits)

text \<open>Safety. A client that was disconnected stays disconnected: whatever is still under way, it has no
  configuration, no connection and no timer, and it sends nothing.\<close>
theorem realtime_stays_stopped:
  assumes "new_client config credential = Some c" "realtime_step\<^sup>*\<^sup>* (started c) w" "rl_stopped (wd_client w)" "realtime_step\<^sup>*\<^sup>* w w'"
  shows "rl_stopped (wd_client w') \<and> rl_config (wd_client w') = None \<and> rl_conn (wd_client w') = None
    \<and> rl_timer (wd_client w') = None \<and> \<not> sendMessageOnConn k written (wd_client w')"
proof -
  have "rl_stopped (wd_client w')" using assms(4,3) by (induction rule: rtranclp_induct) (auto intro: stopped_forever)
  moreover have "stopped_ok (wd_client w')"
    using reachable_ok [OF assms(1) rtranclp_trans [OF assms(2,4)]] by (simp add: realtime_ok_def)
  ultimately show ?thesis by (simp add: stopped_ok_def sendMessageOnConn_def isConnectionActive_def)
qed

section \<open>Examples\<close>

definition sample_realtime :: realtime_config where
  "sample_realtime =
     \<lparr>rm_key = ''k'', rm_host = ''h'', rm_port = 443, rm_channel = ''private-c'', rm_auth_url = ''https://h/auth'', rm_encrypted = True\<rparr>"

definition sample_client :: realtime_client where
  "sample_client = the (new_client (Some sample_realtime) ''secret'')"

lemma sample_client_made: "new_client (Some sample_realtime) ''secret'' = Some sample_client"
  by (simp add: sample_client_def new_client_def)

text \<open>The first dial fails, and the timer runs.\<close>

definition sample_waiting :: realtime_world where
  "sample_waiting =
     \<lparr>wd_client = sample_client\<lparr>rl_timer := Some (0, in_seconds 2), rl_delay := in_seconds 4\<rparr>, wd_tasks = [], wd_opened = 0,
      wd_closed = [], wd_confirmed = [], wd_panicked = False\<rparr>"

lemma sample_client_fields: "sample_client = \<lparr>rl_config = Some sample_realtime, rl_stopped = False, rl_conn = None, rl_socket = [],
    rl_connected = False, rl_subscribed = False, rl_connecting = False, rl_generation = 0, rl_timer = None,
    rl_delay = in_seconds 2, rl_read_timeout = 0, rl_ping = None, rl_handlers = []\<rparr>"
  by (simp add: sample_client_def new_client_def minimumReconnectDelay_def)

lemma sample_run: "realtime_step\<^sup>*\<^sup>* (started sample_client) sample_waiting"
proof -
  let ?dialing = "\<lparr>wd_client = sample_client\<lparr>rl_connecting := True\<rparr>, wd_tasks = [Dialing 0 sample_realtime], wd_opened = 0,
      wd_closed = [], wd_confirmed = [], wd_panicked = False\<rparr>"
  let ?failed = "\<lparr>wd_client = sample_client, wd_tasks = [Rescheduling], wd_opened = 0, wd_closed = [], wd_confirmed = [],
      wd_panicked = False\<rparr>"
  have "realtime_step (started sample_client) ?dialing"
    using connects [of "started sample_client"] by (simp add: started_def run_task_def connect_begin_def sample_client_fields)
  moreover have "realtime_step ?dialing ?failed"
    using dial_fails [of 0 sample_realtime ?dialing] by (simp add: run_task_def dial_ended_def Let_def sample_client_fields)
  moreover have "realtime_step ?failed sample_waiting"
    using reschedules [of ?failed None]
    by (simp add: run_task_def scheduleReconnect_def sample_client_fields sample_waiting_def upperHalfJitter_def maximumReconnectDelay_def
        in_seconds_def Let_def)
  ultimately show ?thesis by (meson converse_rtranclp_into_rtranclp rtranclp.rtrancl_refl)
qed

lemma realtime_never_stranded_witness: "retrying sample_waiting"
proof -
  have "live (wd_client sample_waiting)" "rl_conn (wd_client sample_waiting) = None"
    by (simp_all add: live_def sample_waiting_def sample_client_fields)
  from realtime_never_stranded [OF sample_client_made sample_run this] show ?thesis by blast
qed

lemma realtime_connection_watched_witness: "closing_ok sample_waiting \<and> reader_ok sample_waiting"
  using realtime_connection_watched [OF sample_client_made sample_run] by blast

definition sample_stopped :: realtime_world where
  "sample_stopped = (started sample_client)\<lparr>wd_client := fst (disconnect sample_client)\<rparr>"

lemma realtime_stays_stopped_witness: "rl_conn (wd_client sample_stopped) = None \<and> rl_config (wd_client sample_stopped) = None"
proof -
  have "realtime_step (started sample_client) sample_stopped"
    using disconnected [of "started sample_client"]
    by (simp add: sample_stopped_def started_def disconnect_def drop_connection_def close_task_def sample_client_fields)
  then have "realtime_step\<^sup>*\<^sup>* (started sample_client) sample_stopped" by blast
  moreover have "rl_stopped (wd_client sample_stopped)"
    by (simp add: sample_stopped_def disconnect_def drop_connection_def)
  ultimately show ?thesis using realtime_stays_stopped [OF sample_client_made _ _ rtranclp.rtrancl_refl] by blast
qed

text \<open>A timeout of the server that does not fit a duration makes the period of the ticker negative, and the ticker
  panics.\<close>

lemma timeout_panics:
  "activity_timeout \<lparr>es_socket_id = ''s'', es_activity_timeout = 9223372037, es_colo = []\<rparr> < 0"
  "after_established k ''s'' (activity_timeout \<lparr>es_socket_id = ''s'', es_activity_timeout = 9223372037, es_colo = []\<rparr>) channel c = None"
  by (simp_all add: activity_timeout_def in_seconds_def wrap_int64_def after_established_def)

end
