(* ===== verification/Databases.thy ===== *)
theory Databases
  imports Backup JobRules
begin

text \<open>
  Backups of databases (agent/mysql.go, agent/postgresql.go): the selection of the databases, the credentials and
  the arguments of the dump tools, the dump of one database after the other into the repository, and the result.
  The tools, the files with passwords and restic answer from outside.
\<close>

section \<open>Escaping\<close>

text \<open>A \<open>strings.Replacer\<close> whose patterns are single bytes replaces byte by byte. \<open>marks\<close> are the bytes behind a
  backslash, with what stands for them.\<close>

definition escape_with :: "(char \<times> char) list \<Rightarrow> string \<Rightarrow> string" where
  "escape_with marks s = concat (map (\<lambda>c. case map_of marks c of None \<Rightarrow> [c] | Some m \<Rightarrow> [CHR 0x5C, m]) s)"

definition option_marks :: "(char \<times> char) list" where
  "option_marks = [(CHR 0x5C, CHR 0x5C), (CHR 0x0A, CHR ''n''), (CHR 0x0D, CHR ''r''), (CHR 0x22, CHR 0x22)]"

definition connection_marks :: "(char \<times> char) list" where
  "connection_marks = [(CHR 0x5C, CHR 0x5C), (CHR 0x27, CHR 0x27)]"

definition passfile_marks :: "(char \<times> char) list" where
  "passfile_marks = [(CHR 0x5C, CHR 0x5C), (CHR '':'', CHR '':'')]"

definition mysqlOptionContents :: "mysql_source \<Rightarrow> string" where
  "mysqlOptionContents s =
     ''[client]'' @ [newline] @ ''host='' @ [CHR 0x22] @ escape_with option_marks (my_host s) @ [CHR 0x22, newline]
     @ ''port='' @ show_nat (my_port s) @ [newline]
     @ ''user='' @ [CHR 0x22] @ escape_with option_marks (my_username s) @ [CHR 0x22, newline]
     @ ''password='' @ [CHR 0x22] @ escape_with option_marks (my_password s) @ [CHR 0x22, newline]
     @ ''protocol=tcp'' @ [newline]"

definition postgresqlConnectionValue :: "string \<Rightarrow> string" where
  "postgresqlConnectionValue v = [CHR 0x27] @ escape_with connection_marks v @ [CHR 0x27]"

definition postgresqlConnectionString :: "postgresql_source \<Rightarrow> string \<Rightarrow> string \<Rightarrow> string" where
  "postgresqlConnectionString s database passfile =
     join_with '' ''
       [''host='' @ postgresqlConnectionValue (pg_host s), ''port='' @ postgresqlConnectionValue (show_nat (pg_port s)),
        ''user='' @ postgresqlConnectionValue (pg_username s), ''dbname='' @ postgresqlConnectionValue database,
        ''passfile='' @ postgresqlConnectionValue passfile, ''connect_timeout=15'', ''application_name=backupchief-agent'']"

definition postgresqlPassfileContents :: "postgresql_source \<Rightarrow> string \<Rightarrow> string" where
  "postgresqlPassfileContents s database =
     escape_with passfile_marks (pg_host s) @ '':'' @ show_nat (pg_port s) @ '':'' @ escape_with passfile_marks database @ '':''
     @ escape_with passfile_marks (pg_username s) @ '':'' @ escape_with passfile_marks (pg_password s) @ [newline]"

section \<open>Passwords in files\<close>

text \<open>\<open>contents\<close> are the first 4097 bytes of the file, nothing if it cannot be read or is not a regular file.\<close>

definition trim_line_end :: "string \<Rightarrow> string" where
  "trim_line_end s = rev (dropWhile (\<lambda>c. c = CHR 0x0D \<or> c = CHR 0x0A) (rev s))"

definition readDatabasePasswordFile :: "string option \<Rightarrow> string option" where
  "readDatabasePasswordFile contents =
     (case contents of
        None \<Rightarrow> None
      | Some text \<Rightarrow>
          if 4096 < length text then None
          else (let p = trim_line_end text in if p = [] \<or> 4096 < rune_length p \<or> nul \<in> set p then None else Some p))"

definition resolveMySQLPassword :: "(string \<Rightarrow> string option) \<Rightarrow> mysql_source \<Rightarrow> mysql_source option" where
  "resolveMySQLPassword file s =
     (if my_password_file s = [] then Some s
      else map_option (\<lambda>p. s\<lparr>my_password := p, my_password_file := []\<rparr>) (readDatabasePasswordFile (file (my_password_file s))))"

definition resolvePostgreSQLPassword :: "(string \<Rightarrow> string option) \<Rightarrow> postgresql_source \<Rightarrow> postgresql_source option" where
  "resolvePostgreSQLPassword file s =
     (if pg_password_file s = [] then Some s
      else map_option (\<lambda>p. s\<lparr>pg_password := p, pg_password_file := []\<rparr>) (readDatabasePasswordFile (file (pg_password_file s))))"

section \<open>Catalogs\<close>

definition hex_encode :: "string \<Rightarrow> string" where
  "hex_encode s = concat (map (\<lambda>c. [hex_digit (byte c div 16), hex_digit (byte c)]) s)"

fun hex_decode :: "string \<Rightarrow> string option" where
  "hex_decode [] = Some []"
| "hex_decode [c] = None"
| "hex_decode (c # d # s) =
     (case (hex_val c, hex_val d, hex_decode s) of
        (Some a, Some b, Some r) \<Rightarrow> Some (char_of (16 * a + b) # r)
      | _ \<Rightarrow> None)"

text \<open>The lines of a scanner with its default buffer; a line that does not fit is an error.\<close>

definition scanned_lines :: "string \<Rightarrow> string list option" where
  "scanned_lines text =
     (let parts = split_on newline text;
          parts = (if last parts = [] then butlast parts else parts)
      in if list_all (\<lambda>l. length l < 65536) parts then Some (map (\<lambda>l. trim_suffix l [CHR 0x0D]) parts) else None)"

definition catalog_names :: "string option \<Rightarrow> string list option" where
  "catalog_names output =
     (case output of
        None \<Rightarrow> None
      | Some text \<Rightarrow>
          (case scanned_lines text of
             None \<Rightarrow> None
           | Some ls \<Rightarrow> those (map (\<lambda>l. hex_decode (trim_space l)) ls)))"

definition discoverMySQLDatabases :: "string option \<Rightarrow> bool \<Rightarrow> string list option" where
  "discoverMySQLDatabases output includeMySQL =
     map_option (\<lambda>names. sort (filter (\<lambda>n. to_lower n \<notin> set mysqlVirtualDatabases \<and> (includeMySQL \<or> to_lower n \<noteq> ''mysql'')) names))
       (catalog_names output)"

definition discoverPostgreSQLDatabases :: "string option \<Rightarrow> string list option" where
  "discoverPostgreSQLDatabases output = map_option (\<lambda>names. sort (filter (\<lambda>n. n \<noteq> []) names)) (catalog_names output)"

text \<open>A row of a catalog of tables, as the pair of its names.\<close>

definition catalog_row :: "string \<Rightarrow> (string \<times> string) option" where
  "catalog_row line =
     (case split_on (CHR 0x09) line of
        [a, b] \<Rightarrow>
          (case (hex_decode (trim_space a), hex_decode (trim_space b)) of
             (Some x, Some y) \<Rightarrow> Some (x, y)
           | _ \<Rightarrow> None)
      | _ \<Rightarrow> None)"

definition catalog_tables :: "string option \<Rightarrow> string list option" where
  "catalog_tables output =
     (case output of
        None \<Rightarrow> None
      | Some text \<Rightarrow>
          (case scanned_lines text of
             None \<Rightarrow> None
           | Some ls \<Rightarrow> map_option (map (\<lambda>(a, b). a @ [nul] @ b)) (those (map catalog_row ls))))"

section \<open>Selections\<close>

definition maximumDatabases :: nat where
  "maximumDatabases = 1000"

definition count_ok :: "string list \<Rightarrow> bool" where
  "count_ok ds = (ds \<noteq> [] \<and> length ds \<le> maximumDatabases)"

definition selectedMySQLDatabases :: "mysql_source \<Rightarrow> string list \<Rightarrow> string list \<times> bool" where
  "selectedMySQLDatabases s discovered =
     (if my_selection_mode s = ''all_accessible'' \<or> my_selection_mode s = ''all_persistent'' then (discovered, count_ok discovered)
      else if my_selection_mode s = ''selected'' then
        (let ds = sort (my_databases s)
         in if list_all (\<lambda>d. d \<in> set discovered) ds then (ds, count_ok ds) else ([], False))
      else
        (let ds = filter (\<lambda>d. d \<notin> set (my_databases s)) discovered in (ds, count_ok ds)))"

definition selectedPostgreSQLDatabases :: "postgresql_source \<Rightarrow> string list \<Rightarrow> string list \<times> bool" where
  "selectedPostgreSQLDatabases s discovered =
     (if pg_selection_mode s = ''all_accessible'' then (discovered, count_ok discovered)
      else if pg_selection_mode s = ''exclude'' then
        (let ds = filter (\<lambda>d. d \<notin> set (pg_databases s)) discovered in (ds, count_ok ds))
      else
        (let ds = sort (pg_databases s)
         in if count_ok ds \<and> list_all (\<lambda>d. d \<in> set discovered) ds then (ds, True) else ([], False)))"

section \<open>Arguments of the dumps\<close>

definition selected_tables :: "table_selection \<Rightarrow> string \<Rightarrow> table_selection_entry list" where
  "selected_tables s database = filter (\<lambda>t. te_database t = database) (ts_tables s)"

definition mysqlTableArguments :: "mysql_source \<Rightarrow> string \<Rightarrow> string list" where
  "mysqlTableArguments s database =
     (case my_table_selection s of
        None \<Rightarrow> [''--databases'', database]
      | Some selection \<Rightarrow>
          (let tables = sort (map te_table (selected_tables selection database))
           in if ts_mode selection = ''include'' then database # tables
              else map (\<lambda>t. ''--ignore-table='' @ database @ ''.'' @ t) tables @ [''--databases'', database]))"

definition hasMySQLDumpFlag :: "string list \<Rightarrow> string \<Rightarrow> bool" where
  "hasMySQLDumpFlag flags name = list_ex (\<lambda>f. trim_prefix (hd (split_on (CHR ''='') f)) ''--'' = name) flags"

definition mysqlDumpSupportsOption :: "string option \<Rightarrow> string \<Rightarrow> bool" where
  "mysqlDumpSupportsOption help option = contains_sub (case help of None \<Rightarrow> [] | Some h \<Rightarrow> h) (''--'' @ option)"

text \<open>The flags a dump of a database begins with.\<close>

definition mysql_flags :: "mysql_source \<Rightarrow> string option \<Rightarrow> string list" where
  "mysql_flags s help =
     [''--defaults-extra-file={backupchief-command-config}'', ''--single-transaction'', ''--quick'', ''--skip-lock-tables'',
      ''--no-tablespaces'']
     @ (if mysqlDumpSupportsOption help ''column-statistics'' then [''--column-statistics=0''] else [])
     @ (if mysqlDumpSupportsOption help ''set-gtid-purged'' \<and> \<not> hasMySQLDumpFlag (my_custom_flags s) ''set-gtid-purged''
        then [''--set-gtid-purged=OFF''] else [])
     @ (if my_include_routines s then [''--routines''] else []) @ (if my_include_events s then [''--events''] else [])
     @ my_custom_flags s"

definition double_quotes :: "string \<Rightarrow> string" where
  "double_quotes s = concat (map (\<lambda>c. if c = CHR 0x22 then [CHR 0x22, CHR 0x22] else [c]) s)"

definition postgresqlTablePattern :: "string \<Rightarrow> string \<Rightarrow> string" where
  "postgresqlTablePattern schema table =
     [CHR 0x22] @ double_quotes schema @ [CHR 0x22] @ ''.'' @ [CHR 0x22] @ double_quotes table @ [CHR 0x22]"

definition postgresqlDumpArguments :: "postgresql_source \<Rightarrow> string \<Rightarrow> string \<Rightarrow> bool \<Rightarrow> string list" where
  "postgresqlDumpArguments s database passfile schema_only =
     [''--format=plain'', ''--no-owner'', ''--no-privileges'', ''--no-tablespaces'', ''--quote-all-identifiers'', ''--no-password'',
      ''--lock-wait-timeout=300000'']
     @ (if schema_only then [''--schema-only''] else [])
     @ (case pg_table_selection s of
          None \<Rightarrow> []
        | Some selection \<Rightarrow>
            (let patterns = sort (map (\<lambda>t. postgresqlTablePattern (te_schema t) (te_table t)) (selected_tables selection database));
                 only = (ts_mode selection = ''include'')
             in (if only then [''--strict-names''] else [])
                @ map (\<lambda>p. (if only then ''--table='' else ''--exclude-table='') @ p) patterns))
     @ [''--dbname='' @ postgresqlConnectionString s database passfile]"

definition portable_char :: "char \<Rightarrow> bool" where
  "portable_char c = (is_digit c \<or> (CHR ''a'' \<le> c \<and> c \<le> CHR ''z'') \<or> (CHR ''A'' \<le> c \<and> c \<le> CHR ''Z''))"

definition portable_name :: "string \<Rightarrow> bool" where
  "portable_name s = (s \<noteq> [] \<and> portable_char (hd s) \<and> list_all (\<lambda>c. portable_char c \<or> c \<in> set ''._-'') s)"

definition mysqlDumpFilename :: "string \<Rightarrow> string" where
  "mysqlDumpFilename database = (if portable_name database then database else ''~'' @ sha256_hex database) @ ''.sql''"

definition postgresqlDumpFilename :: "string \<Rightarrow> string" where
  "postgresqlDumpFilename database = (if portable_name database then database else ''~'' @ sha256_hex database) @ ''.sql''"

section \<open>The loop over the databases\<close>

text \<open>The answers from outside: restic and the context by the number of the database, the clock by the number of the
  question. \<open>dx_private\<close> is the path of the file with the credentials, \<open>dx_catalog\<close> what the discovery printed.\<close>

record database_env =
  dx_run :: "nat \<Rightarrow> restic_request \<Rightarrow> restic_result"
  dx_ended :: "nat \<Rightarrow> bool"
  dx_now :: "nat \<Rightarrow> time"
  dx_password_file :: "string \<Rightarrow> string option"
  dx_tool :: "string \<Rightarrow> string option"
  dx_private :: "string option"
  dx_catalog :: "string option"
  dx_help :: "string option"

text \<open>\<open>dl_requests\<close> are the requests made, and whether each gave a snapshot.\<close>

record database_loop =
  dl_result :: command_result
  dl_retained :: string
  dl_total :: restic_summary
  dl_failed :: nat
  dl_anchor :: bool
  dl_requests :: "(restic_request \<times> bool) list"

definition isRepositoryFailure :: "int \<Rightarrow> bool" where
  "isRepositoryFailure code = (code = 10 \<or> code = 11 \<or> code = 12)"

definition addDatabaseStatistics :: "restic_summary \<Rightarrow> restic_summary \<Rightarrow> restic_summary" where
  "addDatabaseStatistics t s =
     t\<lparr>sm_files_new := (sm_files_new t + sm_files_new s) mod 2 ^ 64,
       sm_files_changed := (sm_files_changed t + sm_files_changed s) mod 2 ^ 64,
       sm_files_unmodified := (sm_files_unmodified t + sm_files_unmodified s) mod 2 ^ 64,
       sm_directories_new := (sm_directories_new t + sm_directories_new s) mod 2 ^ 64,
       sm_directories_changed := (sm_directories_changed t + sm_directories_changed s) mod 2 ^ 64,
       sm_directories_unmodified := (sm_directories_unmodified t + sm_directories_unmodified s) mod 2 ^ 64,
       sm_source_files := (sm_source_files t + sm_source_files s) mod 2 ^ 64,
       sm_source_bytes := (sm_source_bytes t + sm_source_bytes s) mod 2 ^ 64,
       sm_stored_bytes := (sm_stored_bytes t + sm_stored_bytes s) mod 2 ^ 64\<rparr>"

definition database_snapshot :: "restic_result \<Rightarrow> restic_summary option" where
  "database_snapshot r =
     (let ss = parseResticSummaries (rs_output r)
      in if rs_exit_code r \<noteq> 0 \<or> ss = [] \<or> \<not> is_digest (sm_snapshot_id (last ss)) then None else Some (last ss))"

definition database_artifact :: "string \<Rightarrow> string \<Rightarrow> restic_summary \<Rightarrow> backup_artifact" where
  "database_artifact database filename s =
     \<lparr>ba_database = database, ba_filename = filename, ba_snapshot_id = sm_snapshot_id s,
      ba_source_bytes = Some (sm_source_bytes s), ba_stored_bytes = Some (sm_stored_bytes s)\<rparr>"

definition database_tags :: "job \<Rightarrow> string \<Rightarrow> string \<Rightarrow> string \<Rightarrow> bool \<Rightarrow> string list" where
  "database_tags j run_id kind database anchored =
     [''backupchief-job:'' @ jb_id j, ''backupchief-run:'' @ run_id, ''backupchief-type:'' @ kind,
      ''backupchief-database:'' @ hex_encode database]
     @ (if anchored then [] else [''backupchief-run-anchor''])"

definition dump_request :: "job \<Rightarrow> string \<Rightarrow> string list \<Rightarrow> string \<Rightarrow> string list \<Rightarrow> string \<Rightarrow> restic_request" where
  "dump_request j server_id tags filename command config =
     zero_request\<lparr>rq_version := 1, rq_operation := ''backup_stdin'', rq_connection := rp_connection (jb_repository j),
       rq_password := rp_service_password (jb_repository j), rq_host := server_id, rq_tags := tags,
       rq_stdin_filename := filename, rq_stdin_command := command, rq_command_config := config,
       rq_timeout_seconds := 12 * 60 * 60, rq_lock_wait_seconds := 5 * 60\<rparr>"

text \<open>What one database leaves: the next state, and whether the loop ends.\<close>

definition dump_ended :: "string \<Rightarrow> string \<Rightarrow> string \<Rightarrow> restic_request \<Rightarrow> restic_result \<Rightarrow> database_loop \<Rightarrow> database_loop \<times> bool" where
  "dump_ended product database filename request r l =
     (let l = l\<lparr>dl_retained := dl_retained l @ ''database '' @ database @ '':'' @ [newline] @ fst (retainedLog r)\<rparr>
      in case database_snapshot r of
           None \<Rightarrow>
             (let l = l\<lparr>dl_failed := dl_failed l + 1, dl_requests := dl_requests l @ [(request, False)]\<rparr>
              in if isRepositoryFailure (rs_exit_code r)
                 then (l\<lparr>dl_result := set_status ''failed'' (resultCodeForExit (rs_exit_code r))
                        (''The repository stopped the '' @ product @ '' backup.'') (dl_result l)\<rparr>, True)
                 else (l, False))
         | Some s \<Rightarrow>
             (l\<lparr>dl_result := (dl_result l)\<lparr>cr_snapshot_ids := cr_snapshot_ids (dl_result l) @ [sm_snapshot_id s],
                   cr_artifacts := cr_artifacts (dl_result l) @ [database_artifact database filename s]\<rparr>,
                dl_total := addDatabaseStatistics (dl_total l) s, dl_anchor := True,
                dl_requests := dl_requests l @ [(request, True)]\<rparr>, False))"

fun dump_databases ::
  "database_env \<Rightarrow> string \<Rightarrow> (string \<Rightarrow> string) \<Rightarrow> (string \<Rightarrow> bool \<Rightarrow> restic_request) \<Rightarrow> nat \<Rightarrow> string list \<Rightarrow> database_loop \<Rightarrow>
   database_loop" where
  "dump_databases env product filename request i [] l = l"
| "dump_databases env product filename request i (database # rest) l =
     (if dx_ended env i then
        l\<lparr>dl_result := set_status ''cancelled'' ''cancelled'' (''The '' @ product @ '' backup was cancelled.'') (dl_result l)\<rparr>
      else
        (let q = request database (dl_anchor l);
             (l, over) = dump_ended product database (filename database) q (dx_run env i q) l
         in if over then l else dump_databases env product filename request (Suc i) rest l))"

definition loop_begins :: "command_result \<Rightarrow> database_loop" where
  "loop_begins r =
     \<lparr>dl_result = r, dl_retained = [], dl_total = zero_summary, dl_failed = 0, dl_anchor = False, dl_requests = []\<rparr>"

definition dump_status :: "string \<Rightarrow> nat \<Rightarrow> command_result \<Rightarrow> command_result" where
  "dump_status product bad r =
     (let n = length (cr_snapshot_ids r)
      in if cr_status r \<noteq> [] then r
         else if n = 0 then set_status ''failed'' ''execution_failed'' (''No '' @ product @ '' database snapshot completed.'') r
         else if 0 < bad then
           set_status ''partial'' ''databases_failed''
             (''Backed up '' @ show_nat n @ '' database(s); '' @ show_nat bad @ '' failed.'') r
         else set_status ''complete'' ''success'' (''Backed up '' @ show_nat n @ '' '' @ product @ '' database(s).'') r)"

definition dumps_ended :: "string \<Rightarrow> time \<Rightarrow> database_loop \<Rightarrow> backup_outcome" where
  "dumps_ended product now l =
     (let r = dump_status product (dl_failed l)
                ((dl_result l)\<lparr>cr_finished_at := protocolTimestamp now, cr_statistics := Some (summary_statistics (dl_total l))\<rparr>);
          log = dl_retained l
      in \<lparr>bo_result = r, bo_log = take maximumRunLog log, bo_truncated = maximumRunLog < length log,
          bo_dropped = length log - maximumRunLog\<rparr>)"

section \<open>Backups\<close>

definition database_failed :: "string \<Rightarrow> string \<Rightarrow> time \<Rightarrow> command_result \<Rightarrow> backup_outcome" where
  "database_failed code summary now r =
     \<lparr>bo_result = (set_status ''failed'' code summary r)\<lparr>cr_finished_at := protocolTimestamp now\<rparr>,
      bo_log = summary @ [newline], bo_truncated = False, bo_dropped = 0\<rparr>"

definition mysql_targets :: "database_env \<Rightarrow> mysql_source \<Rightarrow> (string \<times> string) + string list" where
  "mysql_targets env s =
     (if my_selection_mode s = ''selected'' then Inr (my_databases s)
      else if dx_private env = None then Inl (''execution_failed'', ''Could not prepare private MySQL credentials.'')
      else (case discoverMySQLDatabases (dx_catalog env) (my_selection_mode s = ''all_persistent'') of
              None \<Rightarrow> Inl (''source_authentication_failed'', ''Could not discover accessible MySQL databases.'')
            | Some discovered \<Rightarrow> Inr (fst (selectedMySQLDatabases s discovered))))"

definition mysql_request :: "database_env \<Rightarrow> string \<Rightarrow> string \<Rightarrow> job \<Rightarrow> string \<Rightarrow> mysql_source \<Rightarrow> string \<Rightarrow> bool \<Rightarrow> restic_request" where
  "mysql_request env server_id run_id j binary s database anchored =
     dump_request j server_id (database_tags j run_id ''mysql'' database anchored) (mysqlDumpFilename database)
       (binary # mysql_flags s (dx_help env) @ mysqlTableArguments s database) (mysqlOptionContents s)"

definition executeMySQLBackup :: "database_env \<Rightarrow> string \<Rightarrow> nat \<Rightarrow> journal_command \<Rightarrow> job \<Rightarrow> backup_outcome" where
  "executeMySQLBackup env server_id generation c j =
     (let base = backup_base generation c j (dx_now env 0);
          fail = (\<lambda>code summary. database_failed code summary (dx_now env 1) base)
      in case js_mysql (jb_source j) of
           None \<Rightarrow> fail ''execution_failed'' ''The MySQL source configuration is unavailable.''
         | Some s \<Rightarrow>
             (case resolveMySQLPassword (dx_password_file env) s of
                None \<Rightarrow> fail ''execution_failed'' ''Could not read the MySQL password file.''
              | Some s \<Rightarrow>
                  (case (dx_tool env ''mysql'', dx_tool env ''mysqldump'') of
                     (Some _, Some binary) \<Rightarrow>
                       (case mysql_targets env s of
                          Inl (code, summary) \<Rightarrow> fail code summary
                        | Inr databases \<Rightarrow>
                            if \<not> count_ok databases
                            then fail ''database_selection_invalid'' ''The MySQL selection must contain between 1 and 1000 databases.''
                            else dumps_ended ''MySQL'' (dx_now env 1)
                                   (dump_databases env ''MySQL'' mysqlDumpFilename (mysql_request env server_id (jc_run_id c) j binary s)
                                      0 databases (loop_begins base)))
                   | _ \<Rightarrow> fail ''tool_unavailable'' ''The mysql and mysqldump tools are required on this server.'')))"

definition postgresql_request :: "string \<Rightarrow> string \<Rightarrow> job \<Rightarrow> string \<Rightarrow> postgresql_source \<Rightarrow> string \<Rightarrow> bool \<Rightarrow> restic_request" where
  "postgresql_request server_id run_id j binary s database anchored =
     dump_request j server_id (database_tags j run_id ''postgresql'' database anchored) (postgresqlDumpFilename database)
       (binary # postgresqlDumpArguments s database ''{backupchief-command-config}'' False) (postgresqlPassfileContents s database)"

definition executePostgreSQLBackup :: "database_env \<Rightarrow> string \<Rightarrow> nat \<Rightarrow> journal_command \<Rightarrow> job \<Rightarrow> backup_outcome" where
  "executePostgreSQLBackup env server_id generation c j =
     (let base = backup_base generation c j (dx_now env 0);
          fail = (\<lambda>code summary. database_failed code summary (dx_now env 1) base)
      in case js_postgresql (jb_source j) of
           None \<Rightarrow> fail ''execution_failed'' ''The PostgreSQL source configuration is unavailable.''
         | Some s \<Rightarrow>
             (case resolvePostgreSQLPassword (dx_password_file env) s of
                None \<Rightarrow> fail ''execution_failed'' ''Could not read the PostgreSQL password file.''
              | Some s \<Rightarrow>
                  (case (dx_tool env ''psql'', dx_tool env ''pg_dump'') of
                     (Some _, Some binary) \<Rightarrow>
                       if dx_private env = None then fail ''execution_failed'' ''Could not prepare private PostgreSQL credentials.''
                       else (case discoverPostgreSQLDatabases (dx_catalog env) of
                               None \<Rightarrow> fail ''source_authentication_failed'' ''Could not discover accessible PostgreSQL databases.''
                             | Some discovered \<Rightarrow>
                                 (let (databases, valid) = selectedPostgreSQLDatabases s discovered
                                  in if \<not> valid
                                     then fail ''database_selection_invalid'' ''The PostgreSQL selection must contain accessible non-template databases.''
                                     else dumps_ended ''PostgreSQL'' (dx_now env 1)
                                            (dump_databases env ''PostgreSQL'' postgresqlDumpFilename
                                               (postgresql_request server_id (jc_run_id c) j binary s) 0 databases (loop_begins base))))
                   | _ \<Rightarrow> fail ''tool_unavailable'' ''The psql and pg_dump tools are required on this server.'')))"

text \<open>\<open>executeBackup\<close> by the type of the job.\<close>

definition executeBackup :: "backup_env \<Rightarrow> database_env \<Rightarrow> string \<Rightarrow> nat \<Rightarrow> journal_command \<Rightarrow> job \<Rightarrow> backup_outcome" where
  "executeBackup env dbs server_id generation c j =
     (if isMySQLJob (jb_type j) then executeMySQLBackup dbs server_id generation c j
      else if isPostgreSQLJob (jb_type j) then executePostgreSQLBackup dbs server_id generation c j
      else executeFileBackup env server_id generation c j)"

end
