(* ===== verification/DatabasesFacts.thy ===== *)
theory DatabasesFacts
  imports Databases JobRulesFacts "HOL-Library.Sublist"
begin

text \<open>
  What the backups of databases guarantee: the credentials say what they were made from, the tag of a snapshot
  names its database, the tables of a selection are no options, and the result accounts for every database.
\<close>

section \<open>Escaped texts\<close>

text \<open>The reading of an escaped text up to the first \<open>stop\<close> that is not escaped: a backslash stands for nothing, and
  the mark behind it for its byte.\<close>

definition marked :: "(char \<times> char) list \<Rightarrow> char \<Rightarrow> char option" where
  "marked marks m = map_of (map (\<lambda>(c, m). (m, c)) marks) m"

fun read_escaped :: "(char \<times> char) list \<Rightarrow> char \<Rightarrow> string \<Rightarrow> (string \<times> string) option" where
  "read_escaped marks stop [] = None"
| "read_escaped marks stop (c # s) =
     (if c = stop then Some ([], s)
      else if c = CHR 0x5C then
        (case s of
           [] \<Rightarrow> None
         | m # t \<Rightarrow>
             (case marked marks m of
                None \<Rightarrow> None
              | Some b \<Rightarrow> map_option (\<lambda>(v, r). (b # v, r)) (read_escaped marks stop t)))
      else map_option (\<lambda>(v, r). (c # v, r)) (read_escaped marks stop s))"

text \<open>The contract of a table of marks.\<close>

locale escaping =
  fixes marks :: "(char \<times> char) list"
  assumes different: "distinct (map snd marks)"
    and backslash_marked: "CHR 0x5C \<in> set (map fst marks)"
begin

lemma mark_read: "map_of marks c = Some m \<Longrightarrow> marked marks m = Some c"
proof -
  assume "map_of marks c = Some m"
  then have "(m, c) \<in> set (map (\<lambda>(c, m). (m, c)) marks)" by (force dest: map_of_SomeD)
  moreover have "distinct (map fst (map (\<lambda>(c, m). (m, c)) marks))" using different by (simp add: comp_def split_def)
  ultimately show ?thesis unfolding marked_def by (simp only: map_of_eq_Some_iff)
qed

text \<open>What was escaped is read back, whatever follows, if \<open>stop\<close> has a mark or is not in the text.\<close>

lemma escaped_read:
  assumes "stop \<in> set (map fst marks) \<or> stop \<notin> set v" "stop \<noteq> CHR 0x5C"
  shows "read_escaped marks stop (escape_with marks v @ stop # rest) = Some (v, rest)"
  using assms(1)
proof (induction v)
  case (Cons c v)
  then have ih: "read_escaped marks stop (escape_with marks v @ stop # rest) = Some (v, rest)" by auto
  show ?case
  proof (cases "map_of marks c")
    case None
    then have "c \<notin> set (map fst marks)" by (simp add: map_of_eq_None_iff)
    then have "c \<noteq> stop" "c \<noteq> CHR 0x5C" using Cons.prems backslash_marked by auto
    with ih None show ?thesis by (simp add: escape_with_def)
  next
    case (Some m)
    with ih mark_read [OF Some] assms(2) show ?thesis by (simp add: escape_with_def)
  qed
qed (simp add: escape_with_def)

end

interpretation option_text: escaping option_marks
  by unfold_locales (simp_all add: option_marks_def)

interpretation connection_text: escaping connection_marks
  by unfold_locales (simp_all add: connection_marks_def)

interpretation passfile_text: escaping passfile_marks
  by unfold_locales (simp_all add: passfile_marks_def)

section \<open>Credentials\<close>

text \<open>No line break is left in a value of the file for MySQL.\<close>

lemma option_one_line: "newline \<notin> set (escape_with option_marks v) \<and> CHR 0x0D \<notin> set (escape_with option_marks v)"
  by (induction v) (auto simp: escape_with_def option_marks_def newline_def)

lemma plain_number: "newline \<notin> set (show_nat n)" "CHR '':'' \<notin> set (show_nat n)"
  using show_nat_digits [of n] by (auto simp: list_all_iff is_digit_def newline_def)

definition quoted_setting :: "string \<Rightarrow> string \<Rightarrow> string" where
  "quoted_setting name v = name @ ''='' @ [CHR 0x22] @ escape_with option_marks v @ [CHR 0x22]"

text \<open>The settings of a connection string, in the order of their names: a quoted value each.\<close>

fun read_settings :: "string list \<Rightarrow> string \<Rightarrow> (string list \<times> string) option" where
  "read_settings [] s = Some ([], s)"
| "read_settings (name # names) s =
     (if \<not> has_prefix s (name @ ''='' @ [CHR 0x27]) then None
      else (case read_escaped connection_marks (CHR 0x27) (trim_prefix s (name @ ''='' @ [CHR 0x27])) of
              None \<Rightarrow> None
            | Some (v, r) \<Rightarrow> map_option (\<lambda>(vs, r). (v # vs, r)) (read_settings names (trim_prefix r '' ''))))"

lemma setting_read:
  assumes "read_settings names rest = Some (vs, r)"
  shows "read_settings (name # names) (name @ ''='' @ postgresqlConnectionValue v @ '' '' @ rest) = Some (v # vs, r)"
proof -
  let ?p = "name @ ''='' @ [CHR 0x27]"
  have s: "name @ ''='' @ postgresqlConnectionValue v @ '' '' @ rest = ?p @ escape_with connection_marks v @ CHR 0x27 # '' '' @ rest"
    by (simp add: postgresqlConnectionValue_def)
  have "read_escaped connection_marks (CHR 0x27) (escape_with connection_marks v @ CHR 0x27 # '' '' @ rest) = Some (v, '' '' @ rest)"
    by (rule connection_text.escaped_read) (simp_all add: connection_marks_def)
  moreover have "trim_prefix (CHR '' '' # rest) '' '' = rest" using trim_prefix_append [of "'' ''" rest] by simp
  ultimately show ?thesis using assms unfolding s read_settings.simps trim_prefix_append by (simp only: has_prefix_append not_True_eq_False if_False) simp
qed

text \<open>C33: The credentials say what they were made from. The option file for MySQL has exactly its six lines, whatever
  bytes the host, the user and the password have, and each value is read back; and the connection string for
  PostgreSQL gives back the host, the port, the user, the database and the path of the password file.\<close>
theorem credentials_exact:
  "split_on newline (mysqlOptionContents s) =
     [''[client]'', quoted_setting ''host'' (my_host s), ''port='' @ show_nat (my_port s), quoted_setting ''user'' (my_username s),
      quoted_setting ''password'' (my_password s), ''protocol=tcp'', []]
   \<and> read_escaped option_marks (CHR 0x22) (escape_with option_marks v @ [CHR 0x22]) = Some (v, [])
   \<and> read_settings [''host'', ''port'', ''user'', ''dbname'', ''passfile''] (postgresqlConnectionString p database passfile)
       = Some ([pg_host p, show_nat (pg_port p), pg_username p, database, passfile],
               ''connect_timeout=15 application_name=backupchief-agent'')"
proof -
  have lines: "split_on newline (a @ newline # b) = a # split_on newline b" if "newline \<notin> set a" for a b
    using that by (simp add: split_on_append_sep split_on_none)
  have q: "newline \<notin> set (quoted_setting n v)" if "newline \<notin> set n" for n v
    using that option_one_line by (auto simp: quoted_setting_def newline_def)
  have e: "mysqlOptionContents s = ''[client]'' @ newline # quoted_setting ''host'' (my_host s) @ newline # (''port='' @ show_nat (my_port s))
      @ newline # quoted_setting ''user'' (my_username s) @ newline # quoted_setting ''password'' (my_password s) @ newline # ''protocol=tcp''
      @ newline # []"
    by (simp add: mysqlOptionContents_def quoted_setting_def)
  have "newline \<notin> set ''[client]''" "newline \<notin> set ''protocol=tcp''" "newline \<notin> set (''port='' @ show_nat (my_port s))"
    "newline \<notin> set ''host''" "newline \<notin> set ''user''" "newline \<notin> set ''password''"
    using plain_number by (auto simp: newline_def)
  then have "split_on newline (mysqlOptionContents s) =
     [''[client]'', quoted_setting ''host'' (my_host s), ''port='' @ show_nat (my_port s), quoted_setting ''user'' (my_username s),
      quoted_setting ''password'' (my_password s), ''protocol=tcp'', []]"
    unfolding e by (simp only: lines q split_on.simps(1) not_False_eq_True)
  moreover have "read_escaped option_marks (CHR 0x22) (escape_with option_marks v @ [CHR 0x22]) = Some (v, [])"
    by (rule option_text.escaped_read) (simp_all add: option_marks_def)
  moreover have "postgresqlConnectionString p database passfile =
      ''host'' @ ''='' @ postgresqlConnectionValue (pg_host p) @ '' '' @ ''port'' @ ''='' @ postgresqlConnectionValue (show_nat (pg_port p)) @ '' ''
      @ ''user'' @ ''='' @ postgresqlConnectionValue (pg_username p) @ '' '' @ ''dbname'' @ ''='' @ postgresqlConnectionValue database @ '' ''
      @ ''passfile'' @ ''='' @ postgresqlConnectionValue passfile @ '' '' @ ''connect_timeout=15 application_name=backupchief-agent''"
    by (simp add: postgresqlConnectionString_def)
  ultimately show ?thesis by (simp only: setting_read read_settings.simps(1))
qed

section \<open>Tags\<close>

lemma hex_roundtrip: "hex_decode (hex_encode s) = Some s"
proof (induction s)
  case (Cons c s)
  have "byte c < 256" by (simp add: byte_def)
  then have b: "byte c div 16 < 16" "byte c mod 16 < 16" by simp_all
  have d: "hex_digit (byte c) = hex_digit (byte c mod 16)" by (simp add: hex_digit_def)
  have "char_of (16 * (byte c div 16) + byte c mod 16) = c" by (simp add: byte_def)
  with Cons b hex_val_hex_digit [OF b(1)] hex_val_hex_digit [OF b(2)] show ?case by (simp add: hex_encode_def d)
qed (simp add: hex_encode_def)

section \<open>Arguments\<close>

lemma entry_no_option: "table_entry_ok False mode sel ds t \<Longrightarrow> \<not> has_prefix (te_database t) ''-'' \<and> \<not> has_prefix (te_table t) ''-''"
  by (auto simp: table_entry_ok_def Let_def split: if_splits)

section \<open>The accounting of the databases\<close>

text \<open>What holds of a loop that has come past the databases \<open>seen\<close>.\<close>

definition accounted :: "string list \<Rightarrow> database_loop \<Rightarrow> bool" where
  "accounted seen l =
     (cr_snapshot_ids (dl_result l) = map ba_snapshot_id (cr_artifacts (dl_result l))
      \<and> (\<forall>a \<in> set (cr_artifacts (dl_result l)). is_digest (ba_snapshot_id a))
      \<and> subseq (map ba_database (cr_artifacts (dl_result l))) seen
      \<and> dl_failed l + length (cr_artifacts (dl_result l)) = length seen)"

lemma subseq_snoc: "subseq xs ys \<Longrightarrow> subseq xs (ys @ [y])" "subseq xs ys \<Longrightarrow> subseq (xs @ [y]) (ys @ [y])"
  by (rule list_emb_append_mono [of _ xs ys "[]", simplified], simp_all add: list_emb_append_mono)

lemma snapshot_digest: "database_snapshot r = Some s \<Longrightarrow> is_digest (sm_snapshot_id s)"
  by (auto simp: database_snapshot_def Let_def split: if_splits)

lemma dump_ended_accounted:
  assumes "accounted seen l" "cr_status (dl_result l) = []" "dump_ended product d f q r l = (l', over)"
  shows "accounted (seen @ [d]) l' \<and> (if over then cr_status (dl_result l') = ''failed'' else cr_status (dl_result l') = [])"
  using assms
  by (auto simp: accounted_def dump_ended_def Let_def subseq_snoc database_artifact_def set_status_def snapshot_digest
      split: option.splits if_splits)

lemma dump_databases_accounted:
  assumes "accounted seen l" "cr_status (dl_result l) = []" "l' = dump_databases env product f request i ds l"
  obtains past rest where "ds = past @ rest" "accounted (seen @ past) l'" "cr_status (dl_result l') \<in> {[], ''failed'', ''cancelled''}"
    "cr_status (dl_result l') = [] \<Longrightarrow> rest = []"
proof -
  have "\<exists>past rest. ds = past @ rest \<and> accounted (seen @ past) l' \<and> cr_status (dl_result l') \<in> {[], ''failed'', ''cancelled''}
      \<and> (cr_status (dl_result l') = [] \<longrightarrow> rest = [])"
    using assms
  proof (induction ds arbitrary: seen l i)
    case Nil
    then show ?case by (intro exI [of _ "[]"]) simp
  next
    case (Cons d ds)
    show ?case
    proof (cases "dx_ended env i")
      case True
      with Cons.prems have "accounted (seen @ []) l'" "cr_status (dl_result l') = ''cancelled''"
        by (simp_all add: accounted_def set_status_def)
      then show ?thesis by (intro exI [of _ "[]"] exI [of _ "d # ds"]) simp
    next
      case False
      obtain m over where m: "dump_ended product d (f d) (request d (dl_anchor l)) (dx_run env i (request d (dl_anchor l))) l = (m, over)"
        by fastforce
      note past = dump_ended_accounted [OF Cons.prems(1,2) m]
      show ?thesis
      proof (cases over)
        case True
        with False m Cons.prems(3) have "l' = m" by simp
        with True past show ?thesis by (intro exI [of _ "[d]"] exI [of _ ds]) simp
      next
        case over: False
        with False m Cons.prems(3) have l: "l' = dump_databases env product f request (Suc i) ds m" by simp
        have "accounted (seen @ [d]) m" "cr_status (dl_result m) = []" using past over by simp_all
        from Cons.IH [OF this l]
        obtain p rest where "ds = p @ rest" "accounted ((seen @ [d]) @ p) l'" "cr_status (dl_result l') \<in> {[], ''failed'', ''cancelled''}"
          "cr_status (dl_result l') = [] \<longrightarrow> rest = []" by blast
        then show ?thesis by (intro exI [of _ "d # p"] exI [of _ rest]) simp
      qed
    qed
  qed
  with that show ?thesis by blast
qed

lemma loop_begins_accounted: "cr_snapshot_ids r = [] \<Longrightarrow> cr_artifacts r = [] \<Longrightarrow> accounted [] (loop_begins r)"
  by (simp add: accounted_def loop_begins_def)

text \<open>What a result says about the databases \<open>ds\<close>.\<close>

definition accounts_for :: "string list \<Rightarrow> command_result \<Rightarrow> bool" where
  "accounts_for ds r =
     (let names = map ba_database (cr_artifacts r)
      in cr_snapshot_ids r = map ba_snapshot_id (cr_artifacts r) \<and> (\<forall>a \<in> set (cr_artifacts r). is_digest (ba_snapshot_id a))
         \<and> subseq names ds \<and> cr_status r \<in> {''complete'', ''partial'', ''failed'', ''cancelled''}
         \<and> (cr_status r = ''complete'' \<longrightarrow> names = ds)
         \<and> (cr_status r = ''partial'' \<longrightarrow> names \<noteq> [] \<and> length names < length ds))"

lemma full_subseq: "subseq xs ys \<Longrightarrow> length xs = length ys \<Longrightarrow> xs = ys"
  by (simp add: subseq_same_length)

lemma dumps_accounted:
  assumes "cr_snapshot_ids r = []" "cr_artifacts r = []" "cr_status r = []"
  shows "accounts_for ds (bo_result (dumps_ended product now (dump_databases env product f request i ds (loop_begins r))))"
proof -
  let ?l = "dump_databases env product f request i ds (loop_begins r)"
  have "accounted [] (loop_begins r)" "cr_status (dl_result (loop_begins r)) = []"
    using assms loop_begins_accounted [OF assms(1,2)] by (simp_all add: loop_begins_def)
  from dump_databases_accounted [OF this refl]
  obtain past rest where "ds = past @ rest" "accounted past ?l" "cr_status (dl_result ?l) \<in> {[], ''failed'', ''cancelled''}"
    "cr_status (dl_result ?l) = [] \<Longrightarrow> rest = []" by (metis append_Nil)
  note ended = this
  let ?r = "dl_result ?l"
  have s: "subseq (map ba_database (cr_artifacts ?r)) ds"
    using ended(1,2) list_emb_append_mono [of "(=)" _ past "[]" rest] by (simp add: accounted_def)
  have a: "cr_snapshot_ids ?r = map ba_snapshot_id (cr_artifacts ?r)" "\<forall>a \<in> set (cr_artifacts ?r). is_digest (ba_snapshot_id a)"
    "dl_failed ?l + length (cr_artifacts ?r) = length past"
    using ended(2) by (simp_all add: accounted_def)
  show ?thesis
  proof (cases "cr_status ?r = []")
    case True
    with ended have "past = ds" by simp
    with a(3) full_subseq [OF s] have "dl_failed ?l = 0 \<Longrightarrow> map ba_database (cr_artifacts ?r) = ds"
      "length (cr_artifacts ?r) + dl_failed ?l = length ds" by simp_all
    with True s a(1,2) show ?thesis by (simp add: accounts_for_def dumps_ended_def dump_status_def set_status_def Let_def)
  next
    case False
    with ended(3) s a(1,2) show ?thesis by (auto simp: accounts_for_def dumps_ended_def dump_status_def set_status_def Let_def)
  qed
qed

text \<open>The databases a job names, if it names them.\<close>

definition named_databases :: "job \<Rightarrow> string list option" where
  "named_databases j =
     (if isMySQLJob (jb_type j) then
        (case js_mysql (jb_source j) of
           None \<Rightarrow> None
         | Some s \<Rightarrow> if my_selection_mode s = ''selected'' then Some (my_databases s) else None)
      else if isPostgreSQLJob (jb_type j) then
        (case js_postgresql (jb_source j) of
           None \<Rightarrow> None
         | Some s \<Rightarrow> if pg_selection_mode s = ''selected'' then Some (sort (pg_databases s)) else None)
      else None)"

lemma base_empty: "cr_snapshot_ids (backup_base g c j t) = []" "cr_artifacts (backup_base g c j t) = []" "cr_status (backup_base g c j t) = []"
  by (simp_all add: backup_base_def zero_result_def)

lemma failed_accounted: "accounts_for ds (bo_result (database_failed code summary now (backup_base g c j t)))"
  by (simp add: database_failed_def accounts_for_def set_status_def base_empty)

lemma mysql_password_keeps:
  "resolveMySQLPassword file s = Some s' \<Longrightarrow> my_databases s' = my_databases s \<and> my_selection_mode s' = my_selection_mode s"
  by (auto simp: resolveMySQLPassword_def split: if_splits)

lemma postgresql_password_keeps:
  "resolvePostgreSQLPassword file s = Some s' \<Longrightarrow> pg_databases s' = pg_databases s \<and> pg_selection_mode s' = pg_selection_mode s"
  by (auto simp: resolvePostgreSQLPassword_def split: if_splits)

lemma mysql_accounted:
  assumes "js_mysql (jb_source j) = Some s" "my_selection_mode s = ''selected''"
  shows "accounts_for (my_databases s) (bo_result (executeMySQLBackup env server g c j))"
proof (cases "resolveMySQLPassword (dx_password_file env) s")
  case (Some t)
  with mysql_password_keeps assms(2) have "mysql_targets env t = Inr (my_databases s)" by (simp add: mysql_targets_def)
  with assms(1) Some show ?thesis
    by (auto simp: executeMySQLBackup_def Let_def failed_accounted intro!: dumps_accounted base_empty split: option.split)
qed (simp add: executeMySQLBackup_def Let_def failed_accounted assms(1))

lemma postgresql_accounted:
  assumes "js_postgresql (jb_source j) = Some s" "pg_selection_mode s = ''selected''"
  shows "accounts_for (sort (pg_databases s)) (bo_result (executePostgreSQLBackup env server g c j))"
proof (cases "resolvePostgreSQLPassword (dx_password_file env) s")
  case (Some t)
  with postgresql_password_keeps assms(2) have t: "selectedPostgreSQLDatabases t discovered =
      (if count_ok (sort (pg_databases s)) \<and> list_all (\<lambda>d. d \<in> set discovered) (sort (pg_databases s)) then (sort (pg_databases s), True)
       else ([], False))" for discovered
    by (simp add: selectedPostgreSQLDatabases_def Let_def)
  with assms(1) Some show ?thesis
    by (auto simp: executePostgreSQLBackup_def Let_def failed_accounted intro!: dumps_accounted base_empty split: option.split)
qed (simp add: executePostgreSQLBackup_def Let_def failed_accounted assms(1))

text \<open>C34: The result of a backup of named databases accounts for every one of them: its snapshots are those of its
  artifacts, each a digest; the artifacts are of the named databases, in their order and none twice; a backup that says
  it is complete has one for every database, and a partial one has some but not all.\<close>
theorem database_backup_accounted:
  assumes "named_databases j = Some ds"
  shows "accounts_for ds (bo_result (executeBackup files env server g c j))"
  using assms mysql_accounted postgresql_accounted
  by (auto simp: named_databases_def executeBackup_def split: if_splits option.splits)

section \<open>The anchor of a run\<close>

definition anchors :: "restic_request \<Rightarrow> bool" where
  "anchors q = (''backupchief-run-anchor'' \<in> set (rq_tags q))"

lemma dump_request_anchors: "anchors (dump_request j server (database_tags j run kind d anchored) f cmd cfg) = (\<not> anchored)"
  by (simp add: anchors_def dump_request_def database_tags_def)

definition one_anchored :: "database_loop \<Rightarrow> bool" where
  "one_anchored l =
     (let snapshots = map fst (filter snd (dl_requests l))
      in filter anchors snapshots = take 1 snapshots \<and> dl_anchor l = (snapshots \<noteq> []))"

lemma dump_ended_anchored:
  assumes "one_anchored l" "anchors q = (\<not> dl_anchor l)"
  shows "one_anchored (fst (dump_ended product d f q r l))"
  using assms by (auto simp: one_anchored_def dump_ended_def Let_def Suc_le_eq split: option.splits)

lemma dump_databases_anchored:
  assumes "\<And>d anchored. anchors (request d anchored) = (\<not> anchored)" "one_anchored l"
  shows "one_anchored (dump_databases env product f request i ds l)"
  using assms(2)
proof (induction ds arbitrary: l i)
  case (Cons d ds)
  show ?case
  proof (cases "dx_ended env i")
    case True
    with Cons.prems show ?thesis by (simp add: one_anchored_def)
  next
    case False
    obtain m over where m: "dump_ended product d (f d) (request d (dl_anchor l)) (dx_run env i (request d (dl_anchor l))) l = (m, over)"
      by fastforce
    with dump_ended_anchored [OF Cons.prems assms(1)] have "one_anchored m" by (metis fst_conv)
    with False m Cons.IH show ?thesis by simp
  qed
qed simp

definition snapshots_made :: "database_loop \<Rightarrow> restic_request list" where
  "snapshots_made l = map fst (filter snd (dl_requests l))"

text \<open>Of the snapshots a backup of databases makes exactly the first carries the tag of the anchor of the run, for
  both kinds of database and whatever dumps fail.\<close>
theorem run_has_one_anchor:
  "let l = dump_databases env ''MySQL'' mysqlDumpFilename (mysql_request env server run j binary m) 0 ds (loop_begins r);
       k = dump_databases env ''PostgreSQL'' postgresqlDumpFilename (postgresql_request server run j binary p) 0 es (loop_begins r)
   in filter anchors (snapshots_made l) = take 1 (snapshots_made l) \<and> filter anchors (snapshots_made k) = take 1 (snapshots_made k)"
proof -
  have "one_anchored (loop_begins r)" by (simp add: one_anchored_def loop_begins_def)
  then have "one_anchored (dump_databases env ''MySQL'' mysqlDumpFilename (mysql_request env server run j binary m) 0 ds (loop_begins r))"
    "one_anchored (dump_databases env ''PostgreSQL'' postgresqlDumpFilename (postgresql_request server run j binary p) 0 es (loop_begins r))"
    by (auto intro!: dump_databases_anchored simp: mysql_request_def postgresql_request_def dump_request_anchors)
  then show ?thesis by (simp add: one_anchored_def snapshots_made_def Let_def)
qed

section \<open>Tables as arguments\<close>

lemma include_covers:
  assumes "validateTableSelection (Some sel) mode ds postgresql" "ts_mode sel = ''include''"
  shows "list_all (table_entry_ok postgresql ''include'' mode ds) (ts_tables sel) \<and> set ds \<subseteq> te_database ` set (ts_tables sel)"
  using assms by (auto simp: validateTableSelection_def table_loop_eq set_fold_insert list_all_iff split: if_splits option.splits)

lemma accepted_tables: "validateMySQLSource src = None \<Longrightarrow> js_mysql src = Some s \<Longrightarrow>
    validateTableSelection (my_table_selection s) (my_selection_mode s) (my_databases s) False"
  by (auto simp: validateMySQLSource_def Let_def split: if_splits)

text \<open>Where a MySQL source that passes its checks includes tables by name, no argument of the dump that names the
  database or a table can be read as an option.\<close>
theorem included_tables_no_options:
  assumes "validateMySQLSource src = None" "js_mysql src = Some s" "my_table_selection s = Some sel" "ts_mode sel = ''include''"
    "database \<in> set (my_databases s)" "argument \<in> set (mysqlTableArguments s database)"
  shows "\<not> has_prefix argument ''-''"
proof -
  from include_covers [OF _ assms(4)] accepted_tables [OF assms(1,2)] assms(3)
  have e: "list_all (table_entry_ok False ''include'' (my_selection_mode s) (my_databases s)) (ts_tables sel)"
    "set (my_databases s) \<subseteq> te_database ` set (ts_tables sel)" by auto
  then have "\<forall>t \<in> set (ts_tables sel). \<not> has_prefix (te_database t) ''-'' \<and> \<not> has_prefix (te_table t) ''-''"
    using entry_no_option by (fastforce simp: list_all_iff)
  with e(2) assms(3-6) show ?thesis by (auto simp: mysqlTableArguments_def selected_tables_def)
qed

text \<open>A name of a database is checked only where a table of it is named: this one reaches the dump as an option.\<close>

definition plain_mysql :: mysql_source where
  "plain_mysql =
     \<lparr>my_host = ''db'', my_port = 3306, my_username = ''u'', my_password = [], my_password_file = [], my_selection_mode = ''selected'',
      my_databases = [''a''], my_include_routines = False, my_include_events = False, my_custom_flags = [], my_table_selection = None\<rparr>"

definition mysql_job_source :: "mysql_source \<Rightarrow> job_source" where
  "mysql_job_source m =
     \<lparr>js_root = [], js_paths = [], js_one_file_system = False, js_excludes = [], js_mysql = Some m, js_postgresql = None\<rparr>"

theorem database_read_as_option:
  "validateMySQLSource (mysql_job_source (plain_mysql\<lparr>my_databases := [''--result-file=/x'']\<rparr>)) = None
   \<and> mysqlTableArguments (plain_mysql\<lparr>my_databases := [''--result-file=/x'']\<rparr>) ''--result-file=/x'' = [''--databases'', ''--result-file=/x'']"
  by code_simp

definition one_table :: table_selection where
  "one_table = \<lparr>ts_mode = ''include'', ts_tables = [\<lparr>te_database = ''a'', te_schema = [], te_table = ''t''\<rparr>]\<rparr>"

lemma included_tables_no_options_witness:
  "\<not> has_prefix ''t'' ''-''"
proof -
  let ?s = "plain_mysql\<lparr>my_table_selection := Some one_table\<rparr>"
  have accepted: "validateMySQLSource (mysql_job_source ?s) = None" by code_simp
  have fields: "js_mysql (mysql_job_source ?s) = Some ?s" "my_table_selection ?s = Some one_table" "ts_mode one_table = ''include''"
    "''a'' \<in> set (my_databases ?s)" "''t'' \<in> set (mysqlTableArguments ?s ''a'')"
    by (simp_all add: mysql_job_source_def one_table_def plain_mysql_def mysqlTableArguments_def selected_tables_def)
  show ?thesis by (rule included_tables_no_options [OF accepted fields])
qed

section \<open>A backup of two databases\<close>

definition mysql_job :: job where
  "mysql_job =
     sample_job\<lparr>jb_type := ''mysql'', jb_source := mysql_job_source (plain_mysql\<lparr>my_databases := [''a'', ''b'']\<rparr>)\<rparr>"

text \<open>The first dump gives a snapshot, the second fails.\<close>

definition summary_json :: json where
  "summary_json = JObj [(''message_type'', JStr ''summary''), (''snapshot_id'', JStr (sample_id (CHR ''a'')))]"

definition two_dumps :: database_env where
  "two_dumps =
     \<lparr>dx_run = \<lambda>i q. \<lparr>rs_version = 1, rs_exit_code = (if i = 0 then 0 else 1), rs_outcome = [],
        rs_output = (if i = 0 then json_text summary_json else []), rs_diagnostic = [], rs_truncated = False, rs_dropped_bytes = 0\<rparr>,
      dx_ended = \<lambda>i. False, dx_now = \<lambda>n. 0, dx_password_file = \<lambda>p. None, dx_tool = \<lambda>t. Some t, dx_private = None,
      dx_catalog = None, dx_help = None\<rparr>"

lemma summary_read:
  "parseResticSummaries (json_text summary_json) = [zero_summary\<lparr>sm_message_type := ''summary'', sm_snapshot_id := sample_id (CHR ''a'')\<rparr>]"
proof -
  have ok: "json_ok summary_json" by (simp add: summary_json_def ascii_def byte_def sample_id_def list_all_iff)
  have "json_text summary_json = (CHR ''{'' # CHR 0x22 # ''message_type'' @ CHR 0x22 # CHR '':'' # CHR 0x22 # ''summary'' @ CHR 0x22 # CHR '','' # CHR 0x22 #
      ''snapshot_id'' @ CHR 0x22 # CHR '':'' # CHR 0x22 # replicate 64 (CHR ''a'') @ [CHR 0x22, CHR ''}''])"
    by code_simp
  then have "newline \<notin> set (json_text summary_json)" "json_text summary_json \<noteq> []" "length (json_text summary_json) < 2097152"
    "\<not> has_suffix (json_text summary_json) [CHR 0x0D]" by (simp_all add: newline_def has_suffix_def has_prefix_def)
  then have "summary_lines (json_text summary_json) = [json_text summary_json]"
    by (auto simp: summary_lines_def split_on_none trim_suffix_def)
  moreover have "summary_of_line (json_text summary_json)
      = Some (zero_summary\<lparr>sm_message_type := ''summary'', sm_snapshot_id := sample_id (CHR ''a'')\<rparr>)"
    unfolding summary_of_line_def unmarshal_def json_parse_text [OF ok]
    by (simp add: summary_json_def find_field_def summary_fields_def on_field_def zero_summary_def)
  ultimately show ?thesis by (simp add: parseResticSummaries_def List.map_filter_def)
qed

lemma two_dumps_partial:
  "cr_status (bo_result (executeMySQLBackup two_dumps ''h'' 1 c mysql_job)) = ''partial''
   \<and> map ba_database (cr_artifacts (bo_result (executeMySQLBackup two_dumps ''h'' 1 c mysql_job))) = [''a'']"
proof -
  have s: "database_snapshot (dx_run two_dumps 0 q) = Some (zero_summary\<lparr>sm_message_type := ''summary'', sm_snapshot_id := sample_id (CHR ''a'')\<rparr>)" for q
    by (simp add: database_snapshot_def two_dumps_def summary_read)
  have n: "database_snapshot (dx_run two_dumps (Suc 0) q) = None" "rs_exit_code (dx_run two_dumps (Suc 0) q) = 1" for q
    by (simp_all add: database_snapshot_def two_dumps_def)
  have e: "dx_ended two_dumps i = False" "dx_tool two_dumps t = Some t" for i t by (simp_all add: two_dumps_def)
  have j: "js_mysql (jb_source mysql_job) = Some (plain_mysql\<lparr>my_databases := [''a'', ''b'']\<rparr>)"
    by (simp add: mysql_job_def mysql_job_source_def)
  show ?thesis
    by (simp add: executeMySQLBackup_def Let_def j resolveMySQLPassword_def plain_mysql_def e mysql_targets_def count_ok_def
        maximumDatabases_def dump_ended_def s n isRepositoryFailure_def dumps_ended_def dump_status_def loop_begins_def base_empty
        set_status_def database_artifact_def del: append_Cons)
qed

lemma database_backup_accounted_witness:
  "\<forall>files c. accounts_for [''a'', ''b''] (bo_result (executeBackup files two_dumps ''h'' 1 c mysql_job))
   \<and> cr_status (bo_result (executeBackup files two_dumps ''h'' 1 c mysql_job)) = ''partial''"
proof (intro allI conjI)
  fix files c
  have m: "jb_type mysql_job = ''mysql''" by (simp add: mysql_job_def)
  show "accounts_for [''a'', ''b''] (bo_result (executeBackup files two_dumps ''h'' 1 c mysql_job))"
    by (rule database_backup_accounted) (simp add: named_databases_def isMySQLJob_def m, simp add: mysql_job_def mysql_job_source_def plain_mysql_def)
  show "cr_status (bo_result (executeBackup files two_dumps ''h'' 1 c mysql_job)) = ''partial''"
    using two_dumps_partial by (simp add: executeBackup_def isMySQLJob_def m)
qed

end
