(* ===== verification/ControlPlane.thy ===== *)
theory ControlPlane
  imports Normalization Reporting
begin

text \<open>
  The client of the control plane (agent/client.go): a request at the protocol revision the client selected, the
  second try at the revision an older or newer server names, what of a heartbeat an older server gets, and what an
  answer must have to be taken. The exchange with the server, the clock and \<open>json.Marshal\<close> answer from outside.
\<close>

section \<open>Requests and responses\<close>

text \<open>The bodies are the trees the requests encode, or bytes. A response has the first value of each header, the
  time of its date, and its body, nothing if reading it failed.\<close>

datatype request_body = NoBody | Document json | Bytes string

record http_request =
  hq_method :: string
  hq_url :: string
  hq_revision :: string
  hq_agent :: string
  hq_headers :: "(string \<times> string) list"
  hq_authorization :: "string option"
  hq_body :: request_body

record http_response =
  hr_status :: int
  hr_header :: "string \<Rightarrow> string"
  hr_date :: "time option"
  hr_body :: "string option"

text \<open>\<open>cc_sent\<close> are the requests that went out, \<open>cc_observed\<close> the times of the server with the local ones.\<close>

record control_client =
  cc_endpoint :: string
  cc_credential :: string
  cc_version :: string
  cc_server_id :: string
  cc_revision :: string
  cc_sent :: "http_request list"
  cc_observed :: "(time \<times> time) list"

record client_env =
  ce_now :: "nat \<Rightarrow> time"
  ce_do :: "nat \<Rightarrow> http_request \<Rightarrow> http_response option"
  ce_url_ok :: "string \<Rightarrow> bool"
  ce_print :: "json \<Rightarrow> string"

record api_error =
  ae_status :: int
  ae_code :: string
  ae_detail :: string
  ae_retry_after :: int

record config_response =
  co_body :: string
  co_metadata :: config_metadata
  co_etag :: string
  co_not_modified :: bool

datatype client_error =
    RequestInvalid
  | Unreachable
  | RewriteFailed
  | RequestTooLarge
  | ProtocolUnsupported
  | ProblemInvalid
  | Problem api_error
  | ResponseUnreadable
  | ResponseMalformed
  | ResponseIncompatible
  | CachedDigest
  | ConfigUnverified config_error
  | ConfigValidation config_response config_error
  | ETagMismatch

definition ProtocolHeader :: string where
  "ProtocolHeader = ''BackupChief-Protocol-Revision''"

definition LatestProtocolHeader :: string where
  "LatestProtocolHeader = ''BackupChief-Latest-Protocol-Revision''"

section \<open>The client\<close>

text \<open>Three numbers with points, and an extension behind a minus or a plus.\<close>

definition version_extension :: "string \<Rightarrow> bool" where
  "version_extension s =
     (s = [] \<or> (hd s \<in> set ''-+'' \<and> tl s \<noteq> []
       \<and> list_all (\<lambda>c. is_digit c \<or> (CHR ''a'' \<le> c \<and> c \<le> CHR ''z'') \<or> (CHR ''A'' \<le> c \<and> c \<le> CHR ''Z'') \<or> c \<in> set ''.-'') (tl s)))"

definition release_version :: "string \<Rightarrow> bool" where
  "release_version s =
     (let core = takeWhile (\<lambda>c. c \<notin> set ''-+'') s; parts = split_on (CHR ''.'') core
      in length parts = 3 \<and> list_all (\<lambda>p. p \<noteq> [] \<and> list_all is_digit p) parts \<and> version_extension (drop (length core) s))"

definition normalizeVersion :: "string \<Rightarrow> string" where
  "normalizeVersion v = (if release_version v then v else ''0.0.0-dev'')"

definition NewManagedClient :: "string \<Rightarrow> string \<Rightarrow> string \<Rightarrow> string \<Rightarrow> control_client" where
  "NewManagedClient endpoint credential version server_id =
     \<lparr>cc_endpoint = rev (dropWhile (\<lambda>c. c = CHR ''/'') (rev endpoint)), cc_credential = credential,
      cc_version = normalizeVersion version, cc_server_id = server_id, cc_revision = ProtocolRevision,
      cc_sent = [], cc_observed = []\<rparr>"

definition NewClient :: "string \<Rightarrow> string \<Rightarrow> string \<Rightarrow> control_client" where
  "NewClient endpoint credential version = NewManagedClient endpoint credential version []"

definition userAgent :: "control_client \<Rightarrow> string" where
  "userAgent c =
     ''backupchief/'' @ cc_version c @ (if cc_server_id c \<noteq> [] then '' server/'' @ cc_server_id c else [])"

definition channelAuthURL :: "(string \<Rightarrow> endpoint_url option) \<Rightarrow> control_client \<Rightarrow> string \<Rightarrow> string" where
  "channelAuthURL parse c candidate =
     (let fallback = cc_endpoint c @ ''/broadcasting/auth''
      in if candidate = [] then fallback
         else (case (parse (cc_endpoint c), parse candidate) of
                 (Some e, Some t) \<Rightarrow>
                   if ur_scheme t \<noteq> ur_scheme e \<or> eu_host t \<noteq> eu_host e \<or> ur_has_user t then fallback else candidate
               | _ \<Rightarrow> fallback))"

definition selectProtocolRevision :: "string \<Rightarrow> control_client \<Rightarrow> control_client" where
  "selectProtocolRevision revision c = (if compatibleProtocolRevision revision then c\<lparr>cc_revision := revision\<rparr> else c)"

definition observeProtocolResponse :: "http_response \<Rightarrow> control_client \<Rightarrow> control_client" where
  "observeProtocolResponse r c =
     (let latest = hr_header r LatestProtocolHeader
      in if compatibleProtocolRevision latest then selectProtocolRevision latest c
         else selectProtocolRevision (hr_header r ProtocolHeader) c)"

section \<open>Bodies for a revision\<close>

text \<open>A value that goes through \<open>map[string]any\<close>: its objects come out sorted. The capabilities hold no numbers.\<close>

fun any_value :: "json \<Rightarrow> json" where
  "any_value (JArr vs) = JArr (map any_value vs)"
| "any_value (JObj ms) = JObj (sort_key fst (fold (\<lambda>(k, v). mput k v) (map (\<lambda>(k, v). (k, any_value v)) ms) []))"
| "any_value v = v"

definition sorted_object :: "raw_map \<Rightarrow> json" where
  "sorted_object m = JObj (sort_key fst m)"

definition without :: "string list \<Rightarrow> json \<Rightarrow> json" where
  "without names v = (case v of JObj ms \<Rightarrow> JObj (filter (\<lambda>(k, _). k \<notin> set names) ms) | _ \<Rightarrow> v)"

text \<open>The members \<open>names\<close> of the object under \<open>outer\<close>, if there is one, are deleted.\<close>

definition delete_in :: "string \<Rightarrow> string list \<Rightarrow> raw_map \<Rightarrow> raw_map" where
  "delete_in outer names m = map (\<lambda>(k, v). (k, if k = outer then without names v else v)) m"

definition tools_unless :: "string \<Rightarrow> string \<Rightarrow> string list \<Rightarrow> raw_map \<Rightarrow> raw_map" where
  "tools_unless revision introduced names m =
     (if protocolRevisionSupports revision introduced then m else delete_in ''tools'' names m)"

definition capabilities_for :: "string \<Rightarrow> raw_map \<Rightarrow> raw_map" where
  "capabilities_for revision m =
     tools_unless revision ''1.14.0'' [''plesk'']
       (tools_unless revision ''1.10.0'' [''agent_update'']
          (tools_unless revision ''1.7.0'' [''snapshot_restore'']
             (tools_unless revision ''1.2.0'' [''psql'', ''pg_dump'']
                (if protocolRevisionSupports revision ''1.2.0'' then m else delete_in ''backup_types'' [''postgresql''] m))))"

definition heartbeat_for :: "string \<Rightarrow> raw_map \<Rightarrow> raw_map option" where
  "heartbeat_for revision m =
     (if \<not> protocolRevisionSupports revision ''1.1.0'' then
        (let m = mdel ''capabilities'' m
         in case mget m ''config'' of
              None \<Rightarrow> Some m
            | Some v \<Rightarrow>
                (case raw_members v of
                   None \<Rightarrow> None
                 | Some cs \<Rightarrow>
                     Some (mput ''config'' (if v = JNull then JNull else sorted_object (mdel ''protocol_revision'' cs)) m)))
      else
        (case mget m ''capabilities'' of
           None \<Rightarrow> Some m
         | Some v \<Rightarrow>
             (case any_value v of
                JNull \<Rightarrow> Some (mput ''capabilities'' JNull m)
              | JObj cs \<Rightarrow> Some (mput ''capabilities'' (JObj (capabilities_for revision cs)) m)
              | _ \<Rightarrow> None)))"

text \<open>The null document does not occur: it would be a map that is nil, and an assignment to it panics.\<close>

definition rewritten :: "string \<Rightarrow> json \<Rightarrow> string \<Rightarrow> json option" where
  "rewritten path v revision =
     (case v of
        JObj _ \<Rightarrow>
          (case raw_members v of
             None \<Rightarrow> None
           | Some m \<Rightarrow>
               map_option sorted_object
                 (if path = ''/enroll'' then Some (mput ''protocol_revision'' (JStr revision) m) else heartbeat_for revision m))
      | _ \<Rightarrow> None)"

definition requestBodyForProtocol :: "string \<Rightarrow> request_body \<Rightarrow> string \<Rightarrow> request_body option" where
  "requestBodyForProtocol path body revision =
     (if body = NoBody \<or> body = Bytes [] \<or> path \<notin> set [''/enroll'', ''/heartbeat''] then Some body
      else (case (case body of Document v \<Rightarrow> Some v | Bytes s \<Rightarrow> json_parse s | NoBody \<Rightarrow> None) of
              None \<Rightarrow> None
            | Some v \<Rightarrow> map_option Document (rewritten path v revision)))"

section \<open>Exchanges\<close>

definition halfway :: "time \<Rightarrow> time \<Rightarrow> time" where
  "halfway a b = (if a \<le> b then a + (b - a) div 2 else a - (a - b) div 2)"

definition requestContentAtRevision ::
  "client_env \<Rightarrow> string \<Rightarrow> string \<Rightarrow> string \<Rightarrow> request_body \<Rightarrow> (string \<times> string) list \<Rightarrow> string \<Rightarrow> control_client \<Rightarrow>
   (client_error + http_response) \<times> control_client" where
  "requestContentAtRevision env method path credential body headers revision c =
     (let n = length (cc_sent c);
          q = \<lparr>hq_method = method, hq_url = cc_endpoint c @ path, hq_revision = revision, hq_agent = userAgent c,
               hq_headers = headers, hq_authorization = (if credential \<noteq> [] then Some credential else None), hq_body = body\<rparr>
      in if \<not> ce_url_ok env (hq_url q) then (Inl RequestInvalid, c)
         else
           (let c = c\<lparr>cc_sent := cc_sent c @ [q]\<rparr>
            in case ce_do env n q of
                 None \<Rightarrow> (Inl Unreachable, c)
               | Some r \<Rightarrow>
                   (Inr r, case hr_date r of
                             None \<Rightarrow> c
                           | Some t \<Rightarrow>
                               c\<lparr>cc_observed := cc_observed c @ [(t, halfway (ce_now env (2 * n)) (ce_now env (2 * n + 1)))]\<rparr>)))"

definition retry_revision :: "string \<Rightarrow> http_response \<Rightarrow> bool" where
  "retry_revision revision r =
     (let server = hr_header r ProtocolHeader
      in hr_status r = 426 \<and> compatibleProtocolRevision server \<and> server \<noteq> revision)"

definition requestContent ::
  "client_env \<Rightarrow> string \<Rightarrow> string \<Rightarrow> string \<Rightarrow> request_body \<Rightarrow> (string \<times> string) list \<Rightarrow> control_client \<Rightarrow>
   (client_error + http_response) \<times> control_client" where
  "requestContent env method path credential body headers c =
     (case requestBodyForProtocol path body (cc_revision c) of
        None \<Rightarrow> (Inl RewriteFailed, c)
      | Some b \<Rightarrow>
          (let revision = cc_revision c
           in case requestContentAtRevision env method path credential b headers revision c of
                (Inl e, c) \<Rightarrow> (Inl e, c)
              | (Inr r, c) \<Rightarrow>
                  if \<not> retry_revision revision r then (Inr r, observeProtocolResponse r c)
                  else
                    (let server = hr_header r ProtocolHeader; c = selectProtocolRevision server c
                     in case requestBodyForProtocol path body server of
                          None \<Rightarrow> (Inl RewriteFailed, c)
                        | Some b \<Rightarrow>
                            (case requestContentAtRevision env method path credential b headers server c of
                               (Inl e, c) \<Rightarrow> (Inl e, c)
                             | (Inr r, c) \<Rightarrow> (Inr r, observeProtocolResponse r c)))))"

text \<open>\<open>request\<close>.\<close>

definition send_request ::
  "client_env \<Rightarrow> string \<Rightarrow> string \<Rightarrow> string \<Rightarrow> string \<Rightarrow> request_body \<Rightarrow> control_client \<Rightarrow>
   (client_error + http_response) \<times> control_client" where
  "send_request env method path credential etag body c =
     requestContent env method path credential body
       ((if body \<noteq> NoBody then [(''Content-Type'', ''application/json'')] else [])
        @ (if etag \<noteq> [] then [(''If-None-Match'', etag)] else [])) c"

section \<open>Answers\<close>

definition readLimited :: "http_response \<Rightarrow> nat \<Rightarrow> client_error + string" where
  "readLimited r maximum =
     (case hr_body r of None \<Rightarrow> Inl ResponseUnreadable
      | Some data \<Rightarrow> if maximum < length data then Inl ResponseUnreadable else Inr data)"

definition decodeStrict :: "'a decoder \<Rightarrow> 'a \<Rightarrow> string \<Rightarrow> 'a option" where
  "decodeStrict d zero data =
     (if \<not> valid_utf8 data then None
      else (case json_parse data of None \<Rightarrow> None | Some v \<Rightarrow> if keys_distinct v then d v zero else None))"

definition decode_answer :: "nat \<Rightarrow> 'a decoder \<Rightarrow> 'a \<Rightarrow> http_response \<Rightarrow> client_error + 'a" where
  "decode_answer maximum d zero r =
     (case readLimited r maximum of
        Inl e \<Rightarrow> Inl e
      | Inr data \<Rightarrow> (case decodeStrict d zero data of None \<Rightarrow> Inl ResponseMalformed | Some x \<Rightarrow> Inr x))"

definition requireProtocolResponse :: "http_response \<Rightarrow> bool" where
  "requireProtocolResponse r = compatibleProtocolRevision (hr_header r ProtocolHeader)"

record problem_response =
  pb_type :: string
  pb_title :: string
  pb_status :: int
  pb_code :: string
  pb_detail :: string
  pb_retry_after_seconds :: int

definition problem_fields :: "(string \<times> problem_response decoder) list" where
  "problem_fields =
     [(''type'', on_field dec_string pb_type (\<lambda>v. pb_type_update (\<lambda>_. v))),
      (''title'', on_field dec_string pb_title (\<lambda>v. pb_title_update (\<lambda>_. v))),
      (''status'', on_field dec_int pb_status (\<lambda>v. pb_status_update (\<lambda>_. v))),
      (''code'', on_field dec_string pb_code (\<lambda>v. pb_code_update (\<lambda>_. v))),
      (''detail'', on_field dec_string pb_detail (\<lambda>v. pb_detail_update (\<lambda>_. v))),
      (''retry_after_seconds'', on_field dec_int pb_retry_after_seconds (\<lambda>v. pb_retry_after_seconds_update (\<lambda>_. v)))]"

definition zero_problem :: problem_response where
  "zero_problem =
     \<lparr>pb_type = [], pb_title = [], pb_status = 0, pb_code = [], pb_detail = [], pb_retry_after_seconds = 0\<rparr>"

text \<open>\<open>strconv.Atoi\<close>.\<close>

definition atoi :: "string \<Rightarrow> int option" where
  "atoi s =
     (let digits = (if s \<noteq> [] \<and> hd s \<in> set ''+-'' then tl s else s)
      in if digits = [] \<or> \<not> list_all is_digit digits then None
         else (let n = foldl (\<lambda>a c. 10 * a + int (digit_val c)) 0 digits; n = (if hd s = CHR ''-'' then - n else n)
               in if - (2 ^ 63) \<le> n \<and> n < 2 ^ 63 then Some n else None))"

definition decodeProblem :: "http_response \<Rightarrow> client_error" where
  "decodeProblem r =
     (case decode_answer (64 * 1024) (dec_struct True problem_fields) zero_problem r of
        Inl e \<Rightarrow> ProblemInvalid
      | Inr p \<Rightarrow>
          if pb_status p \<noteq> hr_status r \<or> pb_code p = [] \<or> pb_title p = [] \<or> pb_type p = [] then ProblemInvalid
          else
            (let retry = (case atoi (hr_header r ''Retry-After'') of None \<Rightarrow> pb_retry_after_seconds p | Some n \<Rightarrow> n)
             in Problem \<lparr>ae_status = hr_status r, ae_code = pb_code p, ae_detail = pb_detail p,
                  ae_retry_after = wrap_int64 (retry * 1000000000)\<rparr>))"

text \<open>The steps all calls have in common: a response of a supported revision with one of the expected statuses.\<close>

definition expect_status ::
  "int list \<Rightarrow> (client_error + http_response) \<times> control_client \<Rightarrow> (client_error + http_response) \<times> control_client" where
  "expect_status expected x =
     (case x of
        (Inl e, c) \<Rightarrow> (Inl e, c)
      | (Inr r, c) \<Rightarrow>
          (if \<not> requireProtocolResponse r then Inl ProtocolUnsupported
           else if hr_status r \<notin> set expected then Inl (decodeProblem r) else Inr r, c))"

definition then_read ::
  "(http_response \<Rightarrow> client_error + 'a) \<Rightarrow> (client_error + http_response) \<times> control_client \<Rightarrow> (client_error + 'a) \<times> control_client" where
  "then_read f x = (case x of (Inl e, c) \<Rightarrow> (Inl e, c) | (Inr r, c) \<Rightarrow> (f r, c))"

section \<open>Enrolment\<close>

record enrollment_request =
  eq_attempt_id :: string
  eq_agent_version :: string
  eq_hostname :: string
  eq_platform :: string
  eq_architecture :: string
  eq_credential :: string

definition json_of_enrollment :: "enrollment_request \<Rightarrow> json" where
  "json_of_enrollment q =
     JObj [(''protocol_revision'', JStr ProtocolRevision), (''attempt_id'', JStr (eq_attempt_id q)),
       (''agent_version'', JStr (eq_agent_version q)), (''hostname'', JStr (eq_hostname q)), (''platform'', JStr (eq_platform q)),
       (''architecture'', JStr (eq_architecture q)), (''credential'', JStr (eq_credential q))]"

record enrollment_response =
  en_protocol_revision :: string
  en_server_id :: string
  en_generation :: nat
  en_enrolled_at :: string
  en_config_revision :: nat

definition enrollment_fields :: "(string \<times> enrollment_response decoder) list" where
  "enrollment_fields =
     [(''protocol_revision'', on_field dec_string en_protocol_revision (\<lambda>v. en_protocol_revision_update (\<lambda>_. v))),
      (''server_id'', on_field dec_string en_server_id (\<lambda>v. en_server_id_update (\<lambda>_. v))),
      (''generation'', on_field dec_uint64 en_generation (\<lambda>v. en_generation_update (\<lambda>_. v))),
      (''enrolled_at'', on_field dec_string en_enrolled_at (\<lambda>v. en_enrolled_at_update (\<lambda>_. v))),
      (''config_revision'', on_field dec_uint64 en_config_revision (\<lambda>v. en_config_revision_update (\<lambda>_. v)))]"

definition zero_enrollment :: enrollment_response where
  "zero_enrollment =
     \<lparr>en_protocol_revision = [], en_server_id = [], en_generation = 0, en_enrolled_at = [], en_config_revision = 0\<rparr>"

definition read_enrollment :: "http_response \<Rightarrow> client_error + enrollment_response" where
  "read_enrollment r =
     (case decode_answer (64 * 1024) (dec_struct True enrollment_fields) zero_enrollment r of
        Inl e \<Rightarrow> Inl e
      | Inr n \<Rightarrow>
          if \<not> compatibleProtocolRevision (en_protocol_revision n) \<or> en_protocol_revision n \<noteq> hr_header r ProtocolHeader
             \<or> \<not> is_ulid (en_server_id n) \<or> en_generation n = 0 \<or> en_config_revision n = 0
             \<or> \<not> validateTimestamp (en_enrolled_at n)
          then Inl ResponseIncompatible else Inr n)"

text \<open>\<open>Client.Enroll\<close>.\<close>

definition client_enroll ::
  "client_env \<Rightarrow> string \<Rightarrow> enrollment_request \<Rightarrow> control_client \<Rightarrow> (client_error + enrollment_response) \<times> control_client" where
  "client_enroll env token q c =
     then_read read_enrollment
       (expect_status [201, 200] (send_request env ''POST'' ''/enroll'' token [] (Document (json_of_enrollment q)) c))"

section \<open>Configurations\<close>

definition read_config :: "config_lib \<Rightarrow> nat \<Rightarrow> http_response \<Rightarrow> client_error + config_response" where
  "read_config lib generation r =
     (case readLimited r maximumConfig of
        Inl e \<Rightarrow> Inl e
      | Inr body \<Rightarrow>
          (let etag = hr_header r ''ETag''; (config, m) = DecodeConfig lib body generation;
               answer = \<lparr>co_body = body, co_metadata = m, co_etag = etag, co_not_modified = False\<rparr>;
               verified = (etag = quoted (cm_file_digest m))
           in if cm_digest m \<noteq> cm_file_digest m then Inl CachedDigest
              else (case config of
                      Inl e \<Rightarrow> Inl (if 0 < cm_revision m \<and> verified then ConfigValidation answer e else ConfigUnverified e)
                    | Inr _ \<Rightarrow> if \<not> verified then Inl ETagMismatch else Inr answer)))"

definition not_modified :: "string \<Rightarrow> config_response" where
  "not_modified etag = \<lparr>co_body = [], co_metadata = zero_config_metadata, co_etag = etag, co_not_modified = True\<rparr>"

definition FetchConfig ::
  "client_env \<Rightarrow> config_lib \<Rightarrow> string \<Rightarrow> nat \<Rightarrow> control_client \<Rightarrow> (client_error + config_response) \<times> control_client" where
  "FetchConfig env lib etag generation c =
     then_read (\<lambda>r. if hr_status r = 304 then Inr (not_modified etag) else read_config lib generation r)
       (expect_status [304, 200] (send_request env ''GET'' ''/config'' (cc_credential c) etag NoBody c))"

section \<open>Backups on demand\<close>

record managed_status =
  mb_id :: string
  mb_status :: string
  mb_summary :: string

definition managed_fields :: "(string \<times> managed_status decoder) list" where
  "managed_fields =
     [(''id'', on_field dec_string mb_id (\<lambda>v. mb_id_update (\<lambda>_. v))),
      (''status'', on_field dec_string mb_status (\<lambda>v. mb_status_update (\<lambda>_. v))),
      (''summary'', on_field dec_string mb_summary (\<lambda>v. mb_summary_update (\<lambda>_. v)))]"

definition ended_statuses :: "string list" where
  "ended_statuses = [''complete'', ''partial'', ''failed'', ''cancelled'', ''skipped'', ''unresolved'', ''expired'']"

definition decodeManagedBackupStatus :: "http_response \<Rightarrow> client_error + managed_status" where
  "decodeManagedBackupStatus r =
     (case decode_answer (64 * 1024) (dec_struct True managed_fields) \<lparr>mb_id = [], mb_status = [], mb_summary = []\<rparr> r of
        Inl e \<Rightarrow> Inl e
      | Inr s \<Rightarrow>
          if \<not> is_ulid (mb_id s) \<or> mb_status s \<notin> set ([''pending'', ''acknowledged'', ''running''] @ ended_statuses)
          then Inl ResponseIncompatible else Inr s)"

definition StartManagedBackup ::
  "client_env \<Rightarrow> string \<Rightarrow> control_client \<Rightarrow> (client_error + managed_status) \<times> control_client" where
  "StartManagedBackup env job_id c =
     then_read decodeManagedBackupStatus
       (expect_status [202, 200]
          (send_request env ''POST'' ''/backups'' (cc_credential c) [] (Document (JObj [(''job_id'', JStr job_id)])) c))"

definition managedBackupStatus ::
  "client_env \<Rightarrow> string \<Rightarrow> control_client \<Rightarrow> (client_error + managed_status) \<times> control_client" where
  "managedBackupStatus env command_id c =
     then_read decodeManagedBackupStatus
       (expect_status [200] (send_request env ''GET'' (''/backups/'' @ command_id) (cc_credential c) [] NoBody c))"

definition cancelManagedBackup :: "client_env \<Rightarrow> string \<Rightarrow> control_client \<Rightarrow> (client_error + unit) \<times> control_client" where
  "cancelManagedBackup env command_id c =
     then_read (\<lambda>_. Inr ())
       (expect_status [204]
          (send_request env ''POST'' (''/backups/'' @ command_id @ ''/cancel'') (cc_credential c) [] (Bytes ''{}'') c))"

text \<open>One turn of the wait: \<open>over\<close> tells whether the context has ended when the status came back, and \<open>halted\<close>
  whether it ends before the next tick. Nothing is the next turn.\<close>

datatype wait_result = Waited managed_status | WaitFailed client_error | WaitCancelled

definition wait_turn ::
  "client_env \<Rightarrow> string \<Rightarrow> bool \<Rightarrow> bool \<Rightarrow> control_client \<Rightarrow> wait_result option \<times> control_client" where
  "wait_turn env command_id over halted c =
     (case managedBackupStatus env command_id c of
        (Inl e, c) \<Rightarrow>
          (Some (WaitFailed e), if over then snd (cancelManagedBackup env command_id c) else c)
      | (Inr s, c) \<Rightarrow>
          if mb_status s \<in> set ended_statuses then (Some (Waited s), c)
          else if halted then (Some WaitCancelled, snd (cancelManagedBackup env command_id c))
          else (None, c))"

text \<open>The wait with fuel; the turns are numbered.\<close>

fun WaitForManagedBackup ::
  "client_env \<Rightarrow> string \<Rightarrow> (nat \<Rightarrow> bool) \<Rightarrow> (nat \<Rightarrow> bool) \<Rightarrow> nat \<Rightarrow> nat \<Rightarrow> control_client \<Rightarrow>
   wait_result option \<times> control_client" where
  "WaitForManagedBackup env command_id over halted 0 i c = (None, c)"
| "WaitForManagedBackup env command_id over halted (Suc n) i c =
     (case wait_turn env command_id (over i) (halted i) c of
        (Some r, c) \<Rightarrow> (Some r, c)
      | (None, c) \<Rightarrow> WaitForManagedBackup env command_id over halted n (Suc i) c)"

section \<open>Commands\<close>

definition plan_fields :: "(string \<times> maintenance_plan decoder) list" where
  "plan_fields =
     [(''kind'', on_field dec_string pl_kind (\<lambda>v. pl_kind_update (\<lambda>_. v))),
      (''candidate_snapshot_ids'', on_field (dec_list dec_string []) pl_candidate_snapshot_ids (\<lambda>v. pl_candidate_snapshot_ids_update (\<lambda>_. v))),
      (''protected_snapshot_ids'', on_field (dec_list dec_string []) pl_protected_snapshot_ids (\<lambda>v. pl_protected_snapshot_ids_update (\<lambda>_. v))),
      (''candidate_run_ids'', on_field (dec_list dec_string []) pl_candidate_run_ids (\<lambda>v. pl_candidate_run_ids_update (\<lambda>_. v))),
      (''protected_run_ids'', on_field (dec_list dec_string []) pl_protected_run_ids (\<lambda>v. pl_protected_run_ids_update (\<lambda>_. v))),
      (''data_subset_part'', on_field dec_uint64 pl_data_subset_part (\<lambda>v. pl_data_subset_part_update (\<lambda>_. v))),
      (''data_subset_total'', on_field dec_uint64 pl_data_subset_total (\<lambda>v. pl_data_subset_total_update (\<lambda>_. v))),
      (''combined_retention'', on_field dec_bool pl_combined_retention (\<lambda>v. pl_combined_retention_update (\<lambda>_. v))),
      (''forget_planned'', on_field dec_bool pl_forget_planned (\<lambda>v. pl_forget_planned_update (\<lambda>_. v))),
      (''prune_after_forget'', on_field dec_bool pl_prune_after_forget (\<lambda>v. pl_prune_after_forget_update (\<lambda>_. v))),
      (''prune_started'', on_field dec_bool pl_prune_started (\<lambda>v. pl_prune_started_update (\<lambda>_. v))),
      (''prune_completed'', on_field dec_bool pl_prune_completed (\<lambda>v. pl_prune_completed_update (\<lambda>_. v)))]"

definition dec_any_map :: "payload_map decoder" where
  "dec_any_map v old =
     map_option (\<lambda>m. map (\<lambda>(k, v). (k, any_value v)) (given m [])) (dec_raw_map v (if old = [] then None else Some old))"

definition payload_fields :: "(string \<times> command_payload decoder) list" where
  "payload_fields =
     [(''job_id'', on_field dec_string cp_job_id (\<lambda>v. cp_job_id_update (\<lambda>_. v))),
      (''run_id'', on_field dec_string cp_run_id (\<lambda>v. cp_run_id_update (\<lambda>_. v))),
      (''required_config_revision'', on_field dec_uint64 cp_required_config_revision (\<lambda>v. cp_required_config_revision_update (\<lambda>_. v))),
      (''maintenance'', on_field dec_string cp_maintenance (\<lambda>v. cp_maintenance_update (\<lambda>_. v))),
      (''snapshot_ids'', on_field (dec_list dec_string []) cp_snapshot_ids (\<lambda>v. cp_snapshot_ids_update (\<lambda>_. v))),
      (''recovery_point_run_ids'', on_field (dec_list dec_string []) cp_recovery_point_run_ids (\<lambda>v. cp_recovery_point_run_ids_update (\<lambda>_. v))),
      (''repository_key'', on_field dec_string cp_repository_key (\<lambda>v. cp_repository_key_update (\<lambda>_. v))),
      (''initial_sync'', on_field dec_bool cp_initial_sync (\<lambda>v. cp_initial_sync_update (\<lambda>_. v))),
      (''maintenance_plan'',
        on_field (dec_pointer (dec_struct True plan_fields) zero_plan) cp_maintenance_plan (\<lambda>v. cp_maintenance_plan_update (\<lambda>_. v))),
      (''retry_of_run_id'', on_field dec_string cp_retry_of_run_id (\<lambda>v. cp_retry_of_run_id_update (\<lambda>_. v))),
      (''type'', on_field dec_string cp_type (\<lambda>v. cp_type_update (\<lambda>_. v))),
      (''source'', on_field dec_any_map cp_source (\<lambda>v. cp_source_update (\<lambda>_. v))),
      (''source_digest'', on_field dec_string cp_source_digest (\<lambda>v. cp_source_digest_update (\<lambda>_. v))),
      (''target_version'', on_field dec_string cp_target_version (\<lambda>v. cp_target_version_update (\<lambda>_. v)))]"

definition command_fields :: "(string \<times> agent_command decoder) list" where
  "command_fields =
     [(''id'', on_field dec_string ac_id (\<lambda>v. ac_id_update (\<lambda>_. v))),
      (''generation'', on_field dec_uint64 ac_generation (\<lambda>v. ac_generation_update (\<lambda>_. v))),
      (''kind'', on_field dec_string ac_kind (\<lambda>v. ac_kind_update (\<lambda>_. v))),
      (''issued_at'', on_field dec_string ac_issued_at (\<lambda>v. ac_issued_at_update (\<lambda>_. v))),
      (''expires_at'', on_field dec_string ac_expires_at (\<lambda>v. ac_expires_at_update (\<lambda>_. v))),
      (''payload'', on_field (dec_struct True payload_fields) ac_payload (\<lambda>v. ac_payload_update (\<lambda>_. v)))]"

text \<open>Whether the two lists of a payload are there, which an empty list does not show.\<close>

definition slice_fields :: "(string \<times> (bool \<times> bool) decoder) list" where
  "slice_fields =
     [(''payload'', dec_struct False
        [(''snapshot_ids'', \<lambda>v g. Some (v \<noteq> JNull, snd g)), (''recovery_point_run_ids'', \<lambda>v g. Some (fst g, v \<noteq> JNull))])]"

definition zero_command :: agent_command where
  "zero_command =
     \<lparr>ac_id = [], ac_generation = 0, ac_kind = [], ac_issued_at = [], ac_expires_at = [], ac_payload = zero_payload\<rparr>"

definition dec_command :: "(agent_command \<times> bool \<times> bool) decoder" where
  "dec_command v old =
     (case (dec_struct True command_fields v (fst old), dec_struct False slice_fields v (snd old)) of
        (Some c, Some g) \<Rightarrow> Some (c, g)
      | _ \<Rightarrow> None)"

record commands_response =
  cs_protocol_revision :: string
  cs_commands :: "(agent_command \<times> bool \<times> bool) list option"

definition commands_fields :: "(string \<times> commands_response decoder) list" where
  "commands_fields =
     [(''protocol_revision'', on_field dec_string cs_protocol_revision (\<lambda>v. cs_protocol_revision_update (\<lambda>_. v))),
      (''commands'',
        on_field (dec_pointer (dec_list dec_command (zero_command, False, False)) []) cs_commands (\<lambda>v. cs_commands_update (\<lambda>_. v)))]"

definition maximumCommands :: nat where
  "maximumCommands = 512 * 1024"

definition read_commands :: "nat \<Rightarrow> http_response \<Rightarrow> client_error + agent_command list" where
  "read_commands generation r =
     (case decode_answer maximumCommands (dec_struct True commands_fields) \<lparr>cs_protocol_revision = [], cs_commands = None\<rparr> r of
        Inl e \<Rightarrow> Inl e
      | Inr a \<Rightarrow>
          (let revision = cs_protocol_revision a
           in case cs_commands a of
                None \<Rightarrow> Inl ResponseIncompatible
              | Some xs \<Rightarrow>
                  if \<not> compatibleProtocolRevision revision \<or> revision \<noteq> hr_header r ProtocolHeader \<or> 25 < length xs
                     \<or> \<not> list_all (\<lambda>(c, snapshots, points). validateCommand generation revision snapshots points c) xs
                  then Inl ResponseIncompatible else Inr (map fst xs)))"

definition PollCommands ::
  "client_env \<Rightarrow> nat \<Rightarrow> control_client \<Rightarrow> (client_error + agent_command list) \<times> control_client" where
  "PollCommands env generation c =
     then_read (read_commands generation)
       (expect_status [200] (send_request env ''GET'' ''/commands'' (cc_credential c) [] NoBody c))"

section \<open>Reports\<close>

text \<open>The values reported are the trees of their documents.\<close>

definition post_document ::
  "client_env \<Rightarrow> nat \<Rightarrow> string \<Rightarrow> json \<Rightarrow> control_client \<Rightarrow> (client_error + http_response) \<times> control_client" where
  "post_document env maximum path v c =
     (if maximum < length (ce_print env v) then (Inl RequestTooLarge, c)
      else send_request env ''POST'' path (cc_credential c) [] (Document v) c)"

definition postJSON :: "client_env \<Rightarrow> string \<Rightarrow> json \<Rightarrow> control_client \<Rightarrow> (client_error + unit) \<times> control_client" where
  "postJSON env path v c = then_read (\<lambda>_. Inr ()) (expect_status [204] (post_document env (64 * 1024) path v c))"

definition Heartbeat :: "client_env \<Rightarrow> json \<Rightarrow> control_client \<Rightarrow> (client_error + unit) \<times> control_client" where
  "Heartbeat env v c = postJSON env ''/heartbeat'' v c"

text \<open>The documents a command, an update and a log end with. \<open>encode\<close> is the encoding of the large result.\<close>

definition AcknowledgeCommand ::
  "client_env \<Rightarrow> string \<Rightarrow> nat \<Rightarrow> string \<Rightarrow> string \<Rightarrow> control_client \<Rightarrow> (client_error + unit) \<times> control_client" where
  "AcknowledgeCommand env command_id generation run_id received_at c =
     postJSON env (''/commands/'' @ command_id @ ''/ack'')
       (JObj [(''generation'', json_number generation), (''run_id'', JStr run_id), (''received_at'', JStr received_at)]) c"

definition result_for :: "string \<Rightarrow> command_result \<Rightarrow> command_result" where
  "result_for revision r =
     (if \<not> protocolRevisionSupports revision ''1.3.0'' \<and> cr_artifacts r \<noteq> []
      then r\<lparr>cr_artifacts := map (\<lambda>a. a\<lparr>ba_source_bytes := None, ba_stored_bytes := None\<rparr>) (cr_artifacts r)\<rparr> else r)"

definition SubmitResult ::
  "client_env \<Rightarrow> (command_result \<Rightarrow> json) \<Rightarrow> string \<Rightarrow> command_result \<Rightarrow> control_client \<Rightarrow> (client_error + unit) \<times> control_client" where
  "SubmitResult env encode command_id r c =
     postJSON env (''/commands/'' @ command_id @ ''/result'') (encode (result_for (cc_revision c) r)) c"

definition json_of_update_result :: "agent_update_result \<Rightarrow> json" where
  "json_of_update_result r =
     json_struct
       [(''generation'', Some (json_number (ar_generation r))), (''run_id'', Some (JStr (ar_run_id r))),
        (''status'', Some (JStr (ar_status r))), (''result_code'', Some (JStr (ar_result_code r))),
        (''previous_version'', Some (JStr (ar_previous_version r))), (''target_version'', Some (JStr (ar_target_version r))),
        (''installed_version'', Some (JStr (ar_installed_version r))), (''started_at'', Some (JStr (ar_started_at r))),
        (''finished_at'', Some (JStr (ar_finished_at r))), (''diagnostic'', omit_text (ar_diagnostic r))]"

definition SubmitAgentUpdateResult ::
  "client_env \<Rightarrow> string \<Rightarrow> agent_update_result \<Rightarrow> control_client \<Rightarrow> (client_error + unit) \<times> control_client" where
  "SubmitAgentUpdateResult env command_id r c =
     postJSON env (''/commands/'' @ command_id @ ''/result'') (json_of_update_result r) c"

definition CompleteLog ::
  "client_env \<Rightarrow> string \<Rightarrow> string \<Rightarrow> log_completion \<Rightarrow> control_client \<Rightarrow> (client_error + unit) \<times> control_client" where
  "CompleteLog env run_id log_id l c =
     postJSON env (''/runs/'' @ run_id @ ''/logs/'' @ log_id @ ''/complete'')
       (JObj [(''generation'', json_number (lc_generation l)), (''total_bytes'', json_number (lc_total_bytes l)),
          (''sha256'', JStr (lc_sha256 l)), (''chunk_count'', json_number (lc_chunk_count l)),
          (''truncated'', JBool (lc_truncated l)), (''dropped_bytes'', json_number (lc_dropped_bytes l))]) c"

record events_response =
  es_protocol_revision :: string
  es_results :: "event_result list"

definition result_fields :: "(string \<times> event_result decoder) list" where
  "result_fields =
     [(''id'', on_field dec_string er_id (\<lambda>v. er_id_update (\<lambda>_. v))),
      (''status'', on_field dec_string er_status (\<lambda>v. er_status_update (\<lambda>_. v))),
      (''code'', on_field dec_string er_code (\<lambda>v. er_code_update (\<lambda>_. v)))]"

definition events_fields :: "(string \<times> events_response decoder) list" where
  "events_fields =
     [(''protocol_revision'', on_field dec_string es_protocol_revision (\<lambda>v. es_protocol_revision_update (\<lambda>_. v))),
      (''results'',
        on_field (dec_list (dec_struct True result_fields) \<lparr>er_id = [], er_status = [], er_code = []\<rparr>) es_results
          (\<lambda>v. es_results_update (\<lambda>_. v)))]"

definition read_events :: "agent_event list \<Rightarrow> http_response \<Rightarrow> client_error + event_result list" where
  "read_events batch r =
     (case decode_answer (64 * 1024) (dec_struct True events_fields) \<lparr>es_protocol_revision = [], es_results = []\<rparr> r of
        Inl e \<Rightarrow> Inl e
      | Inr a \<Rightarrow>
          (let revision = es_protocol_revision a; items = es_results a
           in if \<not> compatibleProtocolRevision revision \<or> revision \<noteq> hr_header r ProtocolHeader \<or> length items \<noteq> length batch
                 \<or> \<not> list_all2 (\<lambda>item e. er_id item = ev_id e \<and> er_status item \<in> set statuses) items batch
              then Inl ResponseIncompatible else Inr items))"

definition post_events ::
  "client_env \<Rightarrow> (agent_event list \<Rightarrow> json) \<Rightarrow> agent_event list \<Rightarrow> control_client \<Rightarrow>
   (client_error + event_result list) \<times> control_client" where
  "post_events env encode batch c =
     then_read (read_events batch) (expect_status [200] (post_document env (2 ^ 20) ''/events'' (encode batch) c))"

definition UploadLogChunk ::
  "client_env \<Rightarrow> string \<Rightarrow> string \<Rightarrow> nat \<Rightarrow> nat \<Rightarrow> string \<Rightarrow> control_client \<Rightarrow> (client_error + unit) \<times> control_client" where
  "UploadLogChunk env run_id log_id index offset body c =
     (if maximumLogChunk < length body then (Inl RequestTooLarge, c)
      else
        then_read (\<lambda>_. Inr ())
          (expect_status [204]
             (requestContent env ''PUT'' (''/runs/'' @ run_id @ ''/logs/'' @ log_id @ ''/chunks/'' @ show_nat index) (cc_credential c)
                (Bytes body)
                [(''Content-Type'', ''application/octet-stream''), (''BackupChief-Chunk-Offset'', show_nat offset),
                 (''BackupChief-Chunk-SHA256'', sha256_hex body)] c)))"

end
