(* ===== verification/Enrollment.thy ===== *)
theory Enrollment
  imports ControlPlane Retired
begin

text \<open>
  The setup of an agent (agent/enroll.go, with the files of agent/storage.go it reads and writes): the journal of a
  pending setup, the settlement of the enrolment that is replaced, the exchange with the control plane, the identity,
  the first configuration, and the service. What the disk, the service manager, the random source and the control
  plane answer is given from outside, for each run of the setup.
\<close>

section \<open>Files\<close>

text \<open>The contents of a file; a write that fails after the rename has replaced it.\<close>

datatype 'a stored = Missing | Unreadable | Present 'a

datatype file_write = FileWritten | FileKept | FileUnsynced

definition writeAtomic :: "file_write \<Rightarrow> 'a \<Rightarrow> 'a stored \<Rightarrow> bool \<times> 'a stored" where
  "writeAtomic w new old = (w = FileWritten, if w = FileKept then old else Present new)"

record pending_enrollment =
  pe_endpoint :: string
  pe_token_hash :: string
  pe_attempt_id :: string
  pe_credential :: string
  pe_cache_key :: string
  pe_previous_server_id :: string
  pe_previous_generation :: nat

text \<open>The document of the identity has the protocol revision beside it.\<close>

record setup_state =
  su_identity :: "(string \<times> bootstrap) stored"
  su_pending :: "pending_enrollment stored"
  su_config :: "string option"
  su_retired :: retired_bucket
  su_store :: file_store
  su_service :: "string list"
  su_asked :: "enrollment_request list"

record setup_env =
  se_parse :: "string \<Rightarrow> endpoint_url option"
  se_lib :: config_lib
  se_print :: "json \<Rightarrow> string"
  se_now :: time
  se_draw :: "nat list option"
  se_secret :: "string option"
  se_pending_write :: file_write
  se_identity_write :: file_write
  se_config_write :: file_write
  se_removed :: bool
  se_state_write :: write_outcome
  se_stopped :: bool
  se_started :: bool
  se_retire :: retire_env
  se_enroll :: client_env
  se_fetch :: client_env

record enroll_options =
  eo_root :: bool
  eo_endpoint :: string
  eo_version :: string
  eo_hostname :: "string option"
  eo_platform :: string
  eo_architecture :: string

datatype setup_error =
    NotRoot | EndpointInvalid | HostnameUnknown | PlatformUnsupported | TokenMissing | IdentityUnreadable
  | PendingUnreadable | SetupRandom | PendingNotSaved | PendingMismatch | ServiceFailed | RetireFailed retired_error
  | SetupRefused client_error | NotAdvanced | IdentityInvalid | IdentityNotSaved | NoUsableConfig | NotFirstRevision
  | SetupConfigFailed save_error | StateNotReset store_error | PendingNotRemoved

definition tokenDigest :: "string \<Rightarrow> string" where
  "tokenDigest token = sha256_hex token"

definition validateBootstrap :: "(string \<Rightarrow> endpoint_url option) \<Rightarrow> bootstrap \<Rightarrow> bool" where
  "validateBootstrap parse b =
     (validControlPlaneEndpoint parse (bs_endpoint b) \<and> is_ulid (bs_server_id b) \<and> bs_generation b \<noteq> 0
      \<and> (case raw_url_bytes (bs_credential b) of None \<Rightarrow> False | Some n \<Rightarrow> \<not> n < 32)
      \<and> is_digest (bs_setup_token_hash b) \<and> bs_hostname b \<noteq> [] \<and> rune_length (bs_hostname b) \<le> 255)"

text \<open>Nothing is the identity that is missing. The document has six members beside its revision.\<close>

definition identity_members :: "bootstrap \<Rightarrow> bootstrap" where
  "identity_members b = b\<lparr>bs_cache_key := [], bs_enrollment_token_hash := []\<rparr>"

definition LoadBootstrap :: "(string \<Rightarrow> endpoint_url option) \<Rightarrow> (string \<times> bootstrap) stored \<Rightarrow> setup_error + bootstrap option" where
  "LoadBootstrap parse f =
     (case f of
        Missing \<Rightarrow> Inr None
      | Unreadable \<Rightarrow> Inl IdentityUnreadable
      | Present (revision, b) \<Rightarrow>
          if compatibleProtocolRevision revision \<and> validateBootstrap parse b then Inr (Some (identity_members b))
          else Inl IdentityUnreadable)"

definition SaveBootstrap :: "setup_env \<Rightarrow> bootstrap \<Rightarrow> setup_state \<Rightarrow> setup_error option \<times> setup_state" where
  "SaveBootstrap env b st =
     (if \<not> validateBootstrap (se_parse env) b then (Some IdentityInvalid, st)
      else (let (ok, f) = writeAtomic (se_identity_write env) (ProtocolRevision, identity_members b) (su_identity st)
            in (if ok then None else Some IdentityNotSaved, st\<lparr>su_identity := f\<rparr>)))"

definition pending_ok :: "pending_enrollment \<Rightarrow> bool" where
  "pending_ok p =
     (is_digest (pe_token_hash p) \<and> is_ulid (pe_attempt_id p) \<and> raw_url_bytes (pe_credential p) \<noteq> None
      \<and> (pe_previous_server_id p = []) = (pe_previous_generation p = 0)
      \<and> (pe_previous_server_id p = [] \<or> is_ulid (pe_previous_server_id p)))"

definition LoadPending :: "pending_enrollment stored \<Rightarrow> setup_error + pending_enrollment option" where
  "LoadPending f =
     (case f of
        Missing \<Rightarrow> Inr None
      | Unreadable \<Rightarrow> Inl PendingUnreadable
      | Present p \<Rightarrow> if pending_ok p then Inr (Some p) else Inl PendingUnreadable)"

definition RemovePending :: "setup_env \<Rightarrow> setup_state \<Rightarrow> setup_error option \<times> setup_state" where
  "RemovePending env st =
     (if su_pending st = Missing then (None, st)
      else if se_removed env then (None, st\<lparr>su_pending := Missing\<rparr>) else (Some PendingNotRemoved, st))"

section \<open>Steps\<close>

definition and_then :: "'e option \<times> 's \<Rightarrow> ('s \<Rightarrow> 'e option \<times> 's) \<Rightarrow> 'e option \<times> 's" where
  "and_then x f = (case x of (Some e, s) \<Rightarrow> (Some e, s) | (None, s) \<Rightarrow> f s)"

definition stop_service :: "setup_env \<Rightarrow> setup_state \<Rightarrow> setup_error option \<times> setup_state" where
  "stop_service env st =
     (if se_stopped env then None else Some ServiceFailed, st\<lparr>su_service := su_service st @ [''stop'']\<rparr>)"

definition start_service :: "setup_env \<Rightarrow> setup_state \<Rightarrow> setup_error option \<times> setup_state" where
  "start_service env st =
     (if se_started env then None else Some ServiceFailed, st\<lparr>su_service := su_service st @ [''start'']\<rparr>)"

definition reset_state :: "setup_env \<Rightarrow> setup_state \<Rightarrow> setup_error option \<times> setup_state" where
  "reset_state env st =
     (case updateState (se_state_write env) (\<lambda>db. Inr (saveRuntimeState zero_state db)) (su_store st) of
        (e, fs) \<Rightarrow> (map_option StateNotReset e, st\<lparr>su_store := fs\<rparr>))"

definition install_config :: "setup_env \<Rightarrow> bootstrap \<Rightarrow> string \<Rightarrow> setup_state \<Rightarrow> setup_error option \<times> setup_state" where
  "install_config env b body st =
     (case SaveConfig (se_lib env) (se_print env) (se_config_write env = FileWritten) b body (su_config st) None of
        (None, m, file) \<Rightarrow> (None, st\<lparr>su_config := file\<rparr>)
      | (Some e, m, file) \<Rightarrow>
          (Some (SetupConfigFailed e),
           (case SaveConfig (se_lib env) (se_print env) True b body (su_config st) None of
              (None, m, Some file) \<Rightarrow> if se_config_write env = FileUnsynced then st\<lparr>su_config := Some file\<rparr> else st
            | _ \<Rightarrow> st)))"

definition ensureUsableConfig :: "setup_env \<Rightarrow> string \<Rightarrow> bootstrap \<Rightarrow> setup_state \<Rightarrow> setup_error option \<times> setup_state" where
  "ensureUsableConfig env version b st =
     (if fst (LoadConfig (se_lib env) b (su_config st)) = None then (None, st)
      else
        (let client = NewManagedClient (bs_endpoint b) (bs_credential b) version (bs_server_id b)
         in case fst (FetchConfig (se_fetch env) (se_lib env) [] (bs_generation b) client) of
              Inl e \<Rightarrow> (Some (SetupRefused e), st)
            | Inr r \<Rightarrow>
                if co_not_modified r then (Some NoUsableConfig, st)
                else if cm_revision (co_metadata r) \<noteq> 1 then (Some NotFirstRevision, st)
                else install_config env b (co_body r) st))"

text \<open>The end of a setup, and the whole of one whose identity is installed already.\<close>

definition finish_setup :: "setup_env \<Rightarrow> string \<Rightarrow> bootstrap \<Rightarrow> setup_state \<Rightarrow> setup_error option \<times> setup_state" where
  "finish_setup env version b st =
     and_then (ensureUsableConfig env version b st) (\<lambda>st.
     and_then (reset_state env st) (\<lambda>st.
     and_then (RemovePending env st) (start_service env)))"

text \<open>The pending setup of this token and endpoint, or a new one.\<close>

definition matches :: "enroll_options \<Rightarrow> string \<Rightarrow> pending_enrollment \<Rightarrow> bool" where
  "matches opts token p = (pe_token_hash p = tokenDigest token \<and> pe_endpoint p = eo_endpoint opts)"

definition new_pending :: "setup_env \<Rightarrow> enroll_options \<Rightarrow> string \<Rightarrow> bootstrap option \<Rightarrow> pending_enrollment option" where
  "new_pending env opts token old =
     (case (newULID (se_now env) (se_draw env), se_secret env) of
        (Some attempt, Some credential) \<Rightarrow>
          Some \<lparr>pe_endpoint = eo_endpoint opts, pe_token_hash = tokenDigest token, pe_attempt_id = attempt,
             pe_credential = credential, pe_cache_key = [],
             pe_previous_server_id = (case old of None \<Rightarrow> [] | Some b \<Rightarrow> bs_server_id b),
             pe_previous_generation = (case old of None \<Rightarrow> 0 | Some b \<Rightarrow> bs_generation b)\<rparr>
      | _ \<Rightarrow> None)"

definition make_pending ::
  "setup_env \<Rightarrow> enroll_options \<Rightarrow> string \<Rightarrow> bootstrap option \<Rightarrow> setup_state \<Rightarrow> (setup_error + pending_enrollment) \<times> setup_state" where
  "make_pending env opts token old st =
     (case new_pending env opts token old of
        None \<Rightarrow> (Inl SetupRandom, st)
      | Some q \<Rightarrow>
          (let (ok, f) = writeAtomic (se_pending_write env) q (su_pending st)
           in (if ok then Inr q else Inl PendingNotSaved, st\<lparr>su_pending := f\<rparr>)))"

definition pending_setup ::
  "setup_env \<Rightarrow> enroll_options \<Rightarrow> string \<Rightarrow> bootstrap option \<Rightarrow> setup_state \<Rightarrow> (setup_error + pending_enrollment) \<times> setup_state" where
  "pending_setup env opts token old st =
     (case LoadPending (su_pending st) of
        Inl e \<Rightarrow> (Inl e, st)
      | Inr (Some p) \<Rightarrow> if matches opts token p then (Inr p, st) else make_pending env opts token old st
      | Inr None \<Rightarrow> make_pending env opts token old st)"

text \<open>The old enrolment is stopped and settled before the new one is asked for.\<close>

definition retire_old :: "setup_env \<Rightarrow> bootstrap \<Rightarrow> pending_enrollment \<Rightarrow> setup_state \<Rightarrow> setup_error option \<times> setup_state" where
  "retire_old env b p st =
     (if pe_previous_server_id p \<noteq> bs_server_id b \<or> pe_previous_generation p \<noteq> bs_generation b
      then (Some PendingMismatch, st)
      else
        and_then (stop_service env st) (\<lambda>st.
          case prepareRetiredGeneration (se_retire env) b (se_now env) (su_retired st) (su_store st) of
            (e, rb, fs) \<Rightarrow> (map_option RetireFailed e, st\<lparr>su_retired := rb, su_store := fs\<rparr>)))"

definition asked_for :: "enroll_options \<Rightarrow> string \<Rightarrow> pending_enrollment \<Rightarrow> enrollment_request" where
  "asked_for opts host p =
     \<lparr>eq_attempt_id = pe_attempt_id p, eq_agent_version = normalizeVersion (eo_version opts), eq_hostname = host,
      eq_platform = eo_platform opts, eq_architecture = eo_architecture opts, eq_credential = pe_credential p\<rparr>"

definition advances :: "bootstrap option \<Rightarrow> enrollment_response \<Rightarrow> bool" where
  "advances old r =
     (case old of None \<Rightarrow> True
      | Some b \<Rightarrow> en_server_id r = bs_server_id b \<and> en_generation r = (bs_generation b + 1) mod 2 ^ 64)"

definition enrolled_as :: "enroll_options \<Rightarrow> string \<Rightarrow> string \<Rightarrow> pending_enrollment \<Rightarrow> enrollment_response \<Rightarrow> bootstrap" where
  "enrolled_as opts token host p r =
     \<lparr>bs_endpoint = eo_endpoint opts, bs_server_id = en_server_id r, bs_generation = en_generation r,
      bs_credential = pe_credential p, bs_hostname = host, bs_setup_token_hash = tokenDigest token, bs_cache_key = [],
      bs_enrollment_token_hash = []\<rparr>"

definition install_bootstrap :: "setup_env \<Rightarrow> string \<Rightarrow> bool \<Rightarrow> bootstrap \<Rightarrow> setup_state \<Rightarrow> setup_error option \<times> setup_state" where
  "install_bootstrap env version reenrolling b st =
     and_then (if reenrolling then (None, st) else stop_service env st) (\<lambda>st.
     and_then (SaveBootstrap env b st) (finish_setup env version b))"

definition ask_and_install ::
  "setup_env \<Rightarrow> enroll_options \<Rightarrow> string \<Rightarrow> string \<Rightarrow> bootstrap option \<Rightarrow> pending_enrollment \<Rightarrow> setup_state \<Rightarrow>
   (setup_error + bootstrap) \<times> setup_state" where
  "ask_and_install env opts token host old p st =
     (let q = asked_for opts host p; st = st\<lparr>su_asked := su_asked st @ [q]\<rparr>;
          client = NewManagedClient (eo_endpoint opts) [] (eo_version opts) (case old of None \<Rightarrow> [] | Some b \<Rightarrow> bs_server_id b)
      in case fst (client_enroll (se_enroll env) token q client) of
           Inl e \<Rightarrow> (Inl (SetupRefused e), st)
         | Inr r \<Rightarrow>
             if \<not> advances old r then (Inl NotAdvanced, st)
             else
               (let b = enrolled_as opts token host p r
                in case install_bootstrap env (eo_version opts) (old \<noteq> None) b st of
                     (Some e, st) \<Rightarrow> (Inl e, st)
                   | (None, st) \<Rightarrow> (Inr b, st)))"

section \<open>The setup\<close>

definition setup_refused :: "setup_env \<Rightarrow> enroll_options \<Rightarrow> string \<Rightarrow> setup_error option" where
  "setup_refused env opts token =
     (if \<not> eo_root opts then Some NotRoot
      else if \<not> validControlPlaneEndpoint (se_parse env) (eo_endpoint opts) then Some EndpointInvalid
      else if eo_hostname opts = None then Some HostnameUnknown
      else if eo_platform opts \<noteq> ''linux'' \<or> eo_architecture opts \<notin> set [''amd64'', ''arm64''] then Some PlatformUnsupported
      else if token = [] then Some TokenMissing else None)"

definition DefaultEndpoint :: string where
  "DefaultEndpoint = ''https://backup.chief.app/agent/v1''"

definition with_endpoint :: "enroll_options \<Rightarrow> enroll_options" where
  "with_endpoint opts = (if eo_endpoint opts = [] then opts\<lparr>eo_endpoint := DefaultEndpoint\<rparr> else opts)"

definition install_identity ::
  "setup_env \<Rightarrow> enroll_options \<Rightarrow> string \<Rightarrow> bootstrap option \<Rightarrow> setup_state \<Rightarrow> (setup_error + bootstrap) \<times> setup_state" where
  "install_identity env opts token old st =
     (case pending_setup env opts token old st of
        (Inl e, st) \<Rightarrow> (Inl e, st)
      | (Inr p, st) \<Rightarrow>
          (case (case old of None \<Rightarrow> (None, st) | Some b \<Rightarrow> retire_old env b p st) of
             (Some e, st) \<Rightarrow> (Inl e, st)
           | (None, st) \<Rightarrow> ask_and_install env opts token (the (eo_hostname opts)) old p st))"

definition Enroll :: "setup_env \<Rightarrow> enroll_options \<Rightarrow> string \<Rightarrow> setup_state \<Rightarrow> (setup_error + bootstrap) \<times> setup_state" where
  "Enroll env options token st =
     (let opts = with_endpoint options
      in case setup_refused env opts token of
           Some e \<Rightarrow> (Inl e, st)
         | None \<Rightarrow>
             (case LoadBootstrap (se_parse env) (su_identity st) of
                Inl e \<Rightarrow> (Inl e, st)
              | Inr (Some b) \<Rightarrow>
                  if bs_setup_token_hash b = tokenDigest token then
                    (case finish_setup env (eo_version opts) b st of
                       (Some e, st) \<Rightarrow> (Inl e, st)
                     | (None, st) \<Rightarrow> (Inr b, st))
                  else install_identity env opts token (Some b) st
              | Inr None \<Rightarrow> install_identity env opts token None st))"

end
