(* ===== verification/ControlPlaneFacts.thy ===== *)
theory ControlPlaneFacts
  imports ControlPlane NormalizationFacts
begin

text \<open>
  What the client of the control plane guarantees: how often and at which revision a request goes out, what an older
  server gets of a heartbeat, and what the answers that are taken have.
\<close>

section \<open>Exchanges\<close>

definition same_client :: "control_client \<Rightarrow> control_client \<Rightarrow> bool" where
  "same_client c d =
     (cc_endpoint d = cc_endpoint c \<and> cc_credential d = cc_credential c \<and> cc_version d = cc_version c
      \<and> cc_server_id d = cc_server_id c)"

text \<open>A request of the client for this path, and what it carries.\<close>

definition carries ::
  "control_client \<Rightarrow> string \<Rightarrow> string \<Rightarrow> string \<Rightarrow> request_body \<Rightarrow> http_request \<Rightarrow> bool" where
  "carries c method path credential body q =
     (hq_method q = method \<and> hq_url q = cc_endpoint c @ path \<and> hq_agent q = userAgent c
      \<and> hq_authorization q = (if credential \<noteq> [] then Some credential else None)
      \<and> requestBodyForProtocol path body (hq_revision q) = Some (hq_body q))"

lemma select_same [simp]: "same_client c (selectProtocolRevision v d) = same_client c d"
  "cc_sent (selectProtocolRevision v d) = cc_sent d"
  by (simp_all add: same_client_def selectProtocolRevision_def)

lemma observe_same [simp]: "same_client c (observeProtocolResponse r d) = same_client c d"
  "cc_sent (observeProtocolResponse r d) = cc_sent d"
  by (simp_all add: observeProtocolResponse_def Let_def)

lemma select_compatible: "compatibleProtocolRevision (cc_revision c) \<Longrightarrow> compatibleProtocolRevision (cc_revision (selectProtocolRevision v c))"
  by (simp add: selectProtocolRevision_def)

lemma observe_compatible:
  "compatibleProtocolRevision (cc_revision c) \<Longrightarrow> compatibleProtocolRevision (cc_revision (observeProtocolResponse r c))"
  by (simp add: observeProtocolResponse_def Let_def select_compatible)

lemma exchanged:
  assumes "requestContentAtRevision env method path credential b headers revision c = (x, d)"
  shows "same_client c d \<and> cc_revision d = cc_revision c
    \<and> (\<exists>sent. cc_sent d = cc_sent c @ sent \<and> length sent \<le> 1
        \<and> (\<forall>q \<in> set sent. hq_method q = method \<and> hq_url q = cc_endpoint c @ path \<and> hq_agent q = userAgent c
             \<and> hq_authorization q = (if credential \<noteq> [] then Some credential else None) \<and> hq_revision q = revision \<and> hq_body q = b)
        \<and> (\<forall>r. x = Inr r \<longrightarrow> length sent = 1))"
  using assms by (auto simp: requestContentAtRevision_def same_client_def Let_def split: if_splits option.splits)

lemma same_trans: "same_client a b \<Longrightarrow> same_client b c \<Longrightarrow> same_client a c"
  by (simp add: same_client_def)

lemma same_agent: "same_client c d \<Longrightarrow> userAgent d = userAgent c \<and> cc_endpoint d = cc_endpoint c"
  by (simp add: same_client_def userAgent_def)


section \<open>Heartbeats for older servers\<close>

definition names_under :: "raw_map \<Rightarrow> string \<Rightarrow> string set" where
  "names_under m outer = (case mget m outer of Some (JObj ms) \<Rightarrow> set (mkeys ms) | _ \<Rightarrow> {})"

lemma without_names: "without names v = JObj ms \<Longrightarrow> set names \<inter> set (mkeys ms) = {}"
  by (cases v) (auto simp: without_def)

lemma mget_delete_in: "mget (delete_in outer names m) k = map_option (if k = outer then without names else id) (mget m k)"
  by (induction m) (auto simp: delete_in_def)

lemma delete_in_names:
  "names_under (delete_in outer names m) k = names_under m k - (if k = outer then set names else {})"
  by (auto simp: names_under_def mget_delete_in without_def split: option.splits json.splits)

lemma tools_unless_names:
  "names_under (tools_unless revision introduced names m) k =
     names_under m k - (if k = ''tools'' \<and> \<not> protocolRevisionSupports revision introduced then set names else {})"
  by (auto simp: tools_unless_def delete_in_names)

text \<open>The members that revisions before each number do not know.\<close>

definition unknown_tools :: "string \<Rightarrow> string set" where
  "unknown_tools revision =
     {t. (t \<in> {''psql'', ''pg_dump''} \<and> \<not> protocolRevisionSupports revision ''1.2.0'')
       \<or> (t = ''snapshot_restore'' \<and> \<not> protocolRevisionSupports revision ''1.7.0'')
       \<or> (t = ''agent_update'' \<and> \<not> protocolRevisionSupports revision ''1.10.0'')
       \<or> (t = ''plesk'' \<and> \<not> protocolRevisionSupports revision ''1.14.0'')}"

lemma capabilities_tools: "names_under (capabilities_for revision m) ''tools'' = names_under m ''tools'' - unknown_tools revision"
  by (auto simp: capabilities_for_def tools_unless_names delete_in_names unknown_tools_def)

lemma capabilities_types:
  "names_under (capabilities_for revision m) ''backup_types'' =
     names_under m ''backup_types'' - (if protocolRevisionSupports revision ''1.2.0'' then {} else {''postgresql''})"
  by (auto simp: capabilities_for_def tools_unless_names delete_in_names)

lemma mget_sorted: "distinct (mkeys m) \<Longrightarrow> mget (sort_key fst m) k = mget m k"
  by (rule fun_cong [OF map_of_inject_set [THEN iffD2]]) (auto simp: distinct_map)


lemma distinct_members: "distinct (mkeys m) \<Longrightarrow> distinct (mkeys (fold (\<lambda>(k, v). mput k v) ms m))"
proof (induction ms arbitrary: m)
  case (Cons e ms)
  then show ?case by (cases e) (simp add: distinct_mput)
qed simp

lemma raw_object: "raw_members v = Some m \<Longrightarrow> distinct (mkeys m)"
  by (auto simp: raw_members_def distinct_members split: json.splits)

lemma old_heartbeat:
  assumes "heartbeat_for revision m = Some m'" "distinct (mkeys m)" "\<not> protocolRevisionSupports revision ''1.1.0''"
  shows "distinct (mkeys m') \<and> mget m' ''capabilities'' = None \<and> ''protocol_revision'' \<notin> names_under m' ''config''
    \<and> (\<forall>k. k \<notin> {''capabilities'', ''config''} \<longrightarrow> mget m' k = mget m k)"
proof (cases "mget m ''config''")
  case None
  with assms have "m' = mdel ''capabilities'' m" by (simp add: heartbeat_for_def Let_def)
  with None assms(2) show ?thesis by (simp add: distinct_mdel names_under_def)
next
  case (Some v)
  with assms obtain cs where "m' = mput ''config'' (if v = JNull then JNull else sorted_object (mdel ''protocol_revision'' cs)) (mdel ''capabilities'' m)"
    by (auto simp: heartbeat_for_def Let_def split: option.splits)
  moreover have "''protocol_revision'' \<notin> fst ` set (mdel ''protocol_revision'' cs)" by (simp add: mkeys_mdel flip: set_map)
  then have "\<forall>b. (''protocol_revision'', b) \<notin> set (mdel ''protocol_revision'' cs)" by force
  ultimately show ?thesis using assms(2)
    by (auto simp: distinct_mput distinct_mdel names_under_def sorted_object_def)
qed

lemma new_heartbeat:
  assumes "heartbeat_for revision m = Some m'" "distinct (mkeys m)" "protocolRevisionSupports revision ''1.1.0''"
  shows "distinct (mkeys m') \<and> (\<forall>k. k \<noteq> ''capabilities'' \<longrightarrow> mget m' k = mget m k)
    \<and> (\<forall>cs. mget m' ''capabilities'' = Some (JObj cs) \<longrightarrow>
         names_under cs ''tools'' \<inter> unknown_tools revision = {}
         \<and> (protocolRevisionSupports revision ''1.2.0'' \<or> ''postgresql'' \<notin> names_under cs ''backup_types''))"
proof (cases "mget m ''capabilities''")
  case None
  with assms show ?thesis by (simp add: heartbeat_for_def)
next
  case (Some v)
  with assms have "m' = mput ''capabilities'' JNull m
      \<or> (\<exists>cs. m' = mput ''capabilities'' (JObj (capabilities_for revision cs)) m)"
    by (auto simp: heartbeat_for_def split: json.splits)
  with assms(2) show ?thesis by (auto simp: distinct_mput capabilities_tools capabilities_types)
qed

lemma names_sorted: "distinct (mkeys m) \<Longrightarrow> names_under (sort_key fst m) k = names_under m k"
  by (simp add: names_under_def mget_sorted)

text \<open>What a server gets of a heartbeat fits the revision it is sent at, and nothing else of it changes. Before
  1.1.0 there are no capabilities and the configuration names no revision; from 1.1.0 on the configuration is as it
  was, and of the capabilities those tools and backup types are left out that came with a later revision.\<close>
theorem heartbeat_fits_revision:
  assumes "requestBodyForProtocol ''/heartbeat'' (Document (JObj ms)) revision = Some body" "distinct (mkeys ms)"
  shows "\<exists>m. body = Document (JObj m)
    \<and> (\<forall>k. k \<notin> {''capabilities'', ''config''} \<longrightarrow> mget m k = mget ms k)
    \<and> (if protocolRevisionSupports revision ''1.1.0'' then
         mget m ''config'' = mget ms ''config''
         \<and> (\<forall>cs. mget m ''capabilities'' = Some (JObj cs) \<longrightarrow>
              names_under cs ''tools'' \<inter> unknown_tools revision = {}
              \<and> (protocolRevisionSupports revision ''1.2.0'' \<or> ''postgresql'' \<notin> names_under cs ''backup_types''))
       else mget m ''capabilities'' = None \<and> ''protocol_revision'' \<notin> names_under m ''config'')"
proof -
  have raw: "raw_members (JObj ms) = Some ms" using assms(2) fold_mput [of "[]" ms] by (simp add: raw_members_def)
  then obtain m where m: "heartbeat_for revision ms = Some m" "body = Document (JObj (sort_key fst m))"
    using assms(1) by (auto simp: requestBodyForProtocol_def rewritten_def sorted_object_def)
  show ?thesis
  proof (cases "protocolRevisionSupports revision ''1.1.0''")
    case True
    from new_heartbeat [OF m(1) assms(2) True] True m(2) show ?thesis by (simp add: mget_sorted)
  next
    case False
    from old_heartbeat [OF m(1) assms(2) False] False m(2) show ?thesis by (simp add: mget_sorted names_sorted)
  qed
qed

section \<open>Configurations\<close>

lemma expected: "expect_status ss x = (Inr r, c) \<Longrightarrow>
    x = (Inr r, c) \<and> requireProtocolResponse r \<and> hr_status r \<in> set ss"
  by (auto simp: expect_status_def split: prod.splits sum.splits if_splits)

lemma read_answer: "then_read f x = (Inr a, c) \<Longrightarrow> \<exists>r. x = (Inr r, c) \<and> f r = Inr a"
  by (auto simp: then_read_def split: prod.splits sum.splits)

lemma decoded_digest: "DecodeConfig lib body generation = (Inr cfg, m) \<Longrightarrow> cm_file_digest m = sha256_hex body"
  by (auto simp: DecodeConfig_def metadata_of_def Let_def split: sum.splits)

lemma exchange_error: "requestContentAtRevision env method path credential b headers revision c = (Inl e, d) \<Longrightarrow>
    e \<in> {RequestInvalid, Unreachable}"
  by (auto simp: requestContentAtRevision_def Let_def split: if_splits option.splits)

lemma request_error: "requestContent env method path credential b headers c = (Inl e, d) \<Longrightarrow>
    e \<in> {RequestInvalid, Unreachable, RewriteFailed}"
  by (auto simp: requestContent_def Let_def dest!: exchange_error split: option.splits prod.splits sum.splits if_splits)

lemma problem_error: "decodeProblem r \<noteq> ConfigValidation a e"
  by (simp add: decodeProblem_def Let_def split: sum.split)

lemma expected_error: "expect_status ss (send_request env m p q t b c) \<noteq> (Inl (ConfigValidation a e), d)"
  using request_error [of env m p q b _ c] problem_error
  by (fastforce simp: expect_status_def send_request_def split: prod.splits sum.splits if_splits)


section \<open>Commands\<close>

text \<open>The commands that are taken from a poll are at most twenty-five, come at the revision the response names in its
  header and its body, and are each a valid command of the expected enrolment that expires within a day of its issue.\<close>
theorem polled_commands_valid:
  assumes "PollCommands env generation c = (Inr xs, d)"
  shows "length xs \<le> 25
    \<and> (\<exists>revision flags. compatibleProtocolRevision revision \<and> length flags = length xs
        \<and> list_all (\<lambda>(x, snapshots, points). validateCommand generation revision snapshots points x) (zip xs flags))
    \<and> list_all (\<lambda>x. ac_generation x = generation \<and> expiry_ok x) xs"
proof -
  from assms obtain r where "read_commands generation r = Inr xs"
    by (auto simp: PollCommands_def dest!: read_answer)
  then obtain revision ys where ys: "compatibleProtocolRevision revision" "xs = map fst ys" "length ys \<le> 25"
    "list_all (\<lambda>(c, snapshots, points). validateCommand generation revision snapshots points c) ys"
    by (auto simp: read_commands_def Let_def split: sum.splits option.splits if_splits)
  have "zip xs (map snd ys) = ys" by (simp add: ys(2) zip_map_fst_snd)
  with ys have "length (map snd ys) = length xs"
    "list_all (\<lambda>(x, snapshots, points). validateCommand generation revision snapshots points x) (zip xs (map snd ys))" by simp_all
  with ys(1) have "\<exists>revision flags. compatibleProtocolRevision revision \<and> length flags = length xs
      \<and> list_all (\<lambda>(x, snapshots, points). validateCommand generation revision snapshots points x) (zip xs flags)" by blast
  moreover have "list_all (\<lambda>x. ac_generation x = generation \<and> expiry_ok x) xs"
    using ys(2,4) by (auto simp: list_all_iff validateCommand_def)
  ultimately show ?thesis using ys(2,3) by simp
qed

section \<open>Waiting for a backup\<close>

lemma wait_ends:
  assumes "halted (i + k)"
  shows "\<exists>r d. (\<forall>m. WaitForManagedBackup env command_id over halted (Suc k + m) i c = (Some r, d))
    \<and> (r = WaitCancelled \<longrightarrow> (\<exists>a. d = snd (cancelManagedBackup env command_id a)))
    \<and> (\<forall>s. r = Waited s \<longrightarrow> mb_status s \<in> set ended_statuses)
    \<and> (\<forall>e. r = WaitFailed e \<longrightarrow> (\<exists>j a. j \<le> i + k \<and> d = (if over j then snd (cancelManagedBackup env command_id a) else a)))"
  using assms
proof (induction k arbitrary: i c)
  case (0 i c)
  obtain x a where st: "managedBackupStatus env command_id c = (x, a)" by fastforce
  show ?case
  proof (cases x)
    case (Inl e)
    then show ?thesis using st
      by (intro exI [of _ "WaitFailed e"] exI [of _ "if over i then snd (cancelManagedBackup env command_id a) else a"])
        (auto simp: wait_turn_def)
  next
    case (Inr s)
    with st 0 show ?thesis by (cases "mb_status s \<in> set ended_statuses") (auto simp: wait_turn_def)
  qed
next
  case (Suc k i c)
  obtain r d where turn: "wait_turn env command_id (over i) (halted i) c = (r, d)" by fastforce
  show ?case
  proof (cases r)
    case None
    from Suc.prems have "halted (Suc i + k)" by simp
    from Suc.IH [OF this, of d] None turn show ?thesis by simp
  next
    case (Some x)
    have "(x = WaitCancelled \<longrightarrow> (\<exists>a. d = snd (cancelManagedBackup env command_id a)))
      \<and> (\<forall>s. x = Waited s \<longrightarrow> mb_status s \<in> set ended_statuses)
      \<and> (\<forall>e. x = WaitFailed e \<longrightarrow> (\<exists>a. d = (if over i then snd (cancelManagedBackup env command_id a) else a)))"
      using turn Some by (auto simp: wait_turn_def split: prod.splits sum.splits if_splits)
    then have "(x = WaitCancelled \<longrightarrow> (\<exists>a. d = snd (cancelManagedBackup env command_id a)))
      \<and> (\<forall>s. x = Waited s \<longrightarrow> mb_status s \<in> set ended_statuses)
      \<and> (\<forall>e. x = WaitFailed e \<longrightarrow> (\<exists>j a. j \<le> i + Suc k \<and> d = (if over j then snd (cancelManagedBackup env command_id a) else a)))"
      using le_add1 by metis
    moreover have "\<forall>m. WaitForManagedBackup env command_id over halted (Suc (Suc k) + m) i c = (Some x, d)"
      using turn Some by simp
    ultimately show ?thesis by blast
  qed
qed


section \<open>Witnesses\<close>

definition plain_client :: control_client where
  "plain_client = NewClient ''https://c/'' ''k'' ''1.0.0''"

definition at_revision :: "int \<Rightarrow> string \<Rightarrow> string \<Rightarrow> string \<Rightarrow> http_response" where
  "at_revision status revision etag body =
     \<lparr>hr_status = status, hr_header = (\<lambda>h. if h = ProtocolHeader then revision else if h = ''ETag'' then etag else []),
      hr_date = None, hr_body = Some body\<rparr>"

text \<open>A server of revision 1.5.0 asks for another try.\<close>

definition older_server :: client_env where
  "older_server =
     \<lparr>ce_now = \<lambda>n. 0, ce_do = \<lambda>n q. Some (at_revision (if n = 0 then 426 else 204) ''1.5.0'' [] []), ce_url_ok = \<lambda>u. True,
      ce_print = json_text\<rparr>"

lemma older_revisions: "compatibleProtocolRevision ''1.5.0''" "compatibleProtocolRevision ''1.16.0''" "\<not> compatibleProtocolRevision []"
  "ProtocolHeader \<noteq> LatestProtocolHeader" "LatestProtocolHeader \<noteq> ProtocolHeader" "LatestProtocolHeader \<noteq> ''ETag''" "ProtocolHeader \<noteq> ''ETag''" "''ETag'' \<noteq> ProtocolHeader"
  by code_simp+

lemma older_first: "cc_sent c = [] \<Longrightarrow> \<exists>q. hq_revision q = v
    \<and> requestContentAtRevision older_server m p t b hs v c = (Inr (at_revision 426 ''1.5.0'' [] []), c\<lparr>cc_sent := [q]\<rparr>)"
  by (auto simp: requestContentAtRevision_def older_server_def at_revision_def Let_def intro!: exI)

lemma older_second: "cc_sent c = [q0] \<Longrightarrow> \<exists>q. hq_revision q = v
    \<and> requestContentAtRevision older_server m p t b hs v c = (Inr (at_revision 204 ''1.5.0'' [] []), c\<lparr>cc_sent := [q0, q]\<rparr>)"
  by (auto simp: requestContentAtRevision_def older_server_def at_revision_def Let_def intro!: exI)

lemma older_exchange:
  "\<exists>d. requestContent older_server ''GET'' ''/commands'' ''k'' NoBody [] plain_client = (Inr (at_revision 204 ''1.5.0'' [] []), d)
     \<and> map hq_revision (cc_sent d) = [''1.16.0'', ''1.5.0'']"
proof -
  have c: "cc_sent plain_client = []" "cc_revision plain_client = ''1.16.0''"
    by (simp_all add: plain_client_def NewClient_def NewManagedClient_def ProtocolRevision_def)
  have b: "requestBodyForProtocol ''/commands'' NoBody v = Some NoBody" for v by (simp add: requestBodyForProtocol_def)
  have h: "hr_header (at_revision n v [] []) ProtocolHeader = v" "hr_header (at_revision n v [] []) LatestProtocolHeader = []" for n v
    using older_revisions(4-6) by (auto simp: at_revision_def)
  have r: "retry_revision ''1.16.0'' (at_revision 426 ''1.5.0'' [] [])"
    using older_revisions(1) h(1) by (simp add: retry_revision_def Let_def) (simp add: at_revision_def)
  let ?run = "requestContentAtRevision older_server ''GET'' ''/commands'' ''k'' NoBody []"
  obtain q where q: "hq_revision q = ''1.16.0''"
    "?run ''1.16.0'' plain_client = (Inr (at_revision 426 ''1.5.0'' [] []), plain_client\<lparr>cc_sent := [q]\<rparr>)"
    using older_first [OF c(1)] by blast
  let ?c = "selectProtocolRevision ''1.5.0'' (plain_client\<lparr>cc_sent := [q]\<rparr>)"
  have "cc_sent ?c = [q]" by simp
  then obtain q2 where "hq_revision q2 = ''1.5.0''"
    "?run ''1.5.0'' ?c = (Inr (at_revision 204 ''1.5.0'' [] []), ?c\<lparr>cc_sent := [q, q2]\<rparr>)"
    using older_second by blast
  with q r show ?thesis by (simp add: requestContent_def b c h Let_def)
qed


lemma older_supports: "protocolRevisionSupports ''1.5.0'' ''1.1.0''" "protocolRevisionSupports ''1.5.0'' ''1.2.0''"
  "\<not> protocolRevisionSupports ''1.5.0'' ''1.7.0''" "\<not> protocolRevisionSupports ''1.5.0'' ''1.10.0''"
  "\<not> protocolRevisionSupports ''1.5.0'' ''1.14.0''"
proof -
  have n: "revision_numbers ''1.5.0'' = Some (1, 5, 0)" "revision_numbers ''1.1.0'' = Some (1, 1, 0)"
    "revision_numbers ''1.2.0'' = Some (1, 2, 0)" "revision_numbers ''1.7.0'' = Some (1, 7, 0)"
    "revision_numbers ''1.10.0'' = Some (1, 10, 0)" "revision_numbers ''1.14.0'' = Some (1, 14, 0)"
    by (simp_all add: revision_numbers_def revision_number_def is_digit_def digits_val_def digit_val_def)
  then show "protocolRevisionSupports ''1.5.0'' ''1.1.0''" "protocolRevisionSupports ''1.5.0'' ''1.2.0''"
    "\<not> protocolRevisionSupports ''1.5.0'' ''1.7.0''" "\<not> protocolRevisionSupports ''1.5.0'' ''1.10.0''"
    "\<not> protocolRevisionSupports ''1.5.0'' ''1.14.0''"
    by (simp_all add: protocolRevisionSupports_def compatibleProtocolRevision_def)
qed

definition beat :: raw_map where
  "beat = [(''generation'', JNum ''1''),
     (''capabilities'', JObj [(''tools'', JObj [(''plesk'', JBool True), (''restic'', JBool True)])])]"

lemma heartbeat_fits_revision_witness:
  "\<exists>m. requestBodyForProtocol ''/heartbeat'' (Document (JObj beat)) ''1.5.0'' = Some (Document (JObj m))
     \<and> mget m ''generation'' = Some (JNum ''1'')
     \<and> mget m ''capabilities'' = Some (JObj [(''tools'', JObj [(''restic'', JBool True)])])"
proof -
  have r: "requestBodyForProtocol ''/heartbeat'' (Document (JObj beat)) ''1.5.0''
      = Some (Document (JObj [(''capabilities'', JObj [(''tools'', JObj [(''restic'', JBool True)])]), (''generation'', JNum ''1'')]))"
    by (simp add: requestBodyForProtocol_def rewritten_def raw_members_def beat_def heartbeat_for_def capabilities_for_def
        tools_unless_def older_supports delete_in_def without_def sorted_object_def)
  have "distinct (mkeys beat)" by code_simp
  from heartbeat_fits_revision [OF r this] r show ?thesis by (auto simp: beat_def)
qed

definition config_server :: client_env where
  "config_server =
     older_server\<lparr>ce_do := \<lambda>n q. Some (at_revision 200 ''1.16.0'' (quoted (sha256_hex managed_text)) managed_text)\<rparr>"

lemma managed_fetched:
  "\<exists>r d. FetchConfig config_server sample_lib [] 1 plain_client = (Inr r, d) \<and> \<not> co_not_modified r \<and> co_body r = managed_text"
proof -
  let ?m = "metadata_of managed_document (sha256_hex managed_text)"
  have "DecodeConfig sample_lib managed_text 1 = (Inr managed_config, ?m)"
    by (simp add: DecodeConfig_def managed_read managed_normalized [unfolded One_nat_def])
  moreover have "cm_digest ?m = sha256_hex managed_text" "cm_file_digest ?m = sha256_hex managed_text"
    by (simp_all add: metadata_of_def managed_document_def Let_def)
  ultimately show ?thesis using managed_length
    by (simp add: FetchConfig_def send_request_def requestContent_def requestContentAtRevision_def requestBodyForProtocol_def
        config_server_def older_server_def at_revision_def plain_client_def NewClient_def NewManagedClient_def ProtocolRevision_def
        retry_revision_def expect_status_def then_read_def requireProtocolResponse_def read_config_def readLimited_def Let_def
        observeProtocolResponse_def selectProtocolRevision_def older_revisions)
qed


definition polled_command :: agent_command where
  "polled_command =
     \<lparr>ac_id = sample_ulid (CHR ''1''), ac_generation = 1, ac_kind = ''cancel_run'',
      ac_issued_at = ''2026-01-01T00:00:00.000000Z'', ac_expires_at = ''2026-01-01T01:00:00.000000Z'',
      ac_payload = zero_payload\<lparr>cp_job_id := sample_ulid (CHR ''2''), cp_run_id := sample_ulid (CHR ''3'')\<rparr>\<rparr>"

definition polled_json :: json where
  "polled_json =
     JObj [(''protocol_revision'', JStr ''1.16.0''),
       (''commands'', JArr [JObj
         [(''id'', JStr (sample_ulid (CHR ''1''))), (''generation'', JNum ''1''), (''kind'', JStr ''cancel_run''),
          (''issued_at'', JStr ''2026-01-01T00:00:00.000000Z''), (''expires_at'', JStr ''2026-01-01T01:00:00.000000Z''),
          (''payload'', JObj [(''job_id'', JStr (sample_ulid (CHR ''2''))), (''run_id'', JStr (sample_ulid (CHR ''3'')))])]])]"

definition polled_server :: client_env where
  "polled_server = older_server\<lparr>ce_do := \<lambda>n q. Some (at_revision 200 ''1.16.0'' [] (json_text polled_json))\<rparr>"

lemma polled_valid: "validateCommand 1 ''1.16.0'' False False polled_command"
  by code_simp

lemma polled_ok: "json_ok polled_json" "keys_distinct polled_json"
  by (simp_all add: polled_json_def sample_ulid_def ascii_def byte_def is_digit_def list_all_iff)

lemma polled_ascii: "ascii (json_text polled_json)"
  by (simp add: polled_json_def sample_ulid_def print_string_def print_char_def quote_def backslash_def byte_def ascii_def list_all_iff)

lemma polled_document: "length (json_text polled_json) \<le> maximumCommands" "valid_utf8 (json_text polled_json)"
  "json_parse (json_text polled_json) = Some polled_json"
proof -
  show "length (json_text polled_json) \<le> maximumCommands"
    by (simp add: polled_json_def sample_ulid_def print_string_def print_char_def quote_def backslash_def byte_def maximumCommands_def)
  show "valid_utf8 (json_text polled_json)" using polled_ascii
    by (auto simp: valid_utf8_def ascii_def pieces_all_ascii list_all_iff)
  show "json_parse (json_text polled_json) = Some polled_json" by (rule json_parse_text [OF polled_ok(1)])
qed

lemma polled_payload:
  "dec_members True payload_fields [(''job_id'', JStr (sample_ulid (CHR ''2''))), (''run_id'', JStr (sample_ulid (CHR ''3'')))]
     zero_payload = Some (zero_payload\<lparr>cp_job_id := sample_ulid (CHR ''2''), cp_run_id := sample_ulid (CHR ''3'')\<rparr>)"
  by (simp add: payload_fields_def on_field_def find_field_def)

lemma polled_names: "map fold_name [''id'', ''generation'', ''kind'', ''issued_at'', ''expires_at'', ''payload'']
    = [''ID'', ''GENERATION'', ''KIND'', ''ISSUED_AT'', ''EXPIRES_AT'', ''PAYLOAD'']"
  "map fold_name [''job_id'', ''run_id'', ''snapshot_ids'', ''recovery_point_run_ids'']
    = [''JOB_ID'', ''RUN_ID'', ''SNAPSHOT_IDS'', ''RECOVERY_POINT_RUN_IDS'']"
  by code_simp+

definition polled_members :: raw_map where
  "polled_members =
     [(''id'', JStr (sample_ulid (CHR ''1''))), (''generation'', JNum ''1''), (''kind'', JStr ''cancel_run''),
      (''issued_at'', JStr ''2026-01-01T00:00:00.000000Z''), (''expires_at'', JStr ''2026-01-01T01:00:00.000000Z''),
      (''payload'', JObj [(''job_id'', JStr (sample_ulid (CHR ''2''))), (''run_id'', JStr (sample_ulid (CHR ''3'')))])]"

lemma polled_fields:
  "on_field dec_string g s (JStr v) r = Some (s v r)"
  "on_field dec_uint64 g' s' (JNum ''1'') r = Some (s' 1 r)"
  "g'' r = zero_payload \<Longrightarrow>
     on_field (dec_struct True payload_fields) g'' s''
       (JObj [(''job_id'', JStr (sample_ulid (CHR ''2''))), (''run_id'', JStr (sample_ulid (CHR ''3'')))]) r
     = Some (s'' (zero_payload\<lparr>cp_job_id := sample_ulid (CHR ''2''), cp_run_id := sample_ulid (CHR ''3'')\<rparr>) r)"
proof -
  have "uint64_of_literal ''1'' = Some 1" using uint64_of_show_nat [of 1] small_numbers(1) by simp
  then show "on_field dec_uint64 g' s' (JNum ''1'') r = Some (s' 1 r)" by (simp add: on_field_def)
qed (simp_all add: on_field_def polled_payload del: dec_members.simps)

lemma polled_strict: "dec_members True command_fields polled_members zero_command = Some polled_command"
  by (simp add: polled_members_def command_fields_def find_field_def polled_fields zero_command_def polled_command_def)

lemma polled_slices: "dec_members False slice_fields polled_members (False, False) = Some (False, False)"
  using polled_names by (simp add: polled_members_def slice_fields_def find_field_def)

lemma polled_decoded:
  "dec_struct True commands_fields polled_json \<lparr>cs_protocol_revision = [], cs_commands = None\<rparr>
     = Some \<lparr>cs_protocol_revision = ''1.16.0'', cs_commands = Some [(polled_command, False, False)]\<rparr>"
proof -
  have e: "polled_json = JObj [(''protocol_revision'', JStr ''1.16.0''), (''commands'', JArr [JObj polled_members])]"
    by (simp add: polled_json_def polled_members_def)
  show ?thesis unfolding e
    by (simp add: commands_fields_def dec_pointer_def dec_command_def find_field_def on_field_def polled_strict polled_slices)
qed

lemma polled:
  "\<exists>d. PollCommands polled_server 1 plain_client = (Inr [polled_command], d)"
proof -
  have "read_commands 1 (at_revision 200 ''1.16.0'' [] (json_text polled_json)) = Inr [polled_command]"
    using polled_document polled_decoded polled_ok(2) polled_valid older_revisions(2)
    by (simp add: read_commands_def decode_answer_def readLimited_def decodeStrict_def at_revision_def Let_def)
  then show ?thesis
    by (simp add: PollCommands_def send_request_def requestContent_def requestContentAtRevision_def requestBodyForProtocol_def
        polled_server_def older_server_def plain_client_def NewClient_def NewManagedClient_def ProtocolRevision_def
        retry_revision_def expect_status_def then_read_def requireProtocolResponse_def at_revision_def Let_def
        observeProtocolResponse_def selectProtocolRevision_def older_revisions)
qed

lemma polled_commands_valid_witness:
  "fst (PollCommands polled_server 1 plain_client) = Inr [polled_command] \<and> ac_generation polled_command = 1 \<and> expiry_ok polled_command"
proof -
  obtain d where d: "PollCommands polled_server 1 plain_client = (Inr [polled_command], d)" using polled by (elim exE) (rule that)
  from polled_commands_valid [OF d] d show ?thesis by simp
qed


end
