(* ===== verification/EnrollmentFacts.thy ===== *)
theory EnrollmentFacts
  imports Enrollment RetiredFacts ControlPlaneFacts
begin

text \<open>
  The facts of a setup: what each step leaves as it is, the two ways a setup can go on after it has asked the control
  plane (its pending setup is still there, or the identity is installed), what a setup that succeeded has left, and
  that an identity gives way only to the next one of the same server.
\<close>

section \<open>Steps\<close>

lemma write_atomic:
  "writeAtomic w x f = (ok, g) \<Longrightarrow> (g = f \<or> g = Present x) \<and> (ok \<longrightarrow> g = Present x)"
  by (auto simp: writeAtomic_def split: if_splits)

lemma and_then_none: "and_then x f = (None, s) \<Longrightarrow> \<exists>t. x = (None, t) \<and> f t = (None, s)"
  by (auto simp: and_then_def split: prod.splits option.splits)

definition kept :: "setup_state \<Rightarrow> setup_state \<Rightarrow> bool" where
  "kept st st' =
     (su_identity st' = su_identity st \<and> su_asked st' = su_asked st \<and> su_retired st' = su_retired st)"

text \<open>The pending setup may be gone as well.\<close>

definition onward :: "setup_state \<Rightarrow> setup_state \<Rightarrow> bool" where
  "onward st st' = (kept st st' \<and> su_pending st' \<in> {su_pending st, Missing})"

lemma and_then_onward:
  assumes "onward st (snd x)" "\<And>t. onward t (snd (f t))"
  shows "onward st (snd (and_then x f))"
proof -
  obtain e s where x: "x = (e, s)" by fastforce
  have "onward a b \<Longrightarrow> onward b c \<Longrightarrow> onward a c" for a b c by (auto simp: onward_def kept_def)
  with assms x show ?thesis by (cases e) (auto simp: and_then_def)
qed

lemma config_onward: "onward st (snd (ensureUsableConfig env v b st))"
  by (auto simp: ensureUsableConfig_def install_config_def onward_def kept_def Let_def split: sum.splits prod.splits option.splits)

lemma reset_onward: "onward st (snd (reset_state env st))"
  by (auto simp: reset_state_def onward_def kept_def split: prod.splits)

lemma remove_onward: "onward st (snd (RemovePending env st))"
  by (auto simp: RemovePending_def onward_def kept_def)

lemma service_onward: "onward st (snd (stop_service env st))" "onward st (snd (start_service env st))"
  by (simp_all add: stop_service_def start_service_def onward_def kept_def)

lemma finish_onward: "onward st (snd (finish_setup env v b st))"
  unfolding finish_setup_def
  by (rule and_then_onward [OF config_onward], rule and_then_onward [OF reset_onward], rule and_then_onward [OF remove_onward],
      rule service_onward)

lemma reset_done: "reset_state env st = (None, st') \<Longrightarrow> loadRuntimeState (fs_db (su_store st')) = zero_state"
  by (auto simp: reset_state_def updateState_def saveRuntimeState_def loadRuntimeState_def
      split: prod.splits sum.splits if_splits write_outcome.splits)

lemma finish_done:
  assumes "finish_setup env v b st = (None, st')"
  shows "su_pending st' = Missing \<and> last (su_service st') = ''start'' \<and> loadRuntimeState (fs_db (su_store st')) = zero_state"
proof -
  obtain a c d where s: "ensureUsableConfig env v b st = (None, a)" "reset_state env a = (None, c)" "RemovePending env c = (None, d)"
    "start_service env d = (None, st')" using assms by (auto simp: finish_setup_def dest!: and_then_none)
  have "su_pending d = Missing \<and> su_store d = su_store c" using s(3) by (auto simp: RemovePending_def split: if_splits)
  with s(4) reset_done [OF s(2)] show ?thesis by (auto simp: start_service_def)
qed

section \<open>Asking\<close>

lemma pending_used:
  assumes "pending_setup env opts token old st = (x, st')"
  shows "kept st st' \<and> (\<forall>p. x = Inr p \<longrightarrow> su_pending st' = Present p \<and> matches opts token p
         \<and> (\<forall>q. su_pending st = Present q \<and> matches opts token q \<longrightarrow> p = q))"
  using assms by (auto simp: pending_setup_def make_pending_def LoadPending_def kept_def new_pending_def matches_def Let_def
      split: stored.splits sum.splits option.splits if_splits prod.splits dest!: write_atomic)

lemma retired_kept:
  assumes "retire_old env b p st = (e, st')"
  shows "su_identity st' = su_identity st \<and> su_asked st' = su_asked st \<and> su_pending st' = su_pending st"
  using assms by (auto simp: retire_old_def and_then_def stop_service_def split: prod.splits option.splits if_splits)

lemma retired_recorded:
  assumes "retire_old env b p st = (None, st')"
  shows "\<exists>rs x. su_retired st' = Some rs \<and> x \<in> set rs \<and> same_enrollment x (retired_record b (se_now env)) \<and> re_credential x = bs_credential b"
proof -
  obtain a where "stop_service env st = (None, a)" using assms by (auto simp: retire_old_def split: if_splits dest!: and_then_none)
  then have "prepareRetiredGeneration (se_retire env) b (se_now env) (su_retired a) (su_store a) = (None, su_retired st', su_store st')"
    using assms by (auto simp: retire_old_def and_then_def split: prod.splits option.splits if_splits)
  then show ?thesis
    by (auto simp: prepareRetiredGeneration_def retired_record_def split: sum.splits option.splits prod.splits dest!: rotate_effect)
qed

lemma members_enrolled: "identity_members (enrolled_as opts token host p r) = enrolled_as opts token host p r"
  by (simp add: identity_members_def enrolled_as_def)

lemma save_identity:
  assumes "SaveBootstrap env b st = (e, st')"
  shows "su_asked st' = su_asked st \<and> su_pending st' = su_pending st \<and> su_retired st' = su_retired st
    \<and> (su_identity st' = su_identity st
       \<or> su_identity st' = Present (ProtocolRevision, identity_members b) \<and> validateBootstrap (se_parse env) b)
    \<and> (e = None \<longrightarrow> su_identity st' = Present (ProtocolRevision, identity_members b) \<and> validateBootstrap (se_parse env) b)"
  using assms by (auto simp: SaveBootstrap_def split: if_splits prod.splits dest!: write_atomic)

lemma bootstrap_installed:
  assumes "install_bootstrap env version reenrolling b st = (e, st')" "identity_members b = b"
  shows "su_asked st' = su_asked st \<and> su_retired st' = su_retired st
    \<and> (su_identity st' = su_identity st \<and> su_pending st' = su_pending st
       \<or> su_identity st' = Present (ProtocolRevision, b) \<and> validateBootstrap (se_parse env) b)
    \<and> (e = None \<longrightarrow> su_identity st' = Present (ProtocolRevision, b) \<and> validateBootstrap (se_parse env) b
         \<and> su_pending st' = Missing \<and> last (su_service st') = ''start'' \<and> loadRuntimeState (fs_db (su_store st')) = zero_state)"
proof -
  obtain e1 s1 where stop: "(if reenrolling then (None, st) else stop_service env st) = (e1, s1)" by fastforce
  then have s1: "su_asked s1 = su_asked st" "su_retired s1 = su_retired st" "su_identity s1 = su_identity st" "su_pending s1 = su_pending st"
    by (auto simp: stop_service_def split: if_splits)
  show ?thesis
  proof (cases e1)
    case (Some f)
    with assms(1) stop have "st' = s1 \<and> e \<noteq> None" by (auto simp: install_bootstrap_def and_then_def)
    with s1 show ?thesis by auto
  next
    case go: None
    obtain e2 s2 where save: "SaveBootstrap env b s1 = (e2, s2)" by fastforce
    note saved = save_identity [OF save, unfolded assms(2)]
    show ?thesis
    proof (cases e2)
      case (Some f)
      with assms(1) stop go save have "st' = s2 \<and> e \<noteq> None" by (auto simp: install_bootstrap_def and_then_def)
      with saved s1 show ?thesis by auto
    next
      case None
      with assms(1) stop go save have fin: "finish_setup env version b s2 = (e, st')" by (auto simp: install_bootstrap_def and_then_def)
      from finish_onward [of s2 env version b] fin have on: "onward s2 st'" by simp
      then have "su_identity st' = Present (ProtocolRevision, b) \<and> validateBootstrap (se_parse env) b
        \<and> su_asked st' = su_asked st \<and> su_retired st' = su_retired st"
        using saved None s1 by (auto simp: onward_def kept_def)
      then show ?thesis using finish_done fin by blast
    qed
  qed
qed

text \<open>An exchange that went out leaves the identity as it was with the pending setup still there, or the new one.\<close>

lemma asked_and_installed:
  assumes "ask_and_install env opts token host old p st = (x, st')" "su_pending st = Present p"
  shows "su_asked st' = su_asked st @ [asked_for opts host p] \<and> su_retired st' = su_retired st
    \<and> (su_identity st' = su_identity st \<and> su_pending st' = Present p
       \<or> (\<exists>r. su_identity st' = Present (ProtocolRevision, enrolled_as opts token host p r) \<and> advances old r
            \<and> validateBootstrap (se_parse env) (enrolled_as opts token host p r)))
    \<and> (\<forall>b. x = Inr b \<longrightarrow> su_identity st' = Present (ProtocolRevision, b) \<and> validateBootstrap (se_parse env) b
         \<and> identity_members b = b \<and> bs_setup_token_hash b = tokenDigest token
         \<and> su_pending st' = Missing \<and> last (su_service st') = ''start'' \<and> loadRuntimeState (fs_db (su_store st')) = zero_state)"
proof -
  define s0 where "s0 = st\<lparr>su_asked := su_asked st @ [asked_for opts host p]\<rparr>"
  define client where "client = NewManagedClient (eo_endpoint opts) [] (eo_version opts) (case old of None \<Rightarrow> [] | Some b \<Rightarrow> bs_server_id b)"
  have s0: "su_asked s0 = su_asked st @ [asked_for opts host p]" "su_retired s0 = su_retired st" "su_identity s0 = su_identity st"
    "su_pending s0 = Present p" using assms(2) by (simp_all add: s0_def)
  show ?thesis
  proof (cases "\<exists>r. fst (client_enroll (se_enroll env) token (asked_for opts host p) client) = Inr r \<and> advances old r")
    case False
    then have "st' = s0 \<and> (\<exists>e. x = Inl e)" using assms(1)
      by (auto simp: ask_and_install_def Let_def s0_def client_def split: sum.splits if_splits)
    with s0 show ?thesis by auto
  next
    case True
    then obtain r where r: "fst (client_enroll (se_enroll env) token (asked_for opts host p) client) = Inr r" "advances old r" by blast
    define b where "b = enrolled_as opts token host p r"
    obtain e s1 where run: "install_bootstrap env (eo_version opts) (old \<noteq> None) b s0 = (e, s1)" by fastforce
    have x: "st' = s1" "x = (case e of Some f \<Rightarrow> Inl f | None \<Rightarrow> Inr b)"
      using assms(1) r run by (auto simp: ask_and_install_def Let_def s0_def client_def b_def split: option.splits)
    have b: "identity_members b = b" "bs_setup_token_hash b = tokenDigest token"
      by (simp_all add: b_def members_enrolled) (simp add: enrolled_as_def)
    from bootstrap_installed [OF run b(1)] s0 x b r(2) show ?thesis by (cases e) (auto simp: b_def)
  qed
qed

section \<open>The setup\<close>

lemma installed_kept:
  assumes "install_identity env opts token old st = (x, st')"
  shows "(su_asked st' = su_asked st \<and> su_identity st' = su_identity st \<and> (\<exists>e. x = Inl e))
    \<or> (\<exists>p s1. matches opts token p \<and> (\<forall>q. su_pending st = Present q \<and> matches opts token q \<longrightarrow> p = q) \<and> su_pending s1 = Present p \<and> su_identity s1 = su_identity st \<and> su_asked s1 = su_asked st
         \<and> (\<forall>b. old = Some b \<longrightarrow> (\<exists>rs y. su_retired s1 = Some rs \<and> y \<in> set rs
              \<and> same_enrollment y (retired_record b (se_now env)) \<and> re_credential y = bs_credential b))
         \<and> ask_and_install env opts token (the (eo_hostname opts)) old p s1 = (x, st'))"
proof -
  obtain y s0 where used: "pending_setup env opts token old st = (y, s0)" by fastforce
  note pending = pending_used [OF used]
  show ?thesis
  proof (cases y)
    case (Inl e)
    with used pending assms show ?thesis by (auto simp: install_identity_def kept_def)
  next
    case (Inr p)
    obtain e s1 where ret: "(case old of None \<Rightarrow> (None, s0) | Some b \<Rightarrow> retire_old env b p s0) = (e, s1)" by fastforce
    have s1: "su_identity s1 = su_identity s0 \<and> su_asked s1 = su_asked s0 \<and> su_pending s1 = su_pending s0"
      using ret retired_kept by (auto split: option.splits)
    show ?thesis
    proof (cases e)
      case (Some f)
      with used Inr ret s1 pending assms show ?thesis by (auto simp: install_identity_def kept_def)
    next
      case None
      have "ask_and_install env opts token (the (eo_hostname opts)) old p s1 = (x, st')"
        using used Inr ret None assms by (simp add: install_identity_def)
      moreover have "\<forall>b. old = Some b \<longrightarrow> (\<exists>rs y. su_retired s1 = Some rs \<and> y \<in> set rs
              \<and> same_enrollment y (retired_record b (se_now env)) \<and> re_credential y = bs_credential b)"
        using ret None retired_recorded by (auto split: option.splits)
      ultimately show ?thesis using s1 pending Inr by (intro disjI2 exI [of _ p] exI [of _ s1]) (simp add: kept_def)
    qed
  qed
qed

lemma revision_compatible: "compatibleProtocolRevision ProtocolRevision"
  by code_simp

lemma enroll_cases:
  assumes "Enroll env options token st = (x, st')"
  shows "(su_asked st' = su_asked st \<and> su_identity st' = su_identity st \<and> (\<exists>e. x = Inl e))
    \<or> (\<exists>b. LoadBootstrap (se_parse env) (su_identity st) = Inr (Some b) \<and> bs_setup_token_hash b = tokenDigest token
         \<and> finish_setup env (eo_version options) b st = (None, st') \<and> x = Inr b)
    \<or> (\<exists>old. LoadBootstrap (se_parse env) (su_identity st) = Inr old
         \<and> (\<forall>b. old = Some b \<longrightarrow> bs_setup_token_hash b \<noteq> tokenDigest token)
         \<and> install_identity env (with_endpoint options) token old st = (x, st'))"
proof -
  let ?opts = "with_endpoint options"
  have v: "eo_version ?opts = eo_version options" by (simp add: with_endpoint_def)
  show ?thesis
  proof (cases "setup_refused env ?opts token = None \<and> (\<exists>old. LoadBootstrap (se_parse env) (su_identity st) = Inr old)")
    case False
    with assms show ?thesis by (auto simp: Enroll_def Let_def split: option.splits sum.splits)
  next
    case True
    then obtain old where old: "setup_refused env ?opts token = None" "LoadBootstrap (se_parse env) (su_identity st) = Inr old" by blast
    show ?thesis
    proof (cases "\<exists>b. old = Some b \<and> bs_setup_token_hash b = tokenDigest token")
      case True
      then obtain b where b: "old = Some b" "bs_setup_token_hash b = tokenDigest token" by blast
      obtain e s where fin: "finish_setup env (eo_version options) b st = (e, s)" by fastforce
      with finish_onward [of st env "eo_version options" b] have "kept st s" by (simp add: onward_def)
      with assms old b fin v show ?thesis by (cases e) (auto simp: Enroll_def Let_def kept_def)
    next
      case False
      with assms old show ?thesis by (auto simp: Enroll_def Let_def split: option.splits)
    qed
  qed
qed


lemma enroll_asked:
  assumes "Enroll env options token st = (x, st')" "su_asked st' \<noteq> su_asked st \<or> su_identity st' \<noteq> su_identity st"
  shows "\<exists>old p. LoadBootstrap (se_parse env) (su_identity st) = Inr old
    \<and> (\<forall>b. old = Some b \<longrightarrow> bs_setup_token_hash b \<noteq> tokenDigest token
         \<and> (\<exists>rs y. su_retired st' = Some rs \<and> y \<in> set rs
              \<and> same_enrollment y (retired_record b (se_now env)) \<and> re_credential y = bs_credential b))
    \<and> matches (with_endpoint options) token p
    \<and> (\<forall>q. su_pending st = Present q \<and> matches (with_endpoint options) token q \<longrightarrow> p = q)
    \<and> su_asked st' = su_asked st @ [asked_for (with_endpoint options) (the (eo_hostname (with_endpoint options))) p]
    \<and> (su_identity st' = su_identity st \<and> su_pending st' = Present p
       \<or> (\<exists>host r. su_identity st' = Present (ProtocolRevision, enrolled_as (with_endpoint options) token host p r)
            \<and> advances old r \<and> validateBootstrap (se_parse env) (enrolled_as (with_endpoint options) token host p r)))"
proof -
  have "\<not> (\<exists>b. finish_setup env (eo_version options) b st = (None, st'))"
  proof
    assume "\<exists>b. finish_setup env (eo_version options) b st = (None, st')"
    then obtain b where "finish_setup env (eo_version options) b st = (None, st')" ..
    with finish_onward [of st env "eo_version options" b] assms(2) show False by (simp add: onward_def kept_def)
  qed
  then obtain old where old: "LoadBootstrap (se_parse env) (su_identity st) = Inr old"
      "\<forall>b. old = Some b \<longrightarrow> bs_setup_token_hash b \<noteq> tokenDigest token"
      "install_identity env (with_endpoint options) token old st = (x, st')"
    using enroll_cases [OF assms(1)] assms(2) by auto
  then obtain p s1 where p: "matches (with_endpoint options) token p"
      "\<forall>q. su_pending st = Present q \<and> matches (with_endpoint options) token q \<longrightarrow> p = q"
      "su_pending s1 = Present p" "su_identity s1 = su_identity st" "su_asked s1 = su_asked st"
      "\<forall>b. old = Some b \<longrightarrow> (\<exists>rs y. su_retired s1 = Some rs \<and> y \<in> set rs
              \<and> same_enrollment y (retired_record b (se_now env)) \<and> re_credential y = bs_credential b)"
      "ask_and_install env (with_endpoint options) token (the (eo_hostname (with_endpoint options))) old p s1 = (x, st')"
    using installed_kept [OF old(3)] assms(2) by auto
  note asked = asked_and_installed [OF p(7,3)]
  show ?thesis by (rule exI [of _ old], rule exI [of _ p]) (use old p asked in auto)
qed

text \<open>C38: A setup that is run again with the same token and endpoint after the control plane was asked, whatever came of
  that, never asks under another attempt or with another credential: the control plane sees one enrolment.\<close>
theorem setup_asks_for_one_enrollment:
  assumes "Enroll env options token st = (x, st1)" "su_asked st1 \<noteq> su_asked st"
    "Enroll env' options' token st1 = (y, st2)" "su_asked st2 \<noteq> su_asked st1"
    "eo_endpoint (with_endpoint options') = eo_endpoint (with_endpoint options)"
  shows "\<exists>q q'. su_asked st2 = su_asked st @ [q, q'] \<and> eq_attempt_id q' = eq_attempt_id q \<and> eq_credential q' = eq_credential q"
proof -
  from enroll_asked [OF assms(1)] assms(2) obtain old p where p: "matches (with_endpoint options) token p"
      "su_asked st1 = su_asked st @ [asked_for (with_endpoint options) (the (eo_hostname (with_endpoint options))) p]"
      "su_identity st1 = su_identity st \<and> su_pending st1 = Present p
       \<or> (\<exists>host r. su_identity st1 = Present (ProtocolRevision, enrolled_as (with_endpoint options) token host p r))"
    by blast
  from enroll_asked [OF assms(3)] assms(4) obtain old' p' where p': "LoadBootstrap (se_parse env') (su_identity st1) = Inr old'"
      "\<forall>b. old' = Some b \<longrightarrow> bs_setup_token_hash b \<noteq> tokenDigest token"
      "\<forall>q. su_pending st1 = Present q \<and> matches (with_endpoint options') token q \<longrightarrow> p' = q"
      "su_asked st2 = su_asked st1 @ [asked_for (with_endpoint options') (the (eo_hostname (with_endpoint options'))) p']"
    by blast
  have "su_pending st1 = Present p"
  proof (rule ccontr)
    assume "su_pending st1 \<noteq> Present p"
    with p(3) obtain host r where "su_identity st1 = Present (ProtocolRevision, enrolled_as (with_endpoint options) token host p r)" by blast
    with p'(1) have "old' = Some (enrolled_as (with_endpoint options) token host p r)"
      by (auto simp: LoadBootstrap_def members_enrolled split: if_splits)
    with p'(2) show False by (simp add: enrolled_as_def)
  qed
  moreover have "matches (with_endpoint options') token p" using p(1) assms(5) by (simp add: matches_def)
  ultimately have "p' = p" using p'(3) by blast
  with p(2) p'(4) show ?thesis by (simp add: asked_for_def)
qed

text \<open>C39: An identity that is there gives way only to the next one of the same server: when a setup has changed the
  identity, the new one is valid, of the token, with the credential that was asked for under it, and where there was
  one before, its generation is the next, and the retired enrolments already name the old one with its credential. An
  identity that cannot be read is never replaced.\<close>
theorem identity_replaced_by_next:
  assumes "Enroll env options token st = (x, st')" "su_identity st' \<noteq> su_identity st"
  shows "\<exists>old b q. LoadBootstrap (se_parse env) (su_identity st) = Inr old
    \<and> su_identity st' = Present (ProtocolRevision, b) \<and> validateBootstrap (se_parse env) b
    \<and> bs_setup_token_hash b = tokenDigest token \<and> su_asked st' = su_asked st @ [q] \<and> bs_credential b = eq_credential q
    \<and> (\<forall>a. old = Some a \<longrightarrow> bs_server_id b = bs_server_id a \<and> bs_generation b = (bs_generation a + 1) mod 2 ^ 64
         \<and> (\<exists>rs y. su_retired st' = Some rs \<and> y \<in> set rs
              \<and> same_enrollment y (retired_record a (se_now env)) \<and> re_credential y = bs_credential a))"
proof -
  from enroll_asked [OF assms(1)] assms(2) obtain old p host r where p: "LoadBootstrap (se_parse env) (su_identity st) = Inr old"
      "\<forall>b. old = Some b \<longrightarrow> (\<exists>rs y. su_retired st' = Some rs \<and> y \<in> set rs
              \<and> same_enrollment y (retired_record b (se_now env)) \<and> re_credential y = bs_credential b)"
      "su_asked st' = su_asked st @ [asked_for (with_endpoint options) (the (eo_hostname (with_endpoint options))) p]"
      "su_identity st' = Present (ProtocolRevision, enrolled_as (with_endpoint options) token host p r)"
      "advances old r" "validateBootstrap (se_parse env) (enrolled_as (with_endpoint options) token host p r)"
    by blast
  show ?thesis
    by (rule exI [of _ old], rule exI [of _ "enrolled_as (with_endpoint options) token host p r"],
        rule exI [of _ "asked_for (with_endpoint options) (the (eo_hostname (with_endpoint options))) p"])
      (use p in \<open>auto simp: enrolled_as_def asked_for_def advances_def\<close>)
qed

section \<open>Witnesses\<close>

definition setup_url :: endpoint_url where
  "setup_url =
     \<lparr>ur_scheme = ''https'', ur_hostname = ''c'', ur_port = [], ur_has_user = False, ur_raw_query = [], ur_force_query = False,
      ur_fragment = [], ur_path = [], ur_raw_path = [], eu_host = ''c''\<rparr>"

definition setup_secret :: string where
  "setup_secret = replicate 43 (CHR ''a'')"

definition setup_options :: enroll_options where
  "setup_options =
     \<lparr>eo_root = True, eo_endpoint = ''https://c'', eo_version = ''1.0.0'', eo_hostname = Some ''h'', eo_platform = ''linux'',
      eo_architecture = ''amd64''\<rparr>"

definition setup_world :: "(nat \<Rightarrow> http_request \<Rightarrow> http_response option) \<Rightarrow> setup_env" where
  "setup_world server =
     \<lparr>se_parse = \<lambda>_. Some setup_url, se_lib = sample_lib, se_print = json_text, se_now = 0, se_draw = Some (replicate 10 0),
      se_secret = Some setup_secret, se_pending_write = FileWritten, se_identity_write = FileWritten, se_config_write = FileWritten,
      se_removed = True, se_state_write = Written, se_stopped = True, se_started = True, se_retire = sample_retire_env\<lparr>ree_parse := \<lambda>_. Some setup_url\<rparr>,
      se_enroll = older_server\<lparr>ce_do := server\<rparr>, se_fetch = older_server\<lparr>ce_do := \<lambda>_ _. None\<rparr>\<rparr>"

definition setup_start :: setup_state where
  "setup_start =
     \<lparr>su_identity = Missing, su_pending = Missing, su_config = None, su_retired = None,
      su_store = \<lparr>fs_db = empty_db, fs_reserve_released = False, fs_logs = []\<rparr>, su_service = [], su_asked = []\<rparr>"

lemma start_fields: "su_identity setup_start = Missing" "su_asked setup_start = []"
  by (simp_all add: setup_start_def)

lemma secret_bytes: "raw_url_bytes setup_secret = Some 32"
  by code_simp

lemma setup_accepted: "setup_refused (setup_world server) setup_options ''t'' = None" "with_endpoint setup_options = setup_options"
  by (simp_all add: setup_refused_def setup_world_def setup_options_def validControlPlaneEndpoint_def setup_url_def with_endpoint_def)

text \<open>A server that cannot be reached is asked twice for one enrolment.\<close>

definition unreached :: setup_env where
  "unreached = setup_world (\<lambda>_ _. None)"

lemma enroll_unreached:
  "fst (client_enroll (se_enroll unreached) token q (NewManagedClient e [] v s)) = Inl Unreachable"
  by (simp add: client_enroll_def send_request_def requestContent_def requestContentAtRevision_def requestBodyForProtocol_def
      rewritten_def raw_members_def json_of_enrollment_def then_read_def expect_status_def unreached_def setup_world_def
      older_server_def NewManagedClient_def Let_def)

lemma setup_asks_for_one_enrollment_witness:
  "\<exists>q q'. su_asked (snd (Enroll unreached setup_options ''t'' (snd (Enroll unreached setup_options ''t'' setup_start)))) = [q, q']
     \<and> eq_attempt_id q' = eq_attempt_id q \<and> eq_credential q' = eq_credential q"
proof -
  obtain u where u: "newULID 0 (Some (replicate 10 0)) = Some u" by (simp add: newULID_def)
  define p where "p = \<lparr>pe_endpoint = ''https://c'', pe_token_hash = tokenDigest ''t'', pe_attempt_id = u, pe_credential = setup_secret,
    pe_cache_key = [], pe_previous_server_id = [], pe_previous_generation = 0\<rparr>"
  have "pending_ok p" using newULID_is_ulid [OF u] by (simp add: pending_ok_def p_def tokenDigest_def sha256_hex_digest secret_bytes)
  then have load: "LoadPending (Present p) = Inr (Some p)" by (simp add: LoadPending_def)
  have m: "matches setup_options ''t'' p" by (simp add: matches_def p_def setup_options_def)
  have make: "pending_setup unreached setup_options ''t'' None setup_start = (Inr p, setup_start\<lparr>su_pending := Present p\<rparr>)"
    using u by (simp add: pending_setup_def make_pending_def new_pending_def LoadPending_def setup_start_def unreached_def setup_world_def
        writeAtomic_def setup_options_def p_def)
  have ask: "ask_and_install unreached setup_options ''t'' h None p st
      = (Inl (SetupRefused Unreachable), st\<lparr>su_asked := su_asked st @ [asked_for setup_options h p]\<rparr>)" for h st
    by (simp add: ask_and_install_def enroll_unreached Let_def)
  let ?q = "asked_for setup_options (the (eo_hostname setup_options)) p"
  let ?s = "setup_start\<lparr>su_pending := Present p, su_asked := [?q]\<rparr>"
  have run: "Enroll unreached setup_options ''t'' setup_start = (Inl (SetupRefused Unreachable), ?s)"
    using setup_accepted(1) [of "\<lambda>_ _. None"] setup_accepted(2) make ask
    by (simp add: Enroll_def LoadBootstrap_def install_identity_def unreached_def [symmetric] start_fields Let_def)
  have again: "Enroll unreached setup_options ''t'' ?s = (Inl (SetupRefused Unreachable), ?s\<lparr>su_asked := [?q, ?q]\<rparr>)"
    using setup_accepted(1) [of "\<lambda>_ _. None"] setup_accepted(2) load m ask
    by (simp add: Enroll_def LoadBootstrap_def install_identity_def pending_setup_def unreached_def [symmetric] start_fields Let_def)
  have ne: "su_asked ?s \<noteq> su_asked setup_start" "su_asked (?s\<lparr>su_asked := [?q, ?q]\<rparr>) \<noteq> su_asked ?s" by (simp_all add: setup_start_def)
  from setup_asks_for_one_enrollment [OF run ne(1) again ne(2) refl] have
    "\<exists>q q'. su_asked (?s\<lparr>su_asked := [?q, ?q]\<rparr>) = su_asked setup_start @ [q, q'] \<and> eq_attempt_id q' = eq_attempt_id q \<and> eq_credential q' = eq_credential q" .
  then show ?thesis unfolding run again snd_conv by (simp add: setup_start_def)
qed

text \<open>An agent whose identity and configuration are installed.\<close>

definition setup_identity :: "string \<Rightarrow> bootstrap" where
  "setup_identity hash =
     \<lparr>bs_endpoint = ''https://c'', bs_server_id = sample_ulid (CHR ''1''), bs_generation = 1, bs_credential = setup_secret,
      bs_hostname = ''h'', bs_setup_token_hash = hash, bs_cache_key = [], bs_enrollment_token_hash = []\<rparr>"

lemma identity_hash: "bs_setup_token_hash (setup_identity hash) = hash"
  by (simp add: setup_identity_def)

definition setup_installed :: "string \<Rightarrow> setup_state" where
  "setup_installed hash =
     setup_start\<lparr>su_identity := Present (ProtocolRevision, setup_identity hash), su_config := Some managed_text\<rparr>"

lemma setup_loaded:
  assumes "is_digest hash"
  shows "LoadBootstrap (se_parse (setup_world server)) (su_identity (setup_installed hash)) = Inr (Some (setup_identity hash))"
proof -
  have "is_ulid (sample_ulid (CHR ''1''))" by (rule sample_ids)
  with assms revision_compatible show ?thesis
    by (simp add: LoadBootstrap_def setup_installed_def validateBootstrap_def setup_identity_def setup_world_def
        validControlPlaneEndpoint_def setup_url_def secret_bytes identity_members_def rune_length_ascii byte_def)
qed


text \<open>The server enrols the agent again, and then cannot be reached for the configuration.\<close>

definition again_json :: json where
  "again_json =
     JObj [(''protocol_revision'', JStr ''1.16.0''), (''server_id'', JStr (sample_ulid (CHR ''1''))), (''generation'', JNum ''2''),
       (''enrolled_at'', JStr ''2026-01-01T00:00:00.000000Z''), (''config_revision'', JNum ''1'')]"

definition again_enrolled :: enrollment_response where
  "again_enrolled =
     \<lparr>en_protocol_revision = ''1.16.0'', en_server_id = sample_ulid (CHR ''1''), en_generation = 2,
      en_enrolled_at = ''2026-01-01T00:00:00.000000Z'', en_config_revision = 1\<rparr>"

definition again_world :: setup_env where
  "again_world = setup_world (\<lambda>_ _. Some (at_revision 200 ''1.16.0'' [] (json_text again_json)))"

lemma again_document: "length (json_text again_json) \<le> 64 * 1024" "valid_utf8 (json_text again_json)"
  "json_parse (json_text again_json) = Some again_json" "keys_distinct again_json"
proof -
  show "length (json_text again_json) \<le> 64 * 1024"
    by (simp add: again_json_def sample_ulid_def print_string_def print_char_def quote_def backslash_def byte_def)
  have "ascii (json_text again_json)"
    by (simp add: again_json_def sample_ulid_def print_string_def print_char_def quote_def backslash_def byte_def ascii_def
        list_all_iff)
  then show "valid_utf8 (json_text again_json)" by (auto simp: valid_utf8_def ascii_def pieces_all_ascii list_all_iff)
  have "json_ok again_json" by (simp add: again_json_def sample_ulid_def ascii_def byte_def is_digit_def list_all_iff)
  then show "json_parse (json_text again_json) = Some again_json" by (rule json_parse_text)
  show "keys_distinct again_json" by (simp add: again_json_def)
qed

lemma again_decoded: "dec_struct True enrollment_fields again_json zero_enrollment = Some again_enrolled"
proof -
  have "uint64_of_literal ''1'' = Some 1" "uint64_of_literal ''2'' = Some 2"
    using uint64_of_show_nat [of 1] uint64_of_show_nat [of 2] small_numbers by simp_all
  then show ?thesis
    by (simp add: again_json_def enrollment_fields_def find_field_def on_field_def zero_enrollment_def again_enrolled_def)
qed

lemma again_answered:
  "fst (client_enroll (se_enroll again_world) token (asked_for setup_options h p) (NewManagedClient e [] v s)) = Inr again_enrolled"
proof -
  have "is_ulid (sample_ulid (CHR ''1''))" by (rule sample_ids)
  moreover have "validateTimestamp ''2026-01-01T00:00:00.000000Z''" by code_simp
  ultimately have "read_enrollment (at_revision 200 ''1.16.0'' [] (json_text again_json)) = Inr again_enrolled"
    using again_document again_decoded older_revisions(2)
    by (simp add: read_enrollment_def decode_answer_def readLimited_def decodeStrict_def at_revision_def again_enrolled_def)
  then show ?thesis
    by (simp add: client_enroll_def send_request_def requestContent_def requestContentAtRevision_def requestBodyForProtocol_def
        rewritten_def raw_members_def json_of_enrollment_def then_read_def expect_status_def again_world_def setup_world_def
        older_server_def NewManagedClient_def retry_revision_def requireProtocolResponse_def at_revision_def Let_def
        observeProtocolResponse_def selectProtocolRevision_def older_revisions)
qed

definition other_hash :: string where
  "other_hash = (if tokenDigest ''t'' = replicate 64 (CHR ''0'') then replicate 64 (CHR ''1'') else replicate 64 (CHR ''0''))"

lemma other_hash: "is_digest other_hash" "other_hash \<noteq> tokenDigest ''t''"
proof -
  have "is_digest (replicate 64 (CHR ''0''))" "is_digest (replicate 64 (CHR ''1''))" "replicate 64 (CHR ''1'') \<noteq> replicate 64 (CHR ''0'')"
    by code_simp+
  then show "is_digest other_hash" "other_hash \<noteq> tokenDigest ''t''" by (auto simp: other_hash_def)
qed

lemma again_retired:
  "\<exists>rb fs. prepareRetiredGeneration (se_retire again_world) (setup_identity other_hash) 0 None (su_store setup_start) = (None, rb, fs)"
  by (simp add: prepareRetiredGeneration_def again_world_def setup_world_def sample_retire_env_def setup_start_def
      rotateRetiredEnrollments_def loadRetiredEnrollments_def saveRetiredEnrollments_def updateState_def Let_def
      LoadCommandJournal_def loadCommandJournal_def newCommandJournal_def SaveCommandJournal_def saveCommandJournal_def
      clear_journal_def sorted_commands_def empty_db_def)

lemma again_pending:
  "\<exists>p s. pending_setup again_world setup_options ''t'' (Some (setup_identity other_hash)) (setup_installed other_hash) = (Inr p, s)
     \<and> pe_previous_server_id p = bs_server_id (setup_identity other_hash) \<and> pe_previous_generation p = 1
     \<and> s = (setup_installed other_hash)\<lparr>su_pending := Present p\<rparr> \<and> pe_credential p = setup_secret \<and> matches setup_options ''t'' p"
proof -
  obtain u where u: "newULID 0 (Some (replicate 10 0)) = Some u" by (simp add: newULID_def)
  then show ?thesis
    by (simp add: pending_setup_def make_pending_def new_pending_def LoadPending_def setup_start_def setup_installed_def
        again_world_def setup_world_def writeAtomic_def matches_def setup_options_def setup_identity_def)
qed

lemma again_run:
  "\<exists>x s b. Enroll again_world setup_options ''t'' (setup_installed other_hash) = (x, s)
     \<and> su_identity s = Present (ProtocolRevision, b) \<and> bs_generation b = 2"
proof -
  let ?old = "setup_identity other_hash"
  obtain p s0 where p: "pending_setup again_world setup_options ''t'' (Some ?old) (setup_installed other_hash) = (Inr p, s0)"
    "pe_previous_server_id p = bs_server_id ?old" "pe_previous_generation p = 1"
    "s0 = (setup_installed other_hash)\<lparr>su_pending := Present p\<rparr>" "pe_credential p = setup_secret" "matches setup_options ''t'' p"
    using again_pending by (elim exE conjE) (rule that)
  obtain rb fs where ret: "prepareRetiredGeneration (se_retire again_world) ?old 0 None (su_store setup_start) = (None, rb, fs)"
    using again_retired by (elim exE) (rule that)
  have s0: "su_retired s0 = None" "su_store s0 = su_store setup_start" using p(4) by (simp_all add: setup_installed_def setup_start_def)
  have w: "se_now again_world = 0" "se_stopped again_world" "se_identity_write again_world = FileWritten" "bs_generation ?old = 1"
    "eo_hostname setup_options = Some ''h''" by (simp_all add: again_world_def setup_world_def setup_identity_def setup_options_def)
  define s1 where "s1 = (snd (stop_service again_world s0))\<lparr>su_retired := rb, su_store := fs\<rparr>"
  have old: "retire_old again_world ?old p s0 = (None, s1)"
    using p(2,3) w ret s0 by (simp add: retire_old_def and_then_def stop_service_def s1_def)
  define b where "b = enrolled_as setup_options ''t'' ''h'' p again_enrolled"
  have adv: "advances (Some ?old) again_enrolled" by (simp add: advances_def again_enrolled_def setup_identity_def)
  have "is_ulid (sample_ulid (CHR ''1''))" by (rule sample_ids)
  then have v: "validateBootstrap (se_parse again_world) b" using p(5)
    by (simp add: b_def enrolled_as_def validateBootstrap_def again_enrolled_def again_world_def setup_world_def setup_options_def
        validControlPlaneEndpoint_def setup_url_def secret_bytes tokenDigest_def sha256_hex_digest rune_length_ascii byte_def)
  obtain e s where inst: "install_bootstrap again_world (eo_version setup_options) True b
      (s1\<lparr>su_asked := su_asked s1 @ [asked_for setup_options ''h'' p]\<rparr>) = (e, s)" by fastforce
  have "su_identity s = Present (ProtocolRevision, b)"
  proof -
    obtain t where save: "SaveBootstrap again_world b (s1\<lparr>su_asked := su_asked s1 @ [asked_for setup_options ''h'' p]\<rparr>) = (None, t)"
        "su_identity t = Present (ProtocolRevision, b)"
      using v w(3) by (simp add: SaveBootstrap_def writeAtomic_def b_def members_enrolled)
    with inst have "finish_setup again_world (eo_version setup_options) b t = (e, s)" by (simp add: install_bootstrap_def and_then_def)
    with finish_onward [of t again_world "eo_version setup_options" b] save(2) show ?thesis by (simp add: onward_def kept_def)
  qed
  moreover have "\<exists>x. ask_and_install again_world setup_options ''t'' ''h'' (Some ?old) p s1 = (x, s)"
    using again_answered adv inst by (cases e) (simp_all add: ask_and_install_def Let_def b_def)
  moreover have "LoadBootstrap (se_parse again_world) (su_identity (setup_installed other_hash)) = Inr (Some ?old)"
    unfolding again_world_def by (rule setup_loaded [OF other_hash(1)])
  moreover have "setup_refused again_world setup_options ''t'' = None" unfolding again_world_def by (rule setup_accepted)
  ultimately have "\<exists>x. Enroll again_world setup_options ''t'' (setup_installed other_hash) = (x, s)"
    using setup_accepted(2) p(1) old w(5) other_hash(2) by (simp add: Enroll_def install_identity_def identity_hash Let_def)
  moreover have "bs_generation b = 2" by (simp add: b_def enrolled_as_def again_enrolled_def)
  ultimately show ?thesis using \<open>su_identity s = Present (ProtocolRevision, b)\<close> by (elim exE) (intro exI conjI)
qed

lemma identity_replaced_by_next_witness:
  "\<exists>s rs y. s = snd (Enroll again_world setup_options ''t'' (setup_installed other_hash)) \<and> su_retired s = Some rs \<and> y \<in> set rs
     \<and> same_enrollment y (retired_record (setup_identity other_hash) 0)"
proof -
  obtain x s b where run: "Enroll again_world setup_options ''t'' (setup_installed other_hash) = (x, s)"
    "su_identity s = Present (ProtocolRevision, b)" "bs_generation b = 2" using again_run by (elim exE conjE) (rule that)
  have "su_identity s \<noteq> su_identity (setup_installed other_hash)" using run(2,3)
    by (auto simp: setup_installed_def setup_identity_def)
  from identity_replaced_by_next [OF run(1) this] obtain old where old:
    "LoadBootstrap (se_parse again_world) (su_identity (setup_installed other_hash)) = Inr old"
    "\<forall>a. old = Some a \<longrightarrow> (\<exists>rs y. su_retired s = Some rs \<and> y \<in> set rs \<and> same_enrollment y (retired_record a (se_now again_world)))"
    by blast
  have "LoadBootstrap (se_parse again_world) (su_identity (setup_installed other_hash)) = Inr (Some (setup_identity other_hash))"
    unfolding again_world_def by (rule setup_loaded [OF other_hash(1)])
  with old have "\<exists>rs y. su_retired s = Some rs \<and> y \<in> set rs \<and> same_enrollment y (retired_record (setup_identity other_hash) (se_now again_world))"
    by simp
  moreover have "se_now again_world = 0" by (simp add: again_world_def setup_world_def)
  ultimately show ?thesis using run(1) by simp
qed

end
